(* ===== verification/Prelude.thy ===== *)
theory Prelude
  imports Main "HOL-Library.Signed_Division"
begin

text \<open>
  Shared vocabulary of the development: the result type of a contract call, Rust's checked,
  saturating and truncating integer arithmetic at its width, the host environment that a Soroban
  call sees, the record of token transfers a contract issues, and generic lemmas on lists, sums
  and transition systems.

  A contract call either returns (\<open>Inr\<close>) or traps (\<open>Inl\<close>): a Soroban host rolls every
  storage write, event and cross-contract call of a trapped invocation back, so the state of a
  failed call is not a value of the model. The release profile of the workspace compiles with
  \<^verbatim>\<open>overflow-checks = true\<close>: a plain \<open>+\<close>, \<open>-\<close> or \<open>*\<close> that leaves its width
  traps, it does not wrap.
\<close>

named_theorems arith_defs \<open>definitions of the machine arithmetic\<close>
named_theorems res_simps \<open>inversion of the result monad\<close>
named_theorems eval_defs \<open>definitions to evaluate a call on concrete values\<close>

section \<open>Results of a contract call\<close>

datatype error =
    Panic string      \<comment> \<open>\<^verbatim>\<open>panic!("...")\<close> with its message\<close>
  | Code nat          \<comment> \<open>\<^verbatim>\<open>panic_with_error!\<close> with the error's number\<close>
  | Overflow          \<comment> \<open>checked arithmetic left its width\<close>
  | DivByZero
  | AuthFailed        \<comment> \<open>\<^verbatim>\<open>require_auth\<close> of an address that did not sign\<close>
  | TransferFailed    \<comment> \<open>the token contract trapped\<close>

type_synonym 'a res = "error + 'a"

definition bindE :: "'a res \<Rightarrow> ('a \<Rightarrow> 'b res) \<Rightarrow> 'b res" where
  "bindE m f = (case m of Inl e \<Rightarrow> Inl e | Inr x \<Rightarrow> f x)"

lemma bindE_simps [simp]:
  "bindE (Inl e) f = Inl e"
  "bindE (Inr x) f = f x"
  by (simp_all add: bindE_def)

lemma bindE_Inr [res_simps]: "bindE m f = Inr y \<longleftrightarrow> (\<exists>x. m = Inr x \<and> f x = Inr y)"
  by (cases m) auto

lemma bindE_Inl [res_simps]:
  "bindE m f = Inl e \<longleftrightarrow> m = Inl e \<or> (\<exists>x. m = Inr x \<and> f x = Inl e)"
  by (cases m) auto

lemma if_Inl_Inr [res_simps]: "(if c then Inl e else m) = Inr y \<longleftrightarrow> \<not> c \<and> m = Inr y"
  by simp

text \<open>Evaluate the first computation before its continuation.\<close>

lemma bindE_cong: "m = m' \<Longrightarrow> bindE m f = bindE m' f"
  by simp

lemmas eval_cong = bindE_cong let_weak_cong

lemma bindE_Inl_first: "m = Inl e \<Longrightarrow> bindE m f = Inl e"
  by simp

definition ensure :: "bool \<Rightarrow> string \<Rightarrow> unit res" where
  "ensure c msg = (if c then Inr () else Inl (Panic msg))"

lemma ensure_Inr [res_simps]: "ensure c msg = Inr u \<longleftrightarrow> c"
  by (simp add: ensure_def)

lemma ensure_simps [simp]: "ensure True msg = Inr ()" "ensure False msg = Inl (Panic msg)"
  by (simp_all add: ensure_def)

definition expect :: "'a option \<Rightarrow> string \<Rightarrow> 'a res" where
  "expect x msg = (case x of None \<Rightarrow> Inl (Panic msg) | Some y \<Rightarrow> Inr y)"

lemma expect_Inr [res_simps]: "expect x msg = Inr y \<longleftrightarrow> x = Some y"
  by (simp add: expect_def split: option.splits)

lemma expect_simps [simp]: "expect (Some y) msg = Inr y" "expect None msg = Inl (Panic msg)"
  by (simp_all add: expect_def)

section \<open>Machine integers\<close>

text \<open>
  \<^verbatim>\<open>i128\<close> values are \<open>int\<close>, \<^verbatim>\<open>u32\<close> and \<^verbatim>\<open>u64\<close> values are
  \<open>nat\<close>, with the bounds of the width written out in every operation that can leave it.
\<close>

definition i128_max :: int where "i128_max = 2 ^ 127 - 1"
definition i128_min :: int where "i128_min = - (2 ^ 127)"
definition u32_max :: nat where "u32_max = 2 ^ 32 - 1"
definition u64_max :: nat where "u64_max = 2 ^ 64 - 1"

lemmas width_defs = i128_max_def i128_min_def u32_max_def u64_max_def

definition in_i128 :: "int \<Rightarrow> bool" where
  "in_i128 x \<longleftrightarrow> i128_min \<le> x \<and> x \<le> i128_max"

definition ck_i128 :: "int \<Rightarrow> int res" where
  "ck_i128 x = (if in_i128 x then Inr x else Inl Overflow)"

definition ck_u32 :: "nat \<Rightarrow> nat res" where
  "ck_u32 n = (if n \<le> u32_max then Inr n else Inl Overflow)"

definition ck_u64 :: "nat \<Rightarrow> nat res" where
  "ck_u64 n = (if n \<le> u64_max then Inr n else Inl Overflow)"

definition ck_sub :: "nat \<Rightarrow> nat \<Rightarrow> nat res" where
  "ck_sub a b = (if b \<le> a then Inr (a - b) else Inl Overflow)"

definition clip_i128 :: "int \<Rightarrow> int" where
  "clip_i128 x = max i128_min (min i128_max x)"

definition sat_add :: "int \<Rightarrow> int \<Rightarrow> int" where "sat_add a b = clip_i128 (a + b)"
definition sat_sub :: "int \<Rightarrow> int \<Rightarrow> int" where "sat_sub a b = clip_i128 (a - b)"
definition sat_mul :: "int \<Rightarrow> int \<Rightarrow> int" where "sat_mul a b = clip_i128 (a * b)"

definition sat_add_u32 :: "nat \<Rightarrow> nat \<Rightarrow> nat" where "sat_add_u32 a b = min u32_max (a + b)"
definition sat_add_u64 :: "nat \<Rightarrow> nat \<Rightarrow> nat" where "sat_add_u64 a b = min u64_max (a + b)"

text \<open>Unsigned \<^verbatim>\<open>saturating_sub\<close> is the subtraction of \<open>nat\<close>.\<close>

definition as_u32 :: "int \<Rightarrow> nat" where "as_u32 x = nat (x mod 2 ^ 32)"

text \<open>Rust's \<open>/\<close> on \<^verbatim>\<open>i128\<close> truncates towards zero and traps on a zero divisor.\<close>

definition tdiv :: "int \<Rightarrow> int \<Rightarrow> int" where "tdiv a b = a sdiv b"

definition clamp :: "int \<Rightarrow> int \<Rightarrow> int \<Rightarrow> int" where
  "clamp lo hi x = (if x < lo then lo else if hi < x then hi else x)"

lemma ck_i128_Inr [res_simps]: "ck_i128 x = Inr y \<longleftrightarrow> y = x \<and> in_i128 x"
  by (auto simp: ck_i128_def)

lemma ck_u32_Inr [res_simps]: "ck_u32 x = Inr y \<longleftrightarrow> y = x \<and> x \<le> u32_max"
  by (auto simp: ck_u32_def)

lemma ck_u64_Inr [res_simps]: "ck_u64 x = Inr y \<longleftrightarrow> y = x \<and> x \<le> u64_max"
  by (auto simp: ck_u64_def)

lemma ck_sub_Inr [res_simps]: "ck_sub a b = Inr y \<longleftrightarrow> y = a - b \<and> b \<le> a"
  by (auto simp: ck_sub_def)

lemma tdiv_nonneg: "0 \<le> a \<Longrightarrow> 0 < b \<Longrightarrow> tdiv a b = a div b"
  by (cases "a = 0") (auto simp: tdiv_def signed_divide_int_def sgn_if)

lemma tdiv_ge0: "0 \<le> a \<Longrightarrow> 0 < b \<Longrightarrow> 0 \<le> tdiv a b"
  by (simp add: tdiv_nonneg pos_imp_zdiv_nonneg_iff)

lemma clip_ge0_iff [simp]: "0 \<le> clip_i128 x \<longleftrightarrow> 0 \<le> x"
  by (auto simp: clip_i128_def width_defs)

lemma clip_le: "0 \<le> x \<Longrightarrow> clip_i128 x \<le> x"
  by (auto simp: clip_i128_def width_defs)

lemma clip_id: "in_i128 x \<Longrightarrow> clip_i128 x = x"
  by (auto simp: clip_i128_def in_i128_def)

lemma clip_mono: "x \<le> y \<Longrightarrow> clip_i128 x \<le> clip_i128 y"
  by (auto simp: clip_i128_def)

lemma in_i128_between: "0 \<le> x \<Longrightarrow> x \<le> y \<Longrightarrow> in_i128 y \<Longrightarrow> in_i128 x"
  by (auto simp: in_i128_def width_defs)

lemma sat_mul_ge0: "0 \<le> a \<Longrightarrow> 0 \<le> b \<Longrightarrow> 0 \<le> sat_mul a b"
  by (simp add: sat_mul_def)

lemma sat_mul_le: "0 \<le> a \<Longrightarrow> 0 \<le> b \<Longrightarrow> sat_mul a b \<le> a * b"
  by (simp add: sat_mul_def clip_le)

lemma sat_sub_id: "in_i128 a \<Longrightarrow> 0 \<le> b \<Longrightarrow> b \<le> a \<Longrightarrow> sat_sub a b = a - b"
  by (auto simp: sat_sub_def clip_i128_def in_i128_def width_defs)

declare i128_max_def [arith_defs] i128_min_def [arith_defs] u32_max_def [arith_defs]
  u64_max_def [arith_defs] in_i128_def [arith_defs] ck_i128_def [arith_defs]
  ck_u32_def [arith_defs] ck_u64_def [arith_defs] ck_sub_def [arith_defs]
  clip_i128_def [arith_defs] sat_add_def [arith_defs] sat_sub_def [arith_defs]
  sat_mul_def [arith_defs] sat_add_u32_def [arith_defs] sat_add_u64_def [arith_defs]
  as_u32_def [arith_defs] clamp_def [arith_defs]

lemma width_literals [eval_defs]:
  "i128_max = 170141183460469231731687303715884105727"
  "i128_min = - 170141183460469231731687303715884105728"
  "u32_max = 4294967295"
  "u64_max = 18446744073709551615"
  by (simp_all add: width_defs)

declare in_i128_def [eval_defs] ck_i128_def [eval_defs] ck_u32_def [eval_defs] ck_u64_def [eval_defs]
  ck_sub_def [eval_defs] clip_i128_def [eval_defs] sat_add_def [eval_defs] sat_sub_def [eval_defs]
  sat_mul_def [eval_defs] sat_add_u32_def [eval_defs] sat_add_u64_def [eval_defs]
  Let_def [eval_defs] as_u32_def [eval_defs] tdiv_def [eval_defs] clamp_def [eval_defs]

section \<open>Addresses, values and the host environment\<close>

datatype addr = Address nat

text \<open>The host values that events carry.\<close>

datatype val =
    VAddr addr | VInt int | VNat nat | VStr string | VBool bool | VNone | VList "val list"

datatype event = Event (topics: "val list") (payload: "val list")

definition VOpt :: "('a \<Rightarrow> val) \<Rightarrow> 'a option \<Rightarrow> val" where
  "VOpt f x = (case x of None \<Rightarrow> VNone | Some y \<Rightarrow> f y)"

text \<open>
  A call of a token contract's \<^verbatim>\<open>transfer\<close>. Token contracts are not part of the
  repository: the environment says which calls they accept, given the calls this contract has
  made before, and the model records every accepted call.
\<close>

record transfer =
  xtoken :: addr
  xfrom :: addr
  xto :: addr
  xamount :: int

record env =
  timestamp :: nat                                \<comment> \<open>\<^verbatim>\<open>env.ledger().timestamp()\<close>\<close>
  sequence :: nat                                 \<comment> \<open>\<^verbatim>\<open>env.ledger().sequence()\<close>\<close>
  signers :: "addr list"                          \<comment> \<open>addresses whose \<^verbatim>\<open>require_auth\<close> passes\<close>
  this :: addr                                    \<comment> \<open>\<^verbatim>\<open>env.current_contract_address()\<close>\<close>
  tok_ok :: "transfer list \<Rightarrow> transfer \<Rightarrow> bool"    \<comment> \<open>does the token accept the next call\<close>

definition require_auth :: "('e) env_scheme \<Rightarrow> addr \<Rightarrow> unit res" where
  "require_auth e a = (if a \<in> set (signers e) then Inr () else Inl AuthFailed)"

lemma require_auth_Inr [res_simps]: "require_auth e a = Inr u \<longleftrightarrow> a \<in> set (signers e)"
  by (simp add: require_auth_def)

definition token_transfer ::
  "('e) env_scheme \<Rightarrow> addr \<Rightarrow> addr \<Rightarrow> addr \<Rightarrow> int \<Rightarrow> transfer list \<Rightarrow> transfer list res" where
  "token_transfer e tok a b n xs =
     (let t = \<lparr>xtoken = tok, xfrom = a, xto = b, xamount = n\<rparr>
      in if tok_ok e xs t then Inr (xs @ [t]) else Inl TransferFailed)"

lemma token_transfer_Inr [res_simps]:
  "token_transfer e tok a b n xs = Inr ys \<longleftrightarrow>
     tok_ok e xs \<lparr>xtoken = tok, xfrom = a, xto = b, xamount = n\<rparr> \<and>
     ys = xs @ [\<lparr>xtoken = tok, xfrom = a, xto = b, xamount = n\<rparr>]"
  by (auto simp: token_transfer_def Let_def)

declare require_auth_def [eval_defs] token_transfer_def [eval_defs] VOpt_def [eval_defs]

text \<open>What the accepted calls moved into an account of a token, net of what they moved out.\<close>

definition flow1 :: "addr \<Rightarrow> addr \<Rightarrow> transfer \<Rightarrow> int" where
  "flow1 tok who t =
     (if xtoken t = tok
      then (if xto t = who then xamount t else 0) - (if xfrom t = who then xamount t else 0)
      else 0)"

definition net_flow :: "addr \<Rightarrow> addr \<Rightarrow> transfer list \<Rightarrow> int" where
  "net_flow tok who xs = sum_list (map (flow1 tok who) xs)"

lemma net_flow_Nil [simp]: "net_flow tok who [] = 0"
  by (simp add: net_flow_def)

lemma net_flow_snoc [simp]: "net_flow tok who (xs @ [t]) = net_flow tok who xs + flow1 tok who t"
  by (simp add: net_flow_def)

section \<open>Maps with a default, and sums over a finite set of keys\<close>

definition get_or :: "'v \<Rightarrow> 'v option \<Rightarrow> 'v" where
  "get_or d x = (case x of None \<Rightarrow> d | Some v \<Rightarrow> v)"

lemma get_or_simps [simp]: "get_or d None = d" "get_or d (Some v) = v"
  by (simp_all add: get_or_def)

lemma sum_upd:
  fixes f :: "'k \<Rightarrow> int"
  assumes "finite A" and "k \<in> A"
  shows "(\<Sum>x\<in>A. (f(k := v)) x) = (\<Sum>x\<in>A. f x) - f k + v"
proof -
  have "(\<Sum>x\<in>A. (f(k := v)) x) = v + (\<Sum>x\<in>A - {k}. (f(k := v)) x)"
    using assms by (simp add: sum.remove)
  also have "(\<Sum>x\<in>A - {k}. (f(k := v)) x) = (\<Sum>x\<in>A - {k}. f x)"
    by (rule sum.cong) auto
  also have "\<dots> = (\<Sum>x\<in>A. f x) - f k"
    using assms by (simp add: sum_diff1)
  finally show ?thesis by simp
qed

lemma sum_list_distinct_upd:
  fixes f :: "'k \<Rightarrow> int"
  assumes "distinct ks" and "k \<in> set ks"
  shows "(\<Sum>x\<leftarrow>ks. (f(k := v)) x) = (\<Sum>x\<leftarrow>ks. f x) - f k + v"
  using assms sum_upd [of "set ks" k f v]
  by (simp add: sum_list_distinct_conv_sum_set)

lemma sum_list_upd_notin:
  fixes f :: "'k \<Rightarrow> int"
  shows "k \<notin> set ks \<Longrightarrow> (\<Sum>x\<leftarrow>ks. (f(k := v)) x) = (\<Sum>x\<leftarrow>ks. f x)"
  by (rule arg_cong [of _ _ sum_list]) auto

lemma sum_list_ge_elem:
  fixes f :: "'k \<Rightarrow> int"
  assumes "\<forall>x \<in> set ks. 0 \<le> f x" and "k \<in> set ks"
  shows "f k \<le> (\<Sum>x\<leftarrow>ks. f x)"
proof -
  have "sum_list (map f ks) = f k + sum_list (map f (remove1 k ks))"
    using assms(2) by (rule sum_list_map_remove1)
  moreover have "0 \<le> sum_list (map f (remove1 k ks))"
    using assms(1) by (intro sum_list_nonneg) (auto dest: notin_set_remove1)
  ultimately show ?thesis by simp
qed

section \<open>Transition systems\<close>

text \<open>
  The shape every contract of the repository has: an initial storage and calls that, when they
  return, take one storage to the next. An interpretation names the storage invariant and
  discharges that the calls keep it.
\<close>

inductive reach :: "('s \<Rightarrow> bool) \<Rightarrow> ('s \<Rightarrow> 's \<Rightarrow> bool) \<Rightarrow> 's \<Rightarrow> bool"
  for start :: "'s \<Rightarrow> bool" and step :: "'s \<Rightarrow> 's \<Rightarrow> bool" where
  reach_start: "start s \<Longrightarrow> reach start step s"
| reach_step: "reach start step s \<Longrightarrow> step s t \<Longrightarrow> reach start step t"

locale invariant_system =
  fixes start :: "'s \<Rightarrow> bool" and step :: "'s \<Rightarrow> 's \<Rightarrow> bool" and inv :: "'s \<Rightarrow> bool"
  assumes start_inv: "start s \<Longrightarrow> inv s"
    and step_inv: "inv s \<Longrightarrow> step s t \<Longrightarrow> inv t"
begin

lemma reachable_inv: "reach start step s \<Longrightarrow> inv s"
  by (induction rule: reach.induct) (auto intro: start_inv step_inv)

lemma inv_from: "step\<^sup>*\<^sup>* s t \<Longrightarrow> inv s \<Longrightarrow> inv t"
  by (induction rule: rtranclp_induct) (auto intro: step_inv)

end

end
