(* ===== verification/LoanStorage.thy ===== *)
theory LoanStorage
  imports Prelude
begin

text \<open>
  Constants, data types and storage of the loan manager
  (\<^verbatim>\<open>contracts/loan_manager/src/constants.rs\<close> and \<^verbatim>\<open>storage.rs\<close>).

  The contract's persistent storage is the record \<open>loan_state\<close>, with one field per variant of
  \<^verbatim>\<open>DataKey\<close>: an absent entry is \<open>None\<close>, a variant with an argument is a partial map.
  Two fields are the contract's outputs: the token calls it made and the events it published.
  Rent (\<^verbatim>\<open>extend_ttl\<close>) is the host's concern and is not modelled: an entry that was
  written stays readable.
\<close>

section \<open>Constants\<close>

definition PRICE_SCALE :: int where "PRICE_SCALE = 100000000"
definition BPS_DENOMINATOR :: int where "BPS_DENOMINATOR = 10000"
definition MAX_PRICE_STALENESS_SECS :: nat where "MAX_PRICE_STALENESS_SECS = 300"
definition MAX_FUTURE_SKEW_SECS :: nat where "MAX_FUTURE_SKEW_SECS = 60"
definition TWAP_WINDOW_SECS :: nat where "TWAP_WINDOW_SECS = 1800"
definition TWAP_MIN_SPAN_SECS :: nat where "TWAP_MIN_SPAN_SECS = 300"
definition TWAP_SNAPSHOT_INTERVAL_SECS :: nat where "TWAP_SNAPSHOT_INTERVAL_SECS = 60"
definition TWAP_MAX_SNAPSHOTS :: nat where "TWAP_MAX_SNAPSHOTS = 34"
definition BASE_LIQUIDATION_BONUS_BPS :: nat where "BASE_LIQUIDATION_BONUS_BPS = 500"
definition MAX_DYNAMIC_BONUS_BPS :: nat where "MAX_DYNAMIC_BONUS_BPS = 1500"
definition LIQUIDATION_PENALTY_CAP_BPS :: nat where "LIQUIDATION_PENALTY_CAP_BPS = 2000"
definition TARGET_HF_NUM :: int where "TARGET_HF_NUM = 11"
definition TARGET_HF_DEN :: int where "TARGET_HF_DEN = 10"
definition MAX_LIQ_THRESHOLD_BPS :: nat where "MAX_LIQ_THRESHOLD_BPS = 9500"
definition MAX_CONFIGURABLE_BONUS_BPS :: nat where "MAX_CONFIGURABLE_BONUS_BPS = 2500"

lemmas loan_consts = PRICE_SCALE_def BPS_DENOMINATOR_def MAX_PRICE_STALENESS_SECS_def
  MAX_FUTURE_SKEW_SECS_def TWAP_WINDOW_SECS_def TWAP_MIN_SPAN_SECS_def
  TWAP_SNAPSHOT_INTERVAL_SECS_def TWAP_MAX_SNAPSHOTS_def BASE_LIQUIDATION_BONUS_BPS_def
  MAX_DYNAMIC_BONUS_BPS_def LIQUIDATION_PENALTY_CAP_BPS_def TARGET_HF_NUM_def TARGET_HF_DEN_def
  MAX_LIQ_THRESHOLD_BPS_def MAX_CONFIGURABLE_BONUS_BPS_def

section \<open>Data types\<close>

record market =
  collateral_token :: addr
  debt_token :: addr
  liq_threshold_bps :: nat

record position =
  collateral :: int
  debt :: int

record price_observation =
  obs_ts :: nat
  obs_cum :: int

record twap_state =
  last_ts :: nat
  last_price :: int
  cumulative :: int
  last_snapshot_ts :: nat
  snapshots :: "price_observation list"

definition twap_empty :: twap_state where
  "twap_empty = \<lparr>last_ts = 0, last_price = 0, cumulative = 0, last_snapshot_ts = 0, snapshots = []\<rparr>"

record liq_params =
  base_bonus_bps :: nat
  max_bonus_bps :: nat
  penalty_cap_bps :: nat

definition liq_params_default :: liq_params where
  "liq_params_default =
     \<lparr>base_bonus_bps = BASE_LIQUIDATION_BONUS_BPS, max_bonus_bps = MAX_DYNAMIC_BONUS_BPS,
      penalty_cap_bps = LIQUIDATION_PENALTY_CAP_BPS\<rparr>"

definition position_default :: position where
  "position_default = \<lparr>collateral = 0, debt = 0\<rparr>"

record price_resolution =
  price :: int
  source :: string

section \<open>Storage\<close>

record loan_state =
  ls_admin :: "addr option"
  ls_paused :: "bool option"
  ls_market :: "market option"
  ls_primary :: "addr option"
  ls_secondary :: "addr option"
  ls_position :: "addr \<Rightarrow> position option"
  ls_dep_balance :: "addr \<Rightarrow> int option"
  ls_depositors :: "addr list option"
  ls_total_deposits :: "int option"
  ls_total_borrowed :: "int option"
  ls_twap :: "addr \<Rightarrow> twap_state option"
  ls_liq_params :: "liq_params option"
  ls_fallback_count :: "nat option"
  ls_calls :: "transfer list"
  ls_events :: "event list"

definition loan_empty :: loan_state where
  "loan_empty =
     \<lparr>ls_admin = None, ls_paused = None, ls_market = None, ls_primary = None, ls_secondary = None,
      ls_position = Map.empty, ls_dep_balance = Map.empty, ls_depositors = None,
      ls_total_deposits = None, ls_total_borrowed = None, ls_twap = Map.empty,
      ls_liq_params = None, ls_fallback_count = None, ls_calls = [], ls_events = []\<rparr>"

text \<open>Price feeds are external: the environment holds what each answers for each asset.\<close>

record loan_env = env +
  latest_price :: "addr \<Rightarrow> addr \<Rightarrow> (int \<times> nat) option"

section \<open>Typed accessors\<close>

definition require_admin :: "loan_state \<Rightarrow> addr res" where
  "require_admin s = expect (ls_admin s) ''admin not set''"

definition is_paused :: "loan_state \<Rightarrow> bool" where
  "is_paused s = get_or False (ls_paused s)"

definition set_paused :: "bool \<Rightarrow> loan_state \<Rightarrow> loan_state" where
  "set_paused p s = s\<lparr>ls_paused := Some p\<rparr>"

definition require_market :: "loan_state \<Rightarrow> market res" where
  "require_market s = expect (ls_market s) ''market not initialized''"

definition get_liq_params :: "loan_state \<Rightarrow> liq_params" where
  "get_liq_params s = get_or liq_params_default (ls_liq_params s)"

definition get_position :: "loan_state \<Rightarrow> addr \<Rightarrow> position" where
  "get_position s u = get_or position_default (ls_position s u)"

definition save_position :: "addr \<Rightarrow> position \<Rightarrow> loan_state \<Rightarrow> loan_state" where
  "save_position u p s = s\<lparr>ls_position := (ls_position s)(u \<mapsto> p)\<rparr>"

definition get_depositor_balance :: "loan_state \<Rightarrow> addr \<Rightarrow> int" where
  "get_depositor_balance s d = get_or 0 (ls_dep_balance s d)"

definition set_depositor_balance :: "addr \<Rightarrow> int \<Rightarrow> loan_state \<Rightarrow> loan_state" where
  "set_depositor_balance d v s = s\<lparr>ls_dep_balance := (ls_dep_balance s)(d \<mapsto> v)\<rparr>"

definition get_depositors :: "loan_state \<Rightarrow> addr list" where
  "get_depositors s = get_or [] (ls_depositors s)"

definition register_depositor :: "addr \<Rightarrow> loan_state \<Rightarrow> loan_state" where
  "register_depositor d s =
     (let lst = get_depositors s
      in if d \<in> set lst then s else s\<lparr>ls_depositors := Some (lst @ [d])\<rparr>)"

definition get_total_deposits :: "loan_state \<Rightarrow> int" where
  "get_total_deposits s = get_or 0 (ls_total_deposits s)"

definition get_total_borrowed :: "loan_state \<Rightarrow> int" where
  "get_total_borrowed s = get_or 0 (ls_total_borrowed s)"

definition get_twap_state :: "loan_state \<Rightarrow> addr \<Rightarrow> twap_state" where
  "get_twap_state s a = get_or twap_empty (ls_twap s a)"

definition set_twap_state :: "addr \<Rightarrow> twap_state \<Rightarrow> loan_state \<Rightarrow> loan_state" where
  "set_twap_state a t s = s\<lparr>ls_twap := (ls_twap s)(a \<mapsto> t)\<rparr>"

definition bump_twap_fallback_count :: "loan_state \<Rightarrow> (loan_state \<times> nat) res" where
  "bump_twap_fallback_count s =
     bindE (ck_u32 (get_or 0 (ls_fallback_count s) + 1)) (\<lambda>n.
     Inr (s\<lparr>ls_fallback_count := Some n\<rparr>, n))"

definition publish :: "val list \<Rightarrow> val list \<Rightarrow> loan_state \<Rightarrow> loan_state" where
  "publish tps dat s = s\<lparr>ls_events := ls_events s @ [Event tps dat]\<rparr>"

section \<open>Laws of the storage\<close>

text \<open>
  The accessors read what the setters wrote and nothing else. The pool's two maps from an account
  to a number (liquidity balances, debts) are read through a default; the locale is the contract
  the pool code relies on for both.
\<close>

locale account_store =
  fixes rd :: "'s \<Rightarrow> 'k \<Rightarrow> 'v" and wr :: "'k \<Rightarrow> 'v \<Rightarrow> 's \<Rightarrow> 's"
  assumes rd_wr: "rd (wr k v s) = (rd s)(k := v)"
begin

lemma rd_same [simp]: "rd (wr k v s) k = v"
  by (simp add: rd_wr)

lemma rd_other: "j \<noteq> k \<Longrightarrow> rd (wr k v s) j = rd s j"
  by (simp add: rd_wr)

lemma rd_overwrite: "rd (wr k v (wr k u s)) = rd (wr k v s)"
  by (simp add: rd_wr)

lemma sum_wr:
  fixes f :: "'v \<Rightarrow> int"
  assumes "finite A" and "k \<in> A"
  shows "(\<Sum>x\<in>A. f (rd (wr k v s) x)) = (\<Sum>x\<in>A. f (rd s x)) - f (rd s k) + f v"
proof -
  have "(\<Sum>x\<in>A. f (rd (wr k v s) x)) = (\<Sum>x\<in>A. ((\<lambda>x. f (rd s x))(k := f v)) x)"
    by (rule sum.cong) (auto simp: rd_wr)
  also have "\<dots> = (\<Sum>x\<in>A. f (rd s x)) - f (rd s k) + f v"
    by (rule sum_upd [OF assms])
  finally show ?thesis .
qed

end

interpretation balances: account_store get_depositor_balance set_depositor_balance
  by unfold_locales (auto simp: get_depositor_balance_def set_depositor_balance_def)

interpretation positions: account_store get_position save_position
  by unfold_locales (auto simp: get_position_def save_position_def)

interpretation twaps: account_store get_twap_state set_twap_state
  by unfold_locales (auto simp: get_twap_state_def set_twap_state_def)

text \<open>The definitions of this theory evaluate on concrete values.\<close>

lemmas loanstorage_eval [eval_defs] =
  PRICE_SCALE_def BPS_DENOMINATOR_def MAX_PRICE_STALENESS_SECS_def MAX_FUTURE_SKEW_SECS_def
  TWAP_WINDOW_SECS_def TWAP_MIN_SPAN_SECS_def TWAP_SNAPSHOT_INTERVAL_SECS_def
  TWAP_MAX_SNAPSHOTS_def BASE_LIQUIDATION_BONUS_BPS_def MAX_DYNAMIC_BONUS_BPS_def
  LIQUIDATION_PENALTY_CAP_BPS_def TARGET_HF_NUM_def TARGET_HF_DEN_def MAX_LIQ_THRESHOLD_BPS_def
  MAX_CONFIGURABLE_BONUS_BPS_def twap_empty_def liq_params_default_def position_default_def
  loan_empty_def require_admin_def is_paused_def set_paused_def require_market_def
  get_liq_params_def get_position_def save_position_def get_depositor_balance_def
  set_depositor_balance_def get_depositors_def register_depositor_def get_total_deposits_def
  get_total_borrowed_def get_twap_state_def set_twap_state_def bump_twap_fallback_count_def
  publish_def

end
