(* ===== verification/LoanOracle.thy ===== *)
theory LoanOracle
  imports LoanStorage
begin

text \<open>
  The oracle failover chain of the loan manager (\<^verbatim>\<open>contracts/loan_manager/src/oracle.rs\<close>):
  validation of a feed's answer, the chain primary, secondary, time-weighted average, the
  cumulative-price accumulator with its bounded list of snapshots, and what each of them
  guarantees. A feed is external; within one transaction its answer for an asset is fixed.
\<close>

section \<open>Validation and failover\<close>

definition validate_answer :: "int \<Rightarrow> nat \<Rightarrow> nat \<Rightarrow> bool" where
  "validate_answer p ts now =
     (if p \<le> 0 then False
      else if sat_add_u64 now MAX_FUTURE_SKEW_SECS < ts then False
      else if MAX_PRICE_STALENESS_SECS < now - ts then False
      else True)"

definition try_fetch :: "loan_env \<Rightarrow> addr \<Rightarrow> addr \<Rightarrow> int option" where
  "try_fetch e orc asset =
     (case latest_price e orc asset of
        Some (p, ts) \<Rightarrow> if validate_answer p ts (timestamp e) then Some p else None
      | None \<Rightarrow> None)"

text \<open>Feed an observed price into the accumulator.\<close>

definition push_snapshot :: "price_observation \<Rightarrow> price_observation list \<Rightarrow> price_observation list" where
  "push_snapshot o1 xs = (let ys = xs @ [o1] in drop (length ys - TWAP_MAX_SNAPSHOTS) ys)"

definition observe :: "int \<Rightarrow> nat \<Rightarrow> twap_state \<Rightarrow> twap_state" where
  "observe p now st =
     (if last_price st = 0 \<or> now \<le> last_ts st
      then st\<lparr>last_ts := now, last_price := p\<rparr>
      else
        let cum = sat_add (cumulative st)
                    (sat_mul (last_price st) (int (min (now - last_ts st) u32_max)));
            st1 = st\<lparr>cumulative := cum, last_ts := now, last_price := p\<rparr>
        in if snapshots st1 = [] \<or>
              sat_add_u64 (last_snapshot_ts st1) TWAP_SNAPSHOT_INTERVAL_SECS \<le> now
           then st1\<lparr>snapshots := push_snapshot \<lparr>obs_ts = now, obs_cum = cumulative st1\<rparr> (snapshots st1),
                    last_snapshot_ts := now\<rparr>
           else st1)"

definition record_observation :: "addr \<Rightarrow> int \<Rightarrow> nat \<Rightarrow> loan_state \<Rightarrow> loan_state" where
  "record_observation asset p now s = set_twap_state asset (observe p now (get_twap_state s asset)) s"

text \<open>The average over the trailing window; \<open>start_index\<close> is its \<^verbatim>\<open>for\<close> loop.\<close>

fun start_index :: "nat \<Rightarrow> nat \<Rightarrow> price_observation list \<Rightarrow> nat \<Rightarrow> nat" where
  "start_index cutoff i [] dflt = dflt"
| "start_index cutoff i (o1 # os) dflt =
     (if cutoff \<le> obs_ts o1 then i else start_index cutoff (Suc i) os dflt)"

definition no_price :: "'a res" where
  "no_price = Inl (Panic ''no valid price source'')"

definition twap_of :: "nat \<Rightarrow> twap_state \<Rightarrow> int res" where
  "twap_of now st =
     (if last_price st \<le> 0 \<or> length (snapshots st) < 2 then no_price
      else
        let elapsed_now = int (min (now - last_ts st) u32_max);
            cum_now = sat_add (cumulative st) (sat_mul (last_price st) elapsed_now);
            cutoff = now - TWAP_WINDOW_SECS;
            idx = start_index cutoff 0 (snapshots st) (length (snapshots st) - 1);
            start = snapshots st ! idx;
            span = now - obs_ts start
        in if span < TWAP_MIN_SPAN_SECS then no_price
           else bindE (ck_i128 (cum_now - obs_cum start)) (\<lambda>delta.
                if delta \<le> 0 then no_price else Inr (tdiv delta (int span))))"

definition twap_price :: "loan_state \<Rightarrow> addr \<Rightarrow> nat \<Rightarrow> int res" where
  "twap_price s asset now = twap_of now (get_twap_state s asset)"

definition resolve_price :: "loan_env \<Rightarrow> addr \<Rightarrow> loan_state \<Rightarrow> (loan_state \<times> price_resolution) res" where
  "resolve_price e asset s =
     (let now = timestamp e in
      case Option.bind (ls_primary s) (\<lambda>orc. try_fetch e orc asset) of
        Some p \<Rightarrow> Inr (record_observation asset p now s, \<lparr>price = p, source = ''primary''\<rparr>)
      | None \<Rightarrow>
        (case Option.bind (ls_secondary s) (\<lambda>orc. try_fetch e orc asset) of
           Some p \<Rightarrow> Inr (record_observation asset p now s, \<lparr>price = p, source = ''secondary''\<rparr>)
         | None \<Rightarrow>
             bindE (bump_twap_fallback_count s) (\<lambda>(s1, n).
             bindE (twap_price s1 asset now) (\<lambda>p.
             Inr (s1, \<lparr>price = p, source = ''twap''\<rparr>)))))"

definition require_price :: "loan_env \<Rightarrow> addr \<Rightarrow> loan_state \<Rightarrow> (loan_state \<times> int) res" where
  "require_price e asset s =
     bindE (resolve_price e asset s) (\<lambda>(s1, r).
     if price r \<le> 0 \<or> sat_mul PRICE_SCALE 1000000000 < price r
     then Inl (Panic ''invalid price'')
     else Inr (s1, price r))"

section \<open>What the chain leaves alone\<close>

text \<open>
  Resolving a price writes the accumulator and the fallback counter only: everything the pool's
  accounting reads is untouched.
\<close>

definition same_pool :: "loan_state \<Rightarrow> loan_state \<Rightarrow> bool" where
  "same_pool s t \<longleftrightarrow>
     ls_admin t = ls_admin s \<and> ls_paused t = ls_paused s \<and> ls_market t = ls_market s \<and>
     ls_primary t = ls_primary s \<and> ls_secondary t = ls_secondary s \<and>
     ls_position t = ls_position s \<and> ls_dep_balance t = ls_dep_balance s \<and>
     ls_depositors t = ls_depositors s \<and> ls_total_deposits t = ls_total_deposits s \<and>
     ls_total_borrowed t = ls_total_borrowed s \<and> ls_liq_params t = ls_liq_params s \<and>
     ls_calls t = ls_calls s \<and> ls_events t = ls_events s"

lemma same_pool_refl [simp]: "same_pool s s"
  by (simp add: same_pool_def)

lemma same_pool_trans: "same_pool s t \<Longrightarrow> same_pool t u \<Longrightarrow> same_pool s u"
  by (simp add: same_pool_def)

lemma same_pool_record_observation: "same_pool s (record_observation a p now s)"
  by (simp add: same_pool_def record_observation_def set_twap_state_def)

lemma same_pool_bump: "bump_twap_fallback_count s = Inr (t, n) \<Longrightarrow> same_pool s t"
  by (auto simp: bump_twap_fallback_count_def same_pool_def res_simps)

lemma try_fetch_Some:
  "try_fetch e orc a = Some p \<longleftrightarrow>
     (\<exists>ts. latest_price e orc a = Some (p, ts) \<and> validate_answer p ts (timestamp e))"
  by (auto simp: try_fetch_def split: option.splits if_splits)

lemma resolve_price_cases:
  assumes "resolve_price e asset s = Inr (t, r)"
  obtains
    (primary) orc ts where "source r = ''primary''" and "ls_primary s = Some orc"
      and "latest_price e orc asset = Some (price r, ts)"
      and "validate_answer (price r) ts (timestamp e)"
      and "t = record_observation asset (price r) (timestamp e) s"
  | (secondary) orc ts where "source r = ''secondary''" and "ls_secondary s = Some orc"
      and "Option.bind (ls_primary s) (\<lambda>orc. try_fetch e orc asset) = None"
      and "latest_price e orc asset = Some (price r, ts)"
      and "validate_answer (price r) ts (timestamp e)"
      and "t = record_observation asset (price r) (timestamp e) s"
  | (average) "source r = ''twap''"
      and "Option.bind (ls_primary s) (\<lambda>orc. try_fetch e orc asset) = None"
      and "Option.bind (ls_secondary s) (\<lambda>orc. try_fetch e orc asset) = None"
      and "twap_of (timestamp e) (get_twap_state s asset) = Inr (price r)"
      and "same_pool s t" and "ls_twap t = ls_twap s"
  using assms
  by (auto simp: resolve_price_def Let_def try_fetch_Some res_simps bump_twap_fallback_count_def
      twap_price_def get_twap_state_def same_pool_def bind_eq_Some_conv
      split: option.splits prod.splits)

lemma resolve_price_same_pool: "resolve_price e asset s = Inr (t, r) \<Longrightarrow> same_pool s t"
  by (erule resolve_price_cases) (auto simp: same_pool_record_observation)

lemma twap_of_cases:
  assumes "twap_of now st = Inr p"
  obtains idx where "idx = start_index (now - TWAP_WINDOW_SECS) 0 (snapshots st) (length (snapshots st) - 1)"
    and "0 < last_price st" and "2 \<le> length (snapshots st)"
    and "TWAP_MIN_SPAN_SECS \<le> now - obs_ts (snapshots st ! idx)"
    and "0 < sat_add (cumulative st) (sat_mul (last_price st) (int (min (now - last_ts st) u32_max)))
             - obs_cum (snapshots st ! idx)"
    and "p = tdiv (sat_add (cumulative st) (sat_mul (last_price st) (int (min (now - last_ts st) u32_max)))
             - obs_cum (snapshots st ! idx)) (int (now - obs_ts (snapshots st ! idx)))"
  using assms
  by (simp add: twap_of_def Let_def no_price_def res_simps not_less not_le split: if_splits)

lemma twap_of_nonneg: "twap_of now st = Inr p \<Longrightarrow> 0 \<le> p"
proof (erule twap_of_cases)
  fix idx
  let ?d = "sat_add (cumulative st) (sat_mul (last_price st) (int (min (now - last_ts st) u32_max)))
             - obs_cum (snapshots st ! idx)"
  assume "TWAP_MIN_SPAN_SECS \<le> now - obs_ts (snapshots st ! idx)" and "0 < ?d"
    and "p = tdiv ?d (int (now - obs_ts (snapshots st ! idx)))"
  then show "0 \<le> p" by (simp only: TWAP_MIN_SPAN_SECS_def) (rule tdiv_ge0; linarith)
qed

lemma resolve_price_nonneg: "resolve_price e asset s = Inr (t, r) \<Longrightarrow> 0 \<le> price r"
  by (erule resolve_price_cases) (auto simp: validate_answer_def dest: twap_of_nonneg split: if_splits)

lemma require_price_same_pool: "require_price e asset s = Inr (t, p) \<Longrightarrow> same_pool s t"
  by (auto simp: require_price_def res_simps split: if_splits dest: resolve_price_same_pool)

lemma require_price_pos: "require_price e asset s = Inr (t, p) \<Longrightarrow> 0 < p"
  by (auto simp: require_price_def res_simps split: if_splits)

text \<open>
  The interface the pool's operations rely on: a price comes back non-negative and the pool part
  of the storage is the caller's. Every operation of the pool is proved against this contract.
\<close>

locale price_source =
  fixes fetch :: "loan_env \<Rightarrow> addr \<Rightarrow> loan_state \<Rightarrow> (loan_state \<times> 'r) res"
    and val_of :: "'r \<Rightarrow> int"
  assumes fetch_frame: "fetch e a s = Inr (t, r) \<Longrightarrow> same_pool s t"
    and fetch_nonneg: "fetch e a s = Inr (t, r) \<Longrightarrow> 0 \<le> val_of r"
begin

lemma fetch2_frame:
  "fetch e a s = Inr (t, r) \<Longrightarrow> fetch e b t = Inr (u, q) \<Longrightarrow>
     same_pool s u \<and> 0 \<le> val_of r \<and> 0 \<le> val_of q"
  using fetch_frame same_pool_trans fetch_nonneg by blast

lemma fetch_reads:
  assumes "fetch e a s = Inr (t, r)"
  shows "get_position t = get_position s" and "get_total_deposits t = get_total_deposits s"
    and "get_total_borrowed t = get_total_borrowed s" and "ls_calls t = ls_calls s"
    and "get_depositor_balance t = get_depositor_balance s"
    and "get_depositors t = get_depositors s"
  using fetch_frame [OF assms]
  by (auto simp: same_pool_def get_position_def get_total_deposits_def get_total_borrowed_def
      get_depositor_balance_def get_depositors_def)

end

interpretation resolved: price_source resolve_price price
  by unfold_locales (auto dest: resolve_price_same_pool resolve_price_nonneg)

interpretation required: price_source require_price "\<lambda>p. p"
  by unfold_locales (auto dest: require_price_same_pool require_price_pos)

text \<open>The definitions of this theory evaluate on concrete values.\<close>

lemmas loanoracle_eval [eval_defs] =
  validate_answer_def try_fetch_def push_snapshot_def observe_def record_observation_def
  no_price_def twap_of_def twap_price_def resolve_price_def require_price_def

end
