(* ===== verification/LoanLiquidation.thy ===== *)
theory LoanLiquidation
  imports LoanStorage
begin

text \<open>
  The liquidation engine (\<^verbatim>\<open>contracts/loan_manager/src/liquidation.rs\<close>): health ratio,
  dynamic bonus, unit conversions, the liquidation plan, the proportional shares of a bad debt,
  and the bounds that every plan respects.
\<close>

section \<open>Health factor and bonus\<close>

definition health_ratio :: "int \<Rightarrow> int \<Rightarrow> nat \<Rightarrow> int \<times> int" where
  "health_ratio coll_value debt_value thr =
     (sat_mul coll_value (int thr), sat_mul debt_value BPS_DENOMINATOR)"

definition is_liquidatable :: "int \<Rightarrow> int \<Rightarrow> bool" where
  "is_liquidatable num den \<longleftrightarrow> 0 < den \<and> num < den"

definition dynamic_bonus_bps :: "int \<Rightarrow> int \<Rightarrow> nat \<Rightarrow> nat \<Rightarrow> nat \<Rightarrow> nat res" where
  "dynamic_bonus_bps num den base_bps max_bps cap_bps =
     (let base = int base_bps;
          span = int (max_bps - base_bps)
      in bindE
           (if den \<le> 0 \<or> den \<le> num \<or> span = 0 then Inr base
            else bindE (ck_i128 (den - num)) (\<lambda>gap.
                 let depth_x2 = min (sat_mul gap 2) (sat_mul den 2)
                 in ck_i128 (base + tdiv (sat_mul span depth_x2) den)))
           (\<lambda>bonus. Inr (as_u32 (min (clamp base (base + span) bonus) (int cap_bps)))))"

section \<open>Value and unit conversions\<close>

definition units_to_value :: "int \<Rightarrow> int \<Rightarrow> int" where
  "units_to_value units p = (if p \<le> 0 then 0 else tdiv (sat_mul units p) PRICE_SCALE)"

definition value_to_units :: "int \<Rightarrow> int \<Rightarrow> int" where
  "value_to_units v p = (if p \<le> 0 then 0 else tdiv (sat_mul v PRICE_SCALE) p)"

section \<open>The plan\<close>

datatype repay_mode = PartialToTarget | Full | Specified int

record liquidation_plan =
  repay_units :: int
  seize_units :: int
  bonus_bps :: nat
  bad_debt_units :: int

text \<open>The repayment the mode asks for, in value terms (lines 180--202).\<close>

definition target_value :: "repay_mode \<Rightarrow> int \<Rightarrow> int \<Rightarrow> nat \<Rightarrow> nat \<Rightarrow> int \<Rightarrow> int" where
  "target_value mode coll_value debt_value thr_bps bonus p_debt =
     (let n_bs = sat_mul TARGET_HF_NUM BPS_DENOMINATOR;
          thr = int thr_bps;
          gross = sat_add BPS_DENOMINATOR (int bonus);
          denom = sat_sub (sat_mul n_bs BPS_DENOMINATOR) (sat_mul (sat_mul TARGET_HF_DEN gross) thr)
      in case mode of
           PartialToTarget \<Rightarrow>
             (if 0 < denom
              then let inner = sat_sub (sat_mul n_bs debt_value)
                                       (sat_mul (sat_mul TARGET_HF_DEN thr) coll_value)
                   in max (tdiv (sat_mul BPS_DENOMINATOR (max inner 0)) denom) 0
              else debt_value)
         | Full \<Rightarrow> debt_value
         | Specified units \<Rightarrow> units_to_value (max units 0) p_debt)"

text \<open>The most the collateral can pay for, rounded up (lines 207--214).\<close>

definition affordable :: "int \<Rightarrow> int \<Rightarrow> int" where
  "affordable coll_value gross =
     tdiv (sat_add (sat_mul coll_value BPS_DENOMINATOR) (gross - 1)) gross"

text \<open>The plan of a liquidatable position once its bonus is known (lines 176--257).\<close>

definition plan_body ::
  "nat \<Rightarrow> int \<Rightarrow> int \<Rightarrow> int \<Rightarrow> int \<Rightarrow> int \<Rightarrow> int \<Rightarrow> nat \<Rightarrow> repay_mode \<Rightarrow> liquidation_plan res" where
  "plan_body bonus coll_units debt_units coll_value debt_value p_coll p_debt thr_bps mode =
     (let gross = sat_add BPS_DENOMINATOR (int bonus);
          target = target_value mode coll_value debt_value thr_bps bonus p_debt;
          repay0 = max (min target debt_value) 0;
          repay_value = max (min repay0 (affordable coll_value gross)) 0;
          repay = max (min (value_to_units repay_value p_debt) debt_units) 0
      in if repay = 0
         then Inr \<lparr>repay_units = 0, seize_units = 0, bonus_bps = bonus,
                   bad_debt_units = debt_units\<rparr>
         else
           let seize_value = tdiv (sat_mul repay_value gross) BPS_DENOMINATOR;
               seize = max (min (value_to_units seize_value p_coll) coll_units) 0;
               drained = (0 < coll_value \<and> coll_value \<le> seize_value)
           in bindE (ck_i128 (debt_units - repay)) (\<lambda>remaining.
              Inr \<lparr>repay_units = repay, seize_units = seize, bonus_bps = bonus,
                   bad_debt_units = (if drained then remaining else 0)\<rparr>))"

definition compute_plan ::
  "int \<Rightarrow> int \<Rightarrow> int \<Rightarrow> int \<Rightarrow> nat \<Rightarrow> nat \<Rightarrow> nat \<Rightarrow> nat \<Rightarrow> repay_mode \<Rightarrow> liquidation_plan res" where
  "compute_plan coll_units debt_units p_coll p_debt thr_bps base_bps max_bps cap_bps mode =
     (let coll_value = units_to_value coll_units p_coll;
          debt_value = units_to_value debt_units p_debt;
          nd = health_ratio coll_value debt_value thr_bps
      in bindE (dynamic_bonus_bps (fst nd) (snd nd) base_bps max_bps cap_bps) (\<lambda>bonus.
         if \<not> is_liquidatable (fst nd) (snd nd)
         then Inr \<lparr>repay_units = 0, seize_units = 0, bonus_bps = bonus, bad_debt_units = 0\<rparr>
         else plan_body bonus coll_units debt_units coll_value debt_value p_coll p_debt thr_bps mode))"

text \<open>Shares of a loss, floored; \<open>proportional_shares\<close> is aligned with the balances.\<close>

definition proportional_shares :: "int list \<Rightarrow> int \<Rightarrow> int \<Rightarrow> int list" where
  "proportional_shares bals tot loss =
     (if tot \<le> 0 \<or> loss \<le> 0 then map (\<lambda>_. 0) bals
      else map (\<lambda>b. tdiv (sat_mul b loss) tot) bals)"

section \<open>Bounds of the bonus\<close>

lemma clamp_bounds: "lo \<le> hi \<Longrightarrow> lo \<le> clamp lo hi x \<and> clamp lo hi x \<le> hi"
  by (auto simp: clamp_def)

lemma as_u32_id: "0 \<le> x \<Longrightarrow> x < 2 ^ 32 \<Longrightarrow> int (as_u32 x) = x"
  by (simp add: as_u32_def)

lemma dynamic_bonus_cap:
  assumes "dynamic_bonus_bps num den base mx cap = Inr b" and "cap \<le> u32_max"
  shows "b \<le> cap" and "min base cap \<le> b" and "b \<le> max base mx"
proof -
  obtain x where b: "b = as_u32 (min (clamp (int base) (int base + int (mx - base)) x) (int cap))"
    using assms(1) by (auto simp: dynamic_bonus_bps_def Let_def res_simps)
  let ?c = "clamp (int base) (int base + int (mx - base)) x"
  have c: "int base \<le> ?c" "?c \<le> int base + int (mx - base)"
    using clamp_bounds by auto
  have "int b = min ?c (int cap)"
    unfolding b using c assms(2) by (intro as_u32_id) (auto simp: width_defs min_def)
  with c show "b \<le> cap" and "min base cap \<le> b" and "b \<le> max base mx" by auto
qed

section \<open>Bounds of a plan\<close>

lemma units_to_value_nonneg: "0 \<le> u \<Longrightarrow> 0 \<le> units_to_value u p"
  by (simp add: units_to_value_def tdiv_ge0 sat_mul_ge0 PRICE_SCALE_def)

lemma plan_body_cases:
  assumes "plan_body b c d cv dv pc pd thr mode = Inr pl"
  obtains
    (dust) "bonus_bps pl = b" and "repay_units pl = 0" and "seize_units pl = 0" and "bad_debt_units pl = d"
  | (repay) v where "bonus_bps pl = b" and "0 < repay_units pl" and "repay_units pl \<le> d"
      and "seize_units pl = max (min (value_to_units v pc) c) 0"
      and "bad_debt_units pl = 0 \<or> bad_debt_units pl = d - repay_units pl"
proof -
  define gross where "gross = sat_add BPS_DENOMINATOR (int b)"
  define rv where "rv = max (min (max (min (target_value mode cv dv thr b pd) dv) 0) (affordable cv gross)) 0"
  define r where "r = max (min (value_to_units rv pd) d) 0"
  define sv where "sv = tdiv (sat_mul rv gross) BPS_DENOMINATOR"
  have eq: "plan_body b c d cv dv pc pd thr mode =
      (if r = 0 then Inr \<lparr>repay_units = 0, seize_units = 0, bonus_bps = b, bad_debt_units = d\<rparr>
       else bindE (ck_i128 (d - r)) (\<lambda>remaining.
         Inr \<lparr>repay_units = r, seize_units = max (min (value_to_units sv pc) c) 0, bonus_bps = b,
              bad_debt_units = (if 0 < cv \<and> cv \<le> sv then remaining else 0)\<rparr>))"
    by (simp only: plan_body_def Let_def gross_def [symmetric] rv_def [symmetric] r_def [symmetric]
        sv_def [symmetric])
  show thesis
  proof (cases "r = 0")
    case True
    with assms eq show thesis by (intro dust) auto
  next
    case False
    then have "0 < r" and "r \<le> d" by (auto simp: r_def)
    with assms eq False show thesis by (intro repay [of sv]) (auto simp: res_simps)
  qed
qed

lemma plan_body_bonus: "plan_body b c d cv dv pc pd thr mode = Inr pl \<Longrightarrow> bonus_bps pl = b"
  by (erule plan_body_cases)

lemma compute_plan_cases:
  assumes "compute_plan c d pc pd thr base mx cap mode = Inr pl"
  obtains
    (healthy) "repay_units pl = 0" and "seize_units pl = 0" and "bad_debt_units pl = 0"
  | (dust) "is_liquidatable (sat_mul (units_to_value c pc) (int thr)) (sat_mul (units_to_value d pd) BPS_DENOMINATOR)"
      and "repay_units pl = 0" and "seize_units pl = 0" and "bad_debt_units pl = d"
  | (repay) v where "0 < repay_units pl" and "repay_units pl \<le> d"
      and "seize_units pl = max (min (value_to_units v pc) c) 0"
      and "bad_debt_units pl = 0 \<or> bad_debt_units pl = d - repay_units pl"
proof -
  let ?cv = "units_to_value c pc" and ?dv = "units_to_value d pd"
  let ?nd = "health_ratio ?cv ?dv thr"
  from assms obtain b where
    body: "(if \<not> is_liquidatable (fst ?nd) (snd ?nd)
       then Inr \<lparr>repay_units = 0, seize_units = 0, bonus_bps = b, bad_debt_units = 0\<rparr>
       else plan_body b c d ?cv ?dv pc pd thr mode) = Inr pl"
    by (auto simp: compute_plan_def Let_def bindE_Inr)
  show thesis
  proof (cases "is_liquidatable (fst ?nd) (snd ?nd)")
    case False
    with body show thesis by (intro healthy) auto
  next
    case liq: True
    with body have pb: "plan_body b c d ?cv ?dv pc pd thr mode = Inr pl" by simp
    from pb show thesis
    proof (cases rule: plan_body_cases)
      case dust
      with liq show thesis by (intro that(2)) (auto simp: health_ratio_def)
    next
      case (repay v)
      then show thesis by (intro that(3))
    qed
  qed
qed

lemma compute_plan_bonus:
  assumes "compute_plan c d pc pd thr base mx cap mode = Inr pl" and "cap \<le> u32_max"
  shows "bonus_bps pl \<le> cap" and "min base cap \<le> bonus_bps pl" and "bonus_bps pl \<le> max base mx"
proof -
  let ?nd = "health_ratio (units_to_value c pc) (units_to_value d pd) thr"
  obtain b where b: "dynamic_bonus_bps (fst ?nd) (snd ?nd) base mx cap = Inr b"
    and rest: "(if \<not> is_liquidatable (fst ?nd) (snd ?nd)
       then Inr \<lparr>repay_units = 0, seize_units = 0, bonus_bps = b, bad_debt_units = 0\<rparr>
       else plan_body b c d (units_to_value c pc) (units_to_value d pd) pc pd thr mode) = Inr pl"
    using assms(1) by (auto simp: compute_plan_def Let_def bindE_Inr)
  from rest have "bonus_bps pl = b"
    by (auto dest: plan_body_bonus split: if_split_asm)
  with dynamic_bonus_cap [OF b assms(2)]
  show "bonus_bps pl \<le> cap" and "min base cap \<le> bonus_bps pl" and "bonus_bps pl \<le> max base mx"
    by simp_all
qed

lemma compute_plan_units:
  assumes "compute_plan c d pc pd thr base mx cap mode = Inr pl" and "0 \<le> c" and "0 \<le> d"
  shows "0 \<le> repay_units pl" and "0 \<le> seize_units pl" and "seize_units pl \<le> c"
    and "0 \<le> bad_debt_units pl" and "repay_units pl + bad_debt_units pl \<le> d"
proof -
  have "0 \<le> repay_units pl \<and> 0 \<le> seize_units pl \<and> seize_units pl \<le> c \<and> 0 \<le> bad_debt_units pl
      \<and> repay_units pl + bad_debt_units pl \<le> d"
    using assms(1) by (rule compute_plan_cases) (use assms(2,3) in auto)
  then show "0 \<le> repay_units pl" and "0 \<le> seize_units pl" and "seize_units pl \<le> c"
    and "0 \<le> bad_debt_units pl" and "repay_units pl + bad_debt_units pl \<le> d" by auto
qed

text \<open>The definitions of this theory evaluate on concrete values.\<close>

lemmas loanliquidation_eval [eval_defs] =
  health_ratio_def is_liquidatable_def dynamic_bonus_bps_def units_to_value_def
  value_to_units_def target_value_def affordable_def plan_body_def compute_plan_def
  proportional_shares_def

end
