(* ===== verification/LoanManager.thy ===== *)
theory LoanManager
  imports LoanOracle LoanLiquidation
begin

text \<open>
  The entry points of the loan manager (\<^verbatim>\<open>contracts/loan_manager/src/lib.rs\<close>). Each is a
  function from the host environment, the call's arguments and the storage to the new storage
  (with the returned value where there is one), in the order of the source: authorisation,
  guards, token calls, storage writes, event.
\<close>

definition FULL_REPAY_SENTINEL :: int where "FULL_REPAY_SENTINEL = i128_max"

record liquidation_result =
  lr_repay_units :: int
  lr_seize_units :: int
  lr_bonus_bps :: nat
  lr_bad_debt_socialized :: int

section \<open>Helpers\<close>

definition require_not_paused :: "loan_state \<Rightarrow> unit res" where
  "require_not_paused s = (if is_paused s then Inl (Panic ''contract is paused'') else Inr ())"

definition assert_admin :: "loan_state \<Rightarrow> addr \<Rightarrow> unit res" where
  "assert_admin s adm =
     bindE (require_admin s) (\<lambda>stored.
     if stored \<noteq> adm then Inl (Panic ''unauthorized'') else Inr ())"

text \<open>A transfer through a client of token \<open>tok\<close> (\<^verbatim>\<open>debt_token_client\<close>,
  \<^verbatim>\<open>collateral_token_client\<close>).\<close>

definition client_transfer :: "loan_env \<Rightarrow> addr \<Rightarrow> addr \<Rightarrow> addr \<Rightarrow> int \<Rightarrow> loan_state \<Rightarrow> loan_state res" where
  "client_transfer e tok src dst n s =
     bindE (token_transfer e tok src dst n (ls_calls s)) (\<lambda>cs. Inr (s\<lparr>ls_calls := cs\<rparr>))"

definition set_total_deposits :: "int \<Rightarrow> loan_state \<Rightarrow> loan_state" where
  "set_total_deposits v s = s\<lparr>ls_total_deposits := Some v\<rparr>"

definition set_total_borrowed :: "int \<Rightarrow> loan_state \<Rightarrow> loan_state" where
  "set_total_borrowed v s = s\<lparr>ls_total_borrowed := Some v\<rparr>"

definition reduce_borrowed :: "int \<Rightarrow> loan_state \<Rightarrow> loan_state" where
  "reduce_borrowed amount s = set_total_borrowed (sat_sub (get_total_borrowed s) amount) s"

text \<open>
  The two passes of \<^verbatim>\<open>socialize_bad_debt\<close>. The guards \<open>cut \<le> bal\<close> and
  \<open>cut \<le> residual\<close> keep every plain subtraction and addition of the loops inside the width.
\<close>

fun socialize_pass1 :: "(addr \<times> int \<times> int) list \<Rightarrow> loan_state \<times> int \<times> int \<Rightarrow> loan_state \<times> int \<times> int" where
  "socialize_pass1 [] acc = acc"
| "socialize_pass1 ((d, bal, share) # rest) (s, applied, residual) =
     (let cut = min (min share bal) residual
      in if 0 < cut
         then socialize_pass1 rest (set_depositor_balance d (bal - cut) s, applied + cut, residual - cut)
         else socialize_pass1 rest (s, applied, residual))"

fun socialize_pass2 :: "addr list \<Rightarrow> loan_state \<times> int \<times> int \<Rightarrow> loan_state \<times> int \<times> int" where
  "socialize_pass2 [] acc = acc"
| "socialize_pass2 (d # rest) (s, applied, residual) =
     (if residual = 0 then (s, applied, residual)
      else
        let bal = get_depositor_balance s d; spare = min bal residual
        in if 0 < spare
           then socialize_pass2 rest (set_depositor_balance d (bal - spare) s, applied + spare, residual - spare)
           else socialize_pass2 rest (s, applied, residual))"

definition socialize_bad_debt :: "addr \<Rightarrow> int \<Rightarrow> loan_state \<Rightarrow> loan_state \<times> int" where
  "socialize_bad_debt borrower loss s =
     (if loss \<le> 0 then (s, 0)
      else
        let depositors = get_depositors s; td0 = get_total_deposits s
        in if td0 \<le> 0 \<or> depositors = []
           then (publish [VStr ''bad_debt_uncollateralized''] [VAddr borrower, VInt loss]
                   (set_total_deposits 0 s), 0)
           else
             let balances = map (get_depositor_balance s) depositors;
                 shares = proportional_shares balances td0 loss;
                 p1 = socialize_pass1 (zip depositors (zip balances shares)) (s, 0, loss);
                 p2 = (if 0 < snd (snd p1) then socialize_pass2 depositors p1 else p1);
                 s2 = fst p2; applied = fst (snd p2);
                 s3 = set_total_deposits (sat_sub (get_total_deposits s2) applied) s2
             in (publish [VStr ''bad_debt_socialized'']
                   [VAddr borrower, VInt applied, VNat (length depositors)] s3, applied))"

section \<open>Administration and configuration\<close>

definition init :: "loan_env \<Rightarrow> addr \<Rightarrow> loan_state \<Rightarrow> loan_state res" where
  "init e adm s =
     bindE (require_auth e adm) (\<lambda>_.
     if ls_admin s \<noteq> None then Inl (Panic ''already initialized'')
     else Inr (publish [VStr ''initialized''] [VAddr adm]
                 (s\<lparr>ls_admin := Some adm, ls_liq_params := Some liq_params_default\<rparr>)))"

definition set_oracles :: "loan_env \<Rightarrow> addr \<Rightarrow> addr option \<Rightarrow> addr option \<Rightarrow> loan_state \<Rightarrow> loan_state res" where
  "set_oracles e adm prim sec s =
     bindE (require_auth e adm) (\<lambda>_.
     bindE (assert_admin s adm) (\<lambda>_.
     Inr (publish [VStr ''oracles_set''] [VOpt VAddr prim, VOpt VAddr sec]
            (s\<lparr>ls_primary := prim, ls_secondary := sec\<rparr>))))"

definition set_market :: "loan_env \<Rightarrow> addr \<Rightarrow> addr \<Rightarrow> addr \<Rightarrow> nat \<Rightarrow> loan_state \<Rightarrow> loan_state res" where
  "set_market e adm coll dbt thr s =
     bindE (require_auth e adm) (\<lambda>_.
     bindE (assert_admin s adm) (\<lambda>_.
     if thr = 0 \<or> MAX_LIQ_THRESHOLD_BPS < thr then Inl (Panic ''invalid liquidation threshold'')
     else if coll = dbt then Inl (Panic ''collateral and debt tokens must differ'')
     else Inr (publish [VStr ''market_set''] [VAddr coll, VAddr dbt, VNat thr]
            (s\<lparr>ls_market := Some \<lparr>collateral_token = coll, debt_token = dbt, liq_threshold_bps = thr\<rparr>\<rparr>))))"

definition set_liq_params :: "loan_env \<Rightarrow> addr \<Rightarrow> nat \<Rightarrow> nat \<Rightarrow> nat \<Rightarrow> loan_state \<Rightarrow> loan_state res" where
  "set_liq_params e adm base mx cap s =
     bindE (require_auth e adm) (\<lambda>_.
     bindE (assert_admin s adm) (\<lambda>_.
     if MAX_CONFIGURABLE_BONUS_BPS < base \<or> MAX_CONFIGURABLE_BONUS_BPS < mx
        \<or> MAX_CONFIGURABLE_BONUS_BPS < cap
     then Inl (Panic ''bonus parameters exceed maximum'')
     else if mx < base then Inl (Panic ''base bonus cannot exceed max bonus'')
     else Inr (publish [VStr ''liq_params_set''] [VNat base, VNat mx, VNat cap]
            (s\<lparr>ls_liq_params := Some \<lparr>base_bonus_bps = base, max_bonus_bps = mx, penalty_cap_bps = cap\<rparr>\<rparr>))))"

definition pause :: "loan_env \<Rightarrow> addr \<Rightarrow> loan_state \<Rightarrow> loan_state res" where
  "pause e adm s =
     bindE (require_auth e adm) (\<lambda>_.
     bindE (assert_admin s adm) (\<lambda>_.
     Inr (publish [VStr ''paused''] [VAddr adm] (set_paused True s))))"

definition unpause :: "loan_env \<Rightarrow> addr \<Rightarrow> loan_state \<Rightarrow> loan_state res" where
  "unpause e adm s =
     bindE (require_auth e adm) (\<lambda>_.
     bindE (assert_admin s adm) (\<lambda>_.
     Inr (publish [VStr ''unpaused''] [VAddr adm] (set_paused False s))))"

section \<open>Liquidity\<close>

definition deposit :: "loan_env \<Rightarrow> addr \<Rightarrow> int \<Rightarrow> loan_state \<Rightarrow> loan_state res" where
  "deposit e depositor amount s =
     bindE (require_auth e depositor) (\<lambda>_.
     bindE (require_not_paused s) (\<lambda>_.
     bindE (require_market s) (\<lambda>m.
     if amount \<le> 0 then Inl (Panic ''invalid amount'')
     else
     bindE (client_transfer e (debt_token m) depositor (this e) amount s) (\<lambda>s1.
     bindE (ck_i128 (get_depositor_balance s1 depositor + amount)) (\<lambda>bal.
     let s2 = register_depositor depositor (set_depositor_balance depositor bal s1) in
     bindE (ck_i128 (get_total_deposits s2 + amount)) (\<lambda>td.
     Inr (publish [VStr ''liquidity_deposited''] [VAddr depositor, VInt amount]
            (set_total_deposits td s2))))))))"

definition withdraw :: "loan_env \<Rightarrow> addr \<Rightarrow> int \<Rightarrow> loan_state \<Rightarrow> loan_state res" where
  "withdraw e depositor amount s =
     bindE (require_auth e depositor) (\<lambda>_.
     bindE (require_not_paused s) (\<lambda>_.
     bindE (require_market s) (\<lambda>m.
     if amount \<le> 0 then Inl (Panic ''invalid amount'')
     else
     let bal = get_depositor_balance s depositor in
     if bal < amount then Inl (Panic ''insufficient depositor balance'')
     else if sat_sub (get_total_deposits s) (get_total_borrowed s) < amount
     then Inl (Panic ''insufficient pool liquidity'')
     else
     bindE (client_transfer e (debt_token m) (this e) depositor amount s) (\<lambda>s1.
     bindE (ck_i128 (bal - amount)) (\<lambda>bal1.
     let s2 = set_depositor_balance depositor bal1 s1 in
     bindE (ck_i128 (get_total_deposits s2 - amount)) (\<lambda>td.
     Inr (publish [VStr ''liquidity_withdrawn''] [VAddr depositor, VInt amount]
            (set_total_deposits td s2))))))))"

section \<open>Borrower positions\<close>

definition deposit_collateral :: "loan_env \<Rightarrow> addr \<Rightarrow> int \<Rightarrow> loan_state \<Rightarrow> loan_state res" where
  "deposit_collateral e user amount s =
     bindE (require_auth e user) (\<lambda>_.
     bindE (require_not_paused s) (\<lambda>_.
     bindE (require_market s) (\<lambda>m.
     if amount \<le> 0 then Inl (Panic ''invalid amount'')
     else
     bindE (client_transfer e (collateral_token m) user (this e) amount s) (\<lambda>s1.
     let pos = get_position s1 user in
     bindE (ck_i128 (collateral pos + amount)) (\<lambda>c.
     Inr (publish [VStr ''collateral_added''] [VAddr user, VInt amount]
            (save_position user (pos\<lparr>collateral := c\<rparr>) s1)))))))"

definition borrow :: "loan_env \<Rightarrow> addr \<Rightarrow> int \<Rightarrow> loan_state \<Rightarrow> loan_state res" where
  "borrow e user amount s =
     bindE (require_auth e user) (\<lambda>_.
     bindE (require_not_paused s) (\<lambda>_.
     bindE (require_market s) (\<lambda>m.
     if amount \<le> 0 then Inl (Panic ''invalid amount'')
     else if sat_sub (get_total_deposits s) (get_total_borrowed s) < amount
     then Inl (Panic ''insufficient pool liquidity'')
     else
     let pos = get_position s user in
     bindE (require_price e (collateral_token m) s) (\<lambda>(s1, price_coll).
     bindE (require_price e (debt_token m) s1) (\<lambda>(s2, price_debt).
     let coll_value = units_to_value (collateral pos) price_coll;
         new_debt_value = units_to_value (sat_add (debt pos) amount) price_debt;
         nd = health_ratio coll_value new_debt_value (liq_threshold_bps m)
     in if \<not> (snd nd \<le> fst nd) then Inl (Panic ''insufficient collateral'')
        else
        bindE (client_transfer e (debt_token m) (this e) user amount s2) (\<lambda>s3.
        bindE (ck_i128 (debt pos + amount)) (\<lambda>d.
        let s4 = save_position user (pos\<lparr>debt := d\<rparr>) s3 in
        bindE (ck_i128 (get_total_borrowed s4 + amount)) (\<lambda>tb.
        Inr (publish [VStr ''borrowed''] [VAddr user, VInt amount] (set_total_borrowed tb s4))))))))))"

definition repay :: "loan_env \<Rightarrow> addr \<Rightarrow> int \<Rightarrow> loan_state \<Rightarrow> loan_state res" where
  "repay e user amount0 s =
     bindE (require_auth e user) (\<lambda>_.
     bindE (require_not_paused s) (\<lambda>_.
     bindE (require_market s) (\<lambda>m.
     if amount0 \<le> 0 then Inl (Panic ''invalid amount'')
     else
     let pos = get_position s user; amount = min amount0 (debt pos) in
     if amount = 0 then Inl (Panic ''nothing to repay'')
     else
     bindE (client_transfer e (debt_token m) user (this e) amount s) (\<lambda>s1.
     bindE (ck_i128 (debt pos - amount)) (\<lambda>d.
     Inr (publish [VStr ''repaid''] [VAddr user, VInt amount]
            (reduce_borrowed amount (save_position user (pos\<lparr>debt := d\<rparr>) s1))))))))"

text \<open>The health check of a withdrawal, made only while the position owes something.\<close>

definition withdraw_check :: "loan_env \<Rightarrow> market \<Rightarrow> position \<Rightarrow> int \<Rightarrow> loan_state \<Rightarrow> loan_state res" where
  "withdraw_check e m pos amount s =
     (if 0 < debt pos
      then bindE (require_price e (collateral_token m) s) (\<lambda>(s1, price_coll).
           bindE (require_price e (debt_token m) s1) (\<lambda>(s2, price_debt).
           bindE (ck_i128 (collateral pos - amount)) (\<lambda>left.
           let nd = health_ratio (units_to_value left price_coll)
                      (units_to_value (debt pos) price_debt) (liq_threshold_bps m)
           in if \<not> (snd nd \<le> fst nd)
              then Inl (Panic ''withdrawal would undercollateralize position'')
              else Inr s2)))
      else Inr s)"

definition withdraw_collateral :: "loan_env \<Rightarrow> addr \<Rightarrow> int \<Rightarrow> loan_state \<Rightarrow> loan_state res" where
  "withdraw_collateral e user amount s =
     bindE (require_auth e user) (\<lambda>_.
     bindE (require_not_paused s) (\<lambda>_.
     bindE (require_market s) (\<lambda>m.
     if amount \<le> 0 then Inl (Panic ''invalid amount'')
     else
     let pos = get_position s user in
     if collateral pos < amount then Inl (Panic ''insufficient collateral'')
     else
     bindE (withdraw_check e m pos amount s) (\<lambda>s2.
     bindE (client_transfer e (collateral_token m) (this e) user amount s2) (\<lambda>s3.
     bindE (ck_i128 (collateral pos - amount)) (\<lambda>c.
     Inr (publish [VStr ''collateral_withdrawn''] [VAddr user, VInt amount]
            (save_position user (pos\<lparr>collateral := c\<rparr>) s3))))))))"

section \<open>Liquidation\<close>

definition repay_mode_of :: "int \<Rightarrow> repay_mode res" where
  "repay_mode_of repay_amount =
     (if repay_amount = FULL_REPAY_SENTINEL then Inr Full
      else if repay_amount = 0 then Inr PartialToTarget
      else if repay_amount < 0 then Inl (Panic ''invalid amount'')
      else Inr (Specified repay_amount))"

text \<open>The funds part of a liquidation: the repayment in, then the seizure out.\<close>

definition move_funds :: "loan_env \<Rightarrow> market \<Rightarrow> addr \<Rightarrow> liquidation_plan \<Rightarrow> loan_state \<Rightarrow> loan_state res" where
  "move_funds e m liquidator plan s =
     bindE (if 0 < repay_units plan
            then client_transfer e (debt_token m) liquidator (this e) (repay_units plan) s
            else Inr s) (\<lambda>s1.
     if 0 < seize_units plan
     then client_transfer e (collateral_token m) (this e) liquidator (seize_units plan) s1
     else Inr s1)"

text \<open>The storage part: the position, the totals and, with debt left, its socialization.\<close>

definition book_plan ::
  "addr \<Rightarrow> addr \<Rightarrow> position \<Rightarrow> liquidation_plan \<Rightarrow> loan_state \<Rightarrow> (loan_state \<times> liquidation_result) res" where
  "book_plan liquidator borrower pos plan s =
     bindE (ck_i128 (collateral pos - seize_units plan)) (\<lambda>c.
     let d = sat_sub (sat_sub (debt pos) (repay_units plan)) (bad_debt_units plan);
         updated = pos\<lparr>collateral := c, debt := d\<rparr>
     in
     bindE (ck_i128 (repay_units plan + bad_debt_units plan)) (\<lambda>gone.
     let s3 = reduce_borrowed gone s;
         sb = (if 0 < bad_debt_units plan then socialize_bad_debt borrower (bad_debt_units plan) s3
               else (s3, 0));
         s4 = fst sb;
         s5 = (if c = 0 \<and> d = 0 then s4\<lparr>ls_position := (ls_position s4)(borrower := None)\<rparr>
               else save_position borrower updated s4)
     in Inr (publish [VStr ''liquidated'']
               [VAddr borrower, VAddr liquidator, VInt (repay_units plan), VInt (seize_units plan),
                VNat (bonus_bps plan)] s5,
             \<lparr>lr_repay_units = repay_units plan, lr_seize_units = seize_units plan,
              lr_bonus_bps = bonus_bps plan, lr_bad_debt_socialized = snd sb\<rparr>)))"

definition liquidate ::
  "loan_env \<Rightarrow> addr \<Rightarrow> addr \<Rightarrow> int \<Rightarrow> loan_state \<Rightarrow> (loan_state \<times> liquidation_result) res" where
  "liquidate e liquidator borrower repay_amount s =
     bindE (require_auth e liquidator) (\<lambda>_.
     bindE (require_not_paused s) (\<lambda>_.
     bindE (require_market s) (\<lambda>m.
     if liquidator = borrower then Inl (Panic ''cannot self-liquidate'')
     else
     let pos = get_position s borrower in
     if debt pos \<le> 0 then Inl (Panic ''position not liquidatable'')
     else
     bindE (resolve_price e (collateral_token m) s) (\<lambda>(s1, res_coll).
     bindE (resolve_price e (debt_token m) s1) (\<lambda>(s2, res_debt).
     let params = get_liq_params s2 in
     bindE (repay_mode_of repay_amount) (\<lambda>mode.
     bindE (compute_plan (collateral pos) (debt pos) (price res_coll) (price res_debt)
              (liq_threshold_bps m) (base_bonus_bps params) (max_bonus_bps params)
              (penalty_cap_bps params) mode) (\<lambda>plan.
     if repay_units plan = 0 \<and> bad_debt_units plan = 0
     then Inl (Panic ''position not liquidatable'')
     else
     bindE (move_funds e m liquidator plan s2) (\<lambda>s3.
     book_plan liquidator borrower pos plan s3))))))))"

section \<open>Keeper and views\<close>

definition record_price :: "loan_env \<Rightarrow> addr \<Rightarrow> loan_state \<Rightarrow> loan_state res" where
  "record_price e asset s =
     bindE (require_not_paused s) (\<lambda>_.
     bindE (resolve_price e asset s) (\<lambda>(s1, r). Inr s1))"

definition health_factor :: "loan_env \<Rightarrow> addr \<Rightarrow> loan_state \<Rightarrow> (loan_state \<times> int \<times> int) res" where
  "health_factor e user s =
     bindE (require_market s) (\<lambda>m.
     let pos = get_position s user in
     if debt pos = 0 then Inr (s, i128_max, 1)
     else
     bindE (require_price e (collateral_token m) s) (\<lambda>(s1, price_coll).
     bindE (require_price e (debt_token m) s1) (\<lambda>(s2, price_debt).
     Inr (s2, health_ratio (units_to_value (collateral pos) price_coll)
                (units_to_value (debt pos) price_debt) (liq_threshold_bps m)))))"

definition preview_price :: "loan_env \<Rightarrow> addr \<Rightarrow> loan_state \<Rightarrow> (loan_state \<times> price_resolution) res" where
  "preview_price e asset s = resolve_price e asset s"

definition get_twap :: "addr \<Rightarrow> loan_state \<Rightarrow> price_observation list" where
  "get_twap asset s = snapshots (get_twap_state s asset)"

definition twap_now :: "loan_env \<Rightarrow> addr \<Rightarrow> loan_state \<Rightarrow> int res" where
  "twap_now e asset s = twap_price s asset (timestamp e)"

definition get_pool_info :: "loan_state \<Rightarrow> int \<times> int \<times> nat" where
  "get_pool_info s =
     (get_total_deposits s, get_total_borrowed s, get_or 0 (ls_fallback_count s))"

definition get_oracles :: "loan_state \<Rightarrow> (addr \<times> addr option) option" where
  "get_oracles s = map_option (\<lambda>p. (p, ls_secondary s)) (ls_primary s)"

text \<open>The definitions of this theory evaluate on concrete values.\<close>

lemmas loanmanager_eval [eval_defs] =
  FULL_REPAY_SENTINEL_def require_not_paused_def assert_admin_def client_transfer_def
  set_total_deposits_def set_total_borrowed_def reduce_borrowed_def socialize_bad_debt_def
  init_def set_oracles_def set_market_def set_liq_params_def pause_def unpause_def deposit_def
  withdraw_def deposit_collateral_def borrow_def repay_def withdraw_check_def
  withdraw_collateral_def repay_mode_of_def move_funds_def book_plan_def liquidate_def
  record_price_def health_factor_def preview_price_def get_twap_def twap_now_def
  get_pool_info_def get_oracles_def

end
