(* ===== verification/LoanPool.thy ===== *)
theory LoanPool
  imports LoanManager
begin

text \<open>
  The accounting of the lending pool: the invariant that ties the totals to the accounts, the
  exactness of the bad-debt write-off, one preservation lemma per entry point, and the flows of
  tokens through the contract. The entry points are collected in \<open>loan_exec\<close>, a call of the
  contract being a value of \<open>loan_call\<close>, and the contract's life is the transition system
  \<open>loan_step\<close>.
\<close>

section \<open>Sums over positions\<close>

definition pos_of :: "(addr \<Rightarrow> position option) \<Rightarrow> addr \<Rightarrow> position" where
  "pos_of P u = get_or position_default (P u)"

definition pos_sum :: "(position \<Rightarrow> int) \<Rightarrow> (addr \<Rightarrow> position option) \<Rightarrow> int" where
  "pos_sum f P = (\<Sum>u\<in>dom P. f (pos_of P u))"

lemma get_position_pos_of: "get_position s u = pos_of (ls_position s) u"
  by (simp add: get_position_def pos_of_def)

lemma pos_sum_superset:
  assumes "finite A" and "dom P \<subseteq> A" and "f position_default = 0"
  shows "pos_sum f P = (\<Sum>u\<in>A. f (pos_of P u))"
  unfolding pos_sum_def
  by (rule sum.mono_neutral_left) (use assms in \<open>auto simp: pos_of_def domIff\<close>)

lemma pos_sum_upd:
  assumes fin: "finite (dom P)" and f0: "f position_default = 0"
  shows "pos_sum f (P(u := x)) = pos_sum f P - f (pos_of P u) + f (get_or position_default x)"
proof -
  let ?A = "insert u (dom P)"
  have "pos_sum f (P(u := x)) = (\<Sum>v\<in>?A. f (pos_of (P(u := x)) v))"
    by (rule pos_sum_superset) (use fin f0 in auto)
  also have "\<dots> = (\<Sum>v\<in>?A. ((\<lambda>v. f (pos_of P v))(u := f (get_or position_default x))) v)"
    by (rule sum.cong) (auto simp: pos_of_def)
  also have "\<dots> = (\<Sum>v\<in>?A. f (pos_of P v)) - f (pos_of P u) + f (get_or position_default x)"
    by (rule sum_upd) (use fin in auto)
  also have "(\<Sum>v\<in>?A. f (pos_of P v)) = pos_sum f P"
    by (rule pos_sum_superset [symmetric]) (use fin f0 in auto)
  finally show ?thesis .
qed

lemma pos_sum_ge:
  assumes "finite (dom P)" and "\<forall>v. 0 \<le> f (pos_of P v)" and "f position_default = 0"
  shows "f (pos_of P u) \<le> pos_sum f P"
proof -
  have "f (pos_of P u) \<le> (\<Sum>v\<in>insert u (dom P). f (pos_of P v))"
    by (rule member_le_sum) (use assms in auto)
  also have "\<dots> = pos_sum f P"
    by (rule pos_sum_superset [symmetric]) (use assms in auto)
  finally show ?thesis .
qed

lemma position_default_simps [simp]: "collateral position_default = 0" "debt position_default = 0"
  by (simp_all add: position_default_def)

section \<open>The invariant of the pool\<close>

definition pool_inv ::
  "addr list \<Rightarrow> (addr \<Rightarrow> int) \<Rightarrow> int \<Rightarrow> int \<Rightarrow> (addr \<Rightarrow> position option) \<Rightarrow> bool" where
  "pool_inv deps bal td tb P \<longleftrightarrow>
     distinct deps \<and> (\<forall>d. d \<notin> set deps \<longrightarrow> bal d = 0) \<and> (\<forall>d. 0 \<le> bal d) \<and>
     td = (\<Sum>d\<leftarrow>deps. bal d) \<and> in_i128 td \<and>
     finite (dom P) \<and> (\<forall>u. 0 \<le> collateral (pos_of P u) \<and> 0 \<le> debt (pos_of P u)) \<and>
     tb = pos_sum debt P \<and> tb \<le> td"

definition pool_ok :: "loan_state \<Rightarrow> bool" where
  "pool_ok s \<longleftrightarrow>
     pool_inv (get_depositors s) (get_depositor_balance s) (get_total_deposits s)
       (get_total_borrowed s) (ls_position s)"

lemma pool_invD:
  assumes "pool_inv deps bal td tb P"
  shows "distinct deps" and "d \<notin> set deps \<Longrightarrow> bal d = 0" and "0 \<le> bal d"
    and "td = (\<Sum>d\<leftarrow>deps. bal d)" and "in_i128 td" and "finite (dom P)"
    and "0 \<le> collateral (pos_of P u)" and "0 \<le> debt (pos_of P u)"
    and "tb = pos_sum debt P" and "tb \<le> td"
  by (insert assms, unfold pool_inv_def, blast+)

lemma pool_inv_debt_le: "pool_inv deps bal td tb P \<Longrightarrow> debt (pos_of P u) \<le> tb"
  by (simp add: pool_inv_def pos_sum_ge)

lemma pool_inv_tb_nonneg: "pool_inv deps bal td tb P \<Longrightarrow> 0 \<le> tb"
  using pool_inv_debt_le pool_invD(8) order_trans by blast

lemma pool_inv_td_nonneg: "pool_inv deps bal td tb P \<Longrightarrow> 0 \<le> td"
  using pool_inv_tb_nonneg pool_invD(10) order_trans by blast

lemma pool_inv_free: "pool_inv deps bal td tb P \<Longrightarrow> sat_sub td tb = td - tb"
  by (intro sat_sub_id pool_inv_tb_nonneg) (auto dest: pool_invD)

lemma pool_inv_credit:
  assumes inv: "pool_inv deps bal td tb P" and a: "0 < a" and big: "in_i128 (td + a)"
  shows "pool_inv (if d \<in> set deps then deps else deps @ [d]) (bal(d := bal d + a)) (td + a) tb P"
proof (cases "d \<in> set deps")
  case True
  with inv a big show ?thesis
    using sum_list_distinct_upd [of deps d bal "bal d + a"] by (auto simp: pool_inv_def)
next
  case False
  with inv a big show ?thesis
    using sum_list_upd_notin [of d deps bal "bal d + a"] by (auto simp: pool_inv_def)
qed

lemma pool_inv_debit:
  assumes inv: "pool_inv deps bal td tb P" and "0 < a" and "a \<le> bal d" and "a \<le> td - tb"
  shows "pool_inv deps (bal(d := bal d - a)) (td - a) tb P"
proof -
  have d: "d \<in> set deps" using pool_invD(2) [OF inv, of d] assms(2,3) by fastforce
  have "0 \<le> td - a" using pool_inv_tb_nonneg [OF inv] assms(4) by linarith
  then have "in_i128 (td - a)"
    using in_i128_between [of "td - a" td] pool_invD(5) [OF inv] assms(2) by simp
  then show ?thesis
    using assms d sum_list_distinct_upd [of deps d bal "bal d - a"] by (auto simp: pool_inv_def)
qed

text \<open>Changing one position, with the debt moving the total borrowed by the same amount.\<close>

lemma pool_inv_position:
  assumes inv: "pool_inv deps bal td tb P"
    and "0 \<le> collateral (get_or position_default x)" and "0 \<le> debt (get_or position_default x)"
    and tb': "tb' = tb - debt (pos_of P u) + debt (get_or position_default x)" and "tb' \<le> td"
  shows "pool_inv deps bal td tb' (P(u := x))"
proof -
  have "pos_sum debt (P(u := x)) = tb'"
    using inv tb' by (subst pos_sum_upd) (auto simp: pool_inv_def)
  moreover have "finite (dom (P(u := x)))"
    using inv by (auto simp: pool_inv_def)
  moreover have "pos_of (P(u := x)) = (pos_of P)(u := get_or position_default x)"
    by (auto simp: pos_of_def)
  ultimately show ?thesis using assms by (auto simp: pool_inv_def)
qed

section \<open>Writing off bad debt\<close>

text \<open>
  What one deduction, a pass, and both passes have in common: only liquidity balances change, no
  balance grows or turns negative, and what is taken from the balances of \<open>ds\<close> is what moves
  from the residual to the applied total.
\<close>

definition absorbs :: "addr list \<Rightarrow> loan_state \<times> int \<times> int \<Rightarrow> loan_state \<times> int \<times> int \<Rightarrow> bool" where
  "absorbs ds x y =
     (case (x, y) of ((s, a, r), (t, b, q)) \<Rightarrow>
        (\<exists>f. t = s\<lparr>ls_dep_balance := f\<rparr>) \<and>
        (\<forall>d. get_depositor_balance t d \<le> get_depositor_balance s d) \<and>
        (\<forall>d. 0 \<le> get_depositor_balance s d \<longrightarrow> 0 \<le> get_depositor_balance t d) \<and>
        (\<forall>d. d \<notin> set ds \<longrightarrow> get_depositor_balance t d = get_depositor_balance s d) \<and>
        b + q = a + r \<and> (0 \<le> r \<longrightarrow> 0 \<le> q) \<and>
        (\<Sum>d\<leftarrow>ds. get_depositor_balance t d) = (\<Sum>d\<leftarrow>ds. get_depositor_balance s d) - (b - a))"

lemma absorbs_refl: "absorbs ds (s, a, r) (s, a, r)"
proof -
  have "\<exists>f. s = s\<lparr>ls_dep_balance := f\<rparr>" by (rule exI [of _ "ls_dep_balance s"]) simp
  then show ?thesis by (simp add: absorbs_def)
qed

lemma absorbs_trans:
  assumes "absorbs ds x y" and "absorbs ds y z"
  shows "absorbs ds x z"
proof -
  obtain s a r t b q u c p where xyz: "x = (s, a, r)" "y = (t, b, q)" "z = (u, c, p)"
    by (metis prod_cases3)
  from assms obtain f g where "t = s\<lparr>ls_dep_balance := f\<rparr>" and "u = t\<lparr>ls_dep_balance := g\<rparr>"
    by (auto simp: absorbs_def xyz)
  then have "\<exists>f. u = s\<lparr>ls_dep_balance := f\<rparr>" by auto
  with assms show ?thesis
    unfolding absorbs_def xyz prod.case by (smt (verit))
qed

lemma absorbs_cut:
  assumes "distinct ds" and "d \<in> set ds" and "0 \<le> c" and "c \<le> get_depositor_balance s d" and "c \<le> r"
  shows "absorbs ds (s, a, r) (set_depositor_balance d (get_depositor_balance s d - c) s, a + c, r - c)"
proof -
  let ?b = "get_depositor_balance s"
  have "(\<Sum>x\<leftarrow>ds. (?b(d := ?b d - c)) x) = (\<Sum>x\<leftarrow>ds. ?b x) - c"
    using sum_list_distinct_upd [OF assms(1,2), of ?b "?b d - c"] by linarith
  moreover have "\<exists>f. set_depositor_balance d (?b d - c) s = s\<lparr>ls_dep_balance := f\<rparr>"
    by (auto simp: set_depositor_balance_def)
  ultimately show ?thesis
    using assms by (simp add: absorbs_def balances.rd_wr fun_upd_def)
qed

lemma socialize_pass1_absorbs:
  assumes "distinct ds" and "distinct (map fst rest)" and "fst ` set rest \<subseteq> set ds"
    and "\<forall>(d, bal, share) \<in> set rest. get_depositor_balance s d = bal" and "0 \<le> r"
  shows "absorbs ds (s, a, r) (socialize_pass1 rest (s, a, r))"
  using assms
proof (induction rest arbitrary: s a r)
  case Nil
  show ?case by (simp add: absorbs_refl)
next
  case (Cons x rest)
  obtain d bal share where x: "x = (d, bal, share)" by (metis prod_cases3)
  define cut where "cut = min (min share bal) r"
  show ?case
  proof (cases "0 < cut")
    case False
    with Cons show ?thesis by (simp add: x cut_def [symmetric])
  next
    case True
    let ?s = "set_depositor_balance d (bal - cut) s"
    have cut: "cut \<le> bal" "cut \<le> r" by (auto simp: cut_def)
    have bal: "get_depositor_balance s d = bal" using Cons.prems x by auto
    have "absorbs ds (s, a, r) (?s, a + cut, r - cut)"
      using absorbs_cut [of ds d cut s r a] Cons.prems True cut bal x by auto
    moreover have "absorbs ds (?s, a + cut, r - cut) (socialize_pass1 rest (?s, a + cut, r - cut))"
    proof (rule Cons.IH)
      show "\<forall>(d', bal', share') \<in> set rest. get_depositor_balance ?s d' = bal'"
        using Cons.prems x by (force simp: balances.rd_wr)
    qed (use Cons.prems x cut in auto)
    ultimately have "absorbs ds (s, a, r) (socialize_pass1 rest (?s, a + cut, r - cut))"
      by (rule absorbs_trans)
    with True show ?thesis by (simp add: x cut_def [symmetric])
  qed
qed

lemma socialize_pass2_cut:
  "r \<noteq> 0 \<Longrightarrow> 0 < min (get_depositor_balance s d) r \<Longrightarrow>
   socialize_pass2 (d # rest) (s, a, r) =
     socialize_pass2 rest
       (set_depositor_balance d (get_depositor_balance s d - min (get_depositor_balance s d) r) s,
        a + min (get_depositor_balance s d) r, r - min (get_depositor_balance s d) r)"
  by (simp add: Let_def)

lemma socialize_pass2_skip:
  "r \<noteq> 0 \<Longrightarrow> \<not> 0 < min (get_depositor_balance s d) r \<Longrightarrow>
   socialize_pass2 (d # rest) (s, a, r) = socialize_pass2 rest (s, a, r)"
  by (auto simp: Let_def)

declare socialize_pass2.simps(2) [simp del]

lemma socialize_pass2_done: "socialize_pass2 rest (s, a, 0) = (s, a, 0)"
  by (cases rest) (simp_all add: socialize_pass2.simps(2))

lemma socialize_pass2_absorbs:
  assumes "distinct ds" and "set rest \<subseteq> set ds" and "0 \<le> r"
  shows "absorbs ds (s, a, r) (socialize_pass2 rest (s, a, r))"
  using assms
proof (induction rest arbitrary: s a r)
  case Nil
  show ?case by (simp add: absorbs_refl)
next
  case (Cons d rest)
  define c where "c = min (get_depositor_balance s d) r"
  let ?s = "set_depositor_balance d (get_depositor_balance s d - c) s"
  show ?case
  proof (cases "r = 0 \<or> c \<le> 0")
    case True
    then show ?thesis
    proof
      assume "r = 0"
      then show ?thesis by (simp add: socialize_pass2_done absorbs_refl)
    next
      assume "c \<le> 0"
      with Cons show ?thesis
        by (cases "r = 0") (auto simp: c_def socialize_pass2_done absorbs_refl socialize_pass2_skip)
    qed
  next
    case False
    then have "absorbs ds (s, a, r) (?s, a + c, r - c)"
      using Cons.prems by (intro absorbs_cut) (auto simp: c_def)
    moreover have "absorbs ds (?s, a + c, r - c) (socialize_pass2 rest (?s, a + c, r - c))"
      using Cons.prems by (intro Cons.IH) (auto simp: c_def)
    ultimately have "absorbs ds (s, a, r) (socialize_pass2 rest (?s, a + c, r - c))"
      by (rule absorbs_trans)
    with False show ?thesis by (subst socialize_pass2_cut) (auto simp: c_def)
  qed
qed

text \<open>The second pass leaves nothing over when the balances it visits cover the residual.\<close>

lemma socialize_pass2_exhausts:
  assumes "distinct rest" and "\<forall>d. 0 \<le> get_depositor_balance s d" and "0 \<le> r"
    and "r \<le> (\<Sum>d\<leftarrow>rest. get_depositor_balance s d)"
  shows "snd (snd (socialize_pass2 rest (s, a, r))) = 0"
  using assms
proof (induction rest arbitrary: s a r)
  case Nil
  then show ?case by simp
next
  case (Cons d rest)
  define c where "c = min (get_depositor_balance s d) r"
  let ?s = "set_depositor_balance d (get_depositor_balance s d - c) s"
  have same: "(\<Sum>x\<leftarrow>rest. get_depositor_balance ?s x) = (\<Sum>x\<leftarrow>rest. get_depositor_balance s x)"
    unfolding balances.rd_wr by (rule sum_list_upd_notin) (use Cons.prems(1) in simp)
  have nonneg: "0 \<le> (\<Sum>x\<leftarrow>rest. get_depositor_balance s x)"
    by (rule sum_list_nonneg) (use Cons.prems(2) in auto)
  have c0: "0 \<le> c" using Cons.prems by (simp add: c_def)
  show ?case
  proof (cases "r = 0")
    case True
    then show ?thesis by (simp add: socialize_pass2_done)
  next
    case r: False
    show ?thesis
    proof (cases "0 < c")
      case True
      have "snd (snd (socialize_pass2 rest (?s, a + c, r - c))) = 0"
      proof (rule Cons.IH)
        show "r - c \<le> (\<Sum>x\<leftarrow>rest. get_depositor_balance ?s x)"
          unfolding same using Cons.prems(4) nonneg by (auto simp: c_def)
      qed (use Cons.prems in \<open>auto simp: c_def balances.rd_wr\<close>)
      with True r show ?thesis by (subst socialize_pass2_cut) (auto simp: c_def)
    next
      case False
      then have "get_depositor_balance s d \<le> 0" using c0 r Cons.prems(3) by (auto simp: c_def min_def split: if_splits)
      then have "snd (snd (socialize_pass2 rest (s, a, r))) = 0"
        using Cons.prems by (intro Cons.IH) auto
      with False r show ?thesis by (subst socialize_pass2_skip) (auto simp: c_def)
    qed
  qed
qed

lemma absorbs_frame:
  assumes "absorbs ds (s, a, r) (t, b, q)"
  shows "ls_position t = ls_position s" and "get_depositors t = get_depositors s"
    and "get_total_deposits t = get_total_deposits s"
    and "get_total_borrowed t = get_total_borrowed s" and "ls_calls t = ls_calls s"
    and "ls_market t = ls_market s" and "ls_liq_params t = ls_liq_params s"
  using assms
  by (auto simp: absorbs_def get_depositors_def get_total_deposits_def get_total_borrowed_def)

text \<open>
  The write-off is exact whenever the depositors can carry the loss: the applied amount is the
  loss, and the balances and the total fall by exactly that amount.
\<close>

lemma socialize_exact:
  assumes inv: "pool_inv (get_depositors s) (get_depositor_balance s) (get_total_deposits s) tb P"
    and loss: "0 < loss" "loss \<le> get_total_deposits s"
    and run: "socialize_bad_debt b loss s = (t, applied)"
  obtains "applied = loss"
    and "get_total_deposits t = get_total_deposits s - loss"
    and "get_total_deposits t = (\<Sum>d\<leftarrow>get_depositors s. get_depositor_balance t d)"
    and "\<forall>d. 0 \<le> get_depositor_balance t d \<and> get_depositor_balance t d \<le> get_depositor_balance s d"
    and "\<forall>d. d \<notin> set (get_depositors s) \<longrightarrow> get_depositor_balance t d = 0"
    and "get_depositors t = get_depositors s" and "ls_position t = ls_position s"
    and "get_total_borrowed t = get_total_borrowed s" and "ls_calls t = ls_calls s"
    and "ls_market t = ls_market s" and "ls_liq_params t = ls_liq_params s"
proof -
  let ?ds = "get_depositors s"
  let ?bals = "map (get_depositor_balance s) ?ds"
  define rest where "rest = zip ?ds (zip ?bals (proportional_shares ?bals (get_total_deposits s) loss))"
  have len: "length (proportional_shares ?bals (get_total_deposits s) loss) = length ?ds"
    by (simp add: proportional_shares_def)
  have keys: "map fst rest = ?ds" using len by (simp add: rest_def)
  have vals: "\<forall>(d, bal, share) \<in> set rest. get_depositor_balance s d = bal"
    by (auto simp: rest_def in_set_zip)
  have dist: "distinct ?ds" and nonneg: "\<forall>d. 0 \<le> get_depositor_balance s d"
    and outside: "\<forall>d. d \<notin> set ?ds \<longrightarrow> get_depositor_balance s d = 0"
    and total_sum: "get_total_deposits s = (\<Sum>d\<leftarrow>?ds. get_depositor_balance s d)"
    and big: "in_i128 (get_total_deposits s)"
    by (insert inv, unfold pool_inv_def, blast+)
  have nonempty: "?ds \<noteq> []" using total_sum loss by auto
  obtain s1 a1 r1 where p1: "socialize_pass1 rest (s, 0, loss) = (s1, a1, r1)" by (metis prod_cases3)
  have "fst ` set rest = set ?ds" using keys by (metis set_map)
  then have ab1: "absorbs ?ds (s, 0, loss) (s1, a1, r1)"
    using socialize_pass1_absorbs [of ?ds rest s loss 0] dist keys vals loss(1) p1 by simp
  have sum1: "(\<Sum>d\<leftarrow>?ds. get_depositor_balance s1 d) = (\<Sum>d\<leftarrow>?ds. get_depositor_balance s d) - a1"
    and r1: "0 \<le> r1" "a1 + r1 = loss" and nonneg1: "\<forall>d. 0 \<le> get_depositor_balance s1 d"
    using ab1 loss(1) nonneg by (auto simp: absorbs_def)
  define p2 where "p2 = (if 0 < r1 then socialize_pass2 ?ds (s1, a1, r1) else (s1, a1, r1))"
  obtain s2 a2 r2 where p2': "p2 = (s2, a2, r2)" by (metis prod_cases3)
  have "absorbs ?ds (s1, a1, r1) p2"
    using socialize_pass2_absorbs [OF dist order_refl r1(1)] by (auto simp: p2_def absorbs_refl)
  with ab1 p2' have ab: "absorbs ?ds (s, 0, loss) (s2, a2, r2)" by (metis absorbs_trans)
  have "r1 \<le> (\<Sum>d\<leftarrow>?ds. get_depositor_balance s1 d)"
    using sum1 r1(2) loss(2) total_sum by linarith
  then have "snd (snd p2) = 0"
    using socialize_pass2_exhausts [OF dist nonneg1 r1(1)] r1(1) by (auto simp: p2_def)
  then have a2: "a2 = loss" using ab p2' by (simp add: absorbs_def)
  have bal2: "\<forall>d. 0 \<le> get_depositor_balance s2 d \<and> get_depositor_balance s2 d \<le> get_depositor_balance s d"
    "\<forall>d. d \<notin> set ?ds \<longrightarrow> get_depositor_balance s2 d = 0"
    "(\<Sum>d\<leftarrow>?ds. get_depositor_balance s2 d) = get_total_deposits s - loss"
    using ab nonneg outside total_sum a2 by (simp_all add: absorbs_def)
  note fr = absorbs_frame [OF ab]
  have t: "t = publish [VStr ''bad_debt_socialized''] [VAddr b, VInt a2, VNat (length ?ds)]
      (set_total_deposits (sat_sub (get_total_deposits s2) a2) s2)" and ap: "applied = a2"
  proof -
    have pass1: "socialize_pass1 (zip ?ds (zip ?bals (proportional_shares ?bals (get_total_deposits s) loss)))
        (s, 0, loss) = (s1, a1, r1)"
      using p1 by (simp only: rest_def)
    have "socialize_bad_debt b loss s =
        (publish [VStr ''bad_debt_socialized''] [VAddr b, VInt a2, VNat (length ?ds)]
          (set_total_deposits (sat_sub (get_total_deposits s2) a2) s2), a2)"
      using loss nonempty p2' unfolding p2_def
      by (cases "0 < r1") (simp_all add: socialize_bad_debt_def Let_def pass1)
    with run show "t = publish [VStr ''bad_debt_socialized''] [VAddr b, VInt a2, VNat (length ?ds)]
        (set_total_deposits (sat_sub (get_total_deposits s2) a2) s2)" and "applied = a2"
      by auto
  qed
  have "sat_sub (get_total_deposits s2) a2 = get_total_deposits s - loss"
    using fr(3) a2 loss big by (simp add: sat_sub_id)
  with t ap a2 fr bal2 that show thesis
    by (simp add: publish_def set_total_deposits_def get_total_deposits_def get_total_borrowed_def
        get_depositors_def get_depositor_balance_def)
qed

section \<open>The entry points keep the invariant\<close>

lemmas loan_updates = publish_def set_total_deposits_def set_total_borrowed_def save_position_def
  set_depositor_balance_def set_paused_def set_twap_state_def

lemmas loan_reads = get_depositors_def get_depositor_balance_def get_total_deposits_def
  get_total_borrowed_def get_position_def

lemma client_transfer_Inr [res_simps]:
  "client_transfer e tok a b n s = Inr t \<longleftrightarrow>
     tok_ok e (ls_calls s) \<lparr>xtoken = tok, xfrom = a, xto = b, xamount = n\<rparr> \<and>
     t = s\<lparr>ls_calls := ls_calls s @ [\<lparr>xtoken = tok, xfrom = a, xto = b, xamount = n\<rparr>]\<rparr>"
  by (auto simp: client_transfer_def res_simps)

text \<open>What the invariant reads; two storages that agree on it satisfy it together.\<close>

definition pool_view ::
  "loan_state \<Rightarrow> addr list \<times> (addr \<Rightarrow> int) \<times> int \<times> int \<times> (addr \<Rightarrow> position option)" where
  "pool_view s = (get_depositors s, get_depositor_balance s, get_total_deposits s,
                  get_total_borrowed s, ls_position s)"

lemma pool_ok_view: "pool_view t = pool_view s \<Longrightarrow> pool_ok t = pool_ok s"
  by (simp add: pool_ok_def pool_view_def)

lemma pool_view_reads:
  assumes "pool_view t = pool_view s"
  shows "get_depositors t = get_depositors s" and "get_depositor_balance t = get_depositor_balance s"
    and "get_total_deposits t = get_total_deposits s" and "get_total_borrowed t = get_total_borrowed s"
    and "ls_position t = ls_position s" and "get_position t = get_position s"
  using assms by (auto simp: pool_view_def get_position_pos_of intro!: ext)

lemma pool_view_simps [simp]:
  "pool_view (publish tps dat s) = pool_view s"
  "pool_view (s\<lparr>ls_calls := cs\<rparr>) = pool_view s"
  "pool_view (s\<lparr>ls_market := m\<rparr>) = pool_view s"
  "pool_view (s\<lparr>ls_paused := p\<rparr>) = pool_view s"
  "pool_view (s\<lparr>ls_liq_params := q\<rparr>) = pool_view s"
  "pool_view (s\<lparr>ls_primary := o1, ls_secondary := o2\<rparr>) = pool_view s"
  "pool_view (s\<lparr>ls_admin := a, ls_liq_params := q\<rparr>) = pool_view s"
  "pool_view (set_paused b s) = pool_view s"
  by (auto simp: pool_view_def loan_updates loan_reads)

lemma pool_view_same_pool: "same_pool s t \<Longrightarrow> pool_view t = pool_view s"
  by (auto simp: pool_view_def same_pool_def loan_reads fun_eq_iff)

lemma register_depositor_simps [simp]:
  "ls_calls (register_depositor d s) = ls_calls s"
  "ls_market (register_depositor d s) = ls_market s"
  "ls_liq_params (register_depositor d s) = ls_liq_params s"
  "ls_dep_balance (register_depositor d s) = ls_dep_balance s"
  "ls_total_deposits (register_depositor d s) = ls_total_deposits s"
  "ls_total_borrowed (register_depositor d s) = ls_total_borrowed s"
  "ls_position (register_depositor d s) = ls_position s"
  "get_or [] (ls_depositors (register_depositor d s)) =
     (if d \<in> set (get_or [] (ls_depositors s)) then get_or [] (ls_depositors s)
      else get_or [] (ls_depositors s) @ [d])"
  by (auto simp: register_depositor_def Let_def get_depositors_def)

lemma deposit_cases:
  assumes "deposit e d a s = Inr t"
  obtains m where "d \<in> set (signers e)" and "\<not> is_paused s" and "ls_market s = Some m" and "0 < a"
    and "in_i128 (get_total_deposits s + a)"
    and "ls_calls t = ls_calls s @ [\<lparr>xtoken = debt_token m, xfrom = d, xto = this e, xamount = a\<rparr>]"
    and "ls_market t = ls_market s" and "ls_liq_params t = ls_liq_params s"
    and "pool_view t =
      ((if d \<in> set (get_depositors s) then get_depositors s else get_depositors s @ [d]),
       (get_depositor_balance s)(d := get_depositor_balance s d + a), get_total_deposits s + a,
       get_total_borrowed s, ls_position s)"
  using assms
  by (auto simp: deposit_def res_simps require_not_paused_def require_market_def Let_def not_le
      pool_view_def loan_updates loan_reads fun_eq_iff)

lemma withdraw_cases:
  assumes "withdraw e d a s = Inr t"
  obtains m where "d \<in> set (signers e)" and "\<not> is_paused s" and "ls_market s = Some m" and "0 < a"
    and "a \<le> get_depositor_balance s d"
    and "a \<le> sat_sub (get_total_deposits s) (get_total_borrowed s)"
    and "ls_calls t = ls_calls s @ [\<lparr>xtoken = debt_token m, xfrom = this e, xto = d, xamount = a\<rparr>]"
    and "ls_market t = ls_market s" and "ls_liq_params t = ls_liq_params s"
    and "pool_view t =
      (get_depositors s, (get_depositor_balance s)(d := get_depositor_balance s d - a),
       get_total_deposits s - a, get_total_borrowed s, ls_position s)"
  using assms
  by (auto simp: withdraw_def res_simps require_not_paused_def require_market_def Let_def not_le not_less
      pool_view_def loan_updates loan_reads fun_eq_iff split: if_split_asm)

lemma deposit_collateral_cases:
  assumes "deposit_collateral e u a s = Inr t"
  obtains m where "u \<in> set (signers e)" and "\<not> is_paused s" and "ls_market s = Some m" and "0 < a"
    and "ls_calls t = ls_calls s @ [\<lparr>xtoken = collateral_token m, xfrom = u, xto = this e, xamount = a\<rparr>]"
    and "ls_market t = ls_market s" and "ls_liq_params t = ls_liq_params s"
    and "pool_view t = (get_depositors s, get_depositor_balance s, get_total_deposits s,
       get_total_borrowed s,
       (ls_position s)(u \<mapsto> (get_position s u)\<lparr>collateral := collateral (get_position s u) + a\<rparr>))"
  using assms
  by (auto simp: deposit_collateral_def res_simps require_not_paused_def require_market_def Let_def not_le
      pool_view_def loan_updates loan_reads fun_eq_iff)

lemma repay_cases:
  assumes "repay e u a0 s = Inr t"
  obtains m a where "u \<in> set (signers e)" and "\<not> is_paused s" and "ls_market s = Some m" and "0 < a0"
    and "a = min a0 (debt (get_position s u))" and "a \<noteq> 0"
    and "ls_calls t = ls_calls s @ [\<lparr>xtoken = debt_token m, xfrom = u, xto = this e, xamount = a\<rparr>]"
    and "ls_market t = ls_market s" and "ls_liq_params t = ls_liq_params s"
    and "pool_view t = (get_depositors s, get_depositor_balance s, get_total_deposits s,
       sat_sub (get_total_borrowed s) a,
       (ls_position s)(u \<mapsto> (get_position s u)\<lparr>debt := debt (get_position s u) - a\<rparr>))"
  using assms
  by (auto simp: repay_def res_simps require_not_paused_def require_market_def Let_def not_le
      pool_view_def loan_updates loan_reads fun_eq_iff reduce_borrowed_def split: if_split_asm)

lemma borrow_cases:
  assumes "borrow e u a s = Inr t"
  obtains m s1 s2 pc pd where "u \<in> set (signers e)" and "\<not> is_paused s" and "ls_market s = Some m"
    and "0 < a" and "a \<le> sat_sub (get_total_deposits s) (get_total_borrowed s)"
    and "require_price e (collateral_token m) s = Inr (s1, pc)"
    and "require_price e (debt_token m) s1 = Inr (s2, pd)"
    and "sat_mul (units_to_value (sat_add (debt (get_position s u)) a) pd) BPS_DENOMINATOR
         \<le> sat_mul (units_to_value (collateral (get_position s u)) pc) (int (liq_threshold_bps m))"
    and "ls_calls t = ls_calls s @ [\<lparr>xtoken = debt_token m, xfrom = this e, xto = u, xamount = a\<rparr>]"
    and "ls_market t = ls_market s" and "ls_liq_params t = ls_liq_params s"
    and "pool_view t = (get_depositors s, get_depositor_balance s, get_total_deposits s,
       get_total_borrowed s + a,
       (ls_position s)(u \<mapsto> (get_position s u)\<lparr>debt := debt (get_position s u) + a\<rparr>))"
proof -
  from assms obtain m s1 s2 pc pd where
    pre: "u \<in> set (signers e)" "\<not> is_paused s" "ls_market s = Some m" "0 < a"
      "a \<le> sat_sub (get_total_deposits s) (get_total_borrowed s)"
    and p1: "require_price e (collateral_token m) s = Inr (s1, pc)"
    and p2: "require_price e (debt_token m) s1 = Inr (s2, pd)"
    and healthy: "sat_mul (units_to_value (sat_add (debt (get_position s u)) a) pd) BPS_DENOMINATOR
         \<le> sat_mul (units_to_value (collateral (get_position s u)) pc) (int (liq_threshold_bps m))"
    and t: "t = publish [VStr ''borrowed''] [VAddr u, VInt a]
        (set_total_borrowed (get_total_borrowed s2 + a)
          (save_position u ((get_position s u)\<lparr>debt := debt (get_position s u) + a\<rparr>)
            (s2\<lparr>ls_calls := ls_calls s2 @ [\<lparr>xtoken = debt_token m, xfrom = this e, xto = u, xamount = a\<rparr>]\<rparr>)))"
    by (auto simp: borrow_def res_simps require_not_paused_def require_market_def Let_def not_le not_less
        health_ratio_def get_total_borrowed_def save_position_def split: if_split_asm)
  have "same_pool s s2" using p1 p2 required.fetch2_frame by blast
  then show thesis
    using pre p1 p2 healthy t
    by (intro that) (auto simp: same_pool_def pool_view_def loan_updates loan_reads fun_eq_iff)
qed

lemma withdraw_check_Inr:
  "withdraw_check e m pos a s = Inr t \<longleftrightarrow>
     (if 0 < debt pos
      then \<exists>s1 pc pd. require_price e (collateral_token m) s = Inr (s1, pc) \<and>
             require_price e (debt_token m) s1 = Inr (t, pd) \<and> in_i128 (collateral pos - a) \<and>
             sat_mul (units_to_value (debt pos) pd) BPS_DENOMINATOR
               \<le> sat_mul (units_to_value (collateral pos - a) pc) (int (liq_threshold_bps m))
      else t = s)"
  by (auto simp: withdraw_check_def res_simps Let_def health_ratio_def not_le)

lemma withdraw_check_same_pool: "withdraw_check e m pos a s = Inr t \<Longrightarrow> same_pool s t"
  using required.fetch2_frame by (auto simp: withdraw_check_Inr split: if_split_asm)

lemma withdraw_collateral_cases:
  assumes "withdraw_collateral e u a s = Inr t"
  obtains m where "u \<in> set (signers e)" and "\<not> is_paused s" and "ls_market s = Some m" and "0 < a"
    and "a \<le> collateral (get_position s u)"
    and "0 < debt (get_position s u) \<Longrightarrow> \<exists>s1 s2 pc pd.
        require_price e (collateral_token m) s = Inr (s1, pc) \<and>
        require_price e (debt_token m) s1 = Inr (s2, pd) \<and>
        sat_mul (units_to_value (debt (get_position s u)) pd) BPS_DENOMINATOR
         \<le> sat_mul (units_to_value (collateral (get_position s u) - a) pc) (int (liq_threshold_bps m))"
    and "ls_calls t = ls_calls s @ [\<lparr>xtoken = collateral_token m, xfrom = this e, xto = u, xamount = a\<rparr>]"
    and "ls_market t = ls_market s" and "ls_liq_params t = ls_liq_params s"
    and "pool_view t = (get_depositors s, get_depositor_balance s, get_total_deposits s,
       get_total_borrowed s,
       (ls_position s)(u \<mapsto> (get_position s u)\<lparr>collateral := collateral (get_position s u) - a\<rparr>))"
proof -
  let ?pos = "get_position s u"
  from assms obtain m s2 where
    pre: "u \<in> set (signers e)" "\<not> is_paused s" "ls_market s = Some m" "0 < a" "a \<le> collateral ?pos"
    and chk: "withdraw_check e m ?pos a s = Inr s2"
    and t: "t = publish [VStr ''collateral_withdrawn''] [VAddr u, VInt a]
          (save_position u (?pos\<lparr>collateral := collateral ?pos - a\<rparr>)
            (s2\<lparr>ls_calls := ls_calls s2 @ [\<lparr>xtoken = collateral_token m, xfrom = this e, xto = u, xamount = a\<rparr>]\<rparr>))"
    by (auto simp: withdraw_collateral_def res_simps require_not_paused_def require_market_def Let_def
        not_le not_less split: if_split_asm)
  have "same_pool s s2" using chk by (rule withdraw_check_same_pool)
  then show thesis
    using pre chk t
    by (intro that) (auto simp: same_pool_def pool_view_def loan_updates loan_reads fun_eq_iff withdraw_check_Inr)
qed

section \<open>Liquidation\<close>

definition plan_fits :: "liquidation_plan \<Rightarrow> position \<Rightarrow> bool" where
  "plan_fits plan pos \<longleftrightarrow>
     0 \<le> repay_units plan \<and> 0 \<le> seize_units plan \<and> seize_units plan \<le> collateral pos \<and>
     0 \<le> bad_debt_units plan \<and> repay_units plan + bad_debt_units plan \<le> debt pos"

definition plan_calls :: "addr \<Rightarrow> market \<Rightarrow> addr \<Rightarrow> liquidation_plan \<Rightarrow> transfer list" where
  "plan_calls self m liq plan =
     (if 0 < repay_units plan
      then [\<lparr>xtoken = debt_token m, xfrom = liq, xto = self, xamount = repay_units plan\<rparr>] else []) @
     (if 0 < seize_units plan
      then [\<lparr>xtoken = collateral_token m, xfrom = self, xto = liq, xamount = seize_units plan\<rparr>] else [])"

lemma move_funds_Inr:
  "move_funds e m liq plan s = Inr t \<Longrightarrow> t = s\<lparr>ls_calls := ls_calls s @ plan_calls (this e) m liq plan\<rparr>"
  by (auto simp: move_funds_def plan_calls_def res_simps split: if_split_asm)

lemma pos_of_upd: "pos_of (P(u := x)) = (pos_of P)(u := get_or position_default x)"
  by (auto simp: pos_of_def)

text \<open>Storing the updated position, removed when both components are zero.\<close>

lemma stored_position:
  fixes s :: loan_state and b :: addr
  defines "t c d \<equiv> (if c = 0 \<and> d = 0 then s\<lparr>ls_position := (ls_position s)(b := None)\<rparr>
                else save_position b \<lparr>collateral = c, debt = d\<rparr> s)"
  obtains x where "get_or position_default x = \<lparr>collateral = c, debt = d\<rparr>"
    and "pool_view (t c d) = (get_depositors s, get_depositor_balance s, get_total_deposits s,
           get_total_borrowed s, (ls_position s)(b := x))"
    and "ls_calls (t c d) = ls_calls s" and "ls_market (t c d) = ls_market s"
    and "ls_liq_params (t c d) = ls_liq_params s"
proof (cases "c = 0 \<and> d = 0")
  case True
  then show thesis
    by (intro that [of None]) (auto simp: t_def pool_view_def loan_reads fun_eq_iff position_default_def)
next
  case False
  then show thesis
    by (intro that [of "Some \<lparr>collateral = c, debt = d\<rparr>"])
       (auto simp: t_def pool_view_def loan_updates loan_reads fun_eq_iff)
qed

lemma write_off_cases:
  assumes inv: "pool_inv (get_depositors s) (get_depositor_balance s) (get_total_deposits s) tb P"
    and bad: "0 \<le> bad" "bad \<le> get_total_deposits s"
    and run: "(if 0 < bad then socialize_bad_debt b bad s else (s, 0)) = (t, applied)"
  shows "applied = bad \<and> get_total_deposits t = get_total_deposits s - bad \<and>
    (\<Sum>d\<leftarrow>get_depositors s. get_depositor_balance t d) = get_total_deposits s - bad \<and>
    (\<forall>d. 0 \<le> get_depositor_balance t d) \<and>
    (\<forall>d. d \<notin> set (get_depositors s) \<longrightarrow> get_depositor_balance t d = 0) \<and>
    get_depositors t = get_depositors s \<and> ls_position t = ls_position s \<and>
    get_total_borrowed t = get_total_borrowed s \<and> ls_calls t = ls_calls s \<and>
    ls_market t = ls_market s \<and> ls_liq_params t = ls_liq_params s"
proof (cases "0 < bad")
  case True
  with run have "socialize_bad_debt b bad s = (t, applied)" by simp
  from inv True bad(2) this show ?thesis by (rule socialize_exact) auto
next
  case False
  with run bad(1) have "t = s" "applied = 0" "bad = 0" by auto
  then show ?thesis using pool_invD(2,3) [OF inv] pool_invD(4) [OF inv, symmetric] by simp
qed

lemma pool_inv_write_off:
  assumes inv: "pool_inv deps bal td tb P" and bad: "0 \<le> bad" "0 \<le> rp"
    and le: "rp + bad \<le> debt (pos_of P u)"
    and bal': "\<forall>d. 0 \<le> bal' d" "\<forall>d. d \<notin> set deps \<longrightarrow> bal' d = 0" "(\<Sum>d\<leftarrow>deps. bal' d) = td - bad"
    and x: "0 \<le> collateral (get_or position_default x)"
      "debt (get_or position_default x) = debt (pos_of P u) - (rp + bad)"
  shows "pool_inv deps bal' (td - bad) (tb - (rp + bad)) (P(u := x))"
proof -
  have tb: "pos_sum debt (P(u := x)) = tb - (rp + bad)"
    using pool_invD(6,9) [OF inv] x(2) by (subst pos_sum_upd) auto
  have "0 \<le> td - bad"
    using le bad pool_inv_debt_le [OF inv, of u] pool_invD(10) [OF inv] by linarith
  then have "in_i128 (td - bad)"
    using in_i128_between [of "td - bad" td] pool_invD(5) [OF inv] bad by simp
  moreover have "0 \<le> collateral (pos_of (P(u := x)) v) \<and> 0 \<le> debt (pos_of (P(u := x)) v)" for v
    using pool_invD(7,8) [OF inv] x le by (auto simp: pos_of_upd)
  moreover have "finite (dom (P(u := x)))"
    using pool_invD(6) [OF inv] by simp
  moreover have "tb - (rp + bad) \<le> td - bad"
    using pool_invD(10) [OF inv] bad by linarith
  ultimately show ?thesis
    using pool_invD(1) [OF inv] bal' tb unfolding pool_inv_def by simp
qed

lemma book_plan_cases:
  assumes ok: "pool_ok s" and pos: "pos = get_position s b" and fits: "plan_fits plan pos"
    and run: "book_plan liq b pos plan s = Inr (t, r)"
  obtains "pool_ok t"
    and "get_total_deposits t = get_total_deposits s - bad_debt_units plan"
    and "get_total_borrowed t = get_total_borrowed s - (repay_units plan + bad_debt_units plan)"
    and "get_position t = (get_position s)(b := \<lparr>collateral = collateral pos - seize_units plan,
           debt = debt pos - (repay_units plan + bad_debt_units plan)\<rparr>)"
    and "ls_calls t = ls_calls s" and "ls_market t = ls_market s" and "ls_liq_params t = ls_liq_params s"
    and "r = \<lparr>lr_repay_units = repay_units plan, lr_seize_units = seize_units plan,
           lr_bonus_bps = bonus_bps plan, lr_bad_debt_socialized = bad_debt_units plan\<rparr>"
proof -
  let ?gone = "repay_units plan + bad_debt_units plan"
  let ?bad = "bad_debt_units plan"
  let ?c = "collateral pos - seize_units plan" and ?d = "debt pos - ?gone"
  have inv: "pool_inv (get_depositors s) (get_depositor_balance s) (get_total_deposits s)
      (get_total_borrowed s) (ls_position s)"
    using ok by (simp add: pool_ok_def)
  note nonneg = fits [unfolded plan_fits_def]
  have debt_tb: "debt pos \<le> get_total_borrowed s"
    using pool_inv_debt_le [OF inv, of b] pos by (simp add: get_position_pos_of)
  have td128: "in_i128 (get_total_deposits s)" and tb_td: "get_total_borrowed s \<le> get_total_deposits s"
    using pool_invD(5,10) [OF inv] by simp_all
  have in128: "in_i128 x" if "0 \<le> x" "x \<le> debt pos" for x
    by (rule in_i128_between [OF that(1) _ td128]) (use that debt_tb tb_td in linarith)
  have d_eq: "sat_sub (sat_sub (debt pos) (repay_units plan)) ?bad = ?d"
    using nonneg in128 by (simp add: sat_sub_id)
  have tb128: "in_i128 (get_total_borrowed s)"
    by (rule in_i128_between [OF pool_inv_tb_nonneg [OF inv] tb_td td128])
  have tb_eq: "sat_sub (get_total_borrowed s) ?gone = get_total_borrowed s - ?gone"
    using nonneg debt_tb by (intro sat_sub_id tb128) auto
  define s3 where "s3 = reduce_borrowed ?gone s"
  have reads3: "get_depositors s3 = get_depositors s" "get_depositor_balance s3 = get_depositor_balance s"
    "get_total_deposits s3 = get_total_deposits s" "ls_position s3 = ls_position s"
    "get_total_borrowed s3 = get_total_borrowed s - ?gone" "ls_calls s3 = ls_calls s"
    "ls_market s3 = ls_market s" "ls_liq_params s3 = ls_liq_params s"
    using tb_eq by (auto simp: s3_def reduce_borrowed_def set_total_borrowed_def loan_reads fun_eq_iff)
  obtain s4 soc where sb: "(if 0 < ?bad then socialize_bad_debt b ?bad s3 else (s3, 0)) = (s4, soc)"
    by (metis surj_pair)
  have s4: "soc = ?bad \<and> get_total_deposits s4 = get_total_deposits s - ?bad \<and>
    (\<Sum>d\<leftarrow>get_depositors s. get_depositor_balance s4 d) = get_total_deposits s - ?bad \<and>
    (\<forall>d. 0 \<le> get_depositor_balance s4 d) \<and>
    (\<forall>d. d \<notin> set (get_depositors s) \<longrightarrow> get_depositor_balance s4 d = 0) \<and>
    get_depositors s4 = get_depositors s \<and> ls_position s4 = ls_position s \<and>
    get_total_borrowed s4 = get_total_borrowed s - ?gone \<and> ls_calls s4 = ls_calls s \<and>
    ls_market s4 = ls_market s \<and> ls_liq_params s4 = ls_liq_params s"
    using write_off_cases [of s3 "get_total_borrowed s" "ls_position s" ?bad b s4 soc] inv reads3 sb
      nonneg debt_tb tb_td by simp
  define s5 where "s5 = (if ?c = 0 \<and> ?d = 0 then s4\<lparr>ls_position := (ls_position s4)(b := None)\<rparr>
      else save_position b \<lparr>collateral = ?c, debt = ?d\<rparr> s4)"
  obtain x where x: "get_or position_default x = \<lparr>collateral = ?c, debt = ?d\<rparr>"
    and s5: "pool_view s5 = (get_depositors s4, get_depositor_balance s4, get_total_deposits s4,
           get_total_borrowed s4, (ls_position s4)(b := x))"
      "ls_calls s5 = ls_calls s4" "ls_market s5 = ls_market s4" "ls_liq_params s5 = ls_liq_params s4"
    unfolding s5_def by (rule stored_position)
  have upd: "pos\<lparr>collateral := ?c, debt := ?d\<rparr> = \<lparr>collateral = ?c, debt = ?d\<rparr>" by simp
  have t: "t = publish [VStr ''liquidated'']
        [VAddr b, VAddr liq, VInt (repay_units plan), VInt (seize_units plan), VNat (bonus_bps plan)] s5"
    and r: "r = \<lparr>lr_repay_units = repay_units plan, lr_seize_units = seize_units plan,
        lr_bonus_bps = bonus_bps plan, lr_bad_debt_socialized = soc\<rparr>"
  proof -
    have "in_i128 ?c \<and> in_i128 ?gone"
      using run by (auto simp: book_plan_def bindE_Inr Let_def ck_i128_Inr)
    then have c: "ck_i128 ?c = Inr ?c" and g: "ck_i128 ?gone = Inr ?gone"
      by (simp_all add: ck_i128_def)
    have "book_plan liq b pos plan s =
        Inr (publish [VStr ''liquidated'']
          [VAddr b, VAddr liq, VInt (repay_units plan), VInt (seize_units plan), VNat (bonus_bps plan)] s5,
          \<lparr>lr_repay_units = repay_units plan, lr_seize_units = seize_units plan,
           lr_bonus_bps = bonus_bps plan, lr_bad_debt_socialized = soc\<rparr>)"
      by (simp only: book_plan_def c g bindE_simps Let_def d_eq upd s3_def [symmetric] sb fst_conv
          snd_conv s5_def [symmetric])
    with run show "t = publish [VStr ''liquidated'']
        [VAddr b, VAddr liq, VInt (repay_units plan), VInt (seize_units plan), VNat (bonus_bps plan)] s5"
      and "r = \<lparr>lr_repay_units = repay_units plan, lr_seize_units = seize_units plan,
        lr_bonus_bps = bonus_bps plan, lr_bad_debt_socialized = soc\<rparr>"
      by simp_all
  qed
  have view: "pool_view t = (get_depositors s, get_depositor_balance s4, get_total_deposits s - ?bad,
      get_total_borrowed s - ?gone, (ls_position s)(b := x))"
    using s4 s5(1) by (simp add: t)
  have "pool_inv (get_depositors s) (get_depositor_balance s4) (get_total_deposits s - ?bad)
      (get_total_borrowed s - ?gone) ((ls_position s)(b := x))"
    by (rule pool_inv_write_off [OF inv]) (use nonneg s4 x pos in \<open>auto simp: get_position_pos_of\<close>)
  then have "pool_ok t" using view by (simp add: pool_ok_def pool_view_def)
  moreover have "get_position t = (get_position s)(b := \<lparr>collateral = ?c, debt = ?d\<rparr>)"
  proof -
    have "ls_position t = (ls_position s)(b := x)" using view by (simp add: pool_view_def)
    then show ?thesis by (intro ext) (simp add: get_position_pos_of pos_of_upd x)
  qed
  ultimately show thesis
    using view s4 s5 r by (intro that) (auto simp: pool_view_def t publish_def)
qed

lemma liquidate_cases:
  assumes ok: "pool_ok s" and run: "liquidate e liq b amt s = Inr (t, r)"
  obtains m plan mode s1 s2 rc rd where "liq \<in> set (signers e)" and "\<not> is_paused s"
    and "ls_market s = Some m" and "liq \<noteq> b"
    and "resolve_price e (collateral_token m) s = Inr (s1, rc)"
    and "resolve_price e (debt_token m) s1 = Inr (s2, rd)"
    and "repay_mode_of amt = Inr mode"
    and "compute_plan (collateral (get_position s b)) (debt (get_position s b)) (price rc) (price rd)
           (liq_threshold_bps m) (base_bonus_bps (get_liq_params s)) (max_bonus_bps (get_liq_params s))
           (penalty_cap_bps (get_liq_params s)) mode = Inr plan"
    and "plan_fits plan (get_position s b)" and "0 < repay_units plan + bad_debt_units plan"
    and "pool_ok t"
    and "get_total_deposits t = get_total_deposits s - bad_debt_units plan"
    and "get_total_borrowed t = get_total_borrowed s - (repay_units plan + bad_debt_units plan)"
    and "get_position t = (get_position s)(b :=
           \<lparr>collateral = collateral (get_position s b) - seize_units plan,
            debt = debt (get_position s b) - (repay_units plan + bad_debt_units plan)\<rparr>)"
    and "ls_calls t = ls_calls s @ plan_calls (this e) m liq plan"
    and "ls_market t = ls_market s" and "ls_liq_params t = ls_liq_params s"
    and "r = \<lparr>lr_repay_units = repay_units plan, lr_seize_units = seize_units plan,
           lr_bonus_bps = bonus_bps plan, lr_bad_debt_socialized = bad_debt_units plan\<rparr>"
proof -
  let ?pos = "get_position s b"
  from run obtain m plan mode s1 s2 s3 rc rd where
    pre: "liq \<in> set (signers e)" "\<not> is_paused s" "ls_market s = Some m" "liq \<noteq> b"
    and r1: "resolve_price e (collateral_token m) s = Inr (s1, rc)"
    and r2: "resolve_price e (debt_token m) s1 = Inr (s2, rd)"
    and md: "repay_mode_of amt = Inr mode"
    and pl: "compute_plan (collateral ?pos) (debt ?pos) (price rc) (price rd)
           (liq_threshold_bps m) (base_bonus_bps (get_liq_params s2)) (max_bonus_bps (get_liq_params s2))
           (penalty_cap_bps (get_liq_params s2)) mode = Inr plan"
    and some: "\<not> (repay_units plan = 0 \<and> bad_debt_units plan = 0)"
    and mv: "move_funds e m liq plan s2 = Inr s3"
    and bk: "book_plan liq b ?pos plan s3 = Inr (t, r)"
    by (auto simp: liquidate_def res_simps require_not_paused_def require_market_def Let_def
        split: if_split_asm)
  have same: "same_pool s s2" using resolved.fetch2_frame r1 r2 by blast
  have view2: "pool_view s2 = pool_view s" using same by (rule pool_view_same_pool)
  have s3: "s3 = s2\<lparr>ls_calls := ls_calls s2 @ plan_calls (this e) m liq plan\<rparr>"
    using mv by (rule move_funds_Inr)
  have view3: "pool_view s3 = pool_view s" using view2 by (simp add: s3)
  note tot3 = pool_view_reads [OF view3]
  have ok3: "pool_ok s3" using ok pool_ok_view [OF view3] by simp
  have pos3: "?pos = get_position s3 b" by (simp only: tot3(6))
  have "0 \<le> collateral ?pos" "0 \<le> debt ?pos"
    using pool_invD(7,8) [OF ok [unfolded pool_ok_def], of b] by (simp_all add: get_position_pos_of)
  then have fits: "plan_fits plan ?pos"
    using compute_plan_units [OF pl] by (simp add: plan_fits_def)
  have gp: "get_liq_params s2 = get_liq_params s"
    using same by (simp add: same_pool_def get_liq_params_def)
  from ok3 pos3 fits bk show thesis
  proof (rule book_plan_cases)
    assume res: "pool_ok t"
      "get_total_deposits t = get_total_deposits s3 - bad_debt_units plan"
      "get_total_borrowed t = get_total_borrowed s3 - (repay_units plan + bad_debt_units plan)"
      "get_position t = (get_position s3)(b := \<lparr>collateral = collateral ?pos - seize_units plan,
           debt = debt ?pos - (repay_units plan + bad_debt_units plan)\<rparr>)"
      "ls_calls t = ls_calls s3" "ls_market t = ls_market s3" "ls_liq_params t = ls_liq_params s3"
      "r = \<lparr>lr_repay_units = repay_units plan, lr_seize_units = seize_units plan,
           lr_bonus_bps = bonus_bps plan, lr_bad_debt_socialized = bad_debt_units plan\<rparr>"
    have "ls_calls t = ls_calls s @ plan_calls (this e) m liq plan" "ls_market t = ls_market s"
      "ls_liq_params t = ls_liq_params s"
      using res same s3 by (simp_all add: same_pool_def)
    moreover have "0 < repay_units plan + bad_debt_units plan"
      using some fits by (auto simp: plan_fits_def)
    ultimately show thesis
      using that [of m s1 rc s2 rd mode plan] pre r1 r2 md pl [unfolded gp] fits res(1,8)
        res(2,3,4) [unfolded tot3] by blast
  qed
qed

end
