(* ===== verification/LoanSafety.thy ===== *)
theory LoanSafety
  imports LoanPool
begin

text \<open>
  The loan manager as a transition system: its calls, the invariant that every call keeps, and the
  flow of the two market tokens through the contract. The invariant needs no assumption on the
  market, the feeds or the tokens. The flow equations fix the market (the admin can replace the
  pair of tokens at any time, which re-denominates every open position) and assume that the
  contract's own address signs no call, as the host guarantees.
\<close>

section \<open>Calls\<close>

datatype loan_call =
    CInit addr
  | CSetOracles addr "addr option" "addr option"
  | CSetMarket addr addr addr nat
  | CSetLiqParams addr nat nat nat
  | CPause addr
  | CUnpause addr
  | CDeposit addr int
  | CWithdraw addr int
  | CDepositCollateral addr int
  | CBorrow addr int
  | CRepay addr int
  | CWithdrawCollateral addr int
  | CLiquidate addr addr int
  | CRecordPrice addr
  | CHealthFactor addr
  | CPreviewPrice addr

definition state_of :: "('s \<times> 'r) res \<Rightarrow> 's res" where
  "state_of m = bindE m (\<lambda>x. Inr (fst x))"

lemma state_of_Inr [res_simps]: "state_of m = Inr t \<longleftrightarrow> (\<exists>r. m = Inr (t, r))"
  by (auto simp: state_of_def bindE_Inr)

fun loan_exec :: "loan_env \<Rightarrow> loan_call \<Rightarrow> loan_state \<Rightarrow> loan_state res" where
  "loan_exec e (CInit a) s = init e a s"
| "loan_exec e (CSetOracles a p q) s = set_oracles e a p q s"
| "loan_exec e (CSetMarket a c d thr) s = set_market e a c d thr s"
| "loan_exec e (CSetLiqParams a b m c) s = set_liq_params e a b m c s"
| "loan_exec e (CPause a) s = pause e a s"
| "loan_exec e (CUnpause a) s = unpause e a s"
| "loan_exec e (CDeposit d n) s = deposit e d n s"
| "loan_exec e (CWithdraw d n) s = withdraw e d n s"
| "loan_exec e (CDepositCollateral u n) s = deposit_collateral e u n s"
| "loan_exec e (CBorrow u n) s = borrow e u n s"
| "loan_exec e (CRepay u n) s = repay e u n s"
| "loan_exec e (CWithdrawCollateral u n) s = withdraw_collateral e u n s"
| "loan_exec e (CLiquidate l b n) s = state_of (liquidate e l b n s)"
| "loan_exec e (CRecordPrice a) s = record_price e a s"
| "loan_exec e (CHealthFactor u) s = state_of (health_factor e u s)"
| "loan_exec e (CPreviewPrice a) s = state_of (preview_price e a s)"

inductive loan_step :: "loan_state \<Rightarrow> loan_state \<Rightarrow> bool" where
  loan_call: "loan_exec e c s = Inr t \<Longrightarrow> loan_step s t"

inductive_simps loan_step_iff: "loan_step s t"

definition loan_start :: "loan_state \<Rightarrow> bool" where
  "loan_start s \<longleftrightarrow> s = loan_empty"

section \<open>Every call keeps the invariant\<close>

definition params_ok :: "loan_state \<Rightarrow> bool" where
  "params_ok s \<longleftrightarrow>
     base_bonus_bps (get_liq_params s) \<le> max_bonus_bps (get_liq_params s) \<and>
     max_bonus_bps (get_liq_params s) \<le> MAX_CONFIGURABLE_BONUS_BPS \<and>
     penalty_cap_bps (get_liq_params s) \<le> MAX_CONFIGURABLE_BONUS_BPS"

definition loan_inv :: "loan_state \<Rightarrow> bool" where
  "loan_inv s \<longleftrightarrow> pool_ok s \<and> params_ok s"

lemma pool_ok_viewI: "pool_ok s \<Longrightarrow> pool_view t = pool_view s \<Longrightarrow> pool_ok t"
  using pool_ok_view by blast

lemma pool_ok_of_view:
  "pool_view t = (deps, bal, td, tb, P) \<Longrightarrow> pool_inv deps bal td tb P \<Longrightarrow> pool_ok t"
  by (auto simp: pool_ok_def pool_view_def)

lemma pool_view_admin [simp]: "pool_view (s\<lparr>ls_admin := a\<rparr>) = pool_view s"
  by (auto simp: pool_view_def loan_reads)

lemma admin_calls_view:
  "init e a s = Inr t \<Longrightarrow> pool_view t = pool_view s \<and> ls_calls t = ls_calls s \<and> ls_market t = ls_market s"
  "set_oracles e a p q s = Inr t \<Longrightarrow> pool_view t = pool_view s \<and> ls_calls t = ls_calls s \<and> ls_market t = ls_market s"
  "set_liq_params e a b mx c s = Inr t \<Longrightarrow> pool_view t = pool_view s \<and> ls_calls t = ls_calls s \<and> ls_market t = ls_market s"
  "pause e a s = Inr t \<Longrightarrow> pool_view t = pool_view s \<and> ls_calls t = ls_calls s \<and> ls_market t = ls_market s"
  "unpause e a s = Inr t \<Longrightarrow> pool_view t = pool_view s \<and> ls_calls t = ls_calls s \<and> ls_market t = ls_market s"
  "set_market e a cc dd thr s = Inr t \<Longrightarrow> pool_view t = pool_view s"
  by (auto simp: init_def set_oracles_def set_liq_params_def pause_def unpause_def set_market_def
      res_simps split: if_split_asm)
     (simp_all add: publish_def set_paused_def)

lemma price_calls_same_pool:
  "record_price e a s = Inr t \<Longrightarrow> same_pool s t"
  "health_factor e u s = Inr (t, r) \<Longrightarrow> same_pool s t"
  "preview_price e a s = Inr (t, q) \<Longrightarrow> same_pool s t"
proof -
  show "record_price e a s = Inr t \<Longrightarrow> same_pool s t"
    by (auto simp: record_price_def res_simps dest: resolved.fetch_frame)
  show "health_factor e u s = Inr (t, r) \<Longrightarrow> same_pool s t"
    using required.fetch2_frame by (auto simp: health_factor_def res_simps Let_def split: if_split_asm)
  show "preview_price e a s = Inr (t, q) \<Longrightarrow> same_pool s t"
    by (simp add: preview_price_def resolved.fetch_frame)
qed

lemma quiet_ok:
  "pool_ok s \<Longrightarrow> init e a s = Inr t \<Longrightarrow> pool_ok t"
  "pool_ok s \<Longrightarrow> set_oracles e a p q s = Inr t \<Longrightarrow> pool_ok t"
  "pool_ok s \<Longrightarrow> set_market e a cc dd thr s = Inr t \<Longrightarrow> pool_ok t"
  "pool_ok s \<Longrightarrow> set_liq_params e a b mx c s = Inr t \<Longrightarrow> pool_ok t"
  "pool_ok s \<Longrightarrow> pause e a s = Inr t \<Longrightarrow> pool_ok t"
  "pool_ok s \<Longrightarrow> unpause e a s = Inr t \<Longrightarrow> pool_ok t"
  "pool_ok s \<Longrightarrow> record_price e a s = Inr t \<Longrightarrow> pool_ok t"
  "pool_ok s \<Longrightarrow> health_factor e u s = Inr (t, r) \<Longrightarrow> pool_ok t"
  "pool_ok s \<Longrightarrow> preview_price e a s = Inr (t, r') \<Longrightarrow> pool_ok t"
  by (auto dest!: admin_calls_view price_calls_same_pool [THEN pool_view_same_pool]
      elim!: pool_ok_viewI)

lemma deposit_ok: "pool_ok s \<Longrightarrow> deposit e d a s = Inr t \<Longrightarrow> pool_ok t"
  by (erule deposit_cases) (auto simp: pool_ok_def intro: pool_ok_of_view [unfolded pool_ok_def] pool_inv_credit)

lemma withdraw_ok: "pool_ok s \<Longrightarrow> withdraw e d a s = Inr t \<Longrightarrow> pool_ok t"
proof (erule withdraw_cases)
  fix m
  assume ok: "pool_ok s" and a: "0 < a" "a \<le> get_depositor_balance s d"
    "a \<le> sat_sub (get_total_deposits s) (get_total_borrowed s)"
    and v: "pool_view t = (get_depositors s, (get_depositor_balance s)(d := get_depositor_balance s d - a),
       get_total_deposits s - a, get_total_borrowed s, ls_position s)"
  note inv = ok [unfolded pool_ok_def]
  from a(3) have "a \<le> get_total_deposits s - get_total_borrowed s" by (simp only: pool_inv_free [OF inv])
  with pool_inv_debit [OF inv a(1,2)] v show "pool_ok t" by (simp only: pool_ok_of_view)
qed

lemma deposit_collateral_ok: "pool_ok s \<Longrightarrow> deposit_collateral e u a s = Inr t \<Longrightarrow> pool_ok t"
proof (erule deposit_collateral_cases)
  fix m
  assume ok: "pool_ok s" and a: "0 < a"
    and v: "pool_view t = (get_depositors s, get_depositor_balance s, get_total_deposits s,
       get_total_borrowed s,
       (ls_position s)(u \<mapsto> (get_position s u)\<lparr>collateral := collateral (get_position s u) + a\<rparr>))"
  note inv = ok [unfolded pool_ok_def]
  show "pool_ok t"
    by (rule pool_ok_of_view [OF v], rule pool_inv_position [OF inv])
       (use a pool_invD(7,8,10) [OF inv] in \<open>auto simp: get_position_pos_of\<close>)
qed

lemma borrow_ok: "pool_ok s \<Longrightarrow> borrow e u a s = Inr t \<Longrightarrow> pool_ok t"
proof (erule borrow_cases)
  assume ok: "pool_ok s" and a: "0 < a" "a \<le> sat_sub (get_total_deposits s) (get_total_borrowed s)"
    and v: "pool_view t = (get_depositors s, get_depositor_balance s, get_total_deposits s,
       get_total_borrowed s + a,
       (ls_position s)(u \<mapsto> (get_position s u)\<lparr>debt := debt (get_position s u) + a\<rparr>))"
  note inv = ok [unfolded pool_ok_def]
  from a(2) have "get_total_borrowed s + a \<le> get_total_deposits s" by (simp add: pool_inv_free [OF inv])
  then show "pool_ok t"
    by (intro pool_ok_of_view [OF v] pool_inv_position [OF inv])
       (use a pool_invD(7,8) [OF inv, of u] in \<open>auto simp: get_position_pos_of\<close>)
qed

lemma repay_ok: "pool_ok s \<Longrightarrow> repay e u a0 s = Inr t \<Longrightarrow> pool_ok t"
proof (erule repay_cases)
  fix m a
  assume ok: "pool_ok s" and a: "0 < a0" "a = min a0 (debt (get_position s u))"
    and v: "pool_view t = (get_depositors s, get_depositor_balance s, get_total_deposits s,
       sat_sub (get_total_borrowed s) a,
       (ls_position s)(u \<mapsto> (get_position s u)\<lparr>debt := debt (get_position s u) - a\<rparr>))"
  note inv = ok [unfolded pool_ok_def]
  have d: "0 \<le> debt (get_position s u)" "debt (get_position s u) \<le> get_total_borrowed s"
    using pool_invD(8) [OF inv, of u] pool_inv_debt_le [OF inv, of u] by (simp_all add: get_position_pos_of)
  have "in_i128 (get_total_borrowed s)"
    by (rule in_i128_between [OF pool_inv_tb_nonneg [OF inv] pool_invD(10) [OF inv] pool_invD(5) [OF inv]])
  then have tb: "sat_sub (get_total_borrowed s) a = get_total_borrowed s - a"
    using a d by (intro sat_sub_id) auto
  show "pool_ok t"
    by (rule pool_ok_of_view [OF v], rule pool_inv_position [OF inv])
       (use a d tb pool_invD(7,10) [OF inv] in \<open>auto simp: get_position_pos_of\<close>)
qed

lemma withdraw_collateral_ok: "pool_ok s \<Longrightarrow> withdraw_collateral e u a s = Inr t \<Longrightarrow> pool_ok t"
proof (erule withdraw_collateral_cases)
  fix m
  assume ok: "pool_ok s" and a: "0 < a" "a \<le> collateral (get_position s u)"
    and v: "pool_view t = (get_depositors s, get_depositor_balance s, get_total_deposits s,
       get_total_borrowed s,
       (ls_position s)(u \<mapsto> (get_position s u)\<lparr>collateral := collateral (get_position s u) - a\<rparr>))"
  note inv = ok [unfolded pool_ok_def]
  show "pool_ok t"
    by (rule pool_ok_of_view [OF v], rule pool_inv_position [OF inv])
       (use a pool_invD(7,8,10) [OF inv] in \<open>auto simp: get_position_pos_of\<close>)
qed

lemma liquidate_ok: "pool_ok s \<Longrightarrow> liquidate e l b n s = Inr (t, r) \<Longrightarrow> pool_ok t"
  by (erule liquidate_cases)

text \<open>The parameters change in \<open>init\<close> and \<open>set_liq_params\<close> only.\<close>

lemma get_liq_params_frame:
  "ls_liq_params t = ls_liq_params s \<Longrightarrow> get_liq_params t = get_liq_params s"
  by (simp add: get_liq_params_def)

lemma params_frame:
  "deposit e d n s = Inr t \<Longrightarrow> ls_liq_params t = ls_liq_params s"
  "withdraw e d n s = Inr t \<Longrightarrow> ls_liq_params t = ls_liq_params s"
  "deposit_collateral e d n s = Inr t \<Longrightarrow> ls_liq_params t = ls_liq_params s"
  "repay e d n s = Inr t \<Longrightarrow> ls_liq_params t = ls_liq_params s"
  "borrow e d n s = Inr t \<Longrightarrow> ls_liq_params t = ls_liq_params s"
  "withdraw_collateral e d n s = Inr t \<Longrightarrow> ls_liq_params t = ls_liq_params s"
  by (erule deposit_cases withdraw_cases deposit_collateral_cases repay_cases borrow_cases
      withdraw_collateral_cases; assumption)+

lemma params_frame_liquidate:
  "pool_ok s \<Longrightarrow> liquidate e l b n s = Inr (t, r) \<Longrightarrow> ls_liq_params t = ls_liq_params s"
  by (erule liquidate_cases)

lemma params_frame_admin:
  "set_oracles e a p q s = Inr t \<Longrightarrow> ls_liq_params t = ls_liq_params s"
  "set_market e a cc dd thr s = Inr t \<Longrightarrow> ls_liq_params t = ls_liq_params s"
  "pause e a s = Inr t \<Longrightarrow> ls_liq_params t = ls_liq_params s"
  "unpause e a s = Inr t \<Longrightarrow> ls_liq_params t = ls_liq_params s"
  by (auto simp: set_oracles_def set_market_def pause_def unpause_def res_simps publish_def
      set_paused_def split: if_split_asm)

lemma loan_exec_pool_ok: "pool_ok s \<Longrightarrow> loan_exec e c s = Inr t \<Longrightarrow> pool_ok t"
proof -
  assume ok: "pool_ok s" and run: "loan_exec e c s = Inr t"
  show ?thesis
    using ok run by (cases c; simp only: loan_exec.simps state_of_Inr)
      (blast intro: quiet_ok deposit_ok withdraw_ok deposit_collateral_ok borrow_ok repay_ok
        withdraw_collateral_ok liquidate_ok)+
qed

lemma loan_exec_params_ok: "loan_inv s \<Longrightarrow> loan_exec e c s = Inr t \<Longrightarrow> params_ok t"
proof -
  assume ok: "loan_inv s" and run: "loan_exec e c s = Inr t"
  have keep: ?thesis if "ls_liq_params t = ls_liq_params s"
    using ok get_liq_params_frame [OF that] by (simp add: params_ok_def loan_inv_def)
  show ?thesis
  proof (cases c)
    case (CInit a)
    with run have "get_liq_params t = liq_params_default"
      by (auto simp: init_def res_simps get_liq_params_def publish_def split: if_split_asm)
    then show ?thesis by (simp add: params_ok_def liq_params_default_def loan_consts)
  next
    case (CSetLiqParams a b m p)
    with run show ?thesis
      by (auto simp: set_liq_params_def res_simps get_liq_params_def publish_def params_ok_def
          split: if_split_asm)
  next
    case (CLiquidate l b n)
    with run ok show ?thesis
      by (intro keep) (auto simp: state_of_Inr loan_inv_def dest: params_frame_liquidate)
  next
    case (CRecordPrice a)
    with run show ?thesis
      by (intro keep) (auto dest: price_calls_same_pool simp: same_pool_def)
  next
    case (CHealthFactor a)
    with run show ?thesis
      by (intro keep) (auto simp: state_of_Inr same_pool_def dest: price_calls_same_pool)
  next
    case (CPreviewPrice a)
    with run show ?thesis
      by (intro keep) (auto simp: state_of_Inr same_pool_def dest: price_calls_same_pool)
  qed (use run in \<open>simp_all only: loan_exec.simps\<close>,
       auto intro!: keep dest: params_frame params_frame_admin)
qed

lemma pool_inv_empty: "pool_inv [] (\<lambda>_. 0) 0 0 Map.empty"
  by (simp add: pool_inv_def pos_sum_def pos_of_def position_default_def in_i128_def width_defs)

lemma loan_inv_empty: "loan_inv loan_empty"
proof -
  have "pool_ok loan_empty"
  proof -
    have "get_depositor_balance loan_empty = (\<lambda>_. 0)"
      by (simp add: loan_empty_def loan_reads fun_eq_iff)
    then show ?thesis using pool_inv_empty by (simp add: pool_ok_def) (simp add: loan_empty_def loan_reads)
  qed
  moreover have "params_ok loan_empty"
    by (simp add: params_ok_def loan_empty_def get_liq_params_def liq_params_default_def loan_consts)
  ultimately show ?thesis by (simp add: loan_inv_def)
qed

interpretation loan: invariant_system loan_start loan_step loan_inv
proof
  show "loan_start s \<Longrightarrow> loan_inv s" for s
    by (simp add: loan_start_def loan_inv_empty)
  show "loan_inv s \<Longrightarrow> loan_step s t \<Longrightarrow> loan_inv t" for s t
    by (auto simp: loan_step_iff loan_inv_def intro: loan_exec_pool_ok loan_exec_params_ok [unfolded loan_inv_def])
qed

section \<open>Runs\<close>

fun loan_run :: "(loan_env \<times> loan_call) list \<Rightarrow> loan_state \<Rightarrow> loan_state res" where
  "loan_run [] s = Inr s"
| "loan_run ((e, c) # cs) s = bindE (loan_exec e c s) (loan_run cs)"

lemma loan_run_reach:
  "loan_run cs s = Inr t \<Longrightarrow> reach loan_start loan_step s \<Longrightarrow> reach loan_start loan_step t"
proof (induction cs arbitrary: s)
  case Nil
  then show ?case by simp
next
  case (Cons ec cs)
  obtain e c where ec: "ec = (e, c)" by (cases ec)
  with Cons.prems(1) obtain u where u: "loan_exec e c s = Inr u" "loan_run cs u = Inr t"
    by (auto simp: bindE_Inr)
  have "reach loan_start loan_step u"
    by (rule reach_step [OF Cons.prems(2) loan_call [OF u(1)]])
  with Cons.IH u(2) show ?case by blast
qed

text \<open>
  A small market used by the witnesses: account 0 is the admin, 1 supplies liquidity, 2 borrows,
  3 liquidates; 10 is the collateral token, 11 the debt token, 20 the feed and 99 the contract.
  The feed answers the prices given, at the time of the call.
\<close>

definition demo_env :: "nat \<Rightarrow> addr list \<Rightarrow> int \<Rightarrow> int \<Rightarrow> loan_env" where
  "demo_env now sg pc pd =
     \<lparr>timestamp = now, sequence = 1, signers = sg, this = Address 99, tok_ok = (\<lambda>_ _. True),
      latest_price = (\<lambda>orc a. if a = Address 10 then Some (pc, now) else Some (pd, now))\<rparr>"


declare demo_env_def [eval_defs]

definition demo_open :: "(loan_env \<times> loan_call) list" where
  "demo_open =
     (let adm = demo_env 1000 [Address 0] 100000000 50000000 in
      [(adm, CInit (Address 0)),
       (adm, CSetMarket (Address 0) (Address 10) (Address 11) 8000),
       (adm, CSetOracles (Address 0) (Some (Address 20)) None)])"

definition demo_lent :: "(loan_env \<times> loan_call) list" where
  "demo_lent =
     [(demo_env 1000 [Address 1] 100000000 50000000, CDeposit (Address 1) 10000),
      (demo_env 1000 [Address 2] 100000000 50000000, CDepositCollateral (Address 2) 1000),
      (demo_env 1000 [Address 2] 100000000 50000000, CBorrow (Address 2) 1500)]"

lemmas demo_defs = demo_open_def demo_lent_def

text \<open>The storage after the market is opened, funded and lent from.\<close>

definition demo_state :: loan_state where
  "demo_state =
     \<lparr>ls_admin = Some (Address 0), ls_paused = None,
      ls_market = Some \<lparr>collateral_token = Address 10, debt_token = Address 11, liq_threshold_bps = 8000\<rparr>,
      ls_primary = Some (Address 20), ls_secondary = None,
      ls_position = [Address 2 \<mapsto> \<lparr>collateral = 1000, debt = 1500\<rparr>],
      ls_dep_balance = [Address 1 \<mapsto> 10000], ls_depositors = Some [Address 1],
      ls_total_deposits = Some 10000, ls_total_borrowed = Some 1500,
      ls_twap =
        [Address 10 \<mapsto> \<lparr>last_ts = 1000, last_price = 100000000, cumulative = 0,
            last_snapshot_ts = 0, snapshots = []\<rparr>,
         Address 11 \<mapsto> \<lparr>last_ts = 1000, last_price = 50000000, cumulative = 0,
            last_snapshot_ts = 0, snapshots = []\<rparr>],
      ls_liq_params = Some \<lparr>base_bonus_bps = 500, max_bonus_bps = 1500, penalty_cap_bps = 2000\<rparr>,
      ls_fallback_count = None,
      ls_calls =
        [\<lparr>xtoken = Address 11, xfrom = Address 1, xto = Address 99, xamount = 10000\<rparr>,
         \<lparr>xtoken = Address 10, xfrom = Address 2, xto = Address 99, xamount = 1000\<rparr>,
         \<lparr>xtoken = Address 11, xfrom = Address 99, xto = Address 2, xamount = 1500\<rparr>],
      ls_events =
        [Event [VStr ''initialized''] [VAddr (Address 0)],
         Event [VStr ''market_set''] [VAddr (Address 10), VAddr (Address 11), VNat 8000],
         Event [VStr ''oracles_set''] [VAddr (Address 20), VNone],
         Event [VStr ''liquidity_deposited''] [VAddr (Address 1), VInt 10000],
         Event [VStr ''collateral_added''] [VAddr (Address 2), VInt 1000],
         Event [VStr ''borrowed''] [VAddr (Address 2), VInt 1500]]\<rparr>"

declare demo_state_def [eval_defs]

lemma demo_run: "loan_run (demo_open @ demo_lent) loan_empty = Inr demo_state"
  by (simp add: demo_defs eval_defs cong: eval_cong)

lemma demo_reach: "reach loan_start loan_step demo_state"
  by (rule loan_run_reach [OF demo_run reach_start]) (simp add: loan_start_def)

section \<open>Flows of the market tokens\<close>

definition market_flows :: "addr \<Rightarrow> market \<Rightarrow> loan_state \<Rightarrow> bool" where
  "market_flows self m s \<longleftrightarrow>
     ls_market s = Some m \<and> collateral_token m \<noteq> debt_token m \<and>
     net_flow (debt_token m) self (ls_calls s) = get_total_deposits s - get_total_borrowed s \<and>
     net_flow (collateral_token m) self (ls_calls s) = pos_sum collateral (ls_position s)"

text \<open>Calls that keep the market, made by accounts other than the contract itself.\<close>

fun keeps_market :: "loan_call \<Rightarrow> bool" where
  "keeps_market (CSetMarket a c d thr) = False"
| "keeps_market c = True"

inductive fixed_step :: "addr \<Rightarrow> loan_state \<Rightarrow> loan_state \<Rightarrow> bool" for self where
  fixed_call: "this e = self \<Longrightarrow> self \<notin> set (signers e) \<Longrightarrow> keeps_market c \<Longrightarrow>
     loan_exec e c s = Inr t \<Longrightarrow> fixed_step self s t"

inductive_cases fixed_stepE: "fixed_step self s t"

lemma market_flows_view:
  assumes "market_flows self m s" and "pool_view t = pool_view s" and "ls_calls t = ls_calls s"
    and "ls_market t = ls_market s"
  shows "market_flows self m t"
  using assms(1,3,4) pool_view_reads(3-5) [OF assms(2)] by (simp add: market_flows_def)

lemma market_flows_same_pool: "market_flows self m s \<Longrightarrow> same_pool s t \<Longrightarrow> market_flows self m t"
  by (erule market_flows_view) (simp_all add: pool_view_same_pool, simp_all add: same_pool_def)

lemma pool_ok_finite: "pool_ok s \<Longrightarrow> finite (dom (ls_position s))"
  using pool_invD(6) by (auto simp: pool_ok_def)

lemma flow1_simps:
  "flow1 tok who \<lparr>xtoken = tk, xfrom = a, xto = b, xamount = n\<rparr> =
     (if tk = tok then (if b = who then n else 0) - (if a = who then n else 0) else 0)"
  by (simp add: flow1_def)

text \<open>A call that makes one transfer and one change of position or liquidity.\<close>

lemma market_flows_step:
  assumes fl: "market_flows self m s" and fin: "finite (dom (ls_position s))"
    and calls: "ls_calls t = ls_calls s @ xs" and mk: "ls_market t = ls_market s"
    and d: "net_flow (debt_token m) self xs
        = (get_total_deposits t - get_total_borrowed t) - (get_total_deposits s - get_total_borrowed s)"
    and c: "net_flow (collateral_token m) self xs
        = pos_sum collateral (ls_position t) - pos_sum collateral (ls_position s)"
  shows "market_flows self m t"
  using fl calls mk d c by (auto simp: market_flows_def net_flow_def)

lemma pos_sum_pos_of:
  assumes "finite (dom P)" and "finite (dom Q)" and "f position_default = 0"
    and upd: "pos_of Q = (pos_of P)(u := p)"
  shows "pos_sum f Q = pos_sum f P - f (pos_of P u) + f p"
proof -
  let ?A = "insert u (dom P \<union> dom Q)"
  have "pos_sum f Q = (\<Sum>v\<in>?A. ((\<lambda>v. f (pos_of P v))(u := f p)) v)"
    using assms(1-3) by (subst pos_sum_superset [of ?A]) (auto simp: upd intro!: sum.cong)
  also have "\<dots> = (\<Sum>v\<in>?A. f (pos_of P v)) - f (pos_of P u) + f p"
    by (rule sum_upd) (use assms(1,2) in auto)
  also have "(\<Sum>v\<in>?A. f (pos_of P v)) = pos_sum f P"
    by (rule pos_sum_superset [symmetric]) (use assms in auto)
  finally show ?thesis .
qed

lemma collateral_sum_step:
  assumes "pool_ok s" and "pool_ok t" and "get_position t = (get_position s)(u := p)"
  shows "pos_sum collateral (ls_position t)
    = pos_sum collateral (ls_position s) - collateral (get_position s u) + collateral p"
  using pos_sum_pos_of [OF pool_ok_finite [OF assms(1)] pool_ok_finite [OF assms(2)], of collateral u p]
    assms(3) by (simp add: get_position_pos_of fun_eq_iff)

text \<open>What a returned call did to the accounts, in the terms of the flow equations.\<close>

lemma deposit_flows:
  assumes "market_flows self m s" and "deposit e d a s = Inr t" and "this e = self"
    and "self \<notin> set (signers e)"
  shows "market_flows self m t"
  using assms(2)
proof (cases rule: deposit_cases)
  case (1 m')
  from 1(9) have v: "get_total_deposits t = get_total_deposits s + a"
    "get_total_borrowed t = get_total_borrowed s" "ls_position t = ls_position s"
    by (simp_all add: pool_view_def)
  have "m' = m" "d \<noteq> self" using assms 1 by (auto simp: market_flows_def)
  with assms 1(6,7) v show ?thesis by (auto simp: market_flows_def flow1_simps)
qed

lemma withdraw_flows:
  assumes "market_flows self m s" and "withdraw e d a s = Inr t" and "this e = self"
    and "self \<notin> set (signers e)"
  shows "market_flows self m t"
  using assms(2)
proof (cases rule: withdraw_cases)
  case (1 m')
  from 1(10) have v: "get_total_deposits t = get_total_deposits s - a"
    "get_total_borrowed t = get_total_borrowed s" "ls_position t = ls_position s"
    by (simp_all add: pool_view_def)
  have "m' = m" "d \<noteq> self" using assms 1 by (auto simp: market_flows_def)
  with assms 1(7,8) v show ?thesis by (auto simp: market_flows_def flow1_simps)
qed

lemma deposit_collateral_flows:
  assumes "market_flows self m s" and "deposit_collateral e u a s = Inr t" and "this e = self"
    and "self \<notin> set (signers e)" and "pool_ok s"
  shows "market_flows self m t"
  using assms(2)
proof (cases rule: deposit_collateral_cases)
  case (1 m')
  from 1(8) have v: "get_total_deposits t = get_total_deposits s"
    "get_total_borrowed t = get_total_borrowed s"
    "pos_sum collateral (ls_position t) = pos_sum collateral (ls_position s) + a"
    by (simp_all add: pool_view_def pos_sum_upd pool_ok_finite [OF assms(5)] get_position_pos_of)
  have "m' = m" "u \<noteq> self" using assms 1 by (auto simp: market_flows_def)
  with assms 1(5,6) v show ?thesis by (auto simp: market_flows_def flow1_simps)
qed

lemma withdraw_collateral_flows:
  assumes "market_flows self m s" and "withdraw_collateral e u a s = Inr t" and "this e = self"
    and "self \<notin> set (signers e)" and "pool_ok s"
  shows "market_flows self m t"
  using assms(2)
proof (cases rule: withdraw_collateral_cases)
  case (1 m')
  from 1(10) have v: "get_total_deposits t = get_total_deposits s"
    "get_total_borrowed t = get_total_borrowed s"
    "pos_sum collateral (ls_position t) = pos_sum collateral (ls_position s) - a"
    by (simp_all add: pool_view_def pos_sum_upd pool_ok_finite [OF assms(5)] get_position_pos_of)
  have "m' = m" "u \<noteq> self" using assms 1 by (auto simp: market_flows_def)
  with assms 1(7,8) v show ?thesis by (auto simp: market_flows_def flow1_simps)
qed

lemma borrow_flows:
  assumes "market_flows self m s" and "borrow e u a s = Inr t" and "this e = self"
    and "self \<notin> set (signers e)" and "pool_ok s"
  shows "market_flows self m t"
  using assms(2)
proof (cases rule: borrow_cases)
  case (1 m' s1 s2 pc pd)
  from 1(12) have v: "get_total_deposits t = get_total_deposits s"
    "get_total_borrowed t = get_total_borrowed s + a"
    "pos_sum collateral (ls_position t) = pos_sum collateral (ls_position s)"
    by (simp_all add: pool_view_def pos_sum_upd pool_ok_finite [OF assms(5)] get_position_pos_of)
  have "m' = m" "u \<noteq> self" using assms 1 by (auto simp: market_flows_def)
  with assms 1(9,10) v show ?thesis by (auto simp: market_flows_def flow1_simps)
qed

lemma pool_ok_reduce:
  assumes "pool_ok s" and "0 \<le> a" and "a \<le> debt (get_position s u)"
  shows "sat_sub (get_total_borrowed s) a = get_total_borrowed s - a"
proof -
  note inv = assms(1) [unfolded pool_ok_def]
  have "in_i128 (get_total_borrowed s)"
    by (rule in_i128_between [OF pool_inv_tb_nonneg [OF inv] pool_invD(10) [OF inv] pool_invD(5) [OF inv]])
  moreover have "debt (get_position s u) \<le> get_total_borrowed s"
    using pool_inv_debt_le [OF inv, of u] by (simp add: get_position_pos_of)
  ultimately show ?thesis using assms(2,3) by (intro sat_sub_id) auto
qed

lemma repay_flows:
  assumes "market_flows self m s" and "repay e u a0 s = Inr t" and "this e = self"
    and "self \<notin> set (signers e)" and "pool_ok s"
  shows "market_flows self m t"
  using assms(2)
proof (cases rule: repay_cases)
  case (1 m' a)
  have "0 \<le> debt (get_position s u)"
    using pool_invD(8) [OF assms(5) [unfolded pool_ok_def], of u] by (simp add: get_position_pos_of)
  then have "sat_sub (get_total_borrowed s) a = get_total_borrowed s - a"
    using 1(4,5) by (intro pool_ok_reduce [OF assms(5), of _ u]) auto
  with 1(10) have v: "get_total_deposits t = get_total_deposits s"
    "get_total_borrowed t = get_total_borrowed s - a"
    "pos_sum collateral (ls_position t) = pos_sum collateral (ls_position s)"
    by (simp_all add: pool_view_def pos_sum_upd pool_ok_finite [OF assms(5)] get_position_pos_of)
  have "m' = m" "u \<noteq> self" using assms 1 by (auto simp: market_flows_def)
  with assms 1(7,8) v show ?thesis by (auto simp: market_flows_def flow1_simps)
qed

lemma liquidate_flows:
  assumes "market_flows self m s" and "liquidate e l b n s = Inr (t, r)" and "this e = self"
    and "self \<notin> set (signers e)" and "pool_ok s"
  shows "market_flows self m t"
  using assms(5,2)
proof (cases rule: liquidate_cases)
  case (1 m' plan mode s1 s2 rc rd)
  have same: "m' = m" "l \<noteq> self" "collateral_token m \<noteq> debt_token m"
    using assms 1 by (auto simp: market_flows_def)
  have c: "pos_sum collateral (ls_position t) = pos_sum collateral (ls_position s) - seize_units plan"
    using collateral_sum_step [OF assms(5) 1(11) 1(14)] by simp
  have plan: "0 \<le> repay_units plan" "0 \<le> seize_units plan" using 1(9) by (auto simp: plan_fits_def)
  show ?thesis
    by (rule market_flows_step [OF assms(1) pool_ok_finite [OF assms(5)] 1(15,16)])
       (use same c plan 1(12,13) assms(3) in \<open>auto simp: plan_calls_def net_flow_def flow1_simps\<close>)
qed

lemma loan_exec_flows:
  assumes fl: "market_flows self m s" and ok: "pool_ok s" and run: "loan_exec e c s = Inr t"
    and self: "this e = self" "self \<notin> set (signers e)" and km: "keeps_market c"
  shows "market_flows self m t"
  using run km
  by (cases c)
     (auto simp: state_of_Inr
        dest: admin_calls_view price_calls_same_pool
        intro: deposit_flows [OF fl _ self] withdraw_flows [OF fl _ self]
          deposit_collateral_flows [OF fl _ self ok] withdraw_collateral_flows [OF fl _ self ok]
          borrow_flows [OF fl _ self ok] repay_flows [OF fl _ self ok] liquidate_flows [OF fl _ self ok]
          market_flows_view [OF fl] market_flows_same_pool [OF fl])

text \<open>A market that was just opened: nothing lent, nothing moved.\<close>

definition fresh_market :: "market \<Rightarrow> loan_state \<Rightarrow> bool" where
  "fresh_market m s \<longleftrightarrow> loan_inv s \<and> ls_market s = Some m \<and> collateral_token m \<noteq> debt_token m \<and>
     ls_calls s = [] \<and> get_total_deposits s = 0 \<and> ls_position s = Map.empty"

interpretation market: invariant_system "fresh_market m" "fixed_step self"
  "\<lambda>s. loan_inv s \<and> market_flows self m s" for m self
proof
  show "loan_inv s \<and> market_flows self m s" if "fresh_market m s" for s
  proof -
    have "pool_ok s" using that by (simp add: fresh_market_def loan_inv_def)
    then have "get_total_borrowed s = pos_sum debt (ls_position s)"
      using pool_invD(9) by (auto simp: pool_ok_def)
    with that show ?thesis by (simp add: fresh_market_def market_flows_def pos_sum_def)
  qed
  show "loan_inv t \<and> market_flows self m t"
    if "loan_inv s \<and> market_flows self m s" and "fixed_step self s t" for s t
    using that(2)
  proof (rule fixed_stepE)
    fix e c
    assume call: "this e = self" "self \<notin> set (signers e)" "keeps_market c" "loan_exec e c s = Inr t"
    then have "loan_step s t" by (auto intro: loan_call)
    with that(1) call show ?thesis
      using loan.step_inv loan_exec_flows by (metis loan_inv_def)
  qed
qed

end
