(* ===== verification/LoanPricing.thy ===== *)
theory LoanPricing
  imports LoanSafety
begin

text \<open>
  Facts about prices that the properties of the loan manager rest on: the price a call resolves is
  stable within a transaction, the time-weighted average lies between the lowest and the highest
  observed price, the list of snapshots stays short and ordered, and the liquidation bonus only
  grows as a position gets sicker.
\<close>

section \<open>A resolved price is stable\<close>

text \<open>The price that the chain would return, without the bookkeeping of a resolution.\<close>

definition quote :: "loan_env \<Rightarrow> addr \<Rightarrow> loan_state \<Rightarrow> int res" where
  "quote e asset s =
     (case Option.bind (ls_primary s) (\<lambda>orc. try_fetch e orc asset) of
        Some p \<Rightarrow> Inr p
      | None \<Rightarrow>
        (case Option.bind (ls_secondary s) (\<lambda>orc. try_fetch e orc asset) of
           Some p \<Rightarrow> Inr p
         | None \<Rightarrow> twap_of (timestamp e) (get_twap_state s asset)))"

lemma resolve_price_quote: "resolve_price e a s = Inr (t, r) \<Longrightarrow> quote e a s = Inr (price r)"
  by (erule resolve_price_cases) (auto simp: quote_def try_fetch_def)

lemma quote_frame:
  assumes "resolve_price e b s = Inr (t, r)"
  shows "quote e a t = quote e a s"
proof -
  have orc: "ls_primary t = ls_primary s" "ls_secondary t = ls_secondary s"
    using resolve_price_same_pool [OF assms] by (simp_all add: same_pool_def)
  have other: "get_twap_state (record_observation b p n s) a = get_twap_state s a" if "a \<noteq> b" for p n
    using that by (simp add: record_observation_def twaps.rd_other)
  from assms show ?thesis
    by (cases rule: resolve_price_cases; cases "a = b")
       (use orc other in \<open>auto simp: quote_def try_fetch_Some get_twap_state_def try_fetch_def cong: option.case_cong\<close>)
qed

lemma quote_cong:
  "ls_primary t = ls_primary s \<Longrightarrow> ls_secondary t = ls_secondary s \<Longrightarrow> ls_twap t = ls_twap s \<Longrightarrow>
   quote e a t = quote e a s"
  by (simp add: quote_def get_twap_state_def cong: option.case_cong)

lemma require_price_quote:
  assumes "require_price e b s = Inr (t, p)"
  shows "quote e b s = Inr p" and "quote e a t = quote e a s"
  using assms resolve_price_quote [of e b s t] quote_frame [of e b s t]
  by (auto simp: require_price_def res_simps split: if_splits)

text \<open>Signing does not change what the feeds answer.\<close>

definition same_feeds :: "loan_env \<Rightarrow> loan_env \<Rightarrow> bool" where
  "same_feeds e f \<longleftrightarrow> timestamp f = timestamp e \<and> latest_price f = latest_price e"

lemma quote_feeds: "same_feeds e f \<Longrightarrow> quote f a s = quote e a s"
  by (simp add: same_feeds_def quote_def try_fetch_def cong: option.case_cong)

text \<open>Is the position healthy at these two prices?\<close>

definition healthy_at :: "loan_env \<Rightarrow> addr \<Rightarrow> loan_state \<Rightarrow> bool" where
  "healthy_at e u s =
     (case (ls_market s) of None \<Rightarrow> False | Some m \<Rightarrow>
        (case (quote e (collateral_token m) s, quote e (debt_token m) s) of
           (Inr pc, Inr pd) \<Rightarrow>
             (let nd = health_ratio (units_to_value (collateral (get_position s u)) pc)
                         (units_to_value (debt (get_position s u)) pd) (liq_threshold_bps m)
              in \<not> is_liquidatable (fst nd) (snd nd))
         | _ \<Rightarrow> False))"

lemma healthy_not_liquidated:
  assumes "healthy_at e u s" and "same_feeds e f"
  shows "liquidate f l u n s \<noteq> Inr (t, r)"
proof
  assume "liquidate f l u n s = Inr (t, r)"
  then obtain m s1 s2 rc rd mode plan where m: "ls_market s = Some m"
    and r1: "resolve_price f (collateral_token m) s = Inr (s1, rc)"
    and r2: "resolve_price f (debt_token m) s1 = Inr (s2, rd)"
    and plan: "compute_plan (collateral (get_position s u)) (debt (get_position s u)) (price rc) (price rd)
        (liq_threshold_bps m) (base_bonus_bps (get_liq_params s2)) (max_bonus_bps (get_liq_params s2))
        (penalty_cap_bps (get_liq_params s2)) mode = Inr plan"
    and nz: "\<not> (repay_units plan = 0 \<and> bad_debt_units plan = 0)"
    by (auto simp: liquidate_def res_simps Let_def require_market_def split: if_split_asm)
  have "quote e (collateral_token m) s = Inr (price rc)"
    using resolve_price_quote [OF r1] quote_feeds [OF assms(2)] by simp
  moreover have "quote e (debt_token m) s = Inr (price rd)"
    using resolve_price_quote [OF r2] quote_frame [OF r1] quote_feeds [OF assms(2)] by simp
  ultimately have "\<not> is_liquidatable
      (fst (health_ratio (units_to_value (collateral (get_position s u)) (price rc))
         (units_to_value (debt (get_position s u)) (price rd)) (liq_threshold_bps m)))
      (snd (health_ratio (units_to_value (collateral (get_position s u)) (price rc))
         (units_to_value (debt (get_position s u)) (price rd)) (liq_threshold_bps m)))"
    using assms(1) m by (simp add: healthy_at_def Let_def)
  with plan have "repay_units plan = 0 \<and> bad_debt_units plan = 0"
    by (auto simp: compute_plan_def Let_def res_simps)
  with nz show False by blast
qed

lemma healthy_atI:
  assumes "ls_market s = Some m" and "require_price e (collateral_token m) s = Inr (s1, pc)"
    and "require_price e (debt_token m) s1 = Inr (s2, pd)"
    and "ls_market t = Some m" and "ls_primary t = ls_primary s2" and "ls_secondary t = ls_secondary s2"
    and "ls_twap t = ls_twap s2"
    and "nd = health_ratio (units_to_value (collateral (get_position t u)) pc)
                 (units_to_value (debt (get_position t u)) pd) (liq_threshold_bps m)"
    and "snd nd \<le> fst nd"
  shows "healthy_at e u t"
proof -
  have "quote e (collateral_token m) t = Inr pc" "quote e (debt_token m) t = Inr pd"
    using require_price_quote [OF assms(2)] require_price_quote [OF assms(3)]
      quote_cong [OF assms(5,6,7)] by simp_all
  with assms show ?thesis by (simp add: healthy_at_def is_liquidatable_def Let_def)
qed

lemma borrow_healthy:
  assumes "borrow e u a s = Inr t"
  shows "healthy_at e u t"
proof -
  from assms obtain m s1 pc s2 pd cs d tb where m: "ls_market s = Some m" and a: "0 < a"
    and p1: "require_price e (collateral_token m) s = Inr (s1, pc)"
    and p2: "require_price e (debt_token m) s1 = Inr (s2, pd)"
    and h: "snd (health_ratio (units_to_value (collateral (get_position s u)) pc)
          (units_to_value (sat_add (debt (get_position s u)) a) pd) (liq_threshold_bps m))
        \<le> fst (health_ratio (units_to_value (collateral (get_position s u)) pc)
          (units_to_value (sat_add (debt (get_position s u)) a) pd) (liq_threshold_bps m))"
    and d: "d = debt (get_position s u) + a" "in_i128 d"
    and t: "t = publish [VStr ''borrowed''] [VAddr u, VInt a] (set_total_borrowed tb
        (save_position u ((get_position s u)\<lparr>debt := d\<rparr>) (s2\<lparr>ls_calls := cs\<rparr>)))"
    by (auto simp: borrow_def res_simps Let_def require_market_def client_transfer_def split: if_split_asm)
  have sp: "ls_market s2 = ls_market s"
    using required.fetch_frame [OF p1] required.fetch_frame [OF p2] by (simp add: same_pool_def)
  have da: "sat_add (debt (get_position s u)) a = d"
    using d clip_id by (simp add: sat_add_def)
  have pos: "get_position t u = (get_position s u)\<lparr>debt := d\<rparr>"
    by (simp add: t publish_def set_total_borrowed_def get_position_def save_position_def)
  show ?thesis
    by (rule healthy_atI [OF m p1 p2 _ _ _ _ refl])
       (use m sp h pos da in \<open>simp_all add: t publish_def set_total_borrowed_def save_position_def\<close>)
qed

lemma withdraw_collateral_healthy:
  assumes "withdraw_collateral e u a s = Inr t" and "0 < debt (get_position s u)"
  shows "healthy_at e u t"
proof -
  from assms obtain m s1 pc s2 pd cs c where m: "ls_market s = Some m" and a: "0 < a"
    and p1: "require_price e (collateral_token m) s = Inr (s1, pc)"
    and p2: "require_price e (debt_token m) s1 = Inr (s2, pd)"
    and h: "snd (health_ratio (units_to_value c pc)
          (units_to_value (debt (get_position s u)) pd) (liq_threshold_bps m))
        \<le> fst (health_ratio (units_to_value c pc)
          (units_to_value (debt (get_position s u)) pd) (liq_threshold_bps m))"
    and t: "t = publish [VStr ''collateral_withdrawn''] [VAddr u, VInt a]
        (save_position u ((get_position s u)\<lparr>collateral := c\<rparr>) (s2\<lparr>ls_calls := cs\<rparr>))"
    by (auto simp: withdraw_collateral_def withdraw_check_def res_simps Let_def require_market_def
        client_transfer_def split: if_split_asm)
  have sp: "ls_market s2 = ls_market s"
    using required.fetch_frame [OF p1] required.fetch_frame [OF p2] by (simp add: same_pool_def)
  have pos: "get_position t u = (get_position s u)\<lparr>collateral := c\<rparr>"
    by (simp add: t publish_def get_position_def save_position_def)
  show ?thesis
    by (rule healthy_atI [OF m p1 p2 _ _ _ _ refl])
       (use m sp h pos in \<open>simp_all add: t publish_def save_position_def\<close>)
qed

section \<open>The time-weighted average\<close>

text \<open>
  Feeding a list of timestamped prices into the accumulator of one asset. The clock of the ledger
  does not run backwards, so the timestamps are sorted.
\<close>

fun observe_all :: "(int \<times> nat) list \<Rightarrow> twap_state \<Rightarrow> twap_state" where
  "observe_all [] st = st"
| "observe_all ((p, now) # os) st = observe_all os (observe p now st)"

lemma observe_all_append: "observe_all (xs @ ys) st = observe_all ys (observe_all xs st)"
  by (induction xs arbitrary: st) auto

text \<open>Snapshots are spaced: each is at least one interval after the one before it.\<close>

definition spaced :: "price_observation list \<Rightarrow> bool" where
  "spaced xs = sorted_wrt (\<lambda>x y. obs_ts x + TWAP_SNAPSHOT_INTERVAL_SECS \<le> obs_ts y) xs"

definition snaps_ok :: "twap_state \<Rightarrow> bool" where
  "snaps_ok st \<longleftrightarrow>
     spaced (snapshots st) \<and> length (snapshots st) \<le> TWAP_MAX_SNAPSHOTS \<and>
     (\<forall>x\<in>set (snapshots st). obs_ts x \<le> last_snapshot_ts st)"

lemma spaced_push:
  assumes "spaced xs" and "\<forall>x\<in>set xs. obs_ts x + TWAP_SNAPSHOT_INTERVAL_SECS \<le> obs_ts o1"
  shows "spaced (push_snapshot o1 xs)"
  using assms by (simp add: spaced_def push_snapshot_def Let_def sorted_wrt_append sorted_wrt_drop del: drop_append)

lemma set_push: "set (push_snapshot o1 xs) \<subseteq> insert o1 (set xs)"
  using set_drop_subset [of _ "xs @ [o1]"] by (auto simp: push_snapshot_def Let_def simp del: drop_append)

lemma length_push: "length xs \<le> TWAP_MAX_SNAPSHOTS \<Longrightarrow> length (push_snapshot o1 xs) \<le> TWAP_MAX_SNAPSHOTS"
  by (simp add: push_snapshot_def Let_def)

lemma snaps_ok_observe:
  assumes ok: "snaps_ok st" and now: "now + TWAP_SNAPSHOT_INTERVAL_SECS \<le> u64_max"
    and last: "last_snapshot_ts st + TWAP_SNAPSHOT_INTERVAL_SECS \<le> u64_max"
  shows "snaps_ok (observe p now st)
    \<and> last_snapshot_ts (observe p now st) + TWAP_SNAPSHOT_INTERVAL_SECS \<le> u64_max"
proof -
  define cum where "cum = sat_add (cumulative st)
                    (sat_mul (last_price st) (int (min (now - last_ts st) u32_max)))"
  let ?push = "push_snapshot \<lparr>obs_ts = now, obs_cum = cum\<rparr> (snapshots st)"
  have gap: "\<forall>x\<in>set (snapshots st). obs_ts x + TWAP_SNAPSHOT_INTERVAL_SECS \<le> now"
    if "snapshots st = [] \<or> last_snapshot_ts st + TWAP_SNAPSHOT_INTERVAL_SECS \<le> now"
    using that ok by (fastforce simp: snaps_ok_def)
  have old: "\<forall>x\<in>set ?push. obs_ts x \<le> now"
    if "snapshots st = [] \<or> last_snapshot_ts st + TWAP_SNAPSHOT_INTERVAL_SECS \<le> now"
    using gap [OF that] set_push [of "\<lparr>obs_ts = now, obs_cum = cum\<rparr>" "snapshots st"] by fastforce
  have "snaps_ok (st\<lparr>cumulative := cum, last_ts := now, last_price := p, snapshots := ?push, last_snapshot_ts := now\<rparr>)"
    if g: "snapshots st = [] \<or> last_snapshot_ts st + TWAP_SNAPSHOT_INTERVAL_SECS \<le> now"
    unfolding snaps_ok_def
    using ok gap [OF g] old [OF g] length_push [of "snapshots st"]
    by (auto simp: snaps_ok_def intro!: spaced_push)
  moreover have "min u64_max (last_snapshot_ts st + TWAP_SNAPSHOT_INTERVAL_SECS)
      = last_snapshot_ts st + TWAP_SNAPSHOT_INTERVAL_SECS"
    using last by simp
  ultimately show ?thesis
    using ok now last unfolding observe_def cum_def [symmetric]
    by (auto simp: Let_def sat_add_u64_def snaps_ok_def)
qed

lemma snaps_ok_all:
  "snaps_ok st \<Longrightarrow> last_snapshot_ts st + TWAP_SNAPSHOT_INTERVAL_SECS \<le> u64_max \<Longrightarrow>
   \<forall>(p, now) \<in> set os. now + TWAP_SNAPSHOT_INTERVAL_SECS \<le> u64_max \<Longrightarrow> snaps_ok (observe_all os st)"
proof (induction os arbitrary: st)
  case Nil
  then show ?case by simp
next
  case (Cons o1 os)
  obtain p now where o1: "o1 = (p, now)" by (cases o1)
  with Cons.prems snaps_ok_observe [of st now p] have "snaps_ok (observe p now st)"
    and "last_snapshot_ts (observe p now st) + TWAP_SNAPSHOT_INTERVAL_SECS \<le> u64_max" by auto
  with Cons o1 show ?case by simp
qed

text \<open>
  The accumulator between two bounds: since each snapshot, the cumulative price grew by at least
  \<open>lo\<close> and at most \<open>hi\<close> per second.
\<close>

definition avg_ok :: "int \<Rightarrow> int \<Rightarrow> twap_state \<Rightarrow> bool" where
  "avg_ok lo hi st \<longleftrightarrow>
     (last_price st = 0 \<longrightarrow> snapshots st = [] \<and> cumulative st = 0) \<and>
     (last_price st \<noteq> 0 \<longrightarrow> lo \<le> last_price st \<and> last_price st \<le> hi) \<and>
     0 \<le> cumulative st \<and> cumulative st \<le> hi * int (last_ts st) \<and>
     (\<forall>x\<in>set (snapshots st). obs_ts x \<le> last_ts st \<and>
        lo * int (last_ts st - obs_ts x) \<le> cumulative st - obs_cum x \<and>
        cumulative st - obs_cum x \<le> hi * int (last_ts st - obs_ts x))"

lemma accrue_exact:
  assumes "0 < lo" and "avg_ok lo hi st" and "last_ts st \<le> now" and "now \<le> u32_max"
    and "hi * int u32_max \<le> i128_max" and "last_price st \<noteq> 0"
  shows "sat_add (cumulative st) (sat_mul (last_price st) (int (min (now - last_ts st) u32_max)))
     = cumulative st + last_price st * int (now - last_ts st)"
    and "cumulative st + last_price st * int (now - last_ts st) \<le> hi * int now"
proof -
  have lp: "0 < last_price st" "last_price st \<le> hi" using assms by (auto simp: avg_ok_def)
  have cum: "0 \<le> cumulative st" "cumulative st \<le> hi * int (last_ts st)"
    using assms by (auto simp: avg_ok_def)
  have m: "min (now - last_ts st) u32_max = now - last_ts st" using assms(4) by simp
  have "last_price st * int (now - last_ts st) \<le> hi * int (now - last_ts st)"
    using lp by (simp add: mult_right_mono)
  with cum have "cumulative st + last_price st * int (now - last_ts st) \<le> hi * int (last_ts st) + hi * int (now - last_ts st)"
    by linarith
  also have "\<dots> = hi * int now" using assms(3) by (simp add: algebra_simps of_nat_diff)
  finally show le: "cumulative st + last_price st * int (now - last_ts st) \<le> hi * int now" .
  have "hi * int now \<le> hi * int u32_max" using lp assms(4) by (intro mult_left_mono) auto
  with le assms(5) have big: "cumulative st + last_price st * int (now - last_ts st) \<le> i128_max" by linarith
  have p0: "0 \<le> last_price st * int (now - last_ts st)" using lp by simp
  then have "in_i128 (last_price st * int (now - last_ts st))"
    "in_i128 (cumulative st + last_price st * int (now - last_ts st))"
    using big cum by (auto simp: in_i128_def width_defs)
  then show "sat_add (cumulative st) (sat_mul (last_price st) (int (min (now - last_ts st) u32_max)))
     = cumulative st + last_price st * int (now - last_ts st)"
    by (simp add: m sat_add_def sat_mul_def clip_id)
qed

lemma avg_ok_grow:
  assumes ok: "avg_ok lo hi st" and x: "x \<in> set (snapshots st)" and now: "last_ts st \<le> now"
    and lp: "lo \<le> last_price st" "last_price st \<le> hi"
  shows "lo * int (now - obs_ts x) \<le> cumulative st + last_price st * int (now - last_ts st) - obs_cum x"
    and "cumulative st + last_price st * int (now - last_ts st) - obs_cum x \<le> hi * int (now - obs_ts x)"
proof -
  have x': "obs_ts x \<le> last_ts st" "lo * int (last_ts st - obs_ts x) \<le> cumulative st - obs_cum x"
    "cumulative st - obs_cum x \<le> hi * int (last_ts st - obs_ts x)"
    using ok x by (auto simp: avg_ok_def)
  have split: "k * int (now - obs_ts x) = k * int (now - last_ts st) + k * int (last_ts st - obs_ts x)" for k
    using x'(1) now by (simp add: algebra_simps of_nat_diff)
  have "lo * int (now - last_ts st) \<le> last_price st * int (now - last_ts st)"
    "last_price st * int (now - last_ts st) \<le> hi * int (now - last_ts st)"
    using lp by (simp_all add: mult_right_mono)
  with x' split show "lo * int (now - obs_ts x) \<le> cumulative st + last_price st * int (now - last_ts st) - obs_cum x"
    and "cumulative st + last_price st * int (now - last_ts st) - obs_cum x \<le> hi * int (now - obs_ts x)"
    by (smt (verit))+
qed

lemma avg_ok_observe:
  assumes lo: "0 < lo" and ok: "avg_ok lo hi st" and now: "last_ts st \<le> now" "now \<le> u32_max"
    and big: "hi * int u32_max \<le> i128_max" and p: "lo \<le> p" "p \<le> hi"
  shows "avg_ok lo hi (observe p now st)"
proof (cases "last_price st = 0 \<or> now \<le> last_ts st")
  case True
  have "0 \<le> hi" using lo p by linarith
  then have "0 \<le> hi * int now" by simp
  with True ok p now lo show ?thesis by (auto simp: observe_def avg_ok_def)
next
  case False
  then have np: "last_price st \<noteq> 0" by simp
  define cum where "cum = cumulative st + last_price st * int (now - last_ts st)"
  have cum: "sat_add (cumulative st) (sat_mul (last_price st) (int (min (now - last_ts st) u32_max))) = cum"
    "cum \<le> hi * int now"
    using accrue_exact [OF lo ok now big np] by (simp_all add: cum_def)
  have lp: "lo \<le> last_price st" "last_price st \<le> hi" "0 \<le> cumulative st"
    using ok np by (auto simp: avg_ok_def)
  have "0 \<le> last_price st * int (now - last_ts st)" using lo lp by simp
  then have cum0: "0 \<le> cum" using lp by (simp add: cum_def)
  have old: "\<forall>x\<in>set (snapshots st). obs_ts x \<le> now \<and> lo * int (now - obs_ts x) \<le> cum - obs_cum x
      \<and> cum - obs_cum x \<le> hi * int (now - obs_ts x)"
    using avg_ok_grow [OF ok _ now(1) lp(1,2)] ok now(1) unfolding cum_def avg_ok_def by fastforce
  have new: "\<forall>x\<in>set (push_snapshot \<lparr>obs_ts = now, obs_cum = cum\<rparr> (snapshots st)).
      obs_ts x \<le> now \<and> lo * int (now - obs_ts x) \<le> cum - obs_cum x \<and> cum - obs_cum x \<le> hi * int (now - obs_ts x)"
    using old set_push [of "\<lparr>obs_ts = now, obs_cum = cum\<rparr>" "snapshots st"] by fastforce
  from False old new cum cum0 p lo show ?thesis
    unfolding observe_def avg_ok_def cum(1) Let_def by (simp del: of_nat_diff)
qed

definition clock_ok :: "(int \<times> nat) list \<Rightarrow> bool" where
  "clock_ok os \<longleftrightarrow> sorted (map snd os) \<and> (\<forall>x\<in>set os. snd x \<le> u32_max)"

lemma last_ts_observe [simp]: "last_ts (observe p now st) = now"
  by (simp add: observe_def Let_def)

lemma last_price_observe [simp]: "last_price (observe p now st) = p"
  by (simp add: observe_def Let_def)

lemma avg_ok_all:
  "0 < lo \<Longrightarrow> hi * int u32_max \<le> i128_max \<Longrightarrow> avg_ok lo hi st \<Longrightarrow> clock_ok os \<Longrightarrow>
   \<forall>x\<in>set os. last_ts st \<le> snd x \<and> lo \<le> fst x \<and> fst x \<le> hi \<Longrightarrow> avg_ok lo hi (observe_all os st)"
proof (induction os arbitrary: st)
  case Nil
  then show ?case by simp
next
  case (Cons o1 os)
  obtain p now where o1: "o1 = (p, now)" by (cases o1)
  have "avg_ok lo hi (observe p now st)"
    by (rule avg_ok_observe) (use Cons.prems o1 in \<open>auto simp: clock_ok_def\<close>)
  with Cons o1 show ?case by (auto simp: clock_ok_def)
qed

lemma last_ts_all: "clock_ok os \<Longrightarrow> \<forall>x\<in>set os. snd x \<le> now \<Longrightarrow> last_ts st \<le> now \<Longrightarrow> last_ts (observe_all os st) \<le> now"
  by (induction os arbitrary: st) (auto simp: clock_ok_def)

lemma start_index_in:
  "xs \<noteq> [] \<Longrightarrow> d < i + length xs \<Longrightarrow> i \<le> d \<Longrightarrow>
   i \<le> start_index c i xs d \<and> start_index c i xs d < i + length xs"
proof (induction c i xs d rule: start_index.induct)
  case (1 c i d)
  then show ?case by simp
next
  case (2 c i o1 os d)
  show ?case
  proof (cases "c \<le> obs_ts o1 \<or> os = [] \<or> d = i")
    case True
    then show ?thesis
    proof (elim disjE)
      assume d: "d = i"
      have "start_index c j ys i = i \<or> (j \<le> start_index c j ys i \<and> start_index c j ys i < j + length ys)" for j ys
        by (induction ys arbitrary: j) force+
      from this [of "Suc i" os] show ?thesis using 2 d by auto
    qed (use 2 in auto)
  next
    case False
    with 2 show ?thesis by auto
  qed
qed

lemma twap_between:
  assumes lo: "0 < lo" and ok: "avg_ok lo hi st" and now: "last_ts st \<le> now" "now \<le> u32_max"
    and big: "hi * int u32_max \<le> i128_max" and tw: "twap_of now st = Inr p"
  shows "lo \<le> p \<and> p \<le> hi"
proof -
  from tw show ?thesis
  proof (cases rule: twap_of_cases)
    case (1 idx)
    have "idx < length (snapshots st)"
      unfolding 1(1) using start_index_in [of "snapshots st" "length (snapshots st) - 1" 0] 1(3) by fastforce
    then have x: "snapshots st ! idx \<in> set (snapshots st)" by simp
    have lp: "lo \<le> last_price st" "last_price st \<le> hi" using ok 1(2) by (auto simp: avg_ok_def)
    define x1 where "x1 = snapshots st ! idx"
    define span where "span = int (now - obs_ts x1)"
    define delta where "delta = cumulative st + last_price st * int (now - last_ts st) - obs_cum x1"
    have span: "0 < span" using 1(4) by (simp add: span_def x1_def TWAP_MIN_SPAN_SECS_def)
    have d: "lo * span \<le> delta" "delta \<le> hi * span"
      using avg_ok_grow [OF ok x now(1) lp] by (simp_all add: span_def delta_def x1_def)
    have "p = tdiv delta span"
      using 1(6) accrue_exact(1) [OF lo ok now big] 1(2) by (simp add: delta_def span_def x1_def)
    moreover have "0 \<le> delta" using d(1) lo span by (smt (verit) mult_nonneg_nonneg)
    ultimately have p: "p = delta div span" using span by (simp add: tdiv_nonneg)
    have "lo \<le> delta div span"
      using zdiv_mono1 [OF d(1) span] span by simp
    moreover have "delta div span \<le> hi"
      using zdiv_mono1 [OF d(2) span] span by simp
    ultimately show ?thesis by (simp add: p)
  qed
qed

lemma avg_ok_empty: "0 < lo \<Longrightarrow> 0 \<le> hi \<Longrightarrow> avg_ok lo hi twap_empty"
  by (simp add: avg_ok_def twap_empty_def)

lemma snaps_ok_empty: "snaps_ok twap_empty"
  by (simp add: snaps_ok_def twap_empty_def spaced_def)

section \<open>The accumulators of the contract\<close>

text \<open>Every call changes an accumulator only by feeding it a price that a feed answered now.\<close>

definition fed :: "loan_env \<Rightarrow> (twap_state \<Rightarrow> bool) \<Rightarrow> bool" where
  "fed e P \<longleftrightarrow>
     (\<forall>st orc a p ts. P st \<longrightarrow> latest_price e orc a = Some (p, ts) \<longrightarrow>
        validate_answer p ts (timestamp e) \<longrightarrow> P (observe p (timestamp e) st))"

definition keeps_twap :: "(twap_state \<Rightarrow> bool) \<Rightarrow> loan_state \<Rightarrow> loan_state \<Rightarrow> bool" where
  "keeps_twap P s t \<longleftrightarrow> (\<forall>a. P (get_twap_state s a)) \<longrightarrow> (\<forall>a. P (get_twap_state t a))"

lemma keeps_twap_refl: "ls_twap t = ls_twap s \<Longrightarrow> keeps_twap P s t"
  by (simp add: keeps_twap_def get_twap_state_def)

lemma keeps_twap_trans: "keeps_twap P s t \<Longrightarrow> keeps_twap P t u \<Longrightarrow> keeps_twap P s u"
  by (simp add: keeps_twap_def)

lemma keeps_twap_later: "keeps_twap P s t \<Longrightarrow> ls_twap u = ls_twap t \<Longrightarrow> keeps_twap P s u"
  by (simp add: keeps_twap_def get_twap_state_def)

lemma resolve_keeps: "fed e P \<Longrightarrow> resolve_price e a s = Inr (t, r) \<Longrightarrow> keeps_twap P s t"
proof (erule resolve_price_cases)
  assume "ls_twap t = ls_twap s"
  then show "keeps_twap P s t" by (rule keeps_twap_refl)
qed (auto simp: keeps_twap_def fed_def record_observation_def twaps.rd_wr)

lemma require_keeps: "fed e P \<Longrightarrow> require_price e a s = Inr (t, p) \<Longrightarrow> keeps_twap P s t"
  by (auto simp: require_price_def res_simps split: if_splits intro: resolve_keeps)

lemma resolve2_keeps:
  "fed e P \<Longrightarrow> resolve_price e a s = Inr (t, r) \<Longrightarrow> resolve_price e b t = Inr (u, q) \<Longrightarrow> keeps_twap P s u"
  using resolve_keeps keeps_twap_trans by blast

lemma require2_keeps:
  "fed e P \<Longrightarrow> require_price e a s = Inr (t, r) \<Longrightarrow> require_price e b t = Inr (u, q) \<Longrightarrow> keeps_twap P s u"
  using require_keeps keeps_twap_trans by blast

lemma book_plan_twap:
  assumes pass1: "\<And>rest s a r. ls_twap (fst (socialize_pass1 rest (s, a, r))) = ls_twap s"
    and pass2: "\<And>rest s a r. ls_twap (fst (socialize_pass2 rest (s, a, r))) = ls_twap s"
    and "book_plan l b pos plan s = Inr (t, r)"
  shows "ls_twap t = ls_twap s"
proof -
  have p2: "ls_twap (fst (socialize_pass2 rest y)) = ls_twap (fst y)" for rest y
    using pass2 by (cases y) auto
  have "ls_twap (fst (socialize_bad_debt b n s')) = ls_twap s'" for n s'
    by (simp add: socialize_bad_debt_def Let_def publish_def set_total_deposits_def pass1 p2)
  with assms(3) show ?thesis
    by (auto simp: book_plan_def res_simps Let_def publish_def save_position_def reduce_borrowed_def
        set_total_borrowed_def)
qed

lemma pass1_twap: "ls_twap (fst (socialize_pass1 rest (s, a, r))) = ls_twap s"
proof (induction rest arbitrary: s a r)
  case (Cons x rest)
  then show ?case by (cases x) (simp add: Let_def set_depositor_balance_def)
qed simp

lemma pass2_twap: "ls_twap (fst (socialize_pass2 rest (s, a, r))) = ls_twap s"
  by (induction rest arbitrary: s a r)
     (simp_all add: socialize_pass2.simps Let_def set_depositor_balance_def)

lemma move_funds_twap: "move_funds e m l plan s = Inr t \<Longrightarrow> ls_twap t = ls_twap s"
  by (auto simp: move_funds_def client_transfer_def res_simps split: if_split_asm)

lemmas twap_upd = publish_def set_total_deposits_def set_total_borrowed_def save_position_def
  set_paused_def set_depositor_balance_def register_depositor_def reduce_borrowed_def

lemma admin_twap:
  "init e a s = Inr t \<Longrightarrow> ls_twap t = ls_twap s"
  "set_oracles e a p q s = Inr t \<Longrightarrow> ls_twap t = ls_twap s"
  "set_liq_params e a b mx c s = Inr t \<Longrightarrow> ls_twap t = ls_twap s"
  "set_market e a cc dd thr s = Inr t \<Longrightarrow> ls_twap t = ls_twap s"
  "pause e a s = Inr t \<Longrightarrow> ls_twap t = ls_twap s"
  "unpause e a s = Inr t \<Longrightarrow> ls_twap t = ls_twap s"
  by (auto simp: init_def set_oracles_def set_liq_params_def pause_def unpause_def set_market_def
      res_simps split: if_split_asm)
     (simp_all add: twap_upd)

lemma funds_twap:
  "deposit e u n s = Inr t \<Longrightarrow> ls_twap t = ls_twap s"
  "withdraw e u n s = Inr t \<Longrightarrow> ls_twap t = ls_twap s"
  "deposit_collateral e u n s = Inr t \<Longrightarrow> ls_twap t = ls_twap s"
  "repay e u n s = Inr t \<Longrightarrow> ls_twap t = ls_twap s"
proof -
  show "deposit e u n s = Inr t \<Longrightarrow> ls_twap t = ls_twap s"
    by (auto simp: deposit_def client_transfer_def res_simps Let_def split: if_split_asm)
       (simp_all add: twap_upd Let_def)
  show "withdraw e u n s = Inr t \<Longrightarrow> ls_twap t = ls_twap s"
    by (auto simp: withdraw_def client_transfer_def res_simps Let_def split: if_split_asm)
       (simp_all add: twap_upd)
  show "deposit_collateral e u n s = Inr t \<Longrightarrow> ls_twap t = ls_twap s"
    by (auto simp: deposit_collateral_def client_transfer_def res_simps Let_def split: if_split_asm)
       (simp_all add: twap_upd)
  show "repay e u n s = Inr t \<Longrightarrow> ls_twap t = ls_twap s"
    by (auto simp: repay_def client_transfer_def res_simps Let_def split: if_split_asm)
       (simp_all add: twap_upd)
qed

lemma borrow_keeps:
  assumes "fed e P" and "borrow e u n s = Inr t"
  shows "keeps_twap P s t"
proof -
  from assms(2) obtain x y s1 s2 p1 p2 where "require_price e x s = Inr (s1, p1)"
    and "require_price e y s1 = Inr (s2, p2)" and "ls_twap t = ls_twap s2"
    by (auto simp: borrow_def client_transfer_def res_simps Let_def twap_upd split: if_split_asm)
  with require2_keeps [OF assms(1)] show ?thesis by (metis keeps_twap_later)
qed

lemma withdraw_collateral_keeps:
  assumes "fed e P" and "withdraw_collateral e u n s = Inr t"
  shows "keeps_twap P s t"
proof -
  from assms(2) obtain m pos s2 where "withdraw_check e m pos n s = Inr s2" and t: "ls_twap t = ls_twap s2"
    by (auto simp: withdraw_collateral_def client_transfer_def res_simps Let_def split: if_split_asm)
       (simp add: twap_upd)
  then have "keeps_twap P s s2"
    by (auto simp: withdraw_check_def res_simps Let_def split: if_split_asm
        intro: require2_keeps [OF assms(1)] keeps_twap_refl)
  with t show ?thesis by (rule keeps_twap_later [rotated])
qed

lemma liquidate_keeps:
  assumes "fed e P" and "liquidate e l b n s = Inr (t, r)"
  shows "keeps_twap P s t"
proof -
  from assms(2) obtain s1 s2 s3 r1 r2 m x y pos plan where "resolve_price e x s = Inr (s1, r1)"
    and "resolve_price e y s1 = Inr (s2, r2)" and "move_funds e m l plan s2 = Inr s3"
    and "book_plan l b pos plan s3 = Inr (t, r)"
    by (auto simp: liquidate_def res_simps Let_def split: if_split_asm)
  with resolve2_keeps [OF assms(1)] move_funds_twap book_plan_twap [OF pass1_twap pass2_twap] show ?thesis
    by (metis keeps_twap_later)
qed

lemma views_keep:
  "fed e P \<Longrightarrow> health_factor e u s = Inr (t, h) \<Longrightarrow> keeps_twap P s t"
  "fed e P \<Longrightarrow> record_price e a s = Inr t \<Longrightarrow> keeps_twap P s t"
  "fed e P \<Longrightarrow> preview_price e a s = Inr (t, q) \<Longrightarrow> keeps_twap P s t"
  by (auto simp: health_factor_def record_price_def preview_price_def res_simps Let_def
      split: if_split_asm intro: require2_keeps resolve_keeps keeps_twap_refl)

lemma loan_exec_twap:
  assumes fed: "fed e P" and ex: "loan_exec e c s = Inr t"
  shows "keeps_twap P s t"
proof -
  note quiet = admin_twap [THEN keeps_twap_refl] funds_twap [THEN keeps_twap_refl]
  show ?thesis
    by (cases c; insert ex; simp add: state_of_Inr)
       (blast intro: quiet borrow_keeps [OF fed] withdraw_collateral_keeps [OF fed]
          liquidate_keeps [OF fed] views_keep [OF fed])+
qed

text \<open>
  The contract on a ledger whose clock does not run backwards, with feeds whose answers lie
  between \<open>lo\<close> and \<open>hi\<close> whenever the contract would accept them.
\<close>

definition feeds_between :: "int \<Rightarrow> int \<Rightarrow> loan_env \<Rightarrow> bool" where
  "feeds_between lo hi e \<longleftrightarrow>
     (\<forall>orc a p ts. latest_price e orc a = Some (p, ts) \<longrightarrow>
        validate_answer p ts (timestamp e) \<longrightarrow> lo \<le> p \<and> p \<le> hi)"

inductive timed_step :: "int \<Rightarrow> int \<Rightarrow> loan_state \<times> nat \<Rightarrow> loan_state \<times> nat \<Rightarrow> bool" for lo hi where
  timed_call: "loan_exec e c s = Inr t \<Longrightarrow> n \<le> timestamp e \<Longrightarrow> timestamp e \<le> u32_max \<Longrightarrow>
     feeds_between lo hi e \<Longrightarrow> timed_step lo hi (s, n) (t, timestamp e)"

inductive_cases timed_stepE: "timed_step lo hi x y"

definition timed_start :: "loan_state \<times> nat \<Rightarrow> bool" where
  "timed_start x \<longleftrightarrow> x = (loan_empty, 0)"

definition twap_inv :: "int \<Rightarrow> int \<Rightarrow> loan_state \<times> nat \<Rightarrow> bool" where
  "twap_inv lo hi x \<longleftrightarrow>
     0 < lo \<and> lo \<le> hi \<and> hi * int u32_max \<le> i128_max \<longrightarrow>
     (\<forall>a. avg_ok lo hi (get_twap_state (fst x) a) \<and> snaps_ok (get_twap_state (fst x) a)
        \<and> last_ts (get_twap_state (fst x) a) \<le> snd x
        \<and> last_snapshot_ts (get_twap_state (fst x) a) \<le> snd x)
     \<and> snd x \<le> u32_max"

lemma last_snapshot_observe:
  "last_snapshot_ts st \<le> now \<Longrightarrow> last_snapshot_ts (observe p now st) \<le> now"
  by (simp add: observe_def Let_def)

lemma twap_inv_call:
  assumes inv: "twap_inv lo hi (s, n)" and ex: "loan_exec e c s = Inr t" and n: "n \<le> timestamp e"
    and u: "timestamp e \<le> u32_max" and between: "feeds_between lo hi e"
  shows "twap_inv lo hi (t, timestamp e)"
proof (cases "0 < lo \<and> lo \<le> hi \<and> hi * int u32_max \<le> i128_max")
  case True
  let ?P = "\<lambda>st. avg_ok lo hi st \<and> snaps_ok st \<and> last_ts st \<le> timestamp e \<and> last_snapshot_ts st \<le> timestamp e"
  have room: "timestamp e + TWAP_SNAPSHOT_INTERVAL_SECS \<le> u64_max"
    using u by (simp add: width_defs TWAP_SNAPSHOT_INTERVAL_SECS_def)
  have "fed e ?P"
    using True u between room snaps_ok_observe [of _ "timestamp e"]
    by (fastforce simp: fed_def feeds_between_def intro!: avg_ok_observe last_snapshot_observe)
  then have "keeps_twap ?P s t" by (rule loan_exec_twap [OF _ ex])
  moreover have "\<forall>a. ?P (get_twap_state s a)"
    using inv n True by (auto simp: twap_inv_def intro: order.trans [of _ n])
  ultimately have "\<forall>a. ?P (get_twap_state t a)" by (simp add: keeps_twap_def)
  with u show ?thesis by (simp add: twap_inv_def)
qed (auto simp: twap_inv_def)

interpretation twap: invariant_system timed_start "timed_step lo hi" "twap_inv lo hi" for lo hi
proof
  show "twap_inv lo hi x" if "timed_start x" for x
    using that avg_ok_empty snaps_ok_empty
    by (simp add: timed_start_def twap_inv_def get_twap_state_def loan_empty_def)
       (simp add: twap_empty_def)
  show "twap_inv lo hi y" if "twap_inv lo hi x" and "timed_step lo hi x y" for x y
    using that twap_inv_call by (elim timed_stepE) auto
qed

lemma resolve_between:
  assumes inv: "twap_inv lo hi (s, n)" and "0 < lo" and "lo \<le> hi" and "hi * int u32_max \<le> i128_max"
    and "n \<le> timestamp e" and "timestamp e \<le> u32_max" and "feeds_between lo hi e"
    and "resolve_price e a s = Inr (t, r)"
  shows "lo \<le> price r \<and> price r \<le> hi"
proof -
  have ok: "avg_ok lo hi (get_twap_state s a)" "last_ts (get_twap_state s a) \<le> timestamp e"
    using inv assms(2-5) by (auto simp: twap_inv_def intro: order.trans [of _ n])
  from assms(8) show ?thesis
    by (cases rule: resolve_price_cases)
       (use assms(7) twap_between [OF assms(2) ok assms(6,4)] in \<open>auto simp: feeds_between_def\<close>)
qed

end
