(* ===== verification/LoanFairness.thy ===== *)
theory LoanFairness
  imports LoanPricing
begin

text \<open>
  How a bad debt is split among the depositors, and how the liquidation bonus grows. The write-off
  takes each depositor's proportional share rounded down, then collects the rounding remainder,
  which is smaller than the number of depositors, from the first depositors that have a balance.
\<close>

section \<open>The floored shares\<close>

lemma sum_list_int_mono:
  fixes f g :: "'a \<Rightarrow> int"
  shows "\<forall>x\<in>set xs. f x \<le> g x \<Longrightarrow> (\<Sum>x\<leftarrow>xs. f x) \<le> (\<Sum>x\<leftarrow>xs. g x)"
  by (rule sum_list_mono) auto

lemma floor_shares:
  fixes g :: "'a \<Rightarrow> int"
  assumes td: "td = (\<Sum>d\<leftarrow>ds. g d)" and pos: "0 < td" and nn: "\<forall>d\<in>set ds. 0 \<le> g d" and l: "0 \<le> loss"
  shows "(\<Sum>d\<leftarrow>ds. g d * loss div td) \<le> loss"
    and "loss - (\<Sum>d\<leftarrow>ds. g d * loss div td) \<le> int (length ds) - 1"
proof -
  have up: "td * (\<Sum>d\<leftarrow>ds. g d * loss div td) \<le> td * loss"
  proof -
    have "td * (\<Sum>d\<leftarrow>ds. g d * loss div td) = (\<Sum>d\<leftarrow>ds. td * (g d * loss div td))"
      by (simp add: sum_list_const_mult)
    also have "\<dots> \<le> (\<Sum>d\<leftarrow>ds. g d * loss)"
    proof (rule sum_list_int_mono, safe)
      fix d
      show "td * (g d * loss div td) \<le> g d * loss"
        using pos mult_div_mod_eq [of td "g d * loss"] pos_mod_sign [OF pos, of "g d * loss"] by linarith
    qed
    also have "\<dots> = td * loss" by (simp add: td sum_list_mult_const)
    finally show ?thesis .
  qed
  then show "(\<Sum>d\<leftarrow>ds. g d * loss div td) \<le> loss" using pos by simp
  have "td * loss - int (length ds) * (td - 1) = (\<Sum>d\<leftarrow>ds. g d * loss - (td - 1))"
    by (simp add: td sum_list_subtractf sum_list_mult_const sum_list_triv right_diff_distrib)
  also have "\<dots> \<le> (\<Sum>d\<leftarrow>ds. td * (g d * loss div td))"
  proof (rule sum_list_int_mono, safe)
    fix d
    show "g d * loss - (td - 1) \<le> td * (g d * loss div td)"
      using mult_div_mod_eq [of td "g d * loss"] pos_mod_bound [OF pos, of "g d * loss"] by linarith
  qed
  also have "\<dots> = td * (\<Sum>d\<leftarrow>ds. g d * loss div td)"
    by (simp add: sum_list_const_mult)
  finally have "td * (loss - (\<Sum>d\<leftarrow>ds. g d * loss div td)) \<le> int (length ds) * (td - 1)"
    by (simp add: right_diff_distrib)
  moreover have "ds \<noteq> []" using td pos by auto
  then have "int (length ds) * (td - 1) < td * int (length ds)" using pos by (simp add: algebra_simps)
  ultimately have "td * (loss - (\<Sum>d\<leftarrow>ds. g d * loss div td)) < td * int (length ds)" by linarith
  then have "loss - (\<Sum>d\<leftarrow>ds. g d * loss div td) < int (length ds)" using pos by (rule mult_less_cancel_left_pos [THEN iffD1, rotated])
  then show "loss - (\<Sum>d\<leftarrow>ds. g d * loss div td) \<le> int (length ds) - 1" by simp
qed

text \<open>When the shares fit, the first pass takes exactly them.\<close>

lemma pass1_shares:
  assumes "distinct ds" and "\<forall>d\<in>set ds. get_depositor_balance s d = g d \<and> 0 \<le> sh d \<and> sh d \<le> g d"
    and "(\<Sum>d\<leftarrow>ds. sh d) \<le> r"
  shows "\<exists>t. socialize_pass1 (map (\<lambda>d. (d, g d, sh d)) ds) (s, a, r) = (t, a + (\<Sum>d\<leftarrow>ds. sh d), r - (\<Sum>d\<leftarrow>ds. sh d))
    \<and> get_depositor_balance t = (\<lambda>d. if d \<in> set ds then g d - sh d else get_depositor_balance s d)"
  using assms
proof (induction ds arbitrary: s a r)
  case Nil
  then show ?case by simp
next
  case (Cons d ds)
  have rest: "0 \<le> (\<Sum>x\<leftarrow>ds. sh x)" by (rule sum_list_nonneg) (use Cons.prems(2) in auto)
  then have cut: "min (min (sh d) (g d)) r = sh d" using Cons.prems(2,3) by auto
  define u where "u = (if 0 < sh d then set_depositor_balance d (g d - sh d) s else s)"
  have u: "get_depositor_balance u = (get_depositor_balance s)(d := g d - sh d)"
    using Cons.prems(2) by (auto simp: u_def balances.rd_wr fun_eq_iff)
  have step: "socialize_pass1 (map (\<lambda>d. (d, g d, sh d)) (d # ds)) (s, a, r)
      = socialize_pass1 (map (\<lambda>d. (d, g d, sh d)) ds) (u, a + sh d, r - sh d)"
    by (simp only: list.map socialize_pass1.simps Let_def cut u_def if_distrib) (use Cons.prems(2) in auto)
  have "\<exists>t. socialize_pass1 (map (\<lambda>d. (d, g d, sh d)) ds) (u, a + sh d, r - sh d)
      = (t, a + sh d + (\<Sum>d\<leftarrow>ds. sh d), r - sh d - (\<Sum>d\<leftarrow>ds. sh d))
    \<and> get_depositor_balance t = (\<lambda>x. if x \<in> set ds then g x - sh x else get_depositor_balance u x)"
    by (rule Cons.IH) (use Cons.prems u in auto)
  then obtain t where t: "socialize_pass1 (map (\<lambda>d. (d, g d, sh d)) ds) (u, a + sh d, r - sh d)
      = (t, a + sh d + (\<Sum>d\<leftarrow>ds. sh d), r - sh d - (\<Sum>d\<leftarrow>ds. sh d))"
    and bal: "get_depositor_balance t = (\<lambda>x. if x \<in> set ds then g x - sh x else get_depositor_balance u x)"
    by blast
  have "get_depositor_balance t = (\<lambda>x. if x \<in> set (d # ds) then g x - sh x else get_depositor_balance s x)"
    using Cons.prems(1) by (auto simp: bal u fun_eq_iff)
  with t step show ?case by (auto simp: algebra_simps)
qed

text \<open>No single balance loses more than a pass deducts in all.\<close>

lemma absorbs_single:
  assumes "absorbs ds (s, a, r) (t, b, q)"
  shows "get_depositor_balance s d - (b - a) \<le> get_depositor_balance t d"
proof (cases "d \<in> set ds")
  case True
  have "(\<Sum>x\<leftarrow>ds. get_depositor_balance s x - get_depositor_balance t x) = b - a"
    using assms by (simp add: absorbs_def sum_list_subtractf)
  moreover have "get_depositor_balance s d - get_depositor_balance t d
      \<le> (\<Sum>x\<leftarrow>ds. get_depositor_balance s x - get_depositor_balance t x)"
    by (rule sum_list_ge_elem) (use assms True in \<open>auto simp: absorbs_def\<close>)
  ultimately show ?thesis by linarith
next
  case False
  have "(\<Sum>x\<leftarrow>ds. get_depositor_balance t x) \<le> (\<Sum>x\<leftarrow>ds. get_depositor_balance s x)"
    by (rule sum_list_int_mono) (use assms in \<open>auto simp: absorbs_def\<close>)
  then show ?thesis using assms False by (simp add: absorbs_def)
qed

lemma socialize_fair:
  assumes inv: "pool_inv (get_depositors s) (get_depositor_balance s) (get_total_deposits s) tb P"
    and loss: "0 < loss" "loss \<le> get_total_deposits s"
    and small: "get_total_deposits s * loss \<le> i128_max"
  shows "get_depositor_balance (fst (socialize_bad_debt b loss s)) d
       \<le> get_depositor_balance s d - get_depositor_balance s d * loss div get_total_deposits s
    \<and> get_depositor_balance s d - get_depositor_balance s d * loss div get_total_deposits s
         - (int (length (get_depositors s)) - 1)
       \<le> get_depositor_balance (fst (socialize_bad_debt b loss s)) d"
proof -
  let ?ds = "get_depositors s" and ?g = "get_depositor_balance s" and ?td = "get_total_deposits s"
  let ?sh = "\<lambda>d. ?g d * loss div ?td"
  have td0: "0 < ?td" using loss by linarith
  have dist: "distinct ?ds" and nn: "\<forall>d. 0 \<le> ?g d" and out: "\<forall>d. d \<notin> set ?ds \<longrightarrow> ?g d = 0"
    and tot: "?td = (\<Sum>d\<leftarrow>?ds. ?g d)"
    by (insert inv, unfold pool_inv_def, blast+)
  have le_td: "?g d \<le> ?td" if "d \<in> set ?ds" for d
    unfolding tot by (rule sum_list_ge_elem) (use nn that in auto)
  have exact: "sat_mul (?g d) loss = ?g d * loss" if "d \<in> set ?ds" for d
  proof -
    have "?g d * loss \<le> ?td * loss" using le_td [OF that] loss by (simp add: mult_right_mono)
    moreover have "0 \<le> ?g d * loss" using nn loss by simp
    ultimately have "in_i128 (?g d * loss)" using small by (auto simp: in_i128_def width_defs)
    then show ?thesis by (simp add: sat_mul_def clip_id)
  qed
  have shares: "zip ?ds (zip (map ?g ?ds) (proportional_shares (map ?g ?ds) ?td loss)) = map (\<lambda>d. (d, ?g d, ?sh d)) ?ds"
  proof -
    have "proportional_shares (map ?g ?ds) ?td loss = map ?sh ?ds"
      using td0 loss(1) nn exact by (simp add: proportional_shares_def tdiv_nonneg)
    then show ?thesis by (simp only: zip_map_map zip_same_conv_map map_map comp_def) (simp add: zip_map2 zip_same_conv_map)
  qed
  have sh: "\<forall>d\<in>set ?ds. ?g d = ?g d \<and> 0 \<le> ?sh d \<and> ?sh d \<le> ?g d"
  proof safe
    fix d
    show "0 \<le> ?sh d" using nn loss td0 by (simp add: pos_imp_zdiv_nonneg_iff)
    have "?g d * loss \<le> ?g d * ?td" using nn loss by (intro mult_left_mono) auto
    then have "?sh d \<le> ?g d * ?td div ?td" using td0 by (rule zdiv_mono1)
    then show "?sh d \<le> ?g d" using td0 by simp
  qed
  note fl = floor_shares [OF tot td0]
  have sum: "(\<Sum>d\<leftarrow>?ds. ?sh d) \<le> loss" "loss - (\<Sum>d\<leftarrow>?ds. ?sh d) \<le> int (length ?ds) - 1"
    using fl nn loss(1) by auto
  obtain s1 where p1: "socialize_pass1 (map (\<lambda>d. (d, ?g d, ?sh d)) ?ds) (s, 0, loss)
      = (s1, 0 + (\<Sum>d\<leftarrow>?ds. ?sh d), loss - (\<Sum>d\<leftarrow>?ds. ?sh d))"
    and b1: "get_depositor_balance s1 = (\<lambda>d. if d \<in> set ?ds then ?g d - ?sh d else ?g d)"
    using pass1_shares [OF dist sh sum(1)] by blast
  define r1 where "r1 = loss - (\<Sum>d\<leftarrow>?ds. ?sh d)"
  define a1 where "a1 = 0 + (\<Sum>d\<leftarrow>?ds. ?sh d)"
  have p1': "socialize_pass1 (map (\<lambda>d. (d, ?g d, ?sh d)) ?ds) (s, 0, loss) = (s1, a1, r1)"
    using p1 by (simp only: r1_def a1_def)
  have r1: "0 \<le> r1" "r1 \<le> int (length ?ds) - 1" using sum by (auto simp: r1_def)
  obtain s2 a2 r2 where p2: "(if 0 < r1 then socialize_pass2 ?ds (s1, a1, r1) else (s1, a1, r1)) = (s2, a2, r2)"
    by (metis prod_cases3)
  have ab: "absorbs ?ds (s1, a1, r1) (s2, a2, r2)"
    using socialize_pass2_absorbs [OF dist order_refl r1(1)] p2 by (metis absorbs_refl)
  then have "a2 - a1 \<le> r1" using r1(1) by (auto simp: absorbs_def)
  moreover have "get_depositor_balance s1 d - (a2 - a1) \<le> get_depositor_balance s2 d"
    by (rule absorbs_single [OF ab])
  moreover have "get_depositor_balance s2 d \<le> get_depositor_balance s1 d"
    using ab by (simp add: absorbs_def)
  moreover have "get_depositor_balance s1 d = ?g d - ?sh d"
    using out by (auto simp: b1)
  moreover have "get_depositor_balance (fst (socialize_bad_debt b loss s)) d = get_depositor_balance s2 d"
  proof -
    have ne: "?ds \<noteq> []" using tot td0 by auto
    have "fst (socialize_bad_debt b loss s)
        = publish [VStr ''bad_debt_socialized''] [VAddr b, VInt a2, VNat (length ?ds)]
            (set_total_deposits (sat_sub (get_total_deposits s2) a2) s2)"
      using loss td0 ne p2
      by (cases "0 < r1") (simp_all add: socialize_bad_debt_def Let_def shares p1')
    then show ?thesis by (simp add: publish_def set_total_deposits_def get_depositor_balance_def)
  qed
  ultimately show ?thesis using r1(2) by linarith
qed

lemma liquidate_fair:
  assumes ok: "pool_ok s" and run: "liquidate e l b n s = Inr (t, r)"
    and bad: "0 < lr_bad_debt_socialized r"
    and small: "get_total_deposits s * lr_bad_debt_socialized r \<le> i128_max"
  shows "get_depositor_balance t d
       \<le> get_depositor_balance s d - get_depositor_balance s d * lr_bad_debt_socialized r div get_total_deposits s
    \<and> get_depositor_balance s d - get_depositor_balance s d * lr_bad_debt_socialized r div get_total_deposits s
         - (int (length (get_depositors s)) - 1)
       \<le> get_depositor_balance t d"
proof -
  from run obtain m plan s1 s2 s3 r1 r2 x y thr base mx cap mode where
    p1: "resolve_price e x s = Inr (s1, r1)" and p2: "resolve_price e y s1 = Inr (s2, r2)"
    and mv: "move_funds e m l plan s2 = Inr s3"
    and bk: "book_plan l b (get_position s b) plan s3 = Inr (t, r)"
    and cp: "compute_plan (collateral (get_position s b)) (debt (get_position s b)) (price r1) (price r2)
        thr base mx cap mode = Inr plan"
    by (auto simp: liquidate_def res_simps Let_def split: if_split_asm)
  have "0 \<le> collateral (get_position s b)" "0 \<le> debt (get_position s b)"
    using pool_invD(7,8) [OF ok [unfolded pool_ok_def], of b] by (simp_all add: get_position_pos_of)
  then have fits: "plan_fits plan (get_position s b)"
    using compute_plan_units [OF cp] by (simp add: plan_fits_def)
  have "pool_view s2 = pool_view s"
    by (rule pool_view_same_pool) (use resolved.fetch2_frame p1 p2 in blast)
  then have v3: "pool_view s3 = pool_view s" using move_funds_Inr [OF mv] by simp
  define s4 where "s4 = reduce_borrowed (repay_units plan + bad_debt_units plan) s3"
  have reads: "get_depositors s4 = get_depositors s" "get_depositor_balance s4 = get_depositor_balance s"
    "get_total_deposits s4 = get_total_deposits s"
    using v3 by (auto simp: s4_def reduce_borrowed_def set_total_borrowed_def loan_reads pool_view_def fun_eq_iff)
  define sb where "sb = (if 0 < bad_debt_units plan then socialize_bad_debt b (bad_debt_units plan) s4 else (s4, 0))"
  have t: "get_depositor_balance t = get_depositor_balance (fst sb)" and r: "lr_bad_debt_socialized r = snd sb"
    using bk by (auto simp: book_plan_def res_simps Let_def sb_def s4_def publish_def save_position_def
        get_depositor_balance_def fun_eq_iff split: if_split_asm)
  have pl: "0 < bad_debt_units plan" using bad r by (auto simp: sb_def split: if_split_asm)
  from ok have inv: "pool_inv (get_depositors s4) (get_depositor_balance s4) (get_total_deposits s4)
      (get_total_borrowed s) (ls_position s)"
    by (simp add: reads pool_ok_def)
  show ?thesis
  proof (cases "bad_debt_units plan \<le> get_total_deposits s4")
    case True
    obtain u ap where ap: "socialize_bad_debt b (bad_debt_units plan) s4 = (u, ap)" by (metis surj_pair)
    then have "ap = bad_debt_units plan" by (rule socialize_exact [OF inv pl True])
    with ap r pl have eq: "lr_bad_debt_socialized r = bad_debt_units plan" by (simp add: sb_def)
    with socialize_fair [OF inv pl True, of b d] small show ?thesis
      using t pl by (simp add: reads sb_def)
  next
    case False
    have "debt (get_position s b) \<le> get_total_borrowed s" "get_total_borrowed s \<le> get_total_deposits s"
      using pool_inv_debt_le pool_invD(10) ok by (auto simp: pool_ok_def get_position_pos_of)
    moreover have "bad_debt_units plan \<le> debt (get_position s b)"
      using fits by (simp add: plan_fits_def)
    ultimately show ?thesis using False reads by linarith
  qed
qed

section \<open>The bonus\<close>

text \<open>Without saturation the bonus is a straight line in the health factor, cut at the cap.\<close>

lemma dynamic_bonus_exact:
  assumes "base \<le> mx" and "mx \<le> 2500" and "cap \<le> 2500" and "0 \<le> num" and "0 < den"
    and "den * 5000 \<le> i128_max"
  shows "dynamic_bonus_bps num den base mx cap =
    Inr (nat (min (int base + min (int (mx - base)) (int (mx - base) * (2 * max 0 (den - num)) div den)) (int cap)))"
proof (cases "den \<le> num \<or> mx - base = 0")
  case True
  then have "int (mx - base) * (2 * max 0 (den - num)) div den = 0" by auto
  with True assms show ?thesis
    by (auto simp: dynamic_bonus_bps_def Let_def clamp_def as_u32_def)
next
  case False
  define span where "span = int (mx - base)"
  define g where "g = den - num"
  have sp: "0 < span" "span \<le> 2500" using False assms by (auto simp: span_def)
  have g: "0 < g" "g \<le> den" using False assms by (auto simp: g_def)
  have w: "g * 2 \<le> i128_max" "den * 2 \<le> i128_max" using assms g by auto
  have "span * (g * 2) \<le> 2500 * (den * 2)" using sp g by (intro mult_mono) auto
  then have w3: "span * (g * 2) \<le> i128_max" using assms(6) by linarith
  have sat: "sat_mul g 2 = g * 2" "sat_mul den 2 = den * 2" "sat_mul span (g * 2) = span * (g * 2)"
  proof -
    have "0 \<le> span * (g * 2)" using sp g by simp
    then have "in_i128 (span * (g * 2))" "in_i128 (g * 2)" "in_i128 (den * 2)"
      using w w3 g assms(5) by (simp_all add: in_i128_def width_defs)
    then show "sat_mul g 2 = g * 2" "sat_mul den 2 = den * 2" "sat_mul span (g * 2) = span * (g * 2)"
      by (simp_all add: sat_mul_def clip_id)
  qed
  have gi: "ck_i128 g = Inr g" using w g by (simp add: ck_i128_def in_i128_def width_defs)
  define q where "q = span * (2 * g) div den"
  have q0: "0 \<le> q" using sp g assms(5) by (simp add: q_def pos_imp_zdiv_nonneg_iff)
  have "span * (2 * g) \<le> (2 * span) * den" using sp g by (simp add: mult_left_mono mult.left_commute)
  then have "q \<le> (2 * span) * den div den" unfolding q_def by (rule zdiv_mono1 [OF _ assms(5)])
  then have q1: "q \<le> 2 * span" using assms(5) by simp
  have td: "tdiv (span * (g * 2)) den = q"
    using sp g assms(5) by (simp add: tdiv_nonneg q_def mult.commute)
  have bi: "ck_i128 (int base + q) = Inr (int base + q)"
    using q0 q1 sp assms(1,2) by (simp add: ck_i128_def in_i128_def width_defs)
  have cl: "clamp (int base) (int base + span) (int base + q) = int base + min span q"
    using q0 sp by (auto simp: clamp_def)
  have u: "as_u32 (min (int base + min span q) (int cap)) = nat (min (int base + min span q) (int cap))"
    using q0 sp assms(1-3) by (auto simp: as_u32_def)
  have m: "min (g * 2) (den * 2) = g * 2" "max 0 g = g" using g by auto
  have "dynamic_bonus_bps num den base mx cap = Inr (nat (min (int base + min span q) (int cap)))"
    unfolding dynamic_bonus_bps_def Let_def span_def [symmetric] g_def [symmetric]
    using False assms(5) sp by (simp add: gi sat m td bi cl u)
  then show ?thesis by (simp only: q_def span_def [symmetric] g_def [symmetric] m)
qed

lemma bonus_steps:
  fixes span den num num' :: int
  assumes "0 \<le> span" and "0 < den" and "num \<le> num'"
  shows "span * (2 * max 0 (den - num')) div den \<le> span * (2 * max 0 (den - num)) div den"
    and "2 * num \<le> den \<Longrightarrow> span \<le> span * (2 * max 0 (den - num)) div den"
proof -
  show "span * (2 * max 0 (den - num')) div den \<le> span * (2 * max 0 (den - num)) div den"
    using assms by (intro zdiv_mono1 mult_left_mono) auto
  assume "2 * num \<le> den"
  then have "span * den \<le> span * (2 * max 0 (den - num))" using assms by (intro mult_left_mono) auto
  then have "span * den div den \<le> span * (2 * max 0 (den - num)) div den" using assms(2) by (rule zdiv_mono1)
  then show "span \<le> span * (2 * max 0 (den - num)) div den" using assms(2) by simp
qed

end
