(* ===== verification/LoanProperties.thy ===== *)
theory LoanProperties
  imports LoanFairness
begin

text \<open>
  What the loan manager guarantees to its users, stated over its entry points and over every
  storage reachable from the empty one: solvency of the pool, token flows, liquidation, fair
  bad-debt write-off, health of new debt, the pause and the administrator's exclusive rights.
  Each property is followed by a witness at the small market of \<^theory_text>\<open>LoanSafety\<close>.
\<close>

section \<open>Solvency and flows\<close>

text \<open>C15. In every storage the contract can reach, the recorded deposits are the sum of the
  depositors' balances, the recorded loans are the sum of the borrowers' debts, no balance, debt or
  collateral is negative, and what is lent never exceeds what was deposited.\<close>

theorem loan_pool_solvent:
  assumes "reach loan_start loan_step s"
  shows "get_total_deposits s = (\<Sum>d\<leftarrow>get_depositors s. get_depositor_balance s d)
    \<and> get_total_borrowed s = pos_sum debt (ls_position s)
    \<and> get_total_borrowed s \<le> get_total_deposits s
    \<and> 0 \<le> get_depositor_balance s d \<and> 0 \<le> debt (get_position s u) \<and> 0 \<le> collateral (get_position s u)"
proof -
  have "pool_ok s" using loan.reachable_inv [OF assms] by (simp add: loan_inv_def)
  note inv = this [unfolded pool_ok_def]
  show ?thesis
    using pool_invD(3,7,8,10) [OF inv] pool_invD(4) [OF inv] pool_invD(9) [OF inv]
    by (simp only: get_position_pos_of)
qed

theorem loan_pool_solvent_witness:
  "get_total_borrowed demo_state \<le> get_total_deposits demo_state \<and> get_total_borrowed demo_state = 1500"
  using loan_pool_solvent [OF demo_reach] by (simp add: eval_defs)

text \<open>The market right after it was opened.\<close>

definition demo_opened :: loan_state where
  "demo_opened = loan_empty\<lparr>
     ls_admin := Some (Address 0),
     ls_market := Some \<lparr>collateral_token = Address 10, debt_token = Address 11, liq_threshold_bps = 8000\<rparr>,
     ls_primary := Some (Address 20), ls_liq_params := Some liq_params_default,
     ls_events :=
       [Event [VStr ''initialized''] [VAddr (Address 0)],
        Event [VStr ''market_set''] [VAddr (Address 10), VAddr (Address 11), VNat 8000],
        Event [VStr ''oracles_set''] [VAddr (Address 20), VNone]]\<rparr>"

declare demo_opened_def [eval_defs]

lemma demo_open_run: "loan_run demo_open loan_empty = Inr demo_opened"
  by (simp add: demo_defs eval_defs cong: eval_cong)

lemma demo_lent_run: "loan_run demo_lent demo_opened = Inr demo_state"
  by (simp add: demo_defs eval_defs cong: eval_cong)

definition demo_market :: market where
  "demo_market = \<lparr>collateral_token = Address 10, debt_token = Address 11, liq_threshold_bps = 8000\<rparr>"

declare demo_market_def [eval_defs]

lemma demo_fresh: "fresh_market demo_market demo_opened"
proof -
  have "reach loan_start loan_step demo_opened"
    by (rule loan_run_reach [OF demo_open_run reach_start]) (simp add: loan_start_def)
  then have "loan_inv demo_opened" by (rule loan.reachable_inv)
  then show ?thesis by (simp add: fresh_market_def eval_defs)
qed

lemma loan_run_fixed:
  "loan_run cs s = Inr t \<Longrightarrow> \<forall>(e, c) \<in> set cs. this e = self \<and> self \<notin> set (signers e) \<and> keeps_market c \<Longrightarrow>
   reach (fresh_market m) (fixed_step self) s \<Longrightarrow> reach (fresh_market m) (fixed_step self) t"
proof (induction cs arbitrary: s)
  case Nil
  then show ?case by simp
next
  case (Cons ec cs)
  obtain e c where ec: "ec = (e, c)" by (cases ec)
  with Cons.prems(1) obtain u where u: "loan_exec e c s = Inr u" "loan_run cs u = Inr t"
    by (auto simp: bindE_Inr)
  have "fixed_step self s u"
    by (rule fixed_call [of e self c]) (use u(1) Cons.prems(2) ec in auto)
  from Cons.IH [OF u(2) _ reach_step [OF Cons.prems(3) this]] Cons.prems(2) show ?case by simp
qed

lemma demo_fixed_reach: "reach (fresh_market demo_market) (fixed_step (Address 99)) demo_state"
  by (rule loan_run_fixed [OF demo_lent_run _ reach_start [where start = "fresh_market demo_market", OF demo_fresh]])
     (auto simp: demo_lent_def demo_env_def)

text \<open>C16. As long as the administrator keeps the market, the contract holds what it owes: the debt
  tokens that the accepted transfers left in the contract are the deposits that are not lent out,
  and the collateral tokens they left in it are the collateral of all positions.\<close>

theorem loan_token_flows:
  assumes "reach (fresh_market m) (fixed_step self) s"
  shows "net_flow (debt_token m) self (ls_calls s) = get_total_deposits s - get_total_borrowed s
    \<and> net_flow (collateral_token m) self (ls_calls s) = pos_sum collateral (ls_position s)"
  using market.reachable_inv [OF assms] by (simp add: market_flows_def)

theorem loan_token_flows_witness:
  "net_flow (debt_token demo_market) (Address 99) (ls_calls demo_state) = 8500
    \<and> net_flow (collateral_token demo_market) (Address 99) (ls_calls demo_state)
       = pos_sum collateral (ls_position demo_state)"
  using loan_token_flows [OF demo_fixed_reach] by (simp add: eval_defs)

section \<open>Liquidation\<close>

text \<open>C18. A liquidation that returns, in any reachable storage, takes no more collateral than the
  position has and no more debt than it owes, writes off exactly the bad debt it reports against
  the pool, changes no other position, and its bonus never exceeds 25 percent.\<close>

theorem liquidation_outcome:
  assumes "reach loan_start loan_step s" and "liquidate e l b n s = Inr (t, r)"
  shows "0 \<le> lr_repay_units r \<and> 0 \<le> lr_seize_units r \<and> 0 \<le> lr_bad_debt_socialized r
    \<and> get_position t = (get_position s)(b :=
        \<lparr>collateral = collateral (get_position s b) - lr_seize_units r,
         debt = debt (get_position s b) - (lr_repay_units r + lr_bad_debt_socialized r)\<rparr>)
    \<and> 0 \<le> collateral (get_position t b) \<and> 0 \<le> debt (get_position t b)
    \<and> get_total_deposits t = get_total_deposits s - lr_bad_debt_socialized r
    \<and> lr_bonus_bps r \<le> 2500"
proof -
  have inv: "pool_ok s" "params_ok s" using loan.reachable_inv [OF assms(1)] by (auto simp: loan_inv_def)
  from inv(1) assms(2) show ?thesis
  proof (cases rule: liquidate_cases)
    case (1 m plan mode s1 s2 rc rd)
    have cap: "penalty_cap_bps (get_liq_params s) \<le> u32_max" "penalty_cap_bps (get_liq_params s) \<le> 2500"
      using inv(2) by (simp_all add: params_ok_def MAX_CONFIGURABLE_BONUS_BPS_def u32_max_def)
    have "bonus_bps plan \<le> 2500"
      using compute_plan_bonus(1) [OF 1(8) cap(1)] cap(2) by linarith
    with 1(9,12,14,18) show ?thesis by (auto simp: plan_fits_def)
  qed
qed

text \<open>The collateral price halves and account 3 liquidates account 2 in full.\<close>

definition demo_liq_env :: loan_env where
  "demo_liq_env = demo_env 2000 [Address 3] 60000000 50000000"

declare demo_liq_env_def [eval_defs]

lemma demo_liquidate:
  "\<exists>t. liquidate demo_liq_env (Address 3) (Address 2) FULL_REPAY_SENTINEL demo_state = Inr (t,
     \<lparr>lr_repay_units = 1070, lr_seize_units = 1000, lr_bonus_bps = 1220, lr_bad_debt_socialized = 430\<rparr>)"
  by (simp add: eval_defs cong: eval_cong)

theorem liquidation_outcome_witness:
  "\<exists>t r. liquidate demo_liq_env (Address 3) (Address 2) FULL_REPAY_SENTINEL demo_state = Inr (t, r)
     \<and> get_total_deposits t = 9570 \<and> lr_seize_units r = 1000"
proof -
  obtain t where t: "liquidate demo_liq_env (Address 3) (Address 2) FULL_REPAY_SENTINEL demo_state = Inr (t,
     \<lparr>lr_repay_units = 1070, lr_seize_units = 1000, lr_bonus_bps = 1220, lr_bad_debt_socialized = 430\<rparr>)"
    using demo_liquidate by blast
  have "get_total_deposits t = get_total_deposits demo_state - 430"
    using liquidation_outcome [OF demo_reach t] by simp
  also have "\<dots> = 9570" by (simp add: eval_defs)
  finally show ?thesis using t by fastforce
qed

text \<open>C22. A liquidation whose repayment rounds down to nothing still succeeds: the borrower keeps
  all the collateral, the liquidator pays and receives nothing, and the whole debt is written off
  against the depositors.\<close>

theorem dust_liquidation_wipes_debt:
  assumes "reach loan_start loan_step s" and "liquidate e l b n s = Inr (t, r)"
    and "lr_repay_units r = 0"
  shows "get_position t b = \<lparr>collateral = collateral (get_position s b), debt = 0\<rparr>
    \<and> ls_calls t = ls_calls s
    \<and> get_total_deposits t = get_total_deposits s - debt (get_position s b)
    \<and> lr_bad_debt_socialized r = debt (get_position s b)"
proof -
  have "pool_ok s" using loan.reachable_inv [OF assms(1)] by (simp add: loan_inv_def)
  from this assms(2) show ?thesis
  proof (cases rule: liquidate_cases)
    case (1 m plan mode s1 s2 rc rd)
    have z: "repay_units plan = 0" using assms(3) 1(18) by simp
    from 1(8) have "seize_units plan = 0 \<and> bad_debt_units plan = debt (get_position s b)"
      by (cases rule: compute_plan_cases) (use 1(10) z in auto)
    with 1(12,14,15,18) z show ?thesis by (simp add: plan_calls_def)
  qed
qed

text \<open>Account 3 offers one unit, worth less than one unit of value.\<close>

lemma demo_dust:
  "\<exists>t. liquidate demo_liq_env (Address 3) (Address 2) 1 demo_state = Inr (t,
     \<lparr>lr_repay_units = 0, lr_seize_units = 0, lr_bonus_bps = 1220, lr_bad_debt_socialized = 1500\<rparr>)"
  by (simp add: eval_defs cong: eval_cong)

theorem dust_liquidation_wipes_debt_witness:
  "\<exists>t r. liquidate demo_liq_env (Address 3) (Address 2) 1 demo_state = Inr (t, r)
     \<and> get_position t (Address 2) = \<lparr>collateral = 1000, debt = 0\<rparr> \<and> get_total_deposits t = 8500"
proof -
  obtain t where t: "liquidate demo_liq_env (Address 3) (Address 2) 1 demo_state = Inr (t,
     \<lparr>lr_repay_units = 0, lr_seize_units = 0, lr_bonus_bps = 1220, lr_bad_debt_socialized = 1500\<rparr>)"
    using demo_dust by blast
  have "get_position demo_state (Address 2) = \<lparr>collateral = 1000, debt = 1500\<rparr>"
    and "get_total_deposits demo_state = 10000"
    by (simp_all add: eval_defs)
  then show ?thesis
    using dust_liquidation_wipes_debt [OF demo_reach t] t by fastforce
qed

text \<open>C23. A bad debt is shared fairly: every depositor pays the share of the loss that belongs to
  the deposit, rounded down, and on top of it at most one unit less than there are depositors,
  whatever their order in the list.\<close>

theorem bad_debt_shared:
  assumes "reach loan_start loan_step s" and "liquidate e l b n s = Inr (t, r)"
    and "0 < lr_bad_debt_socialized r"
    and "get_total_deposits s * lr_bad_debt_socialized r \<le> i128_max"
  shows "let share = get_depositor_balance s d * lr_bad_debt_socialized r div get_total_deposits s;
             paid = get_depositor_balance s d - get_depositor_balance t d
         in share \<le> paid \<and> paid \<le> share + (int (length (get_depositors s)) - 1)"
proof -
  have "pool_ok s" using loan.reachable_inv [OF assms(1)] by (simp add: loan_inv_def)
  from liquidate_fair [OF this assms(2-4), of d] show ?thesis unfolding Let_def by linarith
qed

theorem bad_debt_shared_witness:
  "\<exists>t r. liquidate demo_liq_env (Address 3) (Address 2) FULL_REPAY_SENTINEL demo_state = Inr (t, r)
     \<and> get_depositor_balance t (Address 1) = 9570"
proof -
  obtain t where t: "liquidate demo_liq_env (Address 3) (Address 2) FULL_REPAY_SENTINEL demo_state = Inr (t,
     \<lparr>lr_repay_units = 1070, lr_seize_units = 1000, lr_bonus_bps = 1220, lr_bad_debt_socialized = 430\<rparr>)"
    using demo_liquidate by blast
  have small: "get_total_deposits demo_state * lr_bad_debt_socialized
     \<lparr>lr_repay_units = 1070, lr_seize_units = 1000, lr_bonus_bps = 1220, lr_bad_debt_socialized = 430\<rparr> \<le> i128_max"
    by (simp add: eval_defs)
  have "get_depositor_balance t (Address 1) = 9570"
    using bad_debt_shared [OF demo_reach t _ small, of "Address 1"]
    by (simp add: Let_def) (simp add: eval_defs)
  with t show ?thesis by blast
qed

text \<open>The bonus of a liquidation is at least the configured base and, as the position gets
  sicker at the same debt value, never falls: it is the base at the liquidation threshold and the
  maximum at half of it, both cut at the penalty cap.\<close>

theorem bonus_profile:
  assumes "base \<le> mx" and "mx \<le> 2500" and "cap \<le> 2500" and "0 \<le> num" and "num \<le> num'"
    and "0 < den" and "den * 5000 \<le> i128_max"
  shows "\<exists>x y. dynamic_bonus_bps num den base mx cap = Inr x \<and> dynamic_bonus_bps num' den base mx cap = Inr y
    \<and> y \<le> x \<and> min base cap \<le> y \<and> x \<le> min mx cap
    \<and> (den \<le> num' \<longrightarrow> y = min base cap) \<and> (2 * num \<le> den \<longrightarrow> x = min mx cap)"
proof -
  let ?q = "\<lambda>num. int (mx - base) * (2 * max 0 (den - num)) div den"
  let ?b = "\<lambda>num. nat (min (int base + min (int (mx - base)) (?q num)) (int cap))"
  note ex = dynamic_bonus_exact [OF assms(1-3) _ assms(6,7)]
  note st = bonus_steps [of "int (mx - base)" den num num', OF _ assms(6,5)]
  have q0: "0 \<le> ?q num'" using assms(6) by (simp add: pos_imp_zdiv_nonneg_iff)
  have "dynamic_bonus_bps num den base mx cap = Inr (?b num)"
    and "dynamic_bonus_bps num' den base mx cap = Inr (?b num')"
    using ex [of num] ex [of num'] assms(4,5) by simp_all
  moreover have "?b num' \<le> ?b num" using st(1) by (intro nat_mono) linarith
  moreover have "min base cap \<le> ?b num'" using q0 by linarith
  moreover have "?b num \<le> min mx cap" using assms(1) by linarith
  moreover have "?b num' = min base cap" if "den \<le> num'" using that by simp
  moreover have "?b num = min mx cap" if "2 * num \<le> den"
  proof -
    have "min (int (mx - base)) (?q num) = int (mx - base)" using st(2) that by simp
    then show ?thesis using assms(1) by linarith
  qed
  ultimately show ?thesis by (intro exI [of _ "?b num"] exI [of _ "?b num'"] conjI impI)
qed

theorem bonus_profile_witness:
  "\<exists>x y. dynamic_bonus_bps 40 100 500 1500 2000 = Inr x \<and> dynamic_bonus_bps 80 100 500 1500 2000 = Inr y \<and> y \<le> x"
  using bonus_profile [of 500 1500 2000 40 80 100] by (auto simp: width_literals)

section \<open>Health of new debt\<close>

text \<open>C25. Nobody can be liquidated by the prices they borrowed at: after a borrow or a withdrawal of
  collateral, every liquidation of that position fails as long as the clock and the feeds' answers
  have not moved, whoever signs it and whatever amount it names.\<close>

theorem new_debt_not_liquidatable:
  assumes "loan_exec e c s = Inr t" and "c = CBorrow u a \<or> c = CWithdrawCollateral u a"
    and "same_feeds e f"
  shows "liquidate f l u n t \<noteq> Inr res"
proof -
  consider (borrow) "borrow e u a s = Inr t" | (wd) "withdraw_collateral e u a s = Inr t"
    using assms(1,2) by auto
  then have "healthy_at e u t \<or> debt (get_position t u) \<le> 0"
  proof cases
    case borrow
    then show ?thesis using borrow_healthy by blast
  next
    case wd
    then have "debt (get_position t u) = debt (get_position s u)"
      by (rule withdraw_collateral_cases) (simp add: get_position_pos_of pool_view_def pos_of_upd)
    with wd show ?thesis using withdraw_collateral_healthy by fastforce
  qed
  moreover have "liquidate f l u n t \<noteq> Inr res" if "debt (get_position t u) \<le> 0"
    using that by (auto simp: liquidate_def res_simps)
  ultimately show ?thesis
    using healthy_not_liquidated [OF _ assms(3)] by (cases res) blast
qed

theorem new_debt_not_liquidatable_witness:
  "\<exists>err. liquidate (demo_env 1000 [Address 3] 100000000 50000000) (Address 3) (Address 2) 0 demo_state = Inl err"
proof -
  have ex: "loan_exec (demo_env 1000 [Address 2] 100000000 50000000) (CBorrow (Address 2) 1500)
      (demo_state\<lparr>ls_position := [Address 2 \<mapsto> \<lparr>collateral = 1000, debt = 0\<rparr>], ls_total_borrowed := None,
         ls_twap := Map.empty, ls_calls := butlast (ls_calls demo_state),
         ls_events := butlast (ls_events demo_state)\<rparr>) = Inr demo_state"
    by (simp add: eval_defs fun_eq_iff cong: eval_cong)
  have "liquidate (demo_env 1000 [Address 3] 100000000 50000000) (Address 3) (Address 2) 0 demo_state \<noteq> Inr res" for res
    by (rule new_debt_not_liquidatable [OF ex, of "Address 2" 1500]) (simp_all add: same_feeds_def demo_env_def)
  then show ?thesis by (cases "liquidate (demo_env 1000 [Address 3] 100000000 50000000) (Address 3) (Address 2) 0 demo_state") auto
qed

section \<open>Prices\<close>

text \<open>C24. On a ledger whose clock does not run backwards, with feeds whose fresh answers all lie in a
  range, every price the contract uses lies in that range, also when all feeds are down and the
  contract falls back to its own time-weighted average.\<close>

theorem resolved_price_in_range:
  assumes "reach timed_start (timed_step lo hi) (s, n)" and "0 < lo" and "lo \<le> hi"
    and "hi * int u32_max \<le> i128_max" and "n \<le> timestamp e" and "timestamp e \<le> u32_max"
    and "feeds_between lo hi e" and "resolve_price e a s = Inr (t, r)"
  shows "lo \<le> price r \<and> price r \<le> hi"
  using resolve_between [OF twap.reachable_inv [OF assms(1)] assms(2-)] .

text \<open>The accumulator of every asset stays small and ordered: at most 34 snapshots are kept, each
  taken at least a minute after the one before it.\<close>

theorem twap_snapshots_bounded:
  assumes "reach timed_start (timed_step lo hi) (s, n)" and "0 < lo" and "lo \<le> hi"
    and "hi * int u32_max \<le> i128_max"
  shows "length (get_twap a s) \<le> 34
    \<and> sorted_wrt (\<lambda>x y. obs_ts x + 60 \<le> obs_ts y) (get_twap a s)
    \<and> (\<forall>x\<in>set (get_twap a s). obs_ts x \<le> n)"
proof -
  have ok: "snaps_ok (get_twap_state s a)" "last_snapshot_ts (get_twap_state s a) \<le> n"
    using twap.reachable_inv [OF assms(1)] assms(2-) by (auto simp: twap_inv_def)
  then show ?thesis
    by (auto simp: snaps_ok_def spaced_def get_twap_def TWAP_MAX_SNAPSHOTS_def
        TWAP_SNAPSHOT_INTERVAL_SECS_def intro: order.trans)
qed

text \<open>A keeper records the price of asset 10 four times while its feed moves between 90 and 110
  million; then the feed falls silent.\<close>

fun timed_run :: "(loan_env \<times> loan_call) list \<Rightarrow> loan_state \<Rightarrow> loan_state res" where
  "timed_run [] s = Inr s"
| "timed_run ((e, c) # cs) s = bindE (loan_exec e c s) (timed_run cs)"

lemma timed_run_reach:
  "timed_run cs s = Inr t \<Longrightarrow> sorted (n # map (\<lambda>x. timestamp (fst x)) cs) \<Longrightarrow>
   \<forall>x\<in>set cs. timestamp (fst x) \<le> u32_max \<and> feeds_between lo hi (fst x) \<Longrightarrow>
   reach timed_start (timed_step lo hi) (s, n) \<Longrightarrow>
   reach timed_start (timed_step lo hi) (t, last (n # map (\<lambda>x. timestamp (fst x)) cs))"
proof (induction cs arbitrary: s n)
  case Nil
  then show ?case by simp
next
  case (Cons ec cs)
  obtain e c where ec: "ec = (e, c)" by (cases ec)
  with Cons.prems(1) obtain u where u: "loan_exec e c s = Inr u" "timed_run cs u = Inr t"
    by (auto simp: bindE_Inr)
  have "timed_step lo hi (s, n) (u, timestamp e)"
    by (rule timed_call [OF u(1)]) (use Cons.prems ec in auto)
  from Cons.IH [OF u(2) _ _ reach_step [OF Cons.prems(4) this]] Cons.prems ec show ?case by simp
qed

definition keeper_env :: "nat \<Rightarrow> int \<Rightarrow> loan_env" where
  "keeper_env now p = (demo_env now [Address 0] p 50000000)\<lparr>latest_price := (\<lambda>_ _. Some (p, now))\<rparr>"

definition silent_env :: "nat \<Rightarrow> loan_env" where
  "silent_env now = (demo_env now [] 0 0)\<lparr>latest_price := (\<lambda>_ _. None)\<rparr>"

declare keeper_env_def [eval_defs] silent_env_def [eval_defs]

definition keeper_calls :: "(loan_env \<times> loan_call) list" where
  "keeper_calls =
     [(keeper_env 1000 100000000, CInit (Address 0)),
      (keeper_env 1000 100000000, CSetOracles (Address 0) (Some (Address 20)) None),
      (keeper_env 1000 100000000, CRecordPrice (Address 10)),
      (keeper_env 1100 110000000, CRecordPrice (Address 10)),
      (keeper_env 1300 90000000, CRecordPrice (Address 10)),
      (keeper_env 1700 100000000, CRecordPrice (Address 10))]"

definition keeper_state :: loan_state where
  "keeper_state = loan_empty\<lparr>ls_admin := Some (Address 0), ls_primary := Some (Address 20),
     ls_liq_params := Some liq_params_default,
     ls_twap := [Address 10 \<mapsto> \<lparr>last_ts = 1700, last_price = 100000000, cumulative = 68000000000,
        last_snapshot_ts = 1700,
        snapshots = [\<lparr>obs_ts = 1100, obs_cum = 10000000000\<rparr>, \<lparr>obs_ts = 1300, obs_cum = 32000000000\<rparr>,
          \<lparr>obs_ts = 1700, obs_cum = 68000000000\<rparr>]\<rparr>],
     ls_events :=
       [Event [VStr ''initialized''] [VAddr (Address 0)],
        Event [VStr ''oracles_set''] [VAddr (Address 20), VNone]]\<rparr>"

declare keeper_state_def [eval_defs]

lemma keeper_run: "timed_run keeper_calls loan_empty = Inr keeper_state"
  by (simp add: keeper_calls_def eval_defs cong: eval_cong)

lemma keeper_reach: "reach timed_start (timed_step 90000000 110000000) (keeper_state, 1700)"
proof -
  have "reach timed_start (timed_step 90000000 110000000) (loan_empty, 0)"
    by (rule reach_start) (simp add: timed_start_def)
  from timed_run_reach [OF keeper_run _ _ this] show ?thesis
    by (simp add: keeper_calls_def feeds_between_def keeper_env_def demo_env_def width_literals)
qed

theorem resolved_price_in_range_witness:
  "\<exists>t r. resolve_price (silent_env 1800) (Address 10) keeper_state = Inr (t, r)
     \<and> source r = ''twap'' \<and> 90000000 \<le> price r \<and> price r \<le> 110000000"
proof -
  have ex: "\<exists>t p. resolve_price (silent_env 1800) (Address 10) keeper_state = Inr (t, \<lparr>price = p, source = ''twap''\<rparr>)"
    by (simp add: eval_defs cong: eval_cong)
  then obtain t p where r: "resolve_price (silent_env 1800) (Address 10) keeper_state
      = Inr (t, \<lparr>price = p, source = ''twap''\<rparr>)"
    by blast
  have "90000000 \<le> p \<and> p \<le> 110000000"
    using resolved_price_in_range [OF keeper_reach _ _ _ _ _ _ r]
    by (simp add: feeds_between_def silent_env_def demo_env_def width_literals)
  with r show ?thesis by fastforce
qed

theorem twap_snapshots_bounded_witness:
  "length (get_twap (Address 10) keeper_state) \<le> 34 \<and> length (get_twap (Address 10) keeper_state) = 3"
  using twap_snapshots_bounded [OF keeper_reach, of "Address 10"] by (simp add: eval_defs)

text \<open>The failover order is primary, secondary, own average, and each source is used only when
  the ones before it have no valid answer: a feed's price is positive, at most five minutes old and
  at most a minute ahead of the ledger; the average leaves the accumulator as it was.\<close>

theorem failover_order:
  assumes "resolve_price e a s = Inr (t, r)"
  shows "(source r = ''primary'' \<or> source r = ''secondary'') \<and>
      (\<exists>orc ts. (if source r = ''primary'' then ls_primary s else ls_secondary s) = Some orc
         \<and> latest_price e orc a = Some (price r, ts) \<and> 0 < price r
         \<and> ts \<le> timestamp e + 60 \<and> timestamp e \<le> ts + 300)
      \<and> (source r = ''secondary'' \<longrightarrow> Option.bind (ls_primary s) (\<lambda>orc. try_fetch e orc a) = None)
    \<or> source r = ''twap'' \<and> ls_twap t = ls_twap s \<and> twap_now e a s = Inr (price r)
      \<and> Option.bind (ls_primary s) (\<lambda>orc. try_fetch e orc a) = None
      \<and> Option.bind (ls_secondary s) (\<lambda>orc. try_fetch e orc a) = None"
proof -
  have fresh: "0 < p \<and> ts \<le> timestamp e + 60 \<and> timestamp e \<le> ts + 300"
    if "validate_answer p ts (timestamp e)" for p ts
    using that by (auto simp: validate_answer_def sat_add_u64_def MAX_FUTURE_SKEW_SECS_def
        MAX_PRICE_STALENESS_SECS_def split: if_split_asm)
  from assms show ?thesis
    by (cases rule: resolve_price_cases) (use fresh in \<open>auto simp: twap_now_def twap_price_def\<close>)
qed

theorem failover_order_witness:
  "\<exists>t r orc ts. resolve_price (keeper_env 1800 95000000) (Address 10) keeper_state = Inr (t, r)
     \<and> latest_price (keeper_env 1800 95000000) orc (Address 10) = Some (price r, ts) \<and> 1800 \<le> ts + 300"
proof -
  have ex: "\<exists>t. resolve_price (keeper_env 1800 95000000) (Address 10) keeper_state
      = Inr (t, \<lparr>price = 95000000, source = ''primary''\<rparr>)"
    by (simp add: eval_defs cong: eval_cong)
  then obtain t where t: "resolve_price (keeper_env 1800 95000000) (Address 10) keeper_state
      = Inr (t, \<lparr>price = 95000000, source = ''primary''\<rparr>)"
    by blast
  have "timestamp (keeper_env 1800 95000000) = 1800" by (simp add: eval_defs)
  with failover_order [OF t] t show ?thesis by fastforce
qed

section \<open>Pause and administration\<close>

fun user_call :: "loan_call \<Rightarrow> bool" where
  "user_call (CDeposit d n) = True"
| "user_call (CWithdraw d n) = True"
| "user_call (CDepositCollateral u n) = True"
| "user_call (CBorrow u n) = True"
| "user_call (CRepay u n) = True"
| "user_call (CWithdrawCollateral u n) = True"
| "user_call (CLiquidate l b n) = True"
| "user_call (CRecordPrice a) = True"
| "user_call _ = False"

text \<open>While the contract is paused no deposit, withdrawal, loan, repayment, liquidation or price
  recording goes through: each fails before it touches anything, either for the missing signature
  or with the pause's own message.\<close>

theorem pause_blocks_users:
  assumes "is_paused s" and "user_call c"
  shows "loan_exec e c s = Inl AuthFailed \<or> loan_exec e c s = Inl (Panic ''contract is paused'')"
  using assms
  by (cases c) (auto simp: deposit_def withdraw_def deposit_collateral_def borrow_def repay_def
      withdraw_collateral_def liquidate_def record_price_def require_not_paused_def require_auth_def
      state_of_def)

theorem pause_blocks_users_witness:
  "\<exists>err. loan_exec demo_liq_env (CDeposit (Address 3) 5) (set_paused True demo_state) = Inl err"
  using pause_blocks_users [of "set_paused True demo_state" "CDeposit (Address 3) 5" demo_liq_env]
  by (auto simp: is_paused_def set_paused_def)

text \<open>What only the administrator may change.\<close>

definition loan_config :: "loan_state \<Rightarrow> bool option \<times> market option \<times> addr option \<times> addr option \<times> liq_params option" where
  "loan_config s = (ls_paused s, ls_market s, ls_primary s, ls_secondary s, ls_liq_params s)"

lemma same_pool_config: "same_pool s t \<Longrightarrow> ls_admin t = ls_admin s \<and> loan_config t = loan_config s"
  by (simp add: same_pool_def loan_config_def)

definition admin_config :: "loan_state \<Rightarrow> addr option \<times> bool option \<times> market option \<times> addr option \<times> addr option \<times> liq_params option" where
  "admin_config s = (ls_admin s, loan_config s)"

lemmas config_defs = admin_config_def loan_config_def publish_def set_total_deposits_def
  set_total_borrowed_def save_position_def set_depositor_balance_def register_depositor_def
  reduce_borrowed_def Let_def

lemma admin_config_same: "same_pool s t \<Longrightarrow> admin_config t = admin_config s"
  by (simp add: admin_config_def same_pool_config)

lemma funds_config:
  "deposit e u n s = Inr t \<Longrightarrow> admin_config t = admin_config s"
  "withdraw e u n s = Inr t \<Longrightarrow> admin_config t = admin_config s"
  "deposit_collateral e u n s = Inr t \<Longrightarrow> admin_config t = admin_config s"
  "repay e u n s = Inr t \<Longrightarrow> admin_config t = admin_config s"
proof -
  show "deposit e u n s = Inr t \<Longrightarrow> admin_config t = admin_config s"
    by (auto simp: deposit_def client_transfer_def res_simps Let_def split: if_split_asm)
       (simp_all add: config_defs)
  show "withdraw e u n s = Inr t \<Longrightarrow> admin_config t = admin_config s"
    by (auto simp: withdraw_def client_transfer_def res_simps Let_def split: if_split_asm)
       (simp_all add: config_defs)
  show "deposit_collateral e u n s = Inr t \<Longrightarrow> admin_config t = admin_config s"
    by (auto simp: deposit_collateral_def client_transfer_def res_simps Let_def split: if_split_asm)
       (simp_all add: config_defs)
  show "repay e u n s = Inr t \<Longrightarrow> admin_config t = admin_config s"
    by (auto simp: repay_def client_transfer_def res_simps Let_def split: if_split_asm)
       (simp_all add: config_defs)
qed

lemma borrow_config:
  assumes "borrow e u n s = Inr t"
  shows "admin_config t = admin_config s"
proof -
  from assms obtain x y s1 s2 p1 p2 where "require_price e x s = Inr (s1, p1)"
    and "require_price e y s1 = Inr (s2, p2)" and t: "admin_config t = admin_config s2"
    by (auto simp: borrow_def client_transfer_def res_simps Let_def config_defs split: if_split_asm)
  then have "same_pool s s2" using required.fetch2_frame by blast
  with t admin_config_same show ?thesis by simp
qed

lemma withdraw_collateral_config:
  assumes "withdraw_collateral e u n s = Inr t"
  shows "admin_config t = admin_config s"
proof -
  from assms obtain m pos s2 where "withdraw_check e m pos n s = Inr s2" and t: "admin_config t = admin_config s2"
    by (auto simp: withdraw_collateral_def client_transfer_def res_simps Let_def split: if_split_asm)
       (simp add: config_defs)
  with withdraw_check_same_pool admin_config_same show ?thesis by metis
qed

lemma passes_config:
  "admin_config (fst (socialize_pass1 rest (s, a, r))) = admin_config s"
  "admin_config (fst (socialize_pass2 rest' (s, a, r))) = admin_config s"
proof -
  have set: "admin_config (set_depositor_balance d v s) = admin_config s" for d v s
    by (simp add: config_defs)
  show "admin_config (fst (socialize_pass1 rest (s, a, r))) = admin_config s"
  proof (induction rest arbitrary: s a r)
    case (Cons x rest)
    then show ?case by (cases x) (simp add: Let_def set)
  qed simp
  show "admin_config (fst (socialize_pass2 rest' (s, a, r))) = admin_config s"
    by (induction rest' arbitrary: s a r) (simp_all add: socialize_pass2.simps Let_def set)
qed

lemma book_plan_config:
  assumes "book_plan l b pos plan s = Inr (t, r)"
  shows "admin_config t = admin_config s"
proof -
  have p2: "admin_config (fst (socialize_pass2 rest y)) = admin_config (fst y)" for rest y
    using passes_config(2) by (cases y) auto
  have pub: "admin_config (publish x y s) = admin_config s" and td: "admin_config (set_total_deposits v s) = admin_config s"
    and red: "admin_config (reduce_borrowed v s) = admin_config s" and sv: "admin_config (save_position b p s) = admin_config s"
    and rm: "admin_config (s\<lparr>ls_position := f\<rparr>) = admin_config s"
    for x y v s b p f
    by (simp_all add: config_defs)
  have "admin_config (fst (socialize_bad_debt b n s')) = admin_config s'" for n s'
    by (simp add: socialize_bad_debt_def Let_def pub td passes_config(1) p2)
  with assms show ?thesis
    by (auto simp: book_plan_def res_simps Let_def pub red sv rm)
qed

lemma liquidate_config:
  assumes "liquidate e l b n s = Inr (t, r)"
  shows "admin_config t = admin_config s"
proof -
  from assms obtain s1 s2 s3 r1 r2 m x y pos plan where r1: "resolve_price e x s = Inr (s1, r1)"
    and r2: "resolve_price e y s1 = Inr (s2, r2)" and mv: "move_funds e m l plan s2 = Inr s3"
    and bk: "book_plan l b pos plan s3 = Inr (t, r)"
    by (auto simp: liquidate_def res_simps Let_def split: if_split_asm)
  have "same_pool s s2" using resolved.fetch2_frame r1 r2 by blast
  then have "admin_config s2 = admin_config s" by (rule admin_config_same)
  moreover have "admin_config s3 = admin_config s2"
    using move_funds_Inr [OF mv] by (simp add: admin_config_def loan_config_def)
  ultimately show ?thesis using book_plan_config [OF bk] by simp
qed

definition config_kept :: "loan_env \<Rightarrow> addr \<Rightarrow> loan_state \<Rightarrow> loan_state \<Rightarrow> bool" where
  "config_kept e adm s t \<longleftrightarrow>
     ls_admin t = Some adm \<and> (adm \<in> set (signers e) \<or> loan_config t = loan_config s)"

lemma config_kept_same: "ls_admin s = Some adm \<Longrightarrow> admin_config t = admin_config s \<Longrightarrow> config_kept e adm s t"
  by (simp add: config_kept_def admin_config_def)

lemma admin_ops_kept:
  assumes "ls_admin s = Some adm"
  shows "init e a s = Inr t \<Longrightarrow> config_kept e adm s t"
    and "set_oracles e a p q s = Inr t \<Longrightarrow> config_kept e adm s t"
    and "set_market e a cc dd thr s = Inr t \<Longrightarrow> config_kept e adm s t"
    and "set_liq_params e a b m cap s = Inr t \<Longrightarrow> config_kept e adm s t"
    and "pause e a s = Inr t \<Longrightarrow> config_kept e adm s t"
    and "unpause e a s = Inr t \<Longrightarrow> config_kept e adm s t"
  using assms
  by (auto simp: init_def set_oracles_def set_market_def set_liq_params_def pause_def unpause_def
      assert_admin_def require_admin_def publish_def set_paused_def res_simps config_kept_def
      split: if_split_asm)

lemma exec_config:
  assumes ex: "loan_exec e c s = Inr t" and adm: "ls_admin s = Some adm"
  shows "config_kept e adm s t"
proof -
  note same = config_kept_same [OF adm]
  note views = price_calls_same_pool [THEN admin_config_same, THEN same]
  show ?thesis
    by (cases c; insert ex; simp add: state_of_Inr)
       (blast intro: same admin_ops_kept [OF adm] views funds_config borrow_config
          withdraw_collateral_config liquidate_config)+
qed

text \<open>Once there is an administrator there is always the same one, and whatever a call does, the
  pause switch, the market, the oracles and the liquidation parameters change only under the
  administrator's signature.\<close>

theorem only_admin_configures:
  assumes "loan_step\<^sup>*\<^sup>* s0 s" and "ls_admin s0 = Some adm" and "loan_exec e c s = Inr t"
    and "adm \<notin> set (signers e)"
  shows "ls_admin t = Some adm \<and> loan_config t = loan_config s"
proof -
  have "ls_admin s = Some adm"
    using assms(1,2) by (induction rule: rtranclp_induct) (auto simp: loan_step_iff config_kept_def dest: exec_config)
  with exec_config [OF assms(3)] assms(4) show ?thesis by (simp add: config_kept_def)
qed

theorem only_admin_configures_witness:
  "\<exists>t. loan_exec (demo_env 1000 [Address 1] 100000000 50000000) (CDeposit (Address 1) 50) demo_state = Inr t
     \<and> ls_market t = ls_market demo_state"
proof -
  have "\<exists>t. loan_exec (demo_env 1000 [Address 1] 100000000 50000000) (CDeposit (Address 1) 50) demo_state = Inr t"
    by (simp add: eval_defs cong: eval_cong)
  then obtain t where t: "loan_exec (demo_env 1000 [Address 1] 100000000 50000000) (CDeposit (Address 1) 50) demo_state = Inr t"
    by blast
  have adm: "ls_admin demo_state = Some (Address 0)" by (simp add: eval_defs)
  have "Address 0 \<notin> set (signers (demo_env 1000 [Address 1] 100000000 50000000))" by (simp add: eval_defs)
  from only_admin_configures [OF rtranclp.rtrancl_refl adm t this] t show ?thesis
    by (auto simp: loan_config_def)
qed

end
