(* ===== verification/SettleTypes.thy ===== *)
theory SettleTypes
  imports Prelude
begin

text \<open>
  Data types, constants, storage and host environment of the settlement contract
  (\<^verbatim>\<open>contracts/chainsetttle/src/lib.rs\<close>, lines 71 to 2040, and
  \<^verbatim>\<open>constants.rs\<close>).

  The storage is one record with a field per storage key that the modelled operations read or
  write: the variants of \<^verbatim>\<open>DataKey\<close> and \<^verbatim>\<open>DataKeyExt\<close> to
  \<^verbatim>\<open>DataKeyExt5\<close>, in the order of the source. A key with arguments is a partial map, an
  absent entry is \<open>None\<close>. The storage classes of the host (instance, persistent, temporary) are
  separate maps; every key is used with one class only, but for \<^verbatim>\<open>TotalEscrowed\<close>, which
  \<^verbatim>\<open>get_tvl\<close> reads from the instance storage (\<open>k_instance_escrowed\<close>) and all other
  code keeps in the persistent one (\<open>k_total_escrowed\<close>). Rent is not modelled. Symbols and ids are strings; hashes are opaque
  numbers.
\<close>

type_synonym sid = string
type_synonym sym = string
type_synonym hash = nat

section \<open>Constants\<close>

definition MIN_SHIPMENT_AMOUNT :: int where "MIN_SHIPMENT_AMOUNT = 1"
definition MAX_FEE_BPS :: nat where "MAX_FEE_BPS = 1000"
definition AUDIT_LOG_MAX_ENTRIES :: nat where "AUDIT_LOG_MAX_ENTRIES = 50"
definition SHIPMENT_AUDIT_LOG_MAX_ENTRIES :: nat where "SHIPMENT_AUDIT_LOG_MAX_ENTRIES = 20"
definition LIST_SHIPMENTS_MAX_PAGE :: nat where "LIST_SHIPMENTS_MAX_PAGE = 50"
definition DEFAULT_EMERGENCY_FREEZE_SUPERMAJORITY_BPS :: nat where
  "DEFAULT_EMERGENCY_FREEZE_SUPERMAJORITY_BPS = 8000"
definition DEFAULT_MAX_DISPUTE_BOND_BPS :: nat where "DEFAULT_MAX_DISPUTE_BOND_BPS = 2000"
definition STORAGE_SCHEMA_VERSION :: nat where "STORAGE_SCHEMA_VERSION = 1"
definition DISPUTE_HISTORY_MAX_ENTRIES :: nat where "DISPUTE_HISTORY_MAX_ENTRIES = 100"
definition RECOVERY_THRESHOLD_LEDGERS :: nat where "RECOVERY_THRESHOLD_LEDGERS = 12614400"
definition DEFAULT_MAX_MILESTONE_COUNT :: nat where "DEFAULT_MAX_MILESTONE_COUNT = 50"
definition MAX_BATCH_PROOF_SUBMISSIONS :: nat where "MAX_BATCH_PROOF_SUBMISSIONS = 20"
definition MAX_QUALITY_GRADES :: nat where "MAX_QUALITY_GRADES = 10"
definition MAX_RETAINAGE_BPS :: nat where "MAX_RETAINAGE_BPS = 2000"
definition MAX_WARRANTY_BPS :: nat where "MAX_WARRANTY_BPS = 2000"

definition DEFAULT_MAX_SUMMARY_BATCH :: nat where "DEFAULT_MAX_SUMMARY_BATCH = 50"
definition MAX_BATCH_ADD_ARBITERS :: nat where "MAX_BATCH_ADD_ARBITERS = 20"
definition MIN_ESCALATION_PANEL_SIZE :: nat where "MIN_ESCALATION_PANEL_SIZE = 3"
definition DEFAULT_GRADE_REVIEW_WINDOW_LEDGERS :: nat where
  "DEFAULT_GRADE_REVIEW_WINDOW_LEDGERS = 17280"

section \<open>Data types\<close>

datatype milestone_status =
    Pending | ProofSubmitted | Confirmed | Disputed | Resolved | ConfirmedHeld
  | ResolvedPendingFinality

datatype milestone_mode = Sequential | Parallel

datatype cancellation_reason =
    BuyerCancelled | SupplierCancelled | DeadlineRefund | AdminEmergencyRecovery
  | BlacklistedSupplier

datatype resolution = ResolveBuyer | ResolveSupplier

datatype resolution_reason =
    ProofValid | ProofInvalid | ProofLate | InsufficientEvidence | MutualSettlement

datatype role = Pauser | FeeManager | ComplianceOfficer | ArbiterManager

record milestone =
  ms_name :: string
  ms_payment_percent :: nat
  ms_proof_hash :: string
  ms_status :: milestone_status
  ms_release_after_ledger :: nat
  ms_proof_submitted_ledger :: "nat option"
  ms_dispute_opened_ledger :: "nat option"
  ms_not_before_ledger :: nat
  ms_deadline_ledger :: nat
  ms_penalty_bps_per_ledger :: nat

datatype shipment_status = Active | Completed | Cancelled | Expired

record audit_entry =
  ae_action :: sym
  ae_caller :: addr
  ae_ledger :: nat
  ae_detail :: sym

record shipment =
  sh_id :: sid
  sh_audit_log :: "audit_entry list"
  sh_buyers :: "addr list"
  sh_supplier :: addr
  sh_logistics :: addr
  sh_arbiter :: addr
  sh_token :: addr
  sh_total_amount :: int
  sh_released_amount :: int
  sh_total_advanced_amount :: int
  sh_milestones :: "milestone list"
  sh_status :: shipment_status
  sh_milestone_mode :: milestone_mode
  sh_created_at :: nat
  sh_holdback_ledgers :: nat
  sh_dispute_cooldown_ledgers :: nat
  sh_last_dispute_resolved_ledger :: "nat option"
  sh_late_penalty_bps_per_ledger :: nat
  sh_auto_confirm_ledgers :: nat
  sh_open_dispute_count :: nat
  sh_dispute_bond_amount :: int
  sh_dispute_bond_bps :: nat
  sh_arbiter_fee_bps :: nat
  sh_logistics_fee_bps :: nat
  sh_expires_at_ledger :: "nat option"
  sh_metadata_hash :: "hash option"
  sh_referrer :: "addr option"
  sh_buyer_cancel_fee_bps :: nat
  sh_early_bonus_pool :: int
  sh_early_bonus_remaining :: int
  sh_review_window_ledgers :: "nat option"
  sh_dispute_timeout_seconds :: nat
  sh_default_resolution :: resolution
  sh_last_confirmed_milestone_index :: "nat option"
  sh_cancellation_reason :: "cancellation_reason list"
  sh_grace_period_ledgers :: nat
  sh_supplier_payout_address :: "addr option"

record fee_tier =
  ft_min_lifetime_volume :: int
  ft_fee_bps :: nat

record fee_config =
  fc_fee_bps :: nat
  fc_treasury :: addr

record fee_recipient =
  fr_recipient :: addr
  fr_share_bps :: nat

record fee_holiday =
  fh_start_ledger :: nat
  fh_end_ledger :: nat

record buyer_reliability =
  br_total_confirmations :: nat
  br_total_confirmation_latency :: nat
  br_disputes_lost :: nat
  br_disputes_total :: nat

record depeg_guard_config =
  dg_oracle :: addr
  dg_min_price :: int
  dg_max_price :: int

record contract_stats =
  cs_total_shipments :: nat
  cs_total_volume :: int
  cs_total_disputes :: nat
  cs_completed_shipments :: nat

record reputation_score =
  rep_completed :: nat
  rep_disputed :: nat
  rep_cancelled :: nat

record reputation_fast_track =
  rft_min_completed :: nat
  rft_max_disputed_ratio_bps :: nat

record supplier_timeliness =
  st_on_time :: nat
  st_late :: nat

record dispute_entry =
  de_shipment_id :: sid
  de_milestone_index :: nat

datatype dispute_outcome = OutcomeBuyer | OutcomeSupplier | OutcomeWithdrawn

record dispute_record =
  dr_shipment_id :: sid
  dr_milestone_index :: nat
  dr_opened_ledger :: nat
  dr_outcome :: dispute_outcome

record dispute_vote =
  dv_arbiter :: addr
  dv_approve :: bool

record arbiter_stats =
  as_resolved_approved :: nat
  as_resolved_rejected :: nat
  as_total_resolution_ledgers :: nat
  as_overturned_count :: nat

record arbiter_rotation_proposal =
  rp_new_arbiter :: addr
  rp_buyer_agreed :: bool
  rp_supplier_agreed :: bool

record mediation_proposal =
  mp_mediator :: addr
  mp_suggested_outcome :: resolution
  mp_buyer_accepted :: bool
  mp_supplier_accepted :: bool

record shipment_summary =
  ss_id :: sid
  ss_status :: shipment_status
  ss_buyers :: "addr list"
  ss_supplier :: addr
  ss_token :: addr
  ss_total_amount :: int
  ss_released_amount :: int
  ss_milestone_count :: nat
  ss_open_disputes :: nat
  ss_created_at :: nat

record advance_request =
  ar_requested_percent :: nat
  ar_approved :: bool
  ar_amount_advanced :: int

record multi_admin_config =
  mc_admins :: "addr list"
  mc_threshold :: nat

record delegate_config =
  dc_delegate :: addr
  dc_per_tx_cap :: int

record upgrade_proposal =
  up_new_wasm_hash :: hash
  up_approvals :: "addr list"

record fee_waiver_proposal =
  fw_partner :: addr
  fw_waiver_bps :: nat
  fw_expires_at :: nat
  fw_approvals :: "addr list"

record emergency_freeze_proposal =
  ef_approvals :: "addr list"

record milestone_payee =
  mp_payee :: addr
  mp_percent :: nat

record auto_blacklist_rule =
  abr_max_cancelled :: nat
  abr_max_disputed :: nat

datatype payout_mode = Immediate | Batched

record payout_assignment =
  pa_supplier :: addr
  pa_financier :: addr
  pa_assigned_at_ledger :: nat

record joint_confirmation_status =
  jc_buyer_confirmed :: bool
  jc_co_buyer_confirmed :: bool

datatype supplier_tier = Bronze | Silver | Gold

record supplier_tier_config =
  tc_silver_min_completed :: nat
  tc_silver_max_disputed_ratio_bps :: nat
  tc_silver_multiplier_bps :: nat
  tc_gold_min_completed :: nat
  tc_gold_max_disputed_ratio_bps :: nat
  tc_gold_multiplier_bps :: nat
  tc_bronze_max_value :: int
  tc_silver_max_value :: int
  tc_gold_max_value :: int

record standing_order_params =
  sp_template_name :: string
  sp_supplier :: addr
  sp_logistics :: addr
  sp_arbiter :: addr
  sp_token :: addr
  sp_amount :: int
  sp_milestones :: "milestone list"
  sp_interval_ledgers :: nat
  sp_max_occurrences :: nat

record standing_order =
  so_order_id :: nat
  so_buyer :: addr
  so_template_name :: string
  so_supplier :: addr
  so_logistics :: addr
  so_arbiter :: addr
  so_token :: addr
  so_amount :: int
  so_milestones :: "milestone list"
  so_interval_ledgers :: nat
  so_max_occurrences :: nat
  so_occurrences :: nat
  so_next_ledger :: nat
  so_cancelled :: bool

datatype appeal_status = AppealPending | AppealApproved | AppealRejected

record blacklist_appeal =
  ba_evidence_hash :: string
  ba_status :: appeal_status
  ba_filed_ledger :: nat

record dispute_evidence =
  ev_submitter :: addr
  ev_evidence_hash :: string
  ev_evidence_type :: sym
  ev_submitted_ledger :: nat

record shipment_pause_request =
  pr_requester :: addr
  pr_is_resume :: bool

record cancel_policy =
  cp_response_deadline :: nat
  cp_penalty_bps :: nat

record archived_shipment =
  ars_id :: sid
  ars_buyer :: addr
  ars_supplier :: addr
  ars_status :: shipment_status
  ars_total_amount :: int
  ars_released_amount :: int
  ars_completed_at :: nat

datatype party_key = ArbiterShipments addr | LogisticsShipments addr

record recovery_proposal =
  rc_effective_ledger :: nat
  rc_proposed_by :: addr

record pending_dual_proof =
  pd_first_attester :: addr
  pd_proof_hash :: string
  pd_proof_type :: sym

record inspection_record =
  ir_inspector :: addr
  ir_report_hash :: hash
  ir_signed_ledger :: nat

record warranty_claim =
  wc_buyer :: addr
  wc_evidence_hash :: hash
  wc_filed_ledger :: nat

record supplier_terms_profile =
  stp_holdback_ledgers :: nat
  stp_dispute_cooldown :: nat
  stp_late_penalty_bps :: nat
  stp_auto_confirm_ledgers :: nat
  stp_arbiter_fee_bps :: nat
  stp_logistics_fee_bps :: nat
  stp_collateral_bps :: nat
  stp_milestone_mode :: milestone_mode
  stp_enforce_terms :: bool
  stp_updated_at_ledger :: nat

record shipment_options =
  op_response_deadline :: nat
  op_penalty_bps :: nat
  op_milestone_mode :: milestone_mode
  op_holdback_ledgers :: nat
  op_dispute_cooldown_ledgers :: nat
  op_late_penalty_bps_per_ledger :: nat
  op_auto_confirm_ledgers :: nat
  op_dispute_bond_amount :: int
  op_dispute_bond_bps :: nat
  op_arbiter_fee_bps :: nat
  op_logistics_fee_bps :: nat
  op_supplier_collateral :: int
  op_expires_at_ledger :: "nat option"
  op_metadata_hash :: "hash option"
  op_referrer :: "addr option"
  op_buyer_cancel_fee_bps :: nat
  op_early_bonus_pool :: int
  op_review_window_ledgers :: "nat option"
  op_milestone_splits :: "nat list"
  op_deadlines :: "nat list"
  op_dispute_timeout_seconds :: nat
  op_default_resolution :: resolution
  op_backup_arbiter :: "addr option"
  op_confirmation_cooldown_ledgers :: "nat option"
  op_arbiter_panel :: "addr list"
  op_jurisdiction :: "sym option"
  op_grace_period_ledgers :: nat
  op_quality_grades :: "nat list"
  op_milestone_quantities :: "nat list"
  op_retainage_bps :: nat
  op_warranty_bps :: nat
  op_warranty_ledgers :: nat
  op_inspector :: "addr option"
  op_inspected_milestones :: "nat list"
  op_proof_submitters :: "addr list"
  op_require_dual_attestation :: bool
  op_fund_from_vault :: bool
  op_milestone_suppliers :: "addr list"
  op_refund_recipient :: "addr option"
  op_require_encrypted_evidence :: bool

record allowance_params =
  al_spender :: addr
  al_from :: addr
  al_shipment_id :: sid
  al_buyers :: "addr list"
  al_supplier :: addr
  al_logistics :: addr
  al_arbiter :: addr
  al_token :: addr
  al_total_amount :: int
  al_milestones :: "milestone list"
  al_options :: shipment_options

section \<open>Storage\<close>

text \<open>\<^verbatim>\<open>DataKey\<close>.\<close>

record settle_keys =
  k_shipment :: "sid \<Rightarrow> shipment option"
  k_supplier_rep :: "addr \<Rightarrow> reputation_score option"
  k_admin :: "addr option"
  k_fee_config :: "fee_config option"
  k_min_milestone_percent :: "nat option"
  k_max_concurrent_disputes :: "nat option"
  k_blacklisted :: "addr \<Rightarrow> hash option"
  k_admin_action_log :: "audit_entry list option"
  k_paused :: "bool option"
  k_total_escrowed :: "addr \<Rightarrow> int option"
  k_active_disputes :: "dispute_entry list option"
  k_contract_stats :: "contract_stats option"
  k_shipments_by_status :: "shipment_status \<Rightarrow> sid list option"
  k_supplier_shipments :: "addr \<Rightarrow> sid list option"
  k_escalation_threshold :: "nat option"
  k_max_shipment_value :: "int option"
  k_cb_limit :: "int option"
  k_cb_window :: "nat option"
  k_cb_window_start :: "nat option"
  k_cb_window_outflow :: "int option"
  k_multi_admin_config :: "multi_admin_config option"
  k_admin_approvals :: "string \<Rightarrow> addr list option"
  k_advance_request :: "sid \<times> nat \<Rightarrow> advance_request option"
  k_max_advance_percent :: "nat option"
  k_supplier_collateral :: "sid \<Rightarrow> int option"
  k_nft_hook_enabled :: "bool option"
  k_referral_fee_bps :: "nat option"
  k_auto_confirm_threshold :: "nat option"
  k_confirmation_delegate :: "sid \<Rightarrow> delegate_config option"
  k_pending_admin :: "addr option"
  k_supplier_whitelist :: "addr list option"
  k_min_shipment_value :: "int option"
  k_cancel_policy :: "sid \<Rightarrow> cancel_policy option"
  k_proof_submitted_at :: "sid \<times> nat \<Rightarrow> nat option"
  k_dispute_contested_percent :: "sid \<times> nat \<Rightarrow> nat option"
  k_arbiter_rotation :: "sid \<Rightarrow> arbiter_rotation_proposal option"
  k_allowed_tokens :: "addr list option"
  k_all_shipments :: "sid list option"
  k_buyer_shipments :: "addr \<Rightarrow> sid list option"
  k_proof_whitelist :: "sid \<times> nat \<Rightarrow> sym list option"
  k_evidence_count :: "sid \<times> nat \<Rightarrow> nat option"
  k_max_evidence :: "nat option"
  k_submitted_proof_type :: "sid \<times> nat \<Rightarrow> sym option"
  k_recovery_delay :: "nat option"
  k_pending_recovery :: "sid \<Rightarrow> recovery_proposal option"

text \<open>\<^verbatim>\<open>DataKeyExt\<close>.\<close>

record settle_keys1 = settle_keys +
  k_fee_tiers :: "fee_tier list option"
  k_lifetime_volume :: "addr \<Rightarrow> int option"
  k_shipment_fee_bps :: "sid \<Rightarrow> nat option"
  k_milestone_splits :: "sid \<Rightarrow> nat list option"
  k_upgrade_proposal_counter :: "nat option"
  k_upgrade_proposal :: "nat \<Rightarrow> upgrade_proposal option"
  k_global_confirmation_cooldown :: "nat option"
  k_shipment_confirmation_cooldown :: "sid \<Rightarrow> nat option"
  k_shipment_fee_override :: "sid \<Rightarrow> nat option"
  k_long_hold_rebate :: "(nat \<times> nat) option"
  k_milestone_payees :: "sid \<times> nat \<Rightarrow> milestone_payee list option"
  k_auto_blacklist_rule :: "auto_blacklist_rule option"
  k_reputation_fast_track :: "reputation_fast_track option"
  k_shipment_paused :: "sid \<Rightarrow> bool option"
  k_payout_mode :: "addr \<Rightarrow> payout_mode option"
  k_pending_payout :: "addr \<Rightarrow> int option"
  k_addr_outflow_limit :: "addr \<Rightarrow> int option"
  k_addr_outflow_window :: "addr \<Rightarrow> nat option"
  k_addr_outflow_window_start :: "addr \<Rightarrow> nat option"
  k_addr_outflow_window_outflow :: "addr \<Rightarrow> int option"
  k_treasury_revenue :: "addr \<Rightarrow> int option"
  k_fee_recipients :: "fee_recipient list option"
  k_buyer_reliability :: "addr \<Rightarrow> buyer_reliability option"
  k_arbiter_inactivity :: "nat option"
  k_dispute_evidence :: "sid \<times> nat \<Rightarrow> dispute_evidence list option"
  k_pause_request :: "sid \<Rightarrow> shipment_pause_request option"
  k_paused_at :: "sid \<Rightarrow> nat option"
  k_milestone_deadline :: "sid \<times> nat \<Rightarrow> nat option"
  k_invoice_hash :: "sid \<times> nat \<Rightarrow> hash option"
  k_archive_threshold :: "nat option"
  k_archived :: "sid \<Rightarrow> archived_shipment option"
  k_backup_arbiter :: "sid \<Rightarrow> addr option"
  k_arbiter_fee_tiers :: "(int \<times> nat) list option"
  k_arbiter_stats :: "addr \<Rightarrow> arbiter_stats option"
  k_arbiter_panel :: "sid \<Rightarrow> addr list option"
  k_dispute_votes :: "sid \<times> nat \<Rightarrow> dispute_vote list option"
  k_dispute_opened_at :: "sid \<times> nat \<Rightarrow> nat option"
  k_supplier_exposure_cap :: "int option"
  k_timestamp_deadlines :: "sid \<Rightarrow> nat list option"
  k_proof_submitter :: "sid \<times> nat \<Rightarrow> addr option"
  k_timelock_duration :: "nat option"
  k_pending_param_change :: "sym \<Rightarrow> (int \<times> nat) option"
  k_confirmation_webhooks :: "addr list option"

text \<open>\<^verbatim>\<open>DataKeyExt2\<close>.\<close>

record settle_keys2 = settle_keys1 +
  k_warning_lead_ledgers :: "nat option"
  k_dispute_filing_window :: "nat option"
  k_joint_confirmation_threshold :: "int option"
  k_co_buyer :: "sid \<Rightarrow> addr option"
  k_joint_confirmation :: "sid \<times> nat \<Rightarrow> joint_confirmation_status option"
  k_compliance_hold :: "sid \<Rightarrow> hash option"
  k_appeal_window_ledgers :: "nat option"
  k_supplier_tier_config :: "supplier_tier_config option"
  k_freeze_supermajority_bps :: "nat option"
  k_emergency_frozen :: "bool option"
  k_freeze_proposal_counter :: "nat option"
  k_freeze_proposal :: "nat \<Rightarrow> emergency_freeze_proposal option"
  k_unfreeze_proposal :: "nat \<Rightarrow> emergency_freeze_proposal option"
  k_payout_currency_preference :: "addr \<Rightarrow> addr option"
  k_conversion_rate_bps :: "addr \<times> addr \<Rightarrow> nat option"
  k_fee_waiver_proposal_counter :: "nat option"
  k_fee_waiver_proposal :: "nat \<Rightarrow> fee_waiver_proposal option"
  k_fee_waiver :: "addr \<Rightarrow> (nat \<times> nat) option"
  k_spending_limit :: "addr \<Rightarrow> (int \<times> nat) option"
  k_spending_usage :: "addr \<Rightarrow> (nat \<times> int) option"
  k_dispute_resolved_at :: "sid \<times> nat \<Rightarrow> nat option"
  k_dispute_appealed :: "sid \<times> nat \<Rightarrow> bool option"
  k_dispute_resolved_approve :: "sid \<times> nat \<Rightarrow> bool option"
  k_dispute_resolution_reason :: "sid \<times> nat \<Rightarrow> resolution_reason option"
  k_dispute_appeal_original :: "sid \<times> nat \<Rightarrow> (addr \<times> bool) option"
  k_max_overturned_before_slash :: "nat option"
  k_arbiter_slashed :: "addr \<Rightarrow> bool option"
  k_shipment_mediator :: "sid \<Rightarrow> addr option"
  k_mediator_pool :: "addr list option"
  k_mediation_proposal :: "sid \<times> nat \<Rightarrow> mediation_proposal option"
  k_deadline_warning_fired :: "sid \<times> nat \<Rightarrow> bool option"
  k_token_max_value :: "addr \<Rightarrow> int option"
  k_token_min_value :: "addr \<Rightarrow> int option"
  k_max_milestone_count :: "nat option"
  k_max_allowed_tokens :: "nat option"
  k_buyer_allowed_tokens :: "addr \<Rightarrow> addr list option"
  k_shipment_jurisdiction :: "sid \<Rightarrow> sym option"
  k_jurisdiction_shipments :: "sym \<Rightarrow> sid list option"
  k_milestone_template :: "addr \<times> string \<Rightarrow> milestone list option"
  k_milestone_template_names :: "addr \<Rightarrow> string list option"
  k_proof_hash_min_len :: "nat option"
  k_proof_hash_max_len :: "nat option"
  k_proof_hash_prefix :: "string option"

text \<open>\<^verbatim>\<open>DataKeyExt3\<close>.\<close>

record settle_keys3 = settle_keys2 +
  k_max_dispute_bond_bps :: "nat option"
  k_oracle_group :: "sym \<Rightarrow> (addr list \<times> nat) option"
  k_oracle_attestations :: "sid \<times> nat \<times> sym \<Rightarrow> addr list option"
  k_shipment_oracle_purpose :: "sid \<Rightarrow> sym option"
  k_fee_holiday :: "fee_holiday option"
  k_finality_delay_ledgers :: "nat option"
  k_pending_grade :: "sid \<times> nat \<Rightarrow> (nat \<times> nat) option"
  k_partial_qty_released :: "sid \<times> nat \<Rightarrow> int option"
  k_retainage_bps :: "sid \<Rightarrow> nat option"
  k_retainage_balance :: "sid \<Rightarrow> int option"
  k_warranty_config :: "sid \<Rightarrow> (nat \<times> nat) option"
  k_warranty_balance :: "sid \<Rightarrow> int option"
  k_warranty_ends_at :: "sid \<Rightarrow> nat option"
  k_incremental_collateral :: "sid \<Rightarrow> bool option"
  k_incremental_collateral_base :: "sid \<Rightarrow> int option"
  k_supplier_last_tier :: "addr \<Rightarrow> supplier_tier option"
  k_inspected_milestones :: "sid \<Rightarrow> nat list option"
  k_inspection_report :: "sid \<times> nat \<Rightarrow> inspection_record option"
  k_user_role :: "role \<times> addr \<Rightarrow> bool option"
  k_blacklist_appeal :: "addr \<Rightarrow> blacklist_appeal option"
  k_grade_dispute :: "sid \<times> nat \<Rightarrow> (nat \<times> nat) option"
  k_buyer_dispute_cap :: "addr \<Rightarrow> nat option"
  k_dispute_raised_by :: "sid \<times> nat \<Rightarrow> addr option"
  k_arbiter_history_size :: "nat option"
  k_supplier_recent_arbiters :: "addr \<Rightarrow> addr list option"
  k_pause_min_notice :: "nat option"
  k_creation_limit :: "(nat \<times> nat) option"
  k_rate_exempt :: "addr \<Rightarrow> bool option"
  k_creation_usage :: "addr \<Rightarrow> (nat \<times> nat) option"
  k_cancel_cooldown :: "addr \<Rightarrow> (nat \<times> nat \<times> nat) option"
  k_cancel_until :: "addr \<Rightarrow> nat option"
  k_cancel_usage :: "addr \<Rightarrow> (nat \<times> nat) option"
  k_require_mutual_preapproval :: "bool option"
  k_approved_buyers :: "addr \<Rightarrow> addr list option"
  k_quality_grades :: "sid \<Rightarrow> nat list option"
  k_milestone_quantities :: "sid \<Rightarrow> nat list option"
  k_milestone_grade :: "sid \<times> nat \<Rightarrow> nat option"
  k_delivered_quantity :: "sid \<times> nat \<Rightarrow> nat option"
  k_shipment_inspector :: "sid \<Rightarrow> addr option"
  k_proof_submitters :: "sid \<Rightarrow> addr list option"
  k_require_dual_attestation :: "sid \<Rightarrow> bool option"
  k_pending_dual_proof :: "sid \<times> nat \<Rightarrow> pending_dual_proof option"
  k_breach_reports :: "sid \<times> nat \<Rightarrow> (addr \<times> hash) list option"
  k_warranty_claim :: "sid \<Rightarrow> warranty_claim option"
  k_refund_sweep_window :: "nat option"
  k_refund_claimable_at :: "sid \<times> nat \<Rightarrow> nat option"

text \<open>
  \<^verbatim>\<open>DataKeyExt4\<close>, \<^verbatim>\<open>DataKeyExt5\<close>, the installed code and the outputs. \<open>k_aux\<close> says
  which entries exist under the per-shipment and per-milestone keys whose content no modelled
  operation reads; the key is named by its variant.
\<close>

record settle = settle_keys3 +
  k_storage_schema_version :: "nat option"
  k_clean_completion_rebate_bps :: "nat option"
  k_shipment_fees_paid :: "sid \<Rightarrow> int option"
  k_shipment_had_dispute :: "sid \<Rightarrow> bool option"
  k_milestone_supplier :: "sid \<times> nat \<Rightarrow> addr option"
  k_appeal_fee :: "int option"
  k_total_vaulted :: "addr \<Rightarrow> int option"
  k_vault_balance :: "addr \<times> addr \<Rightarrow> int option"
  k_standing_order :: "nat \<Rightarrow> standing_order option"
  k_next_standing_order_id :: "nat option"
  k_refund_recipient :: "sid \<Rightarrow> addr option"
  k_fund_from_vault :: "sid \<Rightarrow> bool option"
  k_supplier_earned :: "addr \<times> addr \<Rightarrow> int option"
  k_buyer_spent :: "addr \<times> addr \<Rightarrow> int option"
  k_dispute_history :: "addr \<Rightarrow> dispute_record list option"
  k_completed_at_ledger :: "sid \<Rightarrow> nat option"
  k_rating_agg :: "addr \<Rightarrow> (nat \<times> nat) option"
  k_party_shipments :: "party_key \<Rightarrow> sid list option"
  k_payout_assignment :: "sid \<Rightarrow> payout_assignment option"
  k_depeg_guard :: "addr \<Rightarrow> depeg_guard_config option"
  k_operation_paused :: "sym \<Rightarrow> bool option"
  k_role_expiry :: "role \<times> addr \<Rightarrow> nat option"
  k_supplier_timeliness :: "addr \<Rightarrow> supplier_timeliness option"
  k_shipment_rated :: "sid \<times> addr \<Rightarrow> bool option"
  k_rating_window :: "nat option"
  k_max_summary_batch :: "nat option"
  k_doc_hash_owner :: "hash \<Rightarrow> sid option"
  k_bol_hash :: "sid \<times> nat \<Rightarrow> hash option"
  k_appeal_fee_deposit :: "sid \<times> nat \<Rightarrow> (addr \<times> int) option"
  k_arbiter_unavailable :: "addr \<Rightarrow> bool option"
  k_arbiter_slash_bps :: "nat option"
  k_arbiter_stake :: "addr \<Rightarrow> (addr \<times> int) option"
  k_loser_pays :: "sid \<Rightarrow> bool option"
  k_pending_split :: "sid \<times> nat \<Rightarrow> (nat \<times> int) option"
  k_dispute_split_bps :: "sid \<times> nat \<Rightarrow> nat option"
  k_panel_escalation :: "addr \<Rightarrow> (int \<times> nat) option"
  k_panel_escalated :: "sid \<times> nat \<Rightarrow> bool option"
  k_use_pool_arb :: "sid \<Rightarrow> bool option"
  k_arbiters_pool :: "addr list option"
  k_arb_pool_idx :: "nat option"
  k_skip_buyer_auth :: "bool option"
  k_pending_allowance :: "(addr \<times> addr) option"
  k_collateral_token :: "sid \<Rightarrow> addr option"
  k_is_consortium :: "sid \<Rightarrow> bool option"
  k_collateral_slash_bps :: "sid \<Rightarrow> nat option"
  k_collateral_slashed :: "sid \<times> nat \<Rightarrow> bool option"
  k_tvl_cap :: "addr \<Rightarrow> int option"
  k_auto_id_counter :: "nat option"
  k_supplier_terms_profile :: "addr \<Rightarrow> supplier_terms_profile option"
  k_instance_escrowed :: "addr \<Rightarrow> int option"
  k_aux :: "string \<times> sid \<times> nat option \<Rightarrow> bool"
  k_wasm :: "hash option"
  calls :: "transfer list"
  events :: "event list"

text \<open>
  Outside the contract: the balance a token reports for an account after the calls the contract
  made, the price a depeg oracle reports (\<open>None\<close>: the oracle call traps), and the order in which
  the host's pseudo-random generator shuffles a list (\<^verbatim>\<open>env.prng().shuffle\<close>).
\<close>

record settle_env = env +
  tok_balance :: "transfer list \<Rightarrow> addr \<Rightarrow> addr \<Rightarrow> int"
  oracle_price :: "addr \<Rightarrow> addr \<Rightarrow> int option"
  prng_shuffle :: "addr list \<Rightarrow> addr list"

section \<open>Host operations\<close>

definition emit :: "val list \<Rightarrow> val list \<Rightarrow> settle \<Rightarrow> settle" where
  "emit tps dat s = s\<lparr>events := events s @ [Event tps dat]\<rparr>"

definition unwrap :: "'a option \<Rightarrow> 'a res" where
  "unwrap x = expect x ''called Option::unwrap() on a None value''"

definition vec_get :: "'a list \<Rightarrow> nat \<Rightarrow> 'a option" where
  "vec_get xs i = (if i < length xs then Some (xs ! i) else None)"

definition vec_get_unwrap :: "'a list \<Rightarrow> nat \<Rightarrow> 'a res" where
  "vec_get_unwrap xs i = unwrap (vec_get xs i)"

definition token_pay :: "settle_env \<Rightarrow> addr \<Rightarrow> addr \<Rightarrow> addr \<Rightarrow> int \<Rightarrow> settle \<Rightarrow> settle res" where
  "token_pay e tok src dst n s =
     bindE (token_transfer e tok src dst n (calls s)) (\<lambda>cs. Inr (s\<lparr>calls := cs\<rparr>))"

text \<open>Run an optional effect.\<close>

definition whenE :: "bool \<Rightarrow> ('s \<Rightarrow> 's res) \<Rightarrow> 's \<Rightarrow> 's res" where
  "whenE c f s = (if c then f s else Inr s)"

text \<open>A checked \<^verbatim>\<open>i128\<close> division of a product by a positive constant, as in
  \<^verbatim>\<open>(amount * bps as i128) / 10_000\<close>.\<close>

definition mul_div :: "int \<Rightarrow> nat \<Rightarrow> int \<Rightarrow> int res" where
  "mul_div a n d = bindE (ck_i128 (a * int n)) (\<lambda>p. Inr (tdiv p d))"

definition contract_stats_zero :: contract_stats where
  "contract_stats_zero = \<lparr>cs_total_shipments = 0, cs_total_volume = 0, cs_total_disputes = 0,
     cs_completed_shipments = 0\<rparr>"

definition reputation_zero :: reputation_score where
  "reputation_zero = \<lparr>rep_completed = 0, rep_disputed = 0, rep_cancelled = 0\<rparr>"

section \<open>Lemmas on the host operations\<close>

lemma emit_frame [simp]:
  "k_shipment (emit a b s) = k_shipment s"
  "k_supplier_rep (emit a b s) = k_supplier_rep s"
  "k_admin (emit a b s) = k_admin s"
  "k_fee_config (emit a b s) = k_fee_config s"
  "k_admin_action_log (emit a b s) = k_admin_action_log s"
  "k_total_escrowed (emit a b s) = k_total_escrowed s"
  "k_contract_stats (emit a b s) = k_contract_stats s"
  "k_shipments_by_status (emit a b s) = k_shipments_by_status s"
  "k_advance_request (emit a b s) = k_advance_request s"
  "k_supplier_collateral (emit a b s) = k_supplier_collateral s"
  "k_fee_recipients (emit a b s) = k_fee_recipients s"
  "k_vault_balance (emit a b s) = k_vault_balance s"
  "k_total_vaulted (emit a b s) = k_total_vaulted s"
  "k_retainage_balance (emit a b s) = k_retainage_balance s"
  "k_warranty_balance (emit a b s) = k_warranty_balance s"
  "k_pending_payout (emit a b s) = k_pending_payout s"
  "k_joint_confirmation (emit a b s) = k_joint_confirmation s"
  "k_confirmation_delegate (emit a b s) = k_confirmation_delegate s"
  "k_co_buyer (emit a b s) = k_co_buyer s"
  "k_milestone_splits (emit a b s) = k_milestone_splits s"
  "k_partial_qty_released (emit a b s) = k_partial_qty_released s"
  "k_treasury_revenue (emit a b s) = k_treasury_revenue s"
  "k_shipment_fees_paid (emit a b s) = k_shipment_fees_paid s"
  "calls (emit a b s) = calls s"
  by (simp_all add: emit_def)

lemma vec_get_unwrap_Inr [res_simps]: "vec_get_unwrap xs i = Inr x \<longleftrightarrow> i < length xs \<and> x = xs ! i"
  by (auto simp: vec_get_unwrap_def vec_get_def unwrap_def expect_def)

lemma unwrap_Inr [res_simps]: "unwrap x = Inr y \<longleftrightarrow> x = Some y"
  by (simp add: unwrap_def expect_Inr)

lemma whenE_simps [simp]: "whenE True f s = f s" "whenE False f s = Inr s"
  by (simp_all add: whenE_def)

lemma whenE_Inr [res_simps]: "whenE c f s = Inr t \<longleftrightarrow> (if c then f s = Inr t else t = s)"
  by (auto simp: whenE_def)

lemma token_pay_Inr [res_simps]:
  "token_pay e tok src dst n s = Inr t \<longleftrightarrow>
     tok_ok e (calls s) \<lparr>xtoken = tok, xfrom = src, xto = dst, xamount = n\<rparr> \<and>
     t = s\<lparr>calls := calls s @ [\<lparr>xtoken = tok, xfrom = src, xto = dst, xamount = n\<rparr>]\<rparr>"
  by (auto simp: token_pay_def res_simps)

lemma mul_div_Inr [res_simps]:
  "mul_div a n d = Inr x \<longleftrightarrow> in_i128 (a * int n) \<and> x = tdiv (a * int n) d"
  by (auto simp: mul_div_def res_simps)

lemma mul_div_bounds:
  assumes "mul_div a n d = Inr x" and "0 \<le> a" and "int n \<le> d" and "0 < d"
  shows "0 \<le> x" and "x \<le> a"
proof -
  have x: "x = a * int n div d"
    using assms by (auto simp: mul_div_Inr tdiv_nonneg)
  show "0 \<le> x" using assms by (simp add: x pos_imp_zdiv_nonneg_iff)
  have "a * int n \<le> a * d" using assms(2,3) by (rule mult_left_mono [rotated])
  then have "x \<le> a * d div d" unfolding x using assms(4) by (rule zdiv_mono1)
  then show "x \<le> a" using assms(4) by simp
qed

lemmas settletypes_eval [eval_defs] =
  MIN_SHIPMENT_AMOUNT_def MAX_FEE_BPS_def AUDIT_LOG_MAX_ENTRIES_def
  SHIPMENT_AUDIT_LOG_MAX_ENTRIES_def LIST_SHIPMENTS_MAX_PAGE_def
  DEFAULT_EMERGENCY_FREEZE_SUPERMAJORITY_BPS_def DEFAULT_MAX_DISPUTE_BOND_BPS_def
  STORAGE_SCHEMA_VERSION_def RECOVERY_THRESHOLD_LEDGERS_def DEFAULT_MAX_MILESTONE_COUNT_def
  MAX_BATCH_PROOF_SUBMISSIONS_def MAX_QUALITY_GRADES_def MAX_RETAINAGE_BPS_def MAX_WARRANTY_BPS_def
  DISPUTE_HISTORY_MAX_ENTRIES_def DEFAULT_MAX_SUMMARY_BATCH_def MAX_BATCH_ADD_ARBITERS_def
  MIN_ESCALATION_PANEL_SIZE_def DEFAULT_GRADE_REVIEW_WINDOW_LEDGERS_def emit_def unwrap_def vec_get_def
  vec_get_unwrap_def token_pay_def mul_div_def contract_stats_zero_def reputation_zero_def

end
