(* ===== verification/SettleAdmin.thy ===== *)
theory SettleAdmin
  imports SettleTypes
begin

text \<open>
  Administration of the settlement contract (\<^verbatim>\<open>lib.rs\<close>, lines 2077 to 3619):
  initialisation, upgrades, roles, the pause switches, the emergency freeze, fee waivers, scalar
  settings, supplier tiers, governance votes and the fee configuration. Functions whose name the
  loan manager already uses carry the prefix \<open>settle_\<close>.
\<close>

section \<open>Who may act\<close>

definition settle_assert_admin :: "settle \<Rightarrow> addr \<Rightarrow> unit res" where
  "settle_assert_admin s caller =
     bindE (expect (k_admin s) ''unauthorized'') (\<lambda>stored.
     if caller \<noteq> stored then Inl (Panic ''unauthorized'') else Inr ())"

definition check_has_role :: "settle_env \<Rightarrow> settle \<Rightarrow> role \<Rightarrow> addr \<Rightarrow> bool" where
  "check_has_role e s r caller =
     (if k_admin s = Some caller then True
      else if \<not> get_or False (k_user_role s (r, caller)) then False
      else (case k_role_expiry s (r, caller) of
              Some expiry \<Rightarrow> sequence e < expiry
            | None \<Rightarrow> True))"

definition assert_role :: "settle_env \<Rightarrow> settle \<Rightarrow> addr \<Rightarrow> role \<Rightarrow> unit res" where
  "assert_role e s caller r =
     (if \<not> check_has_role e s r caller then Inl (Panic ''unauthorized'') else Inr ())"

text \<open>The opening of every administrator call: the signature, then the stored administrator.\<close>

definition as_admin :: "settle_env \<Rightarrow> addr \<Rightarrow> settle \<Rightarrow> unit res" where
  "as_admin e a s = bindE (require_auth e a) (\<lambda>_. settle_assert_admin s a)"

definition as_role :: "settle_env \<Rightarrow> addr \<Rightarrow> role \<Rightarrow> settle \<Rightarrow> unit res" where
  "as_role e a r s = bindE (require_auth e a) (\<lambda>_. assert_role e s a r)"

text \<open>A bounded log: the oldest entry goes when the log is full.\<close>

definition push_bounded :: "nat \<Rightarrow> 'a \<Rightarrow> 'a list \<Rightarrow> 'a list" where
  "push_bounded cap x xs = (if cap \<le> length xs then drop 1 xs else xs) @ [x]"

definition append_admin_action :: "settle_env \<Rightarrow> sym \<Rightarrow> sym \<Rightarrow> settle \<Rightarrow> settle res" where
  "append_admin_action e action detail s =
     bindE (expect (k_admin s) ''unauthorized'') (\<lambda>adm.
     Inr (s\<lparr>k_admin_action_log := Some (push_bounded AUDIT_LOG_MAX_ENTRIES
        \<lparr>ae_action = action, ae_caller = adm, ae_ledger = sequence e, ae_detail = detail\<rparr>
        (get_or [] (k_admin_action_log s)))\<rparr>))"

section \<open>Initialisation and upgrades\<close>

definition settle_init :: "settle_env \<Rightarrow> addr \<Rightarrow> settle \<Rightarrow> settle res" where
  "settle_init e adm s =
     bindE (require_auth e adm) (\<lambda>_.
     Inr (s\<lparr>k_admin := Some adm, k_paused := Some False, k_min_milestone_percent := Some 5,
        k_max_concurrent_disputes := Some 1, k_admin_action_log := Some [],
        k_contract_stats := Some contract_stats_zero, k_active_disputes := Some [],
        k_escalation_threshold := Some 0, k_max_shipment_value := Some 0, k_cb_limit := Some 0,
        k_cb_window := Some 0, k_cb_window_start := Some 0, k_cb_window_outflow := Some 0,
        k_max_advance_percent := Some 30, k_referral_fee_bps := Some 500\<rparr>))"

definition upgrade :: "settle_env \<Rightarrow> addr \<Rightarrow> hash \<Rightarrow> settle \<Rightarrow> settle res" where
  "upgrade e adm h s =
     bindE (require_auth e adm) (\<lambda>_.
     bindE (expect (k_admin s) ''unauthorized'') (\<lambda>stored.
     if adm \<noteq> stored then Inl (Panic ''unauthorized'')
     else if k_multi_admin_config s \<noteq> None
     then Inl (Panic ''upgrade multisig is configured; use propose_upgrade/approve_upgrade instead'')
     else Inr (emit [VStr ''contract_upgraded''] [VNat h, VNat (sequence e)] (s\<lparr>k_wasm := Some h\<rparr>))))"

definition migrate :: "settle \<Rightarrow> settle" where
  "migrate s = s\<lparr>k_storage_schema_version := Some STORAGE_SCHEMA_VERSION\<rparr>"

definition storage_schema_version :: "settle \<Rightarrow> nat" where
  "storage_schema_version s = get_or 0 (k_storage_schema_version s)"

definition require_multisig_config :: "settle \<Rightarrow> multi_admin_config res" where
  "require_multisig_config s = expect (k_multi_admin_config s) ''multisig admin not configured''"

definition assert_multisig_admin :: "multi_admin_config \<Rightarrow> addr \<Rightarrow> unit res" where
  "assert_multisig_admin cfg adm =
     (if adm \<in> set (mc_admins cfg) then Inr () else Inl (Panic ''unauthorized''))"

text \<open>The opening of every multisig call.\<close>

definition as_multisig :: "settle_env \<Rightarrow> addr \<Rightarrow> settle \<Rightarrow> multi_admin_config res" where
  "as_multisig e adm s =
     bindE (require_auth e adm) (\<lambda>_.
     bindE (require_multisig_config s) (\<lambda>cfg.
     bindE (assert_multisig_admin cfg adm) (\<lambda>_. Inr cfg)))"

text \<open>A second approval of the same key is refused, otherwise the key is added.\<close>

definition add_approval :: "addr \<Rightarrow> addr list \<Rightarrow> addr list res" where
  "add_approval adm xs =
     (if adm \<in> set xs then Inl (Panic ''already approved by this admin'') else Inr (xs @ [adm]))"

definition execute_upgrade_proposal :: "nat \<Rightarrow> settle \<Rightarrow> settle res" where
  "execute_upgrade_proposal pid s =
     bindE (expect (k_upgrade_proposal s pid) ''upgrade proposal not found'') (\<lambda>p.
     Inr (emit [VStr ''upgrade_executed'', VNat pid] [VNat (up_new_wasm_hash p)]
       (s\<lparr>k_wasm := Some (up_new_wasm_hash p), k_upgrade_proposal := (k_upgrade_proposal s)(pid := None)\<rparr>)))"

definition propose_upgrade :: "settle_env \<Rightarrow> addr \<Rightarrow> hash \<Rightarrow> settle \<Rightarrow> (settle \<times> nat) res" where
  "propose_upgrade e adm h s =
     bindE (as_multisig e adm s) (\<lambda>cfg.
     bindE (ck_u64 (get_or 0 (k_upgrade_proposal_counter s) + 1)) (\<lambda>pid.
     let s1 = emit [VStr ''upgrade_proposed'', VNat pid] [VNat h, VAddr adm, VNat 1]
                (s\<lparr>k_upgrade_proposal_counter := Some pid,
                   k_upgrade_proposal := (k_upgrade_proposal s)(pid \<mapsto>
                     \<lparr>up_new_wasm_hash = h, up_approvals = [adm]\<rparr>)\<rparr>)
     in bindE (whenE (mc_threshold cfg \<le> 1) (execute_upgrade_proposal pid) s1) (\<lambda>s2. Inr (s2, pid))))"

definition approve_upgrade :: "settle_env \<Rightarrow> addr \<Rightarrow> nat \<Rightarrow> settle \<Rightarrow> settle res" where
  "approve_upgrade e adm pid s =
     bindE (as_multisig e adm s) (\<lambda>cfg.
     bindE (expect (k_upgrade_proposal s pid) ''upgrade proposal not found'') (\<lambda>p.
     bindE (add_approval adm (up_approvals p)) (\<lambda>apps.
     whenE (mc_threshold cfg \<le> length apps) (execute_upgrade_proposal pid)
       (emit [VStr ''upgrade_approved'', VNat pid] [VAddr adm, VNat (length apps)]
         (s\<lparr>k_upgrade_proposal := (k_upgrade_proposal s)(pid \<mapsto> p\<lparr>up_approvals := apps\<rparr>)\<rparr>)))))"

definition cancel_upgrade :: "settle_env \<Rightarrow> addr \<Rightarrow> nat \<Rightarrow> settle \<Rightarrow> settle res" where
  "cancel_upgrade e adm pid s =
     bindE (as_multisig e adm s) (\<lambda>cfg.
     if k_upgrade_proposal s pid = None then Inl (Panic ''upgrade proposal not found'')
     else Inr (emit [VStr ''upgrade_cancelled'', VNat pid] [VAddr adm]
            (s\<lparr>k_upgrade_proposal := (k_upgrade_proposal s)(pid := None)\<rparr>)))"

section \<open>Roles\<close>

fun VRole :: "role \<Rightarrow> val" where
  "VRole Pauser = VStr ''Pauser''"
| "VRole FeeManager = VStr ''FeeManager''"
| "VRole ComplianceOfficer = VStr ''ComplianceOfficer''"
| "VRole ArbiterManager = VStr ''ArbiterManager''"

definition grant_role :: "settle_env \<Rightarrow> addr \<Rightarrow> role \<Rightarrow> addr \<Rightarrow> nat option \<Rightarrow> settle \<Rightarrow> settle res" where
  "grant_role e adm r a expires s =
     bindE (as_admin e adm s) (\<lambda>_.
     if (case expires of Some n \<Rightarrow> n \<le> sequence e | None \<Rightarrow> False)
     then Inl (Panic ''role expiry must be in the future'')
     else
     bindE (append_admin_action e ''grant_role'' ''role_granted''
              (s\<lparr>k_user_role := (k_user_role s)((r, a) \<mapsto> True),
                 k_role_expiry := (k_role_expiry s)((r, a) := expires)\<rparr>)) (\<lambda>s1.
     let s2 = emit [VStr ''role_granted'', VAddr adm] [VRole r, VAddr a] s1
     in Inr (case expires of
          Some n \<Rightarrow> emit [VStr ''role_expiry_set'', VAddr adm] [VRole r, VAddr a, VNat n] s2
        | None \<Rightarrow> s2)))"

definition get_role_expiry :: "settle \<Rightarrow> role \<Rightarrow> addr \<Rightarrow> nat option" where
  "get_role_expiry s r a =
     (if \<not> get_or False (k_user_role s (r, a)) then None else k_role_expiry s (r, a))"

definition revoke_role :: "settle_env \<Rightarrow> addr \<Rightarrow> role \<Rightarrow> addr \<Rightarrow> settle \<Rightarrow> settle res" where
  "revoke_role e adm r a s =
     bindE (as_admin e adm s) (\<lambda>_.
     bindE (append_admin_action e ''revoke_role'' ''role_revoked''
              (s\<lparr>k_user_role := (k_user_role s)((r, a) := None),
                 k_role_expiry := (k_role_expiry s)((r, a) := None)\<rparr>)) (\<lambda>s1.
     Inr (emit [VStr ''role_revoked'', VAddr adm] [VRole r, VAddr a] s1)))"

section \<open>Pause switches\<close>

definition settle_pause :: "settle_env \<Rightarrow> addr \<Rightarrow> settle \<Rightarrow> settle res" where
  "settle_pause e adm s =
     bindE (as_role e adm Pauser s) (\<lambda>_.
     bindE (append_admin_action e ''pause'' ''contract_paused'' s) (\<lambda>s1.
     Inr (emit [VStr ''contract_paused''] [VNat (sequence e)] (s1\<lparr>k_paused := Some True\<rparr>))))"

definition settle_unpause :: "settle_env \<Rightarrow> addr \<Rightarrow> settle \<Rightarrow> settle res" where
  "settle_unpause e adm s =
     bindE (as_role e adm Pauser s) (\<lambda>_.
     bindE (append_admin_action e ''unpause'' ''contract_unpaused'' s) (\<lambda>s1.
     Inr (emit [VStr ''contract_unpaused''] [VNat (sequence e)] (s1\<lparr>k_paused := Some False\<rparr>))))"

definition validate_operation :: "sym \<Rightarrow> unit res" where
  "validate_operation op =
     (if op \<notin> set [''create'', ''confirm'', ''dispute'', ''advance'', ''claim'']
      then Inl (Panic ''unknown operation'') else Inr ())"

definition set_operation_paused :: "settle_env \<Rightarrow> addr \<Rightarrow> sym \<Rightarrow> bool \<Rightarrow> settle \<Rightarrow> settle res" where
  "set_operation_paused e adm op p s =
     bindE (as_admin e adm s) (\<lambda>_.
     bindE (validate_operation op) (\<lambda>_.
     bindE (append_admin_action e ''set_op_paused'' (if p then ''op_paused'' else ''op_unpaused'')
              (s\<lparr>k_operation_paused := (k_operation_paused s)(op \<mapsto> p)\<rparr>)) (\<lambda>s1.
     Inr (emit [VStr ''operation_paused_set'', VStr op] [VBool p] s1))))"

definition is_operation_paused :: "settle \<Rightarrow> sym \<Rightarrow> bool res" where
  "is_operation_paused s op =
     bindE (validate_operation op) (\<lambda>_.
     Inr (if get_or False (k_paused s) \<or> get_or False (k_emergency_frozen s) then True
          else get_or False (k_operation_paused s op)))"

definition assert_not_paused :: "settle \<Rightarrow> unit res" where
  "assert_not_paused s =
     (if get_or False (k_paused s) then Inl (Panic ''contract is paused'')
      else if get_or False (k_emergency_frozen s)
      then Inl (Panic ''contract is under emergency freeze'')
      else Inr ())"

definition assert_operation_not_paused :: "settle \<Rightarrow> sym \<Rightarrow> unit res" where
  "assert_operation_not_paused s op =
     bindE (assert_not_paused s) (\<lambda>_.
     if get_or False (k_operation_paused s op) then Inl (Panic ''operation is paused'') else Inr ())"

section \<open>Emergency freeze\<close>

definition set_freeze_supermajority_bps :: "settle_env \<Rightarrow> addr \<Rightarrow> nat \<Rightarrow> settle \<Rightarrow> settle res" where
  "set_freeze_supermajority_bps e adm bps s =
     bindE (as_admin e adm s) (\<lambda>_.
     if bps = 0 \<or> 10000 < bps then Inl (Panic ''supermajority bps must be in (0, 10000]'')
     else Inr (emit [VStr ''freeze_supermajority_bps_set''] [VNat bps]
            (s\<lparr>k_freeze_supermajority_bps := Some bps\<rparr>)))"

definition get_freeze_supermajority_bps :: "settle \<Rightarrow> nat" where
  "get_freeze_supermajority_bps s =
     get_or DEFAULT_EMERGENCY_FREEZE_SUPERMAJORITY_BPS (k_freeze_supermajority_bps s)"

definition is_emergency_frozen :: "settle \<Rightarrow> bool" where
  "is_emergency_frozen s = get_or False (k_emergency_frozen s)"

definition supermajority_required :: "nat \<Rightarrow> nat \<Rightarrow> nat" where
  "supermajority_required cnt bps = max ((cnt * bps + 9999) div 10000) 1"

definition execute_emergency_freeze_proposal :: "nat \<Rightarrow> settle \<Rightarrow> settle res" where
  "execute_emergency_freeze_proposal pid s =
     (if k_freeze_proposal s pid = None then Inl (Panic ''emergency freeze proposal not found'')
      else Inr (emit [VStr ''emergency_freeze_activated''] [VNat pid]
             (s\<lparr>k_freeze_proposal := (k_freeze_proposal s)(pid := None), k_emergency_frozen := Some True\<rparr>)))"

definition propose_emergency_freeze :: "settle_env \<Rightarrow> addr \<Rightarrow> settle \<Rightarrow> (settle \<times> nat) res" where
  "propose_emergency_freeze e adm s =
     bindE (require_auth e adm) (\<lambda>_.
     if k_multi_admin_config s = None
     then bindE (settle_assert_admin s adm) (\<lambda>_.
          Inr (emit [VStr ''emergency_freeze_activated''] [VAddr adm, VNat (sequence e)]
                 (s\<lparr>k_emergency_frozen := Some True\<rparr>), 0))
     else
     bindE (require_multisig_config s) (\<lambda>cfg.
     bindE (assert_multisig_admin cfg adm) (\<lambda>_.
     bindE (ck_u64 (get_or 0 (k_freeze_proposal_counter s) + 1)) (\<lambda>pid.
     let s1 = emit [VStr ''emergency_freeze_proposed'', VNat pid] [VAddr adm, VNat 1]
                (s\<lparr>k_freeze_proposal_counter := Some pid,
                   k_freeze_proposal := (k_freeze_proposal s)(pid \<mapsto> \<lparr>ef_approvals = [adm]\<rparr>)\<rparr>);
         required = supermajority_required (length (mc_admins cfg)) (get_freeze_supermajority_bps s1)
     in bindE (whenE (required \<le> 1) (execute_emergency_freeze_proposal pid) s1) (\<lambda>s2. Inr (s2, pid))))))"

definition approve_emergency_freeze :: "settle_env \<Rightarrow> addr \<Rightarrow> nat \<Rightarrow> settle \<Rightarrow> settle res" where
  "approve_emergency_freeze e adm pid s =
     bindE (as_multisig e adm s) (\<lambda>cfg.
     bindE (expect (k_freeze_proposal s pid) ''emergency freeze proposal not found'') (\<lambda>p.
     bindE (add_approval adm (ef_approvals p)) (\<lambda>apps.
     let s1 = emit [VStr ''emergency_freeze_approved'', VNat pid] [VAddr adm, VNat (length apps)]
                (s\<lparr>k_freeze_proposal := (k_freeze_proposal s)(pid \<mapsto> p\<lparr>ef_approvals := apps\<rparr>)\<rparr>);
         required = supermajority_required (length (mc_admins cfg)) (get_freeze_supermajority_bps s1)
     in whenE (required \<le> length apps) (execute_emergency_freeze_proposal pid) s1)))"

definition execute_emergency_unfreeze_proposal :: "nat \<Rightarrow> settle \<Rightarrow> settle res" where
  "execute_emergency_unfreeze_proposal pid s =
     (if k_unfreeze_proposal s pid = None then Inl (Panic ''emergency unfreeze proposal not found'')
      else Inr (emit [VStr ''emergency_freeze_lifted''] [VNat pid]
             (s\<lparr>k_unfreeze_proposal := (k_unfreeze_proposal s)(pid := None), k_emergency_frozen := Some False\<rparr>)))"

definition propose_emergency_unfreeze :: "settle_env \<Rightarrow> addr \<Rightarrow> settle \<Rightarrow> (settle \<times> nat) res" where
  "propose_emergency_unfreeze e adm s =
     bindE (require_auth e adm) (\<lambda>_.
     if k_multi_admin_config s = None
     then bindE (settle_assert_admin s adm) (\<lambda>_.
          Inr (emit [VStr ''emergency_freeze_lifted''] [VAddr adm, VNat (sequence e)]
                 (s\<lparr>k_emergency_frozen := Some False\<rparr>), 0))
     else
     bindE (require_multisig_config s) (\<lambda>cfg.
     bindE (assert_multisig_admin cfg adm) (\<lambda>_.
     bindE (ck_u64 (get_or 0 (k_freeze_proposal_counter s) + 1)) (\<lambda>pid.
     let s1 = emit [VStr ''emergency_unfreeze_proposed'', VNat pid] [VAddr adm, VNat 1]
                (s\<lparr>k_freeze_proposal_counter := Some pid,
                   k_unfreeze_proposal := (k_unfreeze_proposal s)(pid \<mapsto> \<lparr>ef_approvals = [adm]\<rparr>)\<rparr>);
         required = supermajority_required (length (mc_admins cfg)) (get_freeze_supermajority_bps s1)
     in bindE (whenE (required \<le> 1) (execute_emergency_unfreeze_proposal pid) s1) (\<lambda>s2. Inr (s2, pid))))))"

definition approve_emergency_unfreeze :: "settle_env \<Rightarrow> addr \<Rightarrow> nat \<Rightarrow> settle \<Rightarrow> settle res" where
  "approve_emergency_unfreeze e adm pid s =
     bindE (as_multisig e adm s) (\<lambda>cfg.
     bindE (expect (k_unfreeze_proposal s pid) ''emergency unfreeze proposal not found'') (\<lambda>p.
     bindE (add_approval adm (ef_approvals p)) (\<lambda>apps.
     let s1 = emit [VStr ''emergency_unfreeze_approved'', VNat pid] [VAddr adm, VNat (length apps)]
                (s\<lparr>k_unfreeze_proposal := (k_unfreeze_proposal s)(pid \<mapsto> p\<lparr>ef_approvals := apps\<rparr>)\<rparr>);
         required = supermajority_required (length (mc_admins cfg)) (get_freeze_supermajority_bps s1)
     in whenE (required \<le> length apps) (execute_emergency_unfreeze_proposal pid) s1)))"

section \<open>Fee waivers\<close>

definition execute_fee_waiver_proposal :: "nat \<Rightarrow> settle \<Rightarrow> settle res" where
  "execute_fee_waiver_proposal pid s =
     bindE (expect (k_fee_waiver_proposal s pid) ''fee waiver proposal not found'') (\<lambda>p.
     Inr (emit [VStr ''fee_waiver_granted'', VNat pid]
            [VAddr (fw_partner p), VNat (fw_waiver_bps p), VNat (fw_expires_at p)]
            (s\<lparr>k_fee_waiver_proposal := (k_fee_waiver_proposal s)(pid := None),
               k_fee_waiver := (k_fee_waiver s)(fw_partner p \<mapsto> (fw_waiver_bps p, fw_expires_at p))\<rparr>)))"

definition propose_fee_waiver ::
  "settle_env \<Rightarrow> addr \<Rightarrow> addr \<Rightarrow> nat \<Rightarrow> nat \<Rightarrow> settle \<Rightarrow> (settle \<times> nat) res" where
  "propose_fee_waiver e adm partner bps expires s =
     bindE (require_auth e adm) (\<lambda>_.
     if 10000 < bps then Inl (Panic ''waiver_bps cannot exceed 10000 (100%)'')
     else
     bindE (require_multisig_config s) (\<lambda>cfg.
     bindE (assert_multisig_admin cfg adm) (\<lambda>_.
     bindE (ck_u64 (get_or 0 (k_fee_waiver_proposal_counter s) + 1)) (\<lambda>pid.
     let s1 = emit [VStr ''fee_waiver_proposed'', VNat pid] [VAddr adm, VAddr partner, VNat bps, VNat 1]
                (s\<lparr>k_fee_waiver_proposal_counter := Some pid,
                   k_fee_waiver_proposal := (k_fee_waiver_proposal s)(pid \<mapsto>
                     \<lparr>fw_partner = partner, fw_waiver_bps = bps, fw_expires_at = expires, fw_approvals = [adm]\<rparr>)\<rparr>)
     in bindE (whenE (mc_threshold cfg \<le> 1) (execute_fee_waiver_proposal pid) s1) (\<lambda>s2. Inr (s2, pid))))))"

definition approve_fee_waiver :: "settle_env \<Rightarrow> addr \<Rightarrow> nat \<Rightarrow> settle \<Rightarrow> settle res" where
  "approve_fee_waiver e adm pid s =
     bindE (as_multisig e adm s) (\<lambda>cfg.
     bindE (expect (k_fee_waiver_proposal s pid) ''fee waiver proposal not found'') (\<lambda>p.
     bindE (add_approval adm (fw_approvals p)) (\<lambda>apps.
     whenE (mc_threshold cfg \<le> length apps) (execute_fee_waiver_proposal pid)
       (emit [VStr ''fee_waiver_approved'', VNat pid] [VAddr adm, VNat (length apps)]
         (s\<lparr>k_fee_waiver_proposal := (k_fee_waiver_proposal s)(pid \<mapsto> p\<lparr>fw_approvals := apps\<rparr>)\<rparr>)))))"

definition get_fee_waiver :: "settle_env \<Rightarrow> settle \<Rightarrow> addr \<Rightarrow> (nat \<times> nat) option" where
  "get_fee_waiver e s partner =
     (case k_fee_waiver s partner of
        None \<Rightarrow> None
      | Some (bps, expires) \<Rightarrow>
          if expires \<noteq> 0 \<and> expires \<le> timestamp e then None else Some (bps, expires))"

definition resolve_fee_waiver_bps :: "settle_env \<Rightarrow> settle \<Rightarrow> addr \<Rightarrow> nat" where
  "resolve_fee_waiver_bps e s a = get_or 0 (map_option fst (get_fee_waiver e s a))"

end
