(* ===== verification/SettleConfig.thy ===== *)
theory SettleConfig
  imports SettleAdmin
begin

text \<open>
  Scalar settings, supplier tiers, the circuit breaker's configuration, governance votes, the fee
  configuration and the treasury withdrawal of the settlement contract (\<^verbatim>\<open>lib.rs\<close>,
  lines 2983 to 3619).
\<close>

section \<open>Scalar settings\<close>

text \<open>The shape of the plain setters: administrator, write, one event with the new value.\<close>

definition admin_set :: "settle_env \<Rightarrow> addr \<Rightarrow> sym \<Rightarrow> val list \<Rightarrow> (settle \<Rightarrow> settle) \<Rightarrow> settle \<Rightarrow> settle res" where
  "admin_set e adm tpc dat upd s = bindE (as_admin e adm s) (\<lambda>_. Inr (emit [VStr tpc] dat (upd s)))"

definition set_escalation_threshold :: "settle_env \<Rightarrow> addr \<Rightarrow> nat \<Rightarrow> settle \<Rightarrow> settle res" where
  "set_escalation_threshold e adm n =
     admin_set e adm ''escalation_threshold_set'' [VNat n] (\<lambda>s. s\<lparr>k_escalation_threshold := Some n\<rparr>)"

definition get_escalation_threshold :: "settle \<Rightarrow> nat" where
  "get_escalation_threshold s = get_or 0 (k_escalation_threshold s)"

definition set_warning_lead_ledgers :: "settle_env \<Rightarrow> addr \<Rightarrow> nat \<Rightarrow> settle \<Rightarrow> settle res" where
  "set_warning_lead_ledgers e adm n =
     admin_set e adm ''warning_lead_ledgers_set'' [VNat n] (\<lambda>s. s\<lparr>k_warning_lead_ledgers := Some n\<rparr>)"

definition get_warning_lead_ledgers :: "settle \<Rightarrow> nat" where
  "get_warning_lead_ledgers s = get_or 0 (k_warning_lead_ledgers s)"

definition set_dispute_filing_window :: "settle_env \<Rightarrow> addr \<Rightarrow> nat \<Rightarrow> settle \<Rightarrow> settle res" where
  "set_dispute_filing_window e adm n =
     admin_set e adm ''dispute_filing_window_set'' [VNat n] (\<lambda>s. s\<lparr>k_dispute_filing_window := Some n\<rparr>)"

definition get_dispute_filing_window :: "settle \<Rightarrow> nat" where
  "get_dispute_filing_window s = get_or 0 (k_dispute_filing_window s)"

definition set_joint_confirmation_threshold :: "settle_env \<Rightarrow> addr \<Rightarrow> int \<Rightarrow> settle \<Rightarrow> settle res" where
  "set_joint_confirmation_threshold e adm n =
     admin_set e adm ''joint_confirmation_threshold_set'' [VInt n]
       (\<lambda>s. s\<lparr>k_joint_confirmation_threshold := Some n\<rparr>)"

definition get_joint_confirmation_threshold :: "settle \<Rightarrow> int" where
  "get_joint_confirmation_threshold s = get_or 0 (k_joint_confirmation_threshold s)"

definition set_appeal_window_ledgers :: "settle_env \<Rightarrow> addr \<Rightarrow> nat \<Rightarrow> settle \<Rightarrow> settle res" where
  "set_appeal_window_ledgers e adm n =
     admin_set e adm ''appeal_window_ledgers_set'' [VNat n] (\<lambda>s. s\<lparr>k_appeal_window_ledgers := Some n\<rparr>)"

definition get_appeal_window_ledgers :: "settle \<Rightarrow> nat" where
  "get_appeal_window_ledgers s = get_or 0 (k_appeal_window_ledgers s)"

definition set_appeal_fee :: "settle_env \<Rightarrow> addr \<Rightarrow> int \<Rightarrow> settle \<Rightarrow> settle res" where
  "set_appeal_fee e adm n s =
     bindE (as_admin e adm s) (\<lambda>_.
     if n < 0 then Inl (Panic ''appeal fee cannot be negative'')
     else Inr (emit [VStr ''appeal_fee_set''] [VInt n] (s\<lparr>k_appeal_fee := Some n\<rparr>)))"

definition get_appeal_fee :: "settle \<Rightarrow> int" where
  "get_appeal_fee s = get_or 0 (k_appeal_fee s)"

definition set_finality_delay_ledgers :: "settle_env \<Rightarrow> addr \<Rightarrow> nat \<Rightarrow> settle \<Rightarrow> settle res" where
  "set_finality_delay_ledgers e adm n s =
     bindE (as_admin e adm s) (\<lambda>_.
     bindE (append_admin_action e ''set_finality_delay_ledgers'' ''finality_delay_ledgers_set''
              (s\<lparr>k_finality_delay_ledgers := Some n\<rparr>)) (\<lambda>s1.
     Inr (emit [VStr ''finality_delay_ledgers_set''] [VNat n] s1)))"

definition get_finality_delay_ledgers :: "settle \<Rightarrow> nat" where
  "get_finality_delay_ledgers s = get_or 0 (k_finality_delay_ledgers s)"

definition set_max_shipment_value :: "settle_env \<Rightarrow> addr \<Rightarrow> int \<Rightarrow> settle \<Rightarrow> settle res" where
  "set_max_shipment_value e adm n =
     admin_set e adm ''max_shipment_value_set'' [VInt n] (\<lambda>s. s\<lparr>k_max_shipment_value := Some n\<rparr>)"

definition get_max_shipment_value :: "settle \<Rightarrow> int" where
  "get_max_shipment_value s = get_or 0 (k_max_shipment_value s)"

definition set_max_dispute_bond_bps :: "settle_env \<Rightarrow> addr \<Rightarrow> nat \<Rightarrow> settle \<Rightarrow> settle res" where
  "set_max_dispute_bond_bps e adm n s =
     bindE (as_admin e adm s) (\<lambda>_.
     if 10000 < n then Inl (Panic ''max_bps must not exceed 10000'')
     else Inr (emit [VStr ''max_dispute_bond_bps_set''] [VNat n] (s\<lparr>k_max_dispute_bond_bps := Some n\<rparr>)))"

definition get_max_dispute_bond_bps :: "settle \<Rightarrow> nat" where
  "get_max_dispute_bond_bps s = get_or DEFAULT_MAX_DISPUTE_BOND_BPS (k_max_dispute_bond_bps s)"

section \<open>Supplier tiers\<close>

definition get_reputation :: "settle \<Rightarrow> addr \<Rightarrow> reputation_score" where
  "get_reputation s a = get_or reputation_zero (k_supplier_rep s a)"

definition get_supplier_timeliness :: "settle \<Rightarrow> addr \<Rightarrow> supplier_timeliness" where
  "get_supplier_timeliness s a = get_or \<lparr>st_on_time = 0, st_late = 0\<rparr> (k_supplier_timeliness s a)"

definition set_supplier_tier_config :: "settle_env \<Rightarrow> addr \<Rightarrow> supplier_tier_config \<Rightarrow> settle \<Rightarrow> settle res" where
  "set_supplier_tier_config e adm cfg s =
     bindE (as_admin e adm s) (\<lambda>_.
     if 10000 < tc_silver_multiplier_bps cfg \<or> 10000 < tc_gold_multiplier_bps cfg
     then Inl (Panic ''tier multiplier cannot exceed 10000 bps'')
     else if tc_bronze_max_value cfg < 0 \<or> tc_silver_max_value cfg < 0 \<or> tc_gold_max_value cfg < 0
     then Inl (Panic ''tier max value cannot be negative'')
     else Inr (emit [VStr ''supplier_tier_config_set''] [] (s\<lparr>k_supplier_tier_config := Some cfg\<rparr>)))"

definition tier_of :: "supplier_tier_config \<Rightarrow> reputation_score \<Rightarrow> supplier_tier" where
  "tier_of cfg score =
     (if rep_completed score = 0 then Bronze
      else let ratio = min u64_max (rep_disputed score * 10000) div rep_completed score
        in if tc_gold_min_completed cfg \<le> rep_completed score \<and> ratio \<le> tc_gold_max_disputed_ratio_bps cfg
           then Gold
           else if tc_silver_min_completed cfg \<le> rep_completed score
                   \<and> ratio \<le> tc_silver_max_disputed_ratio_bps cfg
           then Silver else Bronze)"

definition get_supplier_tier_internal :: "settle \<Rightarrow> addr \<Rightarrow> supplier_tier" where
  "get_supplier_tier_internal s a =
     (case k_supplier_tier_config s of None \<Rightarrow> Bronze | Some cfg \<Rightarrow> tier_of cfg (get_reputation s a))"

fun VTier :: "supplier_tier \<Rightarrow> val" where
  "VTier Bronze = VStr ''Bronze''"
| "VTier Silver = VStr ''Silver''"
| "VTier Gold = VStr ''Gold''"

definition evaluate_supplier_tier_change :: "addr \<Rightarrow> settle \<Rightarrow> settle \<times> supplier_tier" where
  "evaluate_supplier_tier_change a s =
     (let new = get_supplier_tier_internal s a; old = get_or Bronze (k_supplier_last_tier s a)
      in (if new \<noteq> old
          then emit [VStr ''supplier_tier_changed'', VAddr a] [VAddr a, VTier old, VTier new]
                 (s\<lparr>k_supplier_last_tier := (k_supplier_last_tier s)(a \<mapsto> new)\<rparr>)
          else s, new))"

definition apply_tier_collateral_discount :: "addr \<Rightarrow> int \<Rightarrow> settle \<Rightarrow> (settle \<times> int) res" where
  "apply_tier_collateral_discount a base s =
     (if base = 0 then Inr (s, 0)
      else (case k_supplier_tier_config s of
          None \<Rightarrow> Inr (s, base)
        | Some cfg \<Rightarrow>
            let (s1, tier) = evaluate_supplier_tier_change a s;
                mult = (case tier of Bronze \<Rightarrow> 10000 | Silver \<Rightarrow> tc_silver_multiplier_bps cfg
                                   | Gold \<Rightarrow> tc_gold_multiplier_bps cfg)
            in bindE (mul_div base mult 10000) (\<lambda>x. Inr (s1, x))))"

section \<open>Circuit breaker and governance votes\<close>

definition set_circuit_breaker :: "settle_env \<Rightarrow> addr \<Rightarrow> int \<Rightarrow> nat \<Rightarrow> settle \<Rightarrow> settle res" where
  "set_circuit_breaker e adm lim w =
     admin_set e adm ''circuit_breaker_set'' [VInt lim, VNat w]
       (\<lambda>s. s\<lparr>k_cb_limit := Some lim, k_cb_window := Some w, k_cb_window_start := Some (sequence e),
             k_cb_window_outflow := Some 0\<rparr>)"

definition initialize_multisig_admin :: "settle_env \<Rightarrow> addr \<Rightarrow> addr list \<Rightarrow> nat \<Rightarrow> settle \<Rightarrow> settle res" where
  "initialize_multisig_admin e adm admins threshold s =
     bindE (as_admin e adm s) (\<lambda>_.
     if length admins < 1 \<or> threshold < 1 \<or> length admins < threshold
     then Inl (Panic ''invalid multi-sig parameters'')
     else Inr (emit [VStr ''multisig_admin_initialized''] [VNat threshold]
            (s\<lparr>k_multi_admin_config := Some \<lparr>mc_admins = admins, mc_threshold = threshold\<rparr>\<rparr>)))"

definition execute_admin_action :: "string \<Rightarrow> sym \<Rightarrow> string \<Rightarrow> settle \<Rightarrow> settle" where
  "execute_admin_action aid op prms s = emit [VStr ''admin_action_executed'', VStr aid] [VStr op] s"

definition propose_admin_action ::
  "settle_env \<Rightarrow> addr \<Rightarrow> string \<Rightarrow> sym \<Rightarrow> string \<Rightarrow> settle \<Rightarrow> settle res" where
  "propose_admin_action e adm aid op prms s =
     bindE (as_multisig e adm s) (\<lambda>cfg.
     bindE (add_approval adm (get_or [] (k_admin_approvals s aid))) (\<lambda>apps.
     let s1 = emit [VStr ''admin_action_proposed'', VStr aid] [VNat (length apps)]
                (s\<lparr>k_admin_approvals := (k_admin_approvals s)(aid \<mapsto> apps)\<rparr>)
     in Inr (if mc_threshold cfg \<le> length apps
             then let s2 = execute_admin_action aid op prms s1
                  in s2\<lparr>k_admin_approvals := (k_admin_approvals s2)(aid := None)\<rparr>
             else s1)))"

definition get_pending_admin_actions :: "settle \<Rightarrow> string \<Rightarrow> addr list" where
  "get_pending_admin_actions s aid = get_or [] (k_admin_approvals s aid)"

section \<open>Fee configuration\<close>

definition set_fee_config :: "settle_env \<Rightarrow> addr \<Rightarrow> nat \<Rightarrow> addr \<Rightarrow> settle \<Rightarrow> settle res" where
  "set_fee_config e adm bps treasury s =
     bindE (as_role e adm FeeManager s) (\<lambda>_.
     if MAX_FEE_BPS < bps then Inl (Panic ''fee_bps exceeds maximum of 1000'')
     else
     bindE (append_admin_action e ''set_fee_config'' ''fee_config_updated'' s) (\<lambda>s1.
     Inr (s1\<lparr>k_fee_config := Some \<lparr>fc_fee_bps = bps, fc_treasury = treasury\<rparr>\<rparr>)))"

definition schedule_fee_holiday :: "settle_env \<Rightarrow> addr \<Rightarrow> nat \<Rightarrow> nat \<Rightarrow> settle \<Rightarrow> settle res" where
  "schedule_fee_holiday e adm start_l end_l s =
     bindE (as_role e adm FeeManager s) (\<lambda>_.
     if end_l < start_l then Inl (Panic ''end_ledger must be >= start_ledger'')
     else
     bindE (append_admin_action e ''schedule_fee_holiday'' ''fee_holiday_scheduled''
        (s\<lparr>k_fee_holiday := Some \<lparr>fh_start_ledger = start_l, fh_end_ledger = end_l\<rparr>\<rparr>)) (\<lambda>s1.
     Inr (emit [VStr ''fee_holiday_scheduled''] [VNat start_l, VNat end_l] s1)))"

definition cancel_fee_holiday :: "settle_env \<Rightarrow> addr \<Rightarrow> settle \<Rightarrow> settle res" where
  "cancel_fee_holiday e adm s =
     bindE (as_role e adm FeeManager s) (\<lambda>_.
     append_admin_action e ''cancel_fee_holiday'' ''fee_holiday_cancelled'' (s\<lparr>k_fee_holiday := None\<rparr>))"

text \<open>The loop over the shares: \<^verbatim>\<open>checked_add\<close> on \<^verbatim>\<open>u32\<close>, unwrapped.\<close>

fun sum_shares :: "nat \<Rightarrow> fee_recipient list \<Rightarrow> nat res" where
  "sum_shares acc [] = Inr acc"
| "sum_shares acc (r # rs) =
     (if acc + fr_share_bps r \<le> u32_max then sum_shares (acc + fr_share_bps r) rs
      else bindE (unwrap None) (\<lambda>x. sum_shares x rs))"

definition set_fee_recipients :: "settle_env \<Rightarrow> addr \<Rightarrow> fee_recipient list \<Rightarrow> settle \<Rightarrow> settle res" where
  "set_fee_recipients e adm rs s =
     bindE (as_role e adm FeeManager s) (\<lambda>_.
     if rs = [] then Inl (Panic ''recipients cannot be empty'')
     else
     bindE (sum_shares 0 rs) (\<lambda>n.
     if n \<noteq> 10000 then Inl (Panic ''fee shares must sum to exactly 10000'')
     else
     bindE (append_admin_action e ''set_fee_recipients'' ''fee_recipients_updated''
              (s\<lparr>k_fee_recipients := Some rs\<rparr>)) (\<lambda>s1.
     Inr (emit [VStr ''fee_recipients_set''] [VNat (length rs), VNat (sequence e)] s1))))"

definition get_treasury_revenue :: "settle \<Rightarrow> addr \<Rightarrow> int" where
  "get_treasury_revenue s tok = get_or 0 (k_treasury_revenue s tok)"

definition withdraw_treasury_dust ::
  "settle_env \<Rightarrow> addr \<Rightarrow> addr \<Rightarrow> addr \<Rightarrow> settle \<Rightarrow> (settle \<times> int) res" where
  "withdraw_treasury_dust e adm tok dst s =
     bindE (as_admin e adm s) (\<lambda>_.
     let balance = tok_balance e (calls s) tok (this e)
     in bindE (ck_i128 (get_or 0 (k_total_escrowed s tok) + get_or 0 (k_total_vaulted s tok))) (\<lambda>reserved.
     if balance \<le> reserved then Inl (Panic ''no dust available'')
     else
     bindE (ck_i128 (balance - reserved)) (\<lambda>dust.
     bindE (token_pay e tok (this e) dst dust s) (\<lambda>s1.
     Inr (emit [VStr ''treasury_withdrawal'', VAddr tok] [VAddr dst, VInt dust, VNat (sequence e)] s1, dust)))))"

lemma sum_shares_Inr: "sum_shares acc rs = Inr n \<Longrightarrow> n = acc + (\<Sum>r\<leftarrow>rs. fr_share_bps r)"
  by (induction acc rs rule: sum_shares.induct) (auto simp: unwrap_def split: if_splits)

end
