(* ===== verification/SettleLedger.thy ===== *)
theory SettleLedger
  imports SettleConfig
begin

text \<open>
  The settlement contract's bookkeeping (\<^verbatim>\<open>lib.rs\<close>): total escrow per token,
  supplier reputation and the automatic blacklist, timeliness and reliability counters, volume
  counters, dispute history, ratings, audit log, status and party indexes, and pagination. None of
  these operations moves tokens.
\<close>

section \<open>Shipments\<close>

definition get_shipment_internal :: "settle \<Rightarrow> sid \<Rightarrow> shipment res" where
  "get_shipment_internal s i = expect (k_shipment s i) ''shipment not found''"

definition append_audit_entry ::
  "settle_env \<Rightarrow> addr \<Rightarrow> sym \<Rightarrow> sym \<Rightarrow> shipment \<Rightarrow> shipment" where
  "append_audit_entry e caller action detail sh =
     sh\<lparr>sh_audit_log := push_bounded SHIPMENT_AUDIT_LOG_MAX_ENTRIES
        \<lparr>ae_action = action, ae_caller = caller, ae_ledger = sequence e, ae_detail = detail\<rparr>
        (sh_audit_log sh)\<rparr>"

definition build_shipment_summary :: "shipment \<Rightarrow> shipment_summary" where
  "build_shipment_summary sh =
     \<lparr>ss_id = sh_id sh, ss_status = sh_status sh, ss_buyers = sh_buyers sh, ss_supplier = sh_supplier sh,
      ss_token = sh_token sh, ss_total_amount = sh_total_amount sh,
      ss_released_amount = sh_released_amount sh, ss_milestone_count = length (sh_milestones sh),
      ss_open_disputes = sh_open_dispute_count sh, ss_created_at = sh_created_at sh\<rparr>"

definition done_status :: "milestone_status \<Rightarrow> bool" where
  "done_status st \<longleftrightarrow> st = Confirmed \<or> st = Resolved"

definition all_milestones_done :: "shipment \<Rightarrow> bool" where
  "all_milestones_done sh \<longleftrightarrow> (\<forall>m \<in> set (sh_milestones sh). done_status (ms_status m))"

definition is_final_milestone :: "shipment \<Rightarrow> nat \<Rightarrow> bool" where
  "is_final_milestone sh i \<longleftrightarrow>
     (\<forall>j < length (sh_milestones sh). j \<noteq> i \<longrightarrow> done_status (ms_status (sh_milestones sh ! j)))"

definition effective_milestone_supplier :: "settle \<Rightarrow> shipment \<Rightarrow> sid \<Rightarrow> nat \<Rightarrow> addr" where
  "effective_milestone_supplier s sh i m = get_or (sh_supplier sh) (k_milestone_supplier s (i, m))"

definition mark_shipment_had_dispute :: "sid \<Rightarrow> settle \<Rightarrow> settle" where
  "mark_shipment_had_dispute i s = s\<lparr>k_shipment_had_dispute := (k_shipment_had_dispute s)(i \<mapsto> True)\<rparr>"

section \<open>Total escrow\<close>

definition decrease_total_escrowed :: "addr \<Rightarrow> int \<Rightarrow> settle \<Rightarrow> settle res" where
  "decrease_total_escrowed tok n s =
     bindE (ck_i128 (get_or 0 (k_total_escrowed s tok) - n)) (\<lambda>x.
     Inr (s\<lparr>k_total_escrowed := (k_total_escrowed s)(tok \<mapsto> max x 0)\<rparr>))"

definition increase_total_escrowed :: "addr \<Rightarrow> int \<Rightarrow> settle \<Rightarrow> settle res" where
  "increase_total_escrowed tok n s =
     bindE (ck_i128 (get_or 0 (k_total_escrowed s tok) + n)) (\<lambda>x.
     Inr (s\<lparr>k_total_escrowed := (k_total_escrowed s)(tok \<mapsto> x)\<rparr>))"

definition compute_exposure_loop :: "settle \<Rightarrow> sid \<Rightarrow> int \<Rightarrow> int res" where
  "compute_exposure_loop s i acc =
     (case k_shipment s i of
        None \<Rightarrow> Inr acc
      | Some sh \<Rightarrow>
          if sh_status sh = Active
          then bindE (ck_i128 (sh_total_amount sh - sh_released_amount sh)) (\<lambda>d. ck_i128 (acc + max d 0))
          else Inr acc)"

fun foldE :: "('a \<Rightarrow> 's \<Rightarrow> 's res) \<Rightarrow> 'a list \<Rightarrow> 's \<Rightarrow> 's res" where
  "foldE f [] s = Inr s"
| "foldE f (x # xs) s = bindE (f x s) (foldE f xs)"

definition compute_supplier_exposure :: "settle \<Rightarrow> addr \<Rightarrow> int res" where
  "compute_supplier_exposure s a =
     foldE (compute_exposure_loop s) (get_or [] (k_supplier_shipments s a)) 0"

section \<open>Reputation\<close>

definition check_auto_blacklist_internal ::
  "settle_env \<Rightarrow> addr \<Rightarrow> reputation_score \<Rightarrow> settle \<Rightarrow> settle" where
  "check_auto_blacklist_internal e a score s =
     (if k_blacklisted s a \<noteq> None then s
      else let rule = get_or \<lparr>abr_max_cancelled = 0, abr_max_disputed = 0\<rparr> (k_auto_blacklist_rule s);
               triggered = (0 < abr_max_cancelled rule \<and> abr_max_cancelled rule \<le> rep_cancelled score)
                         \<or> (0 < abr_max_disputed rule \<and> abr_max_disputed rule \<le> rep_disputed score)
        in if \<not> triggered then s
           else s\<lparr>k_blacklisted := (k_blacklisted s)(a \<mapsto> 0),
                  k_admin_action_log := Some (push_bounded AUDIT_LOG_MAX_ENTRIES
                    \<lparr>ae_action = ''address_blacklisted'', ae_caller = a, ae_ledger = sequence e,
                     ae_detail = ''auto_blacklist_triggered''\<rparr> (get_or [] (k_admin_action_log s)))\<rparr>)"

definition set_reputation_internal :: "addr \<Rightarrow> reputation_score \<Rightarrow> settle \<Rightarrow> settle" where
  "set_reputation_internal a score s =
     fst (evaluate_supplier_tier_change a (s\<lparr>k_supplier_rep := (k_supplier_rep s)(a \<mapsto> score)\<rparr>))"

definition increment_reputation_internal ::
  "settle_env \<Rightarrow> addr \<Rightarrow> nat \<Rightarrow> nat \<Rightarrow> nat \<Rightarrow> settle \<Rightarrow> settle" where
  "increment_reputation_internal e a dc dd dx s =
     (let old = get_reputation s a;
          score = \<lparr>rep_completed = sat_add_u32 (rep_completed old) dc,
                   rep_disputed = sat_add_u32 (rep_disputed old) dd,
                   rep_cancelled = sat_add_u32 (rep_cancelled old) dx\<rparr>;
          s1 = set_reputation_internal a score s
      in if 0 < dd \<or> 0 < dx then check_auto_blacklist_internal e a score s1 else s1)"

definition record_milestone_timeliness :: "addr \<Rightarrow> milestone \<Rightarrow> settle \<Rightarrow> settle" where
  "record_milestone_timeliness a m s =
     (if ms_deadline_ledger m = 0 then s
      else (case ms_proof_submitted_ledger m of
          None \<Rightarrow> s
        | Some proof_ledger \<Rightarrow>
            let t = get_supplier_timeliness s a;
                t' = (if proof_ledger \<le> ms_deadline_ledger m
                      then t\<lparr>st_on_time := sat_add_u32 (st_on_time t) 1\<rparr>
                      else t\<lparr>st_late := sat_add_u32 (st_late t) 1\<rparr>)
            in emit [VStr ''timeliness_recorded'', VAddr a] [VNat (st_on_time t'), VNat (st_late t')]
                 (s\<lparr>k_supplier_timeliness := (k_supplier_timeliness s)(a \<mapsto> t')\<rparr>)))"

definition reliability_zero :: buyer_reliability where
  "reliability_zero = \<lparr>br_total_confirmations = 0, br_total_confirmation_latency = 0,
     br_disputes_lost = 0, br_disputes_total = 0\<rparr>"

definition update_buyer_reliability_on_confirmation ::
  "settle_env \<Rightarrow> addr \<Rightarrow> nat \<Rightarrow> settle \<Rightarrow> settle" where
  "update_buyer_reliability_on_confirmation e b proof_ledger s =
     (let r = get_or reliability_zero (k_buyer_reliability s b)
      in s\<lparr>k_buyer_reliability := (k_buyer_reliability s)(b \<mapsto>
           r\<lparr>br_total_confirmations := sat_add_u32 (br_total_confirmations r) 1,
             br_total_confirmation_latency :=
               sat_add_u64 (br_total_confirmation_latency r) (sequence e - proof_ledger)\<rparr>)\<rparr>)"

definition update_buyer_reliability_on_dispute :: "addr \<Rightarrow> bool \<Rightarrow> settle \<Rightarrow> settle" where
  "update_buyer_reliability_on_dispute b won s =
     (let r = get_or reliability_zero (k_buyer_reliability s b);
          r1 = r\<lparr>br_disputes_total := sat_add_u32 (br_disputes_total r) 1\<rparr>;
          r2 = (if won then r1 else r1\<lparr>br_disputes_lost := sat_add_u32 (br_disputes_lost r1) 1\<rparr>)
      in s\<lparr>k_buyer_reliability := (k_buyer_reliability s)(b \<mapsto> r2)\<rparr>)"

section \<open>Counters and histories\<close>

definition record_release_counters ::
  "addr \<Rightarrow> addr \<Rightarrow> addr \<Rightarrow> int \<Rightarrow> int \<Rightarrow> settle \<Rightarrow> settle res" where
  "record_release_counters supplier buyer tok spend net s =
     bindE (whenE (0 < spend) (\<lambda>s.
        let x = get_or 0 (k_buyer_spent s (buyer, tok)) + spend
        in if in_i128 x then Inr (s\<lparr>k_buyer_spent := (k_buyer_spent s)((buyer, tok) \<mapsto> x)\<rparr>)
           else Inl (Panic ''buyer spend overflow'')) s)
     (whenE (0 < net) (\<lambda>s.
        let x = get_or 0 (k_supplier_earned s (supplier, tok)) + net
        in if in_i128 x then Inr (s\<lparr>k_supplier_earned := (k_supplier_earned s)((supplier, tok) \<mapsto> x)\<rparr>)
           else Inl (Panic ''supplier earnings overflow'')))"

definition append_dispute_history_for :: "addr \<Rightarrow> dispute_record \<Rightarrow> settle \<Rightarrow> settle" where
  "append_dispute_history_for a r s =
     s\<lparr>k_dispute_history := (k_dispute_history s)(a \<mapsto>
        push_bounded DISPUTE_HISTORY_MAX_ENTRIES r (get_or [] (k_dispute_history s a)))\<rparr>"

definition append_dispute_history :: "addr \<Rightarrow> addr \<Rightarrow> dispute_record \<Rightarrow> settle \<Rightarrow> settle" where
  "append_dispute_history buyer supplier r s =
     append_dispute_history_for supplier r (append_dispute_history_for buyer r s)"

definition record_rating :: "addr \<Rightarrow> nat \<Rightarrow> settle \<Rightarrow> settle res" where
  "record_rating a stars s =
     (let (count, total_stars) = get_or (0, 0) (k_rating_agg s a)
      in if u32_max < count + 1 then Inl (Panic ''rating count overflow'')
         else if u32_max < total_stars + stars then Inl (Panic ''rating sum overflow'')
         else Inr (s\<lparr>k_rating_agg := (k_rating_agg s)(a \<mapsto> (count + 1, total_stars + stars))\<rparr>))"

section \<open>Indexes and pages\<close>

definition add_to_status_index :: "shipment_status \<Rightarrow> sid \<Rightarrow> settle \<Rightarrow> settle" where
  "add_to_status_index st i s =
     s\<lparr>k_shipments_by_status := (k_shipments_by_status s)(st \<mapsto>
        get_or [] (k_shipments_by_status s st) @ [i])\<rparr>"

text \<open>The removal loop: copies the list, skipping the first match.\<close>

fun remove_first :: "sid \<Rightarrow> bool \<Rightarrow> sid list \<Rightarrow> sid list" where
  "remove_first i removed [] = []"
| "remove_first i removed (x # xs) =
     (if \<not> removed \<and> x = i then remove_first i True xs else x # remove_first i removed xs)"

definition remove_from_status_index :: "shipment_status \<Rightarrow> sid \<Rightarrow> settle \<Rightarrow> settle" where
  "remove_from_status_index st i s =
     s\<lparr>k_shipments_by_status := (k_shipments_by_status s)(st \<mapsto>
        remove_first i False (get_or [] (k_shipments_by_status s st)))\<rparr>"

definition move_shipment_status_index :: "shipment_status \<Rightarrow> shipment_status \<Rightarrow> sid \<Rightarrow> settle \<Rightarrow> settle" where
  "move_shipment_status_index from_st to_st i s =
     add_to_status_index to_st i (remove_from_status_index from_st i s)"

definition add_to_party_index :: "party_key \<Rightarrow> sid \<Rightarrow> settle \<Rightarrow> settle" where
  "add_to_party_index k i s =
     (let xs = get_or [] (k_party_shipments s k)
      in if i \<in> set xs then s
         else s\<lparr>k_party_shipments := (k_party_shipments s)(k \<mapsto> xs @ [i])\<rparr>)"

definition remove_from_party_index :: "party_key \<Rightarrow> sid \<Rightarrow> settle \<Rightarrow> settle" where
  "remove_from_party_index k i s =
     s\<lparr>k_party_shipments := (k_party_shipments s)(k \<mapsto>
        remove_first i False (get_or [] (k_party_shipments s k)))\<rparr>"

definition reindex_arbiter :: "sid \<Rightarrow> addr \<Rightarrow> addr \<Rightarrow> settle \<Rightarrow> settle" where
  "reindex_arbiter i old new s =
     (if old = new then s
      else add_to_party_index (ArbiterShipments new) i (remove_from_party_index (ArbiterShipments old) i s))"

text \<open>The page loop, \<open>n\<close> entries still to be taken from index \<open>idx\<close> on.\<close>

function page_loop :: "'a list \<Rightarrow> nat \<Rightarrow> nat \<Rightarrow> 'a list \<Rightarrow> 'a list" where
  "page_loop src idx lim acc =
     (if idx < length src \<and> length acc < lim then page_loop src (idx + 1) lim (acc @ [src ! idx]) else acc)"
  by auto

termination page_loop
  by (relation "measure (\<lambda>(src, idx, lim, acc). length src - idx)") auto

declare page_loop.simps [simp del]

definition paginate_shipment_ids :: "sid list \<Rightarrow> nat option \<Rightarrow> nat \<Rightarrow> sid list" where
  "paginate_shipment_ids src cursor lim =
     (let clamped = (if LIST_SHIPMENTS_MAX_PAGE < lim then LIST_SHIPMENTS_MAX_PAGE else lim);
          start_idx = get_or 0 cursor
      in if length src \<le> start_idx \<or> clamped = 0 then [] else page_loop src start_idx clamped [])"

section \<open>Lemmas\<close>

text \<open>A bounded log keeps the newest entries.\<close>

lemma push_bounded_bound: "length xs \<le> cap \<Longrightarrow> 0 < cap \<Longrightarrow> length (push_bounded cap x xs) \<le> cap"
  by (auto simp: push_bounded_def)

lemma last_push_bounded [simp]: "last (push_bounded cap x xs) = x"
  by (simp add: push_bounded_def)

lemma push_bounded_take:
  assumes "length xs = min cap n" "xs = drop (n - length xs) hist" "length hist = n" "0 < cap"
  shows "push_bounded cap x xs = drop (Suc n - min cap (Suc n)) (hist @ [x])"
  using assms by (auto simp: push_bounded_def Suc_diff_le)

lemma foldE_append: "foldE f (xs @ ys) s = bindE (foldE f xs s) (foldE f ys)"
proof (induction xs arbitrary: s)
  case (Cons x xs)
  then show ?case by (cases "f x s") auto
qed simp

lemma remove_first_True [simp]: "remove_first i True xs = xs"
  by (induction xs) auto

lemma remove_first_remove1: "remove_first i False xs = remove1 i xs"
  by (induction xs) auto

lemma page_loop_take:
  "length acc \<le> lim \<Longrightarrow> page_loop src idx lim acc = acc @ take (lim - length acc) (drop idx src)"
proof (induction src idx lim acc rule: page_loop.induct)
  case (1 src idx lim acc)
  show ?case
  proof (cases "idx < length src \<and> length acc < lim")
    case True
    then obtain k where k: "lim - length acc = Suc k" by (metis Suc_diff_Suc)
    have step: "drop idx src = src ! idx # drop (Suc idx) src" using True by (simp add: Cons_nth_drop_Suc)
    have k': "lim - Suc (length acc) = k" using k by simp
    have "page_loop src idx lim acc = page_loop src (idx + 1) lim (acc @ [src ! idx])"
      using True by (simp add: page_loop.simps [of src idx])
    also have "\<dots> = (acc @ [src ! idx]) @ take k (drop (Suc idx) src)"
      using True 1 by (simp add: k')
    finally show ?thesis by (simp add: k step)
  next
    case False
    then show ?thesis using 1(2) by (auto simp: page_loop.simps [of src idx])
  qed
qed

lemma paginate_take:
  "paginate_shipment_ids src cursor lim = take (min lim LIST_SHIPMENTS_MAX_PAGE) (drop (get_or 0 cursor) src)"
  by (auto simp: paginate_shipment_ids_def page_loop_take min_def Let_def)

end
