(* ===== verification/SettleSettings.thy ===== *)
theory SettleSettings
  imports SettleLedger
begin

text \<open>
  The remaining administration of the settlement contract (\<^verbatim>\<open>lib.rs\<close>): admin
  succession, blacklist with appeals, supplier whitelist, oracle groups, fee tiers and per-shipment
  fee overrides, rebates, reputation policies, filtered audit views.
\<close>

section \<open>Succession\<close>

definition nominate_admin :: "settle_env \<Rightarrow> addr \<Rightarrow> addr \<Rightarrow> settle \<Rightarrow> settle res" where
  "nominate_admin e adm nominee =
     admin_set e adm ''admin_nominated'' [VAddr nominee] (\<lambda>s. s\<lparr>k_pending_admin := Some nominee\<rparr>)"

definition accept_admin :: "settle_env \<Rightarrow> addr \<Rightarrow> settle \<Rightarrow> settle res" where
  "accept_admin e nominee s =
     bindE (require_auth e nominee) (\<lambda>_.
     bindE (expect (k_pending_admin s) ''no pending nomination'') (\<lambda>pending.
     if nominee \<noteq> pending then Inl (Panic ''unauthorized'')
     else
     bindE (expect (k_admin s) ''unauthorized'') (\<lambda>old.
     Inr (emit [VStr ''admin_transferred''] [VAddr old, VAddr nominee]
            (s\<lparr>k_admin := Some nominee, k_pending_admin := None\<rparr>)))))"

definition revoke_nomination :: "settle_env \<Rightarrow> addr \<Rightarrow> settle \<Rightarrow> settle res" where
  "revoke_nomination e adm =
     admin_set e adm ''nomination_revoked'' [VNat (sequence e)] (\<lambda>s. s\<lparr>k_pending_admin := None\<rparr>)"

section \<open>Settings with an audit entry\<close>

definition set_min_milestone_percent :: "settle_env \<Rightarrow> addr \<Rightarrow> nat \<Rightarrow> settle \<Rightarrow> settle res" where
  "set_min_milestone_percent e adm pct s =
     bindE (as_admin e adm s) (\<lambda>_.
     if pct = 0 \<or> 100 < pct then Inl (Panic ''min_milestone_percent must be between 1 and 100'')
     else append_admin_action e ''set_min_milestone_percent'' ''min_milestone_percent_updated''
            (s\<lparr>k_min_milestone_percent := Some pct\<rparr>))"

definition set_max_advance_percent :: "settle_env \<Rightarrow> addr \<Rightarrow> nat \<Rightarrow> settle \<Rightarrow> settle res" where
  "set_max_advance_percent e adm pct s =
     bindE (as_admin e adm s) (\<lambda>_.
     if 100 < pct then Inl (Panic ''max advance percent must not exceed 100'')
     else append_admin_action e ''set_max_advance_percent'' ''max_advance_percent_updated''
            (s\<lparr>k_max_advance_percent := Some pct\<rparr>))"

definition get_max_advance_percent :: "settle \<Rightarrow> nat" where
  "get_max_advance_percent s = get_or 30 (k_max_advance_percent s)"

definition set_nft_hook_enabled :: "settle_env \<Rightarrow> addr \<Rightarrow> bool \<Rightarrow> settle \<Rightarrow> settle res" where
  "set_nft_hook_enabled e adm on s =
     bindE (as_admin e adm s) (\<lambda>_.
     bindE (append_admin_action e ''set_nft_hook_enabled'' ''nft_hook_config_updated''
              (s\<lparr>k_nft_hook_enabled := Some on\<rparr>)) (\<lambda>s1.
     Inr (emit [VStr ''nft_hook_config_updated''] [VAddr adm, VBool on, VNat (sequence e)] s1)))"

definition get_nft_hook_enabled :: "settle \<Rightarrow> bool" where
  "get_nft_hook_enabled s = get_or False (k_nft_hook_enabled s)"

definition set_auto_blacklist_rule :: "settle_env \<Rightarrow> addr \<Rightarrow> nat \<Rightarrow> nat \<Rightarrow> settle \<Rightarrow> settle res" where
  "set_auto_blacklist_rule e adm mc md s =
     bindE (as_admin e adm s) (\<lambda>_.
     bindE (append_admin_action e ''set_auto_blacklist_rule'' ''auto_blacklist_rule_set''
        (s\<lparr>k_auto_blacklist_rule := Some \<lparr>abr_max_cancelled = mc, abr_max_disputed = md\<rparr>\<rparr>)) (\<lambda>s1.
     Inr (emit [VStr ''auto_blacklist_rule_set''] [VNat mc, VNat md] s1)))"

definition get_auto_blacklist_rule :: "settle \<Rightarrow> auto_blacklist_rule" where
  "get_auto_blacklist_rule s = get_or \<lparr>abr_max_cancelled = 0, abr_max_disputed = 0\<rparr> (k_auto_blacklist_rule s)"

definition set_reputation_fast_track :: "settle_env \<Rightarrow> addr \<Rightarrow> nat \<Rightarrow> nat \<Rightarrow> settle \<Rightarrow> settle res" where
  "set_reputation_fast_track e adm mn ratio s =
     bindE (as_admin e adm s) (\<lambda>_.
     if 10000 < ratio then Inl (Panic ''max_disputed_ratio_bps cannot exceed 10000'')
     else Inr (emit [VStr ''reputation_fast_track_set''] [VNat mn, VNat ratio]
            (s\<lparr>k_reputation_fast_track := Some \<lparr>rft_min_completed = mn, rft_max_disputed_ratio_bps = ratio\<rparr>\<rparr>)))"

definition set_rating_window_ledgers :: "settle_env \<Rightarrow> addr \<Rightarrow> nat \<Rightarrow> settle \<Rightarrow> settle res" where
  "set_rating_window_ledgers e adm n s =
     bindE (as_admin e adm s) (\<lambda>_.
     bindE (append_admin_action e ''set_rating_window_ledger'' ''rating_window_ledgers_set''
              (s\<lparr>k_rating_window := Some n\<rparr>)) (\<lambda>s1.
     Inr (emit [VStr ''rating_window_ledgers_set''] [VNat n] s1)))"

definition get_rating_window_ledgers :: "settle \<Rightarrow> nat" where
  "get_rating_window_ledgers s = get_or 0 (k_rating_window s)"

definition set_max_summary_batch :: "settle_env \<Rightarrow> addr \<Rightarrow> nat \<Rightarrow> settle \<Rightarrow> settle res" where
  "set_max_summary_batch e adm n s =
     bindE (as_admin e adm s) (\<lambda>_.
     if n = 0 then Inl (Panic ''max must be positive'')
     else
     bindE (append_admin_action e ''set_max_summary_batch'' ''max_summary_batch_set''
              (s\<lparr>k_max_summary_batch := Some n\<rparr>)) (\<lambda>s1.
     Inr (emit [VStr ''max_summary_batch_set''] [VNat n] s1)))"

definition get_max_summary_batch :: "settle \<Rightarrow> nat" where
  "get_max_summary_batch s = get_or DEFAULT_MAX_SUMMARY_BATCH (k_max_summary_batch s)"

section \<open>Plain settings\<close>

definition set_auto_confirm_threshold :: "settle_env \<Rightarrow> addr \<Rightarrow> nat \<Rightarrow> settle \<Rightarrow> settle res" where
  "set_auto_confirm_threshold e adm n =
     admin_set e adm ''auto_confirm_threshold_set'' [VNat n] (\<lambda>s. s\<lparr>k_auto_confirm_threshold := Some n\<rparr>)"

definition get_auto_confirm_threshold :: "settle \<Rightarrow> nat" where
  "get_auto_confirm_threshold s = get_or 0 (k_auto_confirm_threshold s)"

definition set_arbiter_inactivity_threshold :: "settle_env \<Rightarrow> addr \<Rightarrow> nat \<Rightarrow> settle \<Rightarrow> settle res" where
  "set_arbiter_inactivity_threshold e adm n =
     admin_set e adm ''arbiter_inactivity_threshold_set'' [VNat n] (\<lambda>s. s\<lparr>k_arbiter_inactivity := Some n\<rparr>)"

definition set_confirmation_cooldown :: "settle_env \<Rightarrow> addr \<Rightarrow> nat \<Rightarrow> settle \<Rightarrow> settle res" where
  "set_confirmation_cooldown e adm n =
     admin_set e adm ''confirmation_cooldown_set'' [VNat n] (\<lambda>s. s\<lparr>k_global_confirmation_cooldown := Some n\<rparr>)"

definition set_min_shipment_value :: "settle_env \<Rightarrow> addr \<Rightarrow> int \<Rightarrow> settle \<Rightarrow> settle res" where
  "set_min_shipment_value e adm n =
     admin_set e adm ''min_shipment_value_set'' [VInt n] (\<lambda>s. s\<lparr>k_min_shipment_value := Some n\<rparr>)"

definition get_min_shipment_value :: "settle \<Rightarrow> int" where
  "get_min_shipment_value s = get_or 0 (k_min_shipment_value s)"

definition set_long_hold_rebate :: "settle_env \<Rightarrow> addr \<Rightarrow> nat \<Rightarrow> nat \<Rightarrow> settle \<Rightarrow> settle res" where
  "set_long_hold_rebate e adm n bps =
     admin_set e adm ''long_hold_rebate_set'' [VNat n, VNat bps] (\<lambda>s. s\<lparr>k_long_hold_rebate := Some (n, bps)\<rparr>)"

definition get_long_hold_rebate :: "settle \<Rightarrow> nat \<times> nat" where
  "get_long_hold_rebate s = get_or (0, 0) (k_long_hold_rebate s)"

definition set_clean_completion_rebate_bps :: "settle_env \<Rightarrow> addr \<Rightarrow> nat \<Rightarrow> settle \<Rightarrow> settle res" where
  "set_clean_completion_rebate_bps e adm bps s =
     bindE (as_admin e adm s) (\<lambda>_.
     if 10000 < bps then Inl (Panic ''bps cannot exceed 10000'')
     else Inr (emit [VStr ''clean_completion_rebate_bps_set''] [VNat bps]
            (s\<lparr>k_clean_completion_rebate_bps := Some bps\<rparr>)))"

definition get_clean_completion_rebate_bps :: "settle \<Rightarrow> nat" where
  "get_clean_completion_rebate_bps s = get_or 0 (k_clean_completion_rebate_bps s)"

definition get_shipment_fees_paid :: "settle \<Rightarrow> sid \<Rightarrow> int" where
  "get_shipment_fees_paid s i = get_or 0 (k_shipment_fees_paid s i)"

definition set_pause_min_notice_ledgers :: "settle_env \<Rightarrow> addr \<Rightarrow> nat \<Rightarrow> settle \<Rightarrow> settle res" where
  "set_pause_min_notice_ledgers e adm n =
     admin_set e adm ''pause_min_notice_set'' [VNat n] (\<lambda>s. s\<lparr>k_pause_min_notice := Some n\<rparr>)"

definition get_pause_min_notice_ledgers :: "settle \<Rightarrow> nat" where
  "get_pause_min_notice_ledgers s = get_or 0 (k_pause_min_notice s)"

section \<open>Fees\<close>

definition set_referral_fee_bps :: "settle_env \<Rightarrow> addr \<Rightarrow> nat \<Rightarrow> settle \<Rightarrow> settle res" where
  "set_referral_fee_bps e adm bps s =
     bindE (as_role e adm FeeManager s) (\<lambda>_.
     if 10000 < bps then Inl (Panic ''referral_fee_bps cannot exceed 10000'')
     else Inr (emit [VStr ''referral_fee_bps_set''] [VNat bps] (s\<lparr>k_referral_fee_bps := Some bps\<rparr>)))"

definition get_referral_fee_bps :: "settle \<Rightarrow> nat" where
  "get_referral_fee_bps s = get_or 500 (k_referral_fee_bps s)"

definition set_fee_tiers :: "settle_env \<Rightarrow> addr \<Rightarrow> fee_tier list \<Rightarrow> settle \<Rightarrow> settle res" where
  "set_fee_tiers e adm tiers s =
     bindE (as_role e adm FeeManager s) (\<lambda>_.
     if 5 < length tiers then Inl (Panic ''max 5 fee tiers'')
     else Inr (emit [VStr ''fee_tiers_set''] [VNat (length tiers)] (s\<lparr>k_fee_tiers := Some tiers\<rparr>)))"

text \<open>The loop over the tiers: the least fee among the tiers the volume reaches.\<close>

fun best_tier :: "int \<Rightarrow> fee_tier list \<Rightarrow> nat option \<Rightarrow> nat option" where
  "best_tier volume [] best = best"
| "best_tier volume (t # ts) best =
     best_tier volume ts
       (if ft_min_lifetime_volume t \<le> volume
        then Some (case best of None \<Rightarrow> ft_fee_bps t
                   | Some b \<Rightarrow> if ft_fee_bps t < b then ft_fee_bps t else b)
        else best)"

definition resolve_fee_bps_for :: "settle \<Rightarrow> addr \<Rightarrow> nat" where
  "resolve_fee_bps_for s a =
     (case best_tier (get_or 0 (k_lifetime_volume s a)) (get_or [] (k_fee_tiers s)) None of
        Some b \<Rightarrow> b
      | None \<Rightarrow> get_or 0 (map_option fc_fee_bps (k_fee_config s)))"

definition get_fee_tier :: "settle \<Rightarrow> addr \<Rightarrow> nat" where
  "get_fee_tier s a =
     (case best_tier (get_or 0 (k_lifetime_volume s a)) (get_or [] (k_fee_tiers s)) None of
        Some b \<Rightarrow> b
      | None \<Rightarrow> get_or 0 (map_option fc_fee_bps (k_fee_config s)))"

definition set_shipment_fee_override :: "settle_env \<Rightarrow> addr \<Rightarrow> sid \<Rightarrow> nat \<Rightarrow> settle \<Rightarrow> settle res" where
  "set_shipment_fee_override e adm i bps s =
     bindE (as_role e adm FeeManager s) (\<lambda>_.
     bindE (get_shipment_internal s i) (\<lambda>sh.
     if sh_status sh \<noteq> Active then Inl (Panic ''shipment is not active'')
     else Inr (emit [VStr ''shipment_fee_override_set'', VStr i] [VNat bps]
            (s\<lparr>k_shipment_fee_override := (k_shipment_fee_override s)(i \<mapsto> bps)\<rparr>))))"

definition clear_shipment_fee_override :: "settle_env \<Rightarrow> addr \<Rightarrow> sid \<Rightarrow> settle \<Rightarrow> settle res" where
  "clear_shipment_fee_override e adm i s =
     bindE (as_role e adm FeeManager s) (\<lambda>_.
     Inr (emit [VStr ''shipment_fee_override_cleared''] [VStr i]
            (s\<lparr>k_shipment_fee_override := (k_shipment_fee_override s)(i := None)\<rparr>)))"

section \<open>Blacklist and whitelist\<close>

definition is_blacklisted :: "settle \<Rightarrow> addr \<Rightarrow> bool" where
  "is_blacklisted s a \<longleftrightarrow> k_blacklisted s a \<noteq> None"

definition blacklist_address :: "settle_env \<Rightarrow> addr \<Rightarrow> addr \<Rightarrow> hash \<Rightarrow> settle \<Rightarrow> settle res" where
  "blacklist_address e adm a h s =
     bindE (as_role e adm ComplianceOfficer s) (\<lambda>_.
     append_admin_action e ''blacklist_address'' ''address_blacklisted''
       (s\<lparr>k_blacklisted := (k_blacklisted s)(a \<mapsto> h)\<rparr>))"

definition remove_from_blacklist :: "settle_env \<Rightarrow> addr \<Rightarrow> addr \<Rightarrow> settle \<Rightarrow> settle res" where
  "remove_from_blacklist e adm a s =
     bindE (as_role e adm ComplianceOfficer s) (\<lambda>_.
     append_admin_action e ''remove_from_blacklist'' ''address_unblacklisted''
       (s\<lparr>k_blacklisted := (k_blacklisted s)(a := None)\<rparr>))"

definition appeal_blacklist :: "settle_env \<Rightarrow> addr \<Rightarrow> string \<Rightarrow> settle \<Rightarrow> settle res" where
  "appeal_blacklist e a evidence s =
     bindE (require_auth e a) (\<lambda>_.
     if \<not> is_blacklisted s a then Inl (Panic ''address is not blacklisted'')
     else if (case k_blacklist_appeal s a of Some x \<Rightarrow> ba_status x = AppealPending | None \<Rightarrow> False)
     then Inl (Panic ''an appeal is already pending for this address'')
     else Inr (emit [VStr ''blacklist_appeal_filed'', VAddr a] [VNat (sequence e)]
            (s\<lparr>k_blacklist_appeal := (k_blacklist_appeal s)(a \<mapsto>
               \<lparr>ba_evidence_hash = evidence, ba_status = AppealPending, ba_filed_ledger = sequence e\<rparr>)\<rparr>)))"

definition review_blacklist_appeal :: "settle_env \<Rightarrow> addr \<Rightarrow> addr \<Rightarrow> bool \<Rightarrow> settle \<Rightarrow> settle res" where
  "review_blacklist_appeal e adm a approve s =
     bindE (as_role e adm ComplianceOfficer s) (\<lambda>_.
     bindE (expect (k_blacklist_appeal s a) ''no appeal found for this address'') (\<lambda>app.
     if ba_status app \<noteq> AppealPending then Inl (Panic ''appeal has already been decided'')
     else
     let s1 = s\<lparr>k_blacklist_appeal := (k_blacklist_appeal s)(a \<mapsto>
                  app\<lparr>ba_status := (if approve then AppealApproved else AppealRejected)\<rparr>)\<rparr>;
         s2 = (if approve then s1\<lparr>k_blacklisted := (k_blacklisted s1)(a := None)\<rparr> else s1)
     in bindE (append_admin_action e ''review_blacklist_appeal'' ''blacklist_appeal_reviewed'' s2) (\<lambda>s3.
     Inr (emit [VStr ''blacklist_appeal_reviewed'', VAddr a] [VBool approve] s3))))"

definition add_to_whitelist :: "settle_env \<Rightarrow> addr \<Rightarrow> addr \<Rightarrow> settle \<Rightarrow> settle res" where
  "add_to_whitelist e adm a s =
     bindE (as_role e adm ComplianceOfficer s) (\<lambda>_.
     let xs = get_or [] (k_supplier_whitelist s)
     in Inr (if a \<in> set xs then s
             else emit [VStr ''supplier_whitelisted''] [VAddr a] (s\<lparr>k_supplier_whitelist := Some (xs @ [a])\<rparr>)))"

definition remove_from_whitelist :: "settle_env \<Rightarrow> addr \<Rightarrow> addr \<Rightarrow> settle \<Rightarrow> settle res" where
  "remove_from_whitelist e adm a s =
     bindE (as_role e adm ComplianceOfficer s) (\<lambda>_.
     Inr (emit [VStr ''supplier_unwhitelisted''] [VAddr a]
       (s\<lparr>k_supplier_whitelist := Some (filter (\<lambda>x. x \<noteq> a) (get_or [] (k_supplier_whitelist s)))\<rparr>)))"

section \<open>Oracle groups\<close>

definition register_oracle_group ::
  "settle_env \<Rightarrow> addr \<Rightarrow> sym \<Rightarrow> addr list \<Rightarrow> nat \<Rightarrow> settle \<Rightarrow> settle res" where
  "register_oracle_group e adm purpose oracles threshold s =
     bindE (as_admin e adm s) (\<lambda>_.
     if oracles = [] then Inl (Panic ''oracle group must have at least one member'')
     else if threshold = 0 \<or> length oracles < threshold
     then Inl (Panic ''threshold must be between 1 and oracles.len()'')
     else Inr (emit [VStr ''oracle_group_registered'', VStr purpose] [VNat (length oracles), VNat threshold]
            (s\<lparr>k_oracle_group := (k_oracle_group s)(purpose \<mapsto> (oracles, threshold))\<rparr>)))"

definition set_shipment_oracle_purpose :: "settle_env \<Rightarrow> addr \<Rightarrow> sid \<Rightarrow> sym \<Rightarrow> settle \<Rightarrow> settle res" where
  "set_shipment_oracle_purpose e adm i purpose s =
     bindE (as_admin e adm s) (\<lambda>_.
     Inr (emit [VStr ''shipment_oracle_purpose_set'', VStr i] [VStr purpose]
            (s\<lparr>k_shipment_oracle_purpose := (k_shipment_oracle_purpose s)(i \<mapsto> purpose)\<rparr>)))"

definition submit_oracle_attestation :: "settle_env \<Rightarrow> addr \<Rightarrow> sid \<Rightarrow> nat \<Rightarrow> settle \<Rightarrow> settle res" where
  "submit_oracle_attestation e oracle i m s =
     bindE (assert_not_paused s) (\<lambda>_.
     bindE (require_auth e oracle) (\<lambda>_.
     bindE (expect (k_shipment_oracle_purpose s i) ''no oracle group assigned to this shipment'') (\<lambda>purpose.
     bindE (expect (k_oracle_group s purpose) ''oracle group not registered'') (\<lambda>(oracles, _).
     if oracle \<notin> set oracles
     then Inl (Panic ''caller is not a member of the assigned oracle group'')
     else
     let xs = get_or [] (k_oracle_attestations s (i, m, purpose))
     in if oracle \<in> set xs then Inl (Panic ''oracle has already attested to this milestone'')
        else Inr (emit [VStr ''oracle_attestation_submitted'', VStr i] [VNat m, VAddr oracle]
               (s\<lparr>k_oracle_attestations :=
                  (k_oracle_attestations s)((i, m, purpose) \<mapsto> xs @ [oracle])\<rparr>))))))"

definition get_oracle_attestation_count :: "settle \<Rightarrow> sid \<Rightarrow> nat \<Rightarrow> nat" where
  "get_oracle_attestation_count s i m =
     (case k_shipment_oracle_purpose s i of
        None \<Rightarrow> 0
      | Some purpose \<Rightarrow> length (get_or [] (k_oracle_attestations s (i, m, purpose))))"

section \<open>Audit views\<close>

definition get_admin_log :: "settle \<Rightarrow> audit_entry list" where
  "get_admin_log s = get_or [] (k_admin_action_log s)"

definition get_admin_log_filtered ::
  "settle \<Rightarrow> sym option \<Rightarrow> nat option \<Rightarrow> nat option \<Rightarrow> audit_entry list" where
  "get_admin_log_filtered s action from_l to_l =
     filter (\<lambda>x. \<not> (\<exists>a. action = Some a \<and> ae_action x \<noteq> a) \<and>
                 \<not> (case from_l of Some f \<Rightarrow> ae_ledger x < f | None \<Rightarrow> False) \<and>
                 \<not> (case to_l of Some t \<Rightarrow> t < ae_ledger x | None \<Rightarrow> False)) (get_admin_log s)"

definition get_shipment_summary :: "settle \<Rightarrow> sid \<Rightarrow> shipment_summary res" where
  "get_shipment_summary s i = bindE (get_shipment_internal s i) (\<lambda>sh. Inr (build_shipment_summary sh))"

definition get_shipment_summaries :: "settle \<Rightarrow> sid list \<Rightarrow> shipment_summary list res" where
  "get_shipment_summaries s ids =
     (if get_max_summary_batch s < length ids then Inl (Panic ''batch size exceeds max summary batch'')
      else Inr (map build_shipment_summary (List.map_filter (k_shipment s) ids)))"

definition get_supplier_earnings :: "settle \<Rightarrow> addr \<Rightarrow> addr \<Rightarrow> int" where
  "get_supplier_earnings s a tok = get_or 0 (k_supplier_earned s (a, tok))"

definition get_buyer_spend :: "settle \<Rightarrow> addr \<Rightarrow> addr \<Rightarrow> int" where
  "get_buyer_spend s a tok = get_or 0 (k_buyer_spent s (a, tok))"

definition get_dispute_history :: "settle \<Rightarrow> addr \<Rightarrow> nat option \<Rightarrow> nat \<Rightarrow> dispute_record list" where
  "get_dispute_history s a cursor lim =
     (let clamped = (if LIST_SHIPMENTS_MAX_PAGE < lim then LIST_SHIPMENTS_MAX_PAGE else lim)
      in page_loop (get_or [] (k_dispute_history s a)) (get_or 0 cursor) clamped [])"

definition get_rating_summary :: "settle \<Rightarrow> addr \<Rightarrow> nat \<times> nat" where
  "get_rating_summary s a =
     (let (count, stars) = get_or (0, 0) (k_rating_agg s a)
      in if count = 0 then (0, 0) else (count, (stars * 100) div count mod 2 ^ 32))"

text \<open>The fee of the tiers is the least among those the volume reaches.\<close>

abbreviation reached_fees :: "int \<Rightarrow> fee_tier list \<Rightarrow> nat list" where
  "reached_fees v ts \<equiv> map ft_fee_bps (filter (\<lambda>t. ft_min_lifetime_volume t \<le> v) ts)"

lemma best_tier_Some: "best_tier v ts (Some b) = Some (fold min (reached_fees v ts) b)"
  by (induction ts arbitrary: b) (auto simp: min_def)

lemma best_tier_None:
  "best_tier v ts None = (case reached_fees v ts of [] \<Rightarrow> None | f # fs \<Rightarrow> Some (fold min fs f))"
  by (induction ts) (auto simp: best_tier_Some)

lemma best_tier_spec:
  "best_tier v ts None = (if reached_fees v ts = [] then None else Some (Min (set (reached_fees v ts))))"
  unfolding best_tier_None
  by (cases "reached_fees v ts") (simp_all only: list.case Min.set_eq_fold, simp_all)

end
