(* ===== verification/SettleFees.thy ===== *)
theory SettleFees
  imports SettleSettings
begin

text \<open>
  Platform fees of the settlement contract (\<^verbatim>\<open>lib.rs\<close>, lines 21009 to 21110 and 21292 to
  21444, and the read-only variant at 10313 to 10365). The out-parameter \<^verbatim>\<open>fee_out\<close> of
  the source, which every caller initialises with 0, is a component of the result.
\<close>

section \<open>Fee state\<close>

definition fee_holiday_active :: "settle_env \<Rightarrow> settle \<Rightarrow> bool" where
  "fee_holiday_active e s =
     (case k_fee_holiday s of
        Some h \<Rightarrow> fh_start_ledger h \<le> sequence e \<and> sequence e \<le> fh_end_ledger h
      | None \<Rightarrow> False)"

definition track_treasury_revenue :: "addr \<Rightarrow> int \<Rightarrow> settle \<Rightarrow> settle res" where
  "track_treasury_revenue tok n s =
     bindE (ck_i128 (get_or 0 (k_treasury_revenue s tok) + n)) (\<lambda>x.
     Inr (s\<lparr>k_treasury_revenue := (k_treasury_revenue s)(tok \<mapsto> x)\<rparr>))"

definition track_shipment_fees_paid :: "sid \<Rightarrow> int \<Rightarrow> settle \<Rightarrow> settle res" where
  "track_shipment_fees_paid i fee s =
     (if fee \<le> 0 then Inr s
      else bindE (ck_i128 (get_or 0 (k_shipment_fees_paid s i) + fee)) (\<lambda>x.
           Inr (s\<lparr>k_shipment_fees_paid := (k_shipment_fees_paid s)(i \<mapsto> x)\<rparr>)))"

section \<open>Distribution of a fee\<close>

text \<open>
  The multi-recipient loop, recipient \<open>i\<close> first: the entry with index 0 is paid
  \<open>fee - distributed\<close>, every other one its share.
\<close>

fun pay_shares ::
  "settle_env \<Rightarrow> addr \<Rightarrow> int \<Rightarrow> nat \<Rightarrow> fee_recipient list \<Rightarrow> int \<Rightarrow> settle \<Rightarrow> (settle \<times> int) res" where
  "pay_shares e tok fee i [] distributed s = Inr (s, distributed)"
| "pay_shares e tok fee i (r # rs) distributed s =
     bindE (if i = 0 then ck_i128 (fee - distributed) else mul_div fee (fr_share_bps r) 10000) (\<lambda>share.
     if 0 < share
     then bindE (token_pay e tok (this e) (fr_recipient r) share s) (\<lambda>s1.
          bindE (ck_i128 (distributed + share)) (\<lambda>d.
          pay_shares e tok fee (i + 1) rs d s1))
     else pay_shares e tok fee (i + 1) rs distributed s)"

text \<open>The three ways a positive fee leaves the contract; the revenue counter is updated in each.\<close>

definition distribute_fee :: "settle_env \<Rightarrow> addr \<Rightarrow> addr \<Rightarrow> int \<Rightarrow> settle \<Rightarrow> settle res" where
  "distribute_fee e tok treasury fee s =
     (case k_fee_recipients s of
        Some rs \<Rightarrow>
          if length rs = 1
          then bindE (vec_get_unwrap rs 0) (\<lambda>r.
               bindE (token_pay e tok (this e) (fr_recipient r) fee s) (track_treasury_revenue tok fee))
          else bindE (pay_shares e tok fee 0 rs 0 s) (\<lambda>(s1, _). track_treasury_revenue tok fee s1)
      | None \<Rightarrow>
          bindE (token_pay e tok (this e) treasury fee s) (track_treasury_revenue tok fee))"

section \<open>Deduction\<close>

definition deduct_fee :: "settle_env \<Rightarrow> int \<Rightarrow> addr \<Rightarrow> settle \<Rightarrow> (settle \<times> int \<times> int) res" where
  "deduct_fee e gross tok s =
     (if fee_holiday_active e s then Inr (s, gross, 0)
      else (case k_fee_config s of
          None \<Rightarrow> Inr (s, gross, 0)
        | Some config \<Rightarrow>
            bindE (mul_div gross (fc_fee_bps config) 10000) (\<lambda>fee.
            if 0 < fee
            then bindE (distribute_fee e tok (fc_treasury config) fee s) (\<lambda>s1.
                 bindE (ck_i128 (gross - fee)) (\<lambda>net. Inr (s1, net, fee)))
            else Inr (s, gross, 0))))"

definition deduct_fee_for_shipment ::
  "settle_env \<Rightarrow> int \<Rightarrow> addr \<Rightarrow> sid \<Rightarrow> settle \<Rightarrow> (settle \<times> int \<times> int) res" where
  "deduct_fee_for_shipment e gross tok i s =
     (if fee_holiday_active e s then Inr (s, gross, 0)
      else (case k_fee_config s of
          None \<Rightarrow> Inr (s, gross, 0)
        | Some config \<Rightarrow>
            let bps = get_or (get_or (fc_fee_bps config) (k_shipment_fee_bps s i)) (k_shipment_fee_override s i)
            in bindE (mul_div gross bps 10000) (\<lambda>fee.
               if 0 < fee
               then bindE (distribute_fee e tok (fc_treasury config) fee s) (\<lambda>s1.
                    bindE (track_shipment_fees_paid i fee s1) (\<lambda>s2.
                    bindE (ck_i128 (gross - fee)) (\<lambda>net. Inr (s2, net, fee))))
               else Inr (s, gross, 0))))"

text \<open>The rate after the partner waiver: the waived share of the rate, as \<^verbatim>\<open>u32\<close>, is subtracted.\<close>

definition waive_bps :: "nat \<Rightarrow> nat \<Rightarrow> nat res" where
  "waive_bps bps waiver = (if 0 < waiver then ck_sub bps ((bps * waiver div 10000) mod 2 ^ 32) else Inr bps)"

definition deduct_fee_for_shipment_at_completion ::
  "settle_env \<Rightarrow> int \<Rightarrow> addr \<Rightarrow> sid \<Rightarrow> addr \<Rightarrow> bool \<Rightarrow> settle \<Rightarrow> (settle \<times> int \<times> int \<times> nat) res" where
  "deduct_fee_for_shipment_at_completion e gross tok i buyer is_final s =
     (if fee_holiday_active e s then Inr (s, gross, 0, 0)
      else (case k_fee_config s of
          None \<Rightarrow> Inr (s, gross, 0, get_or (get_or 0 (k_shipment_fee_bps s i)) (k_shipment_fee_override s i))
        | Some config \<Rightarrow>
            let bps0 = (case k_shipment_fee_override s i of
                          Some ovr \<Rightarrow> ovr
                        | None \<Rightarrow> if is_final then resolve_fee_bps_for s buyer
                                  else get_or (fc_fee_bps config) (k_shipment_fee_bps s i))
            in bindE (waive_bps bps0 (resolve_fee_waiver_bps e s buyer)) (\<lambda>bps.
               bindE (mul_div gross bps 10000) (\<lambda>fee.
               if 0 < fee
               then bindE (token_pay e tok (this e) (fc_treasury config) fee s) (\<lambda>s1.
                    bindE (track_treasury_revenue tok fee s1) (\<lambda>s2.
                    bindE (track_shipment_fees_paid i fee s2) (\<lambda>s3.
                    bindE (ck_i128 (gross - fee)) (\<lambda>net. Inr (s3, net, fee, bps)))))
               else Inr (s, gross, 0, bps)))))"

definition deduct_fee_for_shipment_at_completion_preview ::
  "settle_env \<Rightarrow> settle \<Rightarrow> int \<Rightarrow> sid \<Rightarrow> addr \<Rightarrow> bool \<Rightarrow> (int \<times> int \<times> nat) res" where
  "deduct_fee_for_shipment_at_completion_preview e s gross i buyer is_final =
     (if fee_holiday_active e s then Inr (gross, 0, 0)
      else (case k_fee_config s of
          None \<Rightarrow> Inr (gross, 0, get_or (get_or 0 (k_shipment_fee_bps s i)) (k_shipment_fee_override s i))
        | Some config \<Rightarrow>
            let bps0 = (case k_shipment_fee_override s i of
                          Some ovr \<Rightarrow> ovr
                        | None \<Rightarrow> if is_final then resolve_fee_bps_for s buyer
                                  else get_or (fc_fee_bps config) (k_shipment_fee_bps s i))
            in bindE (waive_bps bps0 (resolve_fee_waiver_bps e s buyer)) (\<lambda>bps.
               bindE (mul_div gross bps 10000) (\<lambda>fee.
               if 0 < fee then bindE (ck_i128 (gross - fee)) (\<lambda>net. Inr (net, fee, bps))
               else Inr (gross, 0, bps)))))"

section \<open>Lemmas\<close>

abbreviation paid :: "settle_env \<Rightarrow> addr \<Rightarrow> addr \<Rightarrow> int \<Rightarrow> transfer" where
  "paid e tok dst n \<equiv> \<lparr>xtoken = tok, xfrom = this e, xto = dst, xamount = n\<rparr>"

lemma track_treasury_revenue_calls:
  "track_treasury_revenue tok n s = Inr t \<Longrightarrow> calls t = calls s"
  by (auto simp: track_treasury_revenue_def res_simps)

lemma track_shipment_fees_paid_calls:
  "track_shipment_fees_paid i n s = Inr t \<Longrightarrow> calls t = calls s"
  by (auto simp: track_shipment_fees_paid_def res_simps split: if_splits)

text \<open>
  What the contract pays out: the transfers it makes to others in one token. A locale-free
  measure that all payment lemmas share.
\<close>

definition outflow :: "settle_env \<Rightarrow> addr \<Rightarrow> transfer list \<Rightarrow> int" where
  "outflow e tok ts = (\<Sum>t\<leftarrow>ts. if xtoken t = tok \<and> xfrom t = this e then xamount t else 0)"

lemma outflow_simps [simp]:
  "outflow e tok [] = 0"
  "outflow e tok (xs @ ys) = outflow e tok xs + outflow e tok ys"
  "outflow e tok (t # ts) = (if xtoken t = tok \<and> xfrom t = this e then xamount t else 0) + outflow e tok ts"
  by (simp_all add: outflow_def)

definition spent :: "settle_env \<Rightarrow> addr \<Rightarrow> settle \<Rightarrow> settle \<Rightarrow> int" where
  "spent e tok s t = outflow e tok (calls t) - outflow e tok (calls s)"

lemma spent_refl [simp]: "spent e tok s s = 0"
  by (simp add: spent_def)

lemma spent_trans: "spent e tok s u = spent e tok s t + spent e tok t u"
  by (simp add: spent_def)

lemma spent_same: "calls t = calls s \<Longrightarrow> spent e tok s t = 0"
  by (simp add: spent_def)

lemma spent_pay: "token_pay e tok (this e) dst n s = Inr t \<Longrightarrow> spent e tok s t = n"
  by (auto simp: token_pay_Inr spent_def)

lemma spent_pay_then:
  "token_pay e tok (this e) dst n s = Inr x \<Longrightarrow> spent e tok s t = n + spent e tok x t"
  using spent_trans [of e tok s t x] spent_pay by simp

lemma pay_shares_spent:
  "pay_shares e tok fee i rs d s = Inr (t, d') \<Longrightarrow> spent e tok s t = d' - d"
proof (induction rs arbitrary: i d s)
  case (Cons r rs)
  from Cons.prems show ?case
    by (auto simp: bindE_Inr ck_i128_Inr mul_div_Inr spent_pay_then split: if_splits dest!: Cons.IH)
qed simp

text \<open>With one recipient, or none, the payout is the fee.\<close>

lemma distribute_fee_spent_single:
  assumes "distribute_fee e tok treasury fee s = Inr t"
    and "k_fee_recipients s = None \<or> (\<exists>r. k_fee_recipients s = Some [r])"
  shows "spent e tok s t = fee"
proof -
  obtain s1 dst where "token_pay e tok (this e) dst fee s = Inr s1" "track_treasury_revenue tok fee s1 = Inr t"
    using assms by (auto simp: distribute_fee_def bindE_Inr split: option.splits)
  then show ?thesis
    using spent_pay by (metis spent_trans spent_same track_treasury_revenue_calls add.right_neutral)
qed

lemma completion_fee_matches_preview:
  assumes "deduct_fee_for_shipment_at_completion e gross tok i buyer fin s = Inr (t, net, fee, bps)"
  shows "deduct_fee_for_shipment_at_completion_preview e s gross i buyer fin = Inr (net, fee, bps)"
  using assms
  by (auto simp: deduct_fee_for_shipment_at_completion_def deduct_fee_for_shipment_at_completion_preview_def
      bindE_Inr Let_def ck_i128_Inr split: if_splits option.splits)

end
