(* ===== verification/SettleGuards.thy ===== *)
theory SettleGuards
  imports SettleFees
begin

text \<open>
  Who may act on a shipment and when (\<^verbatim>\<open>lib.rs\<close>): party checks, compliance holds,
  inspection and oracle gates, depeg guards, mutual-consent pauses, confirmation cooldown and
  auto-confirmation window, joint confirmation, delegates and milestone payees.
\<close>

section \<open>Parties\<close>

definition is_buyer :: "shipment \<Rightarrow> addr \<Rightarrow> bool" where
  "is_buyer sh a \<longleftrightarrow> a \<in> set (sh_buyers sh)"

definition assert_is_buyer :: "shipment \<Rightarrow> addr \<Rightarrow> unit res" where
  "assert_is_buyer sh a = ensure (is_buyer sh a) ''unauthorized''"

definition require_buyer_auth :: "settle_env \<Rightarrow> shipment \<Rightarrow> addr \<Rightarrow> unit res" where
  "require_buyer_auth e sh a = bindE (require_auth e a) (\<lambda>_. assert_is_buyer sh a)"

definition require_supplier_auth :: "settle_env \<Rightarrow> shipment \<Rightarrow> addr \<Rightarrow> unit res" where
  "require_supplier_auth e sh a =
     bindE (require_auth e a) (\<lambda>_. ensure (a = sh_supplier sh) ''unauthorized'')"

definition require_supplier_or_logistics_auth :: "settle_env \<Rightarrow> shipment \<Rightarrow> addr \<Rightarrow> unit res" where
  "require_supplier_or_logistics_auth e sh a =
     bindE (require_auth e a) (\<lambda>_. ensure (a = sh_supplier sh \<or> a = sh_logistics sh) ''unauthorized'')"

definition require_arbiter_auth :: "settle_env \<Rightarrow> shipment \<Rightarrow> addr \<Rightarrow> unit res" where
  "require_arbiter_auth e sh a = bindE (require_auth e a) (\<lambda>_. ensure (a = sh_arbiter sh) ''unauthorized'')"

definition assert_no_open_disputes :: "shipment \<Rightarrow> unit res" where
  "assert_no_open_disputes sh =
     ensure (\<forall>m \<in> set (sh_milestones sh). ms_status m \<noteq> Disputed)
       ''transfer disallowed: open dispute must be resolved first''"

definition assert_buyer_or_supplier :: "shipment \<Rightarrow> addr \<Rightarrow> unit res" where
  "assert_buyer_or_supplier sh a = ensure (is_buyer sh a \<or> a = sh_supplier sh) ''unauthorized''"

definition assert_shipment_participant :: "shipment \<Rightarrow> addr \<Rightarrow> unit res" where
  "assert_shipment_participant sh a =
     ensure (is_buyer sh a \<or> a = sh_supplier sh \<or> a = sh_logistics sh) ''unauthorized''"

definition assert_active :: "shipment \<Rightarrow> unit res" where
  "assert_active sh = ensure (sh_status sh = Active) ''shipment is not active''"

section \<open>Compliance holds\<close>

definition set_compliance_hold :: "settle_env \<Rightarrow> addr \<Rightarrow> sid \<Rightarrow> hash \<Rightarrow> settle \<Rightarrow> settle res" where
  "set_compliance_hold e adm i h s =
     bindE (as_admin e adm s) (\<lambda>_.
     bindE (get_shipment_internal s i) (\<lambda>_.
     Inr (emit [VStr ''compliance_hold_set'', VStr i] [VNat h]
            (s\<lparr>k_compliance_hold := (k_compliance_hold s)(i \<mapsto> h)\<rparr>))))"

definition clear_compliance_hold :: "settle_env \<Rightarrow> addr \<Rightarrow> sid \<Rightarrow> settle \<Rightarrow> settle res" where
  "clear_compliance_hold e adm i s =
     bindE (as_admin e adm s) (\<lambda>_.
     if k_compliance_hold s i = None then Inl (Panic ''shipment is not on compliance hold'')
     else Inr (emit [VStr ''compliance_hold_cleared'', VStr i] []
            (s\<lparr>k_compliance_hold := (k_compliance_hold s)(i := None)\<rparr>)))"

definition is_on_compliance_hold :: "settle \<Rightarrow> sid \<Rightarrow> bool" where
  "is_on_compliance_hold s i \<longleftrightarrow> k_compliance_hold s i \<noteq> None"

definition assert_shipment_not_on_hold :: "settle \<Rightarrow> sid \<Rightarrow> unit res" where
  "assert_shipment_not_on_hold s i =
     ensure (k_compliance_hold s i = None) ''shipment is on compliance hold pending review''"

section \<open>Inspection, oracle and depeg gates\<close>

definition assert_inspection_complete :: "settle \<Rightarrow> sid \<Rightarrow> nat \<Rightarrow> unit res" where
  "assert_inspection_complete s i m =
     (let inspected = get_or [] (k_inspected_milestones s i)
      in if inspected = [] then Inr ()
         else if m \<notin> set inspected then Inr ()
         else if k_inspection_report s (i, m) = None then Inl (Panic ''inspector sign-off required'')
         else Inr ())"

definition assert_oracle_attestation_met :: "settle \<Rightarrow> sid \<Rightarrow> nat \<Rightarrow> unit res" where
  "assert_oracle_attestation_met s i m =
     (case k_shipment_oracle_purpose s i of
        None \<Rightarrow> Inr ()
      | Some purpose \<Rightarrow>
          (case k_oracle_group s purpose of
             None \<Rightarrow> Inr ()
           | Some (oracles, threshold) \<Rightarrow>
               if length (get_or [] (k_oracle_attestations s (i, m, purpose))) < threshold
               then Inl (Panic ''required oracle attestation threshold not yet met'') else Inr ()))"

definition set_depeg_guard :: "settle_env \<Rightarrow> addr \<Rightarrow> addr \<Rightarrow> addr \<Rightarrow> int \<Rightarrow> int \<Rightarrow> settle \<Rightarrow> settle res" where
  "set_depeg_guard e adm tok oracle mn mx s =
     bindE (as_admin e adm s) (\<lambda>_.
     if mn \<le> 0 \<or> mx < mn then Inl (Panic ''invalid price bounds'')
     else Inr (emit [VStr ''depeg_guard_set'', VAddr tok] [VInt mn, VInt mx]
            (s\<lparr>k_depeg_guard := (k_depeg_guard s)(tok \<mapsto>
               \<lparr>dg_oracle = oracle, dg_min_price = mn, dg_max_price = mx\<rparr>)\<rparr>)))"

definition remove_depeg_guard :: "settle_env \<Rightarrow> addr \<Rightarrow> addr \<Rightarrow> settle \<Rightarrow> settle res" where
  "remove_depeg_guard e adm tok s =
     bindE (as_admin e adm s) (\<lambda>_.
     Inr (emit [VStr ''depeg_guard_removed'', VAddr tok] []
            (s\<lparr>k_depeg_guard := (k_depeg_guard s)(tok := None)\<rparr>)))"

definition is_token_depegged :: "settle_env \<Rightarrow> settle \<Rightarrow> addr \<Rightarrow> bool res" where
  "is_token_depegged e s tok =
     (case k_depeg_guard s tok of
        None \<Rightarrow> Inr False
      | Some config \<Rightarrow>
          bindE (expect (oracle_price e (dg_oracle config) tok) ''oracle call failed'') (\<lambda>price.
          Inr (price < dg_min_price config \<or> dg_max_price config < price)))"

definition assert_token_not_depegged :: "settle_env \<Rightarrow> settle \<Rightarrow> addr \<Rightarrow> unit res" where
  "assert_token_not_depegged e s tok =
     bindE (is_token_depegged e s tok) (\<lambda>b. ensure (\<not> b) ''token is depegged'')"

section \<open>Mutual-consent pause of a shipment\<close>

definition is_shipment_paused_internal :: "settle \<Rightarrow> sid \<Rightarrow> bool" where
  "is_shipment_paused_internal s i = get_or False (k_shipment_paused s i)"

definition assert_shipment_not_paused :: "settle \<Rightarrow> sid \<Rightarrow> unit res" where
  "assert_shipment_not_paused s i = ensure (\<not> is_shipment_paused_internal s i) ''shipment is paused''"

fun next_deadline :: "settle \<Rightarrow> sid \<Rightarrow> nat \<Rightarrow> nat \<Rightarrow> milestone list \<Rightarrow> nat option \<Rightarrow> nat option" where
  "next_deadline s i now j [] best = best"
| "next_deadline s i now j (m # ms) best =
     (if ms_status m \<noteq> Pending then next_deadline s i now (j + 1) ms best
      else let deadline = get_or (ms_deadline_ledger m) (k_milestone_deadline s (i, j))
        in if 0 < deadline \<and> now \<le> deadline \<and> (case best of None \<Rightarrow> True | Some d \<Rightarrow> deadline < d)
           then next_deadline s i now (j + 1) ms (Some deadline)
           else next_deadline s i now (j + 1) ms best)"

definition request_shipment_pause :: "settle_env \<Rightarrow> addr \<Rightarrow> sid \<Rightarrow> settle \<Rightarrow> settle res" where
  "request_shipment_pause e caller i s =
     bindE (assert_not_paused s) (\<lambda>_.
     bindE (require_auth e caller) (\<lambda>_.
     bindE (get_shipment_internal s i) (\<lambda>sh.
     bindE (assert_active sh) (\<lambda>_.
     bindE (assert_buyer_or_supplier sh caller) (\<lambda>_.
     if is_shipment_paused_internal s i then Inl (Panic ''shipment is already paused'')
     else
     let min_notice = get_pause_min_notice_ledgers s; now = sequence e
     in if 0 < min_notice \<and>
           (case next_deadline s i now 0 (sh_milestones sh) None of
              Some d \<Rightarrow> d - now < min_notice | None \<Rightarrow> False)
        then Inl (Panic ''pause request within minimum notice period of next milestone deadline'')
        else Inr (emit [VStr ''shipment_pause_requested'', VStr i] [VAddr caller]
               (s\<lparr>k_pause_request := (k_pause_request s)(i \<mapsto> \<lparr>pr_requester = caller, pr_is_resume = False\<rparr>)\<rparr>)))))))"

definition approve_shipment_pause :: "settle_env \<Rightarrow> addr \<Rightarrow> sid \<Rightarrow> settle \<Rightarrow> settle res" where
  "approve_shipment_pause e caller i s =
     bindE (assert_not_paused s) (\<lambda>_.
     bindE (require_auth e caller) (\<lambda>_.
     bindE (get_shipment_internal s i) (\<lambda>sh.
     bindE (assert_active sh) (\<lambda>_.
     bindE (assert_buyer_or_supplier sh caller) (\<lambda>_.
     if is_shipment_paused_internal s i then Inl (Panic ''shipment is already paused'')
     else
     bindE (expect (k_pause_request s i) ''no pending pause request'') (\<lambda>req.
     if pr_is_resume req then Inl (Panic ''no pending pause request'')
     else if pr_requester req = caller then Inl (Panic ''cannot approve own pause request'')
     else Inr (emit [VStr ''shipment_paused'', VStr i] [VAddr caller, VNat (sequence e)]
            (s\<lparr>k_shipment_paused := (k_shipment_paused s)(i \<mapsto> True),
               k_paused_at := (k_paused_at s)(i \<mapsto> sequence e),
               k_pause_request := (k_pause_request s)(i := None)\<rparr>))))))))"

definition bump_milestone :: "nat \<Rightarrow> milestone \<Rightarrow> milestone" where
  "bump_milestone d m =
     m\<lparr>ms_deadline_ledger :=
         (if 0 < ms_deadline_ledger m then sat_add_u32 (ms_deadline_ledger m) d else ms_deadline_ledger m),
       ms_proof_submitted_ledger := map_option (\<lambda>x. sat_add_u32 x d) (ms_proof_submitted_ledger m),
       ms_dispute_opened_ledger := map_option (\<lambda>x. sat_add_u32 x d) (ms_dispute_opened_ledger m),
       ms_release_after_ledger :=
         (if 0 < ms_release_after_ledger m then sat_add_u32 (ms_release_after_ledger m) d
          else ms_release_after_ledger m)\<rparr>"

definition bump_shipment_deadlines_for_pause :: "nat \<Rightarrow> shipment \<Rightarrow> settle \<Rightarrow> settle \<times> shipment" where
  "bump_shipment_deadlines_for_pause d sh s =
     (if d = 0 then (s, sh)
      else (s\<lparr>k_milestone_deadline := (\<lambda>(i, j).
              if i = sh_id sh \<and> j < length (sh_milestones sh)
              then map_option (\<lambda>dl. if 0 < dl then sat_add_u32 dl d else dl) (k_milestone_deadline s (i, j))
              else k_milestone_deadline s (i, j))\<rparr>,
            sh\<lparr>sh_milestones := map (bump_milestone d) (sh_milestones sh),
               sh_expires_at_ledger := map_option (\<lambda>x. sat_add_u32 x d) (sh_expires_at_ledger sh)\<rparr>))"

definition resume_shipment :: "settle_env \<Rightarrow> addr \<Rightarrow> sid \<Rightarrow> settle \<Rightarrow> settle res" where
  "resume_shipment e caller i s =
     bindE (assert_not_paused s) (\<lambda>_.
     bindE (require_auth e caller) (\<lambda>_.
     bindE (get_shipment_internal s i) (\<lambda>sh.
     bindE (assert_buyer_or_supplier sh caller) (\<lambda>_.
     if \<not> is_shipment_paused_internal s i then Inl (Panic ''shipment is not paused'')
     else
     let ask = Inr (emit [VStr ''shipment_resume_requested'', VStr i] [VAddr caller]
                 (s\<lparr>k_pause_request := (k_pause_request s)(i \<mapsto> \<lparr>pr_requester = caller, pr_is_resume = True\<rparr>)\<rparr>))
     in (case k_pause_request s i of
           None \<Rightarrow> ask
         | Some pending \<Rightarrow>
             if pr_is_resume pending \<and> pr_requester pending \<noteq> caller
             then let paused_at = get_or (sequence e) (k_paused_at s i);
                      (s1, sh1) = bump_shipment_deadlines_for_pause (sequence e - paused_at) sh s
                  in Inr (emit [VStr ''shipment_resumed'', VStr i] [VAddr caller, VNat (sequence e)]
                       (s1\<lparr>k_shipment := (k_shipment s1)(i \<mapsto> sh1),
                           k_shipment_paused := (k_shipment_paused s1)(i \<mapsto> False),
                           k_paused_at := (k_paused_at s1)(i := None),
                           k_pause_request := (k_pause_request s1)(i := None)\<rparr>))
             else if pr_is_resume pending \<and> pr_requester pending = caller
             then Inl (Panic ''resume already requested; awaiting counterpart'')
             else ask)))))"

section \<open>Timing of a confirmation\<close>

definition get_confirmation_cooldown_internal :: "settle \<Rightarrow> sid \<Rightarrow> nat" where
  "get_confirmation_cooldown_internal s i =
     (case k_shipment_confirmation_cooldown s i of
        Some c \<Rightarrow> c | None \<Rightarrow> get_or 0 (k_global_confirmation_cooldown s))"

definition get_effective_auto_confirm_window :: "settle \<Rightarrow> shipment \<Rightarrow> nat" where
  "get_effective_auto_confirm_window s sh =
     (case sh_review_window_ledgers sh of
        Some n \<Rightarrow> n
      | None \<Rightarrow> if 0 < sh_auto_confirm_ledgers sh then sh_auto_confirm_ledgers sh
                else get_or 0 (k_auto_confirm_threshold s))"

definition is_fast_track_eligible_internal :: "settle \<Rightarrow> addr \<Rightarrow> bool" where
  "is_fast_track_eligible_internal s a =
     (case k_reputation_fast_track s of
        None \<Rightarrow> False
      | Some policy \<Rightarrow>
          let score = get_reputation s a
          in if rep_completed score < rft_min_completed policy then False
             else if rep_completed score = 0 then False
             else min u64_max (rep_disputed score * 10000) div rep_completed score
                    \<le> rft_max_disputed_ratio_bps policy)"

text \<open>The cooldown and window checks that the manual confirmation paths share.\<close>

definition confirmation_timing :: "settle_env \<Rightarrow> settle \<Rightarrow> sid \<Rightarrow> shipment \<Rightarrow> milestone \<Rightarrow> unit res" where
  "confirmation_timing e s i sh m =
     (let cooldown = get_confirmation_cooldown_internal s i;
          fast_track = is_fast_track_eligible_internal s (sh_supplier sh);
          window = get_effective_auto_confirm_window s sh
      in bindE (if 0 < cooldown \<and> \<not> fast_track
                then bindE (ck_u32 (get_or 0 (ms_proof_submitted_ledger m) + cooldown)) (\<lambda>t.
                     ensure (t \<le> sequence e) ''confirmation cooldown not elapsed'')
                else Inr ()) (\<lambda>_.
         if 0 < window
         then (case ms_proof_submitted_ledger m of
                 None \<Rightarrow> Inr ()
               | Some p \<Rightarrow> bindE (ck_u32 (p + window)) (\<lambda>t.
                   ensure (sequence e < t) ''milestone has auto-confirmed; use claim_auto_confirmation''))
         else Inr ()))"

definition assert_manual_confirmation_allowed ::
  "settle_env \<Rightarrow> settle \<Rightarrow> shipment \<Rightarrow> sid \<Rightarrow> nat \<Rightarrow> milestone \<Rightarrow> unit res" where
  "assert_manual_confirmation_allowed e s sh i j m =
     bindE (assert_oracle_attestation_met s i j) (\<lambda>_.
     bindE (assert_inspection_complete s i j) (\<lambda>_.
     bindE (assert_shipment_not_paused s i) (\<lambda>_.
     confirmation_timing e s i sh m)))"

definition assert_no_approved_advance :: "settle \<Rightarrow> sid \<Rightarrow> nat \<Rightarrow> unit res" where
  "assert_no_approved_advance s i j =
     ensure (\<not> (case k_advance_request s (i, j) of Some r \<Rightarrow> ar_approved r | None \<Rightarrow> False))
       ''not allowed when an approved advance exists for this milestone''"

section \<open>Joint confirmation, delegates, payees\<close>

definition set_co_buyer :: "settle_env \<Rightarrow> addr \<Rightarrow> sid \<Rightarrow> addr \<Rightarrow> settle \<Rightarrow> settle res" where
  "set_co_buyer e caller i co s =
     bindE (assert_not_paused s) (\<lambda>_.
     bindE (get_shipment_internal s i) (\<lambda>sh.
     bindE (assert_active sh) (\<lambda>_.
     bindE (require_buyer_auth e sh caller) (\<lambda>_.
     if 0 < sh_released_amount sh \<or> 0 < sh_total_advanced_amount sh
     then Inl (Panic ''co-buyer must be set before the shipment progresses'')
     else if k_co_buyer s i \<noteq> None then Inl (Panic ''co-buyer is already set'')
     else Inr (emit [VStr ''co_buyer_set'', VStr i] [VAddr co]
            (s\<lparr>k_co_buyer := (k_co_buyer s)(i \<mapsto> co)\<rparr>))))))"

definition joint_confirmation_required :: "settle \<Rightarrow> shipment \<Rightarrow> bool" where
  "joint_confirmation_required s sh =
     (let threshold = get_or 0 (k_joint_confirmation_threshold s)
      in if threshold \<le> 0 \<or> sh_total_amount sh \<le> threshold then False
         else k_co_buyer s (sh_id sh) \<noteq> None)"

definition record_joint_confirmation ::
  "sid \<Rightarrow> nat \<Rightarrow> addr \<Rightarrow> bool \<Rightarrow> bool \<Rightarrow> settle \<Rightarrow> settle \<times> bool" where
  "record_joint_confirmation i j caller acts_as_buyer is_co_buyer s =
     (let st = get_or \<lparr>jc_buyer_confirmed = False, jc_co_buyer_confirmed = False\<rparr> (k_joint_confirmation s (i, j));
          b = jc_buyer_confirmed st \<or> acts_as_buyer;
          c = jc_co_buyer_confirmed st \<or> is_co_buyer;
          both = b \<and> c
      in (emit [VStr ''joint_confirmation_recorded'', VStr i] [VNat j, VAddr caller, VBool b, VBool c]
            (s\<lparr>k_joint_confirmation := (k_joint_confirmation s)((i, j) :=
               if both then None else Some \<lparr>jc_buyer_confirmed = b, jc_co_buyer_confirmed = c\<rparr>)\<rparr>), both))"

definition authorize_delegate :: "settle_env \<Rightarrow> addr \<Rightarrow> sid \<Rightarrow> addr \<Rightarrow> int \<Rightarrow> settle \<Rightarrow> settle res" where
  "authorize_delegate e buyer i d cap s =
     bindE (assert_not_paused s) (\<lambda>_.
     bindE (require_auth e buyer) (\<lambda>_.
     bindE (get_shipment_internal s i) (\<lambda>sh.
     bindE (assert_active sh) (\<lambda>_.
     bindE (assert_is_buyer sh buyer) (\<lambda>_.
     if cap \<le> 0 then Inl (Panic ''per_tx_cap must be greater than zero'')
     else Inr (emit [VStr ''delegate_authorized'', VStr i] [VAddr buyer, VAddr d, VInt cap]
            (s\<lparr>k_confirmation_delegate :=
               (k_confirmation_delegate s)(i \<mapsto> \<lparr>dc_delegate = d, dc_per_tx_cap = cap\<rparr>)\<rparr>)))))))"

definition revoke_delegate :: "settle_env \<Rightarrow> addr \<Rightarrow> sid \<Rightarrow> settle \<Rightarrow> settle res" where
  "revoke_delegate e buyer i s =
     bindE (assert_not_paused s) (\<lambda>_.
     bindE (require_auth e buyer) (\<lambda>_.
     bindE (get_shipment_internal s i) (\<lambda>sh.
     bindE (assert_is_buyer sh buyer) (\<lambda>_.
     Inr (emit [VStr ''delegate_revoked'', VStr i] [VAddr buyer, VNat (sequence e)]
            (s\<lparr>k_confirmation_delegate := (k_confirmation_delegate s)(i := None)\<rparr>))))))"

fun sum_payees :: "nat \<Rightarrow> milestone_payee list \<Rightarrow> nat res" where
  "sum_payees acc [] = Inr acc"
| "sum_payees acc (p # ps) = bindE (ck_u32 (acc + mp_percent p)) (\<lambda>a. sum_payees a ps)"

definition set_milestone_payees ::
  "settle_env \<Rightarrow> addr \<Rightarrow> sid \<Rightarrow> nat \<Rightarrow> milestone_payee list \<Rightarrow> settle \<Rightarrow> settle res" where
  "set_milestone_payees e buyer i j payees s =
     bindE (assert_not_paused s) (\<lambda>_.
     bindE (get_shipment_internal s i) (\<lambda>sh.
     bindE (assert_active sh) (\<lambda>_.
     bindE (require_buyer_auth e sh buyer) (\<lambda>_.
     if length (sh_milestones sh) \<le> j then Inl (Panic ''invalid milestone index'')
     else if ms_status (sh_milestones sh ! j) \<noteq> Pending then Inl (Panic ''MilestoneNotPending'')
     else
     bindE (if payees \<noteq> []
            then bindE (sum_payees 0 payees) (\<lambda>n. ensure (n = 100) ''InvalidPayeePercentages'')
            else Inr ()) (\<lambda>_.
     Inr (emit [VStr ''milestone_payees_set'', VStr i] [VNat j, VNat (length payees), VAddr buyer]
            (s\<lparr>k_milestone_payees := (k_milestone_payees s)((i, j) :=
               if payees \<noteq> [] then Some payees else None)\<rparr>)))))))"

section \<open>Lemmas\<close>

lemma sum_payees_Inr: "sum_payees acc ps = Inr n \<Longrightarrow> n = acc + (\<Sum>p\<leftarrow>ps. mp_percent p)"
  by (induction ps arbitrary: acc) (fastforce simp: bindE_Inr ck_u32_Inr)+

lemma record_joint_calls [simp]:
  "calls (fst (record_joint_confirmation i j c a b s)) = calls s"
  by (simp add: record_joint_confirmation_def Let_def)

text \<open>Deadlines that were set never get earlier through a pause.\<close>

lemma bump_milestone_later:
  assumes "ms_deadline_ledger m \<le> u32_max"
  shows "ms_deadline_ledger m \<le> ms_deadline_ledger (bump_milestone d m)"
    and "ms_deadline_ledger (bump_milestone d m) = 0 \<longleftrightarrow> ms_deadline_ledger m = 0"
    and "ms_status (bump_milestone d m) = ms_status m"
    and "ms_payment_percent (bump_milestone d m) = ms_payment_percent m"
  using assms by (auto simp: bump_milestone_def sat_add_u32_def u32_max_def)

end
