(* ===== verification/SettlePayout.thy ===== *)
theory SettlePayout
  imports SettleGuards
begin

text \<open>
  How money leaves the settlement contract (\<^verbatim>\<open>lib.rs\<close>): the two outflow limiters, the
  retainage and warranty holdbacks, the split over payees, batched payouts and their claim in a
  preferred currency, invoice factoring, collateral shares, and the payment a milestone stands for.
\<close>

section \<open>Outflow limiters\<close>

definition check_circuit_breaker :: "nat \<Rightarrow> int \<Rightarrow> settle \<Rightarrow> settle res" where
  "check_circuit_breaker now payment s =
     (let lim = get_or 0 (k_cb_limit s)
      in if lim = 0 then Inr s
         else
         bindE (ck_u32 (get_or 0 (k_cb_window_start s) + get_or 0 (k_cb_window s))) (\<lambda>win_end.
         let expired = (win_end \<le> now);
             out0 = (if expired then 0 else get_or 0 (k_cb_window_outflow s));
             s1 = (if expired then s\<lparr>k_cb_window_start := Some now\<rparr> else s)
         in bindE (ck_i128 (out0 + payment)) (\<lambda>out.
            if lim < out then Inl (Panic ''circuit breaker triggered: outflow limit exceeded'')
            else Inr (s1\<lparr>k_cb_window_outflow := Some out\<rparr>))))"

definition check_address_outflow :: "addr \<Rightarrow> nat \<Rightarrow> int \<Rightarrow> settle \<Rightarrow> settle res" where
  "check_address_outflow a now payment s =
     (let lim = get_or 0 (k_addr_outflow_limit s a)
      in if lim = 0 then Inr s
         else
         let window = get_or 0 (k_addr_outflow_window s a)
         in bindE (if window = 0 then Inr True
                   else bindE (ck_u32 (get_or 0 (k_addr_outflow_window_start s a) + window)) (\<lambda>n. Inr (n \<le> now))) (\<lambda>expired.
         let out0 = (if expired then 0 else get_or 0 (k_addr_outflow_window_outflow s a));
             s1 = (if expired
                   then s\<lparr>k_addr_outflow_window_start := (k_addr_outflow_window_start s)(a \<mapsto> now)\<rparr> else s)
         in bindE (ck_i128 (out0 + payment)) (\<lambda>out.
            if lim < out then Inl (Panic ''address outflow limit exceeded'')
            else Inr (s1\<lparr>k_addr_outflow_window_outflow := (k_addr_outflow_window_outflow s1)(a \<mapsto> out)\<rparr>))))"

definition set_address_outflow_limit ::
  "settle_env \<Rightarrow> addr \<Rightarrow> addr \<Rightarrow> int \<Rightarrow> nat \<Rightarrow> settle \<Rightarrow> settle res" where
  "set_address_outflow_limit e adm a lim w =
     admin_set e adm ''address_outflow_limit_set'' [VAddr a, VInt lim, VNat w]
       (\<lambda>s. s\<lparr>k_addr_outflow_limit := (k_addr_outflow_limit s)(a \<mapsto> lim),
              k_addr_outflow_window := (k_addr_outflow_window s)(a \<mapsto> w),
              k_addr_outflow_window_start := (k_addr_outflow_window_start s)(a \<mapsto> sequence e),
              k_addr_outflow_window_outflow := (k_addr_outflow_window_outflow s)(a \<mapsto> 0)\<rparr>)"

definition get_address_outflow_limit :: "settle \<Rightarrow> addr \<Rightarrow> int \<times> nat \<times> nat \<times> int" where
  "get_address_outflow_limit s a =
     (get_or 0 (k_addr_outflow_limit s a), get_or 0 (k_addr_outflow_window s a),
      get_or 0 (k_addr_outflow_window_start s a), get_or 0 (k_addr_outflow_window_outflow s a))"

section \<open>The payment a milestone stands for\<close>

definition milestone_full_gross_payment :: "settle \<Rightarrow> shipment \<Rightarrow> nat \<Rightarrow> int res" where
  "milestone_full_gross_payment s sh j =
     (case k_milestone_splits s (sh_id sh) of
        Some splits \<Rightarrow>
          if j < length splits then mul_div (sh_total_amount sh) (splits ! j) 10000
          else bindE (vec_get_unwrap (sh_milestones sh) j) (\<lambda>m.
               mul_div (sh_total_amount sh) (ms_payment_percent m) 100)
      | None \<Rightarrow>
          bindE (vec_get_unwrap (sh_milestones sh) j) (\<lambda>m.
          mul_div (sh_total_amount sh) (ms_payment_percent m) 100))"

definition milestone_gross_payment :: "settle \<Rightarrow> shipment \<Rightarrow> nat \<Rightarrow> int res" where
  "milestone_gross_payment s sh j =
     bindE (milestone_full_gross_payment s sh j) (\<lambda>full.
     ck_i128 (full - get_or 0 (k_partial_qty_released s (sh_id sh, j))))"

definition consume_advance_for_milestone ::
  "shipment \<Rightarrow> sid \<Rightarrow> nat \<Rightarrow> settle \<Rightarrow> (settle \<times> shipment \<times> int) res" where
  "consume_advance_for_milestone sh i j s =
     (case k_advance_request s (i, j) of
        Some req \<Rightarrow>
          if ar_approved req \<and> 0 < ar_amount_advanced req
          then bindE (ck_i128 (sh_total_advanced_amount sh - ar_amount_advanced req)) (\<lambda>x.
               Inr (s\<lparr>k_advance_request := (k_advance_request s)((i, j) := None)\<rparr>,
                    sh\<lparr>sh_total_advanced_amount := max x 0\<rparr>, ar_amount_advanced req))
          else Inr (s, sh, 0)
      | None \<Rightarrow> Inr (s, sh, 0))"

definition release_milestone_collateral_share ::
  "settle_env \<Rightarrow> shipment \<Rightarrow> sid \<Rightarrow> nat \<Rightarrow> settle \<Rightarrow> settle res" where
  "release_milestone_collateral_share e sh i j s =
     (if \<not> get_or False (k_incremental_collateral s i) then Inr s
      else
      let remaining = get_or 0 (k_supplier_collateral s i)
      in bindE (vec_get_unwrap (sh_milestones sh) j) (\<lambda>m.
         bindE (mul_div (get_or 0 (k_incremental_collateral_base s i)) (ms_payment_percent m) 100) (\<lambda>q.
         let share = min q remaining
         in if share \<le> 0 then Inr s
            else
            bindE (token_pay e (sh_token sh) (this e) (sh_supplier sh) share s) (\<lambda>s1.
            bindE (ck_i128 (remaining - share)) (\<lambda>left.
            Inr (emit [VStr ''collateral_partial_release'', VStr i] [VNat j, VInt share, VInt left]
                   (s1\<lparr>k_supplier_collateral := (k_supplier_collateral s1)(i \<mapsto> left)\<rparr>)))))))"

section \<open>Holdbacks and payees\<close>

definition add_retainage :: "sid \<Rightarrow> int \<Rightarrow> settle \<Rightarrow> settle res" where
  "add_retainage i n s =
     bindE (ck_i128 (get_or 0 (k_retainage_balance s i) + n)) (\<lambda>x.
     Inr (s\<lparr>k_retainage_balance := (k_retainage_balance s)(i \<mapsto> x)\<rparr>))"

definition add_warranty :: "sid \<Rightarrow> int \<Rightarrow> settle \<Rightarrow> settle res" where
  "add_warranty i n s =
     bindE (ck_i128 (get_or 0 (k_warranty_balance s i) + n)) (\<lambda>x.
     Inr (s\<lparr>k_warranty_balance := (k_warranty_balance s)(i \<mapsto> x)\<rparr>))"

definition withhold_settlement_holdbacks ::
  "sid \<Rightarrow> nat \<Rightarrow> int \<Rightarrow> addr \<Rightarrow> settle \<Rightarrow> (settle \<times> int) res" where
  "withhold_settlement_holdbacks i j net tok s =
     (let rbps = get_or 0 (k_retainage_bps s i);
          wbps = get_or 0 (map_option fst (k_warranty_config s i))
      in if rbps = 0 \<and> wbps = 0 then Inr (s, net)
         else
         bindE (mul_div net rbps 10000) (\<lambda>retained.
         bindE (mul_div net wbps 10000) (\<lambda>warranty.
         bindE (whenE (0 < retained) (add_retainage i retained) s) (\<lambda>s1.
         bindE (whenE (0 < warranty) (add_warranty i warranty) s1) (\<lambda>s2.
         bindE (ck_i128 (retained + warranty)) (\<lambda>both.
         bindE (if 0 < both
                then bindE (increase_total_escrowed tok both s2) (\<lambda>s3.
                     Inr (emit [VStr ''holdback_withheld'', VStr i] [VNat j, VInt retained, VInt warranty] s3))
                else Inr s2) (\<lambda>s4.
         bindE (ck_i128 (net - retained)) (\<lambda>a.
         bindE (ck_i128 (a - warranty)) (\<lambda>rest. Inr (s4, rest))))))))))"

definition payout_assignee :: "settle \<Rightarrow> sid \<Rightarrow> addr option" where
  "payout_assignee s i = map_option pa_financier (k_payout_assignment s i)"

text \<open>The payee loop from index \<open>k\<close> on: the last payee takes what is left.\<close>

fun pay_payees ::
  "settle_env \<Rightarrow> addr \<Rightarrow> int \<Rightarrow> nat \<Rightarrow> nat \<Rightarrow> milestone_payee list \<Rightarrow> int \<Rightarrow> settle \<Rightarrow> settle res" where
  "pay_payees e tok net last_idx k [] distributed s = Inr s"
| "pay_payees e tok net last_idx k (p # ps) distributed s =
     bindE (if k = last_idx then ck_i128 (net - distributed) else mul_div net (mp_percent p) 100) (\<lambda>amount.
     if 0 < amount
     then bindE (token_pay e tok (this e) (mp_payee p) amount s) (\<lambda>s1.
          bindE (ck_i128 (distributed + amount)) (\<lambda>d. pay_payees e tok net last_idx (k + 1) ps d s1))
     else pay_payees e tok net last_idx (k + 1) ps distributed s)"

definition pay_supplier :: "settle_env \<Rightarrow> addr \<Rightarrow> addr \<Rightarrow> int \<Rightarrow> settle \<Rightarrow> settle res" where
  "pay_supplier e tok supplier net s =
     (if get_or Immediate (k_payout_mode s supplier) = Batched
      then bindE (ck_i128 (get_or 0 (k_pending_payout s supplier) + net)) (\<lambda>x.
           Inr (s\<lparr>k_pending_payout := (k_pending_payout s)(supplier \<mapsto> x)\<rparr>))
      else token_pay e tok (this e) supplier net s)"

definition pay_milestone_to_payees ::
  "settle_env \<Rightarrow> sid \<Rightarrow> nat \<Rightarrow> int \<Rightarrow> addr \<Rightarrow> addr \<Rightarrow> settle \<Rightarrow> settle res" where
  "pay_milestone_to_payees e i j net0 supplier0 tok s =
     (if net0 \<le> 0 then Inr s
      else
      let supplier = get_or supplier0 (k_milestone_supplier s (i, j))
      in bindE (withhold_settlement_holdbacks i j net0 tok s) (\<lambda>(s1, net).
         if net \<le> 0 then Inr s1
         else (case payout_assignee s1 i of
             Some financier \<Rightarrow>
               bindE (token_pay e tok (this e) financier net s1) (\<lambda>s2.
               Inr (emit [VStr ''assigned_payout'', VStr i] [VNat j, VAddr financier, VInt net] s2))
           | None \<Rightarrow>
               let payees = get_or [] (k_milestone_payees s1 (i, j))
               in if payees = [] then pay_supplier e tok supplier net s1
                  else pay_payees e tok net (length payees - 1) 0 payees 0 s1)))"

section \<open>Batched payouts\<close>

definition set_payout_mode :: "settle_env \<Rightarrow> addr \<Rightarrow> bool \<Rightarrow> settle \<Rightarrow> settle res" where
  "set_payout_mode e a batched s =
     bindE (require_auth e a) (\<lambda>_.
     Inr (emit [VStr ''payout_mode_set'', VAddr a] [VBool batched]
            (s\<lparr>k_payout_mode := (k_payout_mode s)(a \<mapsto> (if batched then Batched else Immediate))\<rparr>)))"

definition payout_route :: "settle_env \<Rightarrow> settle \<Rightarrow> addr \<Rightarrow> addr \<Rightarrow> int \<Rightarrow> (addr \<times> int \<times> nat) res" where
  "payout_route e s a tok pending =
     (case k_payout_currency_preference s a of
        Some preferred \<Rightarrow>
          if preferred \<noteq> tok
          then (case k_conversion_rate_bps s (tok, preferred) of
                  Some rate \<Rightarrow>
                    bindE (mul_div pending rate 10000) (\<lambda>converted.
                    Inr (if 0 < converted \<and> converted \<le> tok_balance e (calls s) preferred (this e)
                         then (preferred, converted, rate) else (tok, pending, 0)))
                | None \<Rightarrow> Inr (tok, pending, 0))
          else Inr (tok, pending, 0)
      | None \<Rightarrow> Inr (tok, pending, 0))"

definition claim_payout :: "settle_env \<Rightarrow> addr \<Rightarrow> addr \<Rightarrow> settle \<Rightarrow> settle res" where
  "claim_payout e a tok s =
     bindE (assert_operation_not_paused s ''claim'') (\<lambda>_.
     bindE (require_auth e a) (\<lambda>_.
     let pending = get_or 0 (k_pending_payout s a)
     in if pending \<le> 0 then Inl (Panic ''no pending payout'')
        else
        let s1 = s\<lparr>k_pending_payout := (k_pending_payout s)(a \<mapsto> 0)\<rparr>
        in bindE (payout_route e s1 a tok pending) (\<lambda>(ptok, amount, rate).
           bindE (token_pay e ptok (this e) a amount s1) (\<lambda>s2.
           Inr (emit [VStr ''payout_claimed'', VAddr a] [VInt amount, VAddr ptok, VInt (int rate)] s2)))))"

definition get_pending_payout :: "settle \<Rightarrow> addr \<Rightarrow> int" where
  "get_pending_payout s a = get_or 0 (k_pending_payout s a)"

definition set_payout_currency_preference :: "settle_env \<Rightarrow> addr \<Rightarrow> addr \<Rightarrow> settle \<Rightarrow> settle res" where
  "set_payout_currency_preference e a tok s =
     bindE (require_auth e a) (\<lambda>_.
     Inr (emit [VStr ''payout_currency_preference_set'', VAddr a] [VAddr tok]
            (s\<lparr>k_payout_currency_preference := (k_payout_currency_preference s)(a \<mapsto> tok)\<rparr>)))"

definition set_conversion_rate :: "settle_env \<Rightarrow> addr \<Rightarrow> addr \<Rightarrow> addr \<Rightarrow> nat \<Rightarrow> settle \<Rightarrow> settle res" where
  "set_conversion_rate e adm a b rate s =
     bindE (as_admin e adm s) (\<lambda>_.
     if rate = 0 then Inl (Panic ''rate_bps must be > 0'')
     else Inr (emit [VStr ''conversion_rate_set'', VAddr a, VAddr b] [VNat rate]
            (s\<lparr>k_conversion_rate_bps := (k_conversion_rate_bps s)((a, b) \<mapsto> rate)\<rparr>)))"

definition clear_conversion_rate :: "settle_env \<Rightarrow> addr \<Rightarrow> addr \<Rightarrow> addr \<Rightarrow> settle \<Rightarrow> settle res" where
  "clear_conversion_rate e adm a b s =
     bindE (as_admin e adm s) (\<lambda>_.
     Inr (emit [VStr ''conversion_rate_cleared'', VAddr a, VAddr b] []
            (s\<lparr>k_conversion_rate_bps := (k_conversion_rate_bps s)((a, b) := None)\<rparr>)))"

section \<open>Invoice factoring\<close>

definition assign_payout :: "settle_env \<Rightarrow> addr \<Rightarrow> sid \<Rightarrow> addr \<Rightarrow> settle \<Rightarrow> settle res" where
  "assign_payout e supplier i financier s =
     bindE (assert_not_paused s) (\<lambda>_.
     bindE (require_auth e supplier) (\<lambda>_.
     bindE (require_auth e financier) (\<lambda>_.
     bindE (get_shipment_internal s i) (\<lambda>sh.
     bindE (assert_active sh) (\<lambda>_.
     if sh_supplier sh \<noteq> supplier then Inl (Panic ''only supplier can assign payout'')
     else if financier = supplier then Inl (Panic ''financier must differ from supplier'')
     else if is_blacklisted s financier then Inl (Panic ''financier is blacklisted'')
     else if 0 < sh_open_dispute_count sh then Inl (Panic ''cannot assign payout during open dispute'')
     else if k_payout_assignment s i \<noteq> None then Inl (Panic ''payout already assigned'')
     else Inr (emit [VStr ''payout_assigned'', VStr i] [VAddr supplier, VAddr financier]
            (s\<lparr>k_payout_assignment := (k_payout_assignment s)(i \<mapsto>
               \<lparr>pa_supplier = supplier, pa_financier = financier, pa_assigned_at_ledger = sequence e\<rparr>)\<rparr>)))))))"

definition transfer_payout_assignment :: "settle_env \<Rightarrow> addr \<Rightarrow> sid \<Rightarrow> addr \<Rightarrow> settle \<Rightarrow> settle res" where
  "transfer_payout_assignment e financier i fresh s =
     bindE (assert_not_paused s) (\<lambda>_.
     bindE (require_auth e financier) (\<lambda>_.
     bindE (require_auth e fresh) (\<lambda>_.
     bindE (expect (k_payout_assignment s i) ''payout not assigned'') (\<lambda>asg.
     if pa_financier asg \<noteq> financier then Inl (Panic ''only current financier can transfer assignment'')
     else if fresh = financier \<or> fresh = pa_supplier asg then Inl (Panic ''invalid new financier'')
     else if is_blacklisted s fresh then Inl (Panic ''financier is blacklisted'')
     else Inr (emit [VStr ''payout_assignment_transferred'', VStr i] [VAddr financier, VAddr fresh]
            (s\<lparr>k_payout_assignment := (k_payout_assignment s)(i \<mapsto>
               asg\<lparr>pa_financier := fresh, pa_assigned_at_ledger := sequence e\<rparr>)\<rparr>))))))"

definition release_payout_assignment :: "settle_env \<Rightarrow> addr \<Rightarrow> sid \<Rightarrow> settle \<Rightarrow> settle res" where
  "release_payout_assignment e financier i s =
     bindE (require_auth e financier) (\<lambda>_.
     bindE (expect (k_payout_assignment s i) ''payout not assigned'') (\<lambda>asg.
     if pa_financier asg \<noteq> financier then Inl (Panic ''only current financier can release assignment'')
     else Inr (emit [VStr ''payout_assignment_released'', VStr i] [VAddr (pa_supplier asg), VAddr financier]
            (s\<lparr>k_payout_assignment := (k_payout_assignment s)(i := None)\<rparr>))))"

section \<open>The limiter contract\<close>

text \<open>
  What both limiters promise: with a limit set, an accepted payment either joins the running
  window or opens a new one at the current ledger, and the recorded outflow never exceeds the
  limit.
\<close>

locale outflow_limiter =
  fixes lim :: "'s \<Rightarrow> int" and win_end :: "'s \<Rightarrow> nat" and out :: "'s \<Rightarrow> int"
    and cost :: "'c \<Rightarrow> int" and pass :: "nat \<Rightarrow> 'c \<Rightarrow> 's \<Rightarrow> 's res"
  assumes capped: "lim s \<noteq> 0 \<Longrightarrow> pass now c s = Inr t \<Longrightarrow> out t \<le> lim s"
    and keeps_lim: "pass now c s = Inr t \<Longrightarrow> lim t = lim s"
    and joins: "lim s \<noteq> 0 \<Longrightarrow> pass now c s = Inr t \<Longrightarrow> now < win_end s \<Longrightarrow>
          out t = out s + cost c \<and> win_end t = win_end s"
begin

primrec run :: "(nat \<times> 'c) list \<Rightarrow> 's \<Rightarrow> 's res" where
  "run [] s = Inr s"
| "run (x # xs) s = bindE (pass (fst x) (snd x) s) (run xs)"

lemma run_window:
  "lim s \<noteq> 0 \<Longrightarrow> run xs s = Inr t \<Longrightarrow> \<forall>x \<in> set xs. fst x < win_end s \<Longrightarrow>
   out t = out s + (\<Sum>x\<leftarrow>xs. cost (snd x)) \<and> lim t = lim s"
proof (induction xs arbitrary: s)
  case (Cons x xs)
  then obtain u where u: "pass (fst x) (snd x) s = Inr u" "run xs u = Inr t"
    by (auto simp: bindE_Inr)
  moreover have "out u = out s + cost (snd x)" "win_end u = win_end s" "lim u = lim s"
    using joins [OF Cons.prems(1) u(1)] keeps_lim [OF u(1)] Cons.prems(3) by auto
  ultimately show ?case using Cons.IH [of u] Cons.prems by auto
qed simp

lemma run_append: "run (ys @ zs) v = bindE (run ys v) (run zs)"
  by (induction ys arbitrary: v) (simp, simp add: bindE_def split: sum.split)

text \<open>The calls accepted before a window ends never sum up to more than the limit.\<close>

lemma run_capped:
  assumes "lim s \<noteq> 0" "run xs s = Inr t" "\<forall>x \<in> set xs. fst x < win_end s" "xs \<noteq> []"
  shows "out s + (\<Sum>x\<leftarrow>xs. cost (snd x)) \<le> lim s"
proof -
  obtain ys y where xs: "xs = ys @ [y]" using assms(4) by (metis rev_exhaust)
  then obtain u where u: "run ys s = Inr u" "pass (fst y) (snd y) u = Inr t"
    using assms(2) by (auto simp: bindE_Inr run_append)
  have "lim u = lim s" using run_window [OF assms(1) u(1)] assms(3) xs by simp
  then have "out t \<le> lim s" using capped [OF _ u(2)] assms(1) by simp
  then show ?thesis using run_window [OF assms(1-3)] by simp
qed

end

lemma check_circuit_breaker_Inr:
  assumes "check_circuit_breaker now p s = Inr t" and "get_or 0 (k_cb_limit s) \<noteq> 0"
  shows "k_cb_limit t = k_cb_limit s" "k_cb_window t = k_cb_window s" "calls t = calls s"
    "get_or 0 (k_cb_window_outflow t) \<le> get_or 0 (k_cb_limit s)"
    "now < get_or 0 (k_cb_window_start s) + get_or 0 (k_cb_window s) \<Longrightarrow>
       get_or 0 (k_cb_window_outflow t) = get_or 0 (k_cb_window_outflow s) + p \<and>
       k_cb_window_start t = k_cb_window_start s"
  using assms by (auto simp: check_circuit_breaker_def Let_def bindE_Inr ck_u32_Inr ck_i128_Inr split: if_splits)

interpretation circuit: outflow_limiter
  "\<lambda>s. get_or 0 (k_cb_limit s)"
  "\<lambda>s. get_or 0 (k_cb_window_start s) + get_or 0 (k_cb_window s)"
  "\<lambda>s. get_or 0 (k_cb_window_outflow s)" "\<lambda>p. p"
  check_circuit_breaker
proof
  fix s t now p
  show "get_or 0 (k_cb_limit t) = get_or 0 (k_cb_limit s)" if "check_circuit_breaker now p s = Inr t"
    using that check_circuit_breaker_Inr(1) [OF that]
    by (cases "get_or 0 (k_cb_limit s) = 0") (auto simp: check_circuit_breaker_def)
qed (use check_circuit_breaker_Inr in \<open>simp_all\<close>)

lemma check_address_outflow_Inr:
  assumes "check_address_outflow a now p s = Inr t" and "get_or 0 (k_addr_outflow_limit s a) \<noteq> 0"
  shows "k_addr_outflow_limit t = k_addr_outflow_limit s" "k_addr_outflow_window t = k_addr_outflow_window s"
    "get_or 0 (k_addr_outflow_window_outflow t a) \<le> get_or 0 (k_addr_outflow_limit s a)"
    "now < get_or 0 (k_addr_outflow_window_start s a) + get_or 0 (k_addr_outflow_window s a) \<Longrightarrow>
       get_or 0 (k_addr_outflow_window s a) \<noteq> 0 \<Longrightarrow>
       get_or 0 (k_addr_outflow_window_outflow t a) = get_or 0 (k_addr_outflow_window_outflow s a) + p \<and>
       k_addr_outflow_window_start t = k_addr_outflow_window_start s"
  using assms by (auto simp: check_address_outflow_def Let_def bindE_Inr ck_u32_Inr ck_i128_Inr split: if_splits)

text \<open>A zero window never runs.\<close>

interpretation address: outflow_limiter
  "\<lambda>s. get_or 0 (k_addr_outflow_limit s a)"
  "\<lambda>s. if get_or 0 (k_addr_outflow_window s a) = 0 then 0
       else get_or 0 (k_addr_outflow_window_start s a) + get_or 0 (k_addr_outflow_window s a)"
  "\<lambda>s. get_or 0 (k_addr_outflow_window_outflow s a)" "\<lambda>p. p"
  "check_address_outflow a" for a
proof
  fix s t now p
  show "get_or 0 (k_addr_outflow_limit t a) = get_or 0 (k_addr_outflow_limit s a)"
    if "check_address_outflow a now p s = Inr t"
    using that check_address_outflow_Inr(1) [OF that]
    by (cases "get_or 0 (k_addr_outflow_limit s a) = 0") (auto simp: check_address_outflow_def)
  show "get_or 0 (k_addr_outflow_window_outflow t a) \<le> get_or 0 (k_addr_outflow_limit s a)"
    if "get_or 0 (k_addr_outflow_limit s a) \<noteq> 0" "check_address_outflow a now p s = Inr t"
    using that by (intro check_address_outflow_Inr(3))
  show "get_or 0 (k_addr_outflow_window_outflow t a) = get_or 0 (k_addr_outflow_window_outflow s a) + p \<and>
      (if get_or 0 (k_addr_outflow_window t a) = 0 then 0
       else get_or 0 (k_addr_outflow_window_start t a) + get_or 0 (k_addr_outflow_window t a))
      = (if get_or 0 (k_addr_outflow_window s a) = 0 then 0
         else get_or 0 (k_addr_outflow_window_start s a) + get_or 0 (k_addr_outflow_window s a))"
    if "get_or 0 (k_addr_outflow_limit s a) \<noteq> 0" "check_address_outflow a now p s = Inr t"
      "now < (if get_or 0 (k_addr_outflow_window s a) = 0 then 0
         else get_or 0 (k_addr_outflow_window_start s a) + get_or 0 (k_addr_outflow_window s a))"
  proof -
    have w: "get_or 0 (k_addr_outflow_window s a) \<noteq> 0"
      "now < get_or 0 (k_addr_outflow_window_start s a) + get_or 0 (k_addr_outflow_window s a)"
      using that(3) by (simp_all split: if_splits)
    show ?thesis
      using check_address_outflow_Inr(4) [OF that(2,1) w(2,1)] check_address_outflow_Inr(2) [OF that(2,1)]
      by simp
  qed
qed

end
