(* ===== verification/SettleIds.thy ===== *)
theory SettleIds
  imports SettleTypes
begin

text \<open>
  The ids the settlement contract generates itself (\<^verbatim>\<open>lib.rs\<close>, lines 3988 to 4021 and
  17043 to 17052): decimal digits are written into a fixed byte buffer by two loops. A write past
  the end of a buffer traps, as in Rust. The lemmas say that the buffers are large enough for
  every \<^verbatim>\<open>u64\<close> and that different numbers give different ids.
\<close>

section \<open>The buffer loops\<close>

definition put :: "nat \<Rightarrow> char \<Rightarrow> char list \<Rightarrow> char list res" where
  "put i c buf = (if i < length buf then Inr (buf[i := c]) else Inl (Panic ''index out of bounds''))"

definition digit :: "nat \<Rightarrow> char" where
  "digit n = char_of (48 + n)"

text \<open>The first loop: least significant digit first, into \<open>tmp\<close> from index \<open>k\<close> on.\<close>

function digits_loop :: "nat \<Rightarrow> nat \<Rightarrow> char list \<Rightarrow> (char list \<times> nat) res" where
  "digits_loop n k tmp =
     (if 0 < n
      then bindE (put k (digit (n mod 10)) tmp) (\<lambda>tmp1. digits_loop (n div 10) (k + 1) tmp1)
      else Inr (tmp, k))"
  by auto

termination digits_loop
  by (relation "measure (\<lambda>(n, k, tmp). n)") auto

declare digits_loop.simps [simp del]

text \<open>The second loop: the digits are copied in reverse order.\<close>

fun copy_loop :: "char list \<Rightarrow> nat \<Rightarrow> nat \<Rightarrow> char list \<Rightarrow> (char list \<times> nat) res" where
  "copy_loop tmp 0 pos buf = Inr (buf, pos)"
| "copy_loop tmp (Suc d) pos buf =
     bindE (vec_get_unwrap tmp d) (\<lambda>c. bindE (put pos c buf) (\<lambda>buf1. copy_loop tmp d (pos + 1) buf1))"

definition append_u64_to_buf :: "nat \<Rightarrow> nat \<Rightarrow> char list \<Rightarrow> (char list \<times> nat) res" where
  "append_u64_to_buf start n buf =
     (if n = 0 then bindE (put start (digit 0) buf) (\<lambda>b. Inr (b, start + 1))
      else bindE (digits_loop n 0 (replicate 20 (CHR 0x00))) (\<lambda>(tmp, d). copy_loop tmp d start buf))"

fun put_all :: "char list \<Rightarrow> nat \<Rightarrow> char list \<Rightarrow> (char list \<times> nat) res" where
  "put_all [] i buf = Inr (buf, i)"
| "put_all (c # cs) i buf = bindE (put i c buf) (put_all cs (i + 1))"

definition standing_shipment_id :: "nat \<Rightarrow> nat \<Rightarrow> sid res" where
  "standing_shipment_id order_id occurrence =
     bindE (put_all ''so-'' 0 (replicate 64 (CHR 0x00))) (\<lambda>(b1, n1).
     bindE (append_u64_to_buf n1 order_id b1) (\<lambda>(b2, n2).
     bindE (put n2 (CHR ''-'') b2) (\<lambda>b3.
     bindE (append_u64_to_buf (n2 + 1) occurrence b3) (\<lambda>(b4, n4).
     Inr (take n4 b4)))))"

definition format_auto_id :: "nat \<Rightarrow> sid res" where
  "format_auto_id num =
     bindE (put_all ''SHIP-'' 0 (replicate 32 (CHR 0x00))) (\<lambda>(b1, n1).
     bindE (append_u64_to_buf n1 num b1) (\<lambda>(b2, n2). Inr (take n2 b2)))"

section \<open>The reference printer\<close>

fun decimal :: "nat \<Rightarrow> char list" where
  "decimal n = (if n < 10 then [digit n] else decimal (n div 10) @ [digit (n mod 10)])"

declare decimal.simps [simp del]

definition read_decimal :: "char list \<Rightarrow> nat" where
  "read_decimal cs = foldl (\<lambda>acc c. 10 * acc + (of_char c - 48)) 0 cs"

lemma of_digit: "n < 10 \<Longrightarrow> of_char (digit n) = 48 + n"
  by (simp add: digit_def)

lemma read_decimal [simp]: "read_decimal (decimal n) = n"
proof (induction n rule: decimal.induct)
  case (1 n)
  show ?case
    using 1 by (subst decimal.simps) (auto simp: read_decimal_def of_digit)
qed

lemma decimal_inj: "decimal m = decimal n \<longleftrightarrow> m = n"
  by (metis read_decimal)

lemma decimal_no_dash: "CHR ''-'' \<notin> set (decimal n)"
proof (induction n rule: decimal.induct)
  case (1 n)
  have "CHR ''-'' \<noteq> digit k" if "k < 10" for k
  proof
    assume "CHR ''-'' = digit k"
    then have "(of_char (digit k) :: nat) = of_char (CHR ''-'')" by simp
    then show False using that by (simp add: of_digit)
  qed
  then show ?case using 1 by (subst decimal.simps) auto
qed

lemma length_decimal: "n < 10 ^ k \<Longrightarrow> 0 < k \<Longrightarrow> length (decimal n) \<le> k"
proof (induction k arbitrary: n)
  case (Suc k)
  show ?case
  proof (cases "n < 10")
    case True
    then show ?thesis by (simp add: decimal.simps [of n])
  next
    case False
    then have "n div 10 < 10 ^ k" "0 < k" using Suc.prems by (auto intro: ccontr)
    then show ?thesis using Suc.IH [of "n div 10"] False by (simp add: decimal.simps [of n])
  qed
qed simp

lemma length_decimal_pos [simp]: "0 < length (decimal n)"
  by (subst decimal.simps) simp

section \<open>The loops against the reference printer\<close>

lemma take_put:
  "i < length xs \<Longrightarrow> take (Suc i) (xs[i := c]) = take i xs @ [c]"
  by (simp add: take_Suc_conv_app_nth)

lemma digits_loop_decimal:
  "0 < n \<Longrightarrow> k + length (decimal n) \<le> length tmp \<Longrightarrow>
   \<exists>tmp'. digits_loop n k tmp = Inr (tmp', k + length (decimal n)) \<and> length tmp' = length tmp \<and>
          take (k + length (decimal n)) tmp' = take k tmp @ rev (decimal n)"
proof (induction n k tmp rule: digits_loop.induct)
  case (1 n k tmp)
  let ?tmp = "tmp[k := digit (n mod 10)]"
  have k: "k < length tmp" using 1(3) length_decimal_pos [of n] by linarith
  have unfold: "digits_loop n k tmp = digits_loop (n div 10) (Suc k) ?tmp"
    using 1(2) k by (simp add: digits_loop.simps [of n] put_def)
  show ?case
  proof (cases "n < 10")
    case True
    then show ?thesis
      using 1(2) k by (simp add: unfold decimal.simps [of n] digits_loop.simps [of 0] take_put)
  next
    case False
    have split: "decimal n = decimal (n div 10) @ [digit (n mod 10)]"
      using False by (simp add: decimal.simps [of n])
    have "\<exists>tmp'. digits_loop (n div 10) (k + 1) ?tmp = Inr (tmp', k + 1 + length (decimal (n div 10))) \<and>
          length tmp' = length ?tmp \<and>
          take (k + 1 + length (decimal (n div 10))) tmp' = take (k + 1) ?tmp @ rev (decimal (n div 10))"
      by (rule 1(1)) (use 1(2,3) False k split in \<open>auto simp: put_def\<close>)
    then show ?thesis by (simp add: unfold split take_put k)
  qed
qed

lemma copy_loop_rev:
  "d \<le> length tmp \<Longrightarrow> pos + d \<le> length buf \<Longrightarrow>
   \<exists>buf'. copy_loop tmp d pos buf = Inr (buf', pos + d) \<and> length buf' = length buf \<and>
          take (pos + d) buf' = take pos buf @ rev (take d tmp)"
proof (induction tmp d pos buf rule: copy_loop.induct)
  case (2 tmp d pos buf)
  have d: "vec_get_unwrap tmp d = Inr (tmp ! d)" using 2(2) by (simp add: vec_get_unwrap_Inr)
  have "\<exists>buf'. copy_loop tmp d (pos + 1) (buf[pos := tmp ! d]) = Inr (buf', pos + 1 + d) \<and>
      length buf' = length (buf[pos := tmp ! d]) \<and>
      take (pos + 1 + d) buf' = take (pos + 1) (buf[pos := tmp ! d]) @ rev (take d tmp)"
    by (rule 2(1)) (use 2(2,3) in \<open>auto simp: put_def\<close>)
  then show ?case
    using 2(2,3) by (simp add: d put_def take_put take_Suc_conv_app_nth)
qed simp

lemma append_decimal:
  assumes "n \<le> u64_max" and "start + 20 \<le> length buf"
  shows "\<exists>buf'. append_u64_to_buf start n buf = Inr (buf', start + length (decimal n)) \<and>
      length buf' = length buf \<and> take (start + length (decimal n)) buf' = take start buf @ decimal n"
proof -
  have len: "length (decimal n) \<le> 20"
    using assms(1) by (intro length_decimal) (auto simp: u64_max_def)
  show ?thesis
  proof (cases "n = 0")
    case True
    then show ?thesis
      using assms(2) by (simp add: append_u64_to_buf_def put_def decimal.simps [of 0] take_put)
  next
    case False
    then obtain tmp where tmp: "digits_loop n 0 (replicate 20 (CHR 0x00)) = Inr (tmp, length (decimal n))"
      "length tmp = 20" "take (length (decimal n)) tmp = rev (decimal n)"
      using digits_loop_decimal [of n 0 "replicate 20 (CHR 0x00)"] len by auto
    then show ?thesis
      using False copy_loop_rev [of "length (decimal n)" tmp start buf] len assms(2)
      by (simp add: append_u64_to_buf_def)
  qed
qed

lemma take_extend: "take n buf = xs \<Longrightarrow> n < length buf \<Longrightarrow> take (Suc n) (buf[n := c]) = xs @ [c]"
  by (simp add: take_put)

lemma standing_id_is:
  assumes "order_id \<le> u64_max" and "occurrence \<le> u64_max"
  shows "standing_shipment_id order_id occurrence
           = Inr (''so-'' @ decimal order_id @ ''-'' @ decimal occurrence)"
proof -
  let ?b = "''so-'' @ replicate 61 (CHR 0x00)"
  have pre: "put_all ''so-'' 0 (replicate 64 (CHR 0x00)) = Inr (?b, 3)"
    by (simp add: put_def numeral_eq_Suc)
  obtain b2 where b2: "append_u64_to_buf 3 order_id ?b = Inr (b2, 3 + length (decimal order_id))"
    "length b2 = 64" "take (3 + length (decimal order_id)) b2 = take 3 ?b @ decimal order_id"
    using append_decimal [OF assms(1), of 3 ?b] by auto
  have len: "length (decimal order_id) \<le> 20"
    using assms(1) by (intro length_decimal) (auto simp: u64_max_def)
  let ?n = "3 + length (decimal order_id)"
  let ?b3 = "b2[?n := CHR ''-'']"
  obtain b4 where b4: "append_u64_to_buf (?n + 1) occurrence ?b3
      = Inr (b4, ?n + 1 + length (decimal occurrence))"
    "take (?n + 1 + length (decimal occurrence)) b4 = take (?n + 1) ?b3 @ decimal occurrence"
    using append_decimal [OF assms(2), of "?n + 1" ?b3] len b2(2) by auto
  have t3: "take (?n + 1) ?b3 = ''so-'' @ decimal order_id @ ''-''"
    using take_extend [OF b2(3)] len b2(2) by (simp add: numeral_eq_Suc)
  have put3: "put ?n (CHR ''-'') b2 = Inr ?b3"
    using len b2(2) by (simp add: put_def)
  show ?thesis
    unfolding standing_shipment_id_def pre bindE_simps prod.case b2(1) put3 b4(1) b4(2) t3 by simp
qed

lemma auto_id_is:
  assumes "num \<le> u64_max"
  shows "format_auto_id num = Inr (''SHIP-'' @ decimal num)"
proof -
  let ?b = "''SHIP-'' @ replicate 27 (CHR 0x00)"
  have pre: "put_all ''SHIP-'' 0 (replicate 32 (CHR 0x00)) = Inr (?b, 5)"
    by (simp add: put_def numeral_eq_Suc)
  obtain b2 where "append_u64_to_buf 5 num ?b = Inr (b2, 5 + length (decimal num))"
    "take (5 + length (decimal num)) b2 = take 5 ?b @ decimal num"
    using append_decimal [OF assms, of 5 ?b] by auto
  then show ?thesis
    unfolding format_auto_id_def pre by (simp add: numeral_eq_Suc)
qed

text \<open>The reader that splits a standing-order id at its second dash.\<close>

definition read_standing_id :: "char list \<Rightarrow> nat \<times> nat" where
  "read_standing_id cs =
     (read_decimal (takeWhile (\<lambda>c. c \<noteq> CHR ''-'') (drop 3 cs)),
      read_decimal (drop 1 (dropWhile (\<lambda>c. c \<noteq> CHR ''-'') (drop 3 cs))))"

lemma read_standing_decimal:
  "read_standing_id (''so-'' @ decimal a @ ''-'' @ decimal b) = (a, b)"
proof -
  have "\<forall>c \<in> set (decimal a). c \<noteq> CHR ''-''" using decimal_no_dash [of a] by auto
  then have "takeWhile (\<lambda>c. c \<noteq> CHR ''-'') (decimal a @ ''-'' @ decimal b) = decimal a"
    "dropWhile (\<lambda>c. c \<noteq> CHR ''-'') (decimal a @ ''-'' @ decimal b) = ''-'' @ decimal b"
    by (simp_all add: takeWhile_append2 dropWhile_append2)
  then show ?thesis by (simp add: read_standing_id_def)
qed

end
