(* ===== verification/SettleVault.thy ===== *)
theory SettleVault
  imports SettleLedger SettleIds
begin

text \<open>
  Buyer vaults, refunds and standing orders of the settlement contract (\<^verbatim>\<open>lib.rs\<close>,
  lines 3625 to 3754 and 3816 to 3986). A vault keeps tokens inside the contract: a balance per
  buyer and token, and the total per token. The execution of a standing order goes through
  \<^verbatim>\<open>create_shipment\<close> and is not modelled.
\<close>

section \<open>Vault balances\<close>

definition vault_bal :: "settle \<Rightarrow> addr \<times> addr \<Rightarrow> int" where
  "vault_bal s k = get_or 0 (k_vault_balance s k)"

definition vault_total :: "settle \<Rightarrow> addr \<Rightarrow> int" where
  "vault_total s tok = get_or 0 (k_total_vaulted s tok)"

definition get_vault_balance :: "settle \<Rightarrow> addr \<Rightarrow> addr \<Rightarrow> int" where
  "get_vault_balance s buyer tok = vault_bal s (buyer, tok)"

text \<open>The two writes every vault operation makes.\<close>

definition vault_add :: "addr \<Rightarrow> addr \<Rightarrow> int \<Rightarrow> settle \<Rightarrow> settle res" where
  "vault_add buyer tok n s =
     bindE (ck_i128 (vault_bal s (buyer, tok) + n)) (\<lambda>b.
     bindE (ck_i128 (vault_total s tok + n)) (\<lambda>t.
     Inr (s\<lparr>k_vault_balance := (k_vault_balance s)((buyer, tok) \<mapsto> b),
            k_total_vaulted := (k_total_vaulted s)(tok \<mapsto> t)\<rparr>)))"

definition vault_sub :: "addr \<Rightarrow> addr \<Rightarrow> int \<Rightarrow> settle \<Rightarrow> settle res" where
  "vault_sub buyer tok n s =
     (if vault_bal s (buyer, tok) < n then Inl (Panic ''insufficient vault balance'')
      else
      bindE (ck_i128 (vault_bal s (buyer, tok) - n)) (\<lambda>b.
      bindE (ck_i128 (vault_total s tok - n)) (\<lambda>t.
      Inr (s\<lparr>k_vault_balance := (k_vault_balance s)((buyer, tok) \<mapsto> b),
             k_total_vaulted := (k_total_vaulted s)(tok \<mapsto> max t 0)\<rparr>))))"

definition vault_deposit :: "settle_env \<Rightarrow> addr \<Rightarrow> addr \<Rightarrow> int \<Rightarrow> settle \<Rightarrow> settle res" where
  "vault_deposit e buyer tok n s =
     bindE (assert_not_paused s) (\<lambda>_.
     bindE (require_auth e buyer) (\<lambda>_.
     if n \<le> 0 then Inl (Panic ''amount must be greater than zero'')
     else
     bindE (token_pay e tok buyer (this e) n s) (\<lambda>s1.
     bindE (vault_add buyer tok n s1) (\<lambda>s2.
     Inr (emit [VStr ''vault_deposited'', VAddr buyer, VAddr tok] [VInt n, VNat (sequence e)] s2)))))"

definition vault_withdraw :: "settle_env \<Rightarrow> addr \<Rightarrow> addr \<Rightarrow> int \<Rightarrow> settle \<Rightarrow> settle res" where
  "vault_withdraw e buyer tok n s =
     bindE (assert_not_paused s) (\<lambda>_.
     bindE (require_auth e buyer) (\<lambda>_.
     if n \<le> 0 then Inl (Panic ''amount must be greater than zero'')
     else
     bindE (vault_sub buyer tok n s) (\<lambda>s1.
     bindE (token_pay e tok (this e) buyer n s1) (\<lambda>s2.
     Inr (emit [VStr ''vault_withdrawn'', VAddr buyer, VAddr tok] [VInt n, VNat (sequence e)] s2)))))"

definition debit_vault :: "addr \<Rightarrow> addr \<Rightarrow> int \<Rightarrow> settle \<Rightarrow> settle res" where
  "debit_vault buyer tok n s = (if n \<le> 0 then Inr s else vault_sub buyer tok n s)"

definition credit_vault :: "addr \<Rightarrow> addr \<Rightarrow> int \<Rightarrow> settle \<Rightarrow> settle res" where
  "credit_vault buyer tok n s = (if n \<le> 0 then Inr s else vault_add buyer tok n s)"

definition refund_token_to_buyer ::
  "settle_env \<Rightarrow> sid \<Rightarrow> shipment \<Rightarrow> addr \<Rightarrow> int \<Rightarrow> settle \<Rightarrow> settle res" where
  "refund_token_to_buyer e i sh tok n s =
     (if n \<le> 0 then Inr s
      else
      bindE (vec_get_unwrap (sh_buyers sh) 0) (\<lambda>primary_buyer.
      let recipient = get_or primary_buyer (k_refund_recipient s i)
      in if get_or False (k_fund_from_vault s i) then credit_vault recipient tok n s
         else token_pay e tok (this e) recipient n s))"

definition refund_to_buyer :: "settle_env \<Rightarrow> sid \<Rightarrow> shipment \<Rightarrow> int \<Rightarrow> settle \<Rightarrow> settle res" where
  "refund_to_buyer e i sh n s = refund_token_to_buyer e i sh (sh_token sh) n s"

section \<open>Standing orders\<close>

fun sum_percent :: "nat \<Rightarrow> milestone list \<Rightarrow> nat res" where
  "sum_percent acc [] = Inr acc"
| "sum_percent acc (m # ms) = bindE (ck_u32 (acc + ms_payment_percent m)) (\<lambda>a. sum_percent a ms)"

definition create_standing_order ::
  "settle_env \<Rightarrow> addr \<Rightarrow> standing_order_params \<Rightarrow> settle \<Rightarrow> (settle \<times> nat) res" where
  "create_standing_order e buyer p s =
     bindE (assert_not_paused s) (\<lambda>_.
     bindE (require_auth e buyer) (\<lambda>_.
     if sp_amount p < MIN_SHIPMENT_AMOUNT then Inl (Panic ''amount must be greater than zero'')
     else if sp_interval_ledgers p = 0 then Inl (Panic ''interval_ledgers must be greater than zero'')
     else if sp_max_occurrences p = 0 then Inl (Panic ''max_occurrences must be greater than zero'')
     else if sp_milestones p = [] then Inl (Panic ''at least one milestone is required'')
     else
     bindE (sum_percent 0 (sp_milestones p)) (\<lambda>pct.
     if pct \<noteq> 100 then Inl (Panic ''milestone percentages must sum to 100'')
     else
     let oid = get_or 1 (k_next_standing_order_id s)
     in bindE (ck_u64 (oid + 1)) (\<lambda>next_oid.
     let order = \<lparr>so_order_id = oid, so_buyer = buyer, so_template_name = sp_template_name p,
                  so_supplier = sp_supplier p, so_logistics = sp_logistics p, so_arbiter = sp_arbiter p,
                  so_token = sp_token p, so_amount = sp_amount p, so_milestones = sp_milestones p,
                  so_interval_ledgers = sp_interval_ledgers p, so_max_occurrences = sp_max_occurrences p,
                  so_occurrences = 0, so_next_ledger = sequence e, so_cancelled = False\<rparr>
     in Inr (emit [VStr ''standing_order_created'', VNat oid]
               [VAddr buyer, VStr (sp_template_name p), VInt (sp_amount p),
                VNat (sp_interval_ledgers p), VNat (sp_max_occurrences p)]
               (s\<lparr>k_next_standing_order_id := Some next_oid,
                  k_standing_order := (k_standing_order s)(oid \<mapsto> order)\<rparr>), oid)))))"

definition cancel_standing_order :: "settle_env \<Rightarrow> addr \<Rightarrow> nat \<Rightarrow> settle \<Rightarrow> settle res" where
  "cancel_standing_order e buyer oid s =
     bindE (require_auth e buyer) (\<lambda>_.
     bindE (expect (k_standing_order s oid) ''standing order not found'') (\<lambda>order.
     if so_buyer order \<noteq> buyer then Inl (Panic ''unauthorized'')
     else if so_cancelled order then Inl (Panic ''standing order already cancelled'')
     else Inr (emit [VStr ''standing_order_cancelled'', VNat oid] [VAddr buyer, VNat (sequence e)]
            (s\<lparr>k_standing_order := (k_standing_order s)(oid \<mapsto> order\<lparr>so_cancelled := True\<rparr>)\<rparr>))))"

definition get_standing_order :: "settle \<Rightarrow> nat \<Rightarrow> standing_order res" where
  "get_standing_order s oid = expect (k_standing_order s oid) ''standing order not found''"

section \<open>The vault invariant\<close>

text \<open>
  For each token the recorded total is the sum of the balances, and no balance is negative.
  \<open>bs\<close> lists the buyers that may hold a balance.
\<close>

definition vault_inv :: "addr list \<Rightarrow> settle \<Rightarrow> bool" where
  "vault_inv bs s \<longleftrightarrow>
     (\<forall>b tok. 0 \<le> vault_bal s (b, tok)) \<and>
     (\<forall>b tok. b \<notin> set bs \<longrightarrow> vault_bal s (b, tok) = 0) \<and>
     (\<forall>tok. vault_total s tok = (\<Sum>b\<leftarrow>bs. vault_bal s (b, tok)))"

lemma vault_invD:
  assumes "vault_inv bs s"
  shows "0 \<le> vault_bal s (b, tok)" and "b \<notin> set bs \<Longrightarrow> vault_bal s (b, tok) = 0"
    and "vault_total s tok = (\<Sum>b\<leftarrow>bs. vault_bal s (b, tok))"
  using assms by (auto simp: vault_inv_def)

lemma vault_inv_frame:
  "k_vault_balance t = k_vault_balance s \<Longrightarrow> k_total_vaulted t = k_total_vaulted s \<Longrightarrow>
   vault_inv bs t \<longleftrightarrow> vault_inv bs s"
  by (simp add: vault_inv_def vault_bal_def vault_total_def)

text \<open>A joint change of one balance and its total.\<close>

definition vault_moved :: "addr \<Rightarrow> addr \<Rightarrow> int \<Rightarrow> settle \<Rightarrow> settle \<Rightarrow> bool" where
  "vault_moved buyer tok d s t \<longleftrightarrow>
     vault_bal t = (vault_bal s)((buyer, tok) := vault_bal s (buyer, tok) + d) \<and>
     vault_total t = (vault_total s)(tok := vault_total s tok + d)"

lemma vault_moved_inv:
  assumes inv: "vault_inv bs s" and mv: "vault_moved buyer tok d s t"
    and b: "buyer \<in> set bs" "distinct bs" and nn: "0 \<le> vault_bal s (buyer, tok) + d"
  shows "vault_inv bs t"
proof -
  have bal: "vault_bal t (x, k) = (if x = buyer \<and> k = tok then vault_bal s (buyer, tok) + d
      else vault_bal s (x, k))" for x k
    using mv by (auto simp: vault_moved_def)
  have "(\<Sum>x\<leftarrow>bs. vault_bal t (x, tok))
      = (\<Sum>x\<leftarrow>bs. ((\<lambda>x. vault_bal s (x, tok))(buyer := vault_bal s (buyer, tok) + d)) x)"
    by (rule arg_cong [of _ _ sum_list]) (auto simp: bal)
  also have "\<dots> = (\<Sum>x\<leftarrow>bs. vault_bal s (x, tok)) + d"
    by (subst sum_list_distinct_upd [OF b(2) b(1)]) simp
  finally have tok: "(\<Sum>x\<leftarrow>bs. vault_bal t (x, tok)) = vault_total t tok"
    using mv vault_invD(3) [OF inv, of tok] by (simp add: vault_moved_def)
  have other: "(\<Sum>x\<leftarrow>bs. vault_bal t (x, k)) = vault_total t k" if "k \<noteq> tok" for k
    using mv vault_invD(3) [OF inv, of k] that by (simp add: vault_moved_def bal)
  have "vault_total t k = (\<Sum>x\<leftarrow>bs. vault_bal t (x, k))" for k
    using tok other [of k] by (cases "k = tok") simp_all
  moreover have "0 \<le> vault_bal t (x, k)" for x k
    using nn vault_invD(1) [OF inv, of x k] by (simp only: bal) simp
  moreover have "vault_bal t (x, k) = 0" if "x \<notin> set bs" for x k
    using that vault_invD(2) [OF inv that, of k] b(1) by (simp only: bal) auto
  ultimately show ?thesis by (simp only: vault_inv_def) simp
qed

lemma vault_add_moved: "vault_add buyer tok n s = Inr t \<Longrightarrow> vault_moved buyer tok n s t"
  by (auto simp: vault_add_def vault_moved_def res_simps vault_bal_def vault_total_def fun_eq_iff)

lemma sum_list_elem_le_vault:
  assumes "vault_inv bs s" and "b \<in> set bs"
  shows "vault_bal s (b, tok) \<le> vault_total s tok"
  using sum_list_ge_elem [of bs "\<lambda>x. vault_bal s (x, tok)" b] vault_invD [OF assms(1)] assms(2) by simp

lemma vault_sub_moved:
  assumes "vault_sub buyer tok n s = Inr t" and "vault_inv bs s" and "buyer \<in> set bs"
  shows "vault_moved buyer tok (- n) s t" and "n \<le> vault_bal s (buyer, tok)"
  using assms sum_list_elem_le_vault [OF assms(2,3), of tok]
  by (auto simp: vault_sub_def vault_moved_def res_simps vault_bal_def vault_total_def fun_eq_iff
      split: if_splits)

lemma vault_sub_bal: "vault_sub buyer tok n s = Inr t \<Longrightarrow> n \<le> vault_bal s (buyer, tok)"
  by (auto simp: vault_sub_def split: if_splits)

text \<open>The users' vault calls as steps, for the buyers \<open>bs\<close>.\<close>

inductive vault_step :: "addr \<Rightarrow> addr list \<Rightarrow> settle \<Rightarrow> settle \<Rightarrow> bool" for self bs where
  step_deposit: "vault_deposit e b tok n s = Inr t \<Longrightarrow> this e = self \<Longrightarrow> b \<in> set bs \<Longrightarrow> b \<noteq> self \<Longrightarrow>
     vault_step self bs s t"
| step_withdraw: "vault_withdraw e b tok n s = Inr t \<Longrightarrow> this e = self \<Longrightarrow> b \<in> set bs \<Longrightarrow> b \<noteq> self \<Longrightarrow>
     vault_step self bs s t"

definition vault_start :: "settle \<Rightarrow> bool" where
  "vault_start s \<longleftrightarrow> k_vault_balance s = Map.empty \<and> k_total_vaulted s = Map.empty \<and> calls s = []"

text \<open>Tokens that came in through vault calls equal what the vaults record.\<close>

definition vault_backed :: "addr \<Rightarrow> addr list \<Rightarrow> settle \<Rightarrow> bool" where
  "vault_backed self bs s \<longleftrightarrow>
     vault_inv bs s \<and> (\<forall>tok. net_flow tok self (calls s) = vault_total s tok)"

lemma vault_add_calls: "vault_add b tok n s = Inr t \<Longrightarrow> calls t = calls s"
  by (auto simp: vault_add_def res_simps)

lemma vault_sub_calls: "vault_sub b tok n s = Inr t \<Longrightarrow> calls t = calls s"
  by (auto simp: vault_sub_def res_simps split: if_splits)

lemma vault_deposit_backed:
  assumes "vault_deposit e b tok n s = Inr t" "vault_backed (this e) bs s" "distinct bs" "b \<in> set bs"
    "b \<noteq> this e"
  shows "vault_backed (this e) bs t"
proof -
  from assms(1) obtain s1 s2 where n: "0 < n" and s1: "token_pay e tok b (this e) n s = Inr s1"
    and s2: "vault_add b tok n s1 = Inr s2" and t: "calls t = calls s2"
      "k_vault_balance t = k_vault_balance s2" "k_total_vaulted t = k_total_vaulted s2"
    by (auto simp: vault_deposit_def bindE_Inr split: if_splits)
  have eq: "vault_bal s1 = vault_bal s" "vault_total s1 = vault_total s"
    using s1 by (auto simp: token_pay_Inr vault_bal_def vault_total_def)
  have inv: "vault_inv bs s1" "net_flow k (this e) (calls s) = vault_total s1 k" for k
    using assms(2) by (simp_all add: vault_backed_def vault_inv_def eq)
  have mv: "vault_moved b tok n s1 s2" by (rule vault_add_moved [OF s2])
  have "vault_inv bs s2"
    by (rule vault_moved_inv [OF inv(1) mv assms(4,3)]) (use vault_invD(1) [OF inv(1)] n in \<open>simp add: add_nonneg_nonneg\<close>)
  then have "vault_inv bs t" using vault_inv_frame [OF t(2,3)] by simp
  moreover have "net_flow k (this e) (calls t) = vault_total t k" for k
  proof -
    have "vault_total t k = vault_total s2 k" using t by (simp add: vault_total_def)
    moreover have "calls t = calls s @ [\<lparr>xtoken = tok, xfrom = b, xto = this e, xamount = n\<rparr>]"
      using s1 vault_add_calls [OF s2] t(1) by (auto simp: token_pay_Inr)
    ultimately show ?thesis
      using mv inv(2) [of k] assms(5) by (simp add: flow1_def vault_moved_def)
  qed
  ultimately show ?thesis by (simp add: vault_backed_def)
qed

lemma vault_withdraw_backed:
  assumes "vault_withdraw e b tok n s = Inr t" "vault_backed (this e) bs s" "distinct bs" "b \<in> set bs"
    "b \<noteq> this e"
  shows "vault_backed (this e) bs t"
proof -
  from assms(1) obtain s1 s2 where s1: "vault_sub b tok n s = Inr s1"
    and s2: "token_pay e tok (this e) b n s1 = Inr s2" and t: "calls t = calls s2"
      "k_vault_balance t = k_vault_balance s2" "k_total_vaulted t = k_total_vaulted s2"
    by (auto simp: vault_withdraw_def bindE_Inr split: if_splits)
  have inv: "vault_inv bs s" "\<And>k. net_flow k (this e) (calls s) = vault_total s k"
    using assms(2) by (auto simp: vault_backed_def)
  note mv = vault_sub_moved [OF s1 inv(1) assms(4)]
  have "vault_inv bs s1"
    by (rule vault_moved_inv [OF inv(1) mv(1) assms(4,3)]) (use mv(2) in simp)
  then have "vault_inv bs t"
    using t s2 by (auto simp: token_pay_Inr vault_inv_def vault_bal_def vault_total_def)
  moreover have "net_flow k (this e) (calls t) = vault_total t k" for k
  proof -
    have "vault_total t k = vault_total s1 k"
      using t s2 by (auto simp: token_pay_Inr vault_total_def)
    moreover have "calls t = calls s @ [\<lparr>xtoken = tok, xfrom = this e, xto = b, xamount = n\<rparr>]"
      using s2 vault_sub_calls [OF s1] t(1) by (auto simp: token_pay_Inr)
    ultimately show ?thesis
      using mv(1) inv(2) [of k] assms(5) by (simp add: flow1_def vault_moved_def)
  qed
  ultimately show ?thesis by (simp add: vault_backed_def)
qed

lemma vault_start_backed: "vault_start s \<Longrightarrow> vault_backed self bs s"
  by (simp add: vault_start_def vault_backed_def vault_inv_def vault_bal_def vault_total_def)

lemma vault_step_backed: "vault_step self bs s t \<Longrightarrow> distinct bs \<Longrightarrow> vault_backed self bs s \<Longrightarrow> vault_backed self bs t"
  by (induction rule: vault_step.induct) (use vault_deposit_backed vault_withdraw_backed in blast)+

interpretation vault: invariant_system vault_start "\<lambda>s t. distinct bs \<and> vault_step self bs s t"
  "vault_backed self bs" for self bs
  by unfold_locales (use vault_start_backed vault_step_backed in blast)+

text \<open>Refunds into and payments out of a vault keep the books.\<close>

lemma credit_vault_inv:
  assumes "credit_vault b tok n s = Inr t" "vault_inv bs s" "distinct bs" "b \<in> set bs"
  shows "vault_inv bs t"
proof (cases "n \<le> 0")
  case False
  then have "vault_moved b tok n s t"
    using assms(1) by (auto simp: credit_vault_def intro: vault_add_moved)
  then show ?thesis
    by (rule vault_moved_inv [OF assms(2) _ assms(4,3)])
       (use vault_invD(1) [OF assms(2)] False in \<open>simp add: add_nonneg_nonneg\<close>)
qed (use assms in \<open>simp add: credit_vault_def\<close>)

lemma debit_vault_inv:
  assumes "debit_vault b tok n s = Inr t" "vault_inv bs s" "distinct bs" "b \<in> set bs"
  shows "vault_inv bs t"
proof (cases "n \<le> 0")
  case False
  then have "vault_sub b tok n s = Inr t" using assms(1) by (simp add: debit_vault_def)
  note mv = vault_sub_moved [OF this assms(2,4)]
  show ?thesis by (rule vault_moved_inv [OF assms(2) mv(1) assms(4,3)]) (use mv(2) in simp)
qed (use assms in \<open>simp add: debit_vault_def\<close>)

end
