(* ===== verification/SettleConfirm.thy ===== *)
theory SettleConfirm
  imports SettlePayout SettleVault
begin

text \<open>
  Confirmation of a milestone, release of a held payment and the completion of a shipment
  (\<^verbatim>\<open>lib.rs\<close>, lines 10617 to 11308, 21142 to 21237 and 23453 to 23516). The source's long
  function bodies are split along their blocks: every definition is one block, in the order of the
  source. The local \<^verbatim>\<open>shipment\<close> of the source is the variable \<open>sh\<close>; it reaches
  the storage where the source writes it.
\<close>

section \<open>Completion\<close>

definition maybe_pay_clean_completion_rebate ::
  "settle_env \<Rightarrow> sid \<Rightarrow> shipment \<Rightarrow> settle \<Rightarrow> (settle \<times> shipment) res" where
  "maybe_pay_clean_completion_rebate e i sh s =
     (let bps = get_or 0 (k_clean_completion_rebate_bps s);
          fees_paid = get_or 0 (k_shipment_fees_paid s i);
          tok = sh_token sh
      in if bps = 0 then Inr (s, sh)
         else if get_or False (k_shipment_had_dispute s i) then Inr (s, sh)
         else if fees_paid \<le> 0 then Inr (s, sh)
         else
         bindE (mul_div fees_paid bps 10000) (\<lambda>raw.
         let rebate = (if fees_paid < raw then fees_paid else raw);
             revenue = get_or 0 (k_treasury_revenue s tok)
         in if rebate \<le> 0 then Inr (s, sh)
            else if revenue < rebate then Inr (s, sh)
            else (case k_fee_config s of
                None \<Rightarrow> Inr (s, sh)
              | Some config \<Rightarrow>
                  bindE (ck_i128 (tok_balance e (calls s) tok (this e) - get_or 0 (k_total_escrowed s tok))) (\<lambda>d.
                  let dust = max d 0;
                      fin = (\<lambda>s1. bindE (ck_i128 (revenue - rebate)) (\<lambda>left.
                        Inr (emit [VStr ''clean_completion_rebate'', VStr i]
                               [VAddr (sh_supplier sh), VInt rebate, VInt fees_paid, VNat bps]
                               (s1\<lparr>k_treasury_revenue := (k_treasury_revenue s1)(tok \<mapsto> left)\<rparr>),
                             append_audit_entry e (this e) ''clean_completion_rebate'' ''shipment_completed'' sh)))
                  in if rebate \<le> dust
                     then bindE (token_pay e tok (this e) (sh_supplier sh) rebate s) fin
                     else if tok_balance e (calls s) tok (fc_treasury config) < rebate then Inr (s, sh)
                     else bindE (token_pay e tok (fc_treasury config) (sh_supplier sh) rebate s) fin))))"

definition release_retainage :: "settle_env \<Rightarrow> sid \<Rightarrow> shipment \<Rightarrow> settle \<Rightarrow> (settle \<times> shipment) res" where
  "release_retainage e i sh s =
     (let retainage = get_or 0 (k_retainage_balance s i)
      in if retainage \<le> 0 then Inr (s, sh)
         else
         bindE (token_pay e (sh_token sh) (this e) (sh_supplier sh) retainage s) (\<lambda>s1.
         bindE (decrease_total_escrowed (sh_token sh) retainage
                  (s1\<lparr>k_retainage_balance := (k_retainage_balance s1)(i := None)\<rparr>)) (\<lambda>s2.
         Inr (emit [VStr ''retainage_released'', VStr i] [VAddr (sh_supplier sh), VInt retainage] s2,
              append_audit_entry e (this e) ''retainage_released'' ''shipment_completed'' sh))))"

definition start_warranty :: "settle_env \<Rightarrow> sid \<Rightarrow> shipment \<Rightarrow> settle \<Rightarrow> (settle \<times> shipment) res" where
  "start_warranty e i sh s =
     (let warranty = get_or 0 (k_warranty_balance s i)
      in if warranty \<le> 0 then Inr (s, sh)
         else
         bindE (ck_u32 (sequence e + get_or 0 (map_option snd (k_warranty_config s i)))) (\<lambda>ends_at.
         Inr (emit [VStr ''warranty_started'', VStr i] [VInt warranty, VNat ends_at]
                (s\<lparr>k_warranty_ends_at := (k_warranty_ends_at s)(i \<mapsto> ends_at)\<rparr>),
              append_audit_entry e (this e) ''warranty_started'' ''shipment_completed'' sh)))"

definition settle_on_completion :: "settle_env \<Rightarrow> sid \<Rightarrow> shipment \<Rightarrow> settle \<Rightarrow> (settle \<times> shipment) res" where
  "settle_on_completion e i sh s =
     bindE (release_retainage e i sh (s\<lparr>k_completed_at_ledger := (k_completed_at_ledger s)(i \<mapsto> sequence e)\<rparr>))
       (\<lambda>(s1, sh1).
     bindE (start_warranty e i sh1 s1) (\<lambda>(s2, sh2).
     bindE (maybe_pay_clean_completion_rebate e i sh2 s2) (\<lambda>(s3, sh3).
     Inr (emit [VStr ''chainsettle'', VStr ''shipment_completed''] [VStr i, VInt (sh_released_amount sh3)] s3, sh3))))"

section \<open>Pieces shared by the confirmation paths\<close>

definition pay_logistics :: "settle_env \<Rightarrow> shipment \<Rightarrow> int \<Rightarrow> int \<Rightarrow> settle \<Rightarrow> (settle \<times> int) res" where
  "pay_logistics e sh payment actual s =
     (if sh_logistics_fee_bps sh = 0 then Inr (s, actual)
      else
      bindE (mul_div payment (sh_logistics_fee_bps sh) 10000) (\<lambda>fee.
      if 0 < fee \<and> fee \<le> actual
      then bindE (ck_i128 (actual - fee)) (\<lambda>rest.
           bindE (token_pay e (sh_token sh) (this e) (sh_logistics sh) fee s) (\<lambda>s1. Inr (s1, rest)))
      else Inr (s, actual)))"

definition pay_referral :: "settle_env \<Rightarrow> shipment \<Rightarrow> int \<Rightarrow> settle \<Rightarrow> (settle \<times> int) res" where
  "pay_referral e sh actual s =
     (if \<not> all_milestones_done sh then Inr (s, actual)
      else (case sh_referrer sh of
          None \<Rightarrow> Inr (s, actual)
        | Some referrer \<Rightarrow>
            (case k_fee_config s of
               None \<Rightarrow> Inr (s, actual)
             | Some cfg \<Rightarrow>
                 bindE (mul_div (sh_total_amount sh) (fc_fee_bps cfg) 10000) (\<lambda>fee.
                 bindE (mul_div fee (get_or 500 (k_referral_fee_bps s)) 10000) (\<lambda>raw.
                 let referral = (if actual < raw then actual else raw)
                 in if 0 < referral
                    then bindE (ck_i128 (actual - referral)) (\<lambda>rest.
                         bindE (token_pay e (sh_token sh) (this e) referrer referral s) (\<lambda>s1. Inr (s1, rest)))
                    else Inr (s, actual))))))"

definition pay_early_bonus ::
  "settle_env \<Rightarrow> shipment \<Rightarrow> nat \<Rightarrow> settle \<Rightarrow> (settle \<times> shipment \<times> int) res" where
  "pay_early_bonus e sh deadline s =
     (if 0 < sh_early_bonus_pool sh \<and> 0 < deadline \<and> sequence e \<le> deadline \<and> 0 < sh_early_bonus_remaining sh
      then let bonus = tdiv (sh_early_bonus_pool sh) (int (length (sh_milestones sh)))
           in if 0 < bonus \<and> bonus \<le> sh_early_bonus_remaining sh
              then bindE (token_pay e (sh_token sh) (this e) (sh_supplier sh) bonus s) (\<lambda>s1.
                   Inr (s1, sh\<lparr>sh_early_bonus_remaining := sh_early_bonus_remaining sh - bonus\<rparr>, bonus))
              else Inr (s, sh, 0)
      else Inr (s, sh, 0))"

definition return_early_bonus :: "settle_env \<Rightarrow> shipment \<Rightarrow> settle \<Rightarrow> (settle \<times> shipment) res" where
  "return_early_bonus e sh s =
     (if 0 < sh_early_bonus_remaining sh
      then bindE (vec_get_unwrap (sh_buyers sh) 0) (\<lambda>primary.
           bindE (token_pay e (sh_token sh) (this e) primary (sh_early_bonus_remaining sh) s) (\<lambda>s1.
           Inr (s1, sh\<lparr>sh_early_bonus_remaining := 0\<rparr>)))
      else Inr (s, sh))"

text \<open>The bookkeeping of a completed shipment, given the statistics to be updated.\<close>

definition book_completion ::
  "settle_env \<Rightarrow> sid \<Rightarrow> shipment \<Rightarrow> contract_stats \<Rightarrow> settle \<Rightarrow> settle res" where
  "book_completion e i sh stats s =
     bindE (ck_u64 (cs_completed_shipments stats + 1)) (\<lambda>n.
     Inr (move_shipment_status_index Active Completed i
       (increment_reputation_internal e (sh_supplier sh) 1 0 0
         (s\<lparr>k_contract_stats := Some (stats\<lparr>cs_completed_shipments := n\<rparr>)\<rparr>))))"

text \<open>The escrow counter and the stored shipment at the end of a release.\<close>

definition close_release :: "sid \<Rightarrow> shipment \<Rightarrow> int \<Rightarrow> settle \<Rightarrow> settle res" where
  "close_release i sh net_outflow s =
     bindE (ck_i128 (get_or 0 (k_total_escrowed s (sh_token sh)) - net_outflow)) (\<lambda>x.
     Inr (s\<lparr>k_total_escrowed := (k_total_escrowed s)(sh_token sh \<mapsto> max x 0),
            k_shipment := (k_shipment s)(i \<mapsto> sh)\<rparr>))"

definition set_milestone :: "nat \<Rightarrow> milestone \<Rightarrow> shipment \<Rightarrow> shipment" where
  "set_milestone j m sh = sh\<lparr>sh_milestones := (sh_milestones sh)[j := m]\<rparr>"

section \<open>confirm\_milestone\<close>

text \<open>
  Who confirms: the co-buyer, else a registered buyer, else the delegate. The result says whether
  the caller is a buyer, acts for the buyer, is the co-buyer.
\<close>

definition confirm_caller ::
  "settle_env \<Rightarrow> settle \<Rightarrow> sid \<Rightarrow> shipment \<Rightarrow> addr \<Rightarrow> (bool \<times> bool \<times> bool) res" where
  "confirm_caller e s i sh a =
     (let caller_is_buyer = is_buyer sh a; caller_is_co_buyer = (k_co_buyer s i = Some a)
      in if caller_is_co_buyer
         then bindE (require_auth e a) (\<lambda>_. Inr (caller_is_buyer, caller_is_buyer, True))
         else if \<not> caller_is_buyer
         then bindE (expect (k_confirmation_delegate s i) ''unauthorized'') (\<lambda>d.
              if a \<noteq> dc_delegate d then Inl (Panic ''unauthorized'')
              else bindE (require_auth e a) (\<lambda>_. Inr (caller_is_buyer, True, False)))
         else bindE (require_buyer_auth e sh a) (\<lambda>_. Inr (caller_is_buyer, caller_is_buyer, False)))"

definition late_penalty :: "shipment \<Rightarrow> milestone \<Rightarrow> int \<Rightarrow> int res" where
  "late_penalty sh m gross =
     (if ms_deadline_ledger m = 0 then Inr 0
      else let bps = (if 0 < ms_penalty_bps_per_ledger m then ms_penalty_bps_per_ledger m
                      else sh_late_penalty_bps_per_ledger sh);
               overdue = get_or 0 (ms_proof_submitted_ledger m) - ms_deadline_ledger m
        in if bps = 0 \<or> overdue = 0 then Inr 0
           else bindE (mul_div gross (bps * overdue) 10000) (\<lambda>raw. Inr (min raw (tdiv gross 2))))"

definition confirm_held ::
  "settle_env \<Rightarrow> addr \<Rightarrow> sid \<Rightarrow> nat \<Rightarrow> shipment \<Rightarrow> milestone \<Rightarrow> int \<Rightarrow> settle \<Rightarrow> settle res" where
  "confirm_held e buyer i j sh m penalty s =
     bindE (ck_u32 (sequence e + sh_holdback_ledgers sh)) (\<lambda>rel.
     let m1 = m\<lparr>ms_release_after_ledger := rel, ms_status := ConfirmedHeld\<rparr>;
         sh1 = set_milestone j m1 sh;
         s1 = record_milestone_timeliness (sh_supplier sh1) m1 s
     in bindE (pay_early_bonus e sh1 (ms_deadline_ledger m1) s1) (\<lambda>(s2, sh2, bonus).
        let sh3 = append_audit_entry e buyer ''milestone_confirmed'' ''confirm_milestone'' sh2
        in Inr (emit [VStr ''payment_held'', VStr i] [VNat j, VNat rel, VInt penalty, VInt bonus]
             (s2\<lparr>k_shipment := (k_shipment s2)(i \<mapsto> sh3)\<rparr>))))"

text \<open>The long-hold rebate moves a share of the reported fee into the supplier's net payment.\<close>

definition long_hold_rebate :: "settle_env \<Rightarrow> settle \<Rightarrow> shipment \<Rightarrow> int \<Rightarrow> int \<Rightarrow> (int \<times> int) res" where
  "long_hold_rebate e s sh net fee =
     (let (threshold, bps) = get_or (0, 0) (k_long_hold_rebate s)
      in if 0 < bps \<and> 0 < threshold \<and> threshold \<le> sequence e - sh_created_at sh \<and> 0 < fee
         then bindE (mul_div fee bps 10000) (\<lambda>rebate.
              if 0 < rebate
              then bindE (ck_i128 (net + rebate)) (\<lambda>net1.
                   bindE (ck_i128 (fee - rebate)) (\<lambda>fee1. Inr (net1, fee1)))
              else Inr (net, fee))
         else Inr (net, fee))"

text \<open>Advance, platform fee, rebate and limiters.\<close>

definition confirm_deduct ::
  "settle_env \<Rightarrow> sid \<Rightarrow> nat \<Rightarrow> shipment \<Rightarrow> int \<Rightarrow> settle \<Rightarrow> (settle \<times> shipment \<times> int \<times> int \<times> int \<times> nat) res" where
  "confirm_deduct e i j sh payment s =
     bindE (consume_advance_for_milestone sh i j s) (\<lambda>(s1, sh1, advance).
     bindE (vec_get_unwrap (sh_buyers sh1) 0) (\<lambda>primary.
     bindE (deduct_fee_for_shipment_at_completion e payment (sh_token sh1) i primary
              (is_final_milestone sh1 j) s1) (\<lambda>(s2, net0, fee0, bps).
     bindE (long_hold_rebate e s2 sh1 net0 fee0) (\<lambda>(net, fee).
     bindE (check_circuit_breaker (sequence e) payment s2) (\<lambda>s3.
     bindE (check_address_outflow (sh_supplier sh1) (sequence e) payment s3) (\<lambda>s4.
     Inr (s4, sh1, advance, net, fee, bps)))))))"

text \<open>The state change of the milestone and the counters that go with it.\<close>

definition confirm_book ::
  "settle_env \<Rightarrow> addr \<Rightarrow> bool \<Rightarrow> sid \<Rightarrow> nat \<Rightarrow> shipment \<Rightarrow> milestone \<Rightarrow> int \<Rightarrow> settle \<Rightarrow> (settle \<times> shipment) res" where
  "confirm_book e buyer caller_is_buyer i j sh m payment s =
     (let proof_ledger = get_or 0 (ms_proof_submitted_ledger m);
          m1 = m\<lparr>ms_status := Confirmed\<rparr>;
          sh1 = append_audit_entry e buyer ''milestone_confirmed'' ''confirm_milestone'' sh;
          s1 = (if caller_is_buyer \<and> 0 < proof_ledger
                then update_buyer_reliability_on_confirmation e buyer proof_ledger s else s)
      in bindE (ck_i128 (sh_released_amount sh1 + payment)) (\<lambda>released.
         let sh2 = (set_milestone j m1 sh1)\<lparr>sh_released_amount := released,
                     sh_last_confirmed_milestone_index := Some j\<rparr>;
             s2 = record_milestone_timeliness (sh_supplier sh2) m1 s1
         in bindE (release_milestone_collateral_share e sh2 i j s2) (\<lambda>s3.
            bindE (vec_get_unwrap (sh_buyers sh2) 0) (\<lambda>primary.
            bindE (ck_i128 (get_or 0 (k_lifetime_volume s3 primary) + payment)) (\<lambda>vol.
            Inr (s3\<lparr>k_lifetime_volume := (k_lifetime_volume s3)(primary \<mapsto> vol)\<rparr>, sh2))))))"

text \<open>The transfers of an immediate confirmation.\<close>

definition confirm_pay ::
  "settle_env \<Rightarrow> sid \<Rightarrow> nat \<Rightarrow> shipment \<Rightarrow> nat \<Rightarrow> int \<Rightarrow> int \<Rightarrow> int \<Rightarrow> int \<Rightarrow> settle \<Rightarrow> (settle \<times> shipment) res" where
  "confirm_pay e i j sh deadline payment net advance penalty s =
     bindE (ck_i128 (net - advance)) (\<lambda>actual0.
     bindE (pay_logistics e sh payment actual0 s) (\<lambda>(s1, actual1).
     bindE (pay_referral e sh actual1 s1) (\<lambda>(s2, actual).
     bindE (pay_early_bonus e sh deadline s2) (\<lambda>(s3, sh1, _).
     bindE (whenE (0 < actual) (pay_milestone_to_payees e i j actual (sh_supplier sh1) (sh_token sh1)) s3) (\<lambda>s4.
     bindE (vec_get_unwrap (sh_buyers sh1) 0) (\<lambda>primary.
     bindE (record_release_counters (sh_supplier sh1) primary (sh_token sh1) payment actual s4) (\<lambda>s5.
     bindE (whenE (0 < penalty) (token_pay e (sh_token sh1) (this e) primary penalty) s5) (\<lambda>s6.
     Inr (s6, sh1)))))))))"

definition confirm_complete ::
  "settle_env \<Rightarrow> addr \<Rightarrow> sid \<Rightarrow> shipment \<Rightarrow> contract_stats \<Rightarrow> settle \<Rightarrow> (settle \<times> shipment) res" where
  "confirm_complete e buyer i sh stats s =
     (if \<not> all_milestones_done sh then Inr (s, sh)
      else
      let sh1 = append_audit_entry e buyer ''shipment_completed'' ''confirm_milestone'' (sh\<lparr>sh_status := Completed\<rparr>)
      in bindE (return_early_bonus e sh1 s) (\<lambda>(s1, sh2).
         bindE (book_completion e i sh2 stats s1) (\<lambda>s2.
         let collateral = get_or 0 (k_supplier_collateral s2 i)
         in bindE (whenE (0 < collateral)
                     (token_pay e (sh_token sh2) (this e) (sh_supplier sh2) collateral) s2) (\<lambda>s3.
            bindE (if get_or False (k_nft_hook_enabled s3)
                   then bindE (vec_get_unwrap (sh_buyers sh2) 0) (\<lambda>primary.
                        Inr (emit [VStr ''nft_mint_hook'', VStr i]
                          [VAddr primary, VAddr (sh_supplier sh2), VInt (sh_total_amount sh2),
                           VNat (sequence e), VOpt VNat (sh_metadata_hash sh2)] s3))
                   else Inr s3) (\<lambda>s4.
            settle_on_completion e i sh2 s4)))))"

definition confirm_now ::
  "settle_env \<Rightarrow> addr \<Rightarrow> bool \<Rightarrow> sid \<Rightarrow> nat \<Rightarrow> shipment \<Rightarrow> milestone \<Rightarrow> contract_stats \<Rightarrow> int \<Rightarrow> int \<Rightarrow> settle \<Rightarrow> settle res" where
  "confirm_now e buyer caller_is_buyer i j sh m stats payment penalty s =
     bindE (confirm_deduct e i j sh payment s) (\<lambda>(s1, sh1, advance, net, fee, bps).
     bindE (confirm_book e buyer caller_is_buyer i j sh1 m payment s1) (\<lambda>(s2, sh2).
     bindE (confirm_pay e i j sh2 (ms_deadline_ledger m) payment net advance penalty s2) (\<lambda>(s3, sh3).
     bindE (confirm_complete e buyer i sh3 stats s3) (\<lambda>(s4, sh4).
     bindE (ck_i128 (payment - advance)) (\<lambda>net_outflow.
     bindE (close_release i sh4 net_outflow s4) (\<lambda>s5.
     bindE (ck_i128 (sh_total_amount sh4 - sh_released_amount sh4)) (\<lambda>remaining.
     Inr (emit [VStr ''chainsettle'', VStr ''milestone_confirmed''] [VStr i, VNat j, VInt payment]
         (emit [VStr ''milestone_confirmed'', VStr i]
            [VNat j, VInt payment, VInt fee, VInt penalty, VAddr (sh_supplier sh4), VNat (sequence e),
             VInt (sh_released_amount sh4), VInt remaining, VNat bps] s5)))))))))"

definition confirm_settle ::
  "settle_env \<Rightarrow> addr \<Rightarrow> bool \<Rightarrow> sid \<Rightarrow> nat \<Rightarrow> shipment \<Rightarrow> milestone \<Rightarrow> contract_stats \<Rightarrow> settle \<Rightarrow> settle res" where
  "confirm_settle e buyer caller_is_buyer i j sh m stats s =
     bindE (milestone_gross_payment s sh j) (\<lambda>gross.
     bindE (late_penalty sh m gross) (\<lambda>penalty.
     bindE (ck_i128 (gross - penalty)) (\<lambda>payment.
     if 0 < sh_holdback_ledgers sh then confirm_held e buyer i j sh m penalty s
     else confirm_now e buyer caller_is_buyer i j sh m stats payment penalty s)))"

definition confirm_milestone :: "settle_env \<Rightarrow> addr \<Rightarrow> sid \<Rightarrow> nat \<Rightarrow> settle \<Rightarrow> settle res" where
  "confirm_milestone e buyer i j s =
     bindE (assert_operation_not_paused s ''confirm'') (\<lambda>_.
     bindE (get_shipment_internal s i) (\<lambda>sh.
     let stats = get_or contract_stats_zero (k_contract_stats s)
     in bindE (assert_token_not_depegged e s (sh_token sh)) (\<lambda>_.
     bindE (assert_active sh) (\<lambda>_.
     bindE (assert_shipment_not_on_hold s i) (\<lambda>_.
     bindE (confirm_caller e s i sh buyer) (\<lambda>(caller_is_buyer, acts_as_buyer, is_co_buyer).
     if length (sh_milestones sh) \<le> j then Inl (Panic ''invalid milestone index'')
     else
     let m = sh_milestones sh ! j
     in if ms_status m \<noteq> ProofSubmitted then Inl (Panic ''milestone proof not yet submitted'')
     else
     bindE (assert_inspection_complete s i j) (\<lambda>_.
     bindE (assert_oracle_attestation_met s i j) (\<lambda>_.
     bindE (assert_shipment_not_paused s i) (\<lambda>_.
     let (s1, go) = (if joint_confirmation_required s sh
                     then record_joint_confirmation i j buyer acts_as_buyer is_co_buyer s else (s, True))
     in if \<not> go then Inr s1
        else bindE (confirmation_timing e s1 i sh m) (\<lambda>_.
             confirm_settle e buyer caller_is_buyer i j sh m stats s1))))))))))"

section \<open>release\_held\_payment\<close>

definition held_deduct ::
  "settle_env \<Rightarrow> sid \<Rightarrow> nat \<Rightarrow> shipment \<Rightarrow> int \<Rightarrow> settle \<Rightarrow> (settle \<times> shipment \<times> int \<times> int \<times> int) res" where
  "held_deduct e i j sh payment s =
     bindE (consume_advance_for_milestone sh i j s) (\<lambda>(s1, sh1, advance).
     bindE (deduct_fee e payment (sh_token sh1) s1) (\<lambda>(s2, net, fee).
     bindE (check_circuit_breaker (sequence e) payment s2) (\<lambda>s3.
     bindE (check_address_outflow (sh_supplier sh1) (sequence e) payment s3) (\<lambda>s4.
     Inr (s4, sh1, advance, net, fee)))))"

definition held_pay ::
  "settle_env \<Rightarrow> sid \<Rightarrow> nat \<Rightarrow> shipment \<Rightarrow> int \<Rightarrow> int \<Rightarrow> int \<Rightarrow> settle \<Rightarrow> settle res" where
  "held_pay e i j sh payment net advance s =
     bindE (ck_i128 (net - advance)) (\<lambda>actual0.
     bindE (pay_logistics e sh payment actual0 s) (\<lambda>(s1, actual1).
     bindE (pay_referral e sh actual1 s1) (\<lambda>(s2, actual).
     bindE (whenE (0 < actual) (pay_milestone_to_payees e i j actual (sh_supplier sh) (sh_token sh)) s2) (\<lambda>s3.
     bindE (vec_get_unwrap (sh_buyers sh) 0) (\<lambda>primary.
     record_release_counters (sh_supplier sh) primary (sh_token sh) payment actual s3)))))"

definition settle_grade ::
  "settle_env \<Rightarrow> sid \<Rightarrow> nat \<Rightarrow> shipment \<Rightarrow> (nat \<times> nat) option \<Rightarrow> int \<Rightarrow> int \<Rightarrow> settle \<Rightarrow> (settle \<times> shipment) res" where
  "settle_grade e i j sh pending payment refund s =
     (case pending of
        None \<Rightarrow> Inr (s, sh)
      | Some (grade, bps) \<Rightarrow>
          bindE (vec_get_unwrap (sh_buyers sh) 0) (\<lambda>primary.
          bindE (whenE (0 < refund) (token_pay e (sh_token sh) (this e) primary refund)
                   (s\<lparr>k_pending_grade := (k_pending_grade s)((i, j) := None)\<rparr>)) (\<lambda>s1.
          Inr (emit [VStr ''grade_settled'', VStr i] [VNat j, VNat grade, VNat bps, VInt payment, VInt refund] s1,
               append_audit_entry e (this e) ''grade_settled'' ''release_held_payment'' sh))))"

definition held_complete :: "settle_env \<Rightarrow> sid \<Rightarrow> shipment \<Rightarrow> settle \<Rightarrow> (settle \<times> shipment) res" where
  "held_complete e i sh s =
     (if \<not> all_milestones_done sh then Inr (s, sh)
      else
      bindE (return_early_bonus e sh s) (\<lambda>(s1, sh1).
      let sh2 = sh1\<lparr>sh_status := Completed\<rparr>
      in bindE (book_completion e i sh2 (get_or contract_stats_zero (k_contract_stats s1)) s1) (\<lambda>s2.
         settle_on_completion e i sh2 s2)))"

definition release_held_payment :: "settle_env \<Rightarrow> sid \<Rightarrow> nat \<Rightarrow> settle \<Rightarrow> settle res" where
  "release_held_payment e i j s =
     bindE (assert_not_paused s) (\<lambda>_.
     bindE (get_shipment_internal s i) (\<lambda>sh.
     bindE (assert_active sh) (\<lambda>_.
     bindE (vec_get_unwrap (sh_milestones sh) j) (\<lambda>m.
     if ms_status m \<noteq> ConfirmedHeld then Inl (Panic ''milestone is not in ConfirmedHeld status'')
     else if sequence e < ms_release_after_ledger m then Inl (Panic ''holdback period not yet expired'')
     else
     bindE (milestone_gross_payment s sh j) (\<lambda>gross.
     let pending = k_pending_grade s (i, j)
     in bindE (case pending of Some (_, bps) \<Rightarrow> mul_div gross bps 10000 | None \<Rightarrow> Inr gross) (\<lambda>payment.
     bindE (ck_i128 (gross - payment)) (\<lambda>refund.
     bindE (held_deduct e i j sh payment s) (\<lambda>(s1, sh1, advance, net, fee).
     bindE (ck_i128 (sh_released_amount sh1 + gross)) (\<lambda>released.
     let sh2 = (set_milestone j (m\<lparr>ms_status := Confirmed, ms_release_after_ledger := 0\<rparr>) sh1)
                 \<lparr>sh_released_amount := released, sh_last_confirmed_milestone_index := Some j\<rparr>
     in bindE (release_milestone_collateral_share e sh2 i j s1) (\<lambda>s2.
     bindE (held_pay e i j sh2 payment net advance s2) (\<lambda>s3.
     bindE (settle_grade e i j sh2 pending payment refund s3) (\<lambda>(s4, sh3).
     bindE (held_complete e i sh3 s4) (\<lambda>(s5, sh4).
     bindE (ck_i128 (gross - advance)) (\<lambda>net_outflow.
     bindE (close_release i sh4 net_outflow s5) (\<lambda>s6.
     Inr (emit [VStr ''chainsettle'', VStr ''milestone_confirmed''] [VStr i, VNat j, VInt payment]
            (emit [VStr ''held_payment_released'', VStr i] [VNat j, VInt payment, VInt fee] s6)))))))))))))))))"

end
