(* ===== verification/SettleFrames.thy ===== *)
theory SettleFrames
  imports SettleConfirm
begin

text \<open>
  What the helpers of a confirmation leave alone. \<open>quiet\<close> says that neither a stored
  shipment nor money moved; the payment helpers change money only. The lemmas are in the
  collection \<open>frames\<close> and carry the proofs on whole confirmations.
\<close>

named_theorems frames \<open>what a helper leaves unchanged\<close>

section \<open>Quiet helpers\<close>

definition same_terms :: "settle \<Rightarrow> settle \<Rightarrow> bool" where
  "same_terms s t \<longleftrightarrow> k_milestone_payees t = k_milestone_payees s \<and> k_milestone_supplier t = k_milestone_supplier s \<and>
     k_retainage_bps t = k_retainage_bps s \<and> k_warranty_config t = k_warranty_config s \<and>
     k_long_hold_rebate t = k_long_hold_rebate s \<and> k_incremental_collateral t = k_incremental_collateral s"

lemma same_termsD:
  assumes "same_terms s t"
  shows "k_milestone_payees t = k_milestone_payees s" "k_milestone_supplier t = k_milestone_supplier s"
    "k_retainage_bps t = k_retainage_bps s" "k_warranty_config t = k_warranty_config s"
    "k_long_hold_rebate t = k_long_hold_rebate s" "k_incremental_collateral t = k_incremental_collateral s"
  using assms by (simp_all add: same_terms_def)

lemma emit_terms [simp]:
  "k_milestone_payees (emit a b s) = k_milestone_payees s" "k_milestone_supplier (emit a b s) = k_milestone_supplier s"
  "k_retainage_bps (emit a b s) = k_retainage_bps s" "k_warranty_config (emit a b s) = k_warranty_config s"
  "k_long_hold_rebate (emit a b s) = k_long_hold_rebate s"
  "k_incremental_collateral (emit a b s) = k_incremental_collateral s" "k_cancel_until (emit a b s) = k_cancel_until s"
  by (simp_all add: emit_def)

lemma same_terms_refl [simp]: "same_terms s s"
  by (simp add: same_terms_def)

definition quiet :: "settle \<Rightarrow> settle \<Rightarrow> bool" where
  "quiet s t \<longleftrightarrow> k_shipment t = k_shipment s \<and> calls t = calls s \<and>
     k_pending_payout t = k_pending_payout s \<and> k_retainage_balance t = k_retainage_balance s \<and>
     k_warranty_balance t = k_warranty_balance s \<and> k_total_escrowed t = k_total_escrowed s \<and>
     k_vault_balance t = k_vault_balance s \<and> k_cancel_until t = k_cancel_until s \<and> same_terms s t"

lemma quietD:
  assumes "quiet s t"
  shows "k_shipment t = k_shipment s" "calls t = calls s" "k_pending_payout t = k_pending_payout s"
    "k_retainage_balance t = k_retainage_balance s" "k_warranty_balance t = k_warranty_balance s"
    "k_total_escrowed t = k_total_escrowed s" "same_terms s t" "k_vault_balance t = k_vault_balance s"
    "k_cancel_until t = k_cancel_until s"
  using assms by (simp_all add: quiet_def)

lemma quiet_refl [simp]: "quiet s s"
  by (simp add: quiet_def)

lemma quiet_trans: "quiet s t \<Longrightarrow> quiet t u \<Longrightarrow> quiet s u"
  by (simp add: quiet_def same_terms_def)

lemma quiet_emit [simp]: "quiet s (emit a b t) \<longleftrightarrow> quiet s t"
  by (simp add: quiet_def same_terms_def)

lemma quiet_track_revenue [frames]: "track_treasury_revenue tok n s = Inr t \<Longrightarrow> quiet s t"
  by (auto simp: track_treasury_revenue_def bindE_Inr ck_i128_Inr ck_u32_Inr whenE_Inr quiet_def same_terms_def)

lemma quiet_track_fees [frames]: "track_shipment_fees_paid i n s = Inr t \<Longrightarrow> quiet s t"
  by (auto simp: track_shipment_fees_paid_def bindE_Inr ck_i128_Inr ck_u32_Inr whenE_Inr quiet_def same_terms_def split: if_splits)

lemma quiet_breaker [frames]: "check_circuit_breaker now p s = Inr t \<Longrightarrow> quiet s t"
  by (auto simp: check_circuit_breaker_def Let_def bindE_Inr ck_i128_Inr ck_u32_Inr whenE_Inr quiet_def same_terms_def split: if_splits)

lemma quiet_outflow [frames]: "check_address_outflow a now p s = Inr t \<Longrightarrow> quiet s t"
  by (auto simp: check_address_outflow_def Let_def bindE_Inr ck_i128_Inr ck_u32_Inr whenE_Inr quiet_def same_terms_def split: if_splits)

lemma quiet_reliability [frames]: "quiet s (update_buyer_reliability_on_confirmation e b n s)"
  by (simp add: update_buyer_reliability_on_confirmation_def Let_def quiet_def same_terms_def)

lemma quiet_timeliness [frames]: "quiet s (record_milestone_timeliness a m s)"
  by (simp add: record_milestone_timeliness_def Let_def quiet_def same_terms_def split: option.split)

lemma quiet_counters [frames]: "record_release_counters a b tok x y s = Inr t \<Longrightarrow> quiet s t"
  by (auto simp: record_release_counters_def Let_def bindE_Inr ck_i128_Inr ck_u32_Inr whenE_Inr quiet_def same_terms_def split: if_splits)

lemma quiet_tier [frames]: "quiet s (fst (evaluate_supplier_tier_change a s))"
  by (simp add: evaluate_supplier_tier_change_def Let_def quiet_def same_terms_def)

lemma quiet_reputation [frames]: "quiet s (increment_reputation_internal e a x y z s)"
proof -
  have "quiet u (check_auto_blacklist_internal e a sc u)" for sc u
    by (simp add: check_auto_blacklist_internal_def Let_def quiet_def same_terms_def)
  moreover have "quiet s (set_reputation_internal a sc s)" for sc
    using quiet_tier [of "s\<lparr>k_supplier_rep := (k_supplier_rep s)(a \<mapsto> sc)\<rparr>" a]
    by (simp add: set_reputation_internal_def quiet_def same_terms_def)
  ultimately show ?thesis
    by (simp add: increment_reputation_internal_def Let_def) (blast intro: quiet_trans)
qed

lemma quiet_status_index [frames]: "quiet s (move_shipment_status_index a b i s)"
  by (simp add: move_shipment_status_index_def add_to_status_index_def remove_from_status_index_def quiet_def same_terms_def)

lemma quiet_book_completion [frames]:
  assumes "book_completion e i sh stats s = Inr t"
  shows "quiet s t"
proof -
  obtain n where t: "t = move_shipment_status_index Active Completed i
      (increment_reputation_internal e (sh_supplier sh) 1 0 0
        (s\<lparr>k_contract_stats := Some (stats\<lparr>cs_completed_shipments := n\<rparr>)\<rparr>))"
    using assms by (auto simp: book_completion_def bindE_Inr)
  have "quiet s (s\<lparr>k_contract_stats := Some (stats\<lparr>cs_completed_shipments := n\<rparr>)\<rparr>)"
    by (simp add: quiet_def same_terms_def)
  then show ?thesis unfolding t by (blast intro: quiet_trans quiet_reputation quiet_status_index)
qed

section \<open>Payments leave the stored shipments alone\<close>

lemma ship_token_pay [frames]: "token_pay e tok a b n s = Inr t \<Longrightarrow> k_shipment t = k_shipment s"
  by (auto simp: token_pay_Inr)

lemma ship_pay_when [frames]: "whenE c (token_pay e tok a b n) s = Inr t \<Longrightarrow> k_shipment t = k_shipment s"
  by (auto simp: whenE_Inr token_pay_Inr split: if_splits)

lemma quiet_ship [frames]: "quiet s t \<Longrightarrow> k_shipment t = k_shipment s"
  by (rule quietD)

lemma quiet_tracks: "track_treasury_revenue tok n s = Inr t \<Longrightarrow> track_shipment_fees_paid i n t = Inr u \<Longrightarrow> quiet s u"
  by (blast intro: quiet_trans quiet_track_revenue quiet_track_fees)

lemma deduct_completion_cases:
  assumes "deduct_fee_for_shipment_at_completion e gross tok i b fin s = Inr (t, net, fee, bps)"
  shows "net = gross - fee"
    and "t = s \<and> fee = 0 \<or> 0 < fee \<and> (\<exists>u treasury. token_pay e tok (this e) treasury fee s = Inr u \<and> quiet u t)"
proof -
  consider "t = s" "net = gross" "fee = 0"
    | treasury u v where "0 < fee" "token_pay e tok (this e) treasury fee s = Inr u"
        "track_treasury_revenue tok fee u = Inr v" "track_shipment_fees_paid i fee v = Inr t" "net = gross - fee"
    using assms
    by (auto simp: deduct_fee_for_shipment_at_completion_def bindE_Inr ck_i128_Inr Let_def
        split: if_splits option.splits)
  note c = this
  show "net = gross - fee" by (cases rule: c) simp_all
  show "t = s \<and> fee = 0 \<or> 0 < fee \<and> (\<exists>u treasury. token_pay e tok (this e) treasury fee s = Inr u \<and> quiet u t)"
    by (cases rule: c) (simp, use quiet_tracks in blast)
qed

lemma deduct_cases:
  assumes "deduct_fee e gross tok s = Inr (t, net, fee)"
  shows "(t = s \<and> fee = 0 \<or> (\<exists>treasury. 0 < fee \<and> distribute_fee e tok treasury fee s = Inr t)) \<and> net = gross - fee"
  using assms
  by (auto simp: deduct_fee_def bindE_Inr ck_i128_Inr split: if_splits option.splits)

lemma ship_shares [frames]: "pay_shares e tok fee k rs d s = Inr (t, d') \<Longrightarrow> k_shipment t = k_shipment s"
proof (induction rs arbitrary: k d s)
  case (Cons r rs)
  from Cons.prems show ?case
    by (auto simp: bindE_Inr ship_token_pay split: if_splits dest!: Cons.IH)
qed simp

lemma ship_distribute [frames]:
  assumes "distribute_fee e tok a fee s = Inr t"
  shows "k_shipment t = k_shipment s"
proof -
  obtain u where "k_shipment u = k_shipment s" "track_treasury_revenue tok fee u = Inr t"
    using assms
    by (auto simp: distribute_fee_def bindE_Inr split: option.splits if_splits)
       (metis ship_token_pay ship_shares)+
  then show ?thesis using quiet_track_revenue quietD(1) by metis
qed

lemma ship_deduct_completion [frames]:
  "deduct_fee_for_shipment_at_completion e gross tok i b fin s = Inr (t, net, fee, bps) \<Longrightarrow>
   k_shipment t = k_shipment s"
  using ship_token_pay quiet_ship by (auto dest!: deduct_completion_cases(2))

lemma ship_deduct [frames]: "deduct_fee e gross tok s = Inr (t, net, fee) \<Longrightarrow> k_shipment t = k_shipment s"
  by (drule deduct_cases) (metis ship_distribute)

lemma ship_collateral [frames]:
  "release_milestone_collateral_share e sh i j s = Inr t \<Longrightarrow> k_shipment t = k_shipment s"
  by (auto simp: release_milestone_collateral_share_def Let_def bindE_Inr token_pay_Inr split: if_splits)

lemma ship_logistics [frames]: "pay_logistics e sh p a s = Inr (t, r) \<Longrightarrow> k_shipment t = k_shipment s"
  by (auto simp: pay_logistics_def bindE_Inr token_pay_Inr split: if_splits)

lemma ship_referral [frames]: "pay_referral e sh a s = Inr (t, r) \<Longrightarrow> k_shipment t = k_shipment s"
  by (auto simp: pay_referral_def bindE_Inr token_pay_Inr Let_def split: if_splits option.splits)

lemma ship_early_bonus [frames]: "pay_early_bonus e sh d s = Inr (t, sh', b) \<Longrightarrow> k_shipment t = k_shipment s"
  by (auto simp: pay_early_bonus_def bindE_Inr token_pay_Inr Let_def split: if_splits)

lemma ship_payees [frames]: "pay_payees e tok net l k ps d s = Inr t \<Longrightarrow> k_shipment t = k_shipment s"
proof (induction ps arbitrary: k d s)
  case (Cons p ps)
  from Cons.prems show ?case
    by (auto simp: bindE_Inr ship_token_pay split: if_splits dest!: Cons.IH)
qed simp

lemma ship_supplier [frames]: "pay_supplier e tok a net s = Inr t \<Longrightarrow> k_shipment t = k_shipment s"
  by (auto simp: pay_supplier_def bindE_Inr token_pay_Inr split: if_splits)

lemma withhold_cases:
  assumes "withhold_settlement_holdbacks i j net tok s = Inr (t, rest)"
  obtains retained warranty where
    "calls t = calls s" "k_shipment t = k_shipment s" "k_pending_payout t = k_pending_payout s"
    "0 \<le> retained" "0 \<le> warranty" "rest = net - retained - warranty"
    "get_or 0 (k_retainage_balance t i) = get_or 0 (k_retainage_balance s i) + retained"
    "get_or 0 (k_warranty_balance t i) = get_or 0 (k_warranty_balance s i) + warranty"
    "k_milestone_payees t = k_milestone_payees s"
    "\<And>k. get_or 0 (k_total_escrowed t k) = get_or 0 (k_total_escrowed s k) + (if k = tok then retained + warranty else 0)"
| (overdrawn) "net < 0"
proof (cases "net < 0")
  case False
  show ?thesis
  proof (cases "get_or 0 (k_retainage_bps s i) = 0 \<and> get_or 0 (map_option fst (k_warranty_config s i)) = 0")
    case True
    then show ?thesis using assms that(1) [of 0 0] by (simp add: withhold_settlement_holdbacks_def Let_def)
  next
    case holdback: False
    then obtain r w s1 s2 s4 where
      r: "mul_div net (get_or 0 (k_retainage_bps s i)) 10000 = Inr r"
      and w: "mul_div net (get_or 0 (map_option fst (k_warranty_config s i))) 10000 = Inr w"
      and s1: "whenE (0 < r) (add_retainage i r) s = Inr s1"
      and s2: "whenE (0 < w) (add_warranty i w) s1 = Inr s2"
      and s4: "(if 0 < r + w then bindE (increase_total_escrowed tok (r + w) s2) (\<lambda>s3.
                  Inr (emit [VStr ''holdback_withheld'', VStr i] [VNat j, VInt r, VInt w] s3)) else Inr s2) = Inr s4"
      and t: "t = s4" "rest = net - r - w"
      using assms
      by (auto simp: withhold_settlement_holdbacks_def Let_def bindE_Inr ck_i128_Inr)
    have nn: "0 \<le> r" "0 \<le> w"
      using r w False by (auto simp: mul_div_Inr intro: tdiv_ge0)
    have a: "calls s1 = calls s" "k_shipment s1 = k_shipment s" "k_pending_payout s1 = k_pending_payout s"
      "get_or 0 (k_retainage_balance s1 i) = get_or 0 (k_retainage_balance s i) + r"
      "k_warranty_balance s1 = k_warranty_balance s" "k_milestone_payees s1 = k_milestone_payees s"
      "k_total_escrowed s1 = k_total_escrowed s"
      using s1 nn by (auto simp: whenE_Inr add_retainage_def bindE_Inr ck_i128_Inr split: if_splits)
    have b: "calls s2 = calls s1" "k_shipment s2 = k_shipment s1" "k_pending_payout s2 = k_pending_payout s1"
      "get_or 0 (k_warranty_balance s2 i) = get_or 0 (k_warranty_balance s1 i) + w"
      "k_retainage_balance s2 = k_retainage_balance s1" "k_milestone_payees s2 = k_milestone_payees s1"
      "k_total_escrowed s2 = k_total_escrowed s1"
      using s2 nn by (auto simp: whenE_Inr add_warranty_def bindE_Inr ck_i128_Inr split: if_splits)
    have c: "k_milestone_payees s4 = k_milestone_payees s2" "calls s4 = calls s2" "k_shipment s4 = k_shipment s2"
      "k_pending_payout s4 = k_pending_payout s2" "k_retainage_balance s4 = k_retainage_balance s2"
      "k_warranty_balance s4 = k_warranty_balance s2"
      "\<And>k. get_or 0 (k_total_escrowed s4 k) = get_or 0 (k_total_escrowed s2 k) + (if k = tok then r + w else 0)"
      using s4 nn by (auto simp: bindE_Inr increase_total_escrowed_def ck_i128_Inr emit_def split: if_splits)
    show ?thesis
      by (rule that(1) [of r w]) (use a b c nn t in simp_all)
  qed
qed (rule that(2))

text \<open>Where the rest of a milestone payment goes after the holdbacks.\<close>

lemma payout_cases:
  assumes "pay_milestone_to_payees e i j net a tok s = Inr t" "0 < net"
  obtains s1 rest where "withhold_settlement_holdbacks i j net tok s = Inr (s1, rest)" "rest \<le> 0" "t = s1"
  | (financier) s1 rest financier s2 where "withhold_settlement_holdbacks i j net tok s = Inr (s1, rest)" "0 < rest"
      "token_pay e tok (this e) financier rest s1 = Inr s2" "quiet s2 t"
  | (supplier) s1 rest where "withhold_settlement_holdbacks i j net tok s = Inr (s1, rest)" "0 < rest"
      "get_or [] (k_milestone_payees s1 (i, j)) = []"
      "pay_supplier e tok (get_or a (k_milestone_supplier s (i, j))) rest s1 = Inr t"
  | (payees) s1 rest ps where "withhold_settlement_holdbacks i j net tok s = Inr (s1, rest)" "0 < rest"
      "ps = get_or [] (k_milestone_payees s1 (i, j))" "ps \<noteq> []"
      "pay_payees e tok rest (length ps - 1) 0 ps 0 s1 = Inr t"
proof -
  obtain s1 rest where w: "withhold_settlement_holdbacks i j net tok s = Inr (s1, rest)"
    using assms by (auto simp: pay_milestone_to_payees_def Let_def bindE_Inr)
  note call = assms(1) [unfolded pay_milestone_to_payees_def Let_def, simplified w bindE_simps prod.case]
  show thesis
  proof (cases "rest \<le> 0")
    case True
    then show thesis using that(1) [OF w] call assms(2) by simp
  next
    case False
    show thesis
    proof (cases "payout_assignee s1 i")
      case (Some f)
      then obtain s2 where "token_pay e tok (this e) f rest s1 = Inr s2"
        "t = emit [VStr ''assigned_payout'', VStr i] [VNat j, VAddr f, VInt rest] s2"
        using call assms(2) False by (auto simp: bindE_Inr)
      then show thesis using that(2) [OF w] False by simp
    next
      case None
      then show thesis using call assms(2) False that(3,4) [OF w] by (simp split: if_splits)
    qed
  qed
qed

lemma ship_payout [frames]:
  assumes "pay_milestone_to_payees e i j net a tok s = Inr t"
  shows "k_shipment t = k_shipment s"
proof (cases "net \<le> 0")
  case False
  have w: "k_shipment s1 = k_shipment s" if "withhold_settlement_holdbacks i j net tok s = Inr (s1, rest)" for s1 rest
    by (rule withhold_cases [OF that]) (use False in simp_all)
  from assms have "0 < net" using False by simp
  with assms show ?thesis
    by (rule payout_cases) (metis w ship_token_pay ship_supplier ship_payees quietD(1))+
qed (use assms in \<open>simp add: pay_milestone_to_payees_def\<close>)

section \<open>Completion\<close>

text \<open>
  The shipment record that the completion helpers hand on differs from the one they got in the
  audit log and in the remaining early bonus only.
\<close>

definition same_deal :: "shipment \<Rightarrow> shipment \<Rightarrow> bool" where
  "same_deal a b \<longleftrightarrow> sh_milestones b = sh_milestones a \<and> sh_released_amount b = sh_released_amount a \<and>
     sh_status b = sh_status a \<and> sh_total_amount b = sh_total_amount a \<and> sh_token b = sh_token a \<and>
     sh_supplier b = sh_supplier a \<and> sh_buyers b = sh_buyers a \<and> sh_id b = sh_id a \<and>
     sh_open_dispute_count b = sh_open_dispute_count a"

lemma same_dealD:
  assumes "same_deal a b"
  shows "sh_milestones b = sh_milestones a" "sh_released_amount b = sh_released_amount a"
    "sh_status b = sh_status a" "sh_total_amount b = sh_total_amount a" "sh_token b = sh_token a"
    "sh_supplier b = sh_supplier a" "sh_buyers b = sh_buyers a" "sh_id b = sh_id a"
    "sh_open_dispute_count b = sh_open_dispute_count a"
  using assms by (simp_all add: same_deal_def)

lemma same_deal_refl [simp]: "same_deal a a"
  by (simp add: same_deal_def)

lemma same_deal_audit [simp]: "same_deal a (append_audit_entry e c x y b) \<longleftrightarrow> same_deal a b"
  by (simp add: same_deal_def append_audit_entry_def)

lemma same_deal_trans: "same_deal a b \<Longrightarrow> same_deal b c \<Longrightarrow> same_deal a c"
  by (simp add: same_deal_def)

lemma deal_retainage [frames]:
  assumes "release_retainage e i sh s = Inr (t, sh')"
  shows "same_deal sh sh'" "k_shipment t = k_shipment s"
  using assms
  by (auto simp: release_retainage_def Let_def bindE_Inr token_pay_Inr decrease_total_escrowed_def ck_i128_Inr
      split: if_splits)

lemma deal_warranty [frames]:
  assumes "start_warranty e i sh s = Inr (t, sh')"
  shows "same_deal sh sh'" "k_shipment t = k_shipment s"
  using assms by (auto simp: start_warranty_def Let_def bindE_Inr ck_u32_Inr split: if_splits)

lemma deal_rebate [frames]:
  assumes "maybe_pay_clean_completion_rebate e i sh s = Inr (t, sh')"
  shows "same_deal sh sh'" "k_shipment t = k_shipment s"
  using assms
  by (auto simp: maybe_pay_clean_completion_rebate_def Let_def bindE_Inr token_pay_Inr ck_i128_Inr
      split: if_splits option.splits)

lemma deal_completion [frames]:
  assumes "settle_on_completion e i sh s = Inr (t, sh')"
  shows "same_deal sh sh'" "k_shipment t = k_shipment s"
proof -
  obtain s1 sh1 s2 sh2 s3 where
    c: "release_retainage e i sh (s\<lparr>k_completed_at_ledger := (k_completed_at_ledger s)(i \<mapsto> sequence e)\<rparr>) = Inr (s1, sh1)"
       "start_warranty e i sh1 s1 = Inr (s2, sh2)" "maybe_pay_clean_completion_rebate e i sh2 s2 = Inr (s3, sh')"
    and t: "k_shipment t = k_shipment s3"
    using assms by (auto simp: settle_on_completion_def bindE_Inr split: prod.splits)
  show "same_deal sh sh'"
    by (rule same_deal_trans [OF deal_retainage(1) [OF c(1)]
          same_deal_trans [OF deal_warranty(1) [OF c(2)] deal_rebate(1) [OF c(3)]]])
  show "k_shipment t = k_shipment s"
    using deal_retainage(2) [OF c(1)] deal_warranty(2) [OF c(2)] deal_rebate(2) [OF c(3)] t by simp
qed

lemma deal_return_bonus [frames]:
  assumes "return_early_bonus e sh s = Inr (t, sh')"
  shows "same_deal sh sh'" "k_shipment t = k_shipment s"
  using assms by (auto simp: return_early_bonus_def bindE_Inr token_pay_Inr same_deal_def split: if_splits)

lemma deal_early_bonus [frames]:
  assumes "pay_early_bonus e sh d s = Inr (t, sh', b)"
  shows "same_deal sh sh'"
  using assms by (auto simp: pay_early_bonus_def bindE_Inr token_pay_Inr Let_def same_deal_def split: if_splits)

lemma deal_advance [frames]:
  assumes "consume_advance_for_milestone sh i j s = Inr (t, sh', a)"
  shows "same_deal sh sh'" "quiet s t"
  using assms
  by (auto simp: consume_advance_for_milestone_def bindE_Inr ck_i128_Inr quiet_def same_terms_def same_deal_def
      split: if_splits option.splits)

end
