(* ===== verification/SettleFlow.thy ===== *)
theory SettleFlow
  imports SettleFrames
begin

text \<open>
  What a confirmation and a release of a held payment do to the stored shipment: which milestone
  changes, to which status, and what is added to the released amount.
\<close>

section \<open>The blocks of an immediate confirmation\<close>

lemma deduct_deal:
  assumes "confirm_deduct e i j sh payment s = Inr (t, sh', adv, net, fee, bps)"
  shows "same_deal sh sh'" "k_shipment t = k_shipment s"
proof -
  show "same_deal sh sh'" using assms
    by (auto simp: confirm_deduct_def bindE_Inr split: prod.splits dest!: deal_advance(1))
  show "k_shipment t = k_shipment s" using assms
    by (auto simp: confirm_deduct_def bindE_Inr split: prod.splits
        dest!: deal_advance(2) ship_deduct_completion quiet_breaker quiet_outflow quietD(1))
qed

lemma book_deal:
  assumes "confirm_book e b cb i j sh m payment s = Inr (t, sh')"
  shows "sh_milestones sh' = (sh_milestones sh)[j := m\<lparr>ms_status := Confirmed\<rparr>]"
    and "sh_released_amount sh' = sh_released_amount sh + payment"
    and "sh_status sh' = sh_status sh" "sh_total_amount sh' = sh_total_amount sh"
      "sh_token sh' = sh_token sh" "sh_supplier sh' = sh_supplier sh" "sh_buyers sh' = sh_buyers sh"
    and "k_shipment t = k_shipment s" "sh_open_dispute_count sh' = sh_open_dispute_count sh"
proof -
  let ?s1 = "if cb \<and> 0 < get_or 0 (ms_proof_submitted_ledger m)
     then update_buyer_reliability_on_confirmation e b (get_or 0 (ms_proof_submitted_ledger m)) s else s"
  obtain s3 where sh': "sh' = (set_milestone j (m\<lparr>ms_status := Confirmed\<rparr>)
        (append_audit_entry e b ''milestone_confirmed'' ''confirm_milestone'' sh))
          \<lparr>sh_released_amount := sh_released_amount sh + payment, sh_last_confirmed_milestone_index := Some j\<rparr>"
    and s3: "release_milestone_collateral_share e sh' i j
        (record_milestone_timeliness (sh_supplier sh') (m\<lparr>ms_status := Confirmed\<rparr>) ?s1) = Inr s3"
    and t: "k_shipment t = k_shipment s3"
    using assms by (auto simp: confirm_book_def Let_def bindE_Inr ck_i128_Inr append_audit_entry_def)
  show "sh_milestones sh' = (sh_milestones sh)[j := m\<lparr>ms_status := Confirmed\<rparr>]"
    "sh_released_amount sh' = sh_released_amount sh + payment"
    "sh_status sh' = sh_status sh" "sh_total_amount sh' = sh_total_amount sh"
    "sh_token sh' = sh_token sh" "sh_supplier sh' = sh_supplier sh" "sh_buyers sh' = sh_buyers sh"
    "sh_open_dispute_count sh' = sh_open_dispute_count sh"
    by (simp_all add: sh' set_milestone_def append_audit_entry_def)
  show "k_shipment t = k_shipment s"
    using t ship_collateral [OF s3] quietD(1) [OF quiet_timeliness] quietD(1) [OF quiet_reliability]
    by (simp split: if_splits)
qed

lemma pay_deal:
  assumes "confirm_pay e i j sh dl payment net adv pen s = Inr (t, sh')"
  shows "same_deal sh sh'" "k_shipment t = k_shipment s"
proof -
  obtain s1 a1 s2 a s3 bonus s4 s5 primary where
    c: "pay_logistics e sh payment (net - adv) s = Inr (s1, a1)"
       "pay_referral e sh a1 s1 = Inr (s2, a)" "pay_early_bonus e sh dl s2 = Inr (s3, sh', bonus)"
       "whenE (0 < a) (pay_milestone_to_payees e i j a (sh_supplier sh') (sh_token sh')) s3 = Inr s4"
       "record_release_counters (sh_supplier sh') primary (sh_token sh') payment a s4 = Inr s5"
       "whenE (0 < pen) (token_pay e (sh_token sh') (this e) primary pen) s5 = Inr t"
    using assms by (auto simp: confirm_pay_def bindE_Inr ck_i128_Inr split: prod.splits)
  show "same_deal sh sh'" by (rule deal_early_bonus [OF c(3)])
  have "k_shipment s4 = k_shipment s3" using c(4) ship_payout by (auto simp: whenE_Inr split: if_splits)
  then show "k_shipment t = k_shipment s"
    using ship_logistics [OF c(1)] ship_referral [OF c(2)] ship_early_bonus [OF c(3)]
      quiet_ship [OF quiet_counters [OF c(5)]] ship_pay_when [OF c(6)] by simp
qed

lemma complete_deal:
  assumes "confirm_complete e b i sh stats s = Inr (t, sh')"
  shows "same_deal (if all_milestones_done sh then sh\<lparr>sh_status := Completed\<rparr> else sh) sh'"
    and "k_shipment t = k_shipment s"
proof -
  have "same_deal (if all_milestones_done sh then sh\<lparr>sh_status := Completed\<rparr> else sh) sh' \<and> k_shipment t = k_shipment s"
  proof (cases "all_milestones_done sh")
    case True
    let ?sh1 = "append_audit_entry e b ''shipment_completed'' ''confirm_milestone'' (sh\<lparr>sh_status := Completed\<rparr>)"
    obtain s1 sh2 s2 n s3 s4 where c: "return_early_bonus e ?sh1 s = Inr (s1, sh2)"
      "book_completion e i sh2 stats s1 = Inr s2"
      "whenE (0 < n) (token_pay e (sh_token sh2) (this e) (sh_supplier sh2) n) s2 = Inr s3"
      "s4 = s3 \<or> (\<exists>x y. s4 = emit x y s3)"
      "settle_on_completion e i sh2 s4 = Inr (t, sh')"
      using assms True
      by (auto simp: confirm_complete_def Let_def bindE_Inr split: if_splits) blast+
    have "k_shipment s4 = k_shipment s2" using ship_pay_when [OF c(3)] c(4) by auto
    have "same_deal (sh\<lparr>sh_status := Completed\<rparr>) ?sh1" by simp
    then have "same_deal (sh\<lparr>sh_status := Completed\<rparr>) sh'"
      by (rule same_deal_trans [OF same_deal_trans [OF _ deal_return_bonus(1) [OF c(1)]] deal_completion(1) [OF c(5)]])
    then show ?thesis
      using \<open>k_shipment s4 = k_shipment s2\<close> True deal_return_bonus(2) [OF c(1)] quiet_ship [OF quiet_book_completion [OF c(2)]]
        deal_completion(2) [OF c(5)] by simp
  qed (use assms in \<open>simp add: confirm_complete_def\<close>)
  then show "same_deal (if all_milestones_done sh then sh\<lparr>sh_status := Completed\<rparr> else sh) sh'"
    "k_shipment t = k_shipment s" by simp_all
qed

lemma close_release_Inr:
  "close_release i sh n s = Inr t \<Longrightarrow>
   k_shipment t = (k_shipment s)(i \<mapsto> sh) \<and> calls t = calls s \<and> k_pending_payout t = k_pending_payout s \<and>
   k_retainage_balance t = k_retainage_balance s \<and> k_warranty_balance t = k_warranty_balance s \<and>
   k_total_escrowed t = (k_total_escrowed s)(sh_token sh \<mapsto> max (get_or 0 (k_total_escrowed s (sh_token sh)) - n) 0)"
  by (auto simp: close_release_def bindE_Inr ck_i128_Inr)

section \<open>The outcome of a confirmation\<close>

text \<open>What an immediate confirmation leaves of shipment \<open>sh\<close>.\<close>

definition settled :: "shipment \<Rightarrow> nat \<Rightarrow> int \<Rightarrow> shipment \<Rightarrow> bool" where
  "settled sh j payment sh' \<longleftrightarrow>
     sh_milestones sh' = (sh_milestones sh)[j := (sh_milestones sh ! j)\<lparr>ms_status := Confirmed\<rparr>] \<and>
     sh_released_amount sh' = sh_released_amount sh + payment \<and>
     sh_total_amount sh' = sh_total_amount sh \<and> sh_open_dispute_count sh' = sh_open_dispute_count sh \<and>
     sh_status sh' = (if all_milestones_done sh' then Completed else sh_status sh)"

text \<open>What a held confirmation leaves: nothing is released, the milestone waits for its ledger.\<close>

definition held :: "settle_env \<Rightarrow> shipment \<Rightarrow> nat \<Rightarrow> shipment \<Rightarrow> bool" where
  "held e sh j sh' \<longleftrightarrow>
     sh_milestones sh' = (sh_milestones sh)[j := (sh_milestones sh ! j)
        \<lparr>ms_release_after_ledger := sequence e + sh_holdback_ledgers sh, ms_status := ConfirmedHeld\<rparr>] \<and>
     sh_released_amount sh' = sh_released_amount sh \<and> sh_total_amount sh' = sh_total_amount sh \<and>
     sh_open_dispute_count sh' = sh_open_dispute_count sh \<and> sh_status sh' = sh_status sh"

lemma all_done_cong: "sh_milestones a = sh_milestones b \<Longrightarrow> all_milestones_done a = all_milestones_done b"
  by (simp add: all_milestones_done_def)

lemma confirm_now_settled:
  assumes "confirm_now e b cb i j sh (sh_milestones sh ! j) stats payment pen s = Inr t"
  shows "\<exists>sh'. k_shipment t = (k_shipment s)(i \<mapsto> sh') \<and> settled sh j payment sh'"
proof -
  let ?m = "sh_milestones sh ! j"
  obtain s1 sh1 adv net fee bps s2 sh2 s3 sh3 s4 sh4 s5 where
    c: "confirm_deduct e i j sh payment s = Inr (s1, sh1, adv, net, fee, bps)"
       "confirm_book e b cb i j sh1 ?m payment s1 = Inr (s2, sh2)"
       "confirm_pay e i j sh2 (ms_deadline_ledger ?m) payment net adv pen s2 = Inr (s3, sh3)"
       "confirm_complete e b i sh3 stats s3 = Inr (s4, sh4)"
       "close_release i sh4 (payment - adv) s4 = Inr s5"
    and t: "k_shipment t = k_shipment s5"
    using assms by (auto simp: confirm_now_def bindE_Inr ck_i128_Inr split: prod.splits)
  note a = same_dealD [OF deduct_deal(1) [OF c(1)]]
  note b = book_deal [OF c(2)]
  note d = same_dealD [OF pay_deal(1) [OF c(3)]]
  note f = same_dealD [OF complete_deal(1) [OF c(4)]]
  have ms: "sh_milestones sh4 = (sh_milestones sh)[j := ?m\<lparr>ms_status := Confirmed\<rparr>]"
    "sh_milestones sh4 = sh_milestones sh3"
    using a(1) b(1) d(1) f(1) by (simp_all split: if_splits)
  have "settled sh j payment sh4"
    using ms all_done_cong [OF ms(2)] a(2,3,4,9) b(2,3,4,9) d(2,3,4,9) f(2,3,4,9)
    by (simp add: settled_def split: if_splits)
  moreover have "k_shipment t = (k_shipment s)(i \<mapsto> sh4)"
    using t conjunct1 [OF close_release_Inr [OF c(5)]] complete_deal(2) [OF c(4)] pay_deal(2) [OF c(3)]
      b(8) deduct_deal(2) [OF c(1)] by simp
  ultimately show ?thesis by blast
qed

lemma confirm_held_held:
  assumes "confirm_held e b i j sh (sh_milestones sh ! j) pen s = Inr t"
  shows "\<exists>sh'. k_shipment t = (k_shipment s)(i \<mapsto> sh') \<and> held e sh j sh'"
proof -
  let ?m = "(sh_milestones sh ! j)\<lparr>ms_release_after_ledger := sequence e + sh_holdback_ledgers sh, ms_status := ConfirmedHeld\<rparr>"
  let ?sh1 = "set_milestone j ?m sh"
  obtain s2 sh2 bonus where
    c: "pay_early_bonus e ?sh1 (ms_deadline_ledger ?m) (record_milestone_timeliness (sh_supplier ?sh1) ?m s)
          = Inr (s2, sh2, bonus)"
    and t: "k_shipment t = (k_shipment s2)(i \<mapsto> append_audit_entry e b ''milestone_confirmed'' ''confirm_milestone'' sh2)"
    using assms by (auto simp: confirm_held_def Let_def bindE_Inr ck_u32_Inr split: prod.splits)
  have "k_shipment s2 = k_shipment s"
    using ship_early_bonus [OF c] quiet_ship [OF quiet_timeliness] by metis
  moreover have "held e sh j (append_audit_entry e b ''milestone_confirmed'' ''confirm_milestone'' sh2)"
    using same_dealD [OF deal_early_bonus [OF c]]
    by (simp add: held_def set_milestone_def append_audit_entry_def)
  ultimately show ?thesis using t by metis
qed

section \<open>The guards of a confirmation\<close>

definition may_confirm :: "settle \<Rightarrow> sid \<Rightarrow> shipment \<Rightarrow> addr \<Rightarrow> bool" where
  "may_confirm s i sh a \<longleftrightarrow> a \<in> set (sh_buyers sh) \<or> k_co_buyer s i = Some a \<or>
     (\<exists>d. k_confirmation_delegate s i = Some d \<and> dc_delegate d = a)"

lemma confirm_caller_Inr:
  "confirm_caller e s i sh a = Inr r \<Longrightarrow> a \<in> set (signers e) \<and> may_confirm s i sh a"
  by (auto simp: confirm_caller_def Let_def bindE_Inr expect_Inr require_auth_Inr require_buyer_auth_def
      assert_is_buyer_def is_buyer_def ensure_Inr may_confirm_def split: if_splits)

lemma get_shipment_Inr [res_simps]: "get_shipment_internal s i = Inr sh \<longleftrightarrow> k_shipment s i = Some sh"
  by (simp add: get_shipment_internal_def expect_Inr)

lemma assert_active_Inr [res_simps]: "assert_active sh = Inr u \<longleftrightarrow> sh_status sh = Active"
  by (simp add: assert_active_def ensure_Inr)

lemma gross_payment_cong:
  "k_milestone_splits t = k_milestone_splits s \<Longrightarrow> k_partial_qty_released t = k_partial_qty_released s \<Longrightarrow>
   milestone_gross_payment t sh j = milestone_gross_payment s sh j"
  by (simp add: milestone_gross_payment_def milestone_full_gross_payment_def)

text \<open>Every guard of \<^verbatim>\<open>confirm_milestone\<close>, and what happens behind them.\<close>

lemma confirm_milestone_cases:
  assumes "confirm_milestone e b i j s = Inr t"
  obtains sh stats cb s1 where
    "k_shipment s i = Some sh" "sh_status sh = Active" "j < length (sh_milestones sh)"
    "ms_status (sh_milestones sh ! j) = ProofSubmitted" "b \<in> set (signers e)" "may_confirm s i sh b"
    "k_compliance_hold s i = None" "\<not> get_or False (k_paused s)" "\<not> get_or False (k_emergency_frozen s)"
    "k_shipment s1 = k_shipment s" "calls s1 = calls s" "joint_confirmation_required s sh \<or> s1 = s"
    "milestone_gross_payment s1 sh j = milestone_gross_payment s sh j"
    "t = s1 \<and> joint_confirmation_required s sh \<or>
     confirm_settle e b cb i j sh (sh_milestones sh ! j) stats s1 = Inr t"
proof -
  let ?m = "\<lambda>sh. sh_milestones sh ! j"
  obtain sh cb acts co s1 go where
    g: "k_shipment s i = Some sh" "sh_status sh = Active" "\<not> length (sh_milestones sh) \<le> j"
       "ms_status (?m sh) = ProofSubmitted" "confirm_caller e s i sh b = Inr (cb, acts, co)"
       "assert_shipment_not_on_hold s i = Inr ()" "assert_operation_not_paused s ''confirm'' = Inr ()"
    and s1: "(if joint_confirmation_required s sh then record_joint_confirmation i j b acts co s else (s, True)) = (s1, go)"
    and t: "(if \<not> go then Inr s1 else bindE (confirmation_timing e s1 i sh (?m sh)) (\<lambda>_.
             confirm_settle e b cb i j sh (?m sh) (get_or contract_stats_zero (k_contract_stats s)) s1)) = Inr t"
    using assms
    by (auto simp: confirm_milestone_def Let_def bindE_Inr get_shipment_Inr assert_active_Inr
        split: if_splits prod.splits)
  have "k_shipment s1 = k_shipment s" "calls s1 = calls s" "k_milestone_splits s1 = k_milestone_splits s"
    "k_partial_qty_released s1 = k_partial_qty_released s" "joint_confirmation_required s sh \<or> s1 = s"
    using s1 by (auto simp: record_joint_confirmation_def Let_def split: if_splits)
  moreover have "t = s1 \<and> joint_confirmation_required s sh \<or>
      confirm_settle e b cb i j sh (?m sh) (get_or contract_stats_zero (k_contract_stats s)) s1 = Inr t"
    using t s1 by (auto simp: bindE_Inr split: if_splits)
  moreover have "\<not> get_or False (k_paused s)" "\<not> get_or False (k_emergency_frozen s)" "k_compliance_hold s i = None"
    using g(6,7) by (auto simp: assert_operation_not_paused_def assert_not_paused_def bindE_Inr
        assert_shipment_not_on_hold_def ensure_Inr split: if_splits)
  ultimately show thesis
    using that g(1-4) confirm_caller_Inr [OF g(5)] gross_payment_cong by (metis not_le)
qed

lemma confirm_settle_cases:
  assumes "confirm_settle e b cb i j sh (sh_milestones sh ! j) stats s = Inr t"
  obtains gross pen sh' where "milestone_gross_payment s sh j = Inr gross"
    "late_penalty sh (sh_milestones sh ! j) gross = Inr pen" "k_shipment t = (k_shipment s)(i \<mapsto> sh')"
    "if 0 < sh_holdback_ledgers sh then held e sh j sh' else settled sh j (gross - pen) sh'"
proof -
  obtain gross pen where g: "milestone_gross_payment s sh j = Inr gross"
    "late_penalty sh (sh_milestones sh ! j) gross = Inr pen"
    and t: "(if 0 < sh_holdback_ledgers sh then confirm_held e b i j sh (sh_milestones sh ! j) pen s
             else confirm_now e b cb i j sh (sh_milestones sh ! j) stats (gross - pen) pen s) = Inr t"
    using assms by (auto simp: confirm_settle_def bindE_Inr ck_i128_Inr)
  show thesis
    using that [OF g] t confirm_held_held confirm_now_settled by (metis (no_types))
qed

text \<open>The late penalty takes at most half of the gross payment.\<close>

lemma late_penalty_bounds:
  assumes "late_penalty sh m gross = Inr pen" "0 \<le> gross"
  shows "0 \<le> pen" "2 * pen \<le> gross"
  using assms
  by (auto simp: late_penalty_def Let_def bindE_Inr mul_div_Inr tdiv_nonneg pos_imp_zdiv_nonneg_iff min_def
      split: if_splits)

section \<open>The outcome of a release\<close>

lemma held_deduct_deal:
  assumes "held_deduct e i j sh payment s = Inr (t, sh', adv, net, fee)"
  shows "same_deal sh sh'" "k_shipment t = k_shipment s"
proof -
  show "same_deal sh sh'" using assms
    by (auto simp: held_deduct_def bindE_Inr split: prod.splits dest!: deal_advance(1))
  show "k_shipment t = k_shipment s" using assms
    by (auto simp: held_deduct_def bindE_Inr split: prod.splits
        dest!: deal_advance(2) ship_deduct quiet_breaker quiet_outflow quietD(1))
qed

lemma held_pay_ship:
  assumes "held_pay e i j sh payment net adv s = Inr t"
  shows "k_shipment t = k_shipment s"
proof -
  obtain s1 a1 s2 a s4 primary where
    c: "pay_logistics e sh payment (net - adv) s = Inr (s1, a1)" "pay_referral e sh a1 s1 = Inr (s2, a)"
       "whenE (0 < a) (pay_milestone_to_payees e i j a (sh_supplier sh) (sh_token sh)) s2 = Inr s4"
       "record_release_counters (sh_supplier sh) primary (sh_token sh) payment a s4 = Inr t"
    using assms by (auto simp: held_pay_def bindE_Inr ck_i128_Inr split: prod.splits)
  have "k_shipment s4 = k_shipment s2" using c(3) ship_payout by (auto simp: whenE_Inr split: if_splits)
  then show ?thesis
    using ship_logistics [OF c(1)] ship_referral [OF c(2)] quiet_ship [OF quiet_counters [OF c(4)]] by simp
qed

lemma settle_grade_deal:
  assumes "settle_grade e i j sh p payment refund s = Inr (t, sh')"
  shows "same_deal sh sh'" "k_shipment t = k_shipment s"
  using assms
  by (auto simp: settle_grade_def bindE_Inr whenE_Inr token_pay_Inr split: option.splits if_splits)

lemma held_complete_deal:
  assumes "held_complete e i sh s = Inr (t, sh')"
  shows "same_deal (if all_milestones_done sh then sh\<lparr>sh_status := Completed\<rparr> else sh) sh'"
    and "k_shipment t = k_shipment s"
proof -
  have "same_deal (if all_milestones_done sh then sh\<lparr>sh_status := Completed\<rparr> else sh) sh' \<and> k_shipment t = k_shipment s"
  proof (cases "all_milestones_done sh")
    case True
    then obtain s1 sh1 s2 where c: "return_early_bonus e sh s = Inr (s1, sh1)"
      "book_completion e i (sh1\<lparr>sh_status := Completed\<rparr>) (get_or contract_stats_zero (k_contract_stats s1)) s1 = Inr s2"
      "settle_on_completion e i (sh1\<lparr>sh_status := Completed\<rparr>) s2 = Inr (t, sh')"
      using assms by (auto simp: held_complete_def Let_def bindE_Inr)
    have "same_deal (sh\<lparr>sh_status := Completed\<rparr>) (sh1\<lparr>sh_status := Completed\<rparr>)"
      using deal_return_bonus(1) [OF c(1)] by (simp add: same_deal_def)
    then show ?thesis
      using True same_deal_trans deal_completion [OF c(3)] deal_return_bonus(2) [OF c(1)]
        quiet_ship [OF quiet_book_completion [OF c(2)]] by auto
  qed (use assms in \<open>simp add: held_complete_def\<close>)
  then show "same_deal (if all_milestones_done sh then sh\<lparr>sh_status := Completed\<rparr> else sh) sh'"
    "k_shipment t = k_shipment s" by simp_all
qed

lemma release_held_settled:
  assumes "release_held_payment e i j s = Inr t"
  obtains sh m gross sh' where
    "k_shipment s i = Some sh" "sh_status sh = Active" "j < length (sh_milestones sh)" "m = sh_milestones sh ! j"
    "ms_status m = ConfirmedHeld" "ms_release_after_ledger m \<le> sequence e"
    "milestone_gross_payment s sh j = Inr gross" "k_shipment t = (k_shipment s)(i \<mapsto> sh')"
    "sh_milestones sh' = (sh_milestones sh)[j := m\<lparr>ms_status := Confirmed, ms_release_after_ledger := 0\<rparr>]"
    "sh_released_amount sh' = sh_released_amount sh + gross" "sh_total_amount sh' = sh_total_amount sh"
    "sh_status sh' = (if all_milestones_done sh' then Completed else Active)"
    "sh_open_dispute_count sh' = sh_open_dispute_count sh"
proof -
  obtain sh gross payment s1 sh1 adv net fee s2 s3 s4 sh3 s5 sh4 s6 where
    g: "k_shipment s i = Some sh" "sh_status sh = Active" "j < length (sh_milestones sh)"
       "ms_status (sh_milestones sh ! j) = ConfirmedHeld" "ms_release_after_ledger (sh_milestones sh ! j) \<le> sequence e"
       "milestone_gross_payment s sh j = Inr gross"
    and c: "held_deduct e i j sh payment s = Inr (s1, sh1, adv, net, fee)"
    and sh2: "\<exists>sh2. sh2 = (set_milestone j ((sh_milestones sh ! j)\<lparr>ms_status := Confirmed, ms_release_after_ledger := 0\<rparr>) sh1)
                 \<lparr>sh_released_amount := sh_released_amount sh1 + gross, sh_last_confirmed_milestone_index := Some j\<rparr> \<and>
         release_milestone_collateral_share e sh2 i j s1 = Inr s2 \<and>
         held_pay e i j sh2 payment net adv s2 = Inr s3 \<and>
         settle_grade e i j sh2 (k_pending_grade s (i, j)) payment (gross - payment) s3 = Inr (s4, sh3)"
    and d: "held_complete e i sh3 s4 = Inr (s5, sh4)" "close_release i sh4 (gross - adv) s5 = Inr s6"
    and t: "k_shipment t = k_shipment s6"
    using assms
    by (auto simp: release_held_payment_def Let_def bindE_Inr get_shipment_Inr assert_active_Inr vec_get_unwrap_Inr
        ck_i128_Inr split: if_splits prod.splits)
  obtain sh2 where sh2: "sh2 = (set_milestone j ((sh_milestones sh ! j)\<lparr>ms_status := Confirmed, ms_release_after_ledger := 0\<rparr>) sh1)
                 \<lparr>sh_released_amount := sh_released_amount sh1 + gross, sh_last_confirmed_milestone_index := Some j\<rparr>"
    and e: "release_milestone_collateral_share e sh2 i j s1 = Inr s2" "held_pay e i j sh2 payment net adv s2 = Inr s3"
      "settle_grade e i j sh2 (k_pending_grade s (i, j)) payment (gross - payment) s3 = Inr (s4, sh3)"
    using sh2 by blast
  note a = same_dealD [OF held_deduct_deal(1) [OF c]]
  note b = same_dealD [OF settle_grade_deal(1) [OF e(3)]]
  note f = same_dealD [OF held_complete_deal(1) [OF d(1)]]
  have ms: "sh_milestones sh4 = (sh_milestones sh)[j := (sh_milestones sh ! j)\<lparr>ms_status := Confirmed, ms_release_after_ledger := 0\<rparr>]"
    "sh_milestones sh4 = sh_milestones sh3"
    using a(1) b(1) f(1) by (simp_all add: sh2 set_milestone_def split: if_splits)
  have ship: "k_shipment t = (k_shipment s)(i \<mapsto> sh4)"
    using t conjunct1 [OF close_release_Inr [OF d(2)]] held_complete_deal(2) [OF d(1)] settle_grade_deal(2) [OF e(3)]
      held_pay_ship [OF e(2)] ship_collateral [OF e(1)] held_deduct_deal(2) [OF c] by simp
  have rel: "sh_released_amount sh4 = sh_released_amount sh + gross" "sh_total_amount sh4 = sh_total_amount sh"
    and cnt: "sh_open_dispute_count sh4 = sh_open_dispute_count sh"
    using a(2,4,9) b(2,4,9) f(2,4,9) by (simp_all add: sh2 set_milestone_def split: if_splits)
  have st: "sh_status sh4 = (if all_milestones_done sh4 then Completed else Active)"
    using all_done_cong [OF ms(2)] a(3) b(3) f(3) g(2) by (simp add: sh2 set_milestone_def split: if_splits)
  show thesis by (rule that [OF g(1,2,3) refl g(4,5,6) ship ms(1) rel st cnt])
qed

end
