(* ===== verification/SettleMoney.thy ===== *)
theory SettleMoney
  imports SettleFlow
begin

text \<open>
  Where the money of a milestone goes. A payment either leaves the contract or is set aside for its
  owner (a batched payout, retainage, warranty); \<open>placed\<close> measures both, and the lemmas show that
  every block of a confirmation places exactly the amount it was given.
\<close>

section \<open>Placed money\<close>

definition set_aside :: "sid \<Rightarrow> addr \<Rightarrow> settle \<Rightarrow> int" where
  "set_aside i a s =
     get_or 0 (k_pending_payout s a) + get_or 0 (k_retainage_balance s i) + get_or 0 (k_warranty_balance s i)"

definition placed :: "settle_env \<Rightarrow> addr \<Rightarrow> sid \<Rightarrow> addr \<Rightarrow> settle \<Rightarrow> settle \<Rightarrow> int" where
  "placed e tok i a s t = spent e tok s t + (set_aside i a t - set_aside i a s)"

lemma placed_refl [simp]: "placed e tok i a s s = 0"
  by (simp add: placed_def)

lemma placed_trans: "placed e tok i a s u = placed e tok i a s t + placed e tok i a t u"
  unfolding placed_def using spent_trans [of e tok s u t] by simp

lemma placed_quiet: "quiet s t \<Longrightarrow> placed e tok i a s t = 0"
  by (simp add: placed_def spent_def set_aside_def quietD)

lemma placed_pay: "token_pay e tok (this e) dst n s = Inr t \<Longrightarrow> placed e tok i a s t = n"
  using spent_pay [of e tok dst n s t] by (auto simp: placed_def set_aside_def token_pay_Inr)

lemma placed_pay_when:
  "whenE (0 < n) (token_pay e tok (this e) dst n) s = Inr t \<Longrightarrow> 0 \<le> n \<Longrightarrow> placed e tok i a s t = n"
  using placed_pay by (auto simp: whenE_Inr split: if_splits)

text \<open>The fee recipients after the first one get their shares.\<close>

lemma pay_shares_later:
  "pay_shares e tok fee (Suc k) rs d s = Inr (t, d') \<Longrightarrow> 0 \<le> fee \<Longrightarrow>
   spent e tok s t = (\<Sum>x\<leftarrow>rs. fee * int (fr_share_bps x) div 10000)"
proof (induction rs arbitrary: k d s)
  case (Cons r rs)
  let ?x = "fee * int (fr_share_bps r) div 10000"
  have nn: "0 \<le> ?x" using Cons.prems(2) by (simp add: pos_imp_zdiv_nonneg_iff)
  have step: "if 0 < ?x then \<exists>s1. token_pay e tok (this e) (fr_recipient r) ?x s = Inr s1 \<and>
                    pay_shares e tok fee (Suc (Suc k)) rs (d + ?x) s1 = Inr (t, d')
                 else pay_shares e tok fee (Suc (Suc k)) rs d s = Inr (t, d')"
    using Cons.prems by (auto simp: bindE_Inr ck_i128_Inr mul_div_Inr tdiv_nonneg split: if_splits)
  show ?case
  proof (cases "0 < ?x")
    case True
    then obtain s1 where s1: "token_pay e tok (this e) (fr_recipient r) ?x s = Inr s1"
      "pay_shares e tok fee (Suc (Suc k)) rs (d + ?x) s1 = Inr (t, d')" using step by auto
    then show ?thesis using Cons.IH [OF s1(2) Cons.prems(2)] spent_pay_then [OF s1(1), of t] by simp
  next
    case False
    then have "?x = 0" using nn by simp
    then show ?thesis using False step Cons.IH Cons.prems(2) by simp
  qed
qed simp

section \<open>Payees\<close>

abbreviation percents :: "milestone_payee list \<Rightarrow> nat" where
  "percents ps \<equiv> sum_list (map mp_percent ps)"

text \<open>
  The loop pays floors of the shares and the last payee the rest, so long as the shares before it
  do not exceed the whole: \<open>P\<close> is the percentage handed out so far, \<open>d\<close> the amount.
\<close>

lemma pay_payees_placed:
  assumes "pay_payees e tok net l k ps d s = Inr t" "ps \<noteq> []" "l = k + length ps - 1"
    "100 * d \<le> net * int P" "P + percents ps \<le> 100" "0 \<le> net"
  shows "placed e tok i a s t = net - d"
  using assms
proof (induction ps arbitrary: k d s P)
  case (Cons p ps)
  show ?case
  proof (cases "ps = []")
    case True
    have "net * int P \<le> net * 100" using Cons.prems(5,6) by (intro mult_left_mono) auto
    then have "d \<le> net" using Cons.prems(4) by simp
    then show ?thesis
      using Cons.prems(1,3) True placed_pay by (auto simp: bindE_Inr ck_i128_Inr split: if_splits)
  next
    case False
    then have k: "k \<noteq> l" "l = k + 1 + length ps - 1" using Cons.prems(3) by (cases ps; simp)+
    obtain x where x: "mul_div net (mp_percent p) 100 = Inr x"
      and step: "if 0 < x then \<exists>s1. token_pay e tok (this e) (mp_payee p) x s = Inr s1 \<and>
                    pay_payees e tok net l (k + 1) ps (d + x) s1 = Inr t
                 else pay_payees e tok net l (k + 1) ps d s = Inr t"
      using Cons.prems(1) k(1) by (auto simp: bindE_Inr ck_i128_Inr split: if_splits)
    have x': "100 * x \<le> net * int (mp_percent p)" "0 \<le> x"
      using x Cons.prems(6) by (auto simp: mul_div_Inr tdiv_nonneg pos_imp_zdiv_nonneg_iff)
    have P: "P + mp_percent p + percents ps \<le> 100" using Cons.prems(5) by simp
    show ?thesis
    proof (cases "0 < x")
      case True
      then obtain s1 where s1: "token_pay e tok (this e) (mp_payee p) x s = Inr s1"
        "pay_payees e tok net l (k + 1) ps (d + x) s1 = Inr t" using step by auto
      have "100 * (d + x) \<le> net * int (P + mp_percent p)"
        using x'(1) Cons.prems(4) by (simp add: algebra_simps)
      then have "placed e tok i a s1 t = net - (d + x)"
        by (rule Cons.IH [OF s1(2) False k(2) _ P Cons.prems(6)])
      then show ?thesis using placed_trans [of e tok i a s t s1] placed_pay [OF s1(1)] by simp
    next
      case False
      then have "x = 0" "pay_payees e tok net l (k + 1) ps d s = Inr t" using x'(2) step by auto
      moreover have "100 * d \<le> net * int (P + mp_percent p)"
        using x'(1) Cons.prems(4) \<open>x = 0\<close> by (simp add: algebra_simps)
      ultimately show ?thesis using Cons.IH [OF _ \<open>ps \<noteq> []\<close> k(2) _ P Cons.prems(6)] by simp
    qed
  qed
qed simp

section \<open>One milestone payment\<close>

lemma placed_withhold:
  assumes "withhold_settlement_holdbacks i j net tok s = Inr (t, rest)" "0 < net"
  shows "placed e tok i a s t = net - rest" and "k_milestone_payees t = k_milestone_payees s"
  by (rule withhold_cases [OF assms(1)]; use assms(2) in \<open>simp add: placed_def spent_def set_aside_def\<close>)+

lemma placed_supplier:
  assumes "pay_supplier e tok a net s = Inr t"
  shows "placed e tok i a s t = net"
proof (cases "get_or Immediate (k_payout_mode s a) = Batched")
  case True
  then have "t = s\<lparr>k_pending_payout := (k_pending_payout s)(a \<mapsto> get_or 0 (k_pending_payout s a) + net)\<rparr>"
    using assms by (auto simp: pay_supplier_def bindE_Inr ck_i128_Inr)
  then show ?thesis by (simp add: placed_def spent_def set_aside_def)
qed (use assms placed_pay in \<open>simp add: pay_supplier_def\<close>)

text \<open>The two holdback rates together take no more than the payment.\<close>

definition holdback_ok :: "settle \<Rightarrow> sid \<Rightarrow> bool" where
  "holdback_ok s i \<longleftrightarrow> get_or 0 (k_retainage_bps s i) + get_or 0 (map_option fst (k_warranty_config s i)) \<le> 10000"

lemma withhold_rest:
  assumes "withhold_settlement_holdbacks i j net tok s = Inr (t, rest)" "0 < net" "holdback_ok s i"
  shows "0 \<le> rest"
proof -
  let ?a = "get_or 0 (k_retainage_bps s i)" and ?b = "get_or 0 (map_option fst (k_warranty_config s i))"
  have "rest = net \<or> rest = net - net * int ?a div 10000 - net * int ?b div 10000"
    using assms
    by (auto simp: withhold_settlement_holdbacks_def Let_def bindE_Inr ck_i128_Inr mul_div_Inr tdiv_nonneg
        split: if_splits)
  moreover have "net * int ?a div 10000 + net * int ?b div 10000 \<le> net"
  proof -
    have "net * int ?a + net * int ?b \<le> net * 10000"
      using assms(2,3) by (simp add: holdback_ok_def flip: distrib_left)
    then show ?thesis by linarith
  qed
  ultimately show ?thesis using assms(2) by auto
qed

text \<open>
  Every unit of a positive net payment is paid or set aside, whichever way the supplier gets it.
\<close>

lemma placed_payout:
  assumes "pay_milestone_to_payees e i j net a tok s = Inr t" "0 < net"
    "percents (get_or [] (k_milestone_payees s (i, j))) \<le> 100" "holdback_ok s i"
  shows "placed e tok i (get_or a (k_milestone_supplier s (i, j))) s t = net"
  using assms(1,2)
proof (cases rule: payout_cases)
  case (1 s1 rest)
  have "placed e tok i x s s1 = net - rest" for x by (rule placed_withhold(1) [OF 1(1) assms(2)])
  moreover have "0 \<le> rest" by (rule withhold_rest [OF 1(1) assms(2,4)])
  ultimately show ?thesis using 1 by simp
next
  case (financier s1 rest f s2)
  show ?thesis
    using placed_withhold(1) [OF financier(1) assms(2)] placed_pay [OF financier(3)] placed_quiet [OF financier(4)]
      placed_trans [of e tok i _ s t s1] placed_trans [of e tok i _ s1 t s2] by simp
next
  case (supplier s1 rest)
  show ?thesis
    using placed_withhold(1) [OF supplier(1) assms(2)] placed_supplier [OF supplier(4)]
      placed_trans [of e tok i _ s t s1] by simp
next
  case (payees s1 rest ps)
  have "percents ps \<le> 100"
    using assms(3) payees(3) placed_withhold(2) [OF payees(1) assms(2)] by simp
  then have "placed e tok i x s1 t = rest" for x
    using pay_payees_placed [OF payees(5,4), of 0] payees(2) by simp
  then show ?thesis
    using placed_withhold(1) [OF payees(1) assms(2)] placed_trans [of e tok i _ s t s1] by simp
qed

section \<open>The blocks around it\<close>

text \<open>A helper that pays, but leaves shipments, terms, the escrow counter and the holdbacks alone.\<close>

definition paying :: "settle \<Rightarrow> settle \<Rightarrow> bool" where
  "paying s t \<longleftrightarrow> same_terms s t \<and> k_shipment t = k_shipment s \<and> k_total_escrowed t = k_total_escrowed s \<and>
     k_retainage_balance t = k_retainage_balance s \<and> k_warranty_balance t = k_warranty_balance s"

lemma quiet_paying: "quiet s t \<Longrightarrow> paying s t"
  by (simp add: paying_def quiet_def)

lemma paying_refl [simp]: "paying s s"
  by (simp add: paying_def)

lemma paying_trans: "paying s t \<Longrightarrow> paying t u \<Longrightarrow> paying s u"
  by (simp add: paying_def same_terms_def)

lemma paying_pay: "token_pay e tok a b n s = Inr t \<Longrightarrow> paying s t"
  by (auto simp: token_pay_Inr paying_def same_terms_def)

lemma paying_pay_when: "whenE c (token_pay e tok a b n) s = Inr t \<Longrightarrow> paying s t"
  using paying_pay by (auto simp: whenE_Inr split: if_splits)

text \<open>The escrow counter without the holdbacks of the shipment.\<close>

definition free_escrow :: "sid \<Rightarrow> addr \<Rightarrow> settle \<Rightarrow> int" where
  "free_escrow i tok s =
     get_or 0 (k_total_escrowed s tok) - get_or 0 (k_retainage_balance s i) - get_or 0 (k_warranty_balance s i)"

lemma paying_escrow: "paying s t \<Longrightarrow> free_escrow i tok t = free_escrow i tok s"
  by (simp add: paying_def free_escrow_def)

lemma payout_escrow:
  assumes "pay_milestone_to_payees e i j net a tok s = Inr t" "0 < net"
  shows "free_escrow i tok t = free_escrow i tok s"
proof -
  have w: "free_escrow i tok s1 = free_escrow i tok s"
    if "withhold_settlement_holdbacks i j net tok s = Inr (s1, rest)" for s1 rest
    by (rule withhold_cases [OF that]; use assms(2) in \<open>simp add: free_escrow_def\<close>)
  have p: "free_escrow i tok t = free_escrow i tok s1" if "pay_payees e tok n l k ps d s1 = Inr t" for n l k ps d s1
    using that
  proof (induction ps arbitrary: k d s1)
    case (Cons q ps)
    from Cons.prems show ?case
      by (auto simp: bindE_Inr paying_escrow [OF paying_pay] split: if_splits dest!: Cons.IH)
  qed simp
  have sup: "free_escrow i tok t = free_escrow i tok s1" if "pay_supplier e tok x n s1 = Inr t" for x n s1
    using that paying_escrow [OF paying_pay]
    by (auto simp: pay_supplier_def bindE_Inr ck_i128_Inr free_escrow_def split: if_splits)
  from assms show ?thesis
    by (rule payout_cases) (metis w p sup paying_escrow paying_pay quiet_paying)+
qed

lemma logistics_money:
  assumes "pay_logistics e sh p a s = Inr (t, r)" "0 \<le> a"
  shows "placed e (sh_token sh) i x s t = a - r" "0 \<le> r" "paying s t"
  using assms placed_pay paying_pay
  by (auto simp: pay_logistics_def bindE_Inr ck_i128_Inr split: if_splits)

lemma referral_money:
  assumes "pay_referral e sh a s = Inr (t, r)" "0 \<le> a"
  shows "placed e (sh_token sh) i x s t = a - r" "0 \<le> r" "paying s t"
  using assms placed_pay paying_pay
  by (auto simp: pay_referral_def bindE_Inr ck_i128_Inr Let_def split: if_splits option.splits)

lemma early_bonus_money:
  assumes "pay_early_bonus e sh d s = Inr (t, sh', b)"
  shows "placed e (sh_token sh) i x s t = sh_early_bonus_remaining sh - sh_early_bonus_remaining sh'" "paying s t"
    "sh_early_bonus_remaining sh' \<le> sh_early_bonus_remaining sh"
  using assms placed_pay paying_pay
  by (auto simp: pay_early_bonus_def bindE_Inr Let_def split: if_splits)

lemma confirm_pay_money:
  assumes "confirm_pay e i j sh dl payment net adv pen s = Inr (t, sh')" "adv \<le> net" "0 \<le> pen"
    "percents (get_or [] (k_milestone_payees s (i, j))) \<le> 100" "holdback_ok s i"
  shows "placed e (sh_token sh) i (get_or (sh_supplier sh) (k_milestone_supplier s (i, j))) s t
           = net - adv + pen + (sh_early_bonus_remaining sh - sh_early_bonus_remaining sh')"
    and "free_escrow i (sh_token sh) t = free_escrow i (sh_token sh) s"
    and "sh_early_bonus_remaining sh' \<le> sh_early_bonus_remaining sh"
proof -
  let ?tok = "sh_token sh" and ?x = "get_or (sh_supplier sh) (k_milestone_supplier s (i, j))"
  obtain s1 a1 s2 a s3 bonus s4 s5 primary where
    c: "pay_logistics e sh payment (net - adv) s = Inr (s1, a1)"
       "pay_referral e sh a1 s1 = Inr (s2, a)" "pay_early_bonus e sh dl s2 = Inr (s3, sh', bonus)"
       "whenE (0 < a) (pay_milestone_to_payees e i j a (sh_supplier sh') (sh_token sh')) s3 = Inr s4"
       "record_release_counters (sh_supplier sh') primary (sh_token sh') payment a s4 = Inr s5"
       "whenE (0 < pen) (token_pay e (sh_token sh') (this e) primary pen) s5 = Inr t"
    using assms(1) by (auto simp: confirm_pay_def bindE_Inr ck_i128_Inr split: prod.splits)
  note deal = same_dealD [OF deal_early_bonus [OF c(3)]]
  have "0 \<le> net - adv" using assms(2) by simp
  note l = logistics_money [OF c(1) this]
  note r = referral_money [OF c(2) l(2)]
  note b = early_bonus_money [OF c(3)]
  have p: "paying s s3" using l(3) r(3) b(2) paying_trans by blast
  then have "same_terms s s3" by (simp add: paying_def)
  note terms = same_termsD [OF this]
  have out: "placed e ?tok i ?x s3 s4 = a \<and> free_escrow i ?tok s4 = free_escrow i ?tok s3"
  proof (cases "0 < a")
    case True
    then have "pay_milestone_to_payees e i j a (sh_supplier sh) ?tok s3 = Inr s4" using c(4) deal(5,6) by simp
    from placed_payout [OF this True] payout_escrow [OF this True] show ?thesis
      using assms(4,5) terms by (simp add: holdback_ok_def)
  qed (use c(4) r(2) in simp)
  note q = placed_quiet [OF quiet_counters [OF c(5)]] quiet_paying [OF quiet_counters [OF c(5)]]
  have pen: "placed e ?tok i ?x s5 t = pen" "paying s5 t"
    using placed_pay_when [OF _ assms(3)] paying_pay_when c(6) deal(5) by auto
  show "placed e ?tok i ?x s t = net - adv + pen + (sh_early_bonus_remaining sh - sh_early_bonus_remaining sh')"
    using placed_trans [of e ?tok i ?x s t s1] placed_trans [of e ?tok i ?x s1 t s2]
      placed_trans [of e ?tok i ?x s2 t s3] placed_trans [of e ?tok i ?x s3 t s4] placed_trans [of e ?tok i ?x s4 t s5]
      l(1) [of i ?x] r(1) [of i ?x] b(1) [of i ?x] out q(1) [of e ?tok i ?x] pen(1) by simp
  show "free_escrow i ?tok t = free_escrow i ?tok s"
    using paying_escrow [OF p] out paying_escrow [OF q(2)] paying_escrow [OF pen(2)] by simp
  show "sh_early_bonus_remaining sh' \<le> sh_early_bonus_remaining sh" by (rule b(3))
qed

section \<open>A whole confirmation\<close>

text \<open>
  The plain case: no advance and no long-hold rebate, collateral returned at the end, and another
  milestone still open.
\<close>

definition plain_terms :: "settle \<Rightarrow> sid \<Rightarrow> nat \<Rightarrow> bool" where
  "plain_terms s i j \<longleftrightarrow> k_advance_request s (i, j) = None \<and> k_long_hold_rebate s = None \<and>
     \<not> get_or False (k_incremental_collateral s i) \<and> holdback_ok s i \<and>
     percents (get_or [] (k_milestone_payees s (i, j))) \<le> 100"

text \<open>No configured fee rate is above 100 percent (the setters allow 10 at most).\<close>

definition rates_ok :: "settle \<Rightarrow> sid \<Rightarrow> bool" where
  "rates_ok s i \<longleftrightarrow> get_or 0 (map_option fc_fee_bps (k_fee_config s)) \<le> 10000 \<and>
     get_or 0 (k_shipment_fee_bps s i) \<le> 10000 \<and> get_or 0 (k_shipment_fee_override s i) \<le> 10000"

lemma waive_bps_le: "waive_bps bps w = Inr x \<Longrightarrow> x \<le> bps"
  by (auto simp: waive_bps_def ck_sub_Inr split: if_splits)

lemma completion_fee_le:
  assumes "deduct_fee_for_shipment_at_completion e gross tok i b False s = Inr (t, net, fee, bps)"
    "rates_ok s i" "0 \<le> gross"
  shows "0 \<le> net" "0 \<le> fee" "net = gross - fee"
proof -
  show n: "net = gross - fee" by (rule deduct_completion_cases(1) [OF assms(1)])
  have "fee = 0 \<or> (\<exists>x. mul_div gross x 10000 = Inr fee \<and> x \<le> 10000)"
    using assms(1,2)
    by (auto simp: deduct_fee_for_shipment_at_completion_def bindE_Inr Let_def rates_ok_def
        split: if_splits option.splits dest!: waive_bps_le)
       (metis get_or_simps le_trans option.exhaust)+
  then show "0 \<le> net" "0 \<le> fee" using mul_div_bounds [of gross _ 10000 fee] assms(3) n by auto
qed

lemma deduct_completion_money:
  assumes "deduct_fee_for_shipment_at_completion e gross tok i b fin s = Inr (t, net, fee, bps)"
  shows "placed e tok i' x s t = fee" "paying s t"
proof -
  have "placed e tok i' x s t = fee \<and> paying s t"
    using deduct_completion_cases(2) [OF assms]
  proof (elim disjE conjE exE)
    fix u treasury
    assume u: "token_pay e tok (this e) treasury fee s = Inr u" "quiet u t"
    then show ?thesis
      using placed_pay [OF u(1)] placed_quiet [OF u(2)] paying_pay [OF u(1)] quiet_paying [OF u(2)]
        placed_trans [of e tok i' x s t u] paying_trans by auto
  qed simp
  then show "placed e tok i' x s t = fee" "paying s t" by simp_all
qed

lemma confirm_deduct_money:
  assumes "confirm_deduct e i j sh payment s = Inr (t, sh', adv, net, fee, bps)"
    "plain_terms s i j" "rates_ok s i" "\<not> is_final_milestone sh j" "0 \<le> payment"
  shows "placed e (sh_token sh) i x s t = fee" "sh' = sh" "adv = 0" "net = payment - fee" "0 \<le> net" "0 \<le> fee" "paying s t"
proof -
  obtain s2 s3 net0 fee0 primary where
    c: "deduct_fee_for_shipment_at_completion e payment (sh_token sh) i primary False s = Inr (s2, net0, fee0, bps)"
       "long_hold_rebate e s2 sh net0 fee0 = Inr (net, fee)"
       "check_circuit_breaker (sequence e) payment s2 = Inr s3"
       "check_address_outflow (sh_supplier sh) (sequence e) payment s3 = Inr t"
    and sh: "sh' = sh" "adv = 0"
    using assms(1,2,4)
    by (auto simp: confirm_deduct_def consume_advance_for_milestone_def bindE_Inr plain_terms_def)
  note d = deduct_completion_money [OF c(1)]
  note q = quiet_breaker [OF c(3)] quiet_outflow [OF c(4)]
  have "k_long_hold_rebate s2 = None" using d(2) assms(2) by (simp add: paying_def same_terms_def plain_terms_def)
  then have eq: "net0 = net" "fee0 = fee" using c(2) by (simp_all add: long_hold_rebate_def)
  note f = completion_fee_le [OF c(1) assms(3,5)]
  show "sh' = sh" "adv = 0" by (rule sh)+
  show "0 \<le> net" "0 \<le> fee" "net = payment - fee" using f eq by simp_all
  show "placed e (sh_token sh) i x s t = fee"
    using placed_trans [of e "sh_token sh" i x s t s2] placed_trans [of e "sh_token sh" i x s2 t s3]
      d(1) [of i x] eq placed_quiet [OF q(1)] placed_quiet [OF q(2)] by simp
  show "paying s t" using d(2) quiet_paying [OF q(1)] quiet_paying [OF q(2)] paying_trans by blast
qed

lemma confirm_book_money:
  assumes "confirm_book e b cb i j sh m payment s = Inr (t, sh')" "\<not> get_or False (k_incremental_collateral s i)"
  shows "quiet s t" "sh_early_bonus_remaining sh' = sh_early_bonus_remaining sh"
proof -
  let ?s1 = "if cb \<and> 0 < get_or 0 (ms_proof_submitted_ledger m)
     then update_buyer_reliability_on_confirmation e b (get_or 0 (ms_proof_submitted_ledger m)) s else s"
  obtain s3 vol primary where sh': "sh' = (set_milestone j (m\<lparr>ms_status := Confirmed\<rparr>)
        (append_audit_entry e b ''milestone_confirmed'' ''confirm_milestone'' sh))
          \<lparr>sh_released_amount := sh_released_amount sh + payment, sh_last_confirmed_milestone_index := Some j\<rparr>"
    and s3: "release_milestone_collateral_share e sh' i j
        (record_milestone_timeliness (sh_supplier sh') (m\<lparr>ms_status := Confirmed\<rparr>) ?s1) = Inr s3"
    and t: "t = s3\<lparr>k_lifetime_volume := (k_lifetime_volume s3)(primary \<mapsto> vol)\<rparr>"
    using assms by (auto simp: confirm_book_def Let_def bindE_Inr ck_i128_Inr append_audit_entry_def)
  let ?s2 = "record_milestone_timeliness (sh_supplier sh') (m\<lparr>ms_status := Confirmed\<rparr>) ?s1"
  have "quiet s ?s1" by (simp add: quiet_reliability)
  then have q: "quiet s ?s2" by (rule quiet_trans [OF _ quiet_timeliness])
  then have "same_terms s ?s2" by (simp only: quiet_def)
  then have "s3 = ?s2" using s3 assms(2) same_termsD(6) by (simp add: release_milestone_collateral_share_def)
  then have "quiet ?s2 t" by (simp add: t quiet_def same_terms_def)
  then show "quiet s t" using q quiet_trans by blast
  show "sh_early_bonus_remaining sh' = sh_early_bonus_remaining sh"
    by (simp add: sh' set_milestone_def append_audit_entry_def)
qed

lemma not_final_not_done:
  assumes "\<not> is_final_milestone sh j" "sh_milestones sh' = (sh_milestones sh)[j := m]"
  shows "\<not> all_milestones_done sh'"
  using assms unfolding is_final_milestone_def all_milestones_done_def
  by (metis in_set_conv_nth length_list_update nth_list_update_neq)

text \<open>
  A confirmation of gross value \<open>payment + pen\<close> places exactly that value and the early bonus,
  and takes \<open>payment\<close> off the escrow counter.
\<close>

lemma confirm_now_money:
  assumes "confirm_now e b cb i j sh (sh_milestones sh ! j) stats payment pen s = Inr t"
    "plain_terms s i j" "rates_ok s i" "\<not> is_final_milestone sh j" "0 \<le> payment" "0 \<le> pen"
  obtains bonus where
    "placed e (sh_token sh) i (get_or (sh_supplier sh) (k_milestone_supplier s (i, j))) s t = payment + pen + bonus"
    "0 \<le> bonus"
    "k_shipment t = (k_shipment s)(i := k_shipment t i)"
    "\<And>sh'. k_shipment t i = Some sh' \<Longrightarrow> sh_early_bonus_remaining sh' = sh_early_bonus_remaining sh - bonus"
    "get_or 0 (k_total_escrowed t (sh_token sh)) = max (free_escrow i (sh_token sh) s - payment
       + get_or 0 (k_retainage_balance t i) + get_or 0 (k_warranty_balance t i)) 0"
proof -
  let ?m = "sh_milestones sh ! j" and ?tok = "sh_token sh"
  let ?x = "get_or (sh_supplier sh) (k_milestone_supplier s (i, j))"
  obtain s1 sh1 adv net fee bps s2 sh2 s3 sh3 s4 sh4 s5 where
    c: "confirm_deduct e i j sh payment s = Inr (s1, sh1, adv, net, fee, bps)"
       "confirm_book e b cb i j sh1 ?m payment s1 = Inr (s2, sh2)"
       "confirm_pay e i j sh2 (ms_deadline_ledger ?m) payment net adv pen s2 = Inr (s3, sh3)"
       "confirm_complete e b i sh3 stats s3 = Inr (s4, sh4)"
       "close_release i sh4 (payment - adv) s4 = Inr s5"
    and t: "quiet s5 t"
    using assms(1) by (auto simp: confirm_now_def bindE_Inr ck_i128_Inr split: prod.splits)
  note d = confirm_deduct_money [OF c(1) assms(2-5)]
  have terms: "same_terms s s1" using d(7) by (simp add: paying_def)
  have inc: "\<not> get_or False (k_incremental_collateral s1 i)"
    using assms(2) same_termsD(6) [OF terms] by (simp add: plain_terms_def)
  note b = confirm_book_money [OF c(2) inc] book_deal [OF c(2)]
  have terms2: "same_terms s s2" using d(7) b(1) by (simp add: paying_def quiet_def same_terms_def)
  note tm = same_termsD [OF terms2]
  have plain: "percents (get_or [] (k_milestone_payees s2 (i, j))) \<le> 100" "holdback_ok s2 i"
    using assms(2) tm by (simp_all add: plain_terms_def holdback_ok_def)
  have "adv \<le> net" using d(3,5) by simp
  note p = confirm_pay_money [OF c(3) this assms(6) plain]
  have tok: "sh_token sh2 = ?tok" "sh_supplier sh2 = sh_supplier sh" using b(7,8) d(2) by simp_all
  have "sh_milestones sh3 = (sh_milestones sh)[j := ?m\<lparr>ms_status := Confirmed\<rparr>]"
    using same_dealD(1) [OF pay_deal(1) [OF c(3)]] b(3) d(2) by simp
  then have "\<not> all_milestones_done sh3" by (rule not_final_not_done [OF assms(4)])
  then have s4: "s4 = s3" "sh4 = sh3" using c(4) by (simp_all add: confirm_complete_def)
  have cl: "k_shipment s5 = (k_shipment s3)(i \<mapsto> sh3)" "calls s5 = calls s3" "k_pending_payout s5 = k_pending_payout s3"
    "k_retainage_balance s5 = k_retainage_balance s3" "k_warranty_balance s5 = k_warranty_balance s3"
    "k_total_escrowed s5 = (k_total_escrowed s3)(sh_token sh3 \<mapsto> max (get_or 0 (k_total_escrowed s3 (sh_token sh3)) - payment) 0)"
    using close_release_Inr [OF c(5)] s4 d(3) by simp_all
  define bonus where "bonus = sh_early_bonus_remaining sh - sh_early_bonus_remaining sh3"
  have "placed e ?tok i ?x s3 s5 = 0" using cl by (simp add: placed_def spent_def set_aside_def)
  then have pl: "placed e ?tok i ?x s t = payment + pen + bonus"
    using placed_trans [of e ?tok i ?x s t s1] placed_trans [of e ?tok i ?x s1 t s2]
      placed_trans [of e ?tok i ?x s2 t s3] placed_trans [of e ?tok i ?x s3 t s5]
      d(1) [of ?x] d(2-4) placed_quiet [OF b(1)] p(1) tok b(2) tm placed_quiet [OF t] by (simp add: bonus_def)
  have sh: "k_shipment t = (k_shipment s)(i \<mapsto> sh3)"
    using cl(1) pay_deal(2) [OF c(3)] b(10) deduct_deal(2) [OF c(1)] quiet_ship [OF t] by simp
  have tok3: "sh_token sh3 = ?tok" using same_dealD(5) [OF pay_deal(1) [OF c(3)]] tok by simp
  have "free_escrow i ?tok s3 = free_escrow i ?tok s"
    using p(2) tok paying_escrow [OF d(7)] paying_escrow [OF quiet_paying [OF b(1)]] by simp
  then have esc: "get_or 0 (k_total_escrowed t ?tok) = max (free_escrow i ?tok s - payment
       + get_or 0 (k_retainage_balance t i) + get_or 0 (k_warranty_balance t i)) 0"
    using cl(4-6) quietD(4-6) [OF t] tok3 by (simp add: free_escrow_def)
  show thesis
    by (rule that [OF pl _ _ _ esc]) (use sh p(3) b(2) d(2) in \<open>simp_all add: bonus_def\<close>)
qed

end
