(* ===== verification/SettleDocs.thy ===== *)
theory SettleDocs
  imports SettleConfirm
begin

text \<open>
  The document-hash registry and the archive (\<^verbatim>\<open>lib.rs\<close>, lines 6417 to 6614 and
  18574 to 18662): invoice and bill-of-lading hashes are owned by one shipment at a time and are
  released when a shipment is cancelled or archived.
\<close>

section \<open>The registry\<close>

definition assert_doc_hash_unused :: "settle \<Rightarrow> hash \<Rightarrow> sid \<Rightarrow> unit res" where
  "assert_doc_hash_unused s h i =
     (case k_doc_hash_owner s h of
        Some owner \<Rightarrow> if owner \<noteq> i then Inl (Panic ''document hash already used'') else Inr ()
      | None \<Rightarrow> Inr ())"

definition register_doc_hash :: "hash \<Rightarrow> sid \<Rightarrow> settle \<Rightarrow> settle res" where
  "register_doc_hash h i s =
     bindE (assert_doc_hash_unused s h i) (\<lambda>_.
     Inr (s\<lparr>k_doc_hash_owner := (k_doc_hash_owner s)(h \<mapsto> i)\<rparr>))"

text \<open>One round of the release loop: the invoice of milestone \<open>j\<close>, then its bill of lading.\<close>

definition free_hash :: "hash option \<Rightarrow> settle \<Rightarrow> settle" where
  "free_hash h s =
     (case h of None \<Rightarrow> s | Some x \<Rightarrow> s\<lparr>k_doc_hash_owner := (k_doc_hash_owner s)(x := None)\<rparr>)"

definition release_shipment_doc_hashes :: "sid \<Rightarrow> nat \<Rightarrow> settle \<Rightarrow> settle" where
  "release_shipment_doc_hashes i n s =
     foldl (\<lambda>s j. free_hash (k_bol_hash s (i, j)) (free_hash (k_invoice_hash s (i, j)) s)) s [0..<n]"

section \<open>Attaching\<close>

definition attach_checks :: "settle_env \<Rightarrow> addr \<Rightarrow> sid \<Rightarrow> nat \<Rightarrow> hash option \<Rightarrow> string \<Rightarrow> string \<Rightarrow> settle \<Rightarrow> shipment res" where
  "attach_checks e caller i j old set_msg early_msg s =
     bindE (assert_not_paused s) (\<lambda>_.
     bindE (get_shipment_internal s i) (\<lambda>sh.
     bindE (assert_active sh) (\<lambda>_.
     bindE (require_supplier_auth e sh caller) (\<lambda>_.
     if length (sh_milestones sh) \<le> j then Inl (Panic ''invalid milestone index'')
     else if old \<noteq> None then Inl (Panic set_msg)
     else if ms_status (sh_milestones sh ! j) = Pending then Inl (Panic early_msg)
     else Inr sh))))"

definition attach_invoice_hash :: "settle_env \<Rightarrow> addr \<Rightarrow> sid \<Rightarrow> nat \<Rightarrow> hash \<Rightarrow> settle \<Rightarrow> settle res" where
  "attach_invoice_hash e caller i j h s =
     bindE (attach_checks e caller i j (k_invoice_hash s (i, j))
              ''invoice hash already set and is immutable''
              ''proof must be submitted before attaching invoice hash'' s) (\<lambda>sh.
     bindE (register_doc_hash h i s) (\<lambda>s1.
     Inr (emit [VStr ''invoice_hash_attached'', VStr i] [VNat j, VNat h, VAddr caller]
            (s1\<lparr>k_invoice_hash := (k_invoice_hash s1)((i, j) \<mapsto> h),
                k_shipment := (k_shipment s1)(i \<mapsto>
                  append_audit_entry e caller ''invoice_hash_attached'' ''attach_invoice_hash'' sh)\<rparr>))))"

definition attach_bol_hash :: "settle_env \<Rightarrow> addr \<Rightarrow> sid \<Rightarrow> nat \<Rightarrow> hash \<Rightarrow> settle \<Rightarrow> settle res" where
  "attach_bol_hash e caller i j h s =
     bindE (attach_checks e caller i j (k_bol_hash s (i, j))
              ''bol hash already set and is immutable''
              ''proof must be submitted before attaching bol hash'' s) (\<lambda>sh.
     bindE (register_doc_hash h i s) (\<lambda>s1.
     Inr (emit [VStr ''bol_hash_attached'', VStr i] [VNat j, VNat h, VAddr caller]
            (s1\<lparr>k_bol_hash := (k_bol_hash s1)((i, j) \<mapsto> h),
                k_shipment := (k_shipment s1)(i \<mapsto>
                  append_audit_entry e caller ''bol_hash_attached'' ''attach_bol_hash'' sh)\<rparr>))))"

section \<open>Archive\<close>

definition set_archive_threshold :: "settle_env \<Rightarrow> addr \<Rightarrow> nat \<Rightarrow> settle \<Rightarrow> settle res" where
  "set_archive_threshold e adm n =
     admin_set e adm ''archive_threshold_set'' [VNat n] (\<lambda>s. s\<lparr>k_archive_threshold := Some n\<rparr>)"

fun VStatus :: "shipment_status \<Rightarrow> val" where
  "VStatus Active = VStr ''Active''"
| "VStatus Completed = VStr ''Completed''"
| "VStatus Cancelled = VStr ''Cancelled''"
| "VStatus Expired = VStr ''Expired''"

definition archive_shipment :: "settle_env \<Rightarrow> addr \<Rightarrow> sid \<Rightarrow> settle \<Rightarrow> settle res" where
  "archive_shipment e caller i s =
     bindE (require_auth e caller) (\<lambda>_.
     let threshold = get_or 0 (k_archive_threshold s)
     in if threshold = 0 then Inl (Panic ''archival is disabled'')
        else if k_archived s i \<noteq> None then Inl (Panic ''shipment already archived'')
        else
        bindE (get_shipment_internal s i) (\<lambda>sh.
        if sh_status sh \<noteq> Completed \<and> sh_status sh \<noteq> Cancelled
        then Inl (Panic ''only completed or cancelled shipments can be archived'')
        else if sequence e - sh_created_at sh < threshold
        then Inl (Panic ''shipment not old enough to archive'')
        else if 0 < get_or 0 (k_warranty_balance s i) then Inl (Panic ''warranty holdback still in escrow'')
        else
        bindE (expect (vec_get (sh_buyers sh) 0) ''shipment has no buyers'') (\<lambda>primary.
        let archived = \<lparr>ars_id = i, ars_buyer = primary, ars_supplier = sh_supplier sh,
              ars_status = sh_status sh, ars_total_amount = sh_total_amount sh,
              ars_released_amount = sh_released_amount sh, ars_completed_at = sh_created_at sh\<rparr>;
            s1 = s\<lparr>k_archived := (k_archived s)(i \<mapsto> archived), k_shipment := (k_shipment s)(i := None),
                   k_cancel_policy := (k_cancel_policy s)(i := None)\<rparr>
        in Inr (emit [VStr ''shipment_archived'', VStr i] [VStatus (ars_status archived), VNat (ars_completed_at archived)]
             (release_shipment_doc_hashes i (length (sh_milestones sh)) s1)))))"

section \<open>Lemmas\<close>

text \<open>Hash \<open>h\<close> is attached to milestone \<open>j\<close> of shipment \<open>i\<close>.\<close>

definition attached :: "settle \<Rightarrow> sid \<Rightarrow> nat \<Rightarrow> hash \<Rightarrow> bool" where
  "attached s i j h \<longleftrightarrow> k_invoice_hash s (i, j) = Some h \<or> k_bol_hash s (i, j) = Some h"

lemma free_hash_simps [simp]:
  "k_invoice_hash (free_hash h s) = k_invoice_hash s" "k_bol_hash (free_hash h s) = k_bol_hash s"
  "k_shipment (free_hash h s) = k_shipment s"
  "k_doc_hash_owner (free_hash h s) = (\<lambda>x. if h = Some x then None else k_doc_hash_owner s x)"
  by (auto simp: free_hash_def split: option.splits)

lemma release_doc_hashes:
  "k_doc_hash_owner (release_shipment_doc_hashes i n s)
     = (\<lambda>h. if \<exists>j<n. attached s i j h then None else k_doc_hash_owner s h) \<and>
   k_invoice_hash (release_shipment_doc_hashes i n s) = k_invoice_hash s \<and>
   k_bol_hash (release_shipment_doc_hashes i n s) = k_bol_hash s \<and>
   k_shipment (release_shipment_doc_hashes i n s) = k_shipment s"
proof (induction n)
  case (Suc n)
  let ?r = "release_shipment_doc_hashes i n s"
  have step: "release_shipment_doc_hashes i (Suc n) s
      = free_hash (k_bol_hash ?r (i, n)) (free_hash (k_invoice_hash ?r (i, n)) ?r)"
    by (simp add: release_shipment_doc_hashes_def)
  show ?case
    using Suc by (auto simp: step attached_def fun_eq_iff less_Suc_eq)
qed (simp add: release_shipment_doc_hashes_def)

lemmas release_doc_owner = release_doc_hashes [THEN conjunct1]

text \<open>
  The promise of the registry: whatever is attached to a milestone of an active shipment is owned
  by that shipment.
\<close>

definition docs_owned :: "settle \<Rightarrow> bool" where
  "docs_owned s \<longleftrightarrow>
     (\<forall>i sh j h. k_shipment s i = Some sh \<and> sh_status sh = Active \<and> attached s i j h
        \<longrightarrow> k_doc_hash_owner s h = Some i)"

lemma docs_ownedD:
  "docs_owned s \<Longrightarrow> k_shipment s i = Some sh \<Longrightarrow> sh_status sh = Active \<Longrightarrow> attached s i j h \<Longrightarrow>
   k_doc_hash_owner s h = Some i"
  by (auto simp: docs_owned_def)

lemma register_Inr:
  "register_doc_hash h i s = Inr t \<longleftrightarrow>
     (k_doc_hash_owner s h = None \<or> k_doc_hash_owner s h = Some i) \<and>
     t = s\<lparr>k_doc_hash_owner := (k_doc_hash_owner s)(h \<mapsto> i)\<rparr>"
  by (auto simp: register_doc_hash_def assert_doc_hash_unused_def bindE_Inr split: option.splits if_splits)

lemma attach_checks_Inr:
  "attach_checks e caller i j old a b s = Inr sh \<Longrightarrow>
     k_shipment s i = Some sh \<and> sh_status sh = Active \<and> old = None \<and> j < length (sh_milestones sh) \<and>
     caller = sh_supplier sh \<and> caller \<in> set (signers e)"
  by (auto simp: attach_checks_def bindE_Inr get_shipment_internal_def expect_Inr assert_active_def
      require_supplier_auth_def require_auth_Inr ensure_Inr split: if_splits)

lemma attach_keeps_owned:
  assumes "docs_owned s" "k_shipment s i = Some sh" "sh_status sh = Active"
    and "k_doc_hash_owner s h = None \<or> k_doc_hash_owner s h = Some i"
    and "k_doc_hash_owner t = (k_doc_hash_owner s)(h \<mapsto> i)"
    and "\<And>x. (\<exists>y. k_shipment t x = Some y \<and> sh_status y = Active) \<longleftrightarrow>
              (\<exists>y. k_shipment s x = Some y \<and> sh_status y = Active)"
    and "\<And>i' j' h'. attached t i' j' h' \<Longrightarrow> attached s i' j' h' \<or> i' = i \<and> h' = h"
  shows "docs_owned t"
  unfolding docs_owned_def
proof (intro allI impI, elim conjE)
  fix i' sh' j' h'
  assume a: "k_shipment t i' = Some sh'" "sh_status sh' = Active" "attached t i' j' h'"
  show "k_doc_hash_owner t h' = Some i'"
  proof (cases "i' = i \<and> h' = h")
    case False
    then have at: "attached s i' j' h'" using assms(7) [OF a(3)] by blast
    obtain y where "k_shipment s i' = Some y" "sh_status y = Active" using a assms(6) by blast
    then have own: "k_doc_hash_owner s h' = Some i'" using docs_ownedD [OF assms(1)] at by blast
    then show ?thesis using assms(4,5) by auto
  qed (simp add: assms(5))
qed

lemma attach_invoice_owned:
  assumes "attach_invoice_hash e caller i j h s = Inr t" "docs_owned s"
  shows "docs_owned t" and "k_doc_hash_owner t h = Some i" and "attached t i j h"
proof -
  obtain sh where sh: "k_shipment s i = Some sh" "sh_status sh = Active" "k_invoice_hash s (i, j) = None"
    and own: "k_doc_hash_owner s h = None \<or> k_doc_hash_owner s h = Some i"
    and t: "k_doc_hash_owner t = (k_doc_hash_owner s)(h \<mapsto> i)"
      "k_invoice_hash t = (k_invoice_hash s)((i, j) \<mapsto> h)" "k_bol_hash t = k_bol_hash s"
      "k_shipment t = (k_shipment s)(i \<mapsto> append_audit_entry e caller ''invoice_hash_attached'' ''attach_invoice_hash'' sh)"
    using assms(1)
    by (auto simp: attach_invoice_hash_def bindE_Inr register_Inr emit_def dest!: attach_checks_Inr)
  show "docs_owned t"
    by (rule attach_keeps_owned [OF assms(2) sh(1,2) own t(1)])
       (use sh t in \<open>auto simp: attached_def append_audit_entry_def split: if_splits\<close>)
  show "k_doc_hash_owner t h = Some i" "attached t i j h" using t by (simp_all add: attached_def)
qed

lemma attach_bol_owned:
  assumes "attach_bol_hash e caller i j h s = Inr t" "docs_owned s"
  shows "docs_owned t" and "k_doc_hash_owner t h = Some i" and "attached t i j h"
proof -
  obtain sh where sh: "k_shipment s i = Some sh" "sh_status sh = Active" "k_bol_hash s (i, j) = None"
    and own: "k_doc_hash_owner s h = None \<or> k_doc_hash_owner s h = Some i"
    and t: "k_doc_hash_owner t = (k_doc_hash_owner s)(h \<mapsto> i)"
      "k_bol_hash t = (k_bol_hash s)((i, j) \<mapsto> h)" "k_invoice_hash t = k_invoice_hash s"
      "k_shipment t = (k_shipment s)(i \<mapsto> append_audit_entry e caller ''bol_hash_attached'' ''attach_bol_hash'' sh)"
    using assms(1)
    by (auto simp: attach_bol_hash_def bindE_Inr register_Inr emit_def dest!: attach_checks_Inr)
  show "docs_owned t"
    by (rule attach_keeps_owned [OF assms(2) sh(1,2) own t(1)])
       (use sh t in \<open>auto simp: attached_def append_audit_entry_def split: if_splits\<close>)
  show "k_doc_hash_owner t h = Some i" "attached t i j h" using t by (simp_all add: attached_def)
qed

text \<open>Two active shipments never share an attached document.\<close>

lemma docs_owned_unique:
  "docs_owned s \<Longrightarrow> k_shipment s i = Some x \<Longrightarrow> sh_status x = Active \<Longrightarrow> attached s i j h \<Longrightarrow>
   k_shipment s i' = Some y \<Longrightarrow> sh_status y = Active \<Longrightarrow> attached s i' j' h \<Longrightarrow> i = i'"
  using docs_ownedD by (metis option.inject)

end
