(* ===== verification/SettleLimits.thy ===== *)
theory SettleLimits
  imports SettlePayout
begin

text \<open>
  The rolling-window limits of the settlement contract (\<^verbatim>\<open>lib.rs\<close>, lines 8906 to 9240):
  what a buyer may spend, how many shipments a supplier may get, how often a supplier may cancel.
  All three satisfy the contract of the outflow limiters, with a count of one per call for the
  last two.
\<close>

section \<open>Buyer spending\<close>

definition set_buyer_spending_limit :: "settle_env \<Rightarrow> addr \<Rightarrow> addr \<Rightarrow> int \<Rightarrow> nat \<Rightarrow> settle \<Rightarrow> settle res" where
  "set_buyer_spending_limit e adm b lim w s =
     bindE (as_admin e adm s) (\<lambda>_.
     if lim < 0 then Inl (Panic ''limit must be non-negative'')
     else Inr (emit [VStr ''buyer_spending_limit_set'', VAddr b] [VInt lim, VNat w]
            (s\<lparr>k_spending_limit := (k_spending_limit s)(b \<mapsto> (lim, w))\<rparr>)))"

text \<open>Has the window that started at \<open>start\<close> run out?\<close>

definition window_over :: "nat \<Rightarrow> nat \<Rightarrow> nat \<Rightarrow> bool res" where
  "window_over now start w = (if w = 0 then Inr True else bindE (ck_u32 (start + w)) (\<lambda>n. Inr (n \<le> now)))"

definition current_buyer_spending_usage :: "settle_env \<Rightarrow> settle \<Rightarrow> addr \<Rightarrow> int res" where
  "current_buyer_spending_usage e s b =
     (case k_spending_limit s b of
        None \<Rightarrow> Inr 0
      | Some (_, w) \<Rightarrow>
          let (start, used) = get_or (0, 0) (k_spending_usage s b)
          in bindE (window_over (sequence e) start w) (\<lambda>over. Inr (if over then 0 else used)))"

definition check_and_record_buyer_spending :: "addr \<Rightarrow> nat \<Rightarrow> int \<Rightarrow> settle \<Rightarrow> settle res" where
  "check_and_record_buyer_spending b now amount s =
     (case k_spending_limit s b of
        None \<Rightarrow> Inr s
      | Some (lim, w) \<Rightarrow>
          if lim = 0 then Inr s
          else
          let (start, used) = get_or (0, 0) (k_spending_usage s b)
          in bindE (window_over now start w) (\<lambda>over.
             bindE (ck_i128 ((if over then 0 else used) + amount)) (\<lambda>total_used.
             if lim < total_used then Inl (Panic ''buyer spending limit exceeded'')
             else Inr (s\<lparr>k_spending_usage := (k_spending_usage s)(b \<mapsto> (if over then now else start, total_used))\<rparr>))))"

section \<open>Shipment creation\<close>

definition set_shipment_creation_rate_limit :: "settle_env \<Rightarrow> addr \<Rightarrow> nat \<Rightarrow> nat \<Rightarrow> settle \<Rightarrow> settle res" where
  "set_shipment_creation_rate_limit e adm mx w s =
     bindE (as_admin e adm s) (\<lambda>_.
     if mx \<noteq> 0 \<and> w = 0 then Inl (Panic ''window_ledgers must be greater than zero'')
     else Inr (emit [VStr ''shipment_rate_limit_set''] [VNat mx, VNat w]
            (s\<lparr>k_creation_limit := (if mx = 0 then None else Some (mx, w))\<rparr>)))"

definition add_rate_limit_exemption :: "settle_env \<Rightarrow> addr \<Rightarrow> addr \<Rightarrow> settle \<Rightarrow> settle res" where
  "add_rate_limit_exemption e adm a =
     admin_set e adm ''rate_limit_exemption_added'' [VAddr a]
       (\<lambda>s. s\<lparr>k_rate_exempt := (k_rate_exempt s)(a \<mapsto> True)\<rparr>)"

definition remove_rate_limit_exemption :: "settle_env \<Rightarrow> addr \<Rightarrow> addr \<Rightarrow> settle \<Rightarrow> settle res" where
  "remove_rate_limit_exemption e adm a =
     admin_set e adm ''rate_limit_exemption_removed'' [VAddr a]
       (\<lambda>s. s\<lparr>k_rate_exempt := (k_rate_exempt s)(a := None)\<rparr>)"

definition is_rate_limit_exempt :: "settle \<Rightarrow> addr \<Rightarrow> bool" where
  "is_rate_limit_exempt s a = get_or False (k_rate_exempt s a)"

definition check_and_record_shipment_creation :: "addr \<Rightarrow> nat \<Rightarrow> settle \<Rightarrow> settle res" where
  "check_and_record_shipment_creation a now s =
     (case k_creation_limit s of
        None \<Rightarrow> Inr s
      | Some (mx, w) \<Rightarrow>
          if is_rate_limit_exempt s a then Inr s
          else
          let (start, count) = get_or (0, 0) (k_creation_usage s a);
              over = (count = 0 \<or> sat_add_u32 start w \<le> now);
              count0 = (if over then 0 else count)
          in if mx \<le> count0 then Inl (Panic ''shipment creation rate limit exceeded'')
             else bindE (ck_u32 (count0 + 1)) (\<lambda>n.
               Inr (s\<lparr>k_creation_usage := (k_creation_usage s)(a \<mapsto> (if over then now else start, n))\<rparr>)))"

section \<open>Supplier cancellations\<close>

definition set_supplier_cancel_cooldown ::
  "settle_env \<Rightarrow> addr \<Rightarrow> addr \<Rightarrow> nat \<Rightarrow> nat \<Rightarrow> nat \<Rightarrow> settle \<Rightarrow> settle res" where
  "set_supplier_cancel_cooldown e adm a mx w cd =
     admin_set e adm ''supplier_cancel_cooldown_set'' [VAddr a, VNat mx, VNat w, VNat cd]
       (\<lambda>s. s\<lparr>k_cancel_cooldown := (k_cancel_cooldown s)(a \<mapsto> (mx, w, cd))\<rparr>)"

text \<open>
  On a breach the source writes the end of the cooldown and then panics: the write belongs to a
  call that traps, so it is not part of any resulting state.
\<close>

definition check_and_record_supplier_cancellation :: "addr \<Rightarrow> nat \<Rightarrow> settle \<Rightarrow> settle res" where
  "check_and_record_supplier_cancellation a now s =
     (if now < get_or 0 (k_cancel_until s a) then Inl (Panic ''supplier cancellation cooldown active'')
      else (case k_cancel_cooldown s a of
          None \<Rightarrow> Inr s
        | Some (mx, w, cd) \<Rightarrow>
            if mx = 0 then Inr s
            else
            let (start, count) = get_or (0, 0) (k_cancel_usage s a)
            in bindE (window_over now start w) (\<lambda>over.
               bindE (ck_u32 ((if over then 0 else count) + 1)) (\<lambda>n.
               if mx < n
               then bindE (if 0 < cd then bindE (ck_u32 (now + cd)) (\<lambda>u.
                             Inr (s\<lparr>k_cancel_until := (k_cancel_until s)(a \<mapsto> u)\<rparr>)) else Inr s) (\<lambda>_.
                    Inl (Panic ''supplier cancellation cooldown active''))
               else Inr (s\<lparr>k_cancel_usage := (k_cancel_usage s)(a \<mapsto> (if over then now else start, n))\<rparr>)))))"

section \<open>They are limiters\<close>

definition spending_lim :: "addr \<Rightarrow> settle \<Rightarrow> int" where
  "spending_lim b s = get_or 0 (map_option fst (k_spending_limit s b))"

definition spending_end :: "addr \<Rightarrow> settle \<Rightarrow> nat" where
  "spending_end b s =
     (let w = get_or 0 (map_option snd (k_spending_limit s b))
      in if w = 0 then 0 else fst (get_or (0, 0) (k_spending_usage s b)) + w)"

definition spending_used :: "addr \<Rightarrow> settle \<Rightarrow> int" where
  "spending_used b s = snd (get_or (0, 0) (k_spending_usage s b))"

lemma buyer_spending_Inr:
  assumes "check_and_record_buyer_spending b now p s = Inr t"
  shows "spending_lim b t = spending_lim b s"
    and "spending_lim b s \<noteq> 0 \<Longrightarrow> spending_used b t \<le> spending_lim b s"
    and "spending_lim b s \<noteq> 0 \<Longrightarrow> now < spending_end b s \<Longrightarrow>
           spending_used b t = spending_used b s + p \<and> spending_end b t = spending_end b s"
  using assms
  by (auto simp: check_and_record_buyer_spending_def spending_lim_def spending_end_def spending_used_def
      window_over_def bindE_Inr ck_u32_Inr ck_i128_Inr Let_def split: option.splits prod.splits if_splits)

interpretation spending: outflow_limiter
  "spending_lim b" "spending_end b" "spending_used b" "\<lambda>p. p" "check_and_record_buyer_spending b" for b
  by unfold_locales (rule buyer_spending_Inr; assumption)+

definition creation_lim :: "addr \<Rightarrow> settle \<Rightarrow> int" where
  "creation_lim a s = (if is_rate_limit_exempt s a then 0 else get_or 0 (map_option (int \<circ> fst) (k_creation_limit s)))"

definition creation_end :: "addr \<Rightarrow> settle \<Rightarrow> nat" where
  "creation_end a s =
     (let (start, count) = get_or (0, 0) (k_creation_usage s a)
      in if count = 0 then 0 else sat_add_u32 start (get_or 0 (map_option snd (k_creation_limit s))))"

definition creation_used :: "addr \<Rightarrow> settle \<Rightarrow> int" where
  "creation_used a s = int (snd (get_or (0, 0) (k_creation_usage s a)))"

text \<open>A configured limit is never zero: the setter removes the entry instead.\<close>

lemma creation_Inr:
  assumes "check_and_record_shipment_creation a now s = Inr t"
  shows "creation_lim a t = creation_lim a s"
    and "creation_lim a s \<noteq> 0 \<Longrightarrow> creation_used a t \<le> creation_lim a s"
    and "creation_lim a s \<noteq> 0 \<Longrightarrow> now < creation_end a s \<Longrightarrow>
           creation_used a t = creation_used a s + 1 \<and> creation_end a t = creation_end a s"
proof -
  obtain start count where u: "get_or (0, 0) (k_creation_usage s a) = (start, count)" by fastforce
  note call = assms [unfolded check_and_record_shipment_creation_def u]
  have key: "k_creation_limit t = k_creation_limit s" "k_rate_exempt t = k_rate_exempt s"
    using call by (auto simp: bindE_Inr ck_u32_Inr Let_def split: option.splits if_splits)
  then show "creation_lim a t = creation_lim a s"
    by (simp add: creation_lim_def is_rate_limit_exempt_def)
  assume lim: "creation_lim a s \<noteq> 0"
  then obtain mx w where cfg: "k_creation_limit s = Some (mx, w)" "\<not> is_rate_limit_exempt s a"
    "creation_lim a s = int mx"
    by (auto simp: creation_lim_def split: if_splits option.splits) (metis get_or_simps(1,2) not_None_eq option.map(1) surj_pair)
  let ?over = "count = 0 \<or> sat_add_u32 start w \<le> now"
  have t: "get_or (0, 0) (k_creation_usage t a) = (if ?over then now else start, (if ?over then 0 else count) + 1)"
    "(if ?over then 0 else count) < mx"
    using call cfg(1,2) by (auto simp: bindE_Inr ck_u32_Inr Let_def split: if_splits)
  show "creation_used a t \<le> creation_lim a s"
    using t by (simp add: creation_used_def cfg(3))
  assume "now < creation_end a s"
  then have "\<not> ?over" by (auto simp: creation_end_def u cfg(1) split: if_splits)
  then show "creation_used a t = creation_used a s + 1 \<and> creation_end a t = creation_end a s"
    using t(1) key(1) by (simp add: creation_used_def creation_end_def u cfg(1))
qed

interpretation creation: outflow_limiter
  "creation_lim a" "creation_end a" "creation_used a" "\<lambda>_ :: unit. 1"
  "\<lambda>now _. check_and_record_shipment_creation a now" for a
  by unfold_locales (rule creation_Inr; assumption)+

definition cancel_lim :: "addr \<Rightarrow> settle \<Rightarrow> int" where
  "cancel_lim a s = get_or 0 (map_option (int \<circ> fst) (k_cancel_cooldown s a))"

definition cancel_end :: "addr \<Rightarrow> settle \<Rightarrow> nat" where
  "cancel_end a s =
     (let w = get_or 0 (map_option (fst \<circ> snd) (k_cancel_cooldown s a))
      in if w = 0 then 0 else fst (get_or (0, 0) (k_cancel_usage s a)) + w)"

definition cancel_used :: "addr \<Rightarrow> settle \<Rightarrow> int" where
  "cancel_used a s = int (snd (get_or (0, 0) (k_cancel_usage s a)))"

lemma cancellation_Inr:
  assumes "check_and_record_supplier_cancellation a now s = Inr t"
  shows "cancel_lim a t = cancel_lim a s"
    and "cancel_lim a s \<noteq> 0 \<Longrightarrow> cancel_used a t \<le> cancel_lim a s"
    and "cancel_lim a s \<noteq> 0 \<Longrightarrow> now < cancel_end a s \<Longrightarrow>
           cancel_used a t = cancel_used a s + 1 \<and> cancel_end a t = cancel_end a s"
    and "k_cancel_until t = k_cancel_until s"
  using assms
  by (auto simp: check_and_record_supplier_cancellation_def cancel_lim_def cancel_end_def cancel_used_def
      window_over_def bindE_Inr ck_u32_Inr Let_def split: option.splits prod.splits if_splits)

interpretation cancellation: outflow_limiter
  "cancel_lim a" "cancel_end a" "cancel_used a" "\<lambda>_ :: unit. 1"
  "\<lambda>now _. check_and_record_supplier_cancellation a now" for a
  by unfold_locales (rule cancellation_Inr; assumption)+

end
