(* ===== verification/SettleCancel.thy ===== *)
theory SettleCancel
  imports SettleDocs SettleLimits
begin

text \<open>
  Ending a shipment early and what surrounds disputes (\<^verbatim>\<open>lib.rs\<close>): cancellation by the
  buyer, alone or in a batch, and by the supplier, with the pruning of auxiliary keys
  (\<^verbatim>\<open>storage.rs\<close>, lines 640 to 955), withdrawal of a dispute, evidence, and the rating of the
  counterparty.
\<close>

section \<open>Pruning\<close>

text \<open>
  The per-shipment and per-milestone keys that are removed although no modelled operation reads
  them, by the name of their variant.
\<close>

definition aux_shipment_keys :: "string set" where
  "aux_shipment_keys = set
     [''V1ArbiterRotation'', ''DisputeDecayStartLedger'', ''MilestoneMergeProposal'', ''MilestoneSplitProposal'',
      ''PendingExpiryExtension'', ''TotalExpiryExtended'']"

definition aux_milestone_keys :: "string set" where
  "aux_milestone_keys = set
     [''V1Amendment'', ''V1ProofSubmittedAt'', ''AmendmentLog'', ''ExtensionRequest'',
      ''EffectiveDisputeBond'', ''MilestoneNotes'', ''SubstituteProposal'']"

text \<open>Remove the entries of the first \<open>n\<close> milestones of a shipment.\<close>

definition drop_rows :: "sid \<Rightarrow> nat \<Rightarrow> (sid \<times> nat \<Rightarrow> 'v option) \<Rightarrow> sid \<times> nat \<Rightarrow> 'v option" where
  "drop_rows i n f = (\<lambda>(x, j). if x = i \<and> j < n then None else f (x, j))"

definition prune_shipment_auxiliary_keys :: "sid \<Rightarrow> nat \<Rightarrow> settle \<Rightarrow> settle" where
  "prune_shipment_auxiliary_keys i n s =
     s\<lparr>k_milestone_splits := (k_milestone_splits s)(i := None),
       k_shipment_fee_bps := (k_shipment_fee_bps s)(i := None),
       k_shipment_confirmation_cooldown := (k_shipment_confirmation_cooldown s)(i := None),
       k_milestone_deadline := drop_rows i n (k_milestone_deadline s),
       k_milestone_payees := drop_rows i n (k_milestone_payees s),
       k_dispute_evidence := drop_rows i n (k_dispute_evidence s),
       k_co_buyer := (k_co_buyer s)(i := None),
       k_compliance_hold := (k_compliance_hold s)(i := None),
       k_shipment_paused := (k_shipment_paused s)(i := None),
       k_pause_request := (k_pause_request s)(i := None),
       k_paused_at := (k_paused_at s)(i := None),
       k_retainage_bps := (k_retainage_bps s)(i := None),
       k_warranty_config := (k_warranty_config s)(i := None),
       k_joint_confirmation := drop_rows i n (k_joint_confirmation s),
       k_pending_grade := drop_rows i n (k_pending_grade s),
       k_grade_dispute := drop_rows i n (k_grade_dispute s),
       k_partial_qty_released := drop_rows i n (k_partial_qty_released s),
       k_incremental_collateral := (k_incremental_collateral s)(i := None),
       k_incremental_collateral_base := (k_incremental_collateral_base s)(i := None),
       k_inspected_milestones := (k_inspected_milestones s)(i := None),
       k_inspection_report := drop_rows i n (k_inspection_report s),
       k_shipment_fees_paid := (k_shipment_fees_paid s)(i := None),
       k_shipment_had_dispute := (k_shipment_had_dispute s)(i := None),
       k_milestone_supplier := drop_rows i n (k_milestone_supplier s),
       k_fund_from_vault := (k_fund_from_vault s)(i := None),
       k_payout_assignment := (k_payout_assignment s)(i := None),
       k_completed_at_ledger := (k_completed_at_ledger s)(i := None),
       k_refund_recipient := (k_refund_recipient s)(i := None),
       k_confirmation_delegate := (k_confirmation_delegate s)(i := None),
       k_supplier_collateral := (k_supplier_collateral s)(i := None),
       k_advance_request := drop_rows i n (k_advance_request s),
       k_backup_arbiter := (k_backup_arbiter s)(i := None),
       k_arbiter_panel := (k_arbiter_panel s)(i := None),
       k_loser_pays := (k_loser_pays s)(i := None),
       k_shipment_mediator := (k_shipment_mediator s)(i := None),
       k_dispute_opened_at := drop_rows i n (k_dispute_opened_at s),
       k_dispute_votes := drop_rows i n (k_dispute_votes s),
       k_dispute_resolved_at := drop_rows i n (k_dispute_resolved_at s),
       k_dispute_appealed := drop_rows i n (k_dispute_appealed s),
       k_mediation_proposal := drop_rows i n (k_mediation_proposal s),
       k_dispute_contested_percent := drop_rows i n (k_dispute_contested_percent s),
       k_timestamp_deadlines := (k_timestamp_deadlines s)(i := None),
       k_proof_submitter := drop_rows i n (k_proof_submitter s),
       k_quality_grades := (k_quality_grades s)(i := None),
       k_milestone_quantities := (k_milestone_quantities s)(i := None),
       k_milestone_grade := drop_rows i n (k_milestone_grade s),
       k_delivered_quantity := drop_rows i n (k_delivered_quantity s),
       k_shipment_inspector := (k_shipment_inspector s)(i := None),
       k_proof_submitters := (k_proof_submitters s)(i := None),
       k_require_dual_attestation := (k_require_dual_attestation s)(i := None),
       k_pending_dual_proof := drop_rows i n (k_pending_dual_proof s),
       k_breach_reports := drop_rows i n (k_breach_reports s),
       k_collateral_token := (k_collateral_token s)(i := None),
       k_is_consortium := (k_is_consortium s)(i := None),
       k_collateral_slash_bps := (k_collateral_slash_bps s)(i := None),
       k_collateral_slashed := drop_rows i n (k_collateral_slashed s),
       k_pending_recovery := (k_pending_recovery s)(i := None),
       k_proof_whitelist := drop_rows i n (k_proof_whitelist s),
       k_submitted_proof_type := drop_rows i n (k_submitted_proof_type s),
       k_evidence_count := drop_rows i n (k_evidence_count s),
       k_aux := (\<lambda>(k, x, j).
         if x = i \<and> (case j of None \<Rightarrow> k \<in> aux_shipment_keys | Some m \<Rightarrow> m < n \<and> k \<in> aux_milestone_keys)
         then False else k_aux s (k, x, j))\<rparr>"

section \<open>Cancellation by the buyer\<close>

definition refund_holdbacks_on_cancel ::
  "settle_env \<Rightarrow> sid \<Rightarrow> addr \<Rightarrow> shipment \<Rightarrow> settle \<Rightarrow> (settle \<times> shipment) res" where
  "refund_holdbacks_on_cancel e i caller sh s =
     (let retainage = get_or 0 (k_retainage_balance s i); warranty = get_or 0 (k_warranty_balance s i)
      in bindE (ck_i128 (retainage + warranty)) (\<lambda>both.
         if both \<le> 0 then Inr (s, sh)
         else
         bindE (vec_get_unwrap (sh_buyers sh) 0) (\<lambda>primary.
         bindE (token_pay e (sh_token sh) (this e) primary both s) (\<lambda>s1.
         bindE (decrease_total_escrowed (sh_token sh) both
                  (s1\<lparr>k_retainage_balance := (k_retainage_balance s1)(i := None),
                      k_warranty_balance := (k_warranty_balance s1)(i := None)\<rparr>)) (\<lambda>s2.
         Inr (emit [VStr ''holdback_refunded'', VStr i] [VAddr primary, VInt retainage, VInt warranty] s2,
              append_audit_entry e caller ''holdback_refunded'' ''shipment_cancelled'' sh))))))"

fun VReason :: "cancellation_reason \<Rightarrow> val" where
  "VReason BuyerCancelled = VStr ''BuyerCancelled''"
| "VReason SupplierCancelled = VStr ''SupplierCancelled''"
| "VReason DeadlineRefund = VStr ''DeadlineRefund''"
| "VReason AdminEmergencyRecovery = VStr ''AdminEmergencyRecovery''"
| "VReason BlacklistedSupplier = VStr ''BlacklistedSupplier''"

definition emit_shipment_cancelled :: "sid \<Rightarrow> int \<Rightarrow> cancellation_reason \<Rightarrow> settle \<Rightarrow> settle" where
  "emit_shipment_cancelled i refund r s =
     emit [VStr ''chainsettle'', VStr ''shipment_cancelled''] [VStr i, VInt refund, VReason r] s"

text \<open>The bookkeeping both cancellations share: escrow counter, active disputes.\<close>

definition close_cancelled :: "sid \<Rightarrow> shipment \<Rightarrow> int \<Rightarrow> settle \<Rightarrow> settle res" where
  "close_cancelled i sh unreleased s =
     bindE (ck_i128 (get_or 0 (k_total_escrowed s (sh_token sh)) - unreleased)) (\<lambda>x.
     Inr (s\<lparr>k_shipment := (k_shipment s)(i \<mapsto> sh),
            k_total_escrowed := (k_total_escrowed s)(sh_token sh \<mapsto> max x 0),
            k_active_disputes := Some (filter (\<lambda>d. de_shipment_id d \<noteq> i) (get_or [] (k_active_disputes s)))\<rparr>))"

text \<open>What has not been released or advanced, and the share of it a fee in basis points takes.\<close>

definition unreleased_of :: "shipment \<Rightarrow> int res" where
  "unreleased_of sh =
     bindE (ck_i128 (sh_total_amount sh - sh_released_amount sh)) (\<lambda>x. ck_i128 (x - sh_total_advanced_amount sh))"

definition cancel_pay ::
  "settle_env \<Rightarrow> sid \<Rightarrow> shipment \<Rightarrow> int \<Rightarrow> int \<Rightarrow> settle \<Rightarrow> settle res" where
  "cancel_pay e i sh cancel_fee refund s =
     bindE (whenE (0 < cancel_fee) (token_pay e (sh_token sh) (this e) (sh_supplier sh) cancel_fee) s) (\<lambda>s1.
     bindE (whenE (0 < refund) (refund_to_buyer e i sh refund) s1) (\<lambda>s2.
     let collateral = get_or 0 (k_supplier_collateral s2 i)
     in whenE (0 < collateral) (refund_to_buyer e i sh collateral) s2))"

definition cancel_shipment_internal ::
  "settle_env \<Rightarrow> addr \<Rightarrow> sid \<Rightarrow> string option \<Rightarrow> settle \<Rightarrow> settle res" where
  "cancel_shipment_internal e buyer i reason s =
     bindE (get_shipment_internal s i) (\<lambda>sh.
     bindE (assert_active sh) (\<lambda>_.
     bindE (assert_shipment_not_on_hold s i) (\<lambda>_.
     bindE (assert_is_buyer sh buyer) (\<lambda>_.
     if \<exists>m \<in> set (sh_milestones sh). ms_status m = Disputed
     then Inl (Panic ''cannot cancel: dispute must be resolved first'')
     else
     bindE (unreleased_of sh) (\<lambda>unreleased.
     bindE (mul_div unreleased (sh_buyer_cancel_fee_bps sh) 10000) (\<lambda>cancel_fee.
     bindE (ck_i128 (unreleased - cancel_fee)) (\<lambda>refund.
     bindE (cancel_pay e i sh cancel_fee refund s) (\<lambda>s1.
     bindE (refund_holdbacks_on_cancel e i buyer sh s1) (\<lambda>(s2, sh1).
     let sh2 = append_audit_entry e buyer ''shipment_cancelled'' ''cancel_shipment''
                 (sh1\<lparr>sh_status := Cancelled, sh_cancellation_reason := [BuyerCancelled]\<rparr>);
         s3 = move_shipment_status_index Active Cancelled i
                (increment_reputation_internal e (sh_supplier sh2) 0 0 1 s2)
     in bindE (close_cancelled i sh2 unreleased s3) (\<lambda>s4.
        let n = length (sh_milestones sh2);
            s5 = release_shipment_doc_hashes i n (prune_shipment_auxiliary_keys i n s4);
            s6 = emit [VStr ''shipment_cancelled'', VStr i]
                   [VInt refund, VInt cancel_fee, VAddr buyer, VNat (sequence e)] s5;
            s7 = (case reason of None \<Rightarrow> s6
                  | Some r \<Rightarrow> emit [VStr ''batch_cancel_reason'', VStr i] [VStr r] s6)
        in Inr (emit_shipment_cancelled i refund BuyerCancelled s7)))))))))))"

definition cancel_shipment :: "settle_env \<Rightarrow> addr \<Rightarrow> sid \<Rightarrow> settle \<Rightarrow> settle res" where
  "cancel_shipment e buyer i s =
     bindE (assert_not_paused s) (\<lambda>_.
     bindE (require_auth e buyer) (\<lambda>_.
     cancel_shipment_internal e buyer i None s))"

definition MAX_BATCH_CANCEL_SHIPMENTS :: nat where "MAX_BATCH_CANCEL_SHIPMENTS = 20"

definition batch_cancel_shipments :: "settle_env \<Rightarrow> addr \<Rightarrow> sid list \<Rightarrow> string \<Rightarrow> settle \<Rightarrow> settle res" where
  "batch_cancel_shipments e buyer ids reason s =
     bindE (assert_not_paused s) (\<lambda>_.
     bindE (require_auth e buyer) (\<lambda>_.
     if ids = [] then Inl (Panic ''empty batch'')
     else if MAX_BATCH_CANCEL_SHIPMENTS < length ids then Inl (Panic ''batch too large'')
     else foldE (\<lambda>i s. cancel_shipment_internal e buyer i (Some reason) s) ids s))"

section \<open>Cancellation by the supplier\<close>

fun response_overdue :: "settle \<Rightarrow> sid \<Rightarrow> nat \<Rightarrow> nat \<Rightarrow> nat \<Rightarrow> milestone list \<Rightarrow> bool res" where
  "response_overdue s i now deadline j [] = Inr False"
| "response_overdue s i now deadline j (m # ms) =
     (if ms_status m = ProofSubmitted
      then bindE (ck_u32 (get_or 0 (k_proof_submitted_at s (i, j)) + deadline)) (\<lambda>t.
           if t \<le> now then Inr True else response_overdue s i now deadline (j + 1) ms)
      else response_overdue s i now deadline (j + 1) ms)"

definition supplier_cancel_pay :: "settle_env \<Rightarrow> shipment \<Rightarrow> int \<Rightarrow> int \<Rightarrow> settle \<Rightarrow> settle res" where
  "supplier_cancel_pay e sh penalty refund s =
     bindE (whenE (0 < penalty) (token_pay e (sh_token sh) (this e) (sh_supplier sh) penalty) s) (\<lambda>s1.
     if 0 < refund
     then bindE (vec_get_unwrap (sh_buyers sh) 0) (\<lambda>primary. token_pay e (sh_token sh) (this e) primary refund s1)
     else Inr s1)"

definition supplier_cancel :: "settle_env \<Rightarrow> addr \<Rightarrow> sid \<Rightarrow> settle \<Rightarrow> settle res" where
  "supplier_cancel e supplier i s =
     bindE (assert_not_paused s) (\<lambda>_.
     bindE (require_auth e supplier) (\<lambda>_.
     bindE (get_shipment_internal s i) (\<lambda>sh.
     bindE (assert_active sh) (\<lambda>_.
     bindE (assert_shipment_not_on_hold s i) (\<lambda>_.
     if supplier \<noteq> sh_supplier sh then Inl (Panic ''unauthorized'')
     else
     bindE (check_and_record_supplier_cancellation supplier (sequence e) s) (\<lambda>s1.
     let policy = get_or \<lparr>cp_response_deadline = 0, cp_penalty_bps = 0\<rparr> (k_cancel_policy s1 i)
     in if cp_response_deadline policy = 0
        then Inl (Panic ''supplier cancellation not enabled for this shipment'')
        else
        bindE (response_overdue s1 i (sequence e) (cp_response_deadline policy) 0 (sh_milestones sh)) (\<lambda>overdue.
        if \<not> overdue then Inl (Panic ''buyer response deadline has not passed'')
        else
        bindE (unreleased_of sh) (\<lambda>remaining.
        bindE (mul_div remaining (cp_penalty_bps policy) 10000) (\<lambda>penalty.
        bindE (ck_i128 (remaining - penalty)) (\<lambda>refund.
        bindE (supplier_cancel_pay e sh penalty refund s1) (\<lambda>s2.
        bindE (refund_holdbacks_on_cancel e i supplier sh s2) (\<lambda>(s3, sh1).
        let sh2 = append_audit_entry e supplier ''shipment_cancelled'' ''supplier_cancel''
                    (sh1\<lparr>sh_status := Cancelled, sh_cancellation_reason := [SupplierCancelled]\<rparr>);
            s4 = move_shipment_status_index Active Cancelled i
                   (increment_reputation_internal e (sh_supplier sh2) 0 0 1 s3)
        in bindE (close_cancelled i sh2 remaining s4) (\<lambda>s5.
           Inr (release_shipment_doc_hashes i (length (sh_milestones sh2))
             (emit_shipment_cancelled i refund SupplierCancelled
               (emit [VStr ''supplier_cancellation'', VStr i] [VInt penalty, VInt refund] s5))))))))))))))))"

section \<open>Disputes and ratings\<close>

definition submit_dispute_evidence ::
  "settle_env \<Rightarrow> addr \<Rightarrow> sid \<Rightarrow> nat \<Rightarrow> string \<Rightarrow> sym \<Rightarrow> settle \<Rightarrow> settle res" where
  "submit_dispute_evidence e caller i j h ty s =
     bindE (require_auth e caller) (\<lambda>_.
     bindE (get_shipment_internal s i) (\<lambda>sh.
     if length (sh_milestones sh) \<le> j then Inl (Panic ''invalid milestone index'')
     else if ms_status (sh_milestones sh ! j) \<noteq> Disputed
     then Inl (Panic ''evidence can only be submitted while milestone is Disputed'')
     else if \<not> is_buyer sh caller \<and> caller \<noteq> sh_supplier sh \<and> caller \<noteq> sh_logistics sh
     then Inl (Panic ''unauthorized'')
     else
     let xs = get_or [] (k_dispute_evidence s (i, j))
     in Inr (emit [VStr ''dispute_evidence_submitted'', VStr i] [VNat j, VAddr caller, VStr h, VStr ty]
          (s\<lparr>k_dispute_evidence := (k_dispute_evidence s)((i, j) \<mapsto> xs @
             [\<lparr>ev_submitter = caller, ev_evidence_hash = h, ev_evidence_type = ty,
               ev_submitted_ledger = sequence e\<rparr>])\<rparr>))))"

definition withdraw_dispute :: "settle_env \<Rightarrow> addr \<Rightarrow> sid \<Rightarrow> nat \<Rightarrow> settle \<Rightarrow> settle res" where
  "withdraw_dispute e buyer i j s =
     bindE (assert_not_paused s) (\<lambda>_.
     bindE (require_auth e buyer) (\<lambda>_.
     bindE (get_shipment_internal s i) (\<lambda>sh.
     bindE (assert_active sh) (\<lambda>_.
     bindE (assert_is_buyer sh buyer) (\<lambda>_.
     if length (sh_milestones sh) \<le> j then Inl (Panic ''invalid milestone index'')
     else
     let m = sh_milestones sh ! j
     in if ms_status m \<noteq> Disputed then Inl (Panic ''milestone is not in disputed status'')
        else if k_grade_dispute s (i, j) \<noteq> None
        then Inl (Panic ''grade dispute can only be resolved by the arbiter'')
        else
        let sh1 = (set_milestone j (m\<lparr>ms_status := ProofSubmitted, ms_dispute_opened_ledger := None\<rparr>) sh)
                    \<lparr>sh_open_dispute_count := sh_open_dispute_count sh - 1\<rparr>
        in bindE (vec_get_unwrap (sh_buyers sh1) 0) (\<lambda>primary.
           let s1 = append_dispute_history primary (sh_supplier sh1)
                      \<lparr>dr_shipment_id = i, dr_milestone_index = j,
                       dr_opened_ledger = get_or 0 (ms_dispute_opened_ledger m), dr_outcome = OutcomeWithdrawn\<rparr> s
           in Inr (emit [VStr ''dispute_withdrawn'', VStr i] [VNat j, VAddr buyer]
                (s1\<lparr>k_shipment := (k_shipment s1)(i \<mapsto> sh1),
                    k_active_disputes := Some (filter
                      (\<lambda>d. \<not> (de_shipment_id d = i \<and> de_milestone_index d = j))
                      (get_or [] (k_active_disputes s1)))\<rparr>))))))))"

definition rate_counterparty ::
  "settle_env \<Rightarrow> addr \<Rightarrow> sid \<Rightarrow> nat \<Rightarrow> hash option \<Rightarrow> settle \<Rightarrow> settle res" where
  "rate_counterparty e caller i stars comment_hash s =
     bindE (assert_not_paused s) (\<lambda>_.
     bindE (require_auth e caller) (\<lambda>_.
     if stars < 1 \<or> 5 < stars then Inl (Panic ''stars must be between 1 and 5'')
     else
     bindE (get_shipment_internal s i) (\<lambda>sh.
     if sh_status sh \<noteq> Completed then Inl (Panic ''shipment is not completed'')
     else if \<not> is_buyer sh caller \<and> caller \<noteq> sh_supplier sh then Inl (Panic ''unauthorized'')
     else if k_shipment_rated s (i, caller) \<noteq> None then Inl (Panic ''already rated this shipment'')
     else
     let window = get_or 0 (k_rating_window s)
     in if window = 0 then Inl (Panic ''ratings are disabled'')
        else
        bindE (ck_u32 (get_or 0 (k_completed_at_ledger s i) + window)) (\<lambda>t.
        if t < sequence e then Inl (Panic ''rating window has elapsed'')
        else
        bindE (if is_buyer sh caller then Inr (sh_supplier sh) else vec_get_unwrap (sh_buyers sh) 0) (\<lambda>rated.
        bindE (record_rating rated stars (s\<lparr>k_shipment_rated := (k_shipment_rated s)((i, caller) \<mapsto> True)\<rparr>)) (\<lambda>s1.
        Inr (emit [VStr ''counterparty_rated'', VStr i]
               [VAddr caller, VAddr rated, VNat stars, VOpt VNat comment_hash]
               (s1\<lparr>k_shipment := (k_shipment s1)(i \<mapsto>
                  append_audit_entry e caller ''counterparty_rated'' ''rate_counterparty'' sh)\<rparr>))))))))"

end
