(* ===== verification/SettleSample.thy ===== *)
theory SettleSample
  imports SettleMoney SettleCancel
begin

text \<open>
  Concrete states of the settlement contract for the closed instances of the properties: the empty
  storage, an environment in which everybody signs and every token call succeeds, and a shipment.
\<close>

definition blank :: settle where
  "blank = \<lparr>
     k_shipment = (\<lambda>_. None), k_supplier_rep = (\<lambda>_. None), k_admin = None,
     k_fee_config = None, k_min_milestone_percent = None, k_max_concurrent_disputes = None,
     k_blacklisted = (\<lambda>_. None), k_admin_action_log = None, k_paused = None,
     k_total_escrowed = (\<lambda>_. None), k_active_disputes = None, k_contract_stats = None,
     k_shipments_by_status = (\<lambda>_. None), k_supplier_shipments = (\<lambda>_. None),
     k_escalation_threshold = None, k_max_shipment_value = None, k_cb_limit = None,
     k_cb_window = None, k_cb_window_start = None, k_cb_window_outflow = None,
     k_multi_admin_config = None, k_admin_approvals = (\<lambda>_. None),
     k_advance_request = (\<lambda>_. None), k_max_advance_percent = None,
     k_supplier_collateral = (\<lambda>_. None), k_nft_hook_enabled = None,
     k_referral_fee_bps = None, k_auto_confirm_threshold = None,
     k_confirmation_delegate = (\<lambda>_. None), k_pending_admin = None,
     k_supplier_whitelist = None, k_min_shipment_value = None,
     k_cancel_policy = (\<lambda>_. None), k_proof_submitted_at = (\<lambda>_. None),
     k_dispute_contested_percent = (\<lambda>_. None), k_arbiter_rotation = (\<lambda>_. None),
     k_allowed_tokens = None, k_all_shipments = None, k_buyer_shipments = (\<lambda>_. None),
     k_proof_whitelist = (\<lambda>_. None), k_evidence_count = (\<lambda>_. None),
     k_max_evidence = None, k_submitted_proof_type = (\<lambda>_. None), k_recovery_delay = None,
     k_pending_recovery = (\<lambda>_. None), k_fee_tiers = None,
     k_lifetime_volume = (\<lambda>_. None), k_shipment_fee_bps = (\<lambda>_. None),
     k_milestone_splits = (\<lambda>_. None), k_upgrade_proposal_counter = None,
     k_upgrade_proposal = (\<lambda>_. None), k_global_confirmation_cooldown = None,
     k_shipment_confirmation_cooldown = (\<lambda>_. None),
     k_shipment_fee_override = (\<lambda>_. None), k_long_hold_rebate = None,
     k_milestone_payees = (\<lambda>_. None), k_auto_blacklist_rule = None,
     k_reputation_fast_track = None, k_shipment_paused = (\<lambda>_. None),
     k_payout_mode = (\<lambda>_. None), k_pending_payout = (\<lambda>_. None),
     k_addr_outflow_limit = (\<lambda>_. None), k_addr_outflow_window = (\<lambda>_. None),
     k_addr_outflow_window_start = (\<lambda>_. None),
     k_addr_outflow_window_outflow = (\<lambda>_. None), k_treasury_revenue = (\<lambda>_. None),
     k_fee_recipients = None, k_buyer_reliability = (\<lambda>_. None),
     k_arbiter_inactivity = None, k_dispute_evidence = (\<lambda>_. None),
     k_pause_request = (\<lambda>_. None), k_paused_at = (\<lambda>_. None),
     k_milestone_deadline = (\<lambda>_. None), k_invoice_hash = (\<lambda>_. None),
     k_archive_threshold = None, k_archived = (\<lambda>_. None),
     k_backup_arbiter = (\<lambda>_. None), k_arbiter_fee_tiers = None,
     k_arbiter_stats = (\<lambda>_. None), k_arbiter_panel = (\<lambda>_. None),
     k_dispute_votes = (\<lambda>_. None), k_dispute_opened_at = (\<lambda>_. None),
     k_supplier_exposure_cap = None, k_timestamp_deadlines = (\<lambda>_. None),
     k_proof_submitter = (\<lambda>_. None), k_timelock_duration = None,
     k_pending_param_change = (\<lambda>_. None), k_confirmation_webhooks = None,
     k_warning_lead_ledgers = None, k_dispute_filing_window = None,
     k_joint_confirmation_threshold = None, k_co_buyer = (\<lambda>_. None),
     k_joint_confirmation = (\<lambda>_. None), k_compliance_hold = (\<lambda>_. None),
     k_appeal_window_ledgers = None, k_supplier_tier_config = None,
     k_freeze_supermajority_bps = None, k_emergency_frozen = None,
     k_freeze_proposal_counter = None, k_freeze_proposal = (\<lambda>_. None),
     k_unfreeze_proposal = (\<lambda>_. None), k_payout_currency_preference = (\<lambda>_. None),
     k_conversion_rate_bps = (\<lambda>_. None), k_fee_waiver_proposal_counter = None,
     k_fee_waiver_proposal = (\<lambda>_. None), k_fee_waiver = (\<lambda>_. None),
     k_spending_limit = (\<lambda>_. None), k_spending_usage = (\<lambda>_. None),
     k_dispute_resolved_at = (\<lambda>_. None), k_dispute_appealed = (\<lambda>_. None),
     k_dispute_resolved_approve = (\<lambda>_. None),
     k_dispute_resolution_reason = (\<lambda>_. None),
     k_dispute_appeal_original = (\<lambda>_. None), k_max_overturned_before_slash = None,
     k_arbiter_slashed = (\<lambda>_. None), k_shipment_mediator = (\<lambda>_. None),
     k_mediator_pool = None, k_mediation_proposal = (\<lambda>_. None),
     k_deadline_warning_fired = (\<lambda>_. None), k_token_max_value = (\<lambda>_. None),
     k_token_min_value = (\<lambda>_. None), k_max_milestone_count = None,
     k_max_allowed_tokens = None, k_buyer_allowed_tokens = (\<lambda>_. None),
     k_shipment_jurisdiction = (\<lambda>_. None), k_jurisdiction_shipments = (\<lambda>_. None),
     k_milestone_template = (\<lambda>_. None), k_milestone_template_names = (\<lambda>_. None),
     k_proof_hash_min_len = None, k_proof_hash_max_len = None, k_proof_hash_prefix = None,
     k_max_dispute_bond_bps = None, k_oracle_group = (\<lambda>_. None),
     k_oracle_attestations = (\<lambda>_. None), k_shipment_oracle_purpose = (\<lambda>_. None),
     k_fee_holiday = None, k_finality_delay_ledgers = None, k_pending_grade = (\<lambda>_. None),
     k_partial_qty_released = (\<lambda>_. None), k_retainage_bps = (\<lambda>_. None),
     k_retainage_balance = (\<lambda>_. None), k_warranty_config = (\<lambda>_. None),
     k_warranty_balance = (\<lambda>_. None), k_warranty_ends_at = (\<lambda>_. None),
     k_incremental_collateral = (\<lambda>_. None),
     k_incremental_collateral_base = (\<lambda>_. None),
     k_supplier_last_tier = (\<lambda>_. None), k_inspected_milestones = (\<lambda>_. None),
     k_inspection_report = (\<lambda>_. None), k_user_role = (\<lambda>_. None),
     k_blacklist_appeal = (\<lambda>_. None), k_grade_dispute = (\<lambda>_. None),
     k_buyer_dispute_cap = (\<lambda>_. None), k_dispute_raised_by = (\<lambda>_. None),
     k_arbiter_history_size = None, k_supplier_recent_arbiters = (\<lambda>_. None),
     k_pause_min_notice = None, k_creation_limit = None, k_rate_exempt = (\<lambda>_. None),
     k_creation_usage = (\<lambda>_. None), k_cancel_cooldown = (\<lambda>_. None),
     k_cancel_until = (\<lambda>_. None), k_cancel_usage = (\<lambda>_. None),
     k_require_mutual_preapproval = None, k_approved_buyers = (\<lambda>_. None),
     k_quality_grades = (\<lambda>_. None), k_milestone_quantities = (\<lambda>_. None),
     k_milestone_grade = (\<lambda>_. None), k_delivered_quantity = (\<lambda>_. None),
     k_shipment_inspector = (\<lambda>_. None), k_proof_submitters = (\<lambda>_. None),
     k_require_dual_attestation = (\<lambda>_. None), k_pending_dual_proof = (\<lambda>_. None),
     k_breach_reports = (\<lambda>_. None), k_warranty_claim = (\<lambda>_. None),
     k_refund_sweep_window = None, k_refund_claimable_at = (\<lambda>_. None),
     k_storage_schema_version = None, k_clean_completion_rebate_bps = None,
     k_shipment_fees_paid = (\<lambda>_. None), k_shipment_had_dispute = (\<lambda>_. None),
     k_milestone_supplier = (\<lambda>_. None), k_appeal_fee = None,
     k_total_vaulted = (\<lambda>_. None), k_vault_balance = (\<lambda>_. None),
     k_standing_order = (\<lambda>_. None), k_next_standing_order_id = None,
     k_refund_recipient = (\<lambda>_. None), k_fund_from_vault = (\<lambda>_. None),
     k_supplier_earned = (\<lambda>_. None), k_buyer_spent = (\<lambda>_. None),
     k_dispute_history = (\<lambda>_. None), k_completed_at_ledger = (\<lambda>_. None),
     k_rating_agg = (\<lambda>_. None), k_party_shipments = (\<lambda>_. None),
     k_payout_assignment = (\<lambda>_. None), k_depeg_guard = (\<lambda>_. None),
     k_operation_paused = (\<lambda>_. None), k_role_expiry = (\<lambda>_. None),
     k_supplier_timeliness = (\<lambda>_. None), k_shipment_rated = (\<lambda>_. None),
     k_rating_window = None, k_max_summary_batch = None, k_doc_hash_owner = (\<lambda>_. None),
     k_bol_hash = (\<lambda>_. None), k_appeal_fee_deposit = (\<lambda>_. None),
     k_arbiter_unavailable = (\<lambda>_. None), k_arbiter_slash_bps = None,
     k_arbiter_stake = (\<lambda>_. None), k_loser_pays = (\<lambda>_. None),
     k_pending_split = (\<lambda>_. None), k_dispute_split_bps = (\<lambda>_. None),
     k_panel_escalation = (\<lambda>_. None), k_panel_escalated = (\<lambda>_. None),
     k_use_pool_arb = (\<lambda>_. None), k_arbiters_pool = None, k_arb_pool_idx = None,
     k_skip_buyer_auth = None, k_pending_allowance = None,
     k_collateral_token = (\<lambda>_. None), k_is_consortium = (\<lambda>_. None),
     k_collateral_slash_bps = (\<lambda>_. None), k_collateral_slashed = (\<lambda>_. None),
     k_tvl_cap = (\<lambda>_. None), k_auto_id_counter = None,
     k_supplier_terms_profile = (\<lambda>_. None), k_instance_escrowed = (\<lambda>_. None),
     k_aux = (\<lambda>_. False), k_wasm = None, calls = [], events = []\<rparr>"

text \<open>The fields of the empty storage, so that a call evaluates without unfolding it.\<close>

lemma blank_simps [simp]:
  "k_shipment blank = (\<lambda>_. None)" "k_supplier_rep blank = (\<lambda>_. None)"
  "k_admin blank = None" "k_fee_config blank = None" "k_min_milestone_percent blank = None"
  "k_max_concurrent_disputes blank = None" "k_blacklisted blank = (\<lambda>_. None)"
  "k_admin_action_log blank = None" "k_paused blank = None"
  "k_total_escrowed blank = (\<lambda>_. None)" "k_active_disputes blank = None"
  "k_contract_stats blank = None" "k_shipments_by_status blank = (\<lambda>_. None)"
  "k_supplier_shipments blank = (\<lambda>_. None)" "k_escalation_threshold blank = None"
  "k_max_shipment_value blank = None" "k_cb_limit blank = None" "k_cb_window blank = None"
  "k_cb_window_start blank = None" "k_cb_window_outflow blank = None"
  "k_multi_admin_config blank = None" "k_admin_approvals blank = (\<lambda>_. None)"
  "k_advance_request blank = (\<lambda>_. None)" "k_max_advance_percent blank = None"
  "k_supplier_collateral blank = (\<lambda>_. None)" "k_nft_hook_enabled blank = None"
  "k_referral_fee_bps blank = None" "k_auto_confirm_threshold blank = None"
  "k_confirmation_delegate blank = (\<lambda>_. None)" "k_pending_admin blank = None"
  "k_supplier_whitelist blank = None" "k_min_shipment_value blank = None"
  "k_cancel_policy blank = (\<lambda>_. None)" "k_proof_submitted_at blank = (\<lambda>_. None)"
  "k_dispute_contested_percent blank = (\<lambda>_. None)"
  "k_arbiter_rotation blank = (\<lambda>_. None)" "k_allowed_tokens blank = None"
  "k_all_shipments blank = None" "k_buyer_shipments blank = (\<lambda>_. None)"
  "k_proof_whitelist blank = (\<lambda>_. None)" "k_evidence_count blank = (\<lambda>_. None)"
  "k_max_evidence blank = None" "k_submitted_proof_type blank = (\<lambda>_. None)"
  "k_recovery_delay blank = None" "k_pending_recovery blank = (\<lambda>_. None)"
  "k_fee_tiers blank = None" "k_lifetime_volume blank = (\<lambda>_. None)"
  "k_shipment_fee_bps blank = (\<lambda>_. None)" "k_milestone_splits blank = (\<lambda>_. None)"
  "k_upgrade_proposal_counter blank = None" "k_upgrade_proposal blank = (\<lambda>_. None)"
  "k_global_confirmation_cooldown blank = None"
  "k_shipment_confirmation_cooldown blank = (\<lambda>_. None)"
  "k_shipment_fee_override blank = (\<lambda>_. None)" "k_long_hold_rebate blank = None"
  "k_milestone_payees blank = (\<lambda>_. None)" "k_auto_blacklist_rule blank = None"
  "k_reputation_fast_track blank = None" "k_shipment_paused blank = (\<lambda>_. None)"
  "k_payout_mode blank = (\<lambda>_. None)" "k_pending_payout blank = (\<lambda>_. None)"
  "k_addr_outflow_limit blank = (\<lambda>_. None)"
  "k_addr_outflow_window blank = (\<lambda>_. None)"
  "k_addr_outflow_window_start blank = (\<lambda>_. None)"
  "k_addr_outflow_window_outflow blank = (\<lambda>_. None)"
  "k_treasury_revenue blank = (\<lambda>_. None)" "k_fee_recipients blank = None"
  "k_buyer_reliability blank = (\<lambda>_. None)" "k_arbiter_inactivity blank = None"
  "k_dispute_evidence blank = (\<lambda>_. None)" "k_pause_request blank = (\<lambda>_. None)"
  "k_paused_at blank = (\<lambda>_. None)" "k_milestone_deadline blank = (\<lambda>_. None)"
  "k_invoice_hash blank = (\<lambda>_. None)" "k_archive_threshold blank = None"
  "k_archived blank = (\<lambda>_. None)" "k_backup_arbiter blank = (\<lambda>_. None)"
  "k_arbiter_fee_tiers blank = None" "k_arbiter_stats blank = (\<lambda>_. None)"
  "k_arbiter_panel blank = (\<lambda>_. None)" "k_dispute_votes blank = (\<lambda>_. None)"
  "k_dispute_opened_at blank = (\<lambda>_. None)" "k_supplier_exposure_cap blank = None"
  "k_timestamp_deadlines blank = (\<lambda>_. None)"
  "k_proof_submitter blank = (\<lambda>_. None)" "k_timelock_duration blank = None"
  "k_pending_param_change blank = (\<lambda>_. None)" "k_confirmation_webhooks blank = None"
  "k_warning_lead_ledgers blank = None" "k_dispute_filing_window blank = None"
  "k_joint_confirmation_threshold blank = None" "k_co_buyer blank = (\<lambda>_. None)"
  "k_joint_confirmation blank = (\<lambda>_. None)"
  "k_compliance_hold blank = (\<lambda>_. None)" "k_appeal_window_ledgers blank = None"
  "k_supplier_tier_config blank = None" "k_freeze_supermajority_bps blank = None"
  "k_emergency_frozen blank = None" "k_freeze_proposal_counter blank = None"
  "k_freeze_proposal blank = (\<lambda>_. None)" "k_unfreeze_proposal blank = (\<lambda>_. None)"
  "k_payout_currency_preference blank = (\<lambda>_. None)"
  "k_conversion_rate_bps blank = (\<lambda>_. None)" "k_fee_waiver_proposal_counter blank = None"
  "k_fee_waiver_proposal blank = (\<lambda>_. None)" "k_fee_waiver blank = (\<lambda>_. None)"
  "k_spending_limit blank = (\<lambda>_. None)" "k_spending_usage blank = (\<lambda>_. None)"
  "k_dispute_resolved_at blank = (\<lambda>_. None)"
  "k_dispute_appealed blank = (\<lambda>_. None)"
  "k_dispute_resolved_approve blank = (\<lambda>_. None)"
  "k_dispute_resolution_reason blank = (\<lambda>_. None)"
  "k_dispute_appeal_original blank = (\<lambda>_. None)"
  "k_max_overturned_before_slash blank = None" "k_arbiter_slashed blank = (\<lambda>_. None)"
  "k_shipment_mediator blank = (\<lambda>_. None)" "k_mediator_pool blank = None"
  "k_mediation_proposal blank = (\<lambda>_. None)"
  "k_deadline_warning_fired blank = (\<lambda>_. None)"
  "k_token_max_value blank = (\<lambda>_. None)" "k_token_min_value blank = (\<lambda>_. None)"
  "k_max_milestone_count blank = None" "k_max_allowed_tokens blank = None"
  "k_buyer_allowed_tokens blank = (\<lambda>_. None)"
  "k_shipment_jurisdiction blank = (\<lambda>_. None)"
  "k_jurisdiction_shipments blank = (\<lambda>_. None)"
  "k_milestone_template blank = (\<lambda>_. None)"
  "k_milestone_template_names blank = (\<lambda>_. None)" "k_proof_hash_min_len blank = None"
  "k_proof_hash_max_len blank = None" "k_proof_hash_prefix blank = None"
  "k_max_dispute_bond_bps blank = None" "k_oracle_group blank = (\<lambda>_. None)"
  "k_oracle_attestations blank = (\<lambda>_. None)"
  "k_shipment_oracle_purpose blank = (\<lambda>_. None)" "k_fee_holiday blank = None"
  "k_finality_delay_ledgers blank = None" "k_pending_grade blank = (\<lambda>_. None)"
  "k_partial_qty_released blank = (\<lambda>_. None)"
  "k_retainage_bps blank = (\<lambda>_. None)" "k_retainage_balance blank = (\<lambda>_. None)"
  "k_warranty_config blank = (\<lambda>_. None)" "k_warranty_balance blank = (\<lambda>_. None)"
  "k_warranty_ends_at blank = (\<lambda>_. None)"
  "k_incremental_collateral blank = (\<lambda>_. None)"
  "k_incremental_collateral_base blank = (\<lambda>_. None)"
  "k_supplier_last_tier blank = (\<lambda>_. None)"
  "k_inspected_milestones blank = (\<lambda>_. None)"
  "k_inspection_report blank = (\<lambda>_. None)" "k_user_role blank = (\<lambda>_. None)"
  "k_blacklist_appeal blank = (\<lambda>_. None)" "k_grade_dispute blank = (\<lambda>_. None)"
  "k_buyer_dispute_cap blank = (\<lambda>_. None)"
  "k_dispute_raised_by blank = (\<lambda>_. None)" "k_arbiter_history_size blank = None"
  "k_supplier_recent_arbiters blank = (\<lambda>_. None)" "k_pause_min_notice blank = None"
  "k_creation_limit blank = None" "k_rate_exempt blank = (\<lambda>_. None)"
  "k_creation_usage blank = (\<lambda>_. None)" "k_cancel_cooldown blank = (\<lambda>_. None)"
  "k_cancel_until blank = (\<lambda>_. None)" "k_cancel_usage blank = (\<lambda>_. None)"
  "k_require_mutual_preapproval blank = None" "k_approved_buyers blank = (\<lambda>_. None)"
  "k_quality_grades blank = (\<lambda>_. None)"
  "k_milestone_quantities blank = (\<lambda>_. None)"
  "k_milestone_grade blank = (\<lambda>_. None)"
  "k_delivered_quantity blank = (\<lambda>_. None)"
  "k_shipment_inspector blank = (\<lambda>_. None)"
  "k_proof_submitters blank = (\<lambda>_. None)"
  "k_require_dual_attestation blank = (\<lambda>_. None)"
  "k_pending_dual_proof blank = (\<lambda>_. None)" "k_breach_reports blank = (\<lambda>_. None)"
  "k_warranty_claim blank = (\<lambda>_. None)" "k_refund_sweep_window blank = None"
  "k_refund_claimable_at blank = (\<lambda>_. None)" "k_storage_schema_version blank = None"
  "k_clean_completion_rebate_bps blank = None" "k_shipment_fees_paid blank = (\<lambda>_. None)"
  "k_shipment_had_dispute blank = (\<lambda>_. None)"
  "k_milestone_supplier blank = (\<lambda>_. None)" "k_appeal_fee blank = None"
  "k_total_vaulted blank = (\<lambda>_. None)" "k_vault_balance blank = (\<lambda>_. None)"
  "k_standing_order blank = (\<lambda>_. None)" "k_next_standing_order_id blank = None"
  "k_refund_recipient blank = (\<lambda>_. None)" "k_fund_from_vault blank = (\<lambda>_. None)"
  "k_supplier_earned blank = (\<lambda>_. None)" "k_buyer_spent blank = (\<lambda>_. None)"
  "k_dispute_history blank = (\<lambda>_. None)"
  "k_completed_at_ledger blank = (\<lambda>_. None)" "k_rating_agg blank = (\<lambda>_. None)"
  "k_party_shipments blank = (\<lambda>_. None)" "k_payout_assignment blank = (\<lambda>_. None)"
  "k_depeg_guard blank = (\<lambda>_. None)" "k_operation_paused blank = (\<lambda>_. None)"
  "k_role_expiry blank = (\<lambda>_. None)" "k_supplier_timeliness blank = (\<lambda>_. None)"
  "k_shipment_rated blank = (\<lambda>_. None)" "k_rating_window blank = None"
  "k_max_summary_batch blank = None" "k_doc_hash_owner blank = (\<lambda>_. None)"
  "k_bol_hash blank = (\<lambda>_. None)" "k_appeal_fee_deposit blank = (\<lambda>_. None)"
  "k_arbiter_unavailable blank = (\<lambda>_. None)" "k_arbiter_slash_bps blank = None"
  "k_arbiter_stake blank = (\<lambda>_. None)" "k_loser_pays blank = (\<lambda>_. None)"
  "k_pending_split blank = (\<lambda>_. None)" "k_dispute_split_bps blank = (\<lambda>_. None)"
  "k_panel_escalation blank = (\<lambda>_. None)" "k_panel_escalated blank = (\<lambda>_. None)"
  "k_use_pool_arb blank = (\<lambda>_. None)" "k_arbiters_pool blank = None"
  "k_arb_pool_idx blank = None" "k_skip_buyer_auth blank = None"
  "k_pending_allowance blank = None" "k_collateral_token blank = (\<lambda>_. None)"
  "k_is_consortium blank = (\<lambda>_. None)"
  "k_collateral_slash_bps blank = (\<lambda>_. None)"
  "k_collateral_slashed blank = (\<lambda>_. None)" "k_tvl_cap blank = (\<lambda>_. None)"
  "k_auto_id_counter blank = None" "k_supplier_terms_profile blank = (\<lambda>_. None)"
  "k_instance_escrowed blank = (\<lambda>_. None)" "k_aux blank = (\<lambda>_. False)"
  "k_wasm blank = None" "calls blank = []" "events blank = []"
  by (simp_all add: blank_def)

definition buyer0 :: addr where "buyer0 = Address 1"
definition supplier0 :: addr where "supplier0 = Address 2"
definition token0 :: addr where "token0 = Address 3"
definition contract0 :: addr where "contract0 = Address 4"
definition treasury0 :: addr where "treasury0 = Address 5"
definition arbiter0 :: addr where "arbiter0 = Address 6"
definition other0 :: addr where "other0 = Address 7"

lemmas addr0_defs = buyer0_def supplier0_def token0_def contract0_def treasury0_def arbiter0_def other0_def

definition env_at :: "nat \<Rightarrow> settle_env" where
  "env_at now = \<lparr>timestamp = now * 5, sequence = now,
     signers = [buyer0, supplier0, arbiter0, treasury0, other0], this = contract0,
     tok_ok = (\<lambda>_ _. True), tok_balance = (\<lambda>_ _ _. 0), oracle_price = (\<lambda>_ _. None),
     prng_shuffle = id\<rparr>"

lemma env_at_simps [simp]:
  "timestamp (env_at n) = n * 5" "sequence (env_at n) = n"
  "signers (env_at n) = [buyer0, supplier0, arbiter0, treasury0, other0]" "this (env_at n) = contract0"
  "tok_ok (env_at n) = (\<lambda>_ _. True)" "tok_balance (env_at n) = (\<lambda>_ _ _. 0)"
  "oracle_price (env_at n) = (\<lambda>_ _. None)" "prng_shuffle (env_at n) = id"
  by (simp_all add: env_at_def)

definition milestone0 :: "nat \<Rightarrow> milestone_status \<Rightarrow> milestone" where
  "milestone0 pct st = \<lparr>ms_name = ''m'', ms_payment_percent = pct, ms_proof_hash = ''p'', ms_status = st,
     ms_release_after_ledger = 0, ms_proof_submitted_ledger = Some 10, ms_dispute_opened_ledger = None,
     ms_not_before_ledger = 0, ms_deadline_ledger = 0, ms_penalty_bps_per_ledger = 0\<rparr>"

definition shipment0 :: "sid \<Rightarrow> milestone list \<Rightarrow> shipment_status \<Rightarrow> shipment" where
  "shipment0 i ms st = \<lparr>sh_id = i, sh_audit_log = [], sh_buyers = [buyer0], sh_supplier = supplier0,
     sh_logistics = other0, sh_arbiter = arbiter0, sh_token = token0, sh_total_amount = 1000,
     sh_released_amount = 0, sh_total_advanced_amount = 0, sh_milestones = ms, sh_status = st,
     sh_milestone_mode = Sequential, sh_created_at = 1, sh_holdback_ledgers = 0,
     sh_dispute_cooldown_ledgers = 0, sh_last_dispute_resolved_ledger = None,
     sh_late_penalty_bps_per_ledger = 0, sh_auto_confirm_ledgers = 0, sh_open_dispute_count = 0,
     sh_dispute_bond_amount = 0, sh_dispute_bond_bps = 0, sh_arbiter_fee_bps = 0, sh_logistics_fee_bps = 0,
     sh_expires_at_ledger = None, sh_metadata_hash = None, sh_referrer = None, sh_buyer_cancel_fee_bps = 0,
     sh_early_bonus_pool = 0, sh_early_bonus_remaining = 0, sh_review_window_ledgers = None,
     sh_dispute_timeout_seconds = 0, sh_default_resolution = ResolveBuyer,
     sh_last_confirmed_milestone_index = None, sh_cancellation_reason = [], sh_grace_period_ledgers = 0,
     sh_supplier_payout_address = None\<rparr>"

text \<open>
  A shipment over 1000 with two milestones of 60 and 40 percent, the first one proved, a platform
  fee of one percent, and its amount in escrow.
\<close>

definition deal0 :: shipment where
  "deal0 = shipment0 ''S'' [milestone0 60 ProofSubmitted, milestone0 40 Pending] Active"

definition state0 :: settle where
  "state0 = blank\<lparr>k_shipment := [''S'' \<mapsto> deal0], k_total_escrowed := [token0 \<mapsto> 1000],
     k_fee_config := Some \<lparr>fc_fee_bps = 100, fc_treasury = treasury0\<rparr>\<rparr>"

section \<open>Evaluation\<close>

lemmas confirm_eval = confirm_milestone_def confirm_settle_def confirm_now_def confirm_deduct_def confirm_book_def
  confirm_pay_def confirm_complete_def close_release_def confirm_caller_def late_penalty_def long_hold_rebate_def
  set_milestone_def get_shipment_internal_def assert_active_def assert_operation_not_paused_def assert_not_paused_def
  assert_token_not_depegged_def is_token_depegged_def assert_shipment_not_on_hold_def assert_inspection_complete_def
  assert_oracle_attestation_met_def assert_shipment_not_paused_def is_shipment_paused_internal_def
  joint_confirmation_required_def confirmation_timing_def get_confirmation_cooldown_internal_def
  is_fast_track_eligible_internal_def get_effective_auto_confirm_window_def milestone_gross_payment_def
  milestone_full_gross_payment_def consume_advance_for_milestone_def require_buyer_auth_def is_buyer_def
  assert_is_buyer_def

lemmas confirm_eval2 = deduct_fee_for_shipment_at_completion_def fee_holiday_active_def is_final_milestone_def
  resolve_fee_waiver_bps_def get_fee_waiver_def waive_bps_def track_treasury_revenue_def track_shipment_fees_paid_def
  check_circuit_breaker_def check_address_outflow_def append_audit_entry_def push_bounded_def
  update_buyer_reliability_on_confirmation_def reliability_zero_def record_milestone_timeliness_def
  release_milestone_collateral_share_def pay_logistics_def pay_referral_def all_milestones_done_def done_status_def
  pay_early_bonus_def pay_milestone_to_payees_def withhold_settlement_holdbacks_def payout_assignee_def
  pay_supplier_def record_release_counters_def expect_def require_auth_def resolve_fee_bps_for_def All_less_Suc numeral_2_eq_2 signed_divide_int_def

lemma confirm_deal0: "\<exists>t. confirm_milestone (env_at 20) buyer0 ''S'' 0 state0 = Inr t"
  by (simp add: state0_def deal0_def shipment0_def milestone0_def confirm_eval confirm_eval2 eval_defs
      cong: eval_cong option.case_cong)

lemma deal0_facts:
  "k_shipment state0 ''S'' = Some deal0" "\<not> joint_confirmation_required state0 deal0"
  "sh_holdback_ledgers deal0 = 0" "plain_terms state0 ''S'' 0" "rates_ok state0 ''S''"
  "\<not> is_final_milestone deal0 0" "milestone_gross_payment state0 deal0 0 = Inr 600"
  "late_penalty deal0 (sh_milestones deal0 ! 0) 600 = Inr 0" "sh_released_amount deal0 = 0" "sh_token deal0 = token0"
  by (simp_all add: state0_def deal0_def shipment0_def milestone0_def confirm_eval confirm_eval2 eval_defs
      plain_terms_def rates_ok_def holdback_ok_def cong: eval_cong option.case_cong)

lemma confirmation_released_deal0:
  assumes "confirm_milestone (env_at 20) buyer0 ''S'' 0 state0 = Inr t"
  shows "\<exists>sh'. k_shipment t ''S'' = Some sh' \<and> sh_released_amount sh' \<noteq> sh_released_amount deal0"
proof (rule confirm_milestone_cases [OF assms])
  fix sh stats cb s1
  assume a: "k_shipment state0 ''S'' = Some sh"
    "milestone_gross_payment s1 sh 0 = milestone_gross_payment state0 sh 0"
    "t = s1 \<and> joint_confirmation_required state0 sh \<or>
     confirm_settle (env_at 20) buyer0 cb ''S'' 0 sh (sh_milestones sh ! 0) stats s1 = Inr t"
  then have "sh = deal0" using deal0_facts(1) by simp
  with a(3) have "confirm_settle (env_at 20) buyer0 cb ''S'' 0 deal0 (sh_milestones deal0 ! 0) stats s1 = Inr t"
    using deal0_facts(2) by simp
  then show ?thesis
    by (rule confirm_settle_cases) (use a(2) \<open>sh = deal0\<close> deal0_facts in \<open>auto simp: settled_def\<close>)
qed

text \<open>The same shipment with its first milestone held until ledger 15.\<close>

definition deal_held0 :: shipment where
  "deal_held0 = shipment0 ''S''
     [(milestone0 60 ConfirmedHeld)\<lparr>ms_release_after_ledger := 15\<rparr>, milestone0 40 Pending] Active"

definition held0 :: settle where
  "held0 = state0\<lparr>k_shipment := [''S'' \<mapsto> deal_held0]\<rparr>"

lemma release_held0: "\<exists>t. release_held_payment (env_at 20) ''S'' 0 held0 = Inr t"
  by (simp add: held0_def deal_held0_def state0_def shipment0_def milestone0_def release_held_payment_def held_deduct_def
      deduct_fee_def distribute_fee_def held_pay_def settle_grade_def held_complete_def confirm_eval confirm_eval2 eval_defs
      cong: eval_cong option.case_cong)

lemma held0_facts:
  "k_shipment held0 ''S'' = Some deal_held0" "milestone_gross_payment held0 deal_held0 0 = Inr 600"
  "sh_released_amount deal_held0 = 0" "ms_status (sh_milestones deal_held0 ! Suc 0) = Pending"
  "length (sh_milestones deal_held0) = 2"
  by (simp_all add: held0_def state0_def deal_held0_def shipment0_def milestone0_def confirm_eval confirm_eval2 eval_defs
      cong: eval_cong option.case_cong)

text \<open>Five percent retainage and two payees.\<close>

definition payees0 :: settle where
  "payees0 = state0\<lparr>k_retainage_bps := [''S'' \<mapsto> 500],
     k_milestone_payees := [(''S'', 0) \<mapsto> [\<lparr>mp_payee = other0, mp_percent = 33\<rparr>, \<lparr>mp_payee = supplier0, mp_percent = 67\<rparr>]]\<rparr>"

lemma payout_payees0: "\<exists>t. pay_milestone_to_payees (env_at 20) ''S'' 0 101 supplier0 token0 payees0 = Inr t"
  by (simp add: payees0_def state0_def confirm_eval confirm_eval2 eval_defs add_retainage_def add_warranty_def
      increase_total_escrowed_def cong: eval_cong option.case_cong)

end
