(* ===== verification/SettleProperties.thy ===== *)
theory SettleProperties
  imports SettleSample
begin

text \<open>
  The properties of confirmation, release and payment, each with a closed instance.
\<close>

section \<open>Confirmation\<close>

text \<open>C1. A confirmation that returns was signed by a buyer, the co-buyer or the delegate of an active
  shipment without compliance hold, for a milestone whose proof is submitted. It either only records
  one of two joint confirmations, or it sets the milestone to held until its holdback has passed with
  nothing released, or it confirms the milestone and releases the gross payment less the late penalty,
  completing the shipment exactly when every milestone is done. Nothing else of the stored shipments
  changes.\<close>

theorem confirmation_outcome:
  assumes "confirm_milestone e b i j s = Inr t"
  shows "\<exists>sh. k_shipment s i = Some sh \<and> sh_status sh = Active \<and> j < length (sh_milestones sh) \<and>
    ms_status (sh_milestones sh ! j) = ProofSubmitted \<and> b \<in> set (signers e) \<and> may_confirm s i sh b \<and>
    k_compliance_hold s i = None \<and>
    (joint_confirmation_required s sh \<and> k_shipment t = k_shipment s \<and> calls t = calls s \<or>
     (\<exists>gross pen sh'. milestone_gross_payment s sh j = Inr gross \<and>
        late_penalty sh (sh_milestones sh ! j) gross = Inr pen \<and> k_shipment t = (k_shipment s)(i \<mapsto> sh') \<and>
        (if 0 < sh_holdback_ledgers sh then held e sh j sh' else settled sh j (gross - pen) sh')))"
proof (rule confirm_milestone_cases [OF assms])
  fix sh stats cb s1
  assume a: "k_shipment s i = Some sh" "sh_status sh = Active" "j < length (sh_milestones sh)"
    "ms_status (sh_milestones sh ! j) = ProofSubmitted" "b \<in> set (signers e)" "may_confirm s i sh b"
    "k_compliance_hold s i = None"
    and q: "k_shipment s1 = k_shipment s" "calls s1 = calls s"
      "milestone_gross_payment s1 sh j = milestone_gross_payment s sh j"
    and t: "t = s1 \<and> joint_confirmation_required s sh \<or>
      confirm_settle e b cb i j sh (sh_milestones sh ! j) stats s1 = Inr t"
  from t show ?thesis
  proof
    assume "confirm_settle e b cb i j sh (sh_milestones sh ! j) stats s1 = Inr t"
    then show ?thesis by (rule confirm_settle_cases) (use a q in auto)
  qed (use a q in auto)
qed

theorem confirmation_outcome_witness:
  "\<exists>t sh'. confirm_milestone (env_at 20) buyer0 ''S'' 0 state0 = Inr t \<and>
     k_shipment t = (k_shipment state0)(''S'' \<mapsto> sh') \<and> settled deal0 0 600 sh'"
proof -
  obtain t where t: "confirm_milestone (env_at 20) buyer0 ''S'' 0 state0 = Inr t" using confirm_deal0 by blast
  from confirmation_outcome [OF t] deal0_facts t show ?thesis by auto
qed

text \<open>C2. A plain confirmation conserves value: one that needs no joint confirmation, sets no holdback and is not
  the final milestone, of a milestone without an advance request, with no long-hold rebate configured, the
  collateral not released share by share, holdbacks and payee percentages of at most 100 percent, no rate of
  the platform fee above 100 percent (\<open>plain_terms\<close>, \<open>rates_ok\<close>), and a gross value that is not negative. What the contract pays out (fee, logistics, referral, payees, financier, early bonus, late penalty)
  plus what it sets aside (batched payout, retainage, warranty) is exactly the gross value and the early bonus,
  and the escrow counter falls by what the shipment records as released, up to the new holdbacks. The late
  penalty is paid out and not recorded as released. With a rebate the claim is false.\<close>

theorem confirmation_conserves_value:
  assumes "confirm_milestone e b i j s = Inr t" "k_shipment s i = Some sh"
    and "\<not> joint_confirmation_required s sh" "sh_holdback_ledgers sh = 0" "\<not> is_final_milestone sh j"
    and "plain_terms s i j" "rates_ok s i" "milestone_gross_payment s sh j = Inr gross" "0 \<le> gross"
  shows "\<exists>sh' bonus. k_shipment t i = Some sh' \<and> 0 \<le> bonus \<and>
    sh_early_bonus_remaining sh' = sh_early_bonus_remaining sh - bonus \<and>
    placed e (sh_token sh) i (effective_milestone_supplier s sh i j) s t = gross + bonus \<and>
    get_or 0 (k_total_escrowed t (sh_token sh)) = max (free_escrow i (sh_token sh) s
      - (sh_released_amount sh' - sh_released_amount sh)
      + get_or 0 (k_retainage_balance t i) + get_or 0 (k_warranty_balance t i)) 0"
proof (rule confirm_milestone_cases [OF assms(1)])
  fix sh' stats cb s1
  let ?m = "sh_milestones sh ! j"
  assume a: "k_shipment s i = Some sh'" "joint_confirmation_required s sh' \<or> s1 = s"
    "t = s1 \<and> joint_confirmation_required s sh' \<or>
     confirm_settle e b cb i j sh' (sh_milestones sh' ! j) stats s1 = Inr t"
  have "confirm_settle e b cb i j sh ?m stats s = Inr t" using a assms(2,3) by auto
  then obtain pen where pen: "late_penalty sh ?m gross = Inr pen"
    and t: "confirm_now e b cb i j sh ?m stats (gross - pen) pen s = Inr t"
    using assms(4,8) by (auto simp: confirm_settle_def bindE_Inr ck_i128_Inr)
  have bounds: "0 \<le> pen" "0 \<le> gross - pen" using late_penalty_bounds [OF pen assms(9)] assms(9) by simp_all
  from confirm_now_settled [OF t] obtain x where x: "k_shipment t i = Some x" "settled sh j (gross - pen) x" by auto
  show ?thesis
    by (rule confirm_now_money [OF t assms(6,7,5) bounds(2,1)])
       (use x in \<open>simp add: settled_def effective_milestone_supplier_def\<close>)
qed

theorem confirmation_conserves_value_witness:
  "\<exists>t sh'. confirm_milestone (env_at 20) buyer0 ''S'' 0 state0 = Inr t \<and> k_shipment t ''S'' = Some sh' \<and>
     placed (env_at 20) token0 ''S'' supplier0 state0 t = 600 + (sh_early_bonus_remaining deal0 - sh_early_bonus_remaining sh')"
proof -
  obtain t where t: "confirm_milestone (env_at 20) buyer0 ''S'' 0 state0 = Inr t" using confirm_deal0 by blast
  have sup: "effective_milestone_supplier state0 deal0 ''S'' 0 = supplier0"
    by (simp add: effective_milestone_supplier_def state0_def deal0_def shipment0_def)
  from confirmation_conserves_value [OF t deal0_facts(1-3,6,4,5,7)] deal0_facts(10) sup t show ?thesis by auto
qed

section \<open>Release of a held payment\<close>

text \<open>C17. The release of a held payment needs an active shipment, the milestone in held status and
  its holdback over. It confirms the milestone, releases its gross payment, and completes the shipment
  exactly when every milestone is done.\<close>

theorem release_outcome:
  assumes "release_held_payment e i j s = Inr t"
  shows "\<exists>sh gross sh'. k_shipment s i = Some sh \<and> sh_status sh = Active \<and> j < length (sh_milestones sh) \<and>
    ms_status (sh_milestones sh ! j) = ConfirmedHeld \<and>
    ms_release_after_ledger (sh_milestones sh ! j) \<le> sequence e \<and>
    milestone_gross_payment s sh j = Inr gross \<and> k_shipment t = (k_shipment s)(i \<mapsto> sh') \<and>
    sh_milestones sh' = (sh_milestones sh)[j :=
      (sh_milestones sh ! j)\<lparr>ms_status := Confirmed, ms_release_after_ledger := 0\<rparr>] \<and>
    sh_released_amount sh' = sh_released_amount sh + gross \<and>
    sh_status sh' = (if all_milestones_done sh' then Completed else Active)"
  by (rule release_held_settled [OF assms]) auto

theorem release_outcome_witness:
  "\<exists>t sh'. release_held_payment (env_at 20) ''S'' 0 held0 = Inr t \<and> k_shipment t ''S'' = Some sh' \<and>
     sh_released_amount sh' = 600 \<and> sh_status sh' = Active"
proof -
  obtain t where t: "release_held_payment (env_at 20) ''S'' 0 held0 = Inr t" using release_held0 by blast
  from release_outcome [OF t] obtain sh' where sh': "k_shipment t ''S'' = Some sh'" "sh_released_amount sh' = 600"
    "sh_milestones sh' ! Suc 0 = sh_milestones deal_held0 ! Suc 0" "length (sh_milestones sh') = 2"
    "sh_status sh' = (if all_milestones_done sh' then Completed else Active)"
    using held0_facts by auto
  then have "sh_milestones deal_held0 ! Suc 0 \<in> set (sh_milestones sh')" by (metis nth_mem lessI numeral_2_eq_2)
  then have "\<not> all_milestones_done sh'"
    using held0_facts(4) by (force simp: all_milestones_done_def done_status_def)
  then show ?thesis using sh' t by auto
qed

section \<open>The way of a net payment\<close>

text \<open>C19. Every unit of a positive net payment of a milestone is paid out or set aside for the milestone's
  supplier and the shipment's holdbacks: with an assigned financier, with payees (the last one gets the
  rest of the rounding), in batched or in immediate mode.\<close>

theorem milestone_payout_conserved:
  assumes "pay_milestone_to_payees e i j net a tok s = Inr t" "0 < net"
    and "percents (get_or [] (k_milestone_payees s (i, j))) \<le> 100" "holdback_ok s i"
  shows "placed e tok i (get_or a (k_milestone_supplier s (i, j))) s t = net"
  using assms by (rule placed_payout)

theorem milestone_payout_conserved_witness:
  "\<exists>t. pay_milestone_to_payees (env_at 20) ''S'' 0 101 supplier0 token0 payees0 = Inr t \<and>
     placed (env_at 20) token0 ''S'' supplier0 payees0 t = 101"
proof -
  have "k_milestone_supplier payees0 (''S'', 0) = None"
    "percents (get_or [] (k_milestone_payees payees0 (''S'', 0))) \<le> 100" "holdback_ok payees0 ''S''"
    by (simp_all add: payees0_def state0_def holdback_ok_def)
  moreover obtain t where t: "pay_milestone_to_payees (env_at 20) ''S'' 0 101 supplier0 token0 payees0 = Inr t"
    using payout_payees0 by blast
  ultimately show ?thesis using milestone_payout_conserved [OF t] by auto
qed

end
