(* ===== verification/SettleClosing.thy ===== *)
theory SettleClosing
  imports SettleMoney SettleCancel
begin

text \<open>
  What a cancellation returns and what it leaves: every unit that was not released goes back to the
  buyer (by transfer or into the vault the shipment was funded from) or to the supplier as the agreed
  fee, and the shipment is in a final state.
\<close>

section \<open>Returned money\<close>

definition returned :: "settle_env \<Rightarrow> addr \<Rightarrow> addr \<Rightarrow> settle \<Rightarrow> settle \<Rightarrow> int" where
  "returned e tok a s t = spent e tok s t + (vault_bal t (a, tok) - vault_bal s (a, tok))"

lemma returned_refl [simp]: "returned e tok a s s = 0"
  by (simp add: returned_def)

lemma returned_trans: "returned e tok a s u = returned e tok a s t + returned e tok a t u"
  unfolding returned_def using spent_trans [of e tok s u t] by simp

lemma returned_quiet: "quiet s t \<Longrightarrow> returned e tok a s t = 0"
  by (simp add: returned_def spent_def vault_bal_def quietD)

lemma returned_pay: "token_pay e tok (this e) dst n s = Inr t \<Longrightarrow> returned e tok a s t = n"
  using spent_pay [of e tok dst n s t] by (auto simp: returned_def vault_bal_def token_pay_Inr)

text \<open>The keys that decide where a refund goes, and the shipments, stay as they are.\<close>

definition routed :: "settle \<Rightarrow> settle \<Rightarrow> bool" where
  "routed s t \<longleftrightarrow> k_refund_recipient t = k_refund_recipient s \<and> k_fund_from_vault t = k_fund_from_vault s \<and>
     k_supplier_collateral t = k_supplier_collateral s \<and> k_shipment t = k_shipment s \<and>
     k_retainage_balance t = k_retainage_balance s \<and> k_warranty_balance t = k_warranty_balance s \<and>
     k_cancel_until t = k_cancel_until s"

lemma routed_refl [simp]: "routed s s"
  by (simp add: routed_def)

lemma routed_trans: "routed s t \<Longrightarrow> routed t u \<Longrightarrow> routed s u"
  by (simp add: routed_def)

lemma routedD:
  assumes "routed s t"
  shows "k_refund_recipient t = k_refund_recipient s" "k_fund_from_vault t = k_fund_from_vault s"
    "k_supplier_collateral t = k_supplier_collateral s" "k_shipment t = k_shipment s"
    "k_retainage_balance t = k_retainage_balance s" "k_warranty_balance t = k_warranty_balance s"
    "k_cancel_until t = k_cancel_until s"
  using assms by (simp_all add: routed_def)

lemma routed_pay: "token_pay e tok a b n s = Inr t \<Longrightarrow> routed s t"
  by (auto simp: token_pay_Inr routed_def)

lemma routed_pay_when: "whenE c (token_pay e tok a b n) s = Inr t \<Longrightarrow> routed s t"
  using routed_pay by (auto simp: whenE_Inr split: if_splits)

text \<open>A refund reaches its recipient in full, by either way.\<close>

lemma refund_returned:
  assumes "refund_to_buyer e i sh n s = Inr t" "0 \<le> n"
  shows "returned e (sh_token sh) (get_or (sh_buyers sh ! 0) (k_refund_recipient s i)) s t = n" and "routed s t"
proof -
  let ?a = "get_or (sh_buyers sh ! 0) (k_refund_recipient s i)" and ?tok = "sh_token sh"
  consider "n = 0" "t = s" | "0 < n" "credit_vault ?a ?tok n s = Inr t"
    | "0 < n" "token_pay e ?tok (this e) ?a n s = Inr t"
    using assms
    by (auto simp: refund_to_buyer_def refund_token_to_buyer_def bindE_Inr vec_get_unwrap_Inr Let_def split: if_splits)
  then have "returned e ?tok ?a s t = n \<and> routed s t"
  proof cases
    case 2
    then have v: "vault_add ?a ?tok n s = Inr t" by (simp add: credit_vault_def)
    then have "calls t = calls s" by (rule vault_add_calls)
    moreover have "vault_bal t (?a, ?tok) = vault_bal s (?a, ?tok) + n"
      using vault_add_moved [OF v] by (simp add: vault_moved_def)
    moreover have "routed s t" using v by (auto simp: vault_add_def bindE_Inr ck_i128_Inr routed_def)
    ultimately show ?thesis by (simp add: returned_def spent_def)
  next
    case 3
    then show ?thesis using returned_pay routed_pay by blast
  qed simp
  then show "returned e ?tok ?a s t = n" and "routed s t" by simp_all
qed

lemma refund_when_returned:
  assumes "whenE (0 < n) (refund_to_buyer e i sh n) s = Inr t"
  shows "returned e (sh_token sh) (get_or (sh_buyers sh ! 0) (k_refund_recipient s i)) s t = max n 0" and "routed s t"
  using assms refund_returned [of e i sh n s t] by (auto simp: whenE_Inr split: if_splits)

section \<open>Cancellation by the buyer\<close>

lemma cancel_pay_returned:
  assumes "cancel_pay e i sh fee refund s = Inr t"
  shows "routed s t"
    and "0 \<le> fee \<Longrightarrow> 0 \<le> refund \<Longrightarrow>
      returned e (sh_token sh) (get_or (sh_buyers sh ! 0) (k_refund_recipient s i)) s t
           = fee + refund + max (get_or 0 (k_supplier_collateral s i)) 0"
proof -
  let ?tok = "sh_token sh" and ?a = "get_or (sh_buyers sh ! 0) (k_refund_recipient s i)"
  obtain s1 s2 where c: "whenE (0 < fee) (token_pay e ?tok (this e) (sh_supplier sh) fee) s = Inr s1"
    "whenE (0 < refund) (refund_to_buyer e i sh refund) s1 = Inr s2"
    "whenE (0 < get_or 0 (k_supplier_collateral s2 i)) (refund_to_buyer e i sh (get_or 0 (k_supplier_collateral s2 i))) s2 = Inr t"
    using assms(1) by (auto simp: cancel_pay_def bindE_Inr Let_def)
  note r1 = routed_pay_when [OF c(1)] and q2 = refund_when_returned [OF c(2)] and q3 = refund_when_returned [OF c(3)]
  note k = routedD [OF r1] routedD [OF q2(2)]
  show "routed s t" using r1 q2(2) q3(2) routed_trans by blast
  assume nn: "0 \<le> fee" "0 \<le> refund"
  have "returned e ?tok ?a s s1 = fee" using c(1) nn returned_pay by (auto simp: whenE_Inr split: if_splits)
  then show "returned e ?tok ?a s t = fee + refund + max (get_or 0 (k_supplier_collateral s i)) 0"
    using returned_trans [of e ?tok ?a s t s1] returned_trans [of e ?tok ?a s1 t s2] q2(1) q3(1) k nn by simp
qed

lemma holdbacks_returned:
  assumes "refund_holdbacks_on_cancel e i c sh s = Inr (t, sh')"
  shows "returned e (sh_token sh) a s t = max (get_or 0 (k_retainage_balance s i) + get_or 0 (k_warranty_balance s i)) 0"
    and "k_shipment t = k_shipment s" and "same_deal sh sh'" and "k_cancel_until t = k_cancel_until s"
    and "k_vault_balance t = k_vault_balance s"
proof -
  let ?both = "get_or 0 (k_retainage_balance s i) + get_or 0 (k_warranty_balance s i)"
  consider "?both \<le> 0" "t = s" "sh' = sh"
    | s1 where "0 < ?both" "token_pay e (sh_token sh) (this e) (sh_buyers sh ! 0) ?both s = Inr s1" "same_deal sh sh'"
        "calls t = calls s1" "k_vault_balance t = k_vault_balance s1" "k_shipment t = k_shipment s1"
        "k_cancel_until t = k_cancel_until s1"
    using assms
    by (auto simp: refund_holdbacks_on_cancel_def bindE_Inr ck_i128_Inr Let_def vec_get_unwrap_Inr
        decrease_total_escrowed_def split: if_splits)
  then have "returned e (sh_token sh) a s t = max ?both 0 \<and> k_shipment t = k_shipment s \<and> same_deal sh sh' \<and>
      k_cancel_until t = k_cancel_until s \<and> k_vault_balance t = k_vault_balance s"
  proof cases
    case 2
    have "k_vault_balance s1 = k_vault_balance s" using 2(2) by (auto simp: token_pay_Inr)
    moreover have "returned e (sh_token sh) a s1 t = 0" using 2 by (simp add: returned_def spent_def vault_bal_def)
    ultimately show ?thesis
      using 2 returned_trans [of e "sh_token sh" a s t s1] returned_pay [OF 2(2)] routedD [OF routed_pay [OF 2(2)]] by simp
  qed simp
  then show "returned e (sh_token sh) a s t = max ?both 0" "k_shipment t = k_shipment s" "same_deal sh sh'"
    "k_cancel_until t = k_cancel_until s" "k_vault_balance t = k_vault_balance s" by simp_all
qed

lemma release_doc_frame:
  "calls (release_shipment_doc_hashes i n s) = calls s"
  "k_vault_balance (release_shipment_doc_hashes i n s) = k_vault_balance s"
  "k_cancel_until (release_shipment_doc_hashes i n s) = k_cancel_until s"
proof -
  have "calls (release_shipment_doc_hashes i n s) = calls s \<and>
      k_vault_balance (release_shipment_doc_hashes i n s) = k_vault_balance s \<and>
      k_cancel_until (release_shipment_doc_hashes i n s) = k_cancel_until s"
    by (induction n) (auto simp: release_shipment_doc_hashes_def free_hash_def split: option.splits)
  then show "calls (release_shipment_doc_hashes i n s) = calls s"
    "k_vault_balance (release_shipment_doc_hashes i n s) = k_vault_balance s"
    "k_cancel_until (release_shipment_doc_hashes i n s) = k_cancel_until s" by simp_all
qed

lemma prune_frame:
  "calls (prune_shipment_auxiliary_keys i n s) = calls s"
  "k_vault_balance (prune_shipment_auxiliary_keys i n s) = k_vault_balance s"
  "k_shipment (prune_shipment_auxiliary_keys i n s) = k_shipment s"
  by (simp_all add: prune_shipment_auxiliary_keys_def)

lemma close_cancelled_Inr:
  assumes "close_cancelled i sh n s = Inr t"
  shows "k_shipment t = (k_shipment s)(i \<mapsto> sh)" "calls t = calls s" "k_vault_balance t = k_vault_balance s"
    "k_cancel_until t = k_cancel_until s"
  using assms by (auto simp: close_cancelled_def bindE_Inr ck_i128_Inr)

text \<open>The whole cancellation.\<close>

lemma cancel_internal_cases:
  assumes "cancel_shipment_internal e b i reason s = Inr t"
  obtains sh n fee sh' where
    "k_shipment s i = Some sh" "sh_status sh = Active" "b \<in> set (sh_buyers sh)" "k_compliance_hold s i = None"
    "\<forall>m \<in> set (sh_milestones sh). ms_status m \<noteq> Disputed"
    "unreleased_of sh = Inr n" "mul_div n (sh_buyer_cancel_fee_bps sh) 10000 = Inr fee"
    "k_shipment t = (k_shipment s)(i \<mapsto> sh')" "sh_status sh' = Cancelled" "sh_milestones sh' = sh_milestones sh"
    "sh_cancellation_reason sh' = [BuyerCancelled]"
    "0 \<le> fee \<Longrightarrow> fee \<le> n \<Longrightarrow>
       returned e (sh_token sh) (get_or (sh_buyers sh ! 0) (k_refund_recipient s i)) s t
         = n + max (get_or 0 (k_supplier_collateral s i)) 0
           + max (get_or 0 (k_retainage_balance s i) + get_or 0 (k_warranty_balance s i)) 0"
    "sh_open_dispute_count sh' = sh_open_dispute_count sh"
proof -
  obtain sh n fee s1 s2 sh1 s4 where
    g: "k_shipment s i = Some sh" "sh_status sh = Active" "b \<in> set (sh_buyers sh)" "k_compliance_hold s i = None"
       "\<forall>m \<in> set (sh_milestones sh). ms_status m \<noteq> Disputed"
       "unreleased_of sh = Inr n" "mul_div n (sh_buyer_cancel_fee_bps sh) 10000 = Inr fee"
    and c: "cancel_pay e i sh fee (n - fee) s = Inr s1" "refund_holdbacks_on_cancel e i b sh s1 = Inr (s2, sh1)"
    and d: "close_cancelled i (append_audit_entry e b ''shipment_cancelled'' ''cancel_shipment''
                 (sh1\<lparr>sh_status := Cancelled, sh_cancellation_reason := [BuyerCancelled]\<rparr>)) n
              (move_shipment_status_index Active Cancelled i (increment_reputation_internal e (sh_supplier sh1) 0 0 1 s2)) = Inr s4"
    and t: "quiet (release_shipment_doc_hashes i (length (sh_milestones sh1)) (prune_shipment_auxiliary_keys i (length (sh_milestones sh1)) s4)) t"
    using assms
    by (auto simp: cancel_shipment_internal_def bindE_Inr get_shipment_Inr assert_active_Inr assert_is_buyer_def
        is_buyer_def ensure_Inr assert_shipment_not_on_hold_def ck_i128_Inr Let_def emit_shipment_cancelled_def
        append_audit_entry_def split: if_splits prod.splits option.splits)
  let ?tok = "sh_token sh" and ?a = "get_or (sh_buyers sh ! 0) (k_refund_recipient s i)"
  let ?sh' = "append_audit_entry e b ''shipment_cancelled'' ''cancel_shipment''
                 (sh1\<lparr>sh_status := Cancelled, sh_cancellation_reason := [BuyerCancelled]\<rparr>)"
  let ?u = "move_shipment_status_index Active Cancelled i (increment_reputation_internal e (sh_supplier sh1) 0 0 1 s2)"
  let ?v = "release_shipment_doc_hashes i (length (sh_milestones sh1)) (prune_shipment_auxiliary_keys i (length (sh_milestones sh1)) s4)"
  note p = cancel_pay_returned [OF c(1)] and h = holdbacks_returned [OF c(2)] and cl = close_cancelled_Inr [OF d]
  have q: "quiet s2 ?u" by (rule quiet_trans [OF quiet_reputation quiet_status_index])
  have ship: "k_shipment ?v = k_shipment s4" "calls ?v = calls s4" "k_vault_balance ?v = k_vault_balance s4"
    using release_doc_hashes [of i "length (sh_milestones sh1)" "prune_shipment_auxiliary_keys i (length (sh_milestones sh1)) s4"]
      release_doc_frame prune_frame by simp_all
  have kt: "k_shipment t = (k_shipment s)(i \<mapsto> ?sh')"
    using quietD(1) [OF t] ship(1) cl(1) quietD(1) [OF q] h(2) routedD(4) [OF p(1)] by simp
  have sh': "sh_status ?sh' = Cancelled" "sh_milestones ?sh' = sh_milestones sh" "sh_cancellation_reason ?sh' = [BuyerCancelled]"
    using same_dealD(1) [OF h(3)] by (simp_all add: append_audit_entry_def)
  have ret: "returned e ?tok ?a s t = n + max (get_or 0 (k_supplier_collateral s i)) 0
           + max (get_or 0 (k_retainage_balance s i) + get_or 0 (k_warranty_balance s i)) 0"
    if f: "0 \<le> fee" "fee \<le> n"
  proof -
    have "returned e ?tok ?a ?u ?v = 0" using cl ship by (simp add: returned_def spent_def vault_bal_def)
    then show ?thesis
      using returned_trans [of e ?tok ?a s t s1] returned_trans [of e ?tok ?a s1 t s2] returned_trans [of e ?tok ?a s2 t ?u]
        returned_trans [of e ?tok ?a ?u t ?v] returned_quiet [OF q] returned_quiet [OF t] p(2) h(1) routedD(5,6) [OF p(1)] f
      by simp
  qed
  have cnt: "sh_open_dispute_count ?sh' = sh_open_dispute_count sh"
    using same_dealD(9) [OF h(3)] by (simp add: append_audit_entry_def)
  show thesis by (rule that [OF g kt sh' ret cnt])
qed

section \<open>A cancelled shipment stays cancelled\<close>

text \<open>Every operation that moves the shipment's money needs it to be active.\<close>

lemma inactive_rejects:
  assumes "k_shipment s i = Some sh" "sh_status sh \<noteq> Active"
  shows "confirm_milestone e b i j s \<noteq> Inr t" "release_held_payment e i j s \<noteq> Inr t"
    "cancel_shipment_internal e b i r s \<noteq> Inr t" "supplier_cancel e b i s \<noteq> Inr t" "withdraw_dispute e b i j s \<noteq> Inr t"
proof -
  have na: "assert_active sh = Inr u \<longleftrightarrow> False" for u by (simp add: assert_active_Inr assms(2))
  note sh = get_shipment_Inr [of s i] assms(1)
  show "confirm_milestone e b i j s \<noteq> Inr t" "release_held_payment e i j s \<noteq> Inr t"
    "cancel_shipment_internal e b i r s \<noteq> Inr t" "supplier_cancel e b i s \<noteq> Inr t" "withdraw_dispute e b i j s \<noteq> Inr t"
    by (simp_all add: confirm_milestone_def release_held_payment_def cancel_shipment_internal_def supplier_cancel_def
        withdraw_dispute_def bindE_Inr sh na Let_def)
qed

section \<open>Cancellation by the supplier\<close>

lemma record_cancellation_quiet:
  assumes "check_and_record_supplier_cancellation a now s = Inr t"
  shows "quiet s t" "k_cancel_policy t = k_cancel_policy s"
  using assms
  by (auto simp: check_and_record_supplier_cancellation_def bindE_Inr Let_def quiet_def same_terms_def
      split: if_splits option.splits prod.splits)

lemma release_doc_ship [simp]: "k_shipment (release_shipment_doc_hashes i n s) = k_shipment s"
  using release_doc_hashes by blast

lemma supplier_cancel_pay_spent:
  assumes "supplier_cancel_pay e sh penalty refund s = Inr t"
  shows "routed s t" "0 \<le> penalty \<Longrightarrow> 0 \<le> refund \<Longrightarrow> spent e (sh_token sh) s t = penalty + refund"
proof -
  obtain s1 where c: "whenE (0 < penalty) (token_pay e (sh_token sh) (this e) (sh_supplier sh) penalty) s = Inr s1"
    "whenE (0 < refund) (token_pay e (sh_token sh) (this e) (sh_buyers sh ! 0) refund) s1 = Inr t"
    using assms by (cases "0 < refund") (auto simp: supplier_cancel_pay_def bindE_Inr vec_get_unwrap_Inr)
  show "routed s t" using routed_pay_when [OF c(1)] routed_pay_when [OF c(2)] routed_trans by blast
  assume "0 \<le> penalty" "0 \<le> refund"
  then have "spent e (sh_token sh) s s1 = penalty" "spent e (sh_token sh) s1 t = refund"
    using c spent_pay by (auto simp: whenE_Inr split: if_splits)
  then show "spent e (sh_token sh) s t = penalty + refund" using spent_trans [of e "sh_token sh" s t s1] by simp
qed

lemma supplier_cancel_cases:
  assumes "supplier_cancel e a i s = Inr t"
  obtains sh n penalty sh' where
    "k_shipment s i = Some sh" "sh_status sh = Active" "a = sh_supplier sh" "a \<in> set (signers e)"
    "unreleased_of sh = Inr n" "mul_div n (cp_penalty_bps (get_or \<lparr>cp_response_deadline = 0, cp_penalty_bps = 0\<rparr> (k_cancel_policy s i))) 10000 = Inr penalty"
    "k_shipment t = (k_shipment s)(i \<mapsto> sh')" "sh_status sh' = Cancelled"
    "k_cancel_until t = k_cancel_until s"
    "0 \<le> penalty \<Longrightarrow> penalty \<le> n \<Longrightarrow>
       spent e (sh_token sh) s t = n + max (get_or 0 (k_retainage_balance s i) + get_or 0 (k_warranty_balance s i)) 0"
    "sh_milestones sh' = sh_milestones sh" "sh_open_dispute_count sh' = sh_open_dispute_count sh"
proof -
  obtain sh s1 n penalty s2 s3 sh1 s5 where
    g: "k_shipment s i = Some sh" "sh_status sh = Active" "a = sh_supplier sh" "a \<in> set (signers e)"
       "unreleased_of sh = Inr n" "mul_div n (cp_penalty_bps (get_or \<lparr>cp_response_deadline = 0, cp_penalty_bps = 0\<rparr> (k_cancel_policy s1 i))) 10000 = Inr penalty"
    and c: "check_and_record_supplier_cancellation a (sequence e) s = Inr s1"
       "supplier_cancel_pay e sh penalty (n - penalty) s1 = Inr s2" "refund_holdbacks_on_cancel e i a sh s2 = Inr (s3, sh1)"
    and d: "close_cancelled i (append_audit_entry e a ''shipment_cancelled'' ''supplier_cancel''
                 (sh1\<lparr>sh_status := Cancelled, sh_cancellation_reason := [SupplierCancelled]\<rparr>)) n
              (move_shipment_status_index Active Cancelled i (increment_reputation_internal e (sh_supplier sh1) 0 0 1 s3)) = Inr s5"
    and t: "calls t = calls s5" "k_shipment t = k_shipment s5" "k_cancel_until t = k_cancel_until s5"
    using assms
    by (auto simp: supplier_cancel_def bindE_Inr get_shipment_Inr assert_active_Inr require_auth_Inr
        ck_i128_Inr Let_def emit_shipment_cancelled_def append_audit_entry_def release_doc_frame
        split: if_splits prod.splits)
  let ?tok = "sh_token sh"
  let ?u = "move_shipment_status_index Active Cancelled i (increment_reputation_internal e (sh_supplier sh1) 0 0 1 s3)"
  note r = record_cancellation_quiet [OF c(1)] and p = supplier_cancel_pay_spent [OF c(2)]
    and h = holdbacks_returned [OF c(3)] and cl = close_cancelled_Inr [OF d]
  have q: "quiet s3 ?u" by (rule quiet_trans [OF quiet_reputation quiet_status_index])
  have kt: "k_shipment t = (k_shipment s)(i \<mapsto> append_audit_entry e a ''shipment_cancelled'' ''supplier_cancel''
                 (sh1\<lparr>sh_status := Cancelled, sh_cancellation_reason := [SupplierCancelled]\<rparr>))"
    using t(2) cl(1) quietD(1) [OF q] h(2) routedD(4) [OF p(1)] quietD(1) [OF r(1)] by simp
  have until: "k_cancel_until t = k_cancel_until s"
    using t(3) cl(4) quietD(9) [OF q] h(4) routedD(7) [OF p(1)] quietD(9) [OF r(1)] by simp
  have sp: "spent e ?tok s t = n + max (get_or 0 (k_retainage_balance s i) + get_or 0 (k_warranty_balance s i)) 0"
    if f: "0 \<le> penalty" "penalty \<le> n"
  proof -
    have "spent e ?tok s2 s3 = max (get_or 0 (k_retainage_balance s2 i) + get_or 0 (k_warranty_balance s2 i)) 0"
    proof -
      have "returned e ?tok a s2 s3 = spent e ?tok s2 s3 + (vault_bal s3 (a, ?tok) - vault_bal s2 (a, ?tok))" by (rule returned_def)
      moreover have "k_vault_balance s3 = k_vault_balance s2" by (rule h(5))
      ultimately show ?thesis using h(1) [of a] by (simp add: vault_bal_def)
    qed
    moreover have "spent e ?tok s s1 = 0" "spent e ?tok s3 ?u = 0" "spent e ?tok ?u t = 0"
      using quietD(2) [OF r(1)] quietD(2) [OF q] t(1) cl(2) by (simp_all add: spent_def)
    ultimately show ?thesis
      using spent_trans [of e ?tok s t s1] spent_trans [of e ?tok s1 t s2] spent_trans [of e ?tok s2 t s3]
        spent_trans [of e ?tok s3 t ?u] p(2) f routedD(5,6) [OF p(1)] quietD(4,5) [OF r(1)] by simp
  qed
  show thesis
    by (rule that [OF g(1-5) _ kt _ until sp])
       (use g(6) r(2) same_dealD(1,9) [OF h(3)] in \<open>simp_all add: append_audit_entry_def\<close>)
qed

text \<open>Cancelling other shipments does not bring a cancelled one back.\<close>

lemma cancelled_kept:
  assumes "k_shipment s i = Some sh" "sh_status sh = Cancelled"
    and "foldE (\<lambda>i. cancel_shipment_internal e b i r) ids s = Inr t"
  shows "\<exists>sh. k_shipment t i = Some sh \<and> sh_status sh = Cancelled"
  using assms
proof (induction ids arbitrary: s sh)
  case (Cons x xs)
  then obtain u where u: "cancel_shipment_internal e b x r s = Inr u"
    "foldE (\<lambda>i. cancel_shipment_internal e b i r) xs u = Inr t" by (auto simp: bindE_Inr)
  obtain y where "k_shipment u i = Some y" "sh_status y = Cancelled"
    using u(1) by (rule cancel_internal_cases) (use Cons.prems(1,2) in \<open>cases "i = x"; auto\<close>)
  then show ?case using Cons.IH u(2) by blast
qed auto

section \<open>Archiving\<close>

text \<open>What archiving writes.\<close>

lemma archive_Inr:
  assumes "archive_shipment e c i s = Inr t" "k_shipment s i = Some sh"
  shows "k_doc_hash_owner t h = (if \<exists>j<length (sh_milestones sh). attached s i j h then None else k_doc_hash_owner s h)"
    "k_shipment t = (k_shipment s)(i := None)" "k_invoice_hash t = k_invoice_hash s" "k_bol_hash t = k_bol_hash s"
proof -
  obtain a x y where t: "t = emit x y (release_shipment_doc_hashes i (length (sh_milestones sh))
       (s\<lparr>k_archived := (k_archived s)(i \<mapsto> a), k_shipment := (k_shipment s)(i := None), k_cancel_policy := (k_cancel_policy s)(i := None)\<rparr>))"
    using assms
    by (auto simp: archive_shipment_def bindE_Inr Let_def get_shipment_Inr split: if_splits)
  let ?u = "s\<lparr>k_archived := (k_archived s)(i \<mapsto> a), k_shipment := (k_shipment s)(i := None), k_cancel_policy := (k_cancel_policy s)(i := None)\<rparr>"
  have eq: "attached ?u = attached s" by (simp add: attached_def fun_eq_iff)
  have "k_doc_hash_owner t = k_doc_hash_owner (release_shipment_doc_hashes i (length (sh_milestones sh)) ?u)"
    by (simp add: t emit_def)
  then show "k_doc_hash_owner t h = (if \<exists>j<length (sh_milestones sh). attached s i j h then None else k_doc_hash_owner s h)"
    unfolding release_doc_owner eq by (simp cong: if_cong)
  show "k_shipment t = (k_shipment s)(i := None)" "k_invoice_hash t = k_invoice_hash s" "k_bol_hash t = k_bol_hash s"
    using release_doc_hashes [of i "length (sh_milestones sh)" ?u] by (simp_all add: t emit_def)
qed

end
