(* ===== verification/ClosingProperties.thy ===== *)
theory ClosingProperties
  imports SettleClosing SettleSample
begin

text \<open>
  The properties of cancellations, of the document registry and of the buyers' vaults, each with a
  closed instance.
\<close>

section \<open>Samples\<close>

lemmas cancel_eval = cancel_shipment_def cancel_shipment_internal_def unreleased_of_def cancel_pay_def
  refund_to_buyer_def refund_token_to_buyer_def refund_holdbacks_on_cancel_def close_cancelled_def
  quietD(6) [OF quiet_status_index] quietD(6) [OF quiet_reputation]

lemma cancel0: "\<exists>t. cancel_shipment (env_at 20) buyer0 ''S'' state0 = Inr t"
  by (simp add: state0_def deal0_def shipment0_def milestone0_def cancel_eval confirm_eval confirm_eval2 eval_defs
      cong: eval_cong option.case_cong)

lemma unreleased0: "unreleased_of deal0 = Inr 1000" "sh_buyer_cancel_fee_bps deal0 = 0" "sh_buyers deal0 = [buyer0]"
  "k_refund_recipient state0 = (\<lambda>_. None)"
  by (simp_all add: deal0_def state0_def shipment0_def unreleased_of_def eval_defs)

text \<open>The same shipment with a cancel policy: the buyer has five ledgers to respond.\<close>

definition policy0 :: settle where
  "policy0 = state0\<lparr>k_cancel_policy := [''S'' \<mapsto> \<lparr>cp_response_deadline = 5, cp_penalty_bps = 1000\<rparr>]\<rparr>"

lemma supplier_cancel0: "\<exists>t. supplier_cancel (env_at 20) supplier0 ''S'' policy0 = Inr t"
  by (simp add: policy0_def state0_def deal0_def shipment0_def milestone0_def supplier_cancel_def supplier_cancel_pay_def
      check_and_record_supplier_cancellation_def cancel_eval confirm_eval confirm_eval2 eval_defs
      cong: eval_cong option.case_cong)

lemma attach0: "\<exists>t. attach_invoice_hash (env_at 20) supplier0 ''S'' 0 77 state0 = Inr t"
  by (simp add: state0_def deal0_def shipment0_def milestone0_def attach_invoice_hash_def attach_checks_def
      register_doc_hash_def assert_doc_hash_unused_def require_supplier_auth_def confirm_eval confirm_eval2 eval_defs
      cong: eval_cong option.case_cong)

text \<open>A cancelled shipment whose document 77 the active shipment has registered since.\<close>

definition archive0 :: settle where
  "archive0 = state0\<lparr>k_shipment := [''S'' \<mapsto> deal0, ''A'' \<mapsto> shipment0 ''A'' [milestone0 100 ProofSubmitted] Cancelled],
     k_archive_threshold := Some 5, k_invoice_hash := [(''A'', 0) \<mapsto> 77, (''S'', 0) \<mapsto> 77],
     k_doc_hash_owner := [77 \<mapsto> ''S'']\<rparr>"

lemma archive_archive0: "\<exists>t. archive_shipment (env_at 20) other0 ''A'' archive0 = Inr t"
  by (simp add: archive0_def state0_def deal0_def shipment0_def milestone0_def archive_shipment_def
      confirm_eval confirm_eval2 eval_defs cong: eval_cong option.case_cong)

section \<open>Cancellation\<close>

text \<open>C7. A cancellation by the buyer was signed by a buyer of the active shipment, with no milestone in
  dispute. It returns everything that was neither released nor advanced, the supplier's collateral and
  the holdbacks, to the buyer (or its refund recipient, or its vault) and as the agreed fee to the
  supplier, and marks the shipment cancelled.\<close>

theorem cancellation_returns_all:
  assumes "cancel_shipment e b i s = Inr t" "k_shipment s i = Some sh"
    and "unreleased_of sh = Inr n" "0 \<le> n" "sh_buyer_cancel_fee_bps sh \<le> 10000"
  shows "b \<in> set (signers e) \<and> b \<in> set (sh_buyers sh) \<and> sh_status sh = Active \<and>
    (\<forall>m \<in> set (sh_milestones sh). ms_status m \<noteq> Disputed) \<and>
    (\<exists>sh'. k_shipment t = (k_shipment s)(i \<mapsto> sh') \<and> sh_status sh' = Cancelled \<and> sh_milestones sh' = sh_milestones sh) \<and>
    returned e (sh_token sh) (get_or (sh_buyers sh ! 0) (k_refund_recipient s i)) s t
      = n + max (get_or 0 (k_supplier_collateral s i)) 0
          + max (get_or 0 (k_retainage_balance s i) + get_or 0 (k_warranty_balance s i)) 0"
proof -
  have call: "b \<in> set (signers e)" "cancel_shipment_internal e b i None s = Inr t"
    using assms(1) by (auto simp: cancel_shipment_def bindE_Inr require_auth_Inr)
  from call(2) show ?thesis
  proof (rule cancel_internal_cases, goal_cases)
    case (1 sh' n' fee sh'')
    then have "sh' = sh" "n' = n" using assms(2,3) by simp_all
    moreover have "0 \<le> fee" "fee \<le> n"
      using mul_div_bounds [of n "sh_buyer_cancel_fee_bps sh" 10000 fee] 1(7) assms(4,5) calculation by simp_all
    ultimately show ?case using 1 call(1) by auto
  qed
qed

theorem cancellation_returns_all_witness:
  "\<exists>t. cancel_shipment (env_at 20) buyer0 ''S'' state0 = Inr t \<and>
     returned (env_at 20) token0 buyer0 state0 t = 1000
       + max (get_or 0 (k_supplier_collateral state0 ''S'')) 0
       + max (get_or 0 (k_retainage_balance state0 ''S'') + get_or 0 (k_warranty_balance state0 ''S'')) 0"
proof -
  obtain t where t: "cancel_shipment (env_at 20) buyer0 ''S'' state0 = Inr t" using cancel0 by blast
  from cancellation_returns_all [OF t deal0_facts(1) unreleased0(1)] unreleased0 deal0_facts(10) t show ?thesis by auto
qed

text \<open>A batch that names a shipment twice is rejected as a whole.\<close>

theorem batch_rejects_duplicates:
  assumes "\<not> distinct ids"
  shows "batch_cancel_shipments e b ids r s \<noteq> Inr t"
proof
  assume "batch_cancel_shipments e b ids r s = Inr t"
  then have run: "foldE (\<lambda>i. cancel_shipment_internal e b i (Some r)) ids s = Inr t"
    by (auto simp: batch_cancel_shipments_def bindE_Inr split: if_splits)
  obtain xs ys zs i where ids: "ids = xs @ [i] @ ys @ [i] @ zs" using not_distinct_decomp [OF assms] by blast
  then obtain s1 s2 s3 s4 where step: "cancel_shipment_internal e b i (Some r) s1 = Inr s2"
    "foldE (\<lambda>i. cancel_shipment_internal e b i (Some r)) ys s2 = Inr s3"
    "cancel_shipment_internal e b i (Some r) s3 = Inr s4"
    using run by (auto simp: foldE_append bindE_Inr)
  obtain sh where "k_shipment s2 i = Some sh" "sh_status sh = Cancelled"
    using step(1) by (rule cancel_internal_cases) auto
  then have "\<exists>sh. k_shipment s3 i = Some sh \<and> sh_status sh = Cancelled"
    using step(2) by (rule cancelled_kept)
  then show False using inactive_rejects(3) step(3) by force
qed

theorem batch_rejects_duplicates_witness:
  "\<forall>t. batch_cancel_shipments (env_at 20) buyer0 [''S'', ''S''] ''r'' state0 \<noteq> Inr t"
  by (intro allI batch_rejects_duplicates) simp

text \<open>A cancellation by the supplier pays out everything that was neither released nor advanced and
  the holdbacks (not the collateral), and never starts the cooldown: its end is written only by the
  call that then traps, so no call that returns changes it.\<close>

theorem supplier_cooldown_never_starts:
  assumes "supplier_cancel e a i s = Inr t" "k_shipment s i = Some sh" "unreleased_of sh = Inr n" "0 \<le> n"
    and "cp_penalty_bps (get_or \<lparr>cp_response_deadline = 0, cp_penalty_bps = 0\<rparr> (k_cancel_policy s i)) \<le> 10000"
  shows "k_cancel_until t = k_cancel_until s \<and>
    spent e (sh_token sh) s t = n + max (get_or 0 (k_retainage_balance s i) + get_or 0 (k_warranty_balance s i)) 0"
  using assms(1)
proof (rule supplier_cancel_cases, goal_cases)
  case (1 sh' n' penalty sh'')
  then have "sh' = sh" "n' = n" using assms(2,3) by simp_all
  moreover have "0 \<le> penalty" "penalty \<le> n"
    using mul_div_bounds [OF 1(6)] assms(4,5) calculation by simp_all
  ultimately show ?case using 1(9,10) by simp
qed

theorem supplier_cooldown_never_starts_witness:
  "\<exists>t. supplier_cancel (env_at 20) supplier0 ''S'' policy0 = Inr t \<and> k_cancel_until t = k_cancel_until policy0 \<and>
     spent (env_at 20) token0 policy0 t = 1000
       + max (get_or 0 (k_retainage_balance policy0 ''S'') + get_or 0 (k_warranty_balance policy0 ''S'')) 0"
proof -
  obtain t where t: "supplier_cancel (env_at 20) supplier0 ''S'' policy0 = Inr t" using supplier_cancel0 by blast
  have "k_shipment policy0 ''S'' = Some deal0" by (simp add: policy0_def state0_def)
  from supplier_cooldown_never_starts [OF t this unreleased0(1)] deal0_facts(10) t show ?thesis
    by (auto simp: policy0_def)
qed

section \<open>Documents\<close>

text \<open>C30. Archiving breaks the registry of documents: the hashes attached to the milestones of the archived
  shipment are freed without regard to their owner. A document of it that an active shipment has attached too
  (registered again after a cancellation freed it) is owned by nobody after the archive: it is still attached to
  the active shipment, and the check of an attachment lets any shipment take it.\<close>

theorem archive_frees_foreign_documents:
  assumes "archive_shipment e c i s = Inr t"
    and "k_shipment s i = Some sh" "j < length (sh_milestones sh)" "attached s i j h"
    and "k_shipment s i' = Some sh'" "sh_status sh' = Active" "attached s i' j' h" "i \<noteq> i'"
  shows "k_doc_hash_owner t h = None \<and> attached t i' j' h \<and> k_shipment t i' = Some sh' \<and>
    assert_doc_hash_unused t h x = Inr () \<and> \<not> docs_owned t"
proof -
  note t = archive_Inr [OF assms(1,2)]
  have "k_doc_hash_owner t h = None" using assms(3,4) by (auto simp: t(1))
  moreover have "attached t i' j' h" "k_shipment t i' = Some sh'"
    using assms(5,7,8) t by (simp_all add: attached_def)
  moreover have "\<not> docs_owned t" using calculation docs_ownedD assms(6) by fastforce
  ultimately show ?thesis by (simp add: assert_doc_hash_unused_def)
qed

theorem archive_frees_foreign_documents_witness:
  "\<exists>t. archive_shipment (env_at 20) other0 ''A'' archive0 = Inr t \<and> docs_owned archive0 \<and>
     k_doc_hash_owner t 77 = None \<and> attached t ''S'' 0 77"
proof -
  obtain t where t: "archive_shipment (env_at 20) other0 ''A'' archive0 = Inr t" using archive_archive0 by blast
  have "docs_owned archive0"
    by (auto simp: docs_owned_def attached_def archive0_def state0_def shipment0_def split: if_splits)
  moreover have "k_doc_hash_owner t 77 = None \<and> attached t ''S'' 0 77"
    using archive_frees_foreign_documents [OF t, where j = 0 and i' = "''S''" and j' = 0 and h = 77 and sh' = deal0
          and sh = "shipment0 ''A'' [milestone0 100 ProofSubmitted] Cancelled"]
    by (simp add: attached_def archive0_def state0_def shipment0_def deal0_def)
  ultimately show ?thesis using t by blast
qed

section \<open>Vaults\<close>

text \<open>C14. Vault balances are always backed: after any sequence of deposits and withdrawals of the buyers
  \<open>bs\<close>, each token's total equals the sum of the balances and the tokens that came in less those that
  went out, and no balance is negative.\<close>

theorem vault_always_backed:
  assumes "reach vault_start (\<lambda>s t. distinct bs \<and> vault_step self bs s t) s"
  shows "net_flow tok self (calls s) = vault_total s tok \<and> vault_total s tok = (\<Sum>b\<leftarrow>bs. vault_bal s (b, tok)) \<and>
    0 \<le> vault_bal s (b, tok)"
proof -
  have "vault_backed self bs s" by (rule vault.reachable_inv [OF assms])
  then show ?thesis using vault_invD [of bs s] by (simp add: vault_backed_def)
qed

lemma deposit0: "\<exists>t. vault_deposit (env_at 20) buyer0 token0 50 blank = Inr t \<and> vault_bal t (buyer0, token0) = 50"
  by (simp add: vault_deposit_def vault_add_def vault_bal_def vault_total_def assert_not_paused_def eval_defs)

theorem vault_always_backed_witness:
  "\<exists>t. vault_deposit (env_at 20) buyer0 token0 50 blank = Inr t \<and> net_flow token0 contract0 (calls t) = 50"
proof -
  obtain t where t: "vault_deposit (env_at 20) buyer0 token0 50 blank = Inr t" "vault_bal t (buyer0, token0) = 50"
    using deposit0 by blast
  have "vault_step contract0 [buyer0] blank t"
    by (rule step_deposit [OF t(1)]) (simp_all add: addr0_defs)
  then have "reach vault_start (\<lambda>s t. distinct [buyer0] \<and> vault_step contract0 [buyer0] s t) t"
    by (intro reach_step [OF reach_start, of _ blank]) (simp_all add: vault_start_def)
  from vault_always_backed [OF this, of token0 buyer0] t show ?thesis by auto
qed

text \<open>C28. A buyer can always withdraw what its vault holds: if the contract is neither paused nor frozen,
  the books balance within the width and the token accepts the transfer, a signed withdrawal of any
  positive amount up to the balance returns, and takes exactly that amount off the balance and off the
  total.\<close>

theorem vault_withdraw_available:
  assumes "\<not> get_or False (k_paused s)" "\<not> get_or False (k_emergency_frozen s)" "b \<in> set (signers e)"
    and "0 < n" "n \<le> vault_bal s (b, tok)" "vault_inv bs s" "b \<in> set bs" "in_i128 (vault_total s tok)"
    and "tok_ok e (calls s) \<lparr>xtoken = tok, xfrom = this e, xto = b, xamount = n\<rparr>"
  shows "\<exists>t. vault_withdraw e b tok n s = Inr t \<and> vault_bal t (b, tok) = vault_bal s (b, tok) - n \<and>
    vault_total t tok = vault_total s tok - n"
proof -
  have le: "vault_bal s (b, tok) \<le> vault_total s tok" by (rule sum_list_elem_le_vault [OF assms(6,7)])
  have "in_i128 (vault_bal s (b, tok) - n)" "in_i128 (vault_total s tok - n)"
    using in_i128_between [OF _ _ assms(8)] assms(4,5) le by simp_all
  then show ?thesis
    using assms le
    by (simp add: vault_withdraw_def assert_not_paused_def require_auth_def vault_sub_def ck_i128_def
        token_pay_def token_transfer_def Let_def vault_bal_def vault_total_def)
qed

theorem vault_withdraw_available_witness:
  "\<exists>t. vault_withdraw (env_at 20) buyer0 token0 30
     (blank\<lparr>k_vault_balance := [(buyer0, token0) \<mapsto> 50], k_total_vaulted := [token0 \<mapsto> 50]\<rparr>) = Inr t \<and>
     vault_bal t (buyer0, token0) = 20"
proof -
  let ?s = "blank\<lparr>k_vault_balance := [(buyer0, token0) \<mapsto> 50], k_total_vaulted := [token0 \<mapsto> 50]\<rparr>"
  have bal: "vault_bal ?s (buyer0, token0) = 50" "vault_total ?s token0 = 50"
    by (simp_all add: vault_bal_def vault_total_def)
  have "vault_inv [buyer0] ?s" by (auto simp: vault_inv_def vault_bal_def vault_total_def)
  from vault_withdraw_available [of ?s buyer0 "env_at 20" 30 token0 "[buyer0]", OF _ _ _ _ _ this] bal show ?thesis
    by (auto simp: in_i128_def width_literals)
qed

end
