(* ===== verification/LimitProperties.thy ===== *)
theory LimitProperties
  imports SettleLimits SettleClosing SettleSample
begin

text \<open>
  The properties of the limiters and of the fees, each with a closed instance.
\<close>

section \<open>Limits\<close>

text \<open>Runs of a limiter as folds over the calls: ledger and amount.\<close>

lemma circuit_run: "circuit.run xs s = foldE (\<lambda>x. check_circuit_breaker (fst x) (snd x)) xs s"
  by (induction xs arbitrary: s) (simp_all add: bindE_def split: sum.split)

lemma spending_run: "spending.run b xs s = foldE (\<lambda>x. check_and_record_buyer_spending b (fst x) (snd x)) xs s"
  by (induction xs arbitrary: s) (simp_all add: bindE_def split: sum.split)

definition breaker0 :: settle where
  "breaker0 = blank\<lparr>k_cb_limit := Some 100, k_cb_window := Some 50\<rparr>"

definition spender0 :: settle where
  "spender0 = blank\<lparr>k_spending_limit := [buyer0 \<mapsto> (100, 50)], k_spending_usage := [buyer0 \<mapsto> (1, 10)]\<rparr>"

text \<open>C26. The circuit breaker caps a window: with a limit set, the payments that are accepted before the
  running window ends, together with what the window had already paid, never exceed the limit, however
  many calls there are.\<close>

theorem circuit_breaker_caps_window:
  assumes "get_or 0 (k_cb_limit s) \<noteq> 0"
    and "foldE (\<lambda>x. check_circuit_breaker (fst x) (snd x)) xs s = Inr t" "xs \<noteq> []"
    and "\<forall>x \<in> set xs. fst x < get_or 0 (k_cb_window_start s) + get_or 0 (k_cb_window s)"
  shows "get_or 0 (k_cb_window_outflow s) + (\<Sum>x\<leftarrow>xs. snd x) \<le> get_or 0 (k_cb_limit s)"
  using circuit.run_capped [of s xs t] assms by (simp add: circuit_run)

theorem circuit_breaker_caps_window_witness:
  "\<exists>t. foldE (\<lambda>x. check_circuit_breaker (fst x) (snd x)) [(3, 60), (9, 40)] breaker0 = Inr t \<and>
     get_or 0 (k_cb_window_outflow breaker0) + (60 + 40) \<le> get_or 0 (k_cb_limit breaker0)"
proof -
  obtain t where t: "foldE (\<lambda>x. check_circuit_breaker (fst x) (snd x)) [(3, 60), (9, 40)] breaker0 = Inr t"
    by (simp add: breaker0_def check_circuit_breaker_def eval_defs)
  from circuit_breaker_caps_window [OF _ t] t show ?thesis by (simp add: breaker0_def)
qed

text \<open>The spending limit of a buyer caps a window in the same way.\<close>

theorem buyer_spending_capped:
  assumes "k_spending_limit s b = Some (lim, w)" "lim \<noteq> 0" "w \<noteq> 0" "k_spending_usage s b = Some (start, used)"
    and "foldE (\<lambda>x. check_and_record_buyer_spending b (fst x) (snd x)) xs s = Inr t" "xs \<noteq> []"
    and "\<forall>x \<in> set xs. fst x < start + w"
  shows "used + (\<Sum>x\<leftarrow>xs. snd x) \<le> lim"
  using spending.run_capped [of b s xs t] assms
  by (simp add: spending_run spending_lim_def spending_end_def spending_used_def)

theorem buyer_spending_capped_witness:
  "\<exists>t. foldE (\<lambda>x. check_and_record_buyer_spending buyer0 (fst x) (snd x)) [(3, 60), (9, 30)] spender0 = Inr t \<and>
     (10 :: int) + (60 + 30) \<le> 100"
proof -
  obtain t where t: "foldE (\<lambda>x. check_and_record_buyer_spending buyer0 (fst x) (snd x)) [(3, 60), (9, 30)] spender0 = Inr t"
    by (simp add: spender0_def check_and_record_buyer_spending_def window_over_def eval_defs)
  from buyer_spending_capped [OF _ _ _ _ t] t show ?thesis by (simp add: spender0_def)
qed

section \<open>Fees\<close>

lemma fee_preview_spent:
  assumes "deduct_fee_for_shipment_at_completion e gross tok i b fin s = Inr (t, net, fee, bps)"
  shows "spent e tok s t = fee"
  using deduct_completion_cases(2) [OF assms]
proof (elim disjE conjE exE)
  fix u treasury
  assume u: "token_pay e tok (this e) treasury fee s = Inr u" "quiet u t"
  then show ?thesis using spent_pay_then [OF u(1), of t] spent_same [OF quietD(2) [OF u(2)], of e tok] by simp
qed simp

definition rebate0 :: settle where
  "rebate0 = state0\<lparr>k_long_hold_rebate := Some (10, 5000)\<rparr>"

text \<open>C27. The read-only fee calculation that previews use is exact: whenever the deduction at completion
  returns, the preview on the state before it gives the same net amount, fee and rate, and the fee is
  what the contract paid out.\<close>

theorem fee_preview_exact:
  assumes "deduct_fee_for_shipment_at_completion e gross tok i b fin s = Inr (t, net, fee, bps)"
  shows "deduct_fee_for_shipment_at_completion_preview e s gross i b fin = Inr (net, fee, bps) \<and>
    spent e tok s t = fee \<and> net + fee = gross"
  using completion_fee_matches_preview [OF assms] deduct_completion_cases(1) [OF assms] fee_preview_spent [OF assms]
  by simp

theorem fee_preview_exact_witness:
  "\<exists>t. deduct_fee_for_shipment_at_completion (env_at 20) 600 token0 ''S'' buyer0 False state0 = Inr (t, 594, 6, 100) \<and>
     deduct_fee_for_shipment_at_completion_preview (env_at 20) state0 600 ''S'' buyer0 False = Inr (594, 6, 100)"
proof -
  obtain t where t: "deduct_fee_for_shipment_at_completion (env_at 20) 600 token0 ''S'' buyer0 False state0 = Inr (t, 594, 6, 100)"
    by (simp add: state0_def confirm_eval2 eval_defs cong: eval_cong option.case_cong)
  from fee_preview_exact [OF t] t show ?thesis by blast
qed

text \<open>With two or more fee recipients the contract pays more than the fee: the first one gets the
  whole fee (what is left when nothing has been distributed yet) and every other one its share on top,
  out of the escrow of other shipments.\<close>

theorem fee_recipients_overpaid:
  assumes "distribute_fee e tok treasury fee s = Inr t" "k_fee_recipients s = Some (r # rs)" "rs \<noteq> []" "0 < fee"
  shows "spent e tok s t = fee + (\<Sum>x\<leftarrow>rs. fee * int (fr_share_bps x) div 10000)"
proof -
  obtain u d where p: "pay_shares e tok fee 0 (r # rs) 0 s = Inr (u, d)" "track_treasury_revenue tok fee u = Inr t"
    using assms by (cases rs) (auto simp: distribute_fee_def bindE_Inr)
  obtain u1 where u1: "token_pay e tok (this e) (fr_recipient r) fee s = Inr u1"
    "pay_shares e tok fee (Suc 0) rs fee u1 = Inr (u, d)"
    using p(1) assms(4) by (auto simp: bindE_Inr ck_i128_Inr)
  have "spent e tok u1 u = (\<Sum>x\<leftarrow>rs. fee * int (fr_share_bps x) div 10000)"
    by (rule pay_shares_later [OF u1(2)]) (use assms(4) in simp_all)
  then show ?thesis
    using spent_pay_then [OF u1(1), of u] spent_trans [of e tok s t u]
      spent_same [OF track_treasury_revenue_calls [OF p(2)], of e tok] by simp
qed

theorem fee_recipients_overpaid_witness:
  "\<exists>t. distribute_fee (env_at 20) token0 treasury0 1000 (blank\<lparr>k_fee_recipients :=
       Some [\<lparr>fr_recipient = treasury0, fr_share_bps = 6000\<rparr>, \<lparr>fr_recipient = other0, fr_share_bps = 4000\<rparr>]\<rparr>) = Inr t \<and>
     outflow (env_at 20) token0 (calls t) = 1400"
proof -
  let ?s = "blank\<lparr>k_fee_recipients :=
       Some [\<lparr>fr_recipient = treasury0, fr_share_bps = 6000\<rparr>, \<lparr>fr_recipient = other0, fr_share_bps = 4000\<rparr>]\<rparr>"
  obtain t where t: "distribute_fee (env_at 20) token0 treasury0 1000 ?s = Inr t"
    by (simp add: distribute_fee_def track_treasury_revenue_def eval_defs signed_divide_int_def cong: eval_cong)
  from fee_recipients_overpaid [OF t] t show ?thesis by (auto simp: spent_def)
qed

text \<open>The long-hold rebate is not taken from the fee: the whole fee has already been transferred when
  the rebate is added to the supplier's net amount, so fee and net amount together exceed the payment by
  the rebate.\<close>

theorem long_hold_rebate_unfunded:
  assumes "confirm_deduct e i j sh payment s = Inr (t, sh', adv, net, fee, bps)"
    and "k_long_hold_rebate s = Some (threshold, rbps)" "0 < threshold" "threshold \<le> sequence e - sh_created_at sh"
  shows "spent e (sh_token sh) s t + net = payment + spent e (sh_token sh) s t * int rbps div 10000"
proof -
  obtain s1 s2 s3 net0 fee0 primary fin where
    c: "consume_advance_for_milestone sh i j s = Inr (s1, sh', adv)"
       "deduct_fee_for_shipment_at_completion e payment (sh_token sh') i primary fin s1 = Inr (s2, net0, fee0, bps)"
       "long_hold_rebate e s2 sh' net0 fee0 = Inr (net, fee)"
       "check_circuit_breaker (sequence e) payment s2 = Inr s3"
       "check_address_outflow (sh_supplier sh') (sequence e) payment s3 = Inr t"
    using assms(1) by (auto simp: confirm_deduct_def bindE_Inr split: prod.splits)
  have sh: "sh_token sh' = sh_token sh" "sh_created_at sh' = sh_created_at sh"
    using c(1) by (auto simp: consume_advance_for_milestone_def bindE_Inr split: option.splits if_splits)
  note q = quietD [OF deal_advance(2) [OF c(1)]] quietD [OF quiet_breaker [OF c(4)]] quietD [OF quiet_outflow [OF c(5)]]
  note d = deduct_completion_cases [OF c(2)]
  have fee0: "0 \<le> fee0" "spent e (sh_token sh) s1 s2 = fee0" "net0 = payment - fee0"
    using d fee_preview_spent [OF c(2)] sh(1) by auto
  have "k_long_hold_rebate s2 = Some (threshold, rbps)"
    using deduct_completion_money(2) [OF c(2)] q(7) assms(2) by (simp add: paying_def same_terms_def)
  then have "net = net0 + fee0 * int rbps div 10000"
    using c(3) assms(3,4) sh(2) fee0(1) unfolding long_hold_rebate_def
    by (auto simp: bindE_Inr ck_i128_Inr mul_div_Inr tdiv_nonneg pos_imp_zdiv_nonneg_iff antisym split: if_splits)
  moreover have "spent e (sh_token sh) s t = fee0"
    using fee0(2) q by (simp add: spent_def)
  ultimately show ?thesis using fee0(3) by simp
qed

theorem long_hold_rebate_unfunded_witness:
  "\<exists>t net fee. confirm_deduct (env_at 20) ''S'' 0 deal0 600 rebate0 = Inr (t, deal0, 0, net, fee, 100) \<and>
     spent (env_at 20) token0 rebate0 t + net = 600 + spent (env_at 20) token0 rebate0 t * 5000 div 10000"
proof -
  have created: "sh_created_at deal0 = 1" "sh_token deal0 = token0" by (simp_all add: deal0_def shipment0_def)
  obtain t net fee where t: "confirm_deduct (env_at 20) ''S'' 0 deal0 600 rebate0 = Inr (t, deal0, 0, net, fee, 100)"
    by (simp add: rebate0_def state0_def deal0_def shipment0_def milestone0_def confirm_eval confirm_eval2 eval_defs
        cong: eval_cong option.case_cong)
  have "k_long_hold_rebate rebate0 = Some (10, 5000)" by (simp add: rebate0_def)
  from long_hold_rebate_unfunded [OF t this] created t show ?thesis by auto
qed

section \<open>Claims\<close>

text \<open>A claim pays the whole pending amount and leaves none, so that it cannot be claimed twice. The
  pending amount does not record its token: it is paid in whatever token the supplier names.\<close>

theorem claim_pays_named_token:
  assumes "claim_payout e a tok s = Inr t" "k_payout_currency_preference s a = None"
  shows "a \<in> set (signers e) \<and> 0 < get_pending_payout s a \<and> spent e tok s t = get_pending_payout s a \<and>
    get_pending_payout t a = 0 \<and> claim_payout e' a tok' t \<noteq> Inr u"
proof -
  let ?s1 = "s\<lparr>k_pending_payout := (k_pending_payout s)(a \<mapsto> 0)\<rparr>"
  obtain s2 where s2: "0 < get_pending_payout s a" "a \<in> set (signers e)"
    "token_pay e tok (this e) a (get_pending_payout s a) ?s1 = Inr s2" "calls t = calls s2"
    "k_pending_payout t = k_pending_payout s2"
    using assms
    by (auto simp: claim_payout_def bindE_Inr Let_def require_auth_Inr payout_route_def get_pending_payout_def
        split: if_splits)
  have "spent e tok ?s1 s2 = get_pending_payout s a" by (rule spent_pay [OF s2(3)])
  then have "spent e tok s t = get_pending_payout s a" using s2(4) by (simp add: spent_def)
  moreover have z: "get_pending_payout t a = 0"
    using s2(3,5) by (auto simp: token_pay_Inr get_pending_payout_def)
  moreover have "claim_payout e' a tok' t \<noteq> Inr u"
    using z by (simp add: claim_payout_def bindE_Inr Let_def get_pending_payout_def)
  ultimately show ?thesis using s2(1,2) by simp
qed

definition pending0 :: settle where
  "pending0 = blank\<lparr>k_pending_payout := [supplier0 \<mapsto> 500]\<rparr>"

theorem claim_pays_named_token_witness:
  "\<exists>t. claim_payout (env_at 20) supplier0 other0 pending0 = Inr t \<and> spent (env_at 20) other0 pending0 t = 500"
proof -
  obtain t where t: "claim_payout (env_at 20) supplier0 other0 pending0 = Inr t"
    by (simp add: pending0_def claim_payout_def payout_route_def assert_operation_not_paused_def assert_not_paused_def
        eval_defs cong: eval_cong option.case_cong)
  from claim_pays_named_token [OF t] t show ?thesis by (auto simp: pending0_def get_pending_payout_def)
qed

end
