(* ===== verification/GovernanceProperties.thy ===== *)
theory GovernanceProperties
  imports SettleClosing SettleSample
begin

text \<open>
  The properties of the emergency freeze, of pauses by consent and of the administration of the settlement
  contract, each with a closed instance.
\<close>

section \<open>Emergency freeze\<close>

text \<open>The four multisig calls as steps, for a fixed set of administrators.\<close>

inductive freeze_step :: "settle \<Rightarrow> settle \<Rightarrow> bool" where
  fr_propose: "propose_emergency_freeze e a s = Inr (t, pid) \<Longrightarrow> freeze_step s t"
| fr_approve: "approve_emergency_freeze e a pid s = Inr t \<Longrightarrow> freeze_step s t"
| fr_propose_lift: "propose_emergency_unfreeze e a s = Inr (t, pid) \<Longrightarrow> freeze_step s t"
| fr_approve_lift: "approve_emergency_unfreeze e a pid s = Inr t \<Longrightarrow> freeze_step s t"

definition freeze_start :: "multi_admin_config \<Rightarrow> settle \<Rightarrow> bool" where
  "freeze_start cfg s \<longleftrightarrow> k_multi_admin_config s = Some cfg \<and> k_freeze_proposal s = Map.empty"

text \<open>The approvals of an open proposal come from different administrators.\<close>

definition voters_ok :: "multi_admin_config \<Rightarrow> addr list \<Rightarrow> bool" where
  "voters_ok cfg vs \<longleftrightarrow> distinct vs \<and> set vs \<subseteq> set (mc_admins cfg)"

definition freeze_inv :: "multi_admin_config \<Rightarrow> settle \<Rightarrow> bool" where
  "freeze_inv cfg s \<longleftrightarrow> k_multi_admin_config s = Some cfg \<and>
     (\<forall>pid p. k_freeze_proposal s pid = Some p \<longrightarrow> voters_ok cfg (ef_approvals p))"

lemma emit_freeze [simp]:
  "k_multi_admin_config (emit x y s) = k_multi_admin_config s" "k_freeze_proposal (emit x y s) = k_freeze_proposal s"
  "k_emergency_frozen (emit x y s) = k_emergency_frozen s" "k_freeze_supermajority_bps (emit x y s) = k_freeze_supermajority_bps s"
  by (simp_all add: emit_def)

lemma freeze_bps [simp]:
  "get_freeze_supermajority_bps (emit x y s) = get_freeze_supermajority_bps s"
  "get_freeze_supermajority_bps (s\<lparr>k_freeze_proposal := f\<rparr>) = get_freeze_supermajority_bps s"
  "get_freeze_supermajority_bps (s\<lparr>k_freeze_proposal_counter := n\<rparr>) = get_freeze_supermajority_bps s"
  by (simp_all add: get_freeze_supermajority_bps_def)

definition freeze_quorum :: "multi_admin_config \<Rightarrow> settle \<Rightarrow> nat" where
  "freeze_quorum cfg s = supermajority_required (length (mc_admins cfg)) (get_freeze_supermajority_bps s)"

text \<open>What a successful proposal and a successful approval did.\<close>

lemma propose_freeze_Inr:
  assumes "propose_emergency_freeze e a s = Inr (t, pid)" "k_multi_admin_config s = Some cfg"
  shows "a \<in> set (signers e)" "a \<in> set (mc_admins cfg)" "k_multi_admin_config t = Some cfg"
    "k_freeze_proposal t = (k_freeze_proposal s)(pid := if freeze_quorum cfg s \<le> 1 then None else Some \<lparr>ef_approvals = [a]\<rparr>)"
    "k_emergency_frozen t = (if freeze_quorum cfg s \<le> 1 then Some True else k_emergency_frozen s)"
  using assms
  by (auto simp: propose_emergency_freeze_def bindE_Inr require_auth_Inr require_multisig_config_def expect_Inr
      assert_multisig_admin_def ck_u64_Inr whenE_Inr Let_def freeze_quorum_def execute_emergency_freeze_proposal_def
      split: if_splits)

lemma approve_freeze_Inr:
  assumes "approve_emergency_freeze e a pid s = Inr t" "k_multi_admin_config s = Some cfg"
  obtains p where "k_freeze_proposal s pid = Some p" "a \<in> set (signers e)" "a \<in> set (mc_admins cfg)"
    "a \<notin> set (ef_approvals p)" "k_multi_admin_config t = Some cfg"
    "k_freeze_proposal t = (k_freeze_proposal s)(pid := if freeze_quorum cfg s \<le> length (ef_approvals p @ [a]) then None
       else Some (p\<lparr>ef_approvals := ef_approvals p @ [a]\<rparr>))"
    "k_emergency_frozen t = (if freeze_quorum cfg s \<le> length (ef_approvals p @ [a]) then Some True else k_emergency_frozen s)"
  using assms
  by (auto simp: approve_emergency_freeze_def as_multisig_def bindE_Inr require_auth_Inr require_multisig_config_def expect_Inr
      assert_multisig_admin_def add_approval_def whenE_Inr Let_def freeze_quorum_def execute_emergency_freeze_proposal_def
      split: if_splits)

lemma lift_keeps:
  assumes "propose_emergency_unfreeze e a s = Inr (t, pid) \<or> approve_emergency_unfreeze e a pid s = Inr t"
    "k_multi_admin_config s = Some cfg"
  shows "k_multi_admin_config t = Some cfg" "k_freeze_proposal t = k_freeze_proposal s"
    "k_emergency_frozen t = Some True \<Longrightarrow> k_emergency_frozen s = Some True"
  using assms
  by (auto simp: propose_emergency_unfreeze_def approve_emergency_unfreeze_def as_multisig_def bindE_Inr
      require_multisig_config_def expect_Inr add_approval_def whenE_Inr Let_def execute_emergency_unfreeze_proposal_def
      split: if_splits)

lemma freeze_step_inv: "freeze_step s t \<Longrightarrow> freeze_inv cfg s \<Longrightarrow> freeze_inv cfg t"
proof (induction rule: freeze_step.induct)
  case (fr_propose e a s t pid)
  then have "k_multi_admin_config s = Some cfg" by (simp add: freeze_inv_def)
  from propose_freeze_Inr [OF fr_propose(1) this] fr_propose(2) show ?case
    by (simp add: freeze_inv_def voters_ok_def)
next
  case (fr_approve e a pid s t)
  then have "k_multi_admin_config s = Some cfg" by (simp add: freeze_inv_def)
  from fr_approve(1) this show ?case
  proof (rule approve_freeze_Inr)
    fix p
    assume p: "k_freeze_proposal s pid = Some p" "a \<in> set (mc_admins cfg)" "a \<notin> set (ef_approvals p)"
      "k_multi_admin_config t = Some cfg"
      "k_freeze_proposal t = (k_freeze_proposal s)(pid := if freeze_quorum cfg s \<le> length (ef_approvals p @ [a]) then None
         else Some (p\<lparr>ef_approvals := ef_approvals p @ [a]\<rparr>))"
    have "voters_ok cfg (ef_approvals p)" using fr_approve(2) p(1) by (simp add: freeze_inv_def)
    then show ?thesis using p fr_approve(2) by (simp add: freeze_inv_def voters_ok_def)
  qed
next
  case (fr_propose_lift e a s t pid)
  then show ?case using lift_keeps(1,2) [of e a s t pid cfg] by (simp add: freeze_inv_def)
next
  case (fr_approve_lift e a pid s t)
  then show ?case using lift_keeps(1,2) [of e a s t pid cfg] by (simp add: freeze_inv_def)
qed

interpretation freeze: invariant_system "freeze_start cfg" freeze_step "freeze_inv cfg" for cfg
  by unfold_locales (simp add: freeze_start_def freeze_inv_def, rule freeze_step_inv)

text \<open>C20. The contract is frozen only by a supermajority: whenever a call turns the freeze on, different
  administrators approved it, all but the caller in the proposal before the call, and they are at least
  the required share of the administrators.\<close>

theorem freeze_needs_supermajority:
  assumes "reach (freeze_start cfg) freeze_step s" "freeze_step s t"
    and "k_emergency_frozen s \<noteq> Some True" "k_emergency_frozen t = Some True"
  shows "\<exists>a voters. distinct (voters @ [a]) \<and> set (voters @ [a]) \<subseteq> set (mc_admins cfg) \<and>
    freeze_quorum cfg s \<le> length (voters @ [a]) \<and>
    (voters = [] \<or> (\<exists>pid. k_freeze_proposal s pid = Some \<lparr>ef_approvals = voters\<rparr>))"
proof -
  have inv: "freeze_inv cfg s" by (rule freeze.reachable_inv [OF assms(1)])
  then have cfg: "k_multi_admin_config s = Some cfg" by (simp add: freeze_inv_def)
  from assms(2) show ?thesis
  proof cases
    case (fr_propose e a pid)
    then show ?thesis
      using propose_freeze_Inr [OF fr_propose cfg] assms(3,4)
      by (intro exI [of _ a] exI [of _ "[]"]) (simp split: if_splits)
  next
    case (fr_approve e a pid)
    then show ?thesis using cfg
    proof (rule approve_freeze_Inr, goal_cases)
      case (1 p)
      then have "voters_ok cfg (ef_approvals p)" using inv by (simp add: freeze_inv_def)
      moreover obtain vs where "p = \<lparr>ef_approvals = vs\<rparr>" by (cases p)
      ultimately show ?case using 1 assms(3,4)
        by (intro exI [of _ a] exI [of _ vs]) (auto simp: voters_ok_def split: if_splits)
    qed
  qed (use lift_keeps(3) cfg assms(3,4) in blast)+
qed

definition board0 :: settle where
  "board0 = blank\<lparr>k_multi_admin_config := Some \<lparr>mc_admins = [buyer0, supplier0, other0], mc_threshold = 2\<rparr>,
     k_freeze_supermajority_bps := Some 6000\<rparr>"

theorem freeze_needs_supermajority_witness:
  "\<exists>s t. propose_emergency_freeze (env_at 20) buyer0 board0 = Inr (s, 1) \<and>
     approve_emergency_freeze (env_at 21) other0 1 s = Inr t \<and> k_emergency_frozen t = Some True \<and>
     (\<exists>a vs. distinct (vs @ [a]) \<and> 2 \<le> length (vs @ [a]) \<and> set (vs @ [a]) \<subseteq> {buyer0, supplier0, other0})"
proof -
  let ?cfg = "\<lparr>mc_admins = [buyer0, supplier0, other0], mc_threshold = 2\<rparr>"
  obtain s t where st: "propose_emergency_freeze (env_at 20) buyer0 board0 = Inr (s, 1)"
    "approve_emergency_freeze (env_at 21) other0 1 s = Inr t" "k_emergency_frozen s \<noteq> Some True"
    "k_emergency_frozen t = Some True" "freeze_quorum ?cfg s = 2"
    by (simp add: board0_def propose_emergency_freeze_def approve_emergency_freeze_def as_multisig_def
        require_multisig_config_def assert_multisig_admin_def add_approval_def supermajority_required_def
        get_freeze_supermajority_bps_def execute_emergency_freeze_proposal_def freeze_quorum_def addr0_defs eval_defs)
  have "freeze_start ?cfg board0" by (simp add: freeze_start_def board0_def)
  then have "reach (freeze_start ?cfg) freeze_step board0" by (rule reach_start)
  then have "reach (freeze_start ?cfg) freeze_step s" by (rule reach_step) (rule fr_propose [OF st(1)])
  from freeze_needs_supermajority [OF this fr_approve [OF st(2)] st(3,4)] obtain a vs where
    v: "distinct (vs @ [a])" "set (vs @ [a]) \<subseteq> {buyer0, supplier0, other0}" "2 \<le> length (vs @ [a])"
    using st(5) by auto
  show ?thesis
    by (rule exI [of _ s], rule exI [of _ t], intro conjI st exI [of _ a] exI [of _ vs] v)
qed

section \<open>Pausing and administration\<close>

text \<open>The initialisation can be repeated by anybody: in every state, an address that signs its own
  call becomes the administrator, with the pause switch off and the audit log emptied, and can install
  any code at once unless an upgrade multisig is configured.\<close>

theorem anyone_can_take_over:
  assumes "a \<in> set (signers e)" "k_multi_admin_config s = None"
  shows "\<exists>t. settle_init e a s = Inr t \<and> k_admin t = Some a \<and> k_paused t = Some False \<and>
    k_admin_action_log t = Some [] \<and> (\<exists>u. upgrade e a h t = Inr u \<and> k_wasm u = Some h)"
  using assms by (simp add: settle_init_def upgrade_def require_auth_def emit_def)

theorem anyone_can_take_over_witness:
  "\<exists>t. settle_init (env_at 20) other0 (state0\<lparr>k_admin := Some buyer0, k_paused := Some True\<rparr>) = Inr t \<and>
     k_admin t = Some other0 \<and> k_paused t = Some False"
  using anyone_can_take_over [of other0 "env_at 20" "state0\<lparr>k_admin := Some buyer0, k_paused := Some True\<rparr>"]
  by (auto simp: state0_def)

text \<open>A pause by mutual consent never costs time: when the second party resumes the shipment, every
  milestone keeps its status and share, and every deadline, release ledger and expiry that was set moves
  by the length of the pause, saturated at the width, so that none gets earlier.\<close>

theorem resume_never_shortens:
  assumes "resume_shipment e c i s = Inr t" "k_shipment s i = Some sh" "k_paused_at s i = Some p"
    and "k_pause_request s i = Some req" "pr_is_resume req" "pr_requester req \<noteq> c"
  shows "c \<in> set (signers e) \<and> (c \<in> set (sh_buyers sh) \<or> c = sh_supplier sh) \<and> is_shipment_paused_internal s i \<and>
    \<not> is_shipment_paused_internal t i \<and>
    (\<exists>sh'. k_shipment t = (k_shipment s)(i \<mapsto> sh') \<and>
      sh_milestones sh' = (if sequence e - p = 0 then sh_milestones sh
        else map (bump_milestone (sequence e - p)) (sh_milestones sh)) \<and>
      (\<forall>k < length (sh_milestones sh). ms_deadline_ledger (sh_milestones sh ! k) \<le> u32_max \<longrightarrow>
         ms_deadline_ledger (sh_milestones sh ! k) \<le> ms_deadline_ledger (sh_milestones sh' ! k) \<and>
         ms_status (sh_milestones sh' ! k) = ms_status (sh_milestones sh ! k)))"
proof -
  let ?d = "sequence e - p"
  let ?sh' = "snd (bump_shipment_deadlines_for_pause ?d sh s)"
  have t: "c \<in> set (signers e)" "c \<in> set (sh_buyers sh) \<or> c = sh_supplier sh" "is_shipment_paused_internal s i"
    "k_shipment t = (k_shipment s)(i \<mapsto> ?sh')" "k_shipment_paused t i = Some False"
    using assms
    by (auto simp: resume_shipment_def bindE_Inr require_auth_Inr get_shipment_Inr assert_buyer_or_supplier_def ensure_Inr
        is_buyer_def Let_def bump_shipment_deadlines_for_pause_def emit_def split: if_splits)
  have ms: "sh_milestones ?sh' = (if ?d = 0 then sh_milestones sh else map (bump_milestone ?d) (sh_milestones sh))"
    by (simp add: bump_shipment_deadlines_for_pause_def)
  have "ms_deadline_ledger (sh_milestones sh ! k) \<le> ms_deadline_ledger (sh_milestones ?sh' ! k) \<and>
      ms_status (sh_milestones ?sh' ! k) = ms_status (sh_milestones sh ! k)"
    if "k < length (sh_milestones sh)" "ms_deadline_ledger (sh_milestones sh ! k) \<le> u32_max" for k
    using bump_milestone_later(1,3) [OF that(2)] that(1) by (simp add: ms)
  then show ?thesis using t ms by (auto simp: is_shipment_paused_internal_def [of t])
qed

definition resume0 :: settle where
  "resume0 = state0\<lparr>k_shipment_paused := [''S'' \<mapsto> True], k_paused_at := [''S'' \<mapsto> 12],
     k_pause_request := [''S'' \<mapsto> \<lparr>pr_requester = buyer0, pr_is_resume = True\<rparr>]\<rparr>"

theorem resume_never_shortens_witness:
  "\<exists>t sh'. resume_shipment (env_at 20) supplier0 ''S'' resume0 = Inr t \<and>
     k_shipment t = (k_shipment resume0)(''S'' \<mapsto> sh') \<and> sh_milestones sh' = map (bump_milestone 8) (sh_milestones deal0)"
proof -
  obtain t where t: "resume_shipment (env_at 20) supplier0 ''S'' resume0 = Inr t"
    by (simp add: resume0_def state0_def deal0_def shipment0_def resume_shipment_def assert_buyer_or_supplier_def
        bump_shipment_deadlines_for_pause_def confirm_eval confirm_eval2 eval_defs addr0_defs cong: eval_cong)
  have "k_shipment resume0 ''S'' = Some deal0" "k_paused_at resume0 ''S'' = Some 12"
    "k_pause_request resume0 ''S'' = Some \<lparr>pr_requester = buyer0, pr_is_resume = True\<rparr>"
    by (simp_all add: resume0_def state0_def)
  from resume_never_shortens [OF t this] t show ?thesis by (auto simp: addr0_defs)
qed

end
