(* ===== verification/LedgerProperties.thy ===== *)
theory LedgerProperties
  imports SettleIds SettleSample
begin

text \<open>
  The properties of generated ids, pages, bounded logs and fee tiers, each with a closed instance.
\<close>

section \<open>Ids\<close>

text \<open>C31. The id of an occurrence of a standing order always fits its 64-byte buffer, and order and
  occurrence can be read back from it: no two occurrences share an id.\<close>

theorem standing_id_roundtrip:
  assumes "order_id \<le> u64_max" "occurrence \<le> u64_max"
  shows "\<exists>i. standing_shipment_id order_id occurrence = Inr i \<and> length i \<le> 44 \<and>
    read_standing_id i = (order_id, occurrence) \<and>
    (\<forall>o' n'. o' \<le> u64_max \<longrightarrow> n' \<le> u64_max \<longrightarrow> standing_shipment_id o' n' = Inr i \<longrightarrow>
       o' = order_id \<and> n' = occurrence)"
proof -
  let ?i = "''so-'' @ decimal order_id @ ''-'' @ decimal occurrence"
  have "length (decimal order_id) \<le> 20" "length (decimal occurrence) \<le> 20"
    using assms by (intro length_decimal; simp add: u64_max_def)+
  then have len: "length ?i \<le> 44" by simp
  have "o' = order_id \<and> n' = occurrence"
    if "o' \<le> u64_max" "n' \<le> u64_max" "standing_shipment_id o' n' = Inr ?i" for o' n'
  proof -
    have "''so-'' @ decimal o' @ ''-'' @ decimal n' = ?i" using standing_id_is [OF that(1,2)] that(3) by simp
    then show ?thesis using read_standing_decimal [of o' n'] read_standing_decimal [of order_id occurrence] by simp
  qed
  then show ?thesis
    using standing_id_is [OF assms] len read_standing_decimal [of order_id occurrence] by blast
qed

theorem standing_id_roundtrip_witness:
  "\<exists>i. standing_shipment_id 7 120 = Inr i \<and> length i \<le> 44 \<and> read_standing_id i = (7, 120)"
proof -
  have "(7 :: nat) \<le> u64_max" "(120 :: nat) \<le> u64_max" by (simp_all add: u64_max_def)
  from standing_id_roundtrip [OF this] show ?thesis by blast
qed

section \<open>Pages\<close>

text \<open>The first \<open>n\<close> pages of \<open>lim\<close> ids, one after the other.\<close>

definition pages :: "sid list \<Rightarrow> nat \<Rightarrow> nat \<Rightarrow> sid list" where
  "pages src lim n = concat (map (\<lambda>k. paginate_shipment_ids src (Some (k * lim)) lim) [0..<n])"

text \<open>Paging visits every id exactly once and in order: the first \<open>n\<close> pages together are the
  first \<open>n * lim\<close> ids, so that enough pages give the whole index; a page never holds more than 50 ids.\<close>

theorem pages_cover_index:
  assumes "0 < lim" "lim \<le> LIST_SHIPMENTS_MAX_PAGE"
  shows "pages src lim n = take (n * lim) src \<and> (length src \<le> n * lim \<longrightarrow> pages src lim n = src) \<and>
    length (paginate_shipment_ids src cursor lim') \<le> LIST_SHIPMENTS_MAX_PAGE"
proof -
  have "pages src lim n = take (n * lim) src"
  proof (induction n)
    case (Suc n)
    have "pages src lim (Suc n) = pages src lim n @ take lim (drop (n * lim) src)"
      using assms by (simp add: pages_def paginate_take min_def)
    also have "\<dots> = take (n * lim + lim) src" by (simp add: Suc take_add)
    finally show ?case by (simp add: add.commute)
  qed (simp add: pages_def)
  then show ?thesis by (simp add: paginate_take)
qed

theorem pages_cover_index_witness:
  "pages [''a'', ''b'', ''c''] 2 2 = [''a'', ''b'', ''c'']"
  using pages_cover_index [of 2 "[''a'', ''b'', ''c'']" 2] by (simp add: LIST_SHIPMENTS_MAX_PAGE_def)

section \<open>Bounded logs\<close>

text \<open>The entries of a shipment's audit log after a sequence of appends.\<close>

definition audit_all :: "settle_env \<Rightarrow> (addr \<times> sym \<times> sym) list \<Rightarrow> shipment \<Rightarrow> shipment" where
  "audit_all e xs sh = foldl (\<lambda>sh (c, a, d). append_audit_entry e c a d sh) sh xs"

abbreviation entry_of :: "settle_env \<Rightarrow> addr \<times> sym \<times> sym \<Rightarrow> audit_entry" where
  "entry_of e x \<equiv> \<lparr>ae_action = fst (snd x), ae_caller = fst x, ae_ledger = sequence e, ae_detail = snd (snd x)\<rparr>"

text \<open>The audit log of a shipment is the window of its newest 20 entries: after any sequence of
  appends to an empty log it holds exactly the last 20 of them, in order, and nothing else of the
  shipment has changed.\<close>

theorem audit_log_newest:
  assumes "sh_audit_log sh = []"
  shows "audit_all e xs sh = sh\<lparr>sh_audit_log :=
    drop (length xs - SHIPMENT_AUDIT_LOG_MAX_ENTRIES) (map (entry_of e) xs)\<rparr>"
proof (induction xs rule: rev_induct)
  case (snoc x xs)
  let ?cap = SHIPMENT_AUDIT_LOG_MAX_ENTRIES and ?log = "map (entry_of e) xs"
  obtain c a d where x: "x = (c, a, d)" by (cases x)
  have "audit_all e (xs @ [x]) sh = append_audit_entry e c a d (audit_all e xs sh)"
    by (simp add: audit_all_def x)
  also have "\<dots> = sh\<lparr>sh_audit_log := push_bounded ?cap (entry_of e x) (drop (length xs - ?cap) ?log)\<rparr>"
    by (simp add: snoc append_audit_entry_def x)
  also have "push_bounded ?cap (entry_of e x) (drop (length xs - ?cap) ?log)
      = drop (length (xs @ [x]) - ?cap) (map (entry_of e) (xs @ [x]))"
  proof (cases "20 \<le> length xs")
    case True
    then have "Suc (length xs) - 20 = Suc (length xs - 20)" by simp
    with True show ?thesis by (simp add: push_bounded_def SHIPMENT_AUDIT_LOG_MAX_ENTRIES_def)
  qed (simp add: push_bounded_def SHIPMENT_AUDIT_LOG_MAX_ENTRIES_def)
  finally show ?case .
qed (use assms in \<open>simp add: audit_all_def\<close>)

theorem audit_log_newest_witness:
  "length (sh_audit_log (audit_all (env_at 9) (replicate 25 (buyer0, ''a'', ''d'')) deal0)) = 20"
proof -
  have "sh_audit_log deal0 = []" by (simp add: deal0_def shipment0_def)
  from audit_log_newest [OF this, of "env_at 9" "replicate 25 (buyer0, ''a'', ''d'')"] show ?thesis
    by (simp add: SHIPMENT_AUDIT_LOG_MAX_ENTRIES_def)
qed

section \<open>Fee tiers\<close>

text \<open>The rate of a buyer is the least rate among the tiers its lifetime volume reaches, whatever
  their order, and the configured platform rate when it reaches none.\<close>

theorem fee_tier_is_least:
  "resolve_fee_bps_for s a =
     (let reached = {ft_fee_bps x |x. x \<in> set (get_or [] (k_fee_tiers s)) \<and>
            ft_min_lifetime_volume x \<le> get_or 0 (k_lifetime_volume s a)}
      in if reached = {} then get_or 0 (map_option fc_fee_bps (k_fee_config s)) else Min reached)"
proof -
  let ?v = "get_or 0 (k_lifetime_volume s a)" and ?ts = "get_or [] (k_fee_tiers s)"
  have eq: "{ft_fee_bps x |x. x \<in> set ?ts \<and> ft_min_lifetime_volume x \<le> ?v} = set (reached_fees ?v ?ts)" by auto
  show ?thesis
    unfolding eq Let_def resolve_fee_bps_for_def best_tier_spec by (cases "reached_fees ?v ?ts = []") (simp, simp only: if_False option.case set_empty)
qed

end
