(* ===== verification/SettleArbiters.thy ===== *)
theory SettleArbiters
  imports SettleConfirm
begin

text \<open>
  Who decides a dispute (\<^verbatim>\<open>lib.rs\<close>, lines 4077 to 4208, 6915 to 7541, 14140 to 14290,
  16376 to 16440 and 16640 to 16706): the administrator's arbiter pool, availability, the selection
  that avoids recently assigned arbiters, panels and their automatic assignment above a value
  threshold, slashing of arbiters and their stakes, recusal, rotation by consent, failover to a
  backup, and the caps on open disputes.
\<close>

section \<open>The pool\<close>

definition get_arbiter_pool :: "settle \<Rightarrow> addr list" where
  "get_arbiter_pool s = get_or [] (k_arbiters_pool s)"

definition is_arbiter_slashed :: "settle \<Rightarrow> addr \<Rightarrow> bool" where
  "is_arbiter_slashed s a = get_or False (k_arbiter_slashed s a)"

definition add_arbiter_to_pool :: "settle_env \<Rightarrow> addr \<Rightarrow> addr \<Rightarrow> settle \<Rightarrow> settle res" where
  "add_arbiter_to_pool e adm a s =
     bindE (as_role e adm ArbiterManager s) (\<lambda>_.
     if is_arbiter_slashed s a
     then Inl (Panic ''arbiter is slashed and must be reinstated before re-adding'')
     else if a \<in> set (get_arbiter_pool s) then Inr s
     else
     bindE (append_admin_action e ''add_arbiter_to_pool'' ''arbiter_pool_updated''
              (s\<lparr>k_arbiters_pool := Some (get_arbiter_pool s @ [a])\<rparr>)) (\<lambda>s1.
     Inr (emit [VStr ''arbiter_pool_updated''] [VStr ''added'', VAddr a] s1)))"

text \<open>The index of the first occurrence, \<^verbatim>\<open>Vec::first_index_of\<close>.\<close>

fun first_index :: "'a \<Rightarrow> 'a list \<Rightarrow> nat option" where
  "first_index x [] = None"
| "first_index x (y # ys) = (if x = y then Some 0 else map_option Suc (first_index x ys))"

text \<open>The validation loop of a batch, from index \<open>k\<close> of the batch on.\<close>

fun check_batch_arbiters :: "settle \<Rightarrow> addr list \<Rightarrow> nat \<Rightarrow> addr list \<Rightarrow> unit res" where
  "check_batch_arbiters s batch k [] = Inr ()"
| "check_batch_arbiters s batch k (a # as) =
     (if first_index a batch \<noteq> Some k then Inl (Panic ''duplicate arbiter in batch'')
      else if a \<in> set (get_arbiter_pool s) then Inl (Panic ''arbiter already in pool'')
      else if is_blacklisted s a then Inl (Panic ''arbiter is blacklisted'')
      else if is_arbiter_slashed s a
      then Inl (Panic ''arbiter is slashed and must be reinstated before re-adding'')
      else check_batch_arbiters s batch (k + 1) as)"

definition batch_add_arbiters_to_pool :: "settle_env \<Rightarrow> addr \<Rightarrow> addr list \<Rightarrow> settle \<Rightarrow> settle res" where
  "batch_add_arbiters_to_pool e adm as s =
     bindE (as_role e adm ArbiterManager s) (\<lambda>_.
     if as = [] then Inl (Panic ''batch is empty'')
     else if MAX_BATCH_ADD_ARBITERS < length as then Inl (Panic ''batch too large'')
     else
     bindE (check_batch_arbiters s as 0 as) (\<lambda>_.
     let pool = get_arbiter_pool s @ as
     in bindE (append_admin_action e ''batch_add_arbiters_to_pool'' ''arbiter_pool_updated''
                 (s\<lparr>k_arbiters_pool := Some pool\<rparr>)) (\<lambda>s1.
        Inr (emit [VStr ''arbiters_batch_added''] [VNat (length as), VNat (length pool)]
          (fold (\<lambda>a. emit [VStr ''arbiter_pool_updated''] [VStr ''added'', VAddr a]) as s1)))))"

text \<open>The pool without an arbiter; the round-robin position starts over.\<close>

definition drop_from_pool :: "addr \<Rightarrow> settle \<Rightarrow> settle" where
  "drop_from_pool a s =
     s\<lparr>k_arb_pool_idx := Some 0, k_arbiters_pool := Some (filter (\<lambda>x. x \<noteq> a) (get_arbiter_pool s))\<rparr>"

definition remove_arbiter_from_pool :: "settle_env \<Rightarrow> addr \<Rightarrow> addr \<Rightarrow> settle \<Rightarrow> settle res" where
  "remove_arbiter_from_pool e adm a s =
     bindE (as_role e adm ArbiterManager s) (\<lambda>_.
     bindE (append_admin_action e ''remove_arbiter_from_pool'' ''arbiter_pool_updated''
              (drop_from_pool a s)) (\<lambda>s1.
     Inr (emit [VStr ''arbiter_pool_updated''] [VStr ''removed'', VAddr a] s1)))"

definition set_arbiter_availability :: "settle_env \<Rightarrow> addr \<Rightarrow> bool \<Rightarrow> settle \<Rightarrow> settle res" where
  "set_arbiter_availability e a available s =
     bindE (require_auth e a) (\<lambda>_.
     Inr (emit [VStr ''arbiter_availability_set'', VAddr a] [VBool available]
       (s\<lparr>k_arbiter_unavailable :=
            (k_arbiter_unavailable s)(a := if available then None else Some True)\<rparr>)))"

definition is_arbiter_available :: "settle \<Rightarrow> addr \<Rightarrow> bool" where
  "is_arbiter_available s a \<longleftrightarrow> \<not> get_or False (k_arbiter_unavailable s a)"

section \<open>Selection\<close>

definition set_arbiter_history_size :: "settle_env \<Rightarrow> addr \<Rightarrow> nat \<Rightarrow> settle \<Rightarrow> settle res" where
  "set_arbiter_history_size e adm n =
     admin_set e adm ''arbiter_repetition_size_set'' [VNat n] (\<lambda>s. s\<lparr>k_arbiter_history_size := Some n\<rparr>)"

definition get_arbiter_history_size :: "settle \<Rightarrow> nat" where
  "get_arbiter_history_size s = get_or 0 (k_arbiter_history_size s)"

definition get_supplier_recent_arbiters :: "settle \<Rightarrow> addr \<Rightarrow> addr list" where
  "get_supplier_recent_arbiters s a = get_or [] (k_supplier_recent_arbiters s a)"

text \<open>
  The first pass over the steps of the round and the second over the supplier's recent arbiters;
  both extend the list of picked pool indices until it holds \<open>count\<close>.
\<close>

fun pick_fresh ::
  "settle \<Rightarrow> addr list \<Rightarrow> addr list \<Rightarrow> addr list \<Rightarrow> nat \<Rightarrow> nat \<Rightarrow> nat list \<Rightarrow> nat list \<Rightarrow> nat list" where
  "pick_fresh s pool recent exclude start count [] picked = picked"
| "pick_fresh s pool recent exclude start count (step # steps) picked =
     (if count \<le> length picked then picked
      else let idx = (start + step) mod length pool; candidate = pool ! idx
        in if candidate \<in> set exclude \<or> candidate \<in> set recent \<or> \<not> is_arbiter_available s candidate
           then pick_fresh s pool recent exclude start count steps picked
           else pick_fresh s pool recent exclude start count steps (picked @ [idx]))"

fun pick_recent :: "settle \<Rightarrow> addr list \<Rightarrow> addr list \<Rightarrow> nat \<Rightarrow> addr list \<Rightarrow> nat list \<Rightarrow> nat list" where
  "pick_recent s pool exclude count [] picked = picked"
| "pick_recent s pool exclude count (candidate # rs) picked =
     (if count \<le> length picked then picked
      else if candidate \<in> set exclude \<or> \<not> is_arbiter_available s candidate
      then pick_recent s pool exclude count rs picked
      else (case first_index candidate pool of
              Some idx \<Rightarrow> pick_recent s pool exclude count rs
                            (if idx \<in> set picked then picked else picked @ [idx])
            | None \<Rightarrow> pick_recent s pool exclude count rs picked))"

definition select_pool_arbiters ::
  "settle \<Rightarrow> addr \<Rightarrow> addr list \<Rightarrow> nat \<Rightarrow> nat \<Rightarrow> addr list \<Rightarrow> nat list" where
  "select_pool_arbiters s supplier pool start count exclude =
     (if length pool = 0 \<or> count = 0 then []
      else let recent = (if 0 < get_arbiter_history_size s then get_supplier_recent_arbiters s supplier else [])
        in pick_recent s pool exclude count recent
             (pick_fresh s pool recent exclude start count [0..<length pool] []))"

definition push_recent :: "addr \<Rightarrow> addr list \<Rightarrow> addr list" where
  "push_recent a recent = remove1 a recent @ [a]"

definition record_supplier_arbiters :: "addr \<Rightarrow> addr list \<Rightarrow> settle \<Rightarrow> settle" where
  "record_supplier_arbiters supplier as s =
     (let n = get_arbiter_history_size s
      in if n = 0 then s
         else let recent = fold push_recent as (get_supplier_recent_arbiters s supplier)
           in s\<lparr>k_supplier_recent_arbiters :=
                (k_supplier_recent_arbiters s)(supplier \<mapsto> drop (length recent - n) recent)\<rparr>)"

section \<open>Panels\<close>

definition draw_panel_from_pool :: "settle_env \<Rightarrow> settle \<Rightarrow> shipment \<Rightarrow> nat \<Rightarrow> addr list" where
  "draw_panel_from_pool e s sh n =
     (let pool = prng_shuffle e (get_arbiter_pool s)
      in map (\<lambda>k. pool ! k)
           (select_pool_arbiters s (sh_supplier sh) pool 0 n (sh_buyers sh @ [sh_supplier sh])))"

definition assign_dispute_panel ::
  "settle_env \<Rightarrow> addr \<Rightarrow> sid \<Rightarrow> nat \<Rightarrow> nat \<Rightarrow> settle \<Rightarrow> (settle \<times> addr list) res" where
  "assign_dispute_panel e adm i j n s =
     bindE (assert_not_paused s) (\<lambda>_.
     bindE (as_admin e adm s) (\<lambda>_.
     bindE (get_shipment_internal s i) (\<lambda>sh.
     bindE (assert_active sh) (\<lambda>_.
     if length (sh_milestones sh) \<le> j then Inl (Panic ''invalid milestone index'')
     else if ms_status (sh_milestones sh ! j) \<noteq> Disputed
     then Inl (Panic ''milestone is not in disputed status'')
     else if n < 3 then Inl (Panic ''arbiter panel must have at least 3 members'')
     else if get_or [] (k_dispute_votes s (i, j)) \<noteq> [] then Inl (Panic ''panel voting has already started'')
     else
     let panel = draw_panel_from_pool e s sh n
     in if length panel < n then Inl (Panic ''not enough arbiters in pool for panel'')
        else Inr (emit [VStr ''dispute_panel_assigned'', VStr i] [VNat j, VList (map VAddr panel)]
               (record_supplier_arbiters (sh_supplier sh) panel
                 (s\<lparr>k_arbiter_panel := (k_arbiter_panel s)(i \<mapsto> panel)\<rparr>)), panel)))))"

definition set_panel_escalation ::
  "settle_env \<Rightarrow> addr \<Rightarrow> addr \<Rightarrow> int \<Rightarrow> nat \<Rightarrow> settle \<Rightarrow> settle res" where
  "set_panel_escalation e adm tok threshold n s =
     bindE (as_admin e adm s) (\<lambda>_.
     if threshold \<le> 0 then Inl (Panic ''threshold must be positive'')
     else if n < MIN_ESCALATION_PANEL_SIZE
     then Inl (Panic ''arbiter panel must have at least 3 members'')
     else
     bindE (append_admin_action e ''set_panel_escalation'' ''panel_escalation_set''
              (s\<lparr>k_panel_escalation := (k_panel_escalation s)(tok \<mapsto> (threshold, n))\<rparr>)) (\<lambda>s1.
     Inr (emit [VStr ''panel_escalation_set'', VAddr tok] [VInt threshold, VNat n] s1)))"

definition clear_panel_escalation :: "settle_env \<Rightarrow> addr \<Rightarrow> addr \<Rightarrow> settle \<Rightarrow> settle res" where
  "clear_panel_escalation e adm tok s =
     bindE (as_admin e adm s) (\<lambda>_.
     bindE (append_admin_action e ''clear_panel_escalation'' ''panel_escalation_cleared''
              (s\<lparr>k_panel_escalation := (k_panel_escalation s)(tok := None)\<rparr>)) (\<lambda>s1.
     Inr (emit [VStr ''panel_escalation_cleared'', VAddr tok] [] s1)))"

definition is_dispute_panel_escalated :: "settle \<Rightarrow> sid \<Rightarrow> nat \<Rightarrow> bool" where
  "is_dispute_panel_escalated s i j = get_or False (k_panel_escalated s (i, j))"

definition assert_not_panel_escalated :: "settle \<Rightarrow> sid \<Rightarrow> nat \<Rightarrow> unit res" where
  "assert_not_panel_escalated s i j =
     ensure (\<not> is_dispute_panel_escalated s i j) ''dispute escalated to arbiter panel''"

definition maybe_escalate_to_panel ::
  "settle_env \<Rightarrow> sid \<Rightarrow> nat \<Rightarrow> int \<Rightarrow> shipment \<Rightarrow> settle \<Rightarrow> settle \<times> shipment" where
  "maybe_escalate_to_panel e i j disputed sh s0 =
     (let s = s0\<lparr>k_panel_escalated := (k_panel_escalated s0)((i, j) := None)\<rparr>
      in (case k_panel_escalation s (sh_token sh) of
            None \<Rightarrow> (s, sh)
          | Some (threshold, n) \<Rightarrow>
              if disputed \<le> threshold then (s, sh)
              else let panel = draw_panel_from_pool e s sh n
                in if length panel < n
                   then (emit [VStr ''panel_escalation_fallback'', VStr i]
                           [VNat j, VInt disputed, VNat (length panel), VNat n] s,
                         append_audit_entry e (this e) ''panel_escalation_fallback'' ''raise_dispute'' sh)
                   else (emit [VStr ''dispute_panel_assigned'', VStr i] [VNat j, VList (map VAddr panel)]
                          (emit [VStr ''dispute_panel_escalated'', VStr i]
                            [VNat j, VInt disputed, VInt threshold, VList (map VAddr panel)]
                            (record_supplier_arbiters (sh_supplier sh) panel
                              (s\<lparr>k_arbiter_panel := (k_arbiter_panel s)(i \<mapsto> panel),
                                 k_dispute_votes := (k_dispute_votes s)((i, j) := None),
                                 k_panel_escalated := (k_panel_escalated s)((i, j) \<mapsto> True)\<rparr>))),
                         append_audit_entry e (this e) ''dispute_panel_escalated'' ''raise_dispute'' sh)))"

section \<open>Slashing and stakes\<close>

definition set_max_overturned_before_slash :: "settle_env \<Rightarrow> addr \<Rightarrow> nat \<Rightarrow> settle \<Rightarrow> settle res" where
  "set_max_overturned_before_slash e adm n =
     admin_set e adm ''max_overturned_before_slash_set'' [VNat n]
       (\<lambda>s. s\<lparr>k_max_overturned_before_slash := Some n\<rparr>)"

definition get_max_overturned_before_slash :: "settle \<Rightarrow> nat" where
  "get_max_overturned_before_slash s = get_or 0 (k_max_overturned_before_slash s)"

definition reinstate_arbiter :: "settle_env \<Rightarrow> addr \<Rightarrow> addr \<Rightarrow> settle \<Rightarrow> settle res" where
  "reinstate_arbiter e adm a =
     admin_set e adm ''arbiter_reinstated'' [VAddr a]
       (\<lambda>s. s\<lparr>k_arbiter_slashed := (k_arbiter_slashed s)(a := None)\<rparr>)"

definition slash_arbiter :: "addr \<Rightarrow> nat \<Rightarrow> settle \<Rightarrow> settle" where
  "slash_arbiter a overturned s =
     (let s1 = drop_from_pool a s
      in emit [VStr ''arbiter_slashed''] [VAddr a, VNat overturned]
           (s1\<lparr>k_arbiter_slashed := (k_arbiter_slashed s1)(a \<mapsto> True)\<rparr>))"

definition set_arbiter_slash_bps :: "settle_env \<Rightarrow> addr \<Rightarrow> nat \<Rightarrow> settle \<Rightarrow> settle res" where
  "set_arbiter_slash_bps e adm bps s =
     bindE (as_admin e adm s) (\<lambda>_.
     if 10000 < bps then Inl (Panic ''bps cannot exceed 10000'')
     else Inr (emit [VStr ''arbiter_slash_bps_set''] [VNat bps] (s\<lparr>k_arbiter_slash_bps := Some bps\<rparr>)))"

definition get_arbiter_slash_bps :: "settle \<Rightarrow> nat" where
  "get_arbiter_slash_bps s = get_or 0 (k_arbiter_slash_bps s)"

definition deposit_arbiter_stake :: "settle_env \<Rightarrow> addr \<Rightarrow> addr \<Rightarrow> int \<Rightarrow> settle \<Rightarrow> settle res" where
  "deposit_arbiter_stake e a tok n s =
     bindE (require_auth e a) (\<lambda>_.
     if n \<le> 0 then Inl (Panic ''amount must be positive'')
     else
     bindE (token_pay e tok a (this e) n s) (\<lambda>s1.
     let (stake_tok, stake) = get_or (tok, 0) (k_arbiter_stake s1 a)
     in if 0 < stake \<and> stake_tok \<noteq> tok then Inl (Panic ''arbiter stake token mismatch'')
        else
        bindE (ck_i128 (stake + n)) (\<lambda>total.
        Inr (emit [VStr ''arbiter_stake_deposited'', VAddr a] [VAddr tok, VInt n, VInt total]
               (s1\<lparr>k_arbiter_stake := (k_arbiter_stake s1)(a \<mapsto> (tok, total))\<rparr>)))))"

definition get_arbiter_stake :: "settle \<Rightarrow> addr \<Rightarrow> int" where
  "get_arbiter_stake s a = get_or 0 (map_option snd (k_arbiter_stake s a))"

definition maybe_slash_arbiter_stake ::
  "settle_env \<Rightarrow> addr \<Rightarrow> addr \<Rightarrow> addr \<Rightarrow> settle \<Rightarrow> settle res" where
  "maybe_slash_arbiter_stake e a wronged tok s =
     (let bps = get_or 0 (k_arbiter_slash_bps s)
      in if bps = 0 then Inr s
         else (case k_arbiter_stake s a of
             None \<Rightarrow> Inr s
           | Some (stake_tok, stake) \<Rightarrow>
               if stake \<le> 0 then Inr s
               else if stake_tok \<noteq> tok then Inr s
               else
               bindE (mul_div stake bps 10000) (\<lambda>raw.
               let slashed = (if stake < raw then stake else raw)
               in if slashed \<le> 0 then Inr s
                  else
                  bindE (ck_i128 (stake - slashed)) (\<lambda>left.
                  bindE (token_pay e stake_tok (this e) wronged slashed
                           (s\<lparr>k_arbiter_stake := (k_arbiter_stake s)
                                (a := if 0 < left then Some (stake_tok, left) else None)\<rparr>)) (\<lambda>s1.
                  Inr (emit [VStr ''arbiter_stake_slashed'', VAddr a]
                         [VAddr wronged, VInt slashed, VInt left, VNat bps] s1))))))"

section \<open>Recusal, rotation, failover\<close>

text \<open>The loop of a recusal: \<open>n\<close> attempts left from position \<open>k\<close>.\<close>

fun next_arbiter :: "addr list \<Rightarrow> addr \<Rightarrow> nat \<Rightarrow> nat \<Rightarrow> (addr \<times> nat) option res" where
  "next_arbiter pool a 0 k = Inr None"
| "next_arbiter pool a (Suc n) k =
     bindE (vec_get_unwrap pool k) (\<lambda>candidate.
     let k1 = (k + 1) mod length pool
     in if candidate \<noteq> a then Inr (Some (candidate, k1)) else next_arbiter pool a n k1)"

definition recuse_arbiter :: "settle_env \<Rightarrow> addr \<Rightarrow> sid \<Rightarrow> settle \<Rightarrow> settle res" where
  "recuse_arbiter e a i s =
     bindE (assert_not_paused s) (\<lambda>_.
     bindE (require_auth e a) (\<lambda>_.
     bindE (get_shipment_internal s i) (\<lambda>sh.
     bindE (assert_active sh) (\<lambda>_.
     if sh_arbiter sh \<noteq> a then Inl (Panic ''only the current arbiter can recuse'')
     else
     let pool = get_arbiter_pool s
     in if pool = [] then Inl (Panic ''no available arbiter for reassignment'')
        else
        bindE (next_arbiter pool a (length pool) (get_or 0 (k_arb_pool_idx s))) (\<lambda>r.
        bindE (expect r ''no available arbiter for reassignment'') (\<lambda>(new, k).
        let sh1 = sh\<lparr>sh_arbiter := new\<rparr>;
            s1 = reindex_arbiter i (sh_arbiter sh) new (s\<lparr>k_arb_pool_idx := Some k\<rparr>)
        in Inr (emit [VStr ''arbiter_recused'', VStr i] [VAddr a, VAddr new]
             (s1\<lparr>k_shipment := (k_shipment s1)(i \<mapsto> sh1)\<rparr>))))))))"

definition propose_arbiter_rotation :: "settle_env \<Rightarrow> addr \<Rightarrow> sid \<Rightarrow> addr \<Rightarrow> settle \<Rightarrow> settle res" where
  "propose_arbiter_rotation e caller i new s =
     bindE (assert_not_paused s) (\<lambda>_.
     bindE (require_auth e caller) (\<lambda>_.
     bindE (get_shipment_internal s i) (\<lambda>sh.
     bindE (assert_active sh) (\<lambda>_.
     if \<not> is_buyer sh caller \<and> caller \<noteq> sh_supplier sh then Inl (Panic ''unauthorized'')
     else
     let fresh = \<lparr>rp_new_arbiter = new, rp_buyer_agreed = False, rp_supplier_agreed = False\<rparr>;
         p0 = get_or fresh (k_arbiter_rotation s i);
         p1 = (if rp_new_arbiter p0 \<noteq> new then fresh else p0);
         p = (if is_buyer sh caller then p1\<lparr>rp_buyer_agreed := True\<rparr> else p1\<lparr>rp_supplier_agreed := True\<rparr>);
         s1 = emit [VStr ''arbiter_rotation_proposed'', VStr i] [VAddr new] s
     in if rp_buyer_agreed p \<and> rp_supplier_agreed p
        then let sh1 = append_audit_entry e caller ''arbiter_rotated'' ''propose_arbiter_rotation''
                         (sh\<lparr>sh_arbiter := new\<rparr>);
                 s2 = reindex_arbiter i (sh_arbiter sh) new s1
             in Inr (emit [VStr ''arbiter_rotated'', VStr i] [VAddr new]
                  (s2\<lparr>k_shipment := (k_shipment s2)(i \<mapsto> sh1),
                      k_arbiter_rotation := (k_arbiter_rotation s2)(i := None)\<rparr>))
        else Inr (s1\<lparr>k_arbiter_rotation := (k_arbiter_rotation s1)(i \<mapsto> p)\<rparr>)))))"

definition activate_backup_arbiter :: "settle_env \<Rightarrow> sid \<Rightarrow> nat \<Rightarrow> settle \<Rightarrow> settle res" where
  "activate_backup_arbiter e i j s =
     bindE (assert_not_paused s) (\<lambda>_.
     bindE (get_shipment_internal s i) (\<lambda>sh.
     bindE (expect (k_backup_arbiter s i) ''no backup arbiter configured'') (\<lambda>backup.
     if sh_arbiter sh = backup then Inl (Panic ''already failed over'')
     else if length (sh_milestones sh) \<le> j then Inl (Panic ''invalid milestone index'')
     else
     let m = sh_milestones sh ! j; threshold = get_or 0 (k_arbiter_inactivity s)
     in if ms_status m \<noteq> Disputed then Inl (Panic ''milestone is not in disputed status'')
        else if threshold = 0 then Inl (Panic ''arbiter failover is disabled globally'')
        else
        bindE (expect (ms_dispute_opened_ledger m) ''dispute not opened'') (\<lambda>opened.
        bindE (ck_u32 (opened + threshold)) (\<lambda>t.
        if sequence e < t then Inl (Panic ''inactivity threshold not reached'')
        else
        let s1 = reindex_arbiter i (sh_arbiter sh) backup s
        in Inr (emit [VStr ''arbiter_failover'', VStr i] [VAddr (sh_arbiter sh), VAddr backup]
             (s1\<lparr>k_shipment := (k_shipment s1)(i \<mapsto> sh\<lparr>sh_arbiter := backup\<rparr>)\<rparr>)))))))"

section \<open>Caps on open disputes\<close>

definition set_max_concurrent_disputes :: "settle_env \<Rightarrow> addr \<Rightarrow> nat \<Rightarrow> settle \<Rightarrow> settle res" where
  "set_max_concurrent_disputes e adm n s =
     bindE (as_admin e adm s) (\<lambda>_.
     append_admin_action e ''set_max_concurrent_disputes'' ''max_concurrent_disputes_updated''
       (s\<lparr>k_max_concurrent_disputes := Some n\<rparr>))"

definition set_buyer_dispute_cap :: "settle_env \<Rightarrow> addr \<Rightarrow> addr \<Rightarrow> nat \<Rightarrow> settle \<Rightarrow> settle res" where
  "set_buyer_dispute_cap e adm b n s =
     bindE (as_admin e adm s) (\<lambda>_.
     if n = 0 then Inl (Panic ''buyer dispute cap must be at least 1'')
     else
     bindE (append_admin_action e ''set_buyer_dispute_cap'' ''buyer_dispute_cap_set''
              (s\<lparr>k_buyer_dispute_cap := (k_buyer_dispute_cap s)(b \<mapsto> n)\<rparr>)) (\<lambda>s1.
     Inr (emit [VStr ''buyer_dispute_cap_set'', VAddr b] [VNat n] s1)))"

definition clear_buyer_dispute_cap :: "settle_env \<Rightarrow> addr \<Rightarrow> addr \<Rightarrow> settle \<Rightarrow> settle res" where
  "clear_buyer_dispute_cap e adm b s =
     bindE (as_admin e adm s) (\<lambda>_.
     bindE (append_admin_action e ''clear_buyer_dispute_cap'' ''buyer_dispute_cap_cleared''
              (s\<lparr>k_buyer_dispute_cap := (k_buyer_dispute_cap s)(b := None)\<rparr>)) (\<lambda>s1.
     Inr (emit [VStr ''buyer_dispute_cap_cleared'', VAddr b] [] s1)))"

definition count_buyer_open_disputes :: "settle \<Rightarrow> addr \<Rightarrow> nat" where
  "count_buyer_open_disputes s b =
     length (filter (\<lambda>d. k_dispute_raised_by s (de_shipment_id d, de_milestone_index d) = Some b)
       (get_or [] (k_active_disputes s)))"

definition assert_buyer_dispute_cap_ok :: "settle \<Rightarrow> addr \<Rightarrow> unit res" where
  "assert_buyer_dispute_cap_ok s b =
     (case k_buyer_dispute_cap s b of
        Some cap \<Rightarrow> ensure (count_buyer_open_disputes s b < cap) ''BuyerDisputeCapReached''
      | None \<Rightarrow> Inr ())"

definition record_dispute_raiser :: "sid \<Rightarrow> nat \<Rightarrow> addr \<Rightarrow> settle \<Rightarrow> settle" where
  "record_dispute_raiser i j b s = s\<lparr>k_dispute_raised_by := (k_dispute_raised_by s)((i, j) \<mapsto> b)\<rparr>"

end
