(* ===== verification/SettleDispute.thy ===== *)
theory SettleDispute
  imports SettleArbiters
begin

text \<open>
  Raising a dispute and the arbiter's ruling (\<^verbatim>\<open>lib.rs\<close>, lines 11508 to 12530, 13302
  to 13432, 17205 to 17640 and 22180 to 22370): full and partial disputes, the supplier's challenge
  of a grade, the four outcomes of a ruling, loser-pays, appeal fees and overturned rulings, and the
  vote of a panel. As in the confirmation, the long bodies are split along their blocks.
\<close>

section \<open>Raising a dispute\<close>

definition assert_dispute_filing_window_ok :: "settle_env \<Rightarrow> settle \<Rightarrow> milestone \<Rightarrow> unit res" where
  "assert_dispute_filing_window_ok e s m =
     (let window = get_or 0 (k_dispute_filing_window s)
      in if ms_deadline_ledger m = 0 \<or> window = 0 then Inr ()
         else bindE (ck_u32 (ms_deadline_ledger m + window)) (\<lambda>t.
              ensure (sequence e < t) ''dispute filing window has elapsed''))"

text \<open>The cooldown after a resolution, the auto-confirmation window, the cap on open disputes.\<close>

definition dispute_cooldown_ok :: "settle_env \<Rightarrow> shipment \<Rightarrow> unit res" where
  "dispute_cooldown_ok e sh =
     (case sh_last_dispute_resolved_ledger sh of
        Some resolved \<Rightarrow>
          if 0 < sh_dispute_cooldown_ledgers sh
          then bindE (ck_u32 (resolved + sh_dispute_cooldown_ledgers sh)) (\<lambda>t.
               ensure (t \<le> sequence e) ''dispute cooldown period has not elapsed'')
          else Inr ()
      | None \<Rightarrow> Inr ())"

definition dispute_window_ok :: "settle_env \<Rightarrow> settle \<Rightarrow> shipment \<Rightarrow> milestone \<Rightarrow> unit res" where
  "dispute_window_ok e s sh m =
     (let window = get_effective_auto_confirm_window s sh
      in bindE (if 0 < window
                then (case ms_proof_submitted_ledger m of
                        Some p \<Rightarrow> bindE (ck_u32 (p + window)) (\<lambda>t.
                          ensure (sequence e < t) ''milestone has auto-confirmed; dispute window closed'')
                      | None \<Rightarrow> Inr ())
                else Inr ()) (\<lambda>_. assert_dispute_filing_window_ok e s m))"

definition open_dispute_cap_ok :: "settle \<Rightarrow> shipment \<Rightarrow> addr \<Rightarrow> unit res" where
  "open_dispute_cap_ok s sh b =
     (if get_or 1 (k_max_concurrent_disputes s) \<le> sh_open_dispute_count sh
      then Inl (Panic ''DisputeAlreadyOpen'') else assert_buyer_dispute_cap_ok s b)"

text \<open>The first dispute of a shipment created for the pool gets the next arbiter of the pool.\<close>

definition assign_pool_arbiter :: "sid \<Rightarrow> shipment \<Rightarrow> settle \<Rightarrow> (settle \<times> shipment) res" where
  "assign_pool_arbiter i sh s =
     (if \<not> get_or False (k_use_pool_arb s i) then Inr (s, sh)
      else
      let pool = get_arbiter_pool s
      in if pool = [] then Inl (Panic ''NoArbitersAvailable'')
         else
         bindE (expect (vec_get (select_pool_arbiters s (sh_supplier sh) pool
                  (get_or 0 (k_arb_pool_idx s) mod length pool) 1 []) 0) ''NoArbitersAvailable'') (\<lambda>k.
         bindE (vec_get_unwrap pool k) (\<lambda>a.
         let s1 = (reindex_arbiter i (sh_arbiter sh) a s)\<lparr>k_arb_pool_idx := Some ((k + 1) mod length pool)\<rparr>;
             s2 = record_supplier_arbiters (sh_supplier sh) [a] s1
         in Inr (s2\<lparr>k_use_pool_arb := (k_use_pool_arb s2)(i := None)\<rparr>, sh\<lparr>sh_arbiter := a\<rparr>))))"

definition reopen_marks :: "sid \<Rightarrow> nat \<Rightarrow> settle \<Rightarrow> settle" where
  "reopen_marks i j s0 =
     (let s = mark_shipment_had_dispute i s0
      in s\<lparr>k_dispute_resolved_at := (k_dispute_resolved_at s)((i, j) := None),
           k_dispute_appealed := (k_dispute_appealed s)((i, j) := None)\<rparr>)"

definition disputed_milestone :: "settle_env \<Rightarrow> milestone \<Rightarrow> milestone" where
  "disputed_milestone e m =
     m\<lparr>ms_release_after_ledger := 0, ms_status := Disputed, ms_dispute_opened_ledger := Some (sequence e)\<rparr>"

text \<open>
  What a raised dispute writes once the shipment is updated: the shipment, the supplier's
  reputation unless the supplier raised it, the list of open disputes, who raised it, the counter.
\<close>

definition file_dispute ::
  "settle_env \<Rightarrow> sid \<Rightarrow> nat \<Rightarrow> addr \<Rightarrow> bool \<Rightarrow> shipment \<Rightarrow> settle \<Rightarrow> settle res" where
  "file_dispute e i j b hits_reputation sh s =
     (let s1 = s\<lparr>k_shipment := (k_shipment s)(i \<mapsto> sh)\<rparr>;
          s2 = (if hits_reputation then increment_reputation_internal e (sh_supplier sh) 0 1 0 s1 else s1);
          s3 = record_dispute_raiser i j b s2;
          s4 = s3\<lparr>k_active_disputes := Some (get_or [] (k_active_disputes s3) @
                 [\<lparr>de_shipment_id = i, de_milestone_index = j\<rparr>])\<rparr>;
          stats = get_or contract_stats_zero (k_contract_stats s4)
      in bindE (ck_u64 (cs_total_disputes stats + 1)) (\<lambda>n.
         Inr (s4\<lparr>k_contract_stats := Some (stats\<lparr>cs_total_disputes := n\<rparr>)\<rparr>)))"

definition emit_dispute_opened :: "sid \<Rightarrow> nat \<Rightarrow> addr \<Rightarrow> settle \<Rightarrow> settle" where
  "emit_dispute_opened i j b = emit [VStr ''chainsettle'', VStr ''dispute_opened''] [VStr i, VNat j, VAddr b]"

text \<open>
  Who may dispute: a registered buyer, or the supplier while a graded confirmation is pending. The
  result says whether the supplier disputes the grade.
\<close>

definition dispute_authority ::
  "settle_env \<Rightarrow> shipment \<Rightarrow> addr \<Rightarrow> (nat \<times> nat) option \<Rightarrow> bool res" where
  "dispute_authority e sh b pending =
     (if pending \<noteq> None \<and> b = sh_supplier sh then bindE (require_auth e b) (\<lambda>_. Inr True)
      else bindE (require_buyer_auth e sh b) (\<lambda>_.
           if pending \<noteq> None then Inl (Panic ''graded milestone can only be disputed by the supplier'')
           else Inr False))"

definition move_grade_to_dispute ::
  "sid \<Rightarrow> nat \<Rightarrow> addr \<Rightarrow> (nat \<times> nat) option \<Rightarrow> settle \<Rightarrow> settle" where
  "move_grade_to_dispute i j b pending s =
     (case pending of
        Some (grade, bps) \<Rightarrow>
          emit [VStr ''grade_disputed'', VStr i] [VNat j, VNat grade, VNat bps, VAddr b]
            (s\<lparr>k_pending_grade := (k_pending_grade s)((i, j) := None),
               k_grade_dispute := (k_grade_dispute s)((i, j) \<mapsto> (grade, bps))\<rparr>)
      | None \<Rightarrow> s\<lparr>k_grade_dispute := (k_grade_dispute s)((i, j) := None)\<rparr>)"

definition disputable :: "milestone \<Rightarrow> unit res" where
  "disputable m =
     ensure (ms_status m = ProofSubmitted \<or> ms_status m = ConfirmedHeld) ''can only dispute a submitted or held proof''"

definition raise_open ::
  "settle_env \<Rightarrow> addr \<Rightarrow> sid \<Rightarrow> nat \<Rightarrow> bool \<Rightarrow> (nat \<times> nat) option \<Rightarrow> shipment \<Rightarrow> milestone \<Rightarrow> settle \<Rightarrow> settle res" where
  "raise_open e b i j by_supplier pending sh0 m s0 =
     bindE (assign_pool_arbiter i sh0 s0) (\<lambda>(s1, sh1).
     bindE (ck_u32 (sh_open_dispute_count sh1 + 1)) (\<lambda>n.
     let s2 = move_grade_to_dispute i j b pending (reopen_marks i j s1);
         sh2 = append_audit_entry e b (if by_supplier then ''grade_disputed'' else ''dispute_raised'')
                 ''raise_dispute'' (sh1\<lparr>sh_open_dispute_count := n\<rparr>);
         s3 = s2\<lparr>k_dispute_opened_at := (k_dispute_opened_at s2)((i, j) \<mapsto> timestamp e)\<rparr>;
         sh3 = set_milestone j (disputed_milestone e m) sh2
     in bindE (if by_supplier then Inr 0 else milestone_gross_payment s3 sh3 j) (\<lambda>disputed.
        let (s4, sh4) = maybe_escalate_to_panel e i j disputed sh3 s3
        in bindE (file_dispute e i j b (\<not> by_supplier) sh4 s4) (\<lambda>s5.
           Inr (emit_dispute_opened i j b (emit [VStr ''dispute_raised'', VStr i] [VNat j] s5))))))"

definition raise_dispute :: "settle_env \<Rightarrow> addr \<Rightarrow> sid \<Rightarrow> nat \<Rightarrow> settle \<Rightarrow> settle res" where
  "raise_dispute e b i j s =
     bindE (assert_operation_not_paused s ''dispute'') (\<lambda>_.
     bindE (get_shipment_internal s i) (\<lambda>sh.
     bindE (assert_active sh) (\<lambda>_.
     bindE (assert_shipment_not_paused s i) (\<lambda>_.
     bindE (assert_shipment_not_on_hold s i) (\<lambda>_.
     let pending = k_pending_grade s (i, j)
     in bindE (dispute_authority e sh b pending) (\<lambda>by_supplier.
        bindE (dispute_cooldown_ok e sh) (\<lambda>_.
        bindE (vec_get_unwrap (sh_milestones sh) j) (\<lambda>m.
        bindE (disputable m) (\<lambda>_.
        bindE (if by_supplier
               then ensure (sequence e < ms_release_after_ledger m) ''grade review window has elapsed''
               else dispute_window_ok e s sh m) (\<lambda>_.
        bindE (open_dispute_cap_ok s sh b) (\<lambda>_.
        raise_open e b i j by_supplier pending sh m s)))))))))))"

section \<open>Disputing a part\<close>

definition release_uncontested ::
  "settle_env \<Rightarrow> sid \<Rightarrow> nat \<Rightarrow> int \<Rightarrow> shipment \<Rightarrow> settle \<Rightarrow> (settle \<times> shipment) res" where
  "release_uncontested e i j n sh s =
     (if n \<le> 0 then Inr (s, sh)
      else
      bindE (deduct_fee e n (sh_token sh) s) (\<lambda>(s1, net, fee).
      bindE (check_circuit_breaker (sequence e) n s1) (\<lambda>s2.
      bindE (check_address_outflow (sh_supplier sh) (sequence e) n s2) (\<lambda>s3.
      bindE (whenE (0 < net) (token_pay e (sh_token sh) (this e) (sh_supplier sh) net) s3) (\<lambda>s4.
      bindE (ck_i128 (sh_released_amount sh + n)) (\<lambda>released.
      bindE (vec_get_unwrap (sh_buyers sh) 0) (\<lambda>primary.
      bindE (record_release_counters (sh_supplier sh) primary (sh_token sh) n net s4) (\<lambda>s5.
      bindE (decrease_total_escrowed (sh_token sh) n s5) (\<lambda>s6.
      Inr (emit [VStr ''partial_uncontested_released'', VStr i] [VNat j, VInt n, VInt fee] s6,
           sh\<lparr>sh_released_amount := released\<rparr>))))))))))"

definition raise_partial_open ::
  "settle_env \<Rightarrow> addr \<Rightarrow> sid \<Rightarrow> nat \<Rightarrow> nat \<Rightarrow> shipment \<Rightarrow> milestone \<Rightarrow> settle \<Rightarrow> settle res" where
  "raise_partial_open e b i j pct sh0 m s0 =
     bindE (milestone_gross_payment s0 sh0 j) (\<lambda>full.
     bindE (mul_div full (100 - pct) 100) (\<lambda>uncontested.
     bindE (release_uncontested e i j uncontested sh0 s0) (\<lambda>(s1, sh1).
     bindE (ck_u32 (sh_open_dispute_count sh1 + 1)) (\<lambda>n.
     let s2 = reopen_marks i j
                (s1\<lparr>k_dispute_contested_percent := (k_dispute_contested_percent s1)((i, j) \<mapsto> pct)\<rparr>);
         sh2 = append_audit_entry e b ''dispute_raised'' ''raise_dispute''
                 (sh1\<lparr>sh_open_dispute_count := n\<rparr>);
         s3 = s2\<lparr>k_dispute_opened_at := (k_dispute_opened_at s2)((i, j) \<mapsto> timestamp e)\<rparr>;
         sh3 = set_milestone j (disputed_milestone e m) sh2
     in bindE (mul_div full pct 100) (\<lambda>disputed.
        let (s4, sh4) = maybe_escalate_to_panel e i j disputed sh3 s3
        in bindE (file_dispute e i j b True sh4 s4) (\<lambda>s5.
           Inr (emit_dispute_opened i j b
             (emit [VStr ''partial_dispute_raised'', VStr i] [VNat j, VNat pct, VAddr b] s5))))))))"

definition raise_partial_dispute :: "settle_env \<Rightarrow> addr \<Rightarrow> sid \<Rightarrow> nat \<Rightarrow> nat \<Rightarrow> settle \<Rightarrow> settle res" where
  "raise_partial_dispute e b i j pct s =
     bindE (assert_operation_not_paused s ''dispute'') (\<lambda>_.
     if pct = 0 \<or> 100 \<le> pct then Inl (Panic ''contested_percent must be between 1 and 99'')
     else
     bindE (get_shipment_internal s i) (\<lambda>sh.
     bindE (assert_active sh) (\<lambda>_.
     bindE (assert_shipment_not_on_hold s i) (\<lambda>_.
     bindE (require_buyer_auth e sh b) (\<lambda>_.
     if length (sh_milestones sh) \<le> j then Inl (Panic ''invalid milestone index'')
     else if (case k_advance_request s (i, j) of Some r \<Rightarrow> ar_approved r | None \<Rightarrow> False)
     then Inl (Panic ''partial dispute not allowed when an approved advance exists for this milestone'')
     else
     let m = sh_milestones sh ! j
     in bindE (disputable m) (\<lambda>_.
        if k_pending_grade s (i, j) \<noteq> None
        then Inl (Panic ''graded milestone can only be disputed by the supplier'')
        else
        let s1 = s\<lparr>k_grade_dispute := (k_grade_dispute s)((i, j) := None)\<rparr>
        in bindE (dispute_cooldown_ok e sh) (\<lambda>_.
           bindE (dispute_window_ok e s1 sh m) (\<lambda>_.
           bindE (open_dispute_cap_ok s1 sh b) (\<lambda>_.
           raise_partial_open e b i j pct sh m s1)))))))))"

section \<open>Money of a ruling\<close>

text \<open>The bracket loop over the arbiter's fee tiers, sorted by threshold.\<close>

fun fee_bracket :: "int \<Rightarrow> nat \<Rightarrow> (int \<times> nat) list \<Rightarrow> nat" where
  "fee_bracket n bps [] = bps"
| "fee_bracket n bps ((threshold, b) # ts) = (if threshold \<le> n then fee_bracket n b ts else bps)"

definition applicable_arbiter_fee_bps :: "settle \<Rightarrow> int \<Rightarrow> nat \<Rightarrow> nat" where
  "applicable_arbiter_fee_bps s n default_bps =
     (let tiers = get_or [] (k_arbiter_fee_tiers s)
      in if tiers = [] then default_bps else fee_bracket n default_bps tiers)"

definition arbiter_fee_on :: "settle \<Rightarrow> shipment \<Rightarrow> int \<Rightarrow> int res" where
  "arbiter_fee_on s sh n = mul_div n (applicable_arbiter_fee_bps s n (sh_arbiter_fee_bps sh)) 10000"

definition pay_arbiter :: "settle_env \<Rightarrow> shipment \<Rightarrow> int \<Rightarrow> settle \<Rightarrow> (settle \<times> int) res" where
  "pay_arbiter e sh fee s =
     bindE (whenE (0 < fee) (token_pay e (sh_token sh) (this e) (sh_arbiter sh) fee) s) (\<lambda>s1. Inr (s1, fee))"

definition set_loser_pays_arbiter_fee ::
  "settle_env \<Rightarrow> addr \<Rightarrow> addr \<Rightarrow> sid \<Rightarrow> bool \<Rightarrow> settle \<Rightarrow> settle res" where
  "set_loser_pays_arbiter_fee e b a i enabled s =
     bindE (assert_not_paused s) (\<lambda>_.
     bindE (require_auth e b) (\<lambda>_.
     bindE (require_auth e a) (\<lambda>_.
     bindE (get_shipment_internal s i) (\<lambda>sh.
     bindE (assert_active sh) (\<lambda>_.
     if b \<notin> set (sh_buyers sh) then Inl (Panic ''only buyer can set fee allocation'')
     else if sh_supplier sh \<noteq> a then Inl (Panic ''only supplier can set fee allocation'')
     else if 0 < sh_open_dispute_count sh
     then Inl (Panic ''cannot change fee allocation during open dispute'')
     else Inr (emit [VStr ''loser_pays_arbiter_fee_set'', VStr i] [VBool enabled]
            (s\<lparr>k_loser_pays := (k_loser_pays s)(i := if enabled then Some True else None)\<rparr>)))))))"

definition loser_pays_cover :: "sid \<Rightarrow> nat \<Rightarrow> int \<Rightarrow> int \<Rightarrow> settle \<Rightarrow> settle \<times> int" where
  "loser_pays_cover i j fee loser_funds s =
     (if \<not> get_or False (k_loser_pays s i) \<or> fee \<le> 0 then (s, 0)
      else let cover = min fee (max loser_funds 0)
        in (emit [VStr ''arbiter_fee_allocated'', VStr i] [VNat j, VInt fee, VInt cover, VInt (fee - cover)] s,
            cover))"

text \<open>
  The supplier is awarded \<open>payment\<close>: the advance, the platform fee and the limiters, the
  fee of those who decided, the supplier's share, and what is left of the bond for the buyer. The
  last two components are the supplier's share and the bond to be returned.
\<close>

definition award_supplier ::
  "settle_env \<Rightarrow> (int \<Rightarrow> settle \<Rightarrow> (settle \<times> int) res) \<Rightarrow> sid \<Rightarrow> nat \<Rightarrow> int \<Rightarrow> int \<Rightarrow> shipment \<Rightarrow> settle \<Rightarrow>
   (settle \<times> shipment \<times> int \<times> int \<times> int) res" where
  "award_supplier e pay_fee i j payment bond_return sh0 s0 =
     bindE (consume_advance_for_milestone sh0 i j s0) (\<lambda>(s1, sh1, advance).
     bindE (deduct_fee e payment (sh_token sh1) s1) (\<lambda>(s2, net, fee_amount).
     bindE (check_circuit_breaker (sequence e) payment s2) (\<lambda>s3.
     bindE (check_address_outflow (sh_supplier sh1) (sequence e) payment s3) (\<lambda>s4.
     bindE (arbiter_fee_on s4 sh1 payment) (\<lambda>fee0.
     bindE (pay_fee fee0 s4) (\<lambda>(s5, fee).
     bindE (ck_i128 (sh_released_amount sh1 + payment)) (\<lambda>released.
     let (s6, cover) = loser_pays_cover i j fee bond_return s5
     in bindE (ck_i128 (net - advance)) (\<lambda>x.
        bindE (ck_i128 (x - (fee - cover))) (\<lambda>y.
        let actual = max y 0
        in bindE (pay_milestone_to_payees e i j actual (sh_supplier sh1) (sh_token sh1) s6) (\<lambda>s7.
           Inr (s7, sh1\<lparr>sh_released_amount := released\<rparr>, actual, bond_return - cover, fee_amount)))))))))))"

definition pay_bond :: "settle_env \<Rightarrow> shipment \<Rightarrow> addr \<Rightarrow> int \<Rightarrow> settle \<Rightarrow> settle res" where
  "pay_bond e sh a n s = whenE (0 < n) (token_pay e (sh_token sh) (this e) a n) s"

text \<open>The contested part goes back to the buyer, the bond to the supplier.\<close>

definition award_buyer ::
  "settle_env \<Rightarrow> (int \<Rightarrow> settle \<Rightarrow> (settle \<times> int) res) \<Rightarrow> sid \<Rightarrow> nat \<Rightarrow> int \<Rightarrow> shipment \<Rightarrow> settle \<Rightarrow>
   (settle \<times> shipment) res" where
  "award_buyer e pay_fee i j payment sh s =
     bindE (arbiter_fee_on s sh payment) (\<lambda>fee0.
     bindE (pay_fee fee0 s) (\<lambda>(s1, fee).
     let bond_forfeit = max (sh_dispute_bond_amount sh) 0;
         (s2, cover) = loser_pays_cover i j fee bond_forfeit s1
     in bindE (ck_i128 (payment - (fee - cover))) (\<lambda>y.
        bindE (vec_get_unwrap (sh_buyers sh) 0) (\<lambda>primary.
        bindE (whenE (0 < max y 0) (token_pay e (sh_token sh) (this e) primary (max y 0)) s2) (\<lambda>s3.
        bindE (ck_i128 (sh_released_amount sh + payment)) (\<lambda>released.
        bindE (pay_bond e sh (sh_supplier sh) (bond_forfeit - cover) s3) (\<lambda>s4.
        Inr (s4, sh\<lparr>sh_released_amount := released\<rparr>))))))))"

definition pay_graded_split ::
  "settle_env \<Rightarrow> shipment \<Rightarrow> sid \<Rightarrow> nat \<Rightarrow> int \<Rightarrow> nat \<Rightarrow> int \<Rightarrow> int \<Rightarrow> settle \<Rightarrow> (settle \<times> int \<times> int \<times> int) res" where
  "pay_graded_split e sh i j gross bps refund_fee payout_fee s =
     bindE (mul_div gross bps 10000) (\<lambda>payout.
     bindE (ck_i128 (gross - payout)) (\<lambda>a.
     bindE (ck_i128 (a - refund_fee)) (\<lambda>b.
     let refund = max b 0
     in bindE (if 0 < payout
               then bindE (deduct_fee e payout (sh_token sh) s) (\<lambda>(s1, net0, fee).
                    bindE (ck_i128 (net0 - payout_fee)) (\<lambda>n.
                    let net = max n 0
                    in bindE (check_circuit_breaker (sequence e) payout s1) (\<lambda>s2.
                       bindE (check_address_outflow (sh_supplier sh) (sequence e) payout s2) (\<lambda>s3.
                       bindE (pay_milestone_to_payees e i j net (sh_supplier sh) (sh_token sh) s3) (\<lambda>s4.
                       Inr (s4, net, fee))))))
               else Inr (s, 0, 0)) (\<lambda>(s5, net, fee).
        bindE (if 0 < refund
               then bindE (vec_get_unwrap (sh_buyers sh) 0) (\<lambda>primary.
                    token_pay e (sh_token sh) (this e) primary refund s5)
               else Inr s5) (\<lambda>s6. Inr (s6, net, refund, fee))))))"

text \<open>The supplier's challenge of a grade failed: the grade stands.\<close>

definition award_grade ::
  "settle_env \<Rightarrow> sid \<Rightarrow> nat \<Rightarrow> int \<Rightarrow> nat \<Rightarrow> nat \<Rightarrow> shipment \<Rightarrow> settle \<Rightarrow> (settle \<times> shipment) res" where
  "award_grade e i j payment grade bps sh s =
     bindE (mul_div payment bps 10000) (\<lambda>graded_share.
     bindE (ck_i128 (payment - graded_share)) (\<lambda>contested.
     bindE (arbiter_fee_on s sh contested) (\<lambda>fee.
     bindE (pay_arbiter e sh fee s) (\<lambda>(s1, _).
     let (s2, cover) = loser_pays_cover i j fee graded_share s1
     in bindE (pay_graded_split e sh i j payment bps (fee - cover) cover s2) (\<lambda>(s3, _, refund, _).
        bindE (ck_i128 (sh_released_amount sh + payment)) (\<lambda>released.
        bindE (decrease_total_escrowed (sh_token sh) payment s3) (\<lambda>s4.
        Inr (emit [VStr ''grade_settled'', VStr i]
               [VNat j, VNat grade, VNat bps, VInt (payment - contested), VInt refund] s4,
             sh\<lparr>sh_released_amount := released\<rparr>))))))))"

section \<open>Bookkeeping of a ruling\<close>

definition arbiter_stats_zero :: arbiter_stats where
  "arbiter_stats_zero = \<lparr>as_resolved_approved = 0, as_resolved_rejected = 0,
     as_total_resolution_ledgers = 0, as_overturned_count = 0\<rparr>"

definition get_arbiter_stats :: "settle \<Rightarrow> addr \<Rightarrow> arbiter_stats" where
  "get_arbiter_stats s a = get_or arbiter_stats_zero (k_arbiter_stats s a)"

text \<open>One more ruling of an arbiter, \<open>n\<close> ledgers after the dispute was opened.\<close>

definition count_ruling :: "addr \<Rightarrow> bool \<Rightarrow> nat \<Rightarrow> settle \<Rightarrow> settle res" where
  "count_ruling a approve n s =
     (let st = get_arbiter_stats s a
      in bindE (if approve
                then bindE (ck_u32 (as_resolved_approved st + 1)) (\<lambda>k. Inr (st\<lparr>as_resolved_approved := k\<rparr>))
                else bindE (ck_u32 (as_resolved_rejected st + 1)) (\<lambda>k. Inr (st\<lparr>as_resolved_rejected := k\<rparr>)))
           (\<lambda>st1.
         bindE (ck_u64 (as_total_resolution_ledgers st1 + n)) (\<lambda>total.
         Inr (s\<lparr>k_arbiter_stats := (k_arbiter_stats s)(a \<mapsto> st1\<lparr>as_total_resolution_ledgers := total\<rparr>)\<rparr>))))"

definition settle_appeal_fee :: "settle_env \<Rightarrow> shipment \<Rightarrow> sid \<Rightarrow> nat \<Rightarrow> bool \<Rightarrow> settle \<Rightarrow> settle res" where
  "settle_appeal_fee e sh i j approve s =
     (case k_appeal_fee_deposit s (i, j) of
        None \<Rightarrow> Inr s
      | Some (appellant, n) \<Rightarrow>
          let won = (if appellant = sh_supplier sh then approve else \<not> approve);
              recipient = (if won then appellant else sh_arbiter sh)
          in bindE (whenE (0 < n) (token_pay e (sh_token sh) (this e) recipient n)
                      (s\<lparr>k_appeal_fee_deposit := (k_appeal_fee_deposit s)((i, j) := None)\<rparr>)) (\<lambda>s1.
             Inr (emit [VStr (if won then ''appeal_fee_refunded'' else ''appeal_fee_forfeited''), VStr i]
                    [VNat j, VAddr recipient, VInt n] s1)))"

definition apply_appeal_overturn :: "settle_env \<Rightarrow> shipment \<Rightarrow> sid \<Rightarrow> nat \<Rightarrow> bool \<Rightarrow> settle \<Rightarrow> settle res" where
  "apply_appeal_overturn e sh i j approve s =
     (case k_dispute_appeal_original s (i, j) of
        None \<Rightarrow> Inr s
      | Some (original, original_approve) \<Rightarrow>
          let s1 = s\<lparr>k_dispute_appeal_original := (k_dispute_appeal_original s)((i, j) := None)\<rparr>
          in if original_approve = approve then Inr s1
             else
             let st = get_arbiter_stats s1 original
             in bindE (ck_u32 (as_overturned_count st + 1)) (\<lambda>n.
                let s2 = s1\<lparr>k_arbiter_stats := (k_arbiter_stats s1)(original \<mapsto> st\<lparr>as_overturned_count := n\<rparr>)\<rparr>;
                    threshold = get_max_overturned_before_slash s2;
                    s3 = (if 0 < threshold \<and> threshold \<le> n \<and> \<not> is_arbiter_slashed s2 original
                          then slash_arbiter original n s2 else s2)
                in bindE (if approve then Inr (sh_supplier sh) else vec_get_unwrap (sh_buyers sh) 0) (\<lambda>wronged.
                   maybe_slash_arbiter_stake e original wronged (sh_token sh) s3)))"

definition contested_payment :: "int \<Rightarrow> nat option \<Rightarrow> int res" where
  "contested_payment full pct = (case pct of Some p \<Rightarrow> mul_div full p 100 | None \<Rightarrow> Inr full)"

definition drop_dispute :: "sid \<Rightarrow> nat \<Rightarrow> dispute_entry list \<Rightarrow> dispute_entry list" where
  "drop_dispute i j = filter (\<lambda>d. \<not> (de_shipment_id d = i \<and> de_milestone_index d = j))"

fun VRuling :: "resolution_reason \<Rightarrow> val" where
  "VRuling ProofValid = VStr ''ProofValid''"
| "VRuling ProofInvalid = VStr ''ProofInvalid''"
| "VRuling ProofLate = VStr ''ProofLate''"
| "VRuling InsufficientEvidence = VStr ''InsufficientEvidence''"
| "VRuling MutualSettlement = VStr ''MutualSettlement''"

definition emit_dispute_resolved ::
  "sid \<Rightarrow> nat \<Rightarrow> sym \<Rightarrow> addr \<Rightarrow> resolution_reason option \<Rightarrow> settle \<Rightarrow> settle" where
  "emit_dispute_resolved i j verdict resolver reason =
     emit [VStr ''chainsettle'', VStr ''dispute_resolved'']
       [VStr i, VNat j, VStr verdict, VAddr resolver,
        VRuling (get_or (if verdict = ''supplier'' then ProofValid else ProofInvalid) reason)]"

text \<open>The completion of a shipment by a ruling, when all milestones are done.\<close>

definition ruling_complete ::
  "settle_env \<Rightarrow> addr \<Rightarrow> sym \<Rightarrow> contract_stats \<Rightarrow> sid \<Rightarrow> shipment \<Rightarrow> settle \<Rightarrow> (settle \<times> shipment) res" where
  "ruling_complete e actor detail stats i sh s =
     (if \<not> all_milestones_done sh then Inr (s, sh)
      else
      let sh1 = append_audit_entry e actor ''shipment_completed'' detail (sh\<lparr>sh_status := Completed\<rparr>)
      in bindE (book_completion e i sh1 stats s) (\<lambda>s1. settle_on_completion e i sh1 s1))"

end
