(* ===== verification/SettleRulings.thy ===== *)
theory SettleRulings
  imports SettleDispute SettleCancel
begin

text \<open>
  How a dispute ends (\<^verbatim>\<open>lib.rs\<close>, lines 12083 to 13435, 14693 to 15380 and 17205 to
  17640): the arbiter's ruling, alone or in a batch, the percentage split, the payout after the
  finality delay, the appeal, the default outcome after a timeout, mediation, and the vote of a
  panel. The source reads the statistics and the list of open disputes once, at the start of a
  ruling, and writes them back from that reading.
\<close>

section \<open>The arbiter's ruling\<close>

text \<open>
  The four outcomes. The result holds the state, the shipment, the new milestone, the outcome for
  the histories, and the amounts of a release.
\<close>

definition rule_dispute ::
  "settle_env \<Rightarrow> sid \<Rightarrow> nat \<Rightarrow> bool \<Rightarrow> int \<Rightarrow> bool \<Rightarrow> (nat \<times> nat) option \<Rightarrow> shipment \<Rightarrow> milestone \<Rightarrow> settle \<Rightarrow>
   (settle \<times> shipment \<times> milestone \<times> dispute_outcome option \<times> (int \<times> int) option) res" where
  "rule_dispute e i j approve payment is_partial grade_dispute sh m s =
     (let delay = get_or 0 (k_finality_delay_ledgers s);
          resolved = m\<lparr>ms_status := Resolved\<rparr>
      in if approve \<and> 0 < delay
         then bindE (ck_u32 (sequence e + delay)) (\<lambda>t.
              Inr (s, sh, m\<lparr>ms_status := ResolvedPendingFinality, ms_release_after_ledger := t\<rparr>,
                   Some OutcomeSupplier, None))
         else if approve
         then bindE (award_supplier e (pay_arbiter e sh) i j payment
                       (if grade_dispute = None then max (sh_dispute_bond_amount sh) 0 else 0) sh s)
                (\<lambda>(s1, sh1, actual, bond_refund, _).
              bindE (if 0 < bond_refund
                     then bindE (vec_get_unwrap (sh_buyers sh1) 0) (\<lambda>primary.
                          token_pay e (sh_token sh1) (this e) primary bond_refund s1)
                     else Inr s1) (\<lambda>s2.
              Inr (s2, sh1, resolved, Some OutcomeSupplier, Some (payment, actual))))
         else (case grade_dispute of
             Some (grade, bps) \<Rightarrow>
               bindE (award_grade e i j payment grade bps sh s) (\<lambda>(s1, sh1). Inr (s1, sh1, resolved, None, None))
           | None \<Rightarrow>
               if is_partial
               then bindE (award_buyer e (pay_arbiter e sh) i j payment sh s) (\<lambda>(s1, sh1).
                    Inr (s1, sh1, resolved, Some OutcomeBuyer, None))
               else bindE (pay_bond e sh (sh_supplier sh) (sh_dispute_bond_amount sh) s) (\<lambda>s1.
                    Inr (s1, sh, m\<lparr>ms_status := Pending\<rparr>, Some OutcomeBuyer, None))))"

text \<open>The counters and histories of a ruling.\<close>

definition book_ruling ::
  "sid \<Rightarrow> nat \<Rightarrow> shipment \<Rightarrow> nat \<Rightarrow> dispute_outcome option \<Rightarrow> (int \<times> int) option \<Rightarrow> settle \<Rightarrow> settle res" where
  "book_ruling i j sh opened verdict release s =
     bindE (case release of
              Some (spend, net) \<Rightarrow>
                bindE (vec_get_unwrap (sh_buyers sh) 0) (\<lambda>primary.
                record_release_counters (sh_supplier sh) primary (sh_token sh) spend net s)
            | None \<Rightarrow> Inr s) (\<lambda>s1.
     case verdict of
       Some v \<Rightarrow>
         bindE (vec_get_unwrap (sh_buyers sh) 0) (\<lambda>primary.
         Inr (append_dispute_history primary (sh_supplier sh)
           \<lparr>dr_shipment_id = i, dr_milestone_index = j, dr_opened_ledger = opened, dr_outcome = v\<rparr> s1))
     | None \<Rightarrow> Inr s1)"

definition drop_contested :: "sid \<Rightarrow> nat \<Rightarrow> bool \<Rightarrow> settle \<Rightarrow> settle" where
  "drop_contested i j is_partial s =
     (if is_partial
      then s\<lparr>k_dispute_contested_percent := (k_dispute_contested_percent s)((i, j) := None)\<rparr> else s)"

text \<open>The shipment after a ruling: the milestone, one open dispute less, the ledger of the resolution.\<close>

definition ruled_shipment :: "settle_env \<Rightarrow> nat \<Rightarrow> milestone \<Rightarrow> shipment \<Rightarrow> shipment" where
  "ruled_shipment e j m sh =
     (set_milestone j m sh)\<lparr>sh_open_dispute_count := sh_open_dispute_count sh - 1,
        sh_last_dispute_resolved_ledger := Some (sequence e)\<rparr>"

definition mark_resolved :: "settle_env \<Rightarrow> sid \<Rightarrow> nat \<Rightarrow> bool \<Rightarrow> resolution_reason \<Rightarrow> settle \<Rightarrow> settle" where
  "mark_resolved e i j approve reason s =
     s\<lparr>k_dispute_resolved_at := (k_dispute_resolved_at s)((i, j) \<mapsto> sequence e),
       k_dispute_resolved_approve := (k_dispute_resolved_approve s)((i, j) \<mapsto> approve),
       k_dispute_resolution_reason := (k_dispute_resolution_reason s)((i, j) \<mapsto> reason)\<rparr>"

text \<open>
  The end of a ruling, from the arbiter's statistics to the stored shipment. \<open>complete\<close> is the
  completion step of the caller.
\<close>

definition close_ruling ::
  "settle_env \<Rightarrow> addr \<Rightarrow> sid \<Rightarrow> nat \<Rightarrow> bool \<Rightarrow> resolution_reason \<Rightarrow> nat \<Rightarrow> sym \<Rightarrow> sym \<Rightarrow> dispute_entry list \<Rightarrow>
   (shipment \<Rightarrow> settle \<Rightarrow> (settle \<times> shipment) res) \<Rightarrow> milestone \<Rightarrow> shipment \<Rightarrow> settle \<Rightarrow> (settle \<times> shipment) res" where
  "close_ruling e a i j approve reason n action detail open complete m sh s =
     bindE (count_ruling a approve n s) (\<lambda>s1.
     let sh1 = ruled_shipment e j m sh;
         s2 = mark_resolved e i j approve reason s1
     in bindE (settle_appeal_fee e sh1 i j approve s2) (\<lambda>s3.
        bindE (apply_appeal_overturn e sh1 i j approve s3) (\<lambda>s4.
        bindE (complete (append_audit_entry e a action detail sh1) s4) (\<lambda>(s5, sh2).
        Inr (s5\<lparr>k_active_disputes := Some (drop_dispute i j open),
                k_shipment := (k_shipment s5)(i \<mapsto> sh2)\<rparr>, sh2)))))"

definition resolve_dispute ::
  "settle_env \<Rightarrow> addr \<Rightarrow> sid \<Rightarrow> nat \<Rightarrow> bool \<Rightarrow> resolution_reason option \<Rightarrow> settle \<Rightarrow> settle res" where
  "resolve_dispute e a i j approve reason0 s =
     bindE (assert_operation_not_paused s ''dispute'') (\<lambda>_.
     let reason = get_or (if approve then ProofValid else ProofInvalid) reason0
     in bindE (get_shipment_internal s i) (\<lambda>sh.
     let pct = k_dispute_contested_percent s (i, j);
         stats = get_or contract_stats_zero (k_contract_stats s);
         open = get_or [] (k_active_disputes s)
     in bindE (assert_active sh) (\<lambda>_.
     bindE (require_arbiter_auth e sh a) (\<lambda>_.
     bindE (vec_get_unwrap (sh_milestones sh) j) (\<lambda>m.
     if ms_status m \<noteq> Disputed then Inl (Panic ''milestone is not in disputed status'')
     else
     bindE (assert_not_panel_escalated s i j) (\<lambda>_.
     let s1 = s\<lparr>k_pending_split := (k_pending_split s)((i, j) := None)\<rparr>
     in bindE (milestone_gross_payment s1 sh j) (\<lambda>full.
     bindE (contested_payment full pct) (\<lambda>payment.
     let grade_dispute = k_grade_dispute s1 (i, j);
         s2 = s1\<lparr>k_grade_dispute := (k_grade_dispute s1)((i, j) := None)\<rparr>
     in bindE (rule_dispute e i j approve payment (pct \<noteq> None) grade_dispute sh m s2)
          (\<lambda>(s3, sh1, m1, verdict, release).
     bindE (book_ruling i j sh1 (get_or 0 (ms_dispute_opened_ledger m)) verdict release s3) (\<lambda>s4.
     bindE (ck_sub (sequence e) (get_or (sequence e) (ms_dispute_opened_ledger m))) (\<lambda>n.
     bindE (close_ruling e a i j approve reason n ''dispute_resolved'' ''resolve_dispute'' open
              (ruling_complete e a ''resolve_dispute'' stats i) m1 sh1 (drop_contested i j (pct \<noteq> None) s4))
       (\<lambda>(s5, sh2).
     bindE (vec_get_unwrap (sh_buyers sh2) 0) (\<lambda>primary.
     bindE (ck_i128 (sh_total_amount sh2 - sh_released_amount sh2)) (\<lambda>remaining.
     Inr (emit_dispute_resolved i j (if approve then ''supplier'' else ''buyer'') a (Some reason)
       (emit [VStr ''dispute_resolved'', VStr i]
          [VNat j, VBool approve, VBool (pct \<noteq> None), VInt (sh_released_amount sh2), VInt remaining,
           VRuling reason]
          (update_buyer_reliability_on_dispute primary (\<not> approve) s5)))))))))))))))))"

fun check_rulings ::
  "settle_env \<Rightarrow> addr \<Rightarrow> (sid \<times> nat \<times> bool \<times> resolution_reason option) list \<Rightarrow> settle \<Rightarrow> unit res" where
  "check_rulings e a [] s = Inr ()"
| "check_rulings e a ((i, j, _, _) # rs) s =
     bindE (get_shipment_internal s i) (\<lambda>sh.
     bindE (assert_active sh) (\<lambda>_.
     bindE (require_arbiter_auth e sh a) (\<lambda>_.
     if length (sh_milestones sh) \<le> j then Inl (Panic ''invalid milestone index'')
     else if ms_status (sh_milestones sh ! j) \<noteq> Disputed
     then Inl (Panic ''milestone is not in disputed status'')
     else check_rulings e a rs s)))"

definition batch_resolve_disputes ::
  "settle_env \<Rightarrow> addr \<Rightarrow> (sid \<times> nat \<times> bool \<times> resolution_reason option) list \<Rightarrow> settle \<Rightarrow> settle res" where
  "batch_resolve_disputes e a rs s =
     bindE (assert_not_paused s) (\<lambda>_.
     bindE (check_rulings e a rs s) (\<lambda>_.
     foldE (\<lambda>(i, j, approve, reason). resolve_dispute e a i j approve reason) rs s))"

section \<open>Percentage split\<close>

text \<open>A share of the bond, and what an empty share does not pay.\<close>

definition pay_split_supplier ::
  "settle_env \<Rightarrow> sid \<Rightarrow> nat \<Rightarrow> int \<Rightarrow> int \<Rightarrow> shipment \<Rightarrow> settle \<Rightarrow> (settle \<times> int \<times> int) res" where
  "pay_split_supplier e i j share fee_part sh s =
     (if share \<le> 0 then Inr (s, 0, 0)
      else
      bindE (check_circuit_breaker (sequence e) share s) (\<lambda>s1.
      bindE (check_address_outflow (sh_supplier sh) (sequence e) share s1) (\<lambda>s2.
      bindE (deduct_fee e share (sh_token sh) s2) (\<lambda>(s3, net0, platform_fee).
      bindE (track_shipment_fees_paid i platform_fee s3) (\<lambda>s4.
      bindE (ck_i128 (net0 - fee_part)) (\<lambda>n.
      let net = max n 0
      in bindE (pay_milestone_to_payees e i j net (sh_supplier sh) (sh_token sh) s4) (\<lambda>s5.
         Inr (s5, net, platform_fee))))))))"

definition settle_split_payout ::
  "settle_env \<Rightarrow> sid \<Rightarrow> nat \<Rightarrow> nat \<Rightarrow> int \<Rightarrow> shipment \<Rightarrow> settle \<Rightarrow> (settle \<times> shipment) res" where
  "settle_split_payout e i j bps contested sh s =
     bindE (mul_div contested bps 10000) (\<lambda>supplier_share.
     bindE (ck_i128 (contested - supplier_share)) (\<lambda>buyer_share.
     bindE (vec_get_unwrap (sh_buyers sh) 0) (\<lambda>primary.
     bindE (arbiter_fee_on s sh contested) (\<lambda>fee.
     bindE (mul_div fee bps 10000) (\<lambda>supplier_fee_part.
     bindE (ck_i128 (fee - supplier_fee_part)) (\<lambda>buyer_fee_part.
     bindE (pay_arbiter e sh fee s) (\<lambda>(s1, _).
     bindE (pay_split_supplier e i j supplier_share supplier_fee_part sh s1) (\<lambda>(s2, supplier_net, platform_fee).
     bindE (ck_i128 (buyer_share - buyer_fee_part)) (\<lambda>b.
     let buyer_net = max b 0; bond = max (sh_dispute_bond_amount sh) 0
     in bindE (whenE (0 < buyer_net) (token_pay e (sh_token sh) (this e) primary buyer_net) s2) (\<lambda>s3.
        bindE (mul_div bond (10000 - bps) 10000) (\<lambda>bond_to_buyer.
        bindE (pay_bond e sh primary bond_to_buyer s3) (\<lambda>s4.
        bindE (pay_bond e sh (sh_supplier sh) (bond - bond_to_buyer) s4) (\<lambda>s5.
        bindE (ck_i128 (sh_released_amount sh + contested)) (\<lambda>released.
        bindE (record_release_counters (sh_supplier sh) primary (sh_token sh) supplier_share supplier_net s5) (\<lambda>s6.
        Inr (emit [VStr ''dispute_split_settled'', VStr i]
               [VNat j, VInt supplier_share, VInt buyer_share, VInt supplier_net, VInt buyer_net, VInt fee,
                VInt platform_fee] s6,
             sh\<lparr>sh_released_amount := released\<rparr>))))))))))))))))"

definition complete_shipment_if_done ::
  "settle_env \<Rightarrow> addr \<Rightarrow> sid \<Rightarrow> shipment \<Rightarrow> settle \<Rightarrow> (settle \<times> shipment) res" where
  "complete_shipment_if_done e actor i sh s =
     (if \<not> all_milestones_done sh then Inr (s, sh)
      else
      let sh1 = append_audit_entry e actor ''shipment_completed'' ''resolve_dispute_split''
                  (sh\<lparr>sh_status := Completed\<rparr>)
      in bindE (book_completion e i sh1 (get_or contract_stats_zero (k_contract_stats s)) s) (\<lambda>s1.
         bindE (settle_on_completion e i sh1 s1) (\<lambda>(s2, sh2).
         Inr (prune_shipment_auxiliary_keys i (length (sh_milestones sh2)) s2, sh2))))"

text \<open>How long a split is parked: the finality delay, and the appeal window while an appeal is possible.\<close>

definition split_park_ledgers :: "settle \<Rightarrow> sid \<Rightarrow> nat \<Rightarrow> nat" where
  "split_park_ledgers s i j =
     (let window = get_or 0 (k_appeal_window_ledgers s); delay = get_or 0 (k_finality_delay_ledgers s)
      in if 0 < window \<and> \<not> get_or False (k_dispute_appealed s (i, j))
         then max delay (sat_add_u32 window 1) else delay)"

definition split_now ::
  "settle_env \<Rightarrow> sid \<Rightarrow> nat \<Rightarrow> nat \<Rightarrow> int \<Rightarrow> nat \<Rightarrow> shipment \<Rightarrow> milestone \<Rightarrow> settle \<Rightarrow>
   (settle \<times> shipment \<times> milestone) res" where
  "split_now e i j bps contested park sh m s =
     (if 0 < park
      then Inr (s\<lparr>k_pending_split := (k_pending_split s)((i, j) \<mapsto> (bps, contested))\<rparr>, sh,
                m\<lparr>ms_status := ResolvedPendingFinality, ms_release_after_ledger := sat_add_u32 (sequence e) park\<rparr>)
      else bindE (settle_split_payout e i j bps contested sh s) (\<lambda>(s1, sh1).
           Inr (drop_contested i j True s1, sh1, m\<lparr>ms_status := Resolved\<rparr>)))"

definition resolve_dispute_split ::
  "settle_env \<Rightarrow> addr \<Rightarrow> sid \<Rightarrow> nat \<Rightarrow> nat \<Rightarrow> settle \<Rightarrow> settle res" where
  "resolve_dispute_split e a i j bps s =
     bindE (assert_operation_not_paused s ''dispute'') (\<lambda>_.
     if 10000 < bps then Inl (Panic ''supplier_bps must be at most 10000'')
     else
     bindE (get_shipment_internal s i) (\<lambda>sh.
     let pct = k_dispute_contested_percent s (i, j);
         open = get_or [] (k_active_disputes s)
     in bindE (assert_active sh) (\<lambda>_.
     bindE (require_arbiter_auth e sh a) (\<lambda>_.
     if length (sh_milestones sh) \<le> j then Inl (Panic ''invalid milestone index'')
     else
     let m = sh_milestones sh ! j
     in if ms_status m \<noteq> Disputed then Inl (Panic ''milestone is not in disputed status'')
     else
     bindE (assert_not_panel_escalated s i j) (\<lambda>_.
     if k_grade_dispute s (i, j) \<noteq> None then Inl (Panic ''grade disputes cannot be split'')
     else if (case k_advance_request s (i, j) of Some r \<Rightarrow> ar_approved r | None \<Rightarrow> False)
     then Inl (Panic ''split resolution not allowed when an approved advance exists'')
     else
     bindE (milestone_gross_payment s sh j) (\<lambda>full.
     bindE (contested_payment full pct) (\<lambda>contested.
     bindE (mul_div contested bps 10000) (\<lambda>supplier_share.
     bindE (ck_i128 (contested - supplier_share)) (\<lambda>buyer_share.
     let favoured = 5000 < bps; park = split_park_ledgers s i j; parked = 0 < park;
         s1 = s\<lparr>k_dispute_split_bps := (k_dispute_split_bps s)((i, j) \<mapsto> bps)\<rparr>;
         reason = (if favoured then ProofValid else ProofInvalid)
     in bindE (split_now e i j bps contested park sh m s1) (\<lambda>(s2, sh1, m1).
     bindE (book_ruling i j sh1 (get_or 0 (ms_dispute_opened_ledger m))
              (Some (if favoured then OutcomeSupplier else OutcomeBuyer)) None s2) (\<lambda>s3.
     bindE (close_ruling e a i j favoured reason
              (sequence e - get_or (sequence e) (ms_dispute_opened_ledger m))
              ''dispute_split_resolved'' ''resolve_dispute_split'' open
              (if parked then (\<lambda>sh s. Inr (s, sh)) else complete_shipment_if_done e a i) m1 sh1 s3)
       (\<lambda>(s4, sh2).
     bindE (vec_get_unwrap (sh_buyers sh2) 0) (\<lambda>primary.
     Inr (emit_dispute_resolved i j ''split'' a (Some reason)
       (emit [VStr ''dispute_split_resolved'', VStr i]
          [VNat j, VNat bps, VInt supplier_share, VInt buyer_share, VBool (pct \<noteq> None), VBool parked]
          (update_buyer_reliability_on_dispute primary (\<not> favoured) s4))))))))))))))))"

definition get_dispute_split :: "settle \<Rightarrow> sid \<Rightarrow> nat \<Rightarrow> nat option" where
  "get_dispute_split s i j = k_dispute_split_bps s (i, j)"

section \<open>Payout after the finality delay\<close>

definition finalize_split ::
  "settle_env \<Rightarrow> sid \<Rightarrow> nat \<Rightarrow> nat \<Rightarrow> int \<Rightarrow> shipment \<Rightarrow> milestone \<Rightarrow> settle \<Rightarrow> settle res" where
  "finalize_split e i j bps contested sh m s =
     bindE (settle_split_payout e i j bps contested sh
              (s\<lparr>k_pending_split := (k_pending_split s)((i, j) := None)\<rparr>)) (\<lambda>(s1, sh1).
     let s2 = drop_contested i j True s1;
         sh2 = append_audit_entry e (sh_arbiter sh1) ''split_resolution_finalized'' ''finalize_dispute_resolution''
                 (set_milestone j (m\<lparr>ms_status := Resolved, ms_release_after_ledger := 0\<rparr>) sh1)
     in bindE (complete_shipment_if_done e (sh_arbiter sh1) i sh2 s2) (\<lambda>(s3, sh3).
        Inr (emit [VStr ''split_resolution_finalized'', VStr i] [VNat j, VNat bps, VInt contested]
               (s3\<lparr>k_shipment := (k_shipment s3)(i \<mapsto> sh3)\<rparr>))))"

definition finalize_complete :: "settle_env \<Rightarrow> sid \<Rightarrow> shipment \<Rightarrow> settle \<Rightarrow> (settle \<times> shipment) res" where
  "finalize_complete e i sh s =
     (if \<not> all_milestones_done sh then Inr (s, sh)
      else
      let sh1 = sh\<lparr>sh_status := Completed\<rparr>
      in bindE (book_completion e i sh1 (get_or contract_stats_zero (k_contract_stats s)) s) (\<lambda>s1.
         settle_on_completion e i sh1 s1))"

definition finalize_award ::
  "settle_env \<Rightarrow> sid \<Rightarrow> nat \<Rightarrow> shipment \<Rightarrow> milestone \<Rightarrow> settle \<Rightarrow> settle res" where
  "finalize_award e i j sh m s =
     bindE (milestone_gross_payment s sh j) (\<lambda>payment.
     bindE (award_supplier e (pay_arbiter e sh) i j payment (max (sh_dispute_bond_amount sh) 0) sh s)
       (\<lambda>(s1, sh1, actual, bond_refund, fee_amount).
     bindE (vec_get_unwrap (sh_buyers sh1) 0) (\<lambda>primary.
     bindE (record_release_counters (sh_supplier sh1) primary (sh_token sh1) payment actual s1) (\<lambda>s2.
     bindE (pay_bond e sh1 primary bond_refund s2) (\<lambda>s3.
     bindE (finalize_complete e i
              (set_milestone j (m\<lparr>ms_status := Resolved, ms_release_after_ledger := 0\<rparr>) sh1) s3) (\<lambda>(s4, sh2).
     Inr (emit_dispute_resolved i j ''supplier'' (sh_arbiter sh2) (Some ProofValid)
       (emit [VStr ''dispute_resolution_finalized'', VStr i] [VNat j, VInt payment, VInt fee_amount]
          (s4\<lparr>k_shipment := (k_shipment s4)(i \<mapsto> sh2)\<rparr>)))))))))"

definition finalize_dispute_resolution :: "settle_env \<Rightarrow> sid \<Rightarrow> nat \<Rightarrow> settle \<Rightarrow> settle res" where
  "finalize_dispute_resolution e i j s =
     bindE (assert_not_paused s) (\<lambda>_.
     bindE (get_shipment_internal s i) (\<lambda>sh.
     bindE (assert_active sh) (\<lambda>_.
     bindE (vec_get_unwrap (sh_milestones sh) j) (\<lambda>m.
     if ms_status m \<noteq> ResolvedPendingFinality then Inl (Panic ''milestone is not pending finality'')
     else if sequence e < ms_release_after_ledger m then Inl (Panic ''finality delay has not yet elapsed'')
     else (case k_pending_split s (i, j) of
             Some (bps, contested) \<Rightarrow> finalize_split e i j bps contested sh m s
           | None \<Rightarrow> finalize_award e i j sh m s)))))"

section \<open>Appeal\<close>

definition appeal_reopen ::
  "settle_env \<Rightarrow> addr \<Rightarrow> addr \<Rightarrow> sid \<Rightarrow> nat \<Rightarrow> shipment \<Rightarrow> settle \<Rightarrow> settle res" where
  "appeal_reopen e caller new i j sh s0 =
     (let s1 = s0\<lparr>k_dispute_appeal_original := (k_dispute_appeal_original s0)
               ((i, j) \<mapsto> (sh_arbiter sh, get_or False (k_dispute_resolved_approve s0 (i, j))))\<rparr>
      in bindE (vec_get_unwrap (sh_milestones sh) j) (\<lambda>m.
         bindE (ck_u32 (sh_open_dispute_count sh + 1)) (\<lambda>n.
         let s2 = reindex_arbiter i (sh_arbiter sh) new s1;
             sh1 = set_milestone j (disputed_milestone e m)
                     (sh\<lparr>sh_arbiter := new, sh_open_dispute_count := n\<rparr>);
             fee = get_appeal_fee s2
         in bindE (if 0 < fee
                   then bindE (token_pay e (sh_token sh1) caller (this e) fee s2) (\<lambda>s3.
                        Inr (s3\<lparr>k_appeal_fee_deposit := (k_appeal_fee_deposit s3)((i, j) \<mapsto> (caller, fee))\<rparr>))
                   else Inr s2) (\<lambda>s3.
            Inr (emit [VStr ''dispute_appealed'', VStr i] [VNat j, VAddr caller, VAddr new]
              (s3\<lparr>k_dispute_appealed := (k_dispute_appealed s3)((i, j) \<mapsto> True),
                  k_dispute_resolved_at := (k_dispute_resolved_at s3)((i, j) := None),
                  k_pending_split := (k_pending_split s3)((i, j) := None),
                  k_panel_escalated := (k_panel_escalated s3)((i, j) := None),
                  k_shipment := (k_shipment s3)(i \<mapsto> sh1)\<rparr>))))))"

definition appeal_dispute :: "settle_env \<Rightarrow> addr \<Rightarrow> sid \<Rightarrow> nat \<Rightarrow> settle \<Rightarrow> settle res" where
  "appeal_dispute e caller i j s =
     bindE (assert_not_paused s) (\<lambda>_.
     bindE (get_shipment_internal s i) (\<lambda>sh.
     bindE (assert_active sh) (\<lambda>_.
     bindE (assert_buyer_or_supplier sh caller) (\<lambda>_.
     bindE (require_auth e caller) (\<lambda>_.
     if length (sh_milestones sh) \<le> j then Inl (Panic ''invalid milestone index'')
     else
     let window = get_or 0 (k_appeal_window_ledgers s)
     in if window = 0 then Inl (Panic ''appeals are not enabled'')
     else if get_or False (k_dispute_appealed s (i, j)) then Inl (Panic ''dispute has already been appealed'')
     else
     bindE (expect (k_dispute_resolved_at s (i, j)) ''dispute has not been resolved'') (\<lambda>resolved_at.
     bindE (ck_u32 (resolved_at + window)) (\<lambda>t.
     if t < sequence e then Inl (Panic ''appeal window has closed'')
     else
     let pool = get_arbiter_pool s
     in bindE (expect (map_option (\<lambda>k. pool ! k)
                (vec_get (select_pool_arbiters s (sh_supplier sh) pool 0 1 [sh_arbiter sh]) 0))
                ''no distinct arbiter available for appeal'') (\<lambda>new.
        appeal_reopen e caller new i j sh (record_supplier_arbiters (sh_supplier sh) [new] s)))))))))"

end
