(* ===== verification/SettlePanels.thy ===== *)
theory SettlePanels
  imports SettleRulings
begin

text \<open>
  The other ways a dispute ends (\<^verbatim>\<open>lib.rs\<close>): the vote of an arbiter panel (lines
  17205 to 17640), the default outcome after a timeout with the handoff to a backup arbiter (14693
  to 14985), mediation (14991 to 15380), and the two permissionless notifications (13437 to 13530).
\<close>

section \<open>The vote of a panel\<close>

text \<open>The loop over the voters from index \<open>k\<close> on: the last voter takes what is left.\<close>

fun panel_fee_loop ::
  "settle_env \<Rightarrow> addr \<Rightarrow> int \<Rightarrow> int \<Rightarrow> nat \<Rightarrow> nat \<Rightarrow> addr list \<Rightarrow> int \<Rightarrow> settle \<Rightarrow> (settle \<times> int) res" where
  "panel_fee_loop e tok whole per_voter voters k [] distributed s = Inr (s, distributed)"
| "panel_fee_loop e tok whole per_voter voters k (v # vs) distributed s =
     bindE (if k = voters - 1 then ck_i128 (whole - distributed) else Inr per_voter) (\<lambda>amount.
     if 0 < amount
     then bindE (token_pay e tok (this e) v amount s) (\<lambda>s1.
          bindE (ck_i128 (distributed + amount)) (\<lambda>d. panel_fee_loop e tok whole per_voter voters (k + 1) vs d s1))
     else panel_fee_loop e tok whole per_voter voters (k + 1) vs distributed s)"

definition distribute_panel_fee ::
  "settle_env \<Rightarrow> addr \<Rightarrow> sid \<Rightarrow> nat \<Rightarrow> dispute_vote list \<Rightarrow> int \<Rightarrow> settle \<Rightarrow> (settle \<times> int) res" where
  "distribute_panel_fee e tok i j votes whole s =
     (let voters = length votes
      in if whole \<le> 0 \<or> voters = 0 then Inr (s, 0)
         else
         bindE (panel_fee_loop e tok whole (tdiv whole (int voters)) voters 0 (map dv_arbiter votes) 0 s)
           (\<lambda>(s1, distributed).
         Inr (emit [VStr ''panel_fee_distributed'', VStr i] [VNat j, VNat voters, VInt distributed] s1,
              distributed)))"

text \<open>The three outcomes of a panel's decision.\<close>

definition rule_panel ::
  "settle_env \<Rightarrow> sid \<Rightarrow> nat \<Rightarrow> bool \<Rightarrow> int \<Rightarrow> bool \<Rightarrow> dispute_vote list \<Rightarrow> shipment \<Rightarrow> settle \<Rightarrow>
   (settle \<times> shipment \<times> milestone_status \<times> dispute_outcome) res" where
  "rule_panel e i j approve payment is_partial votes sh s =
     (if approve
      then bindE (award_supplier e (distribute_panel_fee e (sh_token sh) i j votes) i j payment
                    (max (sh_dispute_bond_amount sh) 0) sh s) (\<lambda>(s1, sh1, actual, bond_refund, _).
           bindE (vec_get_unwrap (sh_buyers sh1) 0) (\<lambda>primary.
           bindE (record_release_counters (sh_supplier sh1) primary (sh_token sh1) payment actual s1) (\<lambda>s2.
           bindE (pay_bond e sh1 primary bond_refund s2) (\<lambda>s3.
           Inr (s3, sh1, Resolved, OutcomeSupplier)))))
      else if is_partial
      then bindE (award_buyer e (distribute_panel_fee e (sh_token sh) i j votes) i j payment sh s) (\<lambda>(s1, sh1).
           Inr (s1, sh1, Resolved, OutcomeBuyer))
      else bindE (pay_bond e sh (sh_supplier sh) (sh_dispute_bond_amount sh) s) (\<lambda>s1.
           Inr (s1, sh, Pending, OutcomeBuyer)))"

definition resolve_dispute_panel_internal ::
  "settle_env \<Rightarrow> sid \<Rightarrow> nat \<Rightarrow> bool \<Rightarrow> addr \<Rightarrow> dispute_vote list \<Rightarrow> settle \<Rightarrow> settle res" where
  "resolve_dispute_panel_internal e i j approve resolver votes s =
     bindE (get_shipment_internal s i) (\<lambda>sh.
     let pct = k_dispute_contested_percent s (i, j);
         stats = get_or contract_stats_zero (k_contract_stats s);
         open = get_or [] (k_active_disputes s)
     in bindE (milestone_gross_payment s sh j) (\<lambda>full.
     bindE (contested_payment full pct) (\<lambda>payment.
     bindE (vec_get_unwrap (sh_milestones sh) j) (\<lambda>m.
     bindE (rule_panel e i j approve payment (pct \<noteq> None) votes sh s) (\<lambda>(s1, sh1, st, verdict).
     bindE (book_ruling i j sh1 (get_or 0 (ms_dispute_opened_ledger m)) (Some verdict) None s1) (\<lambda>s2.
     let s3 = drop_contested i j (pct \<noteq> None) s2
     in bindE (ck_sub (sequence e) (get_or (sequence e) (ms_dispute_opened_ledger m))) (\<lambda>n.
        bindE (count_ruling resolver approve n s3) (\<lambda>s4.
        let sh2 = append_audit_entry e resolver ''dispute_resolved'' ''cast_dispute_vote''
                    (ruled_shipment e j (m\<lparr>ms_status := st\<rparr>) sh1)
        in bindE (ruling_complete e resolver ''cast_dispute_vote'' stats i sh2 s4) (\<lambda>(s5, sh3).
           bindE (ck_i128 (sh_total_amount sh3 - sh_released_amount sh3)) (\<lambda>remaining.
           Inr (emit_dispute_resolved i j (if approve then ''supplier'' else ''buyer'') resolver None
             (emit [VStr ''dispute_resolved'', VStr i]
                [VNat j, VBool approve, VBool (pct \<noteq> None), VInt (sh_released_amount sh3), VInt remaining]
                (s5\<lparr>k_shipment := (k_shipment s5)(i \<mapsto> sh3),
                    k_active_disputes := Some (drop_dispute i j open)\<rparr>)))))))))))))"

definition votes_for :: "bool \<Rightarrow> dispute_vote list \<Rightarrow> nat" where
  "votes_for approve votes = length (filter (\<lambda>v. dv_approve v = approve) votes)"

definition cast_dispute_vote :: "settle_env \<Rightarrow> addr \<Rightarrow> sid \<Rightarrow> nat \<Rightarrow> bool \<Rightarrow> settle \<Rightarrow> settle res" where
  "cast_dispute_vote e a i j approve s =
     bindE (assert_not_paused s) (\<lambda>_.
     bindE (require_auth e a) (\<lambda>_.
     bindE (expect (k_arbiter_panel s i) ''shipment has no arbiter panel'') (\<lambda>panel.
     if a \<notin> set panel then Inl (Panic ''NotPanelMember'')
     else
     bindE (get_shipment_internal s i) (\<lambda>sh.
     bindE (assert_active sh) (\<lambda>_.
     if length (sh_milestones sh) \<le> j then Inl (Panic ''invalid milestone index'')
     else if ms_status (sh_milestones sh ! j) \<noteq> Disputed then Inl (Panic ''DisputeAlreadyResolved'')
     else
     let votes0 = get_or [] (k_dispute_votes s (i, j))
     in if a \<in> dv_arbiter ` set votes0 then Inl (Panic ''AlreadyVoted'')
        else
        let votes = votes0 @ [\<lparr>dv_arbiter = a, dv_approve = approve\<rparr>];
            s1 = emit [VStr ''dispute_vote_cast'', VStr i] [VNat j, VAddr a, VBool approve, VNat (length votes)]
                   (s\<lparr>k_dispute_votes := (k_dispute_votes s)((i, j) \<mapsto> votes)\<rparr>);
            threshold = length panel div 2 + 1;
            majority_approve = threshold \<le> votes_for True votes;
            majority_reject = threshold \<le> votes_for False votes
        in if majority_approve \<or> majority_reject
           then resolve_dispute_panel_internal e i j majority_approve a votes
                  (s1\<lparr>k_dispute_votes := (k_dispute_votes s1)((i, j) := None),
                      k_panel_escalated := (k_panel_escalated s1)((i, j) := None)\<rparr>)
           else Inr s1)))))"

definition get_dispute_votes :: "settle \<Rightarrow> sid \<Rightarrow> nat \<Rightarrow> dispute_vote list" where
  "get_dispute_votes s i j = get_or [] (k_dispute_votes s (i, j))"

definition get_arbiter_panel :: "settle \<Rightarrow> sid \<Rightarrow> addr list" where
  "get_arbiter_panel s i = get_or [] (k_arbiter_panel s i)"

section \<open>Timeout\<close>

definition timeout_handoff ::
  "settle_env \<Rightarrow> addr \<Rightarrow> sid \<Rightarrow> nat \<Rightarrow> shipment \<Rightarrow> settle \<Rightarrow> settle" where
  "timeout_handoff e backup i j sh s =
     (let old = sh_arbiter sh;
          sh1 = append_audit_entry e old ''dispute_timeout_handoff'' ''resolve_dispute_timeout''
                  (sh\<lparr>sh_arbiter := backup\<rparr>);
          s1 = reindex_arbiter i old backup s
      in emit [VStr ''dispute_timeout_handoff'', VStr i] [VNat j, VAddr old, VAddr backup]
           (s1\<lparr>k_dispute_opened_at := (k_dispute_opened_at s1)((i, j) \<mapsto> timestamp e),
               k_shipment := (k_shipment s1)(i \<mapsto> sh1)\<rparr>))"

definition timeout_pay ::
  "settle_env \<Rightarrow> sid \<Rightarrow> int \<Rightarrow> shipment \<Rightarrow> settle \<Rightarrow> (settle \<times> shipment) res" where
  "timeout_pay e i payment sh s =
     bindE (vec_get_unwrap (sh_buyers sh) 0) (\<lambda>primary.
     if sh_default_resolution sh = ResolveSupplier
     then bindE (deduct_fee_for_shipment e payment (sh_token sh) i s) (\<lambda>(s1, net, fee_amount).
          bindE (check_circuit_breaker (sequence e) payment s1) (\<lambda>s2.
          bindE (check_address_outflow (sh_supplier sh) (sequence e) payment s2) (\<lambda>s3.
          bindE (whenE (0 < net) (token_pay e (sh_token sh) (this e) (sh_supplier sh) net) s3) (\<lambda>s4.
          bindE (ck_i128 (sh_released_amount sh + payment)) (\<lambda>released.
          bindE (record_release_counters (sh_supplier sh) primary (sh_token sh) payment net s4) (\<lambda>s5.
          Inr (s5, sh\<lparr>sh_released_amount := released\<rparr>)))))))
     else bindE (whenE (0 < payment) (token_pay e (sh_token sh) (this e) primary payment) s) (\<lambda>s1.
          Inr (s1, sh)))"

text \<open>
  The default outcome. The source checks for completion before it writes the resolved milestone
  into the local shipment, and so does the model.
\<close>

definition timeout_resolve ::
  "settle_env \<Rightarrow> sid \<Rightarrow> nat \<Rightarrow> shipment \<Rightarrow> milestone \<Rightarrow> settle \<Rightarrow> settle res" where
  "timeout_resolve e i j sh m s =
     (let pct = k_dispute_contested_percent s (i, j);
          verdict = (if sh_default_resolution sh = ResolveSupplier then ''supplier'' else ''buyer'')
      in bindE (milestone_gross_payment s sh j) (\<lambda>full.
         bindE (contested_payment full pct) (\<lambda>payment.
         bindE (timeout_pay e i payment sh s) (\<lambda>(s1, sh1).
         bindE (decrease_total_escrowed (sh_token sh1) payment s1) (\<lambda>s2.
         let s3 = drop_contested i j (pct \<noteq> None) s2;
             s4 = s3\<lparr>k_dispute_opened_at := (k_dispute_opened_at s3)((i, j) := None)\<rparr>
         in bindE (book_ruling i j sh1 (get_or 0 (ms_dispute_opened_ledger m))
                     (Some (if sh_default_resolution sh = ResolveSupplier then OutcomeSupplier else OutcomeBuyer))
                     None s4) (\<lambda>s5.
            bindE (ruling_complete e (sh_arbiter sh) ''resolve_dispute_timeout''
                     (get_or contract_stats_zero (k_contract_stats s5)) i
                     (append_audit_entry e (sh_arbiter sh) ''dispute_auto_resolved'' ''resolve_dispute_timeout'' sh1)
                     s5) (\<lambda>(s6, sh2).
            let sh3 = ruled_shipment e j (m\<lparr>ms_status := Resolved\<rparr>) sh2
            in Inr (emit_dispute_resolved i j verdict (sh_arbiter sh3) None
                 (emit [VStr ''dispute_auto_resolved'', VStr i] [VNat j, VStr verdict]
                    (s6\<lparr>k_active_disputes := Some (drop_dispute i j (get_or [] (k_active_disputes s6))),
                        k_shipment := (k_shipment s6)(i \<mapsto> sh3)\<rparr>))))))))))"

definition resolve_dispute_timeout :: "settle_env \<Rightarrow> sid \<Rightarrow> nat \<Rightarrow> settle \<Rightarrow> settle res" where
  "resolve_dispute_timeout e i j s =
     bindE (assert_operation_not_paused s ''dispute'') (\<lambda>_.
     bindE (get_shipment_internal s i) (\<lambda>sh.
     bindE (assert_active sh) (\<lambda>_.
     if length (sh_milestones sh) \<le> j then Inl (Panic ''invalid milestone index'')
     else
     let m = sh_milestones sh ! j
     in if ms_status m \<noteq> Disputed then Inl (Panic ''milestone is not in disputed status'')
     else if sh_dispute_timeout_seconds sh = 0
     then Inl (Panic ''dispute timeout not configured for this shipment'')
     else
     bindE (expect (k_dispute_opened_at s (i, j)) ''dispute opened timestamp not recorded'') (\<lambda>opened_at.
     bindE (ck_u64 (opened_at + sh_dispute_timeout_seconds sh)) (\<lambda>t.
     if timestamp e < t then Inl (Panic ''DisputeTimeoutNotReached'')
     else (case k_backup_arbiter s i of
             Some backup \<Rightarrow>
               if sh_arbiter sh \<noteq> backup then Inr (timeout_handoff e backup i j sh s)
               else timeout_resolve e i j sh m s
           | None \<Rightarrow> timeout_resolve e i j sh m s))))))"

section \<open>Mediation\<close>

definition assign_mediator :: "settle_env \<Rightarrow> addr \<Rightarrow> sid \<Rightarrow> addr \<Rightarrow> settle \<Rightarrow> settle res" where
  "assign_mediator e adm i mediator s =
     bindE (as_admin e adm s) (\<lambda>_.
     bindE (get_shipment_internal s i) (\<lambda>_.
     Inr (emit [VStr ''mediator_assigned'', VStr i] [VAddr mediator]
            (s\<lparr>k_shipment_mediator := (k_shipment_mediator s)(i \<mapsto> mediator)\<rparr>))))"

definition set_mediator_pool :: "settle_env \<Rightarrow> addr \<Rightarrow> addr list \<Rightarrow> settle \<Rightarrow> settle res" where
  "set_mediator_pool e adm mediators =
     admin_set e adm ''mediator_pool_set'' [VNat (length mediators)] (\<lambda>s. s\<lparr>k_mediator_pool := Some mediators\<rparr>)"

definition is_authorized_mediator :: "settle \<Rightarrow> sid \<Rightarrow> addr \<Rightarrow> bool" where
  "is_authorized_mediator s i mediator \<longleftrightarrow>
     k_shipment_mediator s i = Some mediator \<or> mediator \<in> set (get_or [] (k_mediator_pool s))"

definition propose_mediation ::
  "settle_env \<Rightarrow> addr \<Rightarrow> sid \<Rightarrow> nat \<Rightarrow> resolution \<Rightarrow> settle \<Rightarrow> settle res" where
  "propose_mediation e mediator i j suggested s =
     bindE (assert_not_paused s) (\<lambda>_.
     bindE (require_auth e mediator) (\<lambda>_.
     bindE (get_shipment_internal s i) (\<lambda>sh.
     bindE (assert_active sh) (\<lambda>_.
     if \<not> is_authorized_mediator s i mediator then Inl (Panic ''unauthorized mediator'')
     else if length (sh_milestones sh) \<le> j then Inl (Panic ''invalid milestone index'')
     else if ms_status (sh_milestones sh ! j) \<noteq> Disputed
     then Inl (Panic ''milestone is not in disputed status'')
     else Inr (emit [VStr ''mediation_proposed'', VStr i]
            [VNat j, VAddr mediator, VStr (if suggested = ResolveBuyer then ''buyer'' else ''supplier'')]
            (s\<lparr>k_mediation_proposal := (k_mediation_proposal s)((i, j) \<mapsto>
               \<lparr>mp_mediator = mediator, mp_suggested_outcome = suggested,
                mp_buyer_accepted = False, mp_supplier_accepted = False\<rparr>)\<rparr>))))))"

definition mediation_pay ::
  "settle_env \<Rightarrow> sid \<Rightarrow> nat \<Rightarrow> resolution \<Rightarrow> int \<Rightarrow> shipment \<Rightarrow> settle \<Rightarrow> (settle \<times> shipment) res" where
  "mediation_pay e i j suggested payment sh s =
     bindE (vec_get_unwrap (sh_buyers sh) 0) (\<lambda>primary.
     if suggested = ResolveSupplier
     then bindE (deduct_fee_for_shipment e payment (sh_token sh) i s) (\<lambda>(s1, net, fee_amount).
          bindE (check_circuit_breaker (sequence e) payment s1) (\<lambda>s2.
          bindE (check_address_outflow (sh_supplier sh) (sequence e) payment s2) (\<lambda>s3.
          bindE (pay_milestone_to_payees e i j net (sh_supplier sh) (sh_token sh) s3) (\<lambda>s4.
          bindE (ck_i128 (sh_released_amount sh + payment)) (\<lambda>released.
          bindE (record_release_counters (sh_supplier sh) primary (sh_token sh) payment net s4) (\<lambda>s5.
          bindE (pay_bond e sh primary (sh_dispute_bond_amount sh) s5) (\<lambda>s6.
          Inr (s6, sh\<lparr>sh_released_amount := released\<rparr>))))))))
     else bindE (whenE (0 < payment) (token_pay e (sh_token sh) (this e) primary payment) s) (\<lambda>s1.
          bindE (ck_i128 (sh_released_amount sh + payment)) (\<lambda>released.
          bindE (pay_bond e sh (sh_supplier sh) (sh_dispute_bond_amount sh) s1) (\<lambda>s2.
          Inr (s2, sh\<lparr>sh_released_amount := released\<rparr>)))))"

definition apply_mediation_outcome ::
  "settle_env \<Rightarrow> sid \<Rightarrow> nat \<Rightarrow> resolution \<Rightarrow> addr \<Rightarrow> shipment \<Rightarrow> settle \<Rightarrow> settle res" where
  "apply_mediation_outcome e i j suggested mediator sh s =
     (let pct = k_dispute_contested_percent s (i, j);
          verdict = (if suggested = ResolveSupplier then ''supplier'' else ''buyer'')
      in bindE (vec_get_unwrap (sh_milestones sh) j) (\<lambda>m.
         bindE (milestone_gross_payment s sh j) (\<lambda>full.
         bindE (contested_payment full pct) (\<lambda>payment.
         bindE (mediation_pay e i j suggested payment sh s) (\<lambda>(s1, sh1).
         bindE (book_ruling i j sh1 (get_or 0 (ms_dispute_opened_ledger m))
                  (Some (if suggested = ResolveSupplier then OutcomeSupplier else OutcomeBuyer)) None s1) (\<lambda>s2.
         bindE (decrease_total_escrowed (sh_token sh1) payment s2) (\<lambda>s3.
         let s4 = drop_contested i j (pct \<noteq> None) s3;
             s5 = s4\<lparr>k_dispute_opened_at := (k_dispute_opened_at s4)((i, j) := None)\<rparr>;
             sh2 = append_audit_entry e mediator ''mediation_accepted'' ''accept_mediation''
                     (set_milestone j (m\<lparr>ms_status := Resolved\<rparr>) sh1)
         in bindE (ruling_complete e mediator ''accept_mediation''
                     (get_or contract_stats_zero (k_contract_stats s5)) i sh2 s5) (\<lambda>(s6, sh3).
            let sh4 = sh3\<lparr>sh_open_dispute_count := sh_open_dispute_count sh3 - 1,
                          sh_last_dispute_resolved_ledger := Some (sequence e)\<rparr>
            in Inr (emit_dispute_resolved i j verdict mediator None
                 (emit [VStr ''mediation_accepted'', VStr i] [VNat j, VStr verdict, VAddr mediator]
                    (s6\<lparr>k_active_disputes := Some (drop_dispute i j (get_or [] (k_active_disputes s6))),
                        k_shipment := (k_shipment s6)(i \<mapsto> sh4)\<rparr>)))))))))))"

definition accept_mediation :: "settle_env \<Rightarrow> addr \<Rightarrow> sid \<Rightarrow> nat \<Rightarrow> settle \<Rightarrow> settle res" where
  "accept_mediation e caller i j s =
     bindE (assert_not_paused s) (\<lambda>_.
     bindE (require_auth e caller) (\<lambda>_.
     bindE (get_shipment_internal s i) (\<lambda>sh.
     bindE (assert_active sh) (\<lambda>_.
     bindE (assert_buyer_or_supplier sh caller) (\<lambda>_.
     bindE (expect (k_mediation_proposal s (i, j)) ''no pending mediation proposal'') (\<lambda>p0.
     bindE (vec_get_unwrap (sh_milestones sh) j) (\<lambda>m.
     if ms_status m \<noteq> Disputed then Inl (Panic ''milestone is not in disputed status'')
     else
     let p = (if is_buyer sh caller then p0\<lparr>mp_buyer_accepted := True\<rparr> else p0\<lparr>mp_supplier_accepted := True\<rparr>)
     in if mp_buyer_accepted p \<and> mp_supplier_accepted p
        then apply_mediation_outcome e i j (mp_suggested_outcome p) (mp_mediator p) sh
               (s\<lparr>k_mediation_proposal := (k_mediation_proposal s)((i, j) := None)\<rparr>)
        else Inr (s\<lparr>k_mediation_proposal := (k_mediation_proposal s)((i, j) \<mapsto> p)\<rparr>))))))))"

definition decline_mediation :: "settle_env \<Rightarrow> addr \<Rightarrow> sid \<Rightarrow> nat \<Rightarrow> settle \<Rightarrow> settle res" where
  "decline_mediation e caller i j s =
     bindE (assert_not_paused s) (\<lambda>_.
     bindE (require_auth e caller) (\<lambda>_.
     bindE (get_shipment_internal s i) (\<lambda>sh.
     bindE (assert_buyer_or_supplier sh caller) (\<lambda>_.
     Inr (emit [VStr ''mediation_declined'', VStr i] [VNat j, VAddr caller]
            (s\<lparr>k_mediation_proposal := (k_mediation_proposal s)((i, j) := None)\<rparr>))))))"

section \<open>Notifications\<close>

definition check_escalation :: "settle_env \<Rightarrow> sid \<Rightarrow> nat \<Rightarrow> settle \<Rightarrow> settle res" where
  "check_escalation e i j s =
     bindE (get_shipment_internal s i) (\<lambda>sh.
     let threshold = get_or 0 (k_escalation_threshold s)
     in if threshold = 0 then Inr s
        else if length (sh_milestones sh) \<le> j then Inl (Panic ''invalid milestone index'')
        else
        let m = sh_milestones sh ! j
        in if ms_status m \<noteq> Disputed then Inr s
           else (case ms_dispute_opened_ledger m of
               None \<Rightarrow> Inr s
             | Some opened \<Rightarrow>
                 bindE (ck_u32 (opened + threshold)) (\<lambda>t.
                 Inr (if t \<le> sequence e
                      then emit [VStr ''dispute_escalated'', VStr i] [VNat j, VNat opened, VNat (sequence e)] s
                      else s))))"

definition check_deadline_warning :: "settle_env \<Rightarrow> sid \<Rightarrow> nat \<Rightarrow> settle \<Rightarrow> settle res" where
  "check_deadline_warning e i j s =
     bindE (get_shipment_internal s i) (\<lambda>sh.
     let lead = get_or 0 (k_warning_lead_ledgers s)
     in if lead = 0 then Inr s
        else if length (sh_milestones sh) \<le> j then Inl (Panic ''invalid milestone index'')
        else
        let m = sh_milestones sh ! j; deadline = ms_deadline_ledger m
        in if ms_status m \<noteq> Pending \<and> ms_status m \<noteq> ProofSubmitted then Inr s
           else if deadline = 0 then Inr s
           else if get_or False (k_deadline_warning_fired s (i, j)) then Inr s
           else if sequence e < deadline - lead \<or> deadline \<le> sequence e then Inr s
           else Inr (emit [VStr ''deadline_approaching'', VStr i]
                  [VNat j, VNat (deadline - sequence e), VNat deadline]
                  (s\<lparr>k_deadline_warning_fired := (k_deadline_warning_fired s)((i, j) \<mapsto> True)\<rparr>)))"

end
