(* ===== verification/SettleDesk.thy ===== *)
theory SettleDesk
  imports SettlePanels SettleFlow SettleClosing
begin

text \<open>
  What the helpers of a ruling leave alone: the stored shipments and the keys that say where a
  dispute stands. \<open>aside\<close> is the frame; the lemmas of the collection \<open>asides\<close> give it
  for every helper that pays, counts or logs.
\<close>

named_theorems asides \<open>helpers that leave shipments and disputes alone\<close>

definition aside :: "settle \<Rightarrow> settle \<Rightarrow> bool" where
  "aside s t \<longleftrightarrow> k_shipment t = k_shipment s \<and> k_dispute_resolved_at t = k_dispute_resolved_at s \<and>
     k_dispute_votes t = k_dispute_votes s \<and> k_arbiter_panel t = k_arbiter_panel s \<and>
     k_dispute_contested_percent t = k_dispute_contested_percent s \<and> k_pending_split t = k_pending_split s \<and>
     k_grade_dispute t = k_grade_dispute s \<and> k_milestone_splits t = k_milestone_splits s \<and>
     k_partial_qty_released t = k_partial_qty_released s \<and> k_delivered_quantity t = k_delivered_quantity s \<and>
     k_milestone_quantities t = k_milestone_quantities s"

lemma asideD:
  assumes "aside s t"
  shows "k_shipment t = k_shipment s" "k_dispute_resolved_at t = k_dispute_resolved_at s"
    "k_dispute_votes t = k_dispute_votes s" "k_arbiter_panel t = k_arbiter_panel s"
    "k_dispute_contested_percent t = k_dispute_contested_percent s" "k_pending_split t = k_pending_split s"
    "k_grade_dispute t = k_grade_dispute s" "k_milestone_splits t = k_milestone_splits s"
    "k_partial_qty_released t = k_partial_qty_released s" "k_delivered_quantity t = k_delivered_quantity s"
    "k_milestone_quantities t = k_milestone_quantities s"
  using assms by (simp_all add: aside_def)

lemma aside_refl [simp]: "aside s s"
  by (simp add: aside_def)

lemma aside_trans: "aside s t \<Longrightarrow> aside t u \<Longrightarrow> aside s u"
  by (simp add: aside_def)

lemma aside_emit [simp]: "aside s (emit a b t) \<longleftrightarrow> aside s t"
  by (simp add: aside_def emit_def)

lemma emit_desk [simp]:
  "k_dispute_resolved_at (emit a b s) = k_dispute_resolved_at s" "k_dispute_votes (emit a b s) = k_dispute_votes s"
  "k_arbiter_panel (emit a b s) = k_arbiter_panel s" "k_pending_split (emit a b s) = k_pending_split s"
  "k_dispute_contested_percent (emit a b s) = k_dispute_contested_percent s"
  "k_delivered_quantity (emit a b s) = k_delivered_quantity s" "k_milestone_quantities (emit a b s) = k_milestone_quantities s"
  "k_grade_dispute (emit a b s) = k_grade_dispute s" "k_arbiter_stats (emit a b s) = k_arbiter_stats s"
  "k_dispute_appealed (emit a b s) = k_dispute_appealed s" "k_arbiter_stake (emit a b s) = k_arbiter_stake s"
  by (simp_all add: emit_def)

lemmas aside_solve = aside_def Let_def bindE_Inr ck_i128_Inr ck_u32_Inr ck_u64_Inr whenE_Inr token_pay_Inr mul_div_Inr

section \<open>Payments\<close>

lemma aside_pay [asides]: "token_pay e tok a b n s = Inr t \<Longrightarrow> aside s t"
  by (auto simp: aside_solve)

lemma aside_pay_when [asides]: "whenE c (token_pay e tok a b n) s = Inr t \<Longrightarrow> aside s t"
  by (auto simp: aside_solve split: if_splits)

lemma aside_bond [asides]: "pay_bond e sh a n s = Inr t \<Longrightarrow> aside s t"
  by (auto simp: pay_bond_def intro: asides)

lemma aside_revenue [asides]: "track_treasury_revenue tok n s = Inr t \<Longrightarrow> aside s t"
  by (auto simp: track_treasury_revenue_def aside_solve split: if_splits)

lemma aside_fees_paid [asides]: "track_shipment_fees_paid i n s = Inr t \<Longrightarrow> aside s t"
  by (auto simp: track_shipment_fees_paid_def aside_solve split: if_splits)

lemma aside_breaker [asides]: "check_circuit_breaker now p s = Inr t \<Longrightarrow> aside s t"
  by (auto simp: check_circuit_breaker_def aside_solve split: if_splits)

lemma aside_outflow [asides]: "check_address_outflow a now p s = Inr t \<Longrightarrow> aside s t"
  by (auto simp: check_address_outflow_def aside_solve split: if_splits)

lemma aside_counters [asides]: "record_release_counters a b tok x y s = Inr t \<Longrightarrow> aside s t"
  by (auto simp: record_release_counters_def aside_solve split: if_splits)

lemma aside_decrease [asides]: "decrease_total_escrowed tok n s = Inr t \<Longrightarrow> aside s t"
  by (auto simp: decrease_total_escrowed_def aside_solve)

lemma aside_shares [asides]: "pay_shares e tok fee k rs d s = Inr (t, d') \<Longrightarrow> aside s t"
proof (induction rs arbitrary: k d s)
  case (Cons r rs)
  then show ?case by (auto simp: bindE_Inr split: if_splits intro: aside_trans aside_pay)
qed simp

lemma aside_distribute [asides]: "distribute_fee e tok a fee s = Inr t \<Longrightarrow> aside s t"
  by (auto simp: distribute_fee_def bindE_Inr split: option.splits if_splits
      intro: aside_trans aside_pay aside_shares aside_revenue)

lemma aside_deduct [asides]: "deduct_fee e gross tok s = Inr (t, net, fee) \<Longrightarrow> aside s t"
  by (drule deduct_cases) (auto intro: aside_distribute)

lemma aside_deduct_ship [asides]: "deduct_fee_for_shipment e gross tok i s = Inr (t, net, fee) \<Longrightarrow> aside s t"
  by (auto simp: deduct_fee_for_shipment_def Let_def bindE_Inr split: if_splits option.splits
      intro: aside_trans aside_pay aside_revenue aside_fees_paid aside_distribute)

lemma aside_advance [asides]: "consume_advance_for_milestone sh i j s = Inr (t, sh', a) \<Longrightarrow> aside s t"
  by (auto simp: consume_advance_for_milestone_def aside_solve split: if_splits option.splits)

lemma aside_holdbacks:
  "whenE c (add_retainage i n) s = Inr t \<Longrightarrow> aside s t" "whenE c (add_warranty i n) s = Inr t \<Longrightarrow> aside s t"
  "increase_total_escrowed tok n s = Inr t \<Longrightarrow> aside s t"
  by (auto simp: add_retainage_def add_warranty_def increase_total_escrowed_def aside_solve split: if_splits)

lemma aside_withhold [asides]:
  assumes "withhold_settlement_holdbacks i j net tok s = Inr (t, r)"
  shows "aside s t"
proof -
  consider "t = s" | a b s1 s2 c s3 where "whenE (0 < a) (add_retainage i a) s = Inr s1"
    "whenE (0 < b) (add_warranty i b) s1 = Inr s2" "increase_total_escrowed tok c s2 = Inr s3"
    "t = emit [VStr ''holdback_withheld'', VStr i] [VNat j, VInt a, VInt b] s3"
  | a b s1 where "whenE (0 < a) (add_retainage i a) s = Inr s1" "whenE (0 < b) (add_warranty i b) s1 = Inr t"
    using assms by (auto simp: withhold_settlement_holdbacks_def Let_def bindE_Inr ck_i128_Inr split: if_splits)
  then show ?thesis by cases (auto dest!: aside_holdbacks simp: aside_def)
qed

lemma aside_payees [asides]: "pay_payees e tok net l k ps d s = Inr t \<Longrightarrow> aside s t"
proof (induction ps arbitrary: k d s)
  case (Cons p ps)
  then show ?case by (auto simp: bindE_Inr split: if_splits intro: aside_trans aside_pay)
qed simp

lemma aside_supplier [asides]: "pay_supplier e tok a net s = Inr t \<Longrightarrow> aside s t"
  by (auto simp: pay_supplier_def aside_solve split: if_splits)

lemma aside_payout [asides]:
  assumes "pay_milestone_to_payees e i j net a tok s = Inr t"
  shows "aside s t"
proof (cases "net \<le> 0")
  case False
  then obtain s1 rest where w: "withhold_settlement_holdbacks i j net tok s = Inr (s1, rest)"
    using assms by (auto simp: pay_milestone_to_payees_def Let_def bindE_Inr)
  note call = assms [unfolded pay_milestone_to_payees_def Let_def, simplified w bindE_simps prod.case]
  have "aside s1 t"
    using call False aside_pay aside_payees aside_supplier
    by (fastforce simp: bindE_Inr split: if_splits option.splits)
  then show ?thesis by (rule aside_trans [OF aside_withhold [OF w]])
qed (use assms in \<open>simp add: pay_milestone_to_payees_def\<close>)

section \<open>Bookkeeping\<close>

lemma aside_tier: "aside s (fst (evaluate_supplier_tier_change a s))"
  by (simp add: evaluate_supplier_tier_change_def Let_def aside_def)

lemma aside_reputation [asides]: "aside s (increment_reputation_internal e a x y z s)"
proof -
  have "aside u (check_auto_blacklist_internal e a sc u)" for sc u
    by (simp add: check_auto_blacklist_internal_def Let_def aside_def)
  moreover have "aside s (set_reputation_internal a sc s)" for sc
    using aside_tier [of "s\<lparr>k_supplier_rep := (k_supplier_rep s)(a \<mapsto> sc)\<rparr>" a]
    by (simp add: set_reputation_internal_def aside_def)
  ultimately show ?thesis
    by (simp add: increment_reputation_internal_def Let_def) (blast intro: aside_trans)
qed

lemma aside_status_index: "aside s (move_shipment_status_index a b i s)"
  by (simp add: move_shipment_status_index_def add_to_status_index_def remove_from_status_index_def aside_def)

lemma aside_book [asides]:
  assumes "book_completion e i sh stats s = Inr t"
  shows "aside s t"
proof -
  obtain n where t: "t = move_shipment_status_index Active Completed i
      (increment_reputation_internal e (sh_supplier sh) 1 0 0
        (s\<lparr>k_contract_stats := Some (stats\<lparr>cs_completed_shipments := n\<rparr>)\<rparr>))"
    using assms by (auto simp: book_completion_def bindE_Inr)
  have "aside s (s\<lparr>k_contract_stats := Some (stats\<lparr>cs_completed_shipments := n\<rparr>)\<rparr>)"
    by (simp add: aside_def)
  then show ?thesis unfolding t by (blast intro: aside_trans aside_reputation aside_status_index)
qed

lemma aside_history [simp]: "aside s (append_dispute_history b a r t) \<longleftrightarrow> aside s t"
  by (simp add: append_dispute_history_def append_dispute_history_for_def aside_def)

lemma aside_reliability [simp]: "aside s (update_buyer_reliability_on_dispute b w t) \<longleftrightarrow> aside s t"
  by (simp add: update_buyer_reliability_on_dispute_def Let_def aside_def)

lemma aside_count [asides]: "count_ruling a approve n s = Inr t \<Longrightarrow> aside s t"
  by (auto simp: count_ruling_def aside_solve split: if_splits)

lemma cover_case:
  "(case loser_pays_cover i j fee funds s of (t, c) \<Rightarrow> f t c) =
     f (fst (loser_pays_cover i j fee funds s)) (snd (loser_pays_cover i j fee funds s))"
  by (simp add: case_prod_beta)

lemma aside_cover: "aside s (fst (loser_pays_cover i j fee funds s))"
  by (simp add: loser_pays_cover_def Let_def)

lemma aside_book_ruling [asides]:
  assumes "book_ruling i j sh opened verdict release s = Inr t"
  shows "aside s t"
proof -
  obtain u where u: "(case release of
       Some (spend, net) \<Rightarrow> bindE (vec_get_unwrap (sh_buyers sh) 0) (\<lambda>primary.
         record_release_counters (sh_supplier sh) primary (sh_token sh) spend net s)
     | None \<Rightarrow> Inr s) = Inr u"
    and t: "aside u t"
    using assms by (cases verdict) (auto simp: book_ruling_def bindE_Inr)
  have "aside s u" using u by (cases release) (auto simp: bindE_Inr intro: aside_counters)
  then show ?thesis using t by (rule aside_trans)
qed

lemma aside_retainage [asides]: "release_retainage e i sh s = Inr (t, sh') \<Longrightarrow> aside s t"
  by (auto simp: release_retainage_def decrease_total_escrowed_def aside_solve split: if_splits)

lemma aside_warranty [asides]: "start_warranty e i sh s = Inr (t, sh') \<Longrightarrow> aside s t"
  by (auto simp: start_warranty_def aside_solve split: if_splits)

lemma aside_rebate [asides]: "maybe_pay_clean_completion_rebate e i sh s = Inr (t, sh') \<Longrightarrow> aside s t"
  by (auto simp: maybe_pay_clean_completion_rebate_def aside_solve split: if_splits option.splits)

lemma aside_completion [asides]:
  assumes "settle_on_completion e i sh s = Inr (t, sh')"
  shows "aside s t"
proof -
  let ?s0 = "s\<lparr>k_completed_at_ledger := (k_completed_at_ledger s)(i \<mapsto> sequence e)\<rparr>"
  obtain s1 sh1 s2 sh2 s3 where
    "release_retainage e i sh ?s0 = Inr (s1, sh1)" "start_warranty e i sh1 s1 = Inr (s2, sh2)"
    "maybe_pay_clean_completion_rebate e i sh2 s2 = Inr (s3, sh')" "aside s3 t"
    using assms by (auto simp: settle_on_completion_def bindE_Inr split: prod.splits)
  then have "aside ?s0 s1" "aside s1 s2" "aside s2 s3" "aside s3 t"
    by (simp_all add: aside_retainage aside_warranty aside_rebate)
  then show ?thesis by (simp add: aside_def)
qed

section \<open>Awards\<close>

lemma aside_pay_arbiter [asides]: "pay_arbiter e sh fee s = Inr (t, x) \<Longrightarrow> aside s t"
  by (auto simp: pay_arbiter_def bindE_Inr intro: asides)

lemma aside_panel_loop [asides]:
  "panel_fee_loop e tok fee per n k vs d s = Inr (t, x) \<Longrightarrow> aside s t"
proof (induction vs arbitrary: k d s)
  case (Cons v vs)
  then show ?case by (auto simp: bindE_Inr split: if_splits intro: aside_trans aside_pay)
qed simp

lemma aside_panel_fee [asides]: "distribute_panel_fee e tok i j votes fee s = Inr (t, x) \<Longrightarrow> aside s t"
  by (auto simp: distribute_panel_fee_def Let_def bindE_Inr split: if_splits intro: asides)

text \<open>An award changes the amounts of a shipment, not its milestones or its standing.\<close>

definition same_standing :: "shipment \<Rightarrow> shipment \<Rightarrow> bool" where
  "same_standing a b \<longleftrightarrow> sh_milestones b = sh_milestones a \<and> sh_status b = sh_status a \<and>
     sh_open_dispute_count b = sh_open_dispute_count a \<and> sh_arbiter b = sh_arbiter a \<and>
     sh_supplier b = sh_supplier a \<and> sh_buyers b = sh_buyers a \<and> sh_id b = sh_id a \<and>
     sh_token b = sh_token a \<and> sh_total_amount b = sh_total_amount a \<and>
     sh_dispute_bond_amount b = sh_dispute_bond_amount a"

lemma same_standingD:
  assumes "same_standing a b"
  shows "sh_milestones b = sh_milestones a" "sh_status b = sh_status a"
    "sh_open_dispute_count b = sh_open_dispute_count a" "sh_arbiter b = sh_arbiter a"
    "sh_supplier b = sh_supplier a" "sh_buyers b = sh_buyers a" "sh_id b = sh_id a"
    "sh_token b = sh_token a" "sh_total_amount b = sh_total_amount a"
    "sh_dispute_bond_amount b = sh_dispute_bond_amount a"
  using assms by (simp_all add: same_standing_def)

lemma same_standing_refl [simp]: "same_standing a a"
  by (simp add: same_standing_def)

lemma same_standing_trans: "same_standing a b \<Longrightarrow> same_standing b c \<Longrightarrow> same_standing a c"
  by (simp add: same_standing_def)

lemma same_standing_audit [simp]: "same_standing a (append_audit_entry e c x y b) \<longleftrightarrow> same_standing a b"
  by (simp add: same_standing_def append_audit_entry_def)

lemma standing_advance:
  "consume_advance_for_milestone sh i j s = Inr (t, sh', a) \<Longrightarrow>
     same_standing sh sh' \<and> sh_released_amount sh' = sh_released_amount sh"
  by (auto simp: consume_advance_for_milestone_def bindE_Inr same_standing_def split: if_splits option.splits)

lemma award_supplier_Inr:
  assumes "award_supplier e pay_fee i j payment bond sh s = Inr (t, sh', actual, refund, fa)"
    and pay_fee: "\<And>x u v y. pay_fee x u = Inr (v, y) \<Longrightarrow> aside u v"
  shows "aside s t" and "same_standing sh sh'" and "sh_released_amount sh' = sh_released_amount sh + payment"
proof -
  obtain s1 sh1 a s2 net s3 s4 x s5 fee s6 where
    c: "consume_advance_for_milestone sh i j s = Inr (s1, sh1, a)"
       "deduct_fee e payment (sh_token sh1) s1 = Inr (s2, net, fa)"
       "check_circuit_breaker (sequence e) payment s2 = Inr s3"
       "check_address_outflow (sh_supplier sh1) (sequence e) payment s3 = Inr s4"
       "pay_fee x s4 = Inr (s5, fee)"
       "pay_milestone_to_payees e i j actual (sh_supplier sh1) (sh_token sh1)
          (fst (loser_pays_cover i j fee bond s5)) = Inr t"
    and sh': "sh' = sh1\<lparr>sh_released_amount := sh_released_amount sh1 + payment\<rparr>"
    using assms(1) by (auto simp: award_supplier_def bindE_Inr ck_i128_Inr Let_def cover_case split: prod.splits)
  show "aside s t"
    using aside_advance [OF c(1)] aside_deduct [OF c(2)] aside_breaker [OF c(3)] aside_outflow [OF c(4)]
      pay_fee [OF c(5)] aside_payout [OF c(6)] aside_cover [of s5 i j fee bond] by (simp add: aside_def)
  show "same_standing sh sh'" "sh_released_amount sh' = sh_released_amount sh + payment"
    using standing_advance [OF c(1)] by (auto simp: sh' same_standing_def)
qed

lemma award_buyer_Inr:
  assumes "award_buyer e pay_fee i j payment sh s = Inr (t, sh')"
    and pay_fee: "\<And>x u v y. pay_fee x u = Inr (v, y) \<Longrightarrow> aside u v"
  shows "aside s t" and "sh' = sh\<lparr>sh_released_amount := sh_released_amount sh + payment\<rparr>"
proof -
  obtain x s1 fee n b s3 m where
    c: "pay_fee x s = Inr (s1, fee)"
       "whenE (0 < n) (token_pay e (sh_token sh) (this e) b n)
          (fst (loser_pays_cover i j fee (max (sh_dispute_bond_amount sh) 0) s1)) = Inr s3"
       "pay_bond e sh (sh_supplier sh) m s3 = Inr t"
    and sh': "sh' = sh\<lparr>sh_released_amount := sh_released_amount sh + payment\<rparr>"
    using assms(1) by (auto simp: award_buyer_def bindE_Inr ck_i128_Inr Let_def cover_case split: prod.splits)
  show "aside s t"
    using pay_fee [OF c(1)] aside_pay_when [OF c(2)] aside_bond [OF c(3)]
      aside_cover [of s1 i j fee "max (sh_dispute_bond_amount sh) 0"] by (simp add: aside_def)
  show "sh' = sh\<lparr>sh_released_amount := sh_released_amount sh + payment\<rparr>" by (fact sh')
qed

end
