(* ===== verification/SettleCourt.thy ===== *)
theory SettleCourt
  imports SettleDesk
begin

text \<open>
  What every dispute operation does to the stored shipment and to the record of resolutions, on all
  its branches, and the invariant that follows: the counter of open disputes of a shipment is the
  number of its disputed milestones.
\<close>

section \<open>Raising\<close>

lemma pool_arbiter_Inr:
  assumes "assign_pool_arbiter i sh s = Inr (t, sh')"
  shows "aside s t" and "sh' = sh\<lparr>sh_arbiter := sh_arbiter sh'\<rparr>"
proof -
  have re: "aside u (reindex_arbiter i a b u)" for u a b
    by (simp add: reindex_arbiter_def add_to_party_index_def remove_from_party_index_def Let_def aside_def)
  have rec: "aside u (record_supplier_arbiters a as u)" for u a as
    by (simp add: record_supplier_arbiters_def Let_def aside_def)
  show "sh' = sh\<lparr>sh_arbiter := sh_arbiter sh'\<rparr>"
    using assms by (auto simp: assign_pool_arbiter_def Let_def bindE_Inr split: if_splits)
  show "aside s t"
  proof (cases "get_or False (k_use_pool_arb s i)")
    case True
    then obtain a k where "t = (record_supplier_arbiters (sh_supplier sh) [a]
        ((reindex_arbiter i (sh_arbiter sh) a s)\<lparr>k_arb_pool_idx := k\<rparr>))
          \<lparr>k_use_pool_arb := (k_use_pool_arb (record_supplier_arbiters (sh_supplier sh) [a]
             ((reindex_arbiter i (sh_arbiter sh) a s)\<lparr>k_arb_pool_idx := k\<rparr>)))(i := None)\<rparr>"
      using assms by (auto simp: assign_pool_arbiter_def Let_def bindE_Inr split: if_splits)
    then show ?thesis
      using re [of s "sh_arbiter sh" a]
        rec [of "(reindex_arbiter i (sh_arbiter sh) a s)\<lparr>k_arb_pool_idx := k\<rparr>" "sh_supplier sh" "[a]"]
      by (simp add: aside_def)
  qed (use assms in \<open>simp add: assign_pool_arbiter_def\<close>)
qed

text \<open>Opening a dispute touches the votes and the panel only when it escalates.\<close>

lemma record_arbiters_frame [simp]:
  "k_shipment (record_supplier_arbiters a as s) = k_shipment s"
  "k_dispute_resolved_at (record_supplier_arbiters a as s) = k_dispute_resolved_at s"
  "k_dispute_contested_percent (record_supplier_arbiters a as s) = k_dispute_contested_percent s"
  "k_pending_split (record_supplier_arbiters a as s) = k_pending_split s"
  "k_grade_dispute (record_supplier_arbiters a as s) = k_grade_dispute s"
  "k_dispute_votes (record_supplier_arbiters a as s) = k_dispute_votes s"
  "calls (record_supplier_arbiters a as s) = calls s"
  by (simp_all add: record_supplier_arbiters_def Let_def)

lemma escalate_cases:
  assumes "maybe_escalate_to_panel e i j n sh s = (t, sh')"
  obtains f where "t = s\<lparr>k_panel_escalated := f\<rparr>" "sh' = sh"
  | f a b x y where "t = emit a b (s\<lparr>k_panel_escalated := f\<rparr>)" "sh' = append_audit_entry e (this e) x y sh"
  | f g panel a b c d x y where "t = emit a b (emit c d (record_supplier_arbiters (sh_supplier sh) panel
      (s\<lparr>k_arbiter_panel := g, k_dispute_votes := (k_dispute_votes s)((i, j) := None), k_panel_escalated := f\<rparr>)))"
    "sh' = append_audit_entry e (this e) x y sh"
proof (cases "k_panel_escalation s (sh_token sh)")
  case None
  then have "t = s\<lparr>k_panel_escalated := (k_panel_escalated s)((i, j) := None)\<rparr>" "sh' = sh"
    using assms by (simp_all add: maybe_escalate_to_panel_def)
  then show thesis by (rule that(1))
next
  case (Some p)
  obtain th m where p: "p = (th, m)" by (cases p)
  let ?f = "k_panel_escalated s" and ?s1 = "s\<lparr>k_panel_escalated := (k_panel_escalated s)((i, j) := None)\<rparr>"
  let ?panel = "draw_panel_from_pool e ?s1 sh m"
  note call = assms [unfolded maybe_escalate_to_panel_def Let_def]
  consider "n \<le> th" | "\<not> n \<le> th" "length ?panel < m" | "\<not> n \<le> th" "\<not> length ?panel < m" by blast
  then show thesis
  proof cases
    case 1
    then have "t = ?s1" "sh' = sh" using call Some p by simp_all
    then show thesis by (rule that(1))
  next
    case 2
    then have "t = emit [VStr ''panel_escalation_fallback'', VStr i] [VNat j, VInt n, VNat (length ?panel), VNat m] ?s1"
      "sh' = append_audit_entry e (this e) ''panel_escalation_fallback'' ''raise_dispute'' sh"
      using call Some p by simp_all
    then show thesis by (rule that(2))
  next
    case 3
    then have "t = emit [VStr ''dispute_panel_assigned'', VStr i] [VNat j, VList (map VAddr ?panel)]
        (emit [VStr ''dispute_panel_escalated'', VStr i] [VNat j, VInt n, VInt th, VList (map VAddr ?panel)]
          (record_supplier_arbiters (sh_supplier sh) ?panel
            (s\<lparr>k_arbiter_panel := (k_arbiter_panel s)(i \<mapsto> ?panel),
               k_dispute_votes := (k_dispute_votes s)((i, j) := None), k_panel_escalated := ?f((i, j) \<mapsto> True)\<rparr>)))"
      "sh' = append_audit_entry e (this e) ''dispute_panel_escalated'' ''raise_dispute'' sh"
      using call Some p by simp_all
    then show thesis by (rule that(3))
  qed
qed

lemma escalate_frame:
  assumes "maybe_escalate_to_panel e i j n sh s = (t, sh')"
  shows "k_shipment t = k_shipment s" "k_dispute_resolved_at t = k_dispute_resolved_at s"
    "k_dispute_contested_percent t = k_dispute_contested_percent s" "k_pending_split t = k_pending_split s"
    "k_grade_dispute t = k_grade_dispute s" "same_standing sh sh'" "sh_released_amount sh' = sh_released_amount sh"
    "k_dispute_votes t = k_dispute_votes s \<or> k_dispute_votes t = (k_dispute_votes s)((i, j) := None)"
    "calls t = calls s"
  using assms by (rule escalate_cases, simp_all add: append_audit_entry_def same_standing_def)+

lemma escalate_case:
  "(case maybe_escalate_to_panel e i j n sh s of (t, sh') \<Rightarrow> f t sh') =
     f (fst (maybe_escalate_to_panel e i j n sh s)) (snd (maybe_escalate_to_panel e i j n sh s))"
  by (simp add: case_prod_beta)

lemma file_dispute_Inr:
  assumes "file_dispute e i j b r sh s = Inr t"
  shows "k_shipment t = (k_shipment s)(i \<mapsto> sh)" "k_dispute_resolved_at t = k_dispute_resolved_at s"
    "k_dispute_contested_percent t = k_dispute_contested_percent s" "k_dispute_votes t = k_dispute_votes s"
    "k_grade_dispute t = k_grade_dispute s" "k_pending_split t = k_pending_split s"
proof -
  let ?s1 = "s\<lparr>k_shipment := (k_shipment s)(i \<mapsto> sh)\<rparr>"
  obtain s2 where "aside ?s1 s2" "aside s2 t"
    using assms aside_reputation [of ?s1 e "sh_supplier sh" 0 1 0]
    by (auto simp: file_dispute_def Let_def bindE_Inr record_dispute_raiser_def aside_def)
  then show "k_shipment t = (k_shipment s)(i \<mapsto> sh)" "k_dispute_resolved_at t = k_dispute_resolved_at s"
    "k_dispute_contested_percent t = k_dispute_contested_percent s" "k_dispute_votes t = k_dispute_votes s"
    "k_grade_dispute t = k_grade_dispute s" "k_pending_split t = k_pending_split s"
    by (simp_all add: aside_def)
qed

text \<open>
  The outcome both ways of raising a dispute share: milestone \<open>j\<close> becomes disputed, one more
  dispute is open, the mark of an earlier resolution is gone.
\<close>

definition raised :: "settle_env \<Rightarrow> sid \<Rightarrow> nat \<Rightarrow> shipment \<Rightarrow> int \<Rightarrow> settle \<Rightarrow> settle \<Rightarrow> bool" where
  "raised e i j sh given s t \<longleftrightarrow> (\<exists>sh'.
     k_shipment t = (k_shipment s)(i \<mapsto> sh') \<and>
     sh_milestones sh' = (sh_milestones sh)[j := disputed_milestone e (sh_milestones sh ! j)] \<and>
     sh_status sh' = sh_status sh \<and> sh_open_dispute_count sh' = sh_open_dispute_count sh + 1 \<and>
     sh_released_amount sh' = sh_released_amount sh + given \<and>
     k_dispute_resolved_at t = (k_dispute_resolved_at s)((i, j) := None) \<and>
     (k_dispute_votes t = k_dispute_votes s \<or> k_dispute_votes t = (k_dispute_votes s)((i, j) := None)))"

lemma disputable_Inr [res_simps]:
  "disputable m = Inr u \<longleftrightarrow> ms_status m = ProofSubmitted \<or> ms_status m = ConfirmedHeld"
  by (simp add: disputable_def ensure_Inr)

lemma raise_open_Inr:
  assumes "raise_open e b i j by_supplier pending sh m s = Inr t" and m: "m = sh_milestones sh ! j"
  shows "raised e i j sh 0 s t"
proof -
  obtain s1 sh1 where a: "assign_pool_arbiter i sh s = Inr (s1, sh1)"
    using assms(1) by (auto simp: raise_open_def bindE_Inr split: prod.splits)
  define s2 where "s2 = move_grade_to_dispute i j b pending (reopen_marks i j s1)"
  define s3 where "s3 = s2\<lparr>k_dispute_opened_at := (k_dispute_opened_at s2)((i, j) \<mapsto> timestamp e)\<rparr>"
  define sh3 where "sh3 = set_milestone j (disputed_milestone e m)
      (append_audit_entry e b (if by_supplier then ''grade_disputed'' else ''dispute_raised'')
                 ''raise_dispute'' (sh1\<lparr>sh_open_dispute_count := Suc (sh_open_dispute_count sh1)\<rparr>))"
  obtain amount s5 where
    fil: "file_dispute e i j b (\<not> by_supplier) (snd (maybe_escalate_to_panel e i j amount sh3 s3))
       (fst (maybe_escalate_to_panel e i j amount sh3 s3)) = Inr s5"
    and t: "t = emit_dispute_opened i j b (emit [VStr ''dispute_raised'', VStr i] [VNat j] s5)"
    using assms(1) by (auto simp: raise_open_def bindE_Inr ck_u32_Inr a Let_def escalate_case
        s2_def [symmetric] s3_def [symmetric] sh3_def [symmetric])
  obtain s4 sh4 where esc: "maybe_escalate_to_panel e i j amount sh3 s3 = (s4, sh4)" by (cases "maybe_escalate_to_panel e i j amount sh3 s3")
  note fil = fil [unfolded esc fst_conv snd_conv]
  have s3: "k_shipment s3 = k_shipment s" "k_dispute_votes s3 = k_dispute_votes s"
    "k_dispute_resolved_at s3 = (k_dispute_resolved_at s)((i, j) := None)"
    using asideD [OF pool_arbiter_Inr(1) [OF a]]
    by (simp_all add: s3_def s2_def move_grade_to_dispute_def reopen_marks_def mark_shipment_had_dispute_def Let_def
        split: option.split)
  obtain a' where sh1: "sh1 = sh\<lparr>sh_arbiter := a'\<rparr>" using pool_arbiter_Inr(2) [OF a] by blast
  have sh3: "sh_milestones sh3 = (sh_milestones sh)[j := disputed_milestone e m]" "sh_status sh3 = sh_status sh"
    "sh_open_dispute_count sh3 = sh_open_dispute_count sh + 1" "sh_released_amount sh3 = sh_released_amount sh"
    by (simp_all add: sh3_def set_milestone_def append_audit_entry_def sh1)
  show ?thesis
    unfolding raised_def
    by (rule exI [of _ sh4])
       (use s3 sh3 escalate_frame [OF esc] same_standingD(1,2,3) [OF escalate_frame(6) [OF esc]]
          file_dispute_Inr [OF fil] in \<open>simp add: t emit_dispute_opened_def m\<close>)
qed

lemma raise_dispute_cases:
  assumes "raise_dispute e b i j s = Inr t"
  obtains sh where "k_shipment s i = Some sh" "sh_status sh = Active" "j < length (sh_milestones sh)"
    "ms_status (sh_milestones sh ! j) = ProofSubmitted \<or> ms_status (sh_milestones sh ! j) = ConfirmedHeld"
    "b \<in> set (signers e)"
    "if k_pending_grade s (i, j) = None then b \<in> set (sh_buyers sh)
     else b = sh_supplier sh \<and> sequence e < ms_release_after_ledger (sh_milestones sh ! j)"
    "sh_open_dispute_count sh < get_or 1 (k_max_concurrent_disputes s)"
    "raised e i j sh 0 s t"
proof -
  let ?p = "k_pending_grade s (i, j)"
  obtain sh g where a: "k_shipment s i = Some sh" "sh_status sh = Active" "dispute_authority e sh b ?p = Inr g"
    "j < length (sh_milestones sh)"
    "ms_status (sh_milestones sh ! j) = ProofSubmitted \<or> ms_status (sh_milestones sh ! j) = ConfirmedHeld"
    and w: "(if g then ensure (sequence e < ms_release_after_ledger (sh_milestones sh ! j)) ''grade review window has elapsed''
             else dispute_window_ok e s sh (sh_milestones sh ! j)) = Inr ()"
    and c: "open_dispute_cap_ok s sh b = Inr ()"
    and r: "raise_open e b i j g ?p sh (sh_milestones sh ! j) s = Inr t"
    using assms by (auto simp: raise_dispute_def Let_def res_simps)
  show thesis
  proof (rule that [OF a(1,2,4,5) _ _ _ raise_open_Inr [OF r refl]])
    show "b \<in> set (signers e)"
      using a(3) by (auto simp: dispute_authority_def require_buyer_auth_def assert_is_buyer_def res_simps split: if_splits)
    show "if ?p = None then b \<in> set (sh_buyers sh)
      else b = sh_supplier sh \<and> sequence e < ms_release_after_ledger (sh_milestones sh ! j)"
      using a(3) w by (auto simp: dispute_authority_def require_buyer_auth_def assert_is_buyer_def is_buyer_def
          res_simps split: if_splits)
    show "sh_open_dispute_count sh < get_or 1 (k_max_concurrent_disputes s)"
      using c by (auto simp: open_dispute_cap_ok_def split: if_splits)
  qed
qed

lemma release_uncontested_Inr:
  assumes "release_uncontested e i j n sh s = Inr (t, sh')"
  shows "aside s t" "sh' = sh\<lparr>sh_released_amount := sh_released_amount sh + max n 0\<rparr>"
proof -
  have "aside s t \<and> sh' = sh\<lparr>sh_released_amount := sh_released_amount sh + max n 0\<rparr>"
  proof (cases "n \<le> 0")
    case False
    then obtain s1 net fee s2 s3 s4 p s5 s6 where c:
      "deduct_fee e n (sh_token sh) s = Inr (s1, net, fee)"
      "check_circuit_breaker (sequence e) n s1 = Inr s2"
      "check_address_outflow (sh_supplier sh) (sequence e) n s2 = Inr s3"
      "whenE (0 < net) (token_pay e (sh_token sh) (this e) (sh_supplier sh) net) s3 = Inr s4"
      "record_release_counters (sh_supplier sh) p (sh_token sh) n net s4 = Inr s5"
      "decrease_total_escrowed (sh_token sh) n s5 = Inr s6"
      "t = emit [VStr ''partial_uncontested_released'', VStr i] [VNat j, VInt n, VInt fee] s6"
      "sh' = sh\<lparr>sh_released_amount := sh_released_amount sh + n\<rparr>"
      using assms by (auto simp: release_uncontested_def bindE_Inr ck_i128_Inr split: prod.splits)
    then show ?thesis
      using False aside_deduct [OF c(1)] aside_breaker [OF c(2)] aside_outflow [OF c(3)] aside_pay_when [OF c(4)]
        aside_counters [OF c(5)] aside_decrease [OF c(6)] by (simp add: aside_def max_def)
  qed (use assms in \<open>auto simp: release_uncontested_def\<close>)
  then show "aside s t" "sh' = sh\<lparr>sh_released_amount := sh_released_amount sh + max n 0\<rparr>" by simp_all
qed

lemma raise_partial_open_Inr:
  assumes "raise_partial_open e b i j pct sh m s = Inr t" and m: "m = sh_milestones sh ! j"
  obtains full uncontested where "milestone_gross_payment s sh j = Inr full"
    "mul_div full (100 - pct) 100 = Inr uncontested" "raised e i j sh (max uncontested 0) s t"
    "k_dispute_contested_percent t (i, j) = Some pct"
proof -
  obtain full uncontested s1 sh1 where g: "milestone_gross_payment s sh j = Inr full"
    and u: "mul_div full (100 - pct) 100 = Inr uncontested"
    and a: "release_uncontested e i j uncontested sh s = Inr (s1, sh1)"
    using assms(1) by (auto simp: raise_partial_open_def bindE_Inr split: prod.splits)
  define s2 where "s2 = reopen_marks i j
      (s1\<lparr>k_dispute_contested_percent := (k_dispute_contested_percent s1)((i, j) \<mapsto> pct)\<rparr>)"
  define s3 where "s3 = s2\<lparr>k_dispute_opened_at := (k_dispute_opened_at s2)((i, j) \<mapsto> timestamp e)\<rparr>"
  define sh3 where "sh3 = set_milestone j (disputed_milestone e m)
      (append_audit_entry e b ''dispute_raised'' ''raise_dispute''
         (sh1\<lparr>sh_open_dispute_count := Suc (sh_open_dispute_count sh1)\<rparr>))"
  obtain amount s5 where
    fil: "file_dispute e i j b True (snd (maybe_escalate_to_panel e i j amount sh3 s3))
       (fst (maybe_escalate_to_panel e i j amount sh3 s3)) = Inr s5"
    and t: "t = emit_dispute_opened i j b
       (emit [VStr ''partial_dispute_raised'', VStr i] [VNat j, VNat pct, VAddr b] s5)"
    using assms(1) by (auto simp: raise_partial_open_def bindE_Inr ck_u32_Inr g u a Let_def escalate_case
        s2_def [symmetric] s3_def [symmetric] sh3_def [symmetric])
  obtain s4 sh4 where esc: "maybe_escalate_to_panel e i j amount sh3 s3 = (s4, sh4)"
    by (cases "maybe_escalate_to_panel e i j amount sh3 s3")
  note fil = fil [unfolded esc fst_conv snd_conv]
  have s3: "k_shipment s3 = k_shipment s" "k_dispute_votes s3 = k_dispute_votes s"
    "k_dispute_resolved_at s3 = (k_dispute_resolved_at s)((i, j) := None)"
    "k_dispute_contested_percent s3 (i, j) = Some pct"
    using asideD [OF release_uncontested_Inr(1) [OF a]]
    by (simp_all add: s3_def s2_def reopen_marks_def mark_shipment_had_dispute_def Let_def)
  have sh3: "sh_milestones sh3 = (sh_milestones sh)[j := disputed_milestone e m]" "sh_status sh3 = sh_status sh"
    "sh_open_dispute_count sh3 = sh_open_dispute_count sh + 1"
    "sh_released_amount sh3 = sh_released_amount sh + max uncontested 0"
    by (simp_all add: sh3_def set_milestone_def append_audit_entry_def release_uncontested_Inr(2) [OF a])
  have "raised e i j sh (max uncontested 0) s t"
    unfolding raised_def
    by (rule exI [of _ sh4])
       (use s3 sh3 escalate_frame [OF esc] same_standingD(1,2,3) [OF escalate_frame(6) [OF esc]]
          file_dispute_Inr [OF fil] in \<open>simp add: t emit_dispute_opened_def m\<close>)
  moreover have "k_dispute_contested_percent t (i, j) = Some pct"
    using s3 escalate_frame [OF esc] file_dispute_Inr [OF fil] by (simp add: t emit_dispute_opened_def)
  ultimately show thesis using that g u by blast
qed

lemma raise_partial_cases:
  assumes "raise_partial_dispute e b i j pct s = Inr t"
  obtains sh full uncontested where "k_shipment s i = Some sh" "sh_status sh = Active" "j < length (sh_milestones sh)"
    "ms_status (sh_milestones sh ! j) = ProofSubmitted \<or> ms_status (sh_milestones sh ! j) = ConfirmedHeld"
    "b \<in> set (signers e)" "b \<in> set (sh_buyers sh)" "0 < pct" "pct < 100"
    "milestone_gross_payment s sh j = Inr full" "mul_div full (100 - pct) 100 = Inr uncontested"
    "raised e i j sh (max uncontested 0) s t" "k_dispute_contested_percent t (i, j) = Some pct"
proof -
  let ?s1 = "s\<lparr>k_grade_dispute := (k_grade_dispute s)((i, j) := None)\<rparr>"
  obtain sh where a: "k_shipment s i = Some sh" "sh_status sh = Active" "j < length (sh_milestones sh)"
    "ms_status (sh_milestones sh ! j) = ProofSubmitted \<or> ms_status (sh_milestones sh ! j) = ConfirmedHeld"
    "b \<in> set (signers e)" "b \<in> set (sh_buyers sh)" "0 < pct" "pct < 100"
    and r: "raise_partial_open e b i j pct sh (sh_milestones sh ! j) ?s1 = Inr t"
    using assms by (auto simp: raise_partial_dispute_def require_buyer_auth_def assert_is_buyer_def is_buyer_def
        Let_def res_simps not_le split: if_splits)
  obtain full unc where b: "milestone_gross_payment ?s1 sh j = Inr full" "mul_div full (100 - pct) 100 = Inr unc"
    "raised e i j sh (max unc 0) ?s1 t" "k_dispute_contested_percent t (i, j) = Some pct"
    using raise_partial_open_Inr [OF r refl] by blast
  have "milestone_gross_payment s sh j = Inr full"
    using b(1) by (simp add: milestone_gross_payment_def milestone_full_gross_payment_def)
  moreover have "raised e i j sh (max unc 0) s t" using b(3) by (simp add: raised_def)
  ultimately show thesis using that a b(2,4) by blast
qed

section \<open>Ruling\<close>

lemma aside_appeal_fee [asides]: "settle_appeal_fee e sh i j approve s = Inr t \<Longrightarrow> aside s t"
  by (auto simp: settle_appeal_fee_def aside_solve split: option.splits if_splits)

lemma if_ret: "(if c then Inr s else m) = Inr t \<longleftrightarrow> c \<and> t = s \<or> \<not> c \<and> m = Inr t"
  by auto

text \<open>A slash pays from the stake and writes what is left of it.\<close>

lemma slash_stake_cases:
  assumes "maybe_slash_arbiter_stake e a w tok s = Inr t"
  obtains "t = s" | x y z n f u k d where "token_pay e x y z n (s\<lparr>k_arbiter_stake := f\<rparr>) = Inr u" "t = emit k d u"
proof (cases "k_arbiter_stake s a")
  case (Some p)
  then show thesis
    using assms that
    by (cases p) (auto simp: maybe_slash_arbiter_stake_def Let_def if_ret bindE_Inr simp del: if_split fun_upd_apply)
qed (use assms that in \<open>auto simp: maybe_slash_arbiter_stake_def Let_def if_ret\<close>)

lemma aside_slash_stake [asides]:
  assumes "maybe_slash_arbiter_stake e a w tok s = Inr t"
  shows "aside s t"
  using assms
proof (cases rule: slash_stake_cases)
  case 2
  then show ?thesis by (auto simp: token_pay_Inr aside_def)
qed simp

text \<open>An overturn counts against the first arbiter, may remove him from the pool, and slashes the stake.\<close>

definition overturn_counted :: "addr \<Rightarrow> sid \<Rightarrow> nat \<Rightarrow> nat \<Rightarrow> settle \<Rightarrow> settle" where
  "overturn_counted a i j n s = (let s1 = s\<lparr>k_dispute_appeal_original := (k_dispute_appeal_original s)((i, j) := None)\<rparr>
     in s1\<lparr>k_arbiter_stats := (k_arbiter_stats s1)(a \<mapsto> (get_arbiter_stats s1 a)\<lparr>as_overturned_count := n\<rparr>)\<rparr>)"

lemma overturn_cases:
  assumes "apply_appeal_overturn e sh i j approve s = Inr t"
  obtains "t = s"
  | "t = s\<lparr>k_dispute_appeal_original := (k_dispute_appeal_original s)((i, j) := None)\<rparr>"
  | a n w c where "maybe_slash_arbiter_stake e a w (sh_token sh)
      (if c then slash_arbiter a n (overturn_counted a i j n s) else overturn_counted a i j n s) = Inr t"
proof (cases "k_dispute_appeal_original s (i, j)")
  case (Some oa)
  obtain a b where oa: "oa = (a, b)" by (cases oa)
  show thesis
  proof (cases "b = approve")
    case True
    then show thesis using assms Some oa that(2) by (simp add: apply_appeal_overturn_def)
  next
    case False
    show thesis
      using assms that(3) unfolding apply_appeal_overturn_def overturn_counted_def Let_def Some oa option.case prod.case
        if_not_P [OF False] bindE_Inr by blast
  qed
next
  case None
  then have "t = s" using assms by (simp add: apply_appeal_overturn_def)
  then show thesis by (rule that(1))
qed

lemma aside_overturn [asides]:
  assumes "apply_appeal_overturn e sh i j approve s = Inr t"
  shows "aside s t"
  using assms
proof (cases rule: overturn_cases)
  case (3 a n w c)
  have "aside s (if c then slash_arbiter a n (overturn_counted a i j n s) else overturn_counted a i j n s)"
    by (simp add: overturn_counted_def Let_def slash_arbiter_def drop_from_pool_def aside_def)
  then show ?thesis using aside_slash_stake [OF 3] by (rule aside_trans)
qed (simp_all add: aside_def)

text \<open>The completion steps: the status follows from the milestones, the rest of the standing stays.\<close>

definition completed :: "shipment \<Rightarrow> shipment \<Rightarrow> bool" where
  "completed a b \<longleftrightarrow> same_standing (if all_milestones_done a then a\<lparr>sh_status := Completed\<rparr> else a) b \<and>
     sh_released_amount b = sh_released_amount a"

lemma same_deal_standing: "same_deal a b \<Longrightarrow> sh_open_dispute_count b = sh_open_dispute_count a \<Longrightarrow>
    sh_arbiter b = sh_arbiter a \<Longrightarrow> sh_dispute_bond_amount b = sh_dispute_bond_amount a \<Longrightarrow> same_standing a b"
  by (simp add: same_deal_def same_standing_def)

lemma released_audit: "sh_released_amount (append_audit_entry e a x d sh) = sh_released_amount sh"
  by (simp add: append_audit_entry_def)

lemma standing_log:
  "release_retainage e i sh s = Inr (t, sh') \<Longrightarrow> same_standing sh sh' \<and> sh_released_amount sh' = sh_released_amount sh"
  "start_warranty e i sh s = Inr (t, sh') \<Longrightarrow> same_standing sh sh' \<and> sh_released_amount sh' = sh_released_amount sh"
  "maybe_pay_clean_completion_rebate e i sh s = Inr (t, sh') \<Longrightarrow>
     same_standing sh sh' \<and> sh_released_amount sh' = sh_released_amount sh"
  by (auto simp: release_retainage_def start_warranty_def maybe_pay_clean_completion_rebate_def Let_def bindE_Inr
      released_audit split: if_splits option.splits)

lemma standing_completion:
  assumes "settle_on_completion e i sh s = Inr (t, sh')"
  shows "same_standing sh sh' \<and> sh_released_amount sh' = sh_released_amount sh"
proof -
  obtain s1 sh1 s2 sh2 s3 where c:
    "release_retainage e i sh (s\<lparr>k_completed_at_ledger := (k_completed_at_ledger s)(i \<mapsto> sequence e)\<rparr>) = Inr (s1, sh1)"
    "start_warranty e i sh1 s1 = Inr (s2, sh2)" "maybe_pay_clean_completion_rebate e i sh2 s2 = Inr (s3, sh')"
    using assms by (auto simp: settle_on_completion_def bindE_Inr split: prod.splits)
  show ?thesis
    using standing_log(1) [OF c(1)] standing_log(2) [OF c(2)] standing_log(3) [OF c(3)]
    by (simp add: same_standing_def)
qed

lemma ruling_complete_Inr:
  assumes "ruling_complete e a d stats i sh s = Inr (t, sh')"
  shows "aside s t" "completed sh sh'"
proof -
  have "aside s t \<and> completed sh sh'"
  proof (cases "all_milestones_done sh")
    case True
    let ?sh1 = "append_audit_entry e a ''shipment_completed'' d (sh\<lparr>sh_status := Completed\<rparr>)"
    obtain s1 where c: "book_completion e i ?sh1 stats s = Inr s1" "settle_on_completion e i ?sh1 s1 = Inr (t, sh')"
      using assms True by (auto simp: ruling_complete_def Let_def bindE_Inr)
    have "same_standing (sh\<lparr>sh_status := Completed\<rparr>) ?sh1" by simp
    then show ?thesis
      using aside_book [OF c(1)] aside_completion [OF c(2)] standing_completion [OF c(2)] True
      by (auto simp: completed_def append_audit_entry_def intro: aside_trans same_standing_trans)
  qed (use assms in \<open>auto simp: ruling_complete_def completed_def\<close>)
  then show "aside s t" "completed sh sh'" by simp_all
qed

lemma finalize_complete_Inr:
  assumes "finalize_complete e i sh s = Inr (t, sh')"
  shows "aside s t" "completed sh sh'"
proof -
  have "aside s t \<and> completed sh sh'"
  proof (cases "all_milestones_done sh")
    case True
    let ?sh1 = "sh\<lparr>sh_status := Completed\<rparr>"
    obtain s1 where c: "book_completion e i ?sh1 (get_or contract_stats_zero (k_contract_stats s)) s = Inr s1"
      "settle_on_completion e i ?sh1 s1 = Inr (t, sh')"
      using assms True by (auto simp: finalize_complete_def Let_def bindE_Inr)
    then show ?thesis
      using aside_book [OF c(1)] aside_completion [OF c(2)] standing_completion [OF c(2)] True
      by (auto simp: completed_def intro: aside_trans)
  qed (use assms in \<open>auto simp: finalize_complete_def completed_def\<close>)
  then show "aside s t" "completed sh sh'" by simp_all
qed

text \<open>After a split the pruning also drops rows of the resolution record.\<close>

lemma complete_if_done_Inr:
  assumes "complete_shipment_if_done e a i sh s = Inr (t, sh')"
  shows "k_shipment t = k_shipment s" "completed sh sh'"
    "\<forall>x. k_dispute_resolved_at t x = k_dispute_resolved_at s x \<or> k_dispute_resolved_at t x = None"
    "\<not> all_milestones_done sh \<Longrightarrow> t = s"
proof -
  have "k_shipment t = k_shipment s \<and> completed sh sh' \<and>
    (\<forall>x. k_dispute_resolved_at t x = k_dispute_resolved_at s x \<or> k_dispute_resolved_at t x = None)"
  proof (cases "all_milestones_done sh")
    case True
    let ?sh1 = "append_audit_entry e a ''shipment_completed'' ''resolve_dispute_split'' (sh\<lparr>sh_status := Completed\<rparr>)"
    obtain s1 s2 where c: "book_completion e i ?sh1 (get_or contract_stats_zero (k_contract_stats s)) s = Inr s1"
      "settle_on_completion e i ?sh1 s1 = Inr (s2, sh')"
      and t: "t = prune_shipment_auxiliary_keys i (length (sh_milestones sh')) s2"
      using assms True by (auto simp: complete_shipment_if_done_def Let_def bindE_Inr split: prod.splits)
    have "aside s s2" using aside_book [OF c(1)] aside_completion [OF c(2)] by (rule aside_trans)
    moreover have "same_standing (sh\<lparr>sh_status := Completed\<rparr>) ?sh1" by simp
    ultimately show ?thesis
      using standing_completion [OF c(2)] True asideD(1,2) [of s s2]
      by (auto simp: completed_def append_audit_entry_def t prune_shipment_auxiliary_keys_def drop_rows_def
          intro: same_standing_trans)
  qed (use assms in \<open>auto simp: complete_shipment_if_done_def completed_def\<close>)
  note r = this
  show "k_shipment t = k_shipment s" using r by (elim conjE)
  show "completed sh sh'" using r by (elim conjE)
  show "\<forall>x. k_dispute_resolved_at t x = k_dispute_resolved_at s x \<or> k_dispute_resolved_at t x = None"
    using r by (elim conjE)
  show "\<not> all_milestones_done sh \<Longrightarrow> t = s" using assms by (auto simp: complete_shipment_if_done_def)
qed

end
