(* ===== verification/SettleVerdicts.thy ===== *)
theory SettleVerdicts
  imports SettleCourt
begin

text \<open>
  The outcome of every way a dispute ends: the ruling of the arbiter, a split, the payout after the
  finality delay, an appeal, a timeout, a panel decision, mediation, withdrawal.
\<close>

section \<open>The outcome of a ruling\<close>

text \<open>
  Milestone \<open>j\<close> of shipment \<open>sh\<close> becomes \<open>m'\<close>, one open dispute less, and
  \<open>given\<close> more is released; a shipment whose milestones are all done is completed.
\<close>

definition ruled :: "sid \<Rightarrow> nat \<Rightarrow> shipment \<Rightarrow> milestone \<Rightarrow> int \<Rightarrow> settle \<Rightarrow> settle \<Rightarrow> bool" where
  "ruled i j sh m' given s t \<longleftrightarrow> (\<exists>sh'.
     k_shipment t = (k_shipment s)(i \<mapsto> sh') \<and>
     sh_milestones sh' = (sh_milestones sh)[j := m'] \<and>
     sh_status sh' = (if all_milestones_done sh' then Completed else sh_status sh) \<and>
     sh_open_dispute_count sh' = sh_open_dispute_count sh - 1 \<and>
     sh_released_amount sh' = sh_released_amount sh + given \<and>
     sh_dispute_bond_amount sh' = sh_dispute_bond_amount sh \<and> sh_total_amount sh' = sh_total_amount sh \<and>
     (\<forall>x. x \<noteq> (i, j) \<longrightarrow> k_dispute_resolved_at t x = k_dispute_resolved_at s x \<or> k_dispute_resolved_at t x = None))"

lemma ruled_shipment_fields:
  "sh_milestones (ruled_shipment e j m sh) = (sh_milestones sh)[j := m]"
  "sh_status (ruled_shipment e j m sh) = sh_status sh"
  "sh_open_dispute_count (ruled_shipment e j m sh) = sh_open_dispute_count sh - 1"
  "sh_released_amount (ruled_shipment e j m sh) = sh_released_amount sh"
  "sh_dispute_bond_amount (ruled_shipment e j m sh) = sh_dispute_bond_amount sh"
  "sh_total_amount (ruled_shipment e j m sh) = sh_total_amount sh"
  by (simp_all add: ruled_shipment_def set_milestone_def)

lemma ruledI:
  assumes "k_shipment t = (k_shipment s)(i \<mapsto> sh')" and "completed (ruled_shipment e j m' sh1) sh'"
    and "same_standing sh sh1" and "sh_released_amount sh1 = sh_released_amount sh + given"
    and "\<forall>x. x \<noteq> (i, j) \<longrightarrow> k_dispute_resolved_at t x = k_dispute_resolved_at s x \<or> k_dispute_resolved_at t x = None"
  shows "ruled i j sh m' given s t"
proof -
  note f = ruled_shipment_fields [of e j m' sh1]
  have c: "same_standing (if all_milestones_done (ruled_shipment e j m' sh1)
      then (ruled_shipment e j m' sh1)\<lparr>sh_status := Completed\<rparr> else ruled_shipment e j m' sh1) sh'"
    "sh_released_amount sh' = sh_released_amount (ruled_shipment e j m' sh1)"
    using assms(2) by (simp_all add: completed_def)
  note d = same_standingD [OF c(1)] same_standingD [OF assms(3)]
  have ms: "sh_milestones sh' = (sh_milestones sh)[j := m']"
    using d(1,11) f(1) by (simp split: if_splits)
  have done_eq: "all_milestones_done (ruled_shipment e j m' sh1) = all_milestones_done sh'"
    using ms d(11) f(1) by (intro all_done_cong) simp
  show ?thesis
    unfolding ruled_def
    by (rule exI [of _ sh']) (use assms(1,4,5) ms d(2,3,9,10,12,13,19,20) c(2) f in \<open>simp add: done_eq\<close>)
qed

lemma completed_audit [simp]: "completed (append_audit_entry e c x y a) b \<longleftrightarrow> completed a b"
proof -
  have "all_milestones_done (append_audit_entry e c x y a) = all_milestones_done a"
    by (intro all_done_cong) (simp add: append_audit_entry_def)
  then show ?thesis by (simp add: completed_def same_standing_def append_audit_entry_def)
qed

text \<open>The closing block, for a completion step that keeps the shipments and forgets at most rows.\<close>

lemma close_ruling_Inr:
  assumes "close_ruling e a i j approve reason n x y open complete m' sh1 s = Inr (t, sh')"
    and complete: "\<And>sh u v sh'. complete sh u = Inr (v, sh') \<Longrightarrow> k_shipment v = k_shipment u \<and> Q sh sh' \<and>
       (\<forall>x. k_dispute_resolved_at v x = k_dispute_resolved_at u x \<or> k_dispute_resolved_at v x = None)"
  shows "k_shipment t = (k_shipment s)(i \<mapsto> sh')" "Q (append_audit_entry e a x y (ruled_shipment e j m' sh1)) sh'"
    "\<forall>x. x \<noteq> (i, j) \<longrightarrow> k_dispute_resolved_at t x = k_dispute_resolved_at s x \<or> k_dispute_resolved_at t x = None"
proof -
  let ?sh = "ruled_shipment e j m' sh1"
  obtain s1 s3 s4 s5 where c: "count_ruling a approve n s = Inr s1"
    "settle_appeal_fee e ?sh i j approve (mark_resolved e i j approve reason s1) = Inr s3"
    "apply_appeal_overturn e ?sh i j approve s3 = Inr s4"
    "complete (append_audit_entry e a x y ?sh) s4 = Inr (s5, sh')"
    "k_shipment t = (k_shipment s5)(i \<mapsto> sh')" "k_dispute_resolved_at t = k_dispute_resolved_at s5"
    using assms(1) by (auto simp: close_ruling_def Let_def bindE_Inr split: prod.splits)
  note f = asideD(1,2) [OF aside_count [OF c(1)]] asideD(1,2) [OF aside_appeal_fee [OF c(2)]]
    asideD(1,2) [OF aside_overturn [OF c(3)]]
  show "Q (append_audit_entry e a x y ?sh) sh'" using complete [OF c(4)] by simp
  show "k_shipment t = (k_shipment s)(i \<mapsto> sh')"
    using complete [OF c(4)] f c(5) by (simp add: mark_resolved_def)
  show "\<forall>x. x \<noteq> (i, j) \<longrightarrow> k_dispute_resolved_at t x = k_dispute_resolved_at s x \<or> k_dispute_resolved_at t x = None"
  proof (intro allI impI)
    fix x assume "x \<noteq> (i, j)"
    have "k_dispute_resolved_at s5 x = k_dispute_resolved_at s4 x \<or> k_dispute_resolved_at s5 x = None"
      using complete [OF c(4)] by (elim conjE) (erule spec)
    then show "k_dispute_resolved_at t x = k_dispute_resolved_at s x \<or> k_dispute_resolved_at t x = None"
      using f c(6) \<open>x \<noteq> (i, j)\<close> by (simp add: mark_resolved_def)
  qed
qed

lemma close_ruling_marks:
  assumes "close_ruling e a i j approve reason n x y open complete m' sh1 s = Inr (t, sh')"
    and "\<And>sh u v sh'. complete sh u = Inr (v, sh') \<Longrightarrow> aside u v"
  shows "k_dispute_resolved_at t (i, j) = Some (sequence e)"
    "k_dispute_contested_percent t = k_dispute_contested_percent s"
proof -
  let ?sh = "ruled_shipment e j m' sh1"
  obtain s1 s3 s4 s5 where c: "count_ruling a approve n s = Inr s1"
    "settle_appeal_fee e ?sh i j approve (mark_resolved e i j approve reason s1) = Inr s3"
    "apply_appeal_overturn e ?sh i j approve s3 = Inr s4"
    "complete (append_audit_entry e a x y ?sh) s4 = Inr (s5, sh')"
    "k_dispute_resolved_at t = k_dispute_resolved_at s5"
    "k_dispute_contested_percent t = k_dispute_contested_percent s5"
    using assms(1) by (auto simp: close_ruling_def Let_def bindE_Inr split: prod.splits)
  note f = asideD(2,5) [OF aside_count [OF c(1)]] asideD(2,5) [OF aside_appeal_fee [OF c(2)]]
    asideD(2,5) [OF aside_overturn [OF c(3)]] asideD(2,5) [OF assms(2) [OF c(4)]]
  show "k_dispute_resolved_at t (i, j) = Some (sequence e)"
    "k_dispute_contested_percent t = k_dispute_contested_percent s"
    using f c(5,6) by (simp_all add: mark_resolved_def)
qed

section \<open>The arbiter's ruling\<close>

text \<open>The milestone after a ruling, and how much of the escrow it releases.\<close>

definition verdict ::
  "settle_env \<Rightarrow> settle \<Rightarrow> sid \<Rightarrow> nat \<Rightarrow> bool \<Rightarrow> int \<Rightarrow> milestone \<Rightarrow> milestone \<times> int" where
  "verdict e s i j approve payment m =
     (let delay = get_or 0 (k_finality_delay_ledgers s)
      in if approve \<and> 0 < delay
         then (m\<lparr>ms_status := ResolvedPendingFinality, ms_release_after_ledger := sequence e + delay\<rparr>, 0)
         else if approve \<or> k_grade_dispute s (i, j) \<noteq> None \<or> k_dispute_contested_percent s (i, j) \<noteq> None
         then (m\<lparr>ms_status := Resolved\<rparr>, payment) else (m\<lparr>ms_status := Pending\<rparr>, 0))"

lemma aside_graded [asides]:
  assumes "pay_graded_split e sh i j g bps r p s = Inr (t, x)"
  shows "aside s t"
proof -
  obtain payout refund where
    call: "bindE (if 0 < payout
               then bindE (deduct_fee e payout (sh_token sh) s) (\<lambda>(s1, net0, fee).
                    bindE (ck_i128 (net0 - p)) (\<lambda>n.
                    let net = max n 0
                    in bindE (check_circuit_breaker (sequence e) payout s1) (\<lambda>s2.
                       bindE (check_address_outflow (sh_supplier sh) (sequence e) payout s2) (\<lambda>s3.
                       bindE (pay_milestone_to_payees e i j net (sh_supplier sh) (sh_token sh) s3) (\<lambda>s4.
                       Inr (s4, net, fee))))))
               else Inr (s, 0, 0)) (\<lambda>(s5, net, fee).
        bindE (if 0 < refund
               then bindE (vec_get_unwrap (sh_buyers sh) 0) (\<lambda>primary.
                    token_pay e (sh_token sh) (this e) primary refund s5)
               else Inr s5) (\<lambda>s6. Inr (s6, net, refund, fee))) = Inr (t, x)"
    using assms unfolding pay_graded_split_def bindE_Inr [of "mul_div g bps 10000"] bindE_Inr [of "ck_i128 (g - _)"]
      bindE_Inr [of "ck_i128 (_ - r)"] Let_def by blast
  then obtain s5 net fee where
    c: "(if 0 < payout
               then bindE (deduct_fee e payout (sh_token sh) s) (\<lambda>(s1, net0, fee).
                    bindE (ck_i128 (net0 - p)) (\<lambda>n.
                    let net = max n 0
                    in bindE (check_circuit_breaker (sequence e) payout s1) (\<lambda>s2.
                       bindE (check_address_outflow (sh_supplier sh) (sequence e) payout s2) (\<lambda>s3.
                       bindE (pay_milestone_to_payees e i j net (sh_supplier sh) (sh_token sh) s3) (\<lambda>s4.
                       Inr (s4, net, fee))))))
               else Inr (s, 0, 0)) = Inr (s5, net, fee)"
    and u: "bindE (if 0 < refund
               then bindE (vec_get_unwrap (sh_buyers sh) 0) (\<lambda>primary.
                    token_pay e (sh_token sh) (this e) primary refund s5)
               else Inr s5) (\<lambda>s6. Inr (s6, net, refund, fee)) = Inr (t, x)"
    by (subst (asm) bindE_Inr) (auto split: prod.splits)
  have "aside s5 t" using u by (auto simp: bindE_Inr intro: aside_pay split: if_splits)
  have "aside s s5"
  proof (cases "0 < payout")
    case True
    then obtain s1 n f s2 s3 m where d: "deduct_fee e payout (sh_token sh) s = Inr (s1, n, f)"
      "check_circuit_breaker (sequence e) payout s1 = Inr s2"
      "check_address_outflow (sh_supplier sh) (sequence e) payout s2 = Inr s3"
      "pay_milestone_to_payees e i j m (sh_supplier sh) (sh_token sh) s3 = Inr s5"
      using c by (auto simp: Let_def bindE_Inr split: prod.splits)
    show ?thesis
      using aside_deduct [OF d(1)] aside_breaker [OF d(2)] aside_outflow [OF d(3)] aside_payout [OF d(4)]
      by (simp add: aside_def)
  qed (use c in simp)
  then show ?thesis using \<open>aside s5 t\<close> by (rule aside_trans)
qed

lemma award_grade_Inr:
  assumes "award_grade e i j payment grade bps sh s = Inr (t, sh')"
  shows "aside s t" "sh' = sh\<lparr>sh_released_amount := sh_released_amount sh + payment\<rparr>"
proof -
  obtain fee s1 x g a b s3 y s4 where c: "pay_arbiter e sh fee s = Inr (s1, x)"
    "pay_graded_split e sh i j payment bps a b (fst (loser_pays_cover i j fee g s1)) = Inr (s3, y)"
    "decrease_total_escrowed (sh_token sh) payment s3 = Inr s4" "aside s4 t"
    and sh': "sh' = sh\<lparr>sh_released_amount := sh_released_amount sh + payment\<rparr>"
    using assms by (auto simp: award_grade_def Let_def bindE_Inr ck_i128_Inr cover_case split: prod.splits)
  show "aside s t"
    using aside_pay_arbiter [OF c(1)] aside_graded [OF c(2)] aside_decrease [OF c(3)] c(4)
      aside_cover [of s1 i j fee g] by (simp add: aside_def)
  show "sh' = sh\<lparr>sh_released_amount := sh_released_amount sh + payment\<rparr>" by (fact sh')
qed

lemma rule_dispute_Inr:
  assumes "rule_dispute e i j approve payment (k_dispute_contested_percent s (i, j) \<noteq> None)
      (k_grade_dispute s (i, j)) sh m u = Inr (t, sh', m', outcome, release)"
    and u: "k_finality_delay_ledgers u = k_finality_delay_ledgers s"
  shows "aside u t" "same_standing sh sh'" "m' = fst (verdict e s i j approve payment m)"
    "sh_released_amount sh' = sh_released_amount sh + snd (verdict e s i j approve payment m)"
proof -
  have "aside u t \<and> same_standing sh sh' \<and> m' = fst (verdict e s i j approve payment m) \<and>
    sh_released_amount sh' = sh_released_amount sh + snd (verdict e s i j approve payment m)"
  proof (cases "approve \<and> 0 < get_or 0 (k_finality_delay_ledgers s)")
    case True
    then show ?thesis
      using assms by (auto simp: rule_dispute_def verdict_def Let_def bindE_Inr ck_u32_Inr)
  next
    case now: False
    show ?thesis
    proof (cases approve)
      case True
      then obtain s1 actual refund fa where c: "award_supplier e (pay_arbiter e sh) i j payment
          (if k_grade_dispute s (i, j) = None then max (sh_dispute_bond_amount sh) 0 else 0) sh u
          = Inr (s1, sh', actual, refund, fa)"
        and b: "(if 0 < refund then bindE (vec_get_unwrap (sh_buyers sh') 0) (\<lambda>primary.
            token_pay e (sh_token sh') (this e) primary refund s1) else Inr s1) = Inr t"
        and m': "m' = m\<lparr>ms_status := Resolved\<rparr>"
        using assms now by (auto simp: rule_dispute_def Let_def bindE_Inr split: prod.splits)
      note a = award_supplier_Inr [OF c aside_pay_arbiter]
      have "aside s1 t" using b by (auto simp: bindE_Inr intro: aside_pay split: if_splits)
      then show ?thesis using a(2,3) aside_trans [OF a(1)] True now m' by (simp add: verdict_def Let_def)
    next
      case False
      show ?thesis
      proof (cases "k_grade_dispute s (i, j)")
        case (Some g)
        obtain x y where g: "g = (x, y)" by (cases g)
        have "award_grade e i j payment x y sh u = Inr (t, sh')" "m' = m\<lparr>ms_status := Resolved\<rparr>"
          using assms False Some g by (auto simp: rule_dispute_def Let_def bindE_Inr split: prod.splits)
        then show ?thesis using award_grade_Inr [of e i j payment x y sh u t sh'] False Some
          by (simp add: verdict_def Let_def same_standing_def)
      next
        case None
        show ?thesis
        proof (cases "k_dispute_contested_percent s (i, j)")
          case (Some p)
          have b: "award_buyer e (pay_arbiter e sh) i j payment sh u = Inr (t, sh')" "m' = m\<lparr>ms_status := Resolved\<rparr>"
            using assms False Some None by (auto simp: rule_dispute_def Let_def bindE_Inr split: prod.splits)
          then show ?thesis using award_buyer_Inr [OF b(1) aside_pay_arbiter] False Some None
            by (simp add: verdict_def Let_def same_standing_def)
        next
          case full: None
          then show ?thesis using assms False None aside_bond
            by (auto simp: rule_dispute_def verdict_def Let_def bindE_Inr)
        qed
      qed
    qed
  qed
  then show "aside u t" "same_standing sh sh'" "m' = fst (verdict e s i j approve payment m)"
    "sh_released_amount sh' = sh_released_amount sh + snd (verdict e s i j approve payment m)" by simp_all
qed

end
