(* ===== verification/SettleOutcomes.thy ===== *)
theory SettleOutcomes
  imports SettleVerdicts
begin

text \<open>
  The outcome of every way a dispute ends, as elimination rules over \<open>ruled\<close>: the ruling of the
  arbiter, a split, the payout after the finality delay, an appeal, a timeout, the decision of a
  panel, mediation, withdrawal.
\<close>

lemma not_escalated_Inr [res_simps]:
  "assert_not_panel_escalated s i j = Inr u \<longleftrightarrow> \<not> is_dispute_panel_escalated s i j"
  by (simp add: assert_not_panel_escalated_def ensure_Inr)

lemma arbiter_auth_Inr [res_simps]:
  "require_arbiter_auth e sh a = Inr u \<longleftrightarrow> a \<in> set (signers e) \<and> a = sh_arbiter sh"
  by (auto simp: require_arbiter_auth_def res_simps)

lemma gross_cong:
  "k_milestone_splits t = k_milestone_splits s \<Longrightarrow> k_partial_qty_released t = k_partial_qty_released s \<Longrightarrow>
     milestone_gross_payment t sh j = milestone_gross_payment s sh j"
  by (simp add: milestone_gross_payment_def milestone_full_gross_payment_def)

lemma verdict_cong:
  "k_finality_delay_ledgers t = k_finality_delay_ledgers s \<Longrightarrow> k_grade_dispute t = k_grade_dispute s \<Longrightarrow>
     k_dispute_contested_percent t = k_dispute_contested_percent s \<Longrightarrow>
     verdict e t i j approve p m = verdict e s i j approve p m"
  by (simp add: verdict_def)

text \<open>The counters of buyers are no part of a dispute.\<close>

lemma reliability_desk [simp]:
  "k_shipment (update_buyer_reliability_on_dispute b w t) = k_shipment t"
  "k_dispute_resolved_at (update_buyer_reliability_on_dispute b w t) = k_dispute_resolved_at t"
  "k_dispute_contested_percent (update_buyer_reliability_on_dispute b w t) = k_dispute_contested_percent t"
  by (simp_all add: update_buyer_reliability_on_dispute_def Let_def)

lemma drop_contested_desk [simp]:
  "k_shipment (drop_contested i j p t) = k_shipment t"
  "k_dispute_resolved_at (drop_contested i j p t) = k_dispute_resolved_at t"
  "k_dispute_contested_percent (drop_contested i j p t) =
     (if p then (k_dispute_contested_percent t)((i, j) := None) else k_dispute_contested_percent t)"
  by (simp_all add: drop_contested_def)

lemma ruling_complete_step:
  "ruling_complete e a d stats i sh u = Inr (v, sh') \<Longrightarrow> k_shipment v = k_shipment u \<and> completed sh sh' \<and>
     (\<forall>x. k_dispute_resolved_at v x = k_dispute_resolved_at u x \<or> k_dispute_resolved_at v x = None)"
  using ruling_complete_Inr [of e a d stats i sh u v sh'] asideD(1,2) [of u v] by simp

text \<open>The closing block of the two rulings, with their completion steps.\<close>

lemma closed_at_once:
  assumes "close_ruling e a i j approve reason n x y open (ruling_complete e b d stats i) m' sh1 s = Inr (t, sh')"
  shows "k_shipment t = (k_shipment s)(i \<mapsto> sh')" "completed (ruled_shipment e j m' sh1) sh'"
    "\<forall>x. x \<noteq> (i, j) \<longrightarrow> k_dispute_resolved_at t x = k_dispute_resolved_at s x \<or> k_dispute_resolved_at t x = None"
    "k_dispute_resolved_at t (i, j) = Some (sequence e)"
    "k_dispute_contested_percent t = k_dispute_contested_percent s"
proof -
  have step: "k_shipment v = k_shipment u \<and> completed c c' \<and>
      (\<forall>x. k_dispute_resolved_at v x = k_dispute_resolved_at u x \<or> k_dispute_resolved_at v x = None)"
    if "ruling_complete e b d stats i c u = Inr (v, c')" for c u v c'
    using that by (rule ruling_complete_step)
  have near: "aside u v" if "ruling_complete e b d stats i c u = Inr (v, c')" for c u v c'
    using that by (rule ruling_complete_Inr)
  note r = close_ruling_Inr [where Q = completed, OF assms step]
  show "k_shipment t = (k_shipment s)(i \<mapsto> sh')"
    "\<forall>x. x \<noteq> (i, j) \<longrightarrow> k_dispute_resolved_at t x = k_dispute_resolved_at s x \<or> k_dispute_resolved_at t x = None"
    by (rule r; assumption)+
  have "completed (append_audit_entry e a x y (ruled_shipment e j m' sh1)) sh'" by (rule r; assumption)
  then show "completed (ruled_shipment e j m' sh1) sh'" by simp
  show "k_dispute_resolved_at t (i, j) = Some (sequence e)"
    "k_dispute_contested_percent t = k_dispute_contested_percent s"
    by (rule close_ruling_marks [OF assms near]; assumption)+
qed

lemma resolve_dispute_cases:
  assumes "resolve_dispute e a i j approve reason0 s = Inr t"
  obtains sh full payment where
    "k_shipment s i = Some sh" "sh_status sh = Active" "a \<in> set (signers e)" "a = sh_arbiter sh"
    "j < length (sh_milestones sh)" "ms_status (sh_milestones sh ! j) = Disputed"
    "\<not> is_dispute_panel_escalated s i j" "milestone_gross_payment s sh j = Inr full"
    "contested_payment full (k_dispute_contested_percent s (i, j)) = Inr payment"
    "ruled i j sh (fst (verdict e s i j approve payment (sh_milestones sh ! j)))
       (snd (verdict e s i j approve payment (sh_milestones sh ! j))) s t"
    "k_dispute_resolved_at t (i, j) = Some (sequence e)" "k_dispute_contested_percent t (i, j) = None"
proof -
  let ?pct = "k_dispute_contested_percent s (i, j)"
  let ?s1 = "s\<lparr>k_pending_split := (k_pending_split s)((i, j) := None)\<rparr>"
  let ?s2 = "?s1\<lparr>k_grade_dispute := (k_grade_dispute s)((i, j) := None)\<rparr>"
  obtain sh where a: "k_shipment s i = Some sh" "sh_status sh = Active" "a \<in> set (signers e)" "a = sh_arbiter sh"
    "j < length (sh_milestones sh)" "ms_status (sh_milestones sh ! j) = Disputed"
    "\<not> is_dispute_panel_escalated s i j"
    using assms by (auto simp: resolve_dispute_def Let_def res_simps split: if_splits)
  let ?m = "sh_milestones sh ! j"
  obtain full payment s3 sh1 m1 outcome release s4 n stats op s5 sh2 r where
    p: "milestone_gross_payment ?s1 sh j = Inr full" "contested_payment full ?pct = Inr payment"
    and c: "rule_dispute e i j approve payment (?pct \<noteq> None) (k_grade_dispute s (i, j)) sh ?m ?s2
              = Inr (s3, sh1, m1, outcome, release)"
      "book_ruling i j sh1 (get_or 0 (ms_dispute_opened_ledger ?m)) outcome release s3 = Inr s4"
      "close_ruling e a i j approve r n ''dispute_resolved'' ''resolve_dispute'' op
         (ruling_complete e a ''resolve_dispute'' stats i) m1 sh1 (drop_contested i j (?pct \<noteq> None) s4) = Inr (s5, sh2)"
    and t: "k_shipment t = k_shipment s5" "k_dispute_resolved_at t = k_dispute_resolved_at s5"
      "k_dispute_contested_percent t = k_dispute_contested_percent s5"
    using assms a by (auto simp: resolve_dispute_def Let_def res_simps emit_dispute_resolved_def split: prod.splits)
  have "k_finality_delay_ledgers ?s2 = k_finality_delay_ledgers s" by simp
  note r = rule_dispute_Inr [OF c(1) this]
  note f = asideD [OF r(1)] asideD [OF aside_book_ruling [OF c(2)]]
  note g = closed_at_once [OF c(3)]
  have "milestone_gross_payment s sh j = Inr full" using p(1) gross_cong [of ?s1 s sh j] by simp
  moreover have "ruled i j sh (fst (verdict e s i j approve payment ?m)) (snd (verdict e s i j approve payment ?m)) s t"
    unfolding r(3) [symmetric]
  proof (rule ruledI)
    show "k_shipment t = (k_shipment s)(i \<mapsto> sh2)" using t(1) g(1) f by simp
    show "completed (ruled_shipment e j m1 sh1) sh2" by (fact g(2))
    show "same_standing sh sh1" by (fact r(2))
    show "sh_released_amount sh1 = sh_released_amount sh + snd (verdict e s i j approve payment ?m)" by (fact r(4))
    show "\<forall>x. x \<noteq> (i, j) \<longrightarrow> k_dispute_resolved_at t x = k_dispute_resolved_at s x \<or> k_dispute_resolved_at t x = None"
      using t(2) g(3) f by simp
  qed
  moreover have "k_dispute_resolved_at t (i, j) = Some (sequence e)" "k_dispute_contested_percent t (i, j) = None"
    using t g f by simp_all
  ultimately show thesis using that a p(2) by blast
qed

section \<open>Any change of one milestone\<close>

text \<open>
  What all dispute operations share: one milestone changes, and the counter of open disputes with it;
  the record of resolutions may only lose other rows, and has none for a milestone that is disputed.
\<close>

definition moved :: "sid \<Rightarrow> nat \<Rightarrow> shipment \<Rightarrow> milestone \<Rightarrow> settle \<Rightarrow> settle \<Rightarrow> bool" where
  "moved i j sh m' s t \<longleftrightarrow>
     (\<exists>sh'. k_shipment t = (k_shipment s)(i \<mapsto> sh') \<and> sh_milestones sh' = (sh_milestones sh)[j := m'] \<and>
        sh_open_dispute_count sh' = sh_open_dispute_count sh + (if ms_status m' = Disputed then 1 else 0)
          - (if ms_status (sh_milestones sh ! j) = Disputed then 1 else 0)) \<and>
     (\<forall>x. x \<noteq> (i, j) \<longrightarrow> k_dispute_resolved_at t x = k_dispute_resolved_at s x \<or> k_dispute_resolved_at t x = None) \<and>
     (ms_status m' = Disputed \<longrightarrow> k_dispute_resolved_at t (i, j) = None)"

lemma moved_raised: "raised e i j sh n s t \<Longrightarrow> ms_status (sh_milestones sh ! j) \<noteq> Disputed \<Longrightarrow>
    moved i j sh (disputed_milestone e (sh_milestones sh ! j)) s t"
  by (auto simp: raised_def moved_def disputed_milestone_def)

lemma moved_ruled: "ruled i j sh m' n s t \<Longrightarrow> ms_status (sh_milestones sh ! j) = Disputed \<Longrightarrow>
    ms_status m' \<noteq> Disputed \<Longrightarrow> moved i j sh m' s t"
  unfolding ruled_def moved_def by fastforce

lemma verdict_status: "ms_status (fst (verdict e s i j approve p m)) \<in> {ResolvedPendingFinality, Resolved, Pending}"
  by (simp add: verdict_def Let_def)

lemma moved_withdraw:
  assumes "withdraw_dispute e b i j s = Inr t"
  obtains sh where "k_shipment s i = Some sh" "sh_status sh = Active" "j < length (sh_milestones sh)"
    "ms_status (sh_milestones sh ! j) = Disputed" "b \<in> set (signers e)" "b \<in> set (sh_buyers sh)"
    "k_grade_dispute s (i, j) = None"
    "moved i j sh ((sh_milestones sh ! j)\<lparr>ms_status := ProofSubmitted, ms_dispute_opened_ledger := None\<rparr>) s t"
proof -
  have h: "k_shipment (append_dispute_history x y r u) = k_shipment u \<and>
      k_dispute_resolved_at (append_dispute_history x y r u) = k_dispute_resolved_at u" for x y r u
    using asideD(1,2) [of u "append_dispute_history x y r u"] by simp
  obtain sh where sh: "k_shipment s i = Some sh" "sh_status sh = Active" "j < length (sh_milestones sh)"
    "ms_status (sh_milestones sh ! j) = Disputed" "b \<in> set (signers e)" "b \<in> set (sh_buyers sh)"
    "k_grade_dispute s (i, j) = None"
    and t: "k_shipment t = (k_shipment s)(i \<mapsto>
        (set_milestone j ((sh_milestones sh ! j)\<lparr>ms_status := ProofSubmitted, ms_dispute_opened_ledger := None\<rparr>) sh)
          \<lparr>sh_open_dispute_count := sh_open_dispute_count sh - 1\<rparr>)"
      "k_dispute_resolved_at t = k_dispute_resolved_at s"
    using assms
    by (auto simp: withdraw_dispute_def assert_is_buyer_def is_buyer_def Let_def res_simps h simp del: not_None_eq)
  then show thesis
    by (intro that [OF sh]) (simp add: moved_def set_milestone_def, intro exI conjI, rule refl, simp_all)
qed

text \<open>A timeout hands over or applies the default; it leaves no record of a resolution.\<close>

lemma aside_payout_timeout:
  assumes "timeout_pay e i payment sh s = Inr (t, sh')"
  shows "aside s t" "sh' = sh\<lparr>sh_released_amount := sh_released_amount sh +
      (if sh_default_resolution sh = ResolveSupplier then payment else 0)\<rparr>"
proof -
  have "aside s t \<and> sh' = sh\<lparr>sh_released_amount := sh_released_amount sh +
      (if sh_default_resolution sh = ResolveSupplier then payment else 0)\<rparr>"
  proof (cases "sh_default_resolution sh = ResolveSupplier")
    case True
    then obtain s1 net fee s2 s3 s4 p where c: "deduct_fee_for_shipment e payment (sh_token sh) i s = Inr (s1, net, fee)"
      "check_circuit_breaker (sequence e) payment s1 = Inr s2"
      "check_address_outflow (sh_supplier sh) (sequence e) payment s2 = Inr s3"
      "whenE (0 < net) (token_pay e (sh_token sh) (this e) (sh_supplier sh) net) s3 = Inr s4"
      "record_release_counters (sh_supplier sh) p (sh_token sh) payment net s4 = Inr t"
      "sh' = sh\<lparr>sh_released_amount := sh_released_amount sh + payment\<rparr>"
      using assms by (auto simp: timeout_pay_def bindE_Inr ck_i128_Inr split: prod.splits)
    then show ?thesis
      using True aside_deduct_ship [OF c(1)] aside_breaker [OF c(2)] aside_outflow [OF c(3)] aside_pay_when [OF c(4)]
        aside_counters [OF c(5)] by (simp add: aside_def)
  next
    case False
    then show ?thesis using assms aside_pay_when by (auto simp: timeout_pay_def bindE_Inr)
  qed
  then show "aside s t" "sh' = sh\<lparr>sh_released_amount := sh_released_amount sh +
      (if sh_default_resolution sh = ResolveSupplier then payment else 0)\<rparr>" by simp_all
qed

text \<open>
  The default outcome never completes the shipment: the check runs while the milestone of the local
  shipment is still disputed.
\<close>

lemma timeout_resolve_Inr:
  assumes "timeout_resolve e i j sh m s = Inr t" and m: "m = sh_milestones sh ! j" "j < length (sh_milestones sh)"
    and disputed: "ms_status m = Disputed"
  obtains full payment sh' where "milestone_gross_payment s sh j = Inr full"
    "contested_payment full (k_dispute_contested_percent s (i, j)) = Inr payment"
    "k_shipment t = (k_shipment s)(i \<mapsto> sh')" "sh_milestones sh' = (sh_milestones sh)[j := m\<lparr>ms_status := Resolved\<rparr>]"
    "sh_status sh' = sh_status sh" "sh_open_dispute_count sh' = sh_open_dispute_count sh - 1"
    "sh_released_amount sh' = sh_released_amount sh + (if sh_default_resolution sh = ResolveSupplier then payment else 0)"
    "k_dispute_resolved_at t = k_dispute_resolved_at s"
proof -
  let ?pct = "k_dispute_contested_percent s (i, j)"
  obtain full payment s1 sh1 s2 s5 s6 sh2 v stats where
    g: "milestone_gross_payment s sh j = Inr full" "contested_payment full ?pct = Inr payment"
    and c: "timeout_pay e i payment sh s = Inr (s1, sh1)" "decrease_total_escrowed (sh_token sh1) payment s1 = Inr s2"
      "book_ruling i j sh1 (get_or 0 (ms_dispute_opened_ledger m)) v None
         ((drop_contested i j (?pct \<noteq> None) s2)\<lparr>k_dispute_opened_at :=
            (k_dispute_opened_at (drop_contested i j (?pct \<noteq> None) s2))((i, j) := None)\<rparr>) = Inr s5"
      "ruling_complete e (sh_arbiter sh) ''resolve_dispute_timeout'' stats i
         (append_audit_entry e (sh_arbiter sh) ''dispute_auto_resolved'' ''resolve_dispute_timeout'' sh1) s5 = Inr (s6, sh2)"
    and t: "k_shipment t = (k_shipment s6)(i \<mapsto> ruled_shipment e j (m\<lparr>ms_status := Resolved\<rparr>) sh2)"
      "k_dispute_resolved_at t = k_dispute_resolved_at s6"
    using assms(1) by (auto simp: timeout_resolve_def Let_def bindE_Inr emit_dispute_resolved_def split: prod.splits)
  note f = asideD(1,2) [OF aside_payout_timeout(1) [OF c(1)]] asideD(1,2) [OF aside_decrease [OF c(2)]]
    asideD(1,2) [OF aside_book_ruling [OF c(3)]] asideD(1,2) [OF ruling_complete_Inr(1) [OF c(4)]]
  note sh1 = aside_payout_timeout(2) [OF c(1)]
  have "m \<in> set (sh_milestones sh1)" using m sh1 by simp
  then have "\<not> all_milestones_done sh1" using disputed by (auto simp: all_milestones_done_def done_status_def intro!: bexI [of _ m])
  moreover have "completed sh1 sh2" using ruling_complete_Inr(2) [OF c(4)] by simp
  ultimately have sh2: "same_standing sh1 sh2" "sh_released_amount sh2 = sh_released_amount sh1"
    by (simp_all add: completed_def)
  have "k_shipment t = (k_shipment s)(i \<mapsto> ruled_shipment e j (m\<lparr>ms_status := Resolved\<rparr>) sh2)"
    "k_dispute_resolved_at t = k_dispute_resolved_at s"
    using t f by simp_all
  with that [OF g this(1)] show thesis
    using same_standingD [OF sh2(1)] sh2(2) sh1 by (simp add: ruled_shipment_fields)
qed

lemma moved_timeout:
  assumes "resolve_dispute_timeout e i j s = Inr t"
  obtains sh backup where "k_shipment s i = Some sh" "sh_status sh = Active" "k_backup_arbiter s i = Some backup"
    "k_shipment t = (k_shipment s)(i \<mapsto> append_audit_entry e (sh_arbiter sh) ''dispute_timeout_handoff''
       ''resolve_dispute_timeout'' (sh\<lparr>sh_arbiter := backup\<rparr>))"
    "k_dispute_resolved_at t = k_dispute_resolved_at s" "calls t = calls s"
  | sh opened where "k_shipment s i = Some sh" "sh_status sh = Active" "j < length (sh_milestones sh)"
    "ms_status (sh_milestones sh ! j) = Disputed" "sh_dispute_timeout_seconds sh \<noteq> 0"
    "k_dispute_opened_at s (i, j) = Some opened" "opened + sh_dispute_timeout_seconds sh \<le> timestamp e"
    "timeout_resolve e i j sh (sh_milestones sh ! j) s = Inr t"
    "moved i j sh ((sh_milestones sh ! j)\<lparr>ms_status := Resolved\<rparr>) s t"
proof -
  obtain sh opened where a: "k_shipment s i = Some sh" "sh_status sh = Active" "j < length (sh_milestones sh)"
    "ms_status (sh_milestones sh ! j) = Disputed" "sh_dispute_timeout_seconds sh \<noteq> 0"
    "k_dispute_opened_at s (i, j) = Some opened" "opened + sh_dispute_timeout_seconds sh \<le> timestamp e"
    and r: "(case k_backup_arbiter s i of
             Some backup \<Rightarrow>
               if sh_arbiter sh \<noteq> backup then Inr (timeout_handoff e backup i j sh s)
               else timeout_resolve e i j sh (sh_milestones sh ! j) s
           | None \<Rightarrow> timeout_resolve e i j sh (sh_milestones sh ! j) s) = Inr t"
    using assms by (auto simp: resolve_dispute_timeout_def Let_def res_simps not_less)
  show thesis
  proof (cases "\<exists>backup. k_backup_arbiter s i = Some backup \<and> sh_arbiter sh \<noteq> backup")
    case True
    then obtain backup where b: "k_backup_arbiter s i = Some backup" "sh_arbiter sh \<noteq> backup" by blast
    then have t: "t = timeout_handoff e backup i j sh s" using r by simp
    show thesis
      by (rule that(1) [OF a(1,2) b(1)])
         (simp_all add: t timeout_handoff_def Let_def reindex_arbiter_def add_to_party_index_def
            remove_from_party_index_def)
  next
    case False
    then have r': "timeout_resolve e i j sh (sh_milestones sh ! j) s = Inr t"
      using r by (cases "k_backup_arbiter s i") auto
    show thesis
    proof (rule that(2) [OF a r'])
      show "moved i j sh ((sh_milestones sh ! j)\<lparr>ms_status := Resolved\<rparr>) s t"
        using timeout_resolve_Inr [OF r' refl a(3,4)] a(4) unfolding moved_def by fastforce
    qed
  qed
qed

section \<open>Mediation\<close>

lemma mediation_pay_Inr:
  assumes "mediation_pay e i j suggested payment sh s = Inr (t, sh')"
  shows "aside s t" "sh' = sh\<lparr>sh_released_amount := sh_released_amount sh + payment\<rparr>"
proof -
  have "aside s t \<and> sh' = sh\<lparr>sh_released_amount := sh_released_amount sh + payment\<rparr>"
  proof (cases "suggested = ResolveSupplier")
    case True
    then obtain s1 net fee s2 s3 s4 p s5 where
      c: "deduct_fee_for_shipment e payment (sh_token sh) i s = Inr (s1, net, fee)"
      "check_circuit_breaker (sequence e) payment s1 = Inr s2"
      "check_address_outflow (sh_supplier sh) (sequence e) payment s2 = Inr s3"
      "pay_milestone_to_payees e i j net (sh_supplier sh) (sh_token sh) s3 = Inr s4"
      "record_release_counters (sh_supplier sh) p (sh_token sh) payment net s4 = Inr s5"
      "pay_bond e sh p (sh_dispute_bond_amount sh) s5 = Inr t"
      "sh' = sh\<lparr>sh_released_amount := sh_released_amount sh + payment\<rparr>"
      using assms by (auto simp: mediation_pay_def bindE_Inr ck_i128_Inr split: prod.splits)
    then show ?thesis
      using aside_deduct_ship [OF c(1)] aside_breaker [OF c(2)] aside_outflow [OF c(3)] aside_payout [OF c(4)]
        aside_counters [OF c(5)] aside_bond [OF c(6)] by (simp add: aside_def)
  next
    case False
    then obtain p s1 where c: "whenE (0 < payment) (token_pay e (sh_token sh) (this e) p payment) s = Inr s1"
      "pay_bond e sh (sh_supplier sh) (sh_dispute_bond_amount sh) s1 = Inr t"
      "sh' = sh\<lparr>sh_released_amount := sh_released_amount sh + payment\<rparr>"
      using assms by (auto simp: mediation_pay_def bindE_Inr ck_i128_Inr)
    then show ?thesis using aside_pay_when [OF c(1)] aside_bond [OF c(2)] by (simp add: aside_def)
  qed
  then show "aside s t" "sh' = sh\<lparr>sh_released_amount := sh_released_amount sh + payment\<rparr>" by simp_all
qed

lemma apply_mediation_Inr:
  assumes "apply_mediation_outcome e i j suggested mediator sh s = Inr t"
  obtains full payment sh' where "j < length (sh_milestones sh)" "milestone_gross_payment s sh j = Inr full"
    "contested_payment full (k_dispute_contested_percent s (i, j)) = Inr payment"
    "k_shipment t = (k_shipment s)(i \<mapsto> sh')"
    "sh_milestones sh' = (sh_milestones sh)[j := (sh_milestones sh ! j)\<lparr>ms_status := Resolved\<rparr>]"
    "sh_status sh' = (if all_milestones_done sh' then Completed else sh_status sh)"
    "sh_open_dispute_count sh' = sh_open_dispute_count sh - 1"
    "sh_released_amount sh' = sh_released_amount sh + payment"
    "k_dispute_resolved_at t = k_dispute_resolved_at s"
proof -
  let ?pct = "k_dispute_contested_percent s (i, j)" and ?m = "sh_milestones sh ! j"
  obtain full payment s1 sh1 v s2 s3 s6 sh3 stats where
    g: "j < length (sh_milestones sh)" "milestone_gross_payment s sh j = Inr full"
      "contested_payment full ?pct = Inr payment"
    and c: "mediation_pay e i j suggested payment sh s = Inr (s1, sh1)"
      "book_ruling i j sh1 (get_or 0 (ms_dispute_opened_ledger ?m)) v None s1 = Inr s2"
      "decrease_total_escrowed (sh_token sh1) payment s2 = Inr s3"
      "ruling_complete e mediator ''accept_mediation'' stats i
         (append_audit_entry e mediator ''mediation_accepted'' ''accept_mediation''
            (set_milestone j (?m\<lparr>ms_status := Resolved\<rparr>) sh1))
         ((drop_contested i j (?pct \<noteq> None) s3)\<lparr>k_dispute_opened_at :=
            (k_dispute_opened_at (drop_contested i j (?pct \<noteq> None) s3))((i, j) := None)\<rparr>) = Inr (s6, sh3)"
    and t: "k_shipment t = (k_shipment s6)(i \<mapsto> sh3\<lparr>sh_open_dispute_count := sh_open_dispute_count sh3 - 1,
        sh_last_dispute_resolved_ledger := Some (sequence e)\<rparr>)"
      "k_dispute_resolved_at t = k_dispute_resolved_at s6"
    using assms
    by (auto simp: apply_mediation_outcome_def Let_def bindE_Inr vec_get_unwrap_Inr emit_dispute_resolved_def
        split: prod.splits)
  note f = asideD(1,2) [OF mediation_pay_Inr(1) [OF c(1)]] asideD(1,2) [OF aside_book_ruling [OF c(2)]]
    asideD(1,2) [OF aside_decrease [OF c(3)]] asideD(1,2) [OF ruling_complete_Inr(1) [OF c(4)]]
  note sh1 = mediation_pay_Inr(2) [OF c(1)]
  let ?sh2 = "set_milestone j (?m\<lparr>ms_status := Resolved\<rparr>) sh1"
  let ?sh4 = "sh3\<lparr>sh_open_dispute_count := sh_open_dispute_count sh3 - 1,
        sh_last_dispute_resolved_ledger := Some (sequence e)\<rparr>"
  have "completed ?sh2 sh3" using ruling_complete_Inr(2) [OF c(4)] by simp
  then have s: "same_standing (if all_milestones_done ?sh2 then ?sh2\<lparr>sh_status := Completed\<rparr> else ?sh2) sh3"
    "sh_released_amount sh3 = sh_released_amount ?sh2" by (simp_all add: completed_def)
  have ms: "sh_milestones sh3 = (sh_milestones sh)[j := ?m\<lparr>ms_status := Resolved\<rparr>]"
    using same_standingD(1) [OF s(1)] by (simp add: set_milestone_def sh1)
  have d: "all_milestones_done ?sh4 = all_milestones_done ?sh2"
    by (rule all_done_cong) (simp add: ms set_milestone_def sh1)
  show thesis
  proof (rule that [OF g])
    show "k_shipment t = (k_shipment s)(i \<mapsto> ?sh4)" using t(1) f by simp
    show "k_dispute_resolved_at t = k_dispute_resolved_at s" using t(2) f by simp
    show "sh_status ?sh4 = (if all_milestones_done ?sh4 then Completed else sh_status sh)"
      using same_standingD(2) [OF s(1)] unfolding d by (simp add: set_milestone_def sh1)
  qed (use ms same_standingD(3) [OF s(1)] s(2) in \<open>simp_all add: set_milestone_def sh1\<close>)
qed

lemma moved_mediation:
  assumes "accept_mediation e caller i j s = Inr t"
  obtains sh where "k_shipment s i = Some sh" "sh_status sh = Active" "k_shipment t = k_shipment s" "k_dispute_resolved_at t = k_dispute_resolved_at s" "calls t = calls s"
  | sh p where "k_shipment s i = Some sh" "sh_status sh = Active" "j < length (sh_milestones sh)"
    "ms_status (sh_milestones sh ! j) = Disputed" "k_mediation_proposal s (i, j) = Some p"
    "caller \<in> set (signers e)"
    "if is_buyer sh caller then mp_supplier_accepted p else mp_buyer_accepted p \<and> caller = sh_supplier sh"
    "apply_mediation_outcome e i j (mp_suggested_outcome p) (mp_mediator p) sh
       (s\<lparr>k_mediation_proposal := (k_mediation_proposal s)((i, j) := None)\<rparr>) = Inr t"
    "moved i j sh ((sh_milestones sh ! j)\<lparr>ms_status := Resolved\<rparr>) s t"
proof -
  obtain sh p0 where a: "k_shipment s i = Some sh" "sh_status sh = Active" "j < length (sh_milestones sh)"
    "ms_status (sh_milestones sh ! j) = Disputed" "k_mediation_proposal s (i, j) = Some p0"
    "caller \<in> set (signers e)" "is_buyer sh caller \<or> caller = sh_supplier sh"
    and r: "(let p = (if is_buyer sh caller then p0\<lparr>mp_buyer_accepted := True\<rparr> else p0\<lparr>mp_supplier_accepted := True\<rparr>)
     in if mp_buyer_accepted p \<and> mp_supplier_accepted p
        then apply_mediation_outcome e i j (mp_suggested_outcome p) (mp_mediator p) sh
               (s\<lparr>k_mediation_proposal := (k_mediation_proposal s)((i, j) := None)\<rparr>)
        else Inr (s\<lparr>k_mediation_proposal := (k_mediation_proposal s)((i, j) \<mapsto> p)\<rparr>)) = Inr t"
    using assms by (auto simp: accept_mediation_def assert_buyer_or_supplier_def res_simps)
  let ?ok = "if is_buyer sh caller then mp_supplier_accepted p0 else mp_buyer_accepted p0 \<and> caller = sh_supplier sh"
  show thesis
  proof (cases ?ok)
    case True
    then have r': "apply_mediation_outcome e i j (mp_suggested_outcome p0) (mp_mediator p0) sh
       (s\<lparr>k_mediation_proposal := (k_mediation_proposal s)((i, j) := None)\<rparr>) = Inr t"
      using r by (simp add: Let_def split: if_splits)
    show thesis
    proof (rule that(2) [OF a(1-6) True r'])
      show "moved i j sh ((sh_milestones sh ! j)\<lparr>ms_status := Resolved\<rparr>) s t"
        using apply_mediation_Inr [OF r'] a(4) unfolding moved_def by fastforce
    qed
  next
    case False
    then show thesis using r a(7) that(1) [OF a(1,2)] by (auto simp: Let_def split: if_splits)
  qed
qed

section \<open>The decision of a panel\<close>

definition panel_verdict :: "bool \<Rightarrow> bool \<Rightarrow> int \<Rightarrow> milestone_status \<times> int" where
  "panel_verdict approve is_partial payment =
     (if approve \<or> is_partial then (Resolved, payment) else (Pending, 0))"

lemma rule_panel_Inr:
  assumes "rule_panel e i j approve payment is_partial votes sh s = Inr (t, sh', st, v)"
  shows "aside s t" "same_standing sh sh'" "st = fst (panel_verdict approve is_partial payment)"
    "sh_released_amount sh' = sh_released_amount sh + snd (panel_verdict approve is_partial payment)"
proof -
  have "aside s t \<and> same_standing sh sh' \<and> st = fst (panel_verdict approve is_partial payment) \<and>
    sh_released_amount sh' = sh_released_amount sh + snd (panel_verdict approve is_partial payment)"
  proof (cases approve)
    case True
    then obtain s1 actual refund fa p s2 where
      c: "award_supplier e (distribute_panel_fee e (sh_token sh) i j votes) i j payment
            (max (sh_dispute_bond_amount sh) 0) sh s = Inr (s1, sh', actual, refund, fa)"
        "record_release_counters (sh_supplier sh') p (sh_token sh') payment actual s1 = Inr s2"
        "pay_bond e sh' p refund s2 = Inr t" "st = Resolved"
      using assms by (auto simp: rule_panel_def bindE_Inr split: prod.splits)
    note a = award_supplier_Inr [OF c(1) aside_panel_fee]
    show ?thesis
      using a aside_counters [OF c(2)] aside_bond [OF c(3)] True c(4) by (simp add: panel_verdict_def aside_def)
  next
    case False
    show ?thesis
    proof (cases is_partial)
      case True
      then have c: "award_buyer e (distribute_panel_fee e (sh_token sh) i j votes) i j payment sh s = Inr (t, sh')"
        "st = Resolved"
        using assms False by (auto simp: rule_panel_def bindE_Inr split: prod.splits)
      show ?thesis using award_buyer_Inr [OF c(1) aside_panel_fee] c(2) True
        by (simp add: panel_verdict_def same_standing_def)
    next
      case whole: False
      then show ?thesis using assms False aside_bond by (auto simp: rule_panel_def panel_verdict_def bindE_Inr)
    qed
  qed
  then show "aside s t" "same_standing sh sh'" "st = fst (panel_verdict approve is_partial payment)"
    "sh_released_amount sh' = sh_released_amount sh + snd (panel_verdict approve is_partial payment)" by simp_all
qed

lemma panel_internal_Inr:
  assumes "resolve_dispute_panel_internal e i j approve a votes s = Inr t"
  obtains sh full payment where "k_shipment s i = Some sh" "j < length (sh_milestones sh)"
    "milestone_gross_payment s sh j = Inr full"
    "contested_payment full (k_dispute_contested_percent s (i, j)) = Inr payment"
    "ruled i j sh ((sh_milestones sh ! j)\<lparr>ms_status :=
        fst (panel_verdict approve (k_dispute_contested_percent s (i, j) \<noteq> None) payment)\<rparr>)
      (snd (panel_verdict approve (k_dispute_contested_percent s (i, j) \<noteq> None) payment)) s t"
    "k_dispute_resolved_at t = k_dispute_resolved_at s"
proof -
  let ?pct = "k_dispute_contested_percent s (i, j)"
  obtain sh full payment s1 sh1 st v s2 n s4 stats s5 sh3 where
    g: "k_shipment s i = Some sh" "j < length (sh_milestones sh)" "milestone_gross_payment s sh j = Inr full"
      "contested_payment full ?pct = Inr payment"
    and c: "rule_panel e i j approve payment (?pct \<noteq> None) votes sh s = Inr (s1, sh1, st, v)"
      "book_ruling i j sh1 (get_or 0 (ms_dispute_opened_ledger (sh_milestones sh ! j))) (Some v) None s1 = Inr s2"
      "count_ruling a approve n (drop_contested i j (?pct \<noteq> None) s2) = Inr s4"
      "ruling_complete e a ''cast_dispute_vote'' stats i (append_audit_entry e a ''dispute_resolved'' ''cast_dispute_vote''
          (ruled_shipment e j ((sh_milestones sh ! j)\<lparr>ms_status := st\<rparr>) sh1)) s4 = Inr (s5, sh3)"
    and t: "k_shipment t = (k_shipment s5)(i \<mapsto> sh3)" "k_dispute_resolved_at t = k_dispute_resolved_at s5"
    using assms
    by (auto simp: resolve_dispute_panel_internal_def Let_def bindE_Inr get_shipment_Inr vec_get_unwrap_Inr
        emit_dispute_resolved_def split: prod.splits)
  note r = rule_panel_Inr [OF c(1)]
  note f = asideD(1,2) [OF r(1)] asideD(1,2) [OF aside_book_ruling [OF c(2)]] asideD(1,2) [OF aside_count [OF c(3)]]
    asideD(1,2) [OF ruling_complete_Inr(1) [OF c(4)]]
  have res: "k_dispute_resolved_at t = k_dispute_resolved_at s" using t(2) f by simp
  show thesis
  proof (rule that [OF g _ res], unfold r(3) [symmetric], rule ruledI)
    show "k_shipment t = (k_shipment s)(i \<mapsto> sh3)" using t(1) f by simp
    show "completed (ruled_shipment e j ((sh_milestones sh ! j)\<lparr>ms_status := st\<rparr>) sh1) sh3"
      using ruling_complete_Inr(2) [OF c(4)] by simp
  qed (use r(2,4) res in simp_all)
qed

text \<open>A vote decides as soon as one side has \<open>n\<close> votes; before that it is only recorded.\<close>

definition voted :: "sid \<Rightarrow> nat \<Rightarrow> shipment \<Rightarrow> dispute_vote list \<Rightarrow> nat \<Rightarrow> settle \<Rightarrow> settle \<Rightarrow> bool" where
  "voted i j sh votes n s t \<longleftrightarrow>
     (if n \<le> votes_for True votes \<or> n \<le> votes_for False votes
      then k_dispute_resolved_at t = k_dispute_resolved_at s \<and>
        (\<exists>full payment. milestone_gross_payment s sh j = Inr full \<and>
           contested_payment full (k_dispute_contested_percent s (i, j)) = Inr payment \<and>
           ruled i j sh ((sh_milestones sh ! j)\<lparr>ms_status := fst (panel_verdict (n \<le> votes_for True votes)
                (k_dispute_contested_percent s (i, j) \<noteq> None) payment)\<rparr>)
             (snd (panel_verdict (n \<le> votes_for True votes) (k_dispute_contested_percent s (i, j) \<noteq> None) payment)) s t)
      else k_shipment t = k_shipment s \<and> k_dispute_resolved_at t = k_dispute_resolved_at s \<and> calls t = calls s \<and>
        k_dispute_votes t = (k_dispute_votes s)((i, j) \<mapsto> votes))"

lemma cast_vote_cases:
  assumes "cast_dispute_vote e a i j approve s = Inr t"
  obtains sh panel where "k_shipment s i = Some sh" "sh_status sh = Active" "j < length (sh_milestones sh)"
    "ms_status (sh_milestones sh ! j) = Disputed" "a \<in> set (signers e)" "k_arbiter_panel s i = Some panel"
    "a \<in> set panel" "a \<notin> dv_arbiter ` set (get_or [] (k_dispute_votes s (i, j)))"
    "voted i j sh (get_or [] (k_dispute_votes s (i, j)) @ [\<lparr>dv_arbiter = a, dv_approve = approve\<rparr>])
       (length panel div 2 + 1) s t"
proof -
  define votes where "votes = get_or [] (k_dispute_votes s (i, j)) @ [\<lparr>dv_arbiter = a, dv_approve = approve\<rparr>]"
  define s1 where "s1 = emit [VStr ''dispute_vote_cast'', VStr i] [VNat j, VAddr a, VBool approve, VNat (length votes)]
                   (s\<lparr>k_dispute_votes := (k_dispute_votes s)((i, j) \<mapsto> votes)\<rparr>)"
  define s2 where "s2 = s1\<lparr>k_dispute_votes := (k_dispute_votes s1)((i, j) := None),
                      k_panel_escalated := (k_panel_escalated s1)((i, j) := None)\<rparr>"
  obtain sh panel where g: "k_shipment s i = Some sh" "sh_status sh = Active" "j < length (sh_milestones sh)"
    "ms_status (sh_milestones sh ! j) = Disputed" "a \<in> set (signers e)" "k_arbiter_panel s i = Some panel"
    "a \<in> set panel" "a \<notin> dv_arbiter ` set (get_or [] (k_dispute_votes s (i, j)))"
    and r: "(let threshold = length panel div 2 + 1
        in if threshold \<le> votes_for True votes \<or> threshold \<le> votes_for False votes
           then resolve_dispute_panel_internal e i j (threshold \<le> votes_for True votes) a votes s2 else Inr s1) = Inr t"
    using assms unfolding s2_def s1_def votes_def
    by (auto simp: cast_dispute_vote_def Let_def res_simps not_le)
  let ?n = "length panel div 2 + 1"
  show thesis
  proof (rule that [OF g], fold votes_def, cases "?n \<le> votes_for True votes \<or> ?n \<le> votes_for False votes")
    case True
    then have "resolve_dispute_panel_internal e i j (?n \<le> votes_for True votes) a votes s2 = Inr t"
      using r by (simp add: Let_def)
    then obtain sh' full payment where p: "k_shipment s2 i = Some sh'" "milestone_gross_payment s2 sh' j = Inr full"
      "contested_payment full (k_dispute_contested_percent s2 (i, j)) = Inr payment"
      "ruled i j sh' ((sh_milestones sh' ! j)\<lparr>ms_status := fst (panel_verdict (?n \<le> votes_for True votes)
                  (k_dispute_contested_percent s2 (i, j) \<noteq> None) payment)\<rparr>)
         (snd (panel_verdict (?n \<le> votes_for True votes) (k_dispute_contested_percent s2 (i, j) \<noteq> None) payment)) s2 t"
      "k_dispute_resolved_at t = k_dispute_resolved_at s2"
      by (rule panel_internal_Inr)
    have f: "k_shipment s2 = k_shipment s" "k_dispute_contested_percent s2 = k_dispute_contested_percent s"
      "k_dispute_resolved_at s2 = k_dispute_resolved_at s"
      "milestone_gross_payment s2 sh j = milestone_gross_payment s sh j"
      by (simp_all add: s2_def s1_def, rule gross_cong) (simp_all add: emit_def)
    have "sh' = sh" using p(1) g(1) f(1) by simp
    with True p f show "voted i j sh votes ?n s t" by (simp add: voted_def ruled_def)
  qed (use r in \<open>auto simp: Let_def s1_def voted_def\<close>)
qed

section \<open>Splits\<close>

lemma split_supplier_Inr:
  assumes "pay_split_supplier e i j share part sh s = Inr (t, net, fee)"
  shows "aside s t"
proof (cases "share \<le> 0")
  case False
  then obtain s1 s2 s3 s4 n net0 where
    c: "check_circuit_breaker (sequence e) share s = Inr s1"
      "check_address_outflow (sh_supplier sh) (sequence e) share s1 = Inr s2"
      "deduct_fee e share (sh_token sh) s2 = Inr (s3, net0, fee)" "track_shipment_fees_paid i fee s3 = Inr s4"
      "pay_milestone_to_payees e i j n (sh_supplier sh) (sh_token sh) s4 = Inr t"
    using assms by (auto simp: pay_split_supplier_def Let_def bindE_Inr split: prod.splits)
  show ?thesis
    using aside_breaker [OF c(1)] aside_outflow [OF c(2)] aside_deduct [OF c(3)] aside_fees_paid [OF c(4)]
      aside_payout [OF c(5)] by (simp add: aside_def)
qed (use assms in \<open>simp add: pay_split_supplier_def\<close>)

lemma split_payout_Inr:
  assumes "settle_split_payout e i j bps contested sh s = Inr (t, sh')"
  shows "aside s t" "sh' = sh\<lparr>sh_released_amount := sh_released_amount sh + contested\<rparr>"
proof -
  obtain fee s1 x a b s2 net pf c p s3 d q s4 s5 where
    c: "pay_arbiter e sh fee s = Inr (s1, x)" "pay_split_supplier e i j a b sh s1 = Inr (s2, net, pf)"
      "whenE (0 < c) (token_pay e (sh_token sh) (this e) p c) s2 = Inr s3" "pay_bond e sh p d s3 = Inr s4"
      "pay_bond e sh (sh_supplier sh) q s4 = Inr s5" "aside s5 t"
    and sh': "sh' = sh\<lparr>sh_released_amount := sh_released_amount sh + contested\<rparr>"
    using assms by (auto simp: settle_split_payout_def Let_def bindE_Inr ck_i128_Inr split: prod.splits dest!: aside_counters)
  show "aside s t"
    using aside_pay_arbiter [OF c(1)] split_supplier_Inr [OF c(2)] aside_pay_when [OF c(3)] aside_bond [OF c(4)]
      aside_bond [OF c(5)] c(6) by (simp add: aside_def)
  show "sh' = sh\<lparr>sh_released_amount := sh_released_amount sh + contested\<rparr>" by (fact sh')
qed

text \<open>The milestone after a split: parked for a while, or resolved at once.\<close>

definition split_verdict :: "settle_env \<Rightarrow> nat \<Rightarrow> int \<Rightarrow> milestone \<Rightarrow> milestone \<times> int" where
  "split_verdict e park contested m =
     (if 0 < park
      then (m\<lparr>ms_status := ResolvedPendingFinality, ms_release_after_ledger := sat_add_u32 (sequence e) park\<rparr>, 0)
      else (m\<lparr>ms_status := Resolved\<rparr>, contested))"

lemma split_now_Inr:
  assumes "split_now e i j bps contested park sh m s = Inr (t, sh', m')"
  shows "k_shipment t = k_shipment s" "k_dispute_resolved_at t = k_dispute_resolved_at s" "same_standing sh sh'"
    "m' = fst (split_verdict e park contested m)"
    "sh_released_amount sh' = sh_released_amount sh + snd (split_verdict e park contested m)"
    "0 < park \<Longrightarrow> k_pending_split t = (k_pending_split s)((i, j) \<mapsto> (bps, contested)) \<and> calls t = calls s"
    "park = 0 \<Longrightarrow> \<exists>u sh1. settle_split_payout e i j bps contested sh s = Inr (u, sh1)"
proof -
  have "k_shipment t = k_shipment s \<and> k_dispute_resolved_at t = k_dispute_resolved_at s \<and> same_standing sh sh' \<and>
    m' = fst (split_verdict e park contested m) \<and>
    sh_released_amount sh' = sh_released_amount sh + snd (split_verdict e park contested m)"
  proof (cases "0 < park")
    case False
    then obtain u where u: "settle_split_payout e i j bps contested sh s = Inr (u, sh')" "t = drop_contested i j True u"
      "m' = m\<lparr>ms_status := Resolved\<rparr>"
      using assms by (auto simp: split_now_def bindE_Inr split: prod.splits)
    then show ?thesis
      using asideD(1,2) [OF split_payout_Inr(1) [OF u(1)]] split_payout_Inr(2) [OF u(1)] False
      by (simp add: split_verdict_def same_standing_def)
  qed (use assms in \<open>auto simp: split_now_def split_verdict_def\<close>)
  note r = this
  show "k_shipment t = k_shipment s" "k_dispute_resolved_at t = k_dispute_resolved_at s" "same_standing sh sh'"
    "m' = fst (split_verdict e park contested m)"
    "sh_released_amount sh' = sh_released_amount sh + snd (split_verdict e park contested m)" using r by simp_all
  show "0 < park \<Longrightarrow> k_pending_split t = (k_pending_split s)((i, j) \<mapsto> (bps, contested)) \<and> calls t = calls s"
    "park = 0 \<Longrightarrow> \<exists>u sh1. settle_split_payout e i j bps contested sh s = Inr (u, sh1)"
    using assms by (auto simp: split_now_def bindE_Inr split: prod.splits)
qed

text \<open>The completion step of a split: none while it is parked.\<close>

definition after_split :: "bool \<Rightarrow> shipment \<Rightarrow> shipment \<Rightarrow> bool" where
  "after_split parked a b \<longleftrightarrow> (if parked then b = a else completed a b)"

lemma after_split_step:
  assumes "(if parked then \<lambda>sh s. Inr (s, sh) else complete_shipment_if_done e a i) sh u = Inr (v, sh')"
  shows "k_shipment v = k_shipment u \<and> after_split parked sh sh' \<and>
     (\<forall>x. k_dispute_resolved_at v x = k_dispute_resolved_at u x \<or> k_dispute_resolved_at v x = None)"
proof (cases parked)
  case False
  then have c: "complete_shipment_if_done e a i sh u = Inr (v, sh')" using assms by simp
  show ?thesis using complete_if_done_Inr(1-3) [OF c] False by (simp add: after_split_def)
qed (use assms in \<open>simp add: after_split_def\<close>)

lemma after_split_completed:
  assumes "after_split parked (append_audit_entry e a x y sh) sh'" "parked \<longrightarrow> \<not> all_milestones_done sh"
  shows "completed sh sh'"
proof (cases parked)
  case True
  have "completed sh (append_audit_entry e a x y sh)"
    using True assms(2) by (simp add: completed_def append_audit_entry_def same_standing_def)
  then show ?thesis using assms(1) True by (simp add: after_split_def)
qed (use assms in \<open>simp add: after_split_def\<close>)

lemma resolve_split_cases:
  assumes "resolve_dispute_split e a i j bps s = Inr t"
  obtains sh full contested where "k_shipment s i = Some sh" "sh_status sh = Active" "a \<in> set (signers e)"
    "a = sh_arbiter sh" "j < length (sh_milestones sh)" "ms_status (sh_milestones sh ! j) = Disputed"
    "\<not> is_dispute_panel_escalated s i j" "k_grade_dispute s (i, j) = None" "bps \<le> 10000"
    "milestone_gross_payment s sh j = Inr full"
    "contested_payment full (k_dispute_contested_percent s (i, j)) = Inr contested"
    "ruled i j sh (fst (split_verdict e (split_park_ledgers s i j) contested (sh_milestones sh ! j)))
       (snd (split_verdict e (split_park_ledgers s i j) contested (sh_milestones sh ! j))) s t"
proof -
  let ?pct = "k_dispute_contested_percent s (i, j)" and ?park = "split_park_ledgers s i j"
  let ?s1 = "s\<lparr>k_dispute_split_bps := (k_dispute_split_bps s)((i, j) \<mapsto> bps)\<rparr>"
  obtain sh where a: "k_shipment s i = Some sh" "sh_status sh = Active" "a \<in> set (signers e)" "a = sh_arbiter sh"
    "j < length (sh_milestones sh)" "ms_status (sh_milestones sh ! j) = Disputed"
    "\<not> is_dispute_panel_escalated s i j" "k_grade_dispute s (i, j) = None" "bps \<le> 10000"
    using assms by (auto simp: resolve_dispute_split_def Let_def res_simps not_less simp del: not_None_eq split: if_splits)
  let ?m = "sh_milestones sh ! j"
  obtain full contested s2 sh1 m1 v s3 n op s4 sh2 r b where
    g: "milestone_gross_payment s sh j = Inr full" "contested_payment full ?pct = Inr contested"
    and c: "split_now e i j bps contested ?park sh ?m ?s1 = Inr (s2, sh1, m1)"
      "book_ruling i j sh1 (get_or 0 (ms_dispute_opened_ledger ?m)) (Some v) None s2 = Inr s3"
      "close_ruling e a i j b r n ''dispute_split_resolved'' ''resolve_dispute_split'' op
         (if 0 < ?park then \<lambda>sh s. Inr (s, sh) else complete_shipment_if_done e a i) m1 sh1 s3 = Inr (s4, sh2)"
    and t: "k_shipment t = k_shipment s4" "k_dispute_resolved_at t = k_dispute_resolved_at s4"
    using assms a
    by (auto simp: resolve_dispute_split_def Let_def res_simps emit_dispute_resolved_def simp del: if_split
        split: prod.splits)
  note r = split_now_Inr [OF c(1)] and f = asideD(1,2) [OF aside_book_ruling [OF c(2)]]
  have step: "k_shipment w = k_shipment u \<and> after_split (0 < ?park) c c' \<and>
      (\<forall>x. k_dispute_resolved_at w x = k_dispute_resolved_at u x \<or> k_dispute_resolved_at w x = None)"
    if "(if 0 < ?park then \<lambda>sh s. Inr (s, sh) else complete_shipment_if_done e a i) c u = Inr (w, c')" for c u w c'
    using that by (rule after_split_step)
  have f': "k_shipment s4 = (k_shipment s3)(i \<mapsto> sh2)"
    "\<forall>x. x \<noteq> (i, j) \<longrightarrow> k_dispute_resolved_at s4 x = k_dispute_resolved_at s3 x \<or> k_dispute_resolved_at s4 x = None"
    "after_split (0 < ?park) (append_audit_entry e a ''dispute_split_resolved'' ''resolve_dispute_split''
       (ruled_shipment e j m1 sh1)) sh2"
    by (rule close_ruling_Inr [where Q = "after_split (0 < ?park)", OF c(3) step]; assumption)+
  have "m1 \<in> set (sh_milestones (ruled_shipment e j m1 sh1))"
    using a(5) same_standingD(1) [OF r(3)] by (simp add: ruled_shipment_fields set_update_memI)
  moreover have "0 < ?park \<Longrightarrow> \<not> done_status (ms_status m1)"
    using r(4) by (simp add: split_verdict_def done_status_def)
  ultimately have "0 < ?park \<longrightarrow> \<not> all_milestones_done (ruled_shipment e j m1 sh1)"
    by (auto simp: all_milestones_done_def)
  then have d: "completed (ruled_shipment e j m1 sh1) sh2" by (rule after_split_completed [OF f'(3)])
  show thesis
  proof (rule that [OF a g], unfold r(4) [symmetric], rule ruledI)
    show "k_shipment t = (k_shipment s)(i \<mapsto> sh2)" using t(1) f f' r by simp
    show "\<forall>x. x \<noteq> (i, j) \<longrightarrow> k_dispute_resolved_at t x = k_dispute_resolved_at s x \<or> k_dispute_resolved_at t x = None"
      using t(2) f f' r by simp
  qed (use r(3,5) d in simp_all)
qed

section \<open>Payout after the finality delay\<close>

text \<open>The milestone becomes resolved and the parked amount is released; the open disputes stay.\<close>

definition finalized :: "sid \<Rightarrow> nat \<Rightarrow> shipment \<Rightarrow> int \<Rightarrow> settle \<Rightarrow> settle \<Rightarrow> bool" where
  "finalized i j sh given s t \<longleftrightarrow> (\<exists>sh'.
     k_shipment t = (k_shipment s)(i \<mapsto> sh') \<and>
     sh_milestones sh' = (sh_milestones sh)[j := (sh_milestones sh ! j)\<lparr>ms_status := Resolved, ms_release_after_ledger := 0\<rparr>] \<and>
     sh_status sh' = (if all_milestones_done sh' then Completed else sh_status sh) \<and>
     sh_open_dispute_count sh' = sh_open_dispute_count sh \<and>
     sh_released_amount sh' = sh_released_amount sh + given \<and>
     (\<forall>x. k_dispute_resolved_at t x = k_dispute_resolved_at s x \<or> k_dispute_resolved_at t x = None))"

lemma set_milestone_fields:
  "sh_milestones (set_milestone j m sh) = (sh_milestones sh)[j := m]" "sh_status (set_milestone j m sh) = sh_status sh"
  "sh_open_dispute_count (set_milestone j m sh) = sh_open_dispute_count sh"
  "sh_released_amount (set_milestone j m sh) = sh_released_amount sh"
  by (simp_all add: set_milestone_def)

lemma finalizedI:
  assumes "k_shipment t = (k_shipment s)(i \<mapsto> sh')"
    and "completed (set_milestone j ((sh_milestones sh ! j)\<lparr>ms_status := Resolved, ms_release_after_ledger := 0\<rparr>) sh1) sh'"
    and "same_standing sh sh1" and "sh_released_amount sh1 = sh_released_amount sh + given"
    and "\<forall>x. k_dispute_resolved_at t x = k_dispute_resolved_at s x \<or> k_dispute_resolved_at t x = None"
  shows "finalized i j sh given s t"
proof -
  let ?sh2 = "set_milestone j ((sh_milestones sh ! j)\<lparr>ms_status := Resolved, ms_release_after_ledger := 0\<rparr>) sh1"
  have c: "same_standing (if all_milestones_done ?sh2 then ?sh2\<lparr>sh_status := Completed\<rparr> else ?sh2) sh'"
    "sh_released_amount sh' = sh_released_amount ?sh2"
    using assms(2) by (simp_all add: completed_def)
  note d = same_standingD [OF c(1)] same_standingD [OF assms(3)]
  have ms: "sh_milestones sh' =
      (sh_milestones sh)[j := (sh_milestones sh ! j)\<lparr>ms_status := Resolved, ms_release_after_ledger := 0\<rparr>]"
    using d(1,11) by (simp add: set_milestone_def split: if_splits)
  have done_eq: "all_milestones_done ?sh2 = all_milestones_done sh'"
    using ms d(11) by (intro all_done_cong) (simp add: set_milestone_def)
  show ?thesis
    unfolding finalized_def
    by (rule exI [of _ sh'])
       (use assms(1,4,5) ms d(2,3,12,13) c(2) in \<open>simp add: done_eq set_milestone_fields\<close>)
qed

lemma finalize_split_Inr:
  assumes "finalize_split e i j bps contested sh (sh_milestones sh ! j) s = Inr t"
  shows "finalized i j sh contested s t"
proof -
  let ?m = "(sh_milestones sh ! j)\<lparr>ms_status := Resolved, ms_release_after_ledger := 0\<rparr>"
  obtain s1 sh1 s3 sh3 where
    c: "settle_split_payout e i j bps contested sh (s\<lparr>k_pending_split := (k_pending_split s)((i, j) := None)\<rparr>) = Inr (s1, sh1)"
      "complete_shipment_if_done e (sh_arbiter sh1) i (append_audit_entry e (sh_arbiter sh1) ''split_resolution_finalized''
         ''finalize_dispute_resolution'' (set_milestone j ?m sh1)) (drop_contested i j True s1) = Inr (s3, sh3)"
    and t: "k_shipment t = (k_shipment s3)(i \<mapsto> sh3)" "k_dispute_resolved_at t = k_dispute_resolved_at s3"
    using assms by (auto simp: finalize_split_def Let_def bindE_Inr split: prod.splits)
  note f = asideD(1,2) [OF split_payout_Inr(1) [OF c(1)]] and g = complete_if_done_Inr(1-3) [OF c(2)]
  note sh1 = split_payout_Inr(2) [OF c(1)]
  show ?thesis
  proof (rule finalizedI)
    show "k_shipment t = (k_shipment s)(i \<mapsto> sh3)" using t f g by simp
    show "completed (set_milestone j ?m sh1) sh3" using g(2) by simp
    show "\<forall>x. k_dispute_resolved_at t x = k_dispute_resolved_at s x \<or> k_dispute_resolved_at t x = None"
      using t f g by simp
  qed (simp_all add: sh1 same_standing_def)
qed

lemma finalize_award_Inr:
  assumes "finalize_award e i j sh (sh_milestones sh ! j) s = Inr t"
  obtains payment where "milestone_gross_payment s sh j = Inr payment" "finalized i j sh payment s t"
proof -
  let ?m = "(sh_milestones sh ! j)\<lparr>ms_status := Resolved, ms_release_after_ledger := 0\<rparr>"
  obtain payment s1 sh1 actual refund fa p s2 s3 s4 sh2 where g: "milestone_gross_payment s sh j = Inr payment"
    and c: "award_supplier e (pay_arbiter e sh) i j payment (max (sh_dispute_bond_amount sh) 0) sh s
              = Inr (s1, sh1, actual, refund, fa)"
      "record_release_counters (sh_supplier sh1) p (sh_token sh1) payment actual s1 = Inr s2"
      "pay_bond e sh1 p refund s2 = Inr s3"
      "finalize_complete e i (set_milestone j ?m sh1) s3 = Inr (s4, sh2)"
    and t: "k_shipment t = (k_shipment s4)(i \<mapsto> sh2)" "k_dispute_resolved_at t = k_dispute_resolved_at s4"
    using assms by (auto simp: finalize_award_def Let_def bindE_Inr emit_dispute_resolved_def split: prod.splits)
  note a = award_supplier_Inr [OF c(1) aside_pay_arbiter]
  note f = asideD(1,2) [OF a(1)] asideD(1,2) [OF aside_counters [OF c(2)]] asideD(1,2) [OF aside_bond [OF c(3)]]
    asideD(1,2) [OF finalize_complete_Inr(1) [OF c(4)]]
  have "finalized i j sh payment s t"
    by (rule finalizedI [of _ _ _ sh2 _ _ sh1])
       (use t f a(2,3) finalize_complete_Inr(2) [OF c(4)] in simp_all)
  with g show thesis by (rule that)
qed

lemma finalize_cases:
  assumes "finalize_dispute_resolution e i j s = Inr t"
  obtains sh payment where "k_shipment s i = Some sh" "sh_status sh = Active" "j < length (sh_milestones sh)"
    "ms_status (sh_milestones sh ! j) = ResolvedPendingFinality"
    "ms_release_after_ledger (sh_milestones sh ! j) \<le> sequence e"
    "case k_pending_split s (i, j) of Some (bps, contested) \<Rightarrow> payment = contested
       | None \<Rightarrow> milestone_gross_payment s sh j = Inr payment"
    "finalized i j sh payment s t"
proof -
  obtain sh where a: "k_shipment s i = Some sh" "sh_status sh = Active" "j < length (sh_milestones sh)"
    "ms_status (sh_milestones sh ! j) = ResolvedPendingFinality"
    "ms_release_after_ledger (sh_milestones sh ! j) \<le> sequence e"
    and r: "(case k_pending_split s (i, j) of
             Some (bps, contested) \<Rightarrow> finalize_split e i j bps contested sh (sh_milestones sh ! j) s
           | None \<Rightarrow> finalize_award e i j sh (sh_milestones sh ! j) s) = Inr t"
    using assms by (auto simp: finalize_dispute_resolution_def res_simps not_less)
  show thesis
  proof (cases "k_pending_split s (i, j)")
    case None
    then show thesis using r that [OF a] by (auto elim: finalize_award_Inr)
  next
    case (Some p)
    obtain bps contested where p: "p = (bps, contested)" by (cases p)
    then show thesis using r Some that [OF a, of contested] finalize_split_Inr by simp
  qed
qed

section \<open>Appeals\<close>

lemma record_arbiters_aside: "aside s (record_supplier_arbiters a as s)"
  by (simp add: record_supplier_arbiters_def Let_def aside_def)

lemma reindex_aside: "aside s (reindex_arbiter i a b s)"
  by (simp add: reindex_arbiter_def add_to_party_index_def remove_from_party_index_def Let_def aside_def)

lemma appeal_reopen_Inr:
  assumes "appeal_reopen e caller new i j sh s = Inr t"
  obtains sh' where "j < length (sh_milestones sh)" "k_shipment t = (k_shipment s)(i \<mapsto> sh')"
    "sh_milestones sh' = (sh_milestones sh)[j := disputed_milestone e (sh_milestones sh ! j)]"
    "sh_status sh' = sh_status sh" "sh_arbiter sh' = new" "sh_released_amount sh' = sh_released_amount sh"
    "sh_open_dispute_count sh' = sh_open_dispute_count sh + 1"
    "k_dispute_resolved_at t = (k_dispute_resolved_at s)((i, j) := None)" "k_dispute_appealed t (i, j) = Some True"
proof -
  let ?s1 = "s\<lparr>k_dispute_appeal_original := (k_dispute_appeal_original s)
               ((i, j) \<mapsto> (sh_arbiter sh, get_or False (k_dispute_resolved_approve s (i, j))))\<rparr>"
  let ?sh = "set_milestone j (disputed_milestone e (sh_milestones sh ! j))
               (sh\<lparr>sh_arbiter := new, sh_open_dispute_count := Suc (sh_open_dispute_count sh)\<rparr>)"
  let ?s2 = "reindex_arbiter i (sh_arbiter sh) new ?s1"
  obtain s3 where j: "j < length (sh_milestones sh)"
    and c: "(if 0 < get_appeal_fee ?s2
             then bindE (token_pay e (sh_token ?sh) caller (this e) (get_appeal_fee ?s2) ?s2) (\<lambda>s3.
                  Inr (s3\<lparr>k_appeal_fee_deposit := (k_appeal_fee_deposit s3)((i, j) \<mapsto> (caller, get_appeal_fee ?s2))\<rparr>))
             else Inr ?s2) = Inr s3"
    and t: "k_shipment t = (k_shipment s3)(i \<mapsto> ?sh)"
      "k_dispute_resolved_at t = (k_dispute_resolved_at s3)((i, j) := None)" "k_dispute_appealed t (i, j) = Some True"
    using assms
    by (auto simp: appeal_reopen_def Let_def bindE_Inr vec_get_unwrap_Inr ck_u32_Inr simp del: if_split)
  have "aside ?s2 s3" using c aside_pay by (fastforce simp: bindE_Inr aside_def split: if_splits)
  then have f: "k_shipment s3 = k_shipment s" "k_dispute_resolved_at s3 = k_dispute_resolved_at s"
    using asideD(1,2) [OF reindex_aside [of ?s1 i "sh_arbiter sh" new]] asideD(1,2) [of ?s2 s3] by simp_all
  show thesis
  proof (rule that [OF j])
    show "k_shipment t = (k_shipment s)(i \<mapsto> ?sh)" using t(1) f by simp
    show "k_dispute_resolved_at t = (k_dispute_resolved_at s)((i, j) := None)" using t(2) f by simp
  qed (use t(3) in \<open>simp_all add: set_milestone_def\<close>)
qed

lemma appeal_cases:
  assumes "appeal_dispute e caller i j s = Inr t"
  obtains sh sh' new resolved_at where "k_shipment s i = Some sh" "sh_status sh = Active" "j < length (sh_milestones sh)"
    "caller \<in> set (signers e)" "is_buyer sh caller \<or> caller = sh_supplier sh"
    "k_dispute_resolved_at s (i, j) = Some resolved_at" "sequence e \<le> resolved_at + get_or 0 (k_appeal_window_ledgers s)"
    "\<not> get_or False (k_dispute_appealed s (i, j))"
    "k_shipment t = (k_shipment s)(i \<mapsto> sh')"
    "sh_milestones sh' = (sh_milestones sh)[j := disputed_milestone e (sh_milestones sh ! j)]"
    "sh_status sh' = sh_status sh" "sh_arbiter sh' = new" "sh_released_amount sh' = sh_released_amount sh"
    "sh_open_dispute_count sh' = sh_open_dispute_count sh + 1"
    "k_dispute_resolved_at t = (k_dispute_resolved_at s)((i, j) := None)" "k_dispute_appealed t (i, j) = Some True"
proof -
  obtain sh resolved_at new where a: "k_shipment s i = Some sh" "sh_status sh = Active" "j < length (sh_milestones sh)"
    "caller \<in> set (signers e)" "is_buyer sh caller \<or> caller = sh_supplier sh"
    "k_dispute_resolved_at s (i, j) = Some resolved_at" "sequence e \<le> resolved_at + get_or 0 (k_appeal_window_ledgers s)"
    "\<not> get_or False (k_dispute_appealed s (i, j))"
    and r: "appeal_reopen e caller new i j sh (record_supplier_arbiters (sh_supplier sh) [new] s) = Inr t"
    using assms by (auto simp: appeal_dispute_def assert_buyer_or_supplier_def Let_def res_simps not_less split: if_splits)
  show thesis
    using r by (rule appeal_reopen_Inr)
      (rule that [OF a]; simp add: asideD(1,2) [OF record_arbiters_aside])
qed

end
