(* ===== verification/SettleSelection.thy ===== *)
theory SettleSelection
  imports SettleArbiters "HOL-Library.Multiset"
begin

text \<open>
  Lemmas on the choice of arbiters: what the two passes of the selection keep, that together they
  miss nobody who is eligible, and the panel drawn from the pool.
\<close>

section \<open>The two passes\<close>

text \<open>
  What both passes keep: the picked positions are positions of the pool, all different, at most
  \<open>cnt\<close>, and each of them holds an arbiter that is available and not excluded.
\<close>

definition picks_ok :: "settle \<Rightarrow> addr list \<Rightarrow> addr list \<Rightarrow> nat \<Rightarrow> nat list \<Rightarrow> bool" where
  "picks_ok s pool exclude cnt picked \<longleftrightarrow>
     distinct picked \<and> length picked \<le> cnt \<and>
     (\<forall>k \<in> set picked. k < length pool \<and> pool ! k \<notin> set exclude \<and> is_arbiter_available s (pool ! k))"

lemma first_index_Some: "first_index x xs = Some k \<Longrightarrow> k < length xs \<and> xs ! k = x"
  by (induction xs arbitrary: k) (auto split: if_splits)

lemma first_index_None: "first_index x xs = None \<longleftrightarrow> x \<notin> set xs"
  by (induction xs) auto

lemma picks_ok_snoc:
  "picks_ok s pool ex cnt picked \<Longrightarrow> length picked < cnt \<Longrightarrow> k \<notin> set picked \<Longrightarrow> k < length pool \<Longrightarrow>
   pool ! k \<notin> set ex \<Longrightarrow> is_arbiter_available s (pool ! k) \<Longrightarrow> picks_ok s pool ex cnt (picked @ [k])"
  by (auto simp: picks_ok_def)

lemma pick_recent_ok:
  "picks_ok s pool ex cnt picked \<Longrightarrow> picks_ok s pool ex cnt (pick_recent s pool ex cnt rs picked)"
proof (induction rs arbitrary: picked)
  case (Cons c rs)
  show ?case
  proof (cases "cnt \<le> length picked \<or> c \<in> set ex \<or> \<not> is_arbiter_available s c \<or> first_index c pool = None")
    case True
    then show ?thesis using Cons by auto
  next
    case False
    then obtain k where k: "first_index c pool = Some k" by auto
    have "picks_ok s pool ex cnt (if k \<in> set picked then picked else picked @ [k])"
      using Cons.prems False first_index_Some [OF k] by (auto intro: picks_ok_snoc)
    then show ?thesis using Cons.IH False k by (simp del: if_image_distrib)
  qed
qed simp

lemma pick_recent_mono: "set picked \<subseteq> set (pick_recent s pool ex cnt rs picked)"
proof (induction rs arbitrary: picked)
  case (Cons c rs)
  have "set picked \<subseteq> set (pick_recent s pool ex cnt rs (if k \<in> set picked then picked else picked @ [k]))"
    for k using Cons.IH [of "if k \<in> set picked then picked else picked @ [k]"]
    by (auto split: if_splits)
  then show ?case using Cons.IH by (auto split: option.split)
qed simp

lemma pick_recent_complete:
  "c \<in> set rs \<Longrightarrow> c \<notin> set ex \<Longrightarrow> is_arbiter_available s c \<Longrightarrow> first_index c pool = Some k \<Longrightarrow>
   k \<in> set (pick_recent s pool ex cnt rs picked) \<or> cnt \<le> length (pick_recent s pool ex cnt rs picked)"
proof (induction rs arbitrary: picked)
  case (Cons d rs)
  show ?case
  proof (cases "cnt \<le> length picked")
    case False
    show ?thesis
    proof (cases "d = c")
      case True
      have "k \<in> set (pick_recent s pool ex cnt rs (if k \<in> set picked then picked else picked @ [k]))"
        using pick_recent_mono [of "if k \<in> set picked then picked else picked @ [k]" s pool ex cnt rs]
        by (auto split: if_splits)
      then show ?thesis using False True Cons.prems by simp
    next
      case neq: False
      then show ?thesis using False Cons by (auto split: option.split)
    qed
  qed simp
qed simp

text \<open>The positions of a round are all different, so the first pass cannot repeat one.\<close>

lemma round_inj:
  assumes "x < n" and "y < n" and "((a::nat) + x) mod n = (a + y) mod n"
  shows "x = y"
  using assms
proof (induction x y rule: linorder_wlog)
  case (le x y)
  have "n dvd (a + y) - (a + x)"
    using le by (metis mod_eq_dvd_iff_nat nat_add_left_cancel_le)
  then show ?case using le by (auto dest: dvd_imp_le)
qed auto

lemma round_surj: "k < n \<Longrightarrow> a < n \<Longrightarrow> \<exists>x<n. ((a::nat) + x) mod n = k"
proof (cases "a \<le> k")
  case True
  assume "k < n" "a < n"
  then show ?thesis using True by (intro exI [of _ "k - a"]) auto
next
  case False
  assume "k < n" "a < n"
  then show ?thesis using False by (intro exI [of _ "n - a + k"]) auto
qed

text \<open>The first pass: the steps still to be taken lead to positions not picked so far.\<close>

lemma pick_fresh_ok:
  assumes "picks_ok s pool ex cnt picked" and "distinct steps" and "\<forall>x \<in> set steps. x < length pool"
    and "\<forall>x \<in> set steps. (start + x) mod length pool \<notin> set picked"
  shows "picks_ok s pool ex cnt (pick_fresh s pool recent ex start cnt steps picked)"
  using assms
proof (induction steps arbitrary: picked)
  case (Cons x steps)
  let ?k = "(start + x) mod length pool"
  have lt: "?k < length pool" using Cons.prems(3) by (intro mod_less_divisor) auto
  have sep: "\<forall>y \<in> set steps. (start + y) mod length pool \<noteq> ?k"
    using Cons.prems(2,3) round_inj by fastforce
  show ?case
  proof (cases "cnt \<le> length picked \<or> pool ! ?k \<in> set ex \<or> pool ! ?k \<in> set recent \<or>
      \<not> is_arbiter_available s (pool ! ?k)")
    case True
    then show ?thesis using Cons by (auto simp: Let_def)
  next
    case False
    have "picks_ok s pool ex cnt (picked @ [?k])"
      using Cons.prems False lt by (intro picks_ok_snoc) auto
    then show ?thesis using Cons False sep by (auto simp: Let_def)
  qed
qed simp

lemma pick_fresh_mono: "set picked \<subseteq> set (pick_fresh s pool recent ex start cnt steps picked)"
proof (induction steps arbitrary: picked)
  case (Cons x steps)
  show ?case
    using Cons.IH [of picked] Cons.IH [of "picked @ [(start + x) mod length pool]"] by (auto simp: Let_def)
qed simp

lemma pick_fresh_complete:
  "x \<in> set steps \<Longrightarrow> k = (start + x) mod length pool \<Longrightarrow> pool ! k \<notin> set ex \<Longrightarrow> pool ! k \<notin> set recent \<Longrightarrow>
   is_arbiter_available s (pool ! k) \<Longrightarrow>
   k \<in> set (pick_fresh s pool recent ex start cnt steps picked)
   \<or> cnt \<le> length (pick_fresh s pool recent ex start cnt steps picked)"
proof (induction steps arbitrary: picked)
  case (Cons y steps)
  show ?case
  proof (cases "x = y")
    case True
    then show ?thesis
      using Cons.prems pick_fresh_mono [of "picked @ [k]" s pool recent ex start cnt steps]
      by (auto simp: Let_def)
  next
    case False
    then show ?thesis using Cons by (auto simp: Let_def)
  qed
qed simp

section \<open>The selection\<close>

lemma pick_recent_length: "length picked \<le> length (pick_recent s pool ex cnt rs picked)"
proof (induction rs arbitrary: picked)
  case (Cons c rs)
  have "length picked \<le> length (pick_recent s pool ex cnt rs (if k \<in> set picked then picked else picked @ [k]))"
    for k using Cons.IH [of "if k \<in> set picked then picked else picked @ [k]"]
    by (auto split: if_splits)
  then show ?case using Cons.IH by (auto split: option.split)
qed simp

lemma select_ok: "picks_ok s pool ex cnt (select_pool_arbiters s a pool start cnt ex)"
proof (cases "length pool = 0 \<or> cnt = 0")
  case True
  then show ?thesis by (auto simp: select_pool_arbiters_def picks_ok_def)
next
  case False
  have "picks_ok s pool ex cnt []" by (simp add: picks_ok_def)
  then show ?thesis
    using False by (auto simp: select_pool_arbiters_def Let_def intro!: pick_recent_ok pick_fresh_ok)
qed

lemma first_index_nth: "distinct xs \<Longrightarrow> k < length xs \<Longrightarrow> first_index (xs ! k) xs = Some k"
  by (metis first_index_None first_index_Some nth_eq_iff_index_eq nth_mem option.exhaust)

lemma select_complete:
  assumes "distinct pool" and "start < length pool" and "k < length pool" and "pool ! k \<notin> set ex"
    and "is_arbiter_available s (pool ! k)"
  shows "k \<in> set (select_pool_arbiters s a pool start cnt ex)
    \<or> length (select_pool_arbiters s a pool start cnt ex) = cnt"
proof (cases "cnt = 0")
  case True
  then show ?thesis by (simp add: select_pool_arbiters_def)
next
  case False
  define recent where
    "recent = (if 0 < get_arbiter_history_size s then get_supplier_recent_arbiters s a else [])"
  define one where "one = pick_fresh s pool recent ex start cnt [0..<length pool] []"
  have sel: "select_pool_arbiters s a pool start cnt ex = pick_recent s pool ex cnt recent one"
    using False assms(2) by (auto simp: select_pool_arbiters_def Let_def one_def recent_def)
  have "k \<in> set (pick_recent s pool ex cnt recent one) \<or> cnt \<le> length (pick_recent s pool ex cnt recent one)"
  proof (cases "pool ! k \<in> set recent")
    case True
    then show ?thesis using assms first_index_nth pick_recent_complete by blast
  next
    case False
    obtain x where "x < length pool" "(start + x) mod length pool = k" using assms round_surj by blast
    then have "k \<in> set one \<or> cnt \<le> length one"
      unfolding one_def using assms False by (intro pick_fresh_complete) auto
    then show ?thesis
      using pick_recent_mono [of one s pool ex cnt recent] pick_recent_length [of one s pool ex cnt recent]
      by auto
  qed
  then show ?thesis using sel select_ok [of s pool ex cnt a start] by (auto simp: picks_ok_def)
qed

text \<open>The arbiters who may be drawn, and the panel.\<close>

definition eligible :: "settle \<Rightarrow> addr list \<Rightarrow> addr set" where
  "eligible s ex = {a \<in> set (get_arbiter_pool s). a \<notin> set ex \<and> is_arbiter_available s a}"

lemma nth_picks:
  assumes "distinct pool" and "picks_ok s pool ex cnt picked"
  shows "distinct (map (\<lambda>k. pool ! k) picked)"
    and "set (map (\<lambda>k. pool ! k) picked) \<subseteq> {a \<in> set pool. a \<notin> set ex \<and> is_arbiter_available s a}"
  using assms by (auto simp: picks_ok_def distinct_map inj_on_def nth_eq_iff_index_eq)

lemma panel_drawn:
  assumes shuffle: "mset (prng_shuffle e (get_arbiter_pool s)) = mset (get_arbiter_pool s)"
    and pool: "distinct (get_arbiter_pool s)"
  shows "distinct (draw_panel_from_pool e s sh n)"
    and "set (draw_panel_from_pool e s sh n) \<subseteq> eligible s (sh_buyers sh @ [sh_supplier sh])"
    and "length (draw_panel_from_pool e s sh n) = min n (card (eligible s (sh_buyers sh @ [sh_supplier sh])))"
proof -
  define pool' where "pool' = prng_shuffle e (get_arbiter_pool s)"
  define ex where "ex = sh_buyers sh @ [sh_supplier sh]"
  define picked where "picked = select_pool_arbiters s (sh_supplier sh) pool' 0 n ex"
  have perm: "set pool' = set (get_arbiter_pool s)" and dist: "distinct pool'"
    using shuffle pool unfolding pool'_def by (metis mset_eq_setD, metis mset_eq_imp_distinct_iff)
  have ok: "picks_ok s pool' ex n picked" by (simp add: picked_def select_ok)
  have panel: "draw_panel_from_pool e s sh n = map (\<lambda>k. pool' ! k) picked"
    by (simp add: draw_panel_from_pool_def Let_def pool'_def picked_def ex_def)
  show d: "distinct (draw_panel_from_pool e s sh n)" using nth_picks(1) [OF dist ok] panel by simp
  show sub: "set (draw_panel_from_pool e s sh n) \<subseteq> eligible s (sh_buyers sh @ [sh_supplier sh])"
    using nth_picks(2) [OF dist ok] panel perm by (simp add: eligible_def ex_def)
  have fin: "finite (eligible s ex)" by (simp add: eligible_def)
  have le: "length (draw_panel_from_pool e s sh n) \<le> card (eligible s ex)"
    using card_mono [OF fin sub [folded ex_def]] distinct_card [OF d] by simp
  have "length picked = n \<or> eligible s ex \<subseteq> set (draw_panel_from_pool e s sh n)"
  proof (rule disjCI)
    assume "\<not> eligible s ex \<subseteq> set (draw_panel_from_pool e s sh n)"
    then obtain k where "k < length pool'" "pool' ! k \<in> eligible s ex" "pool' ! k \<notin> set (draw_panel_from_pool e s sh n)"
      using perm by (auto simp: eligible_def) (metis in_set_conv_nth)
    moreover from this have "k \<notin> set picked" "0 < length pool'" by (auto simp: panel)
    ultimately show "length picked = n"
      using select_complete [OF dist, of 0 k ex s "sh_supplier sh" n]
      by (auto simp: eligible_def panel picked_def)
  qed
  then show "length (draw_panel_from_pool e s sh n) = min n (card (eligible s (sh_buyers sh @ [sh_supplier sh])))"
  proof
    assume "length picked = n"
    then show ?thesis using le panel by (simp add: ex_def)
  next
    assume "eligible s ex \<subseteq> set (draw_panel_from_pool e s sh n)"
    then have "card (eligible s ex) \<le> length (draw_panel_from_pool e s sh n)"
      using distinct_card [OF d] card_mono [of "set (draw_panel_from_pool e s sh n)"] by simp
    moreover have "length picked \<le> n" using ok by (simp add: picks_ok_def)
    ultimately show ?thesis using le panel by (simp add: ex_def)
  qed
qed

section \<open>The pool over time\<close>

text \<open>
  The administrator's changes of the pool, the slashing of an arbiter, and the two uses of the
  round-robin position, as steps.
\<close>

definition pool_ok :: "settle \<Rightarrow> bool" where
  "pool_ok s \<longleftrightarrow> distinct (get_arbiter_pool s)
     \<and> (\<forall>a \<in> set (get_arbiter_pool s). \<not> is_arbiter_slashed s a)
     \<and> (get_or 0 (k_arb_pool_idx s) = 0 \<or> get_or 0 (k_arb_pool_idx s) < length (get_arbiter_pool s))"

lemma append_admin_action_Inr:
  "append_admin_action e a d s = Inr t \<Longrightarrow>
     k_arbiters_pool t = k_arbiters_pool s \<and> k_arb_pool_idx t = k_arb_pool_idx s
     \<and> k_arbiter_slashed t = k_arbiter_slashed s"
  by (auto simp: append_admin_action_def bindE_Inr)

lemma emit_pool [simp]:
  "k_arbiters_pool (emit a b s) = k_arbiters_pool s" "k_arb_pool_idx (emit a b s) = k_arb_pool_idx s"
  "k_arbiter_slashed (emit a b s) = k_arbiter_slashed s"
  by (simp_all add: emit_def)

lemma emit_fold_pool [simp]:
  "k_arbiters_pool (fold (\<lambda>a. emit (f a) (g a)) as s) = k_arbiters_pool s"
  "k_arb_pool_idx (fold (\<lambda>a. emit (f a) (g a)) as s) = k_arb_pool_idx s"
  "k_arbiter_slashed (fold (\<lambda>a. emit (f a) (g a)) as s) = k_arbiter_slashed s"
  by (induction as arbitrary: s) auto

lemmas pool_defs = pool_ok_def get_arbiter_pool_def is_arbiter_slashed_def

lemma pool_ok_drop: "pool_ok s \<Longrightarrow> pool_ok (drop_from_pool a s)"
  by (auto simp: pool_defs drop_from_pool_def)

lemma pool_ok_slash: "pool_ok s \<Longrightarrow> pool_ok (slash_arbiter a n s)"
  by (auto simp: pool_defs slash_arbiter_def drop_from_pool_def)

lemma check_batch_Inr:
  "check_batch_arbiters s batch k as = Inr u \<Longrightarrow> a \<in> set as \<Longrightarrow>
   a \<notin> set (get_arbiter_pool s) \<and> \<not> is_arbiter_slashed s a"
  by (induction s batch k as rule: check_batch_arbiters.induct) (auto split: if_splits)

lemma check_batch_first:
  "check_batch_arbiters s batch k as = Inr u \<Longrightarrow> m < length as \<Longrightarrow> first_index (as ! m) batch = Some (k + m)"
  by (induction s batch k as arbitrary: m rule: check_batch_arbiters.induct)
    (auto split: if_splits simp: nth_Cons split: nat.splits)

lemma check_batch_distinct: "check_batch_arbiters s as 0 as = Inr u \<Longrightarrow> distinct as"
  by (metis add_0 check_batch_first distinct_conv_nth option.inject)

lemma pool_ok_add: "pool_ok s \<Longrightarrow> add_arbiter_to_pool e adm a s = Inr t \<Longrightarrow> pool_ok t"
  by (auto simp: add_arbiter_to_pool_def res_simps pool_defs dest!: append_admin_action_Inr split: if_splits)

lemma pool_ok_batch: "pool_ok s \<Longrightarrow> batch_add_arbiters_to_pool e adm as s = Inr t \<Longrightarrow> pool_ok t"
proof -
  assume ok: "pool_ok s" and call: "batch_add_arbiters_to_pool e adm as s = Inr t"
  from call obtain u where chk: "check_batch_arbiters s as 0 as = Inr u"
    by (auto simp: batch_add_arbiters_to_pool_def res_simps split: if_splits)
  have "k_arbiters_pool t = Some (get_arbiter_pool s @ as)" "k_arb_pool_idx t = k_arb_pool_idx s"
    "k_arbiter_slashed t = k_arbiter_slashed s"
    using call by (auto simp: batch_add_arbiters_to_pool_def Let_def res_simps
        dest!: append_admin_action_Inr split: if_splits)
  then show ?thesis
    using ok check_batch_distinct [OF chk] check_batch_Inr [OF chk] by (auto simp: pool_defs)
qed

lemma pool_ok_remove: "pool_ok s \<Longrightarrow> remove_arbiter_from_pool e adm a s = Inr t \<Longrightarrow> pool_ok t"
  using pool_ok_drop [of s a]
  by (auto simp: remove_arbiter_from_pool_def res_simps pool_defs dest!: append_admin_action_Inr)

lemma pool_ok_reinstate: "pool_ok s \<Longrightarrow> reinstate_arbiter e adm a s = Inr t \<Longrightarrow> pool_ok t"
  by (auto simp: reinstate_arbiter_def admin_set_def res_simps pool_defs split: if_splits)

end
