(* ===== verification/SettleProof.thy ===== *)
theory SettleProof
  imports SettleDispute
begin

text \<open>
  Proofs of delivery (\<^verbatim>\<open>lib.rs\<close>): the admissible content types and hashes, submission alone and in
  a batch, correction, dual attestation, the inspector's sign-off, and the reports of oracles that
  open a dispute once enough of them agree.
\<close>

section \<open>Settings\<close>

definition set_proof_whitelist :: "settle_env \<Rightarrow> addr \<Rightarrow> sid \<Rightarrow> nat \<Rightarrow> sym list \<Rightarrow> settle \<Rightarrow> settle res" where
  "set_proof_whitelist e buyer i j types s =
     bindE (assert_not_paused s) (\<lambda>_.
     bindE (get_shipment_internal s i) (\<lambda>sh.
     bindE (assert_active sh) (\<lambda>_.
     bindE (require_buyer_auth e sh buyer) (\<lambda>_.
     bindE (ensure (j < length (sh_milestones sh)) ''invalid milestone index'') (\<lambda>_.
     Inr (emit [VStr ''proof_whitelist_set'', VStr i] [VNat j, VAddr buyer]
            (s\<lparr>k_proof_whitelist := (k_proof_whitelist s)((i, j) \<mapsto> types)\<rparr>)))))))"

definition get_proof_whitelist :: "settle \<Rightarrow> sid \<Rightarrow> nat \<Rightarrow> sym list" where
  "get_proof_whitelist s i j = get_or [] (k_proof_whitelist s (i, j))"

definition get_milestone_proof_type :: "settle \<Rightarrow> sid \<Rightarrow> nat \<Rightarrow> sym option" where
  "get_milestone_proof_type s i j = k_submitted_proof_type s (i, j)"

definition set_max_evidence_per_milestone :: "settle_env \<Rightarrow> addr \<Rightarrow> nat \<Rightarrow> settle \<Rightarrow> settle res" where
  "set_max_evidence_per_milestone e adm n s =
     bindE (as_admin e adm s) (\<lambda>_.
     if n = 0 then Inl (Panic ''max_count must be at least 1'')
     else
     bindE (append_admin_action e ''set_max_evidence'' ''max_evidence_updated'' (s\<lparr>k_max_evidence := Some n\<rparr>)) (\<lambda>s1.
     Inr (emit [VStr ''max_evidence_updated''] [VAddr adm, VNat n, VNat (sequence e)] s1)))"

definition get_evidence_count :: "settle \<Rightarrow> sid \<Rightarrow> nat \<Rightarrow> nat" where
  "get_evidence_count s i j = get_or 0 (k_evidence_count s (i, j))"

definition set_proof_hash_length_bounds :: "settle_env \<Rightarrow> addr \<Rightarrow> nat \<Rightarrow> nat \<Rightarrow> settle \<Rightarrow> settle res" where
  "set_proof_hash_length_bounds e adm mn mx s =
     bindE (as_admin e adm s) (\<lambda>_.
     if 0 < mx \<and> mx < mn then Inl (Panic ''min_len must not exceed max_len'')
     else Inr (emit [VStr ''proof_hash_length_bounds_set''] [VNat mn, VNat mx]
            (s\<lparr>k_proof_hash_min_len := Some mn, k_proof_hash_max_len := Some mx\<rparr>)))"

definition get_proof_hash_length_bounds :: "settle \<Rightarrow> nat \<times> nat" where
  "get_proof_hash_length_bounds s = (get_or 0 (k_proof_hash_min_len s), get_or 0 (k_proof_hash_max_len s))"

definition set_proof_hash_required_prefix :: "settle_env \<Rightarrow> addr \<Rightarrow> string \<Rightarrow> settle \<Rightarrow> settle res" where
  "set_proof_hash_required_prefix e adm p =
     admin_set e adm ''proof_hash_required_prefix_set'' [VStr p] (\<lambda>s. s\<lparr>k_proof_hash_prefix := Some p\<rparr>)"

definition get_proof_hash_required_prefix :: "settle \<Rightarrow> string" where
  "get_proof_hash_required_prefix s = get_or '''' (k_proof_hash_prefix s)"

section \<open>Checks\<close>

text \<open>The comparison of the prefix works on buffers of 256 bytes; longer strings trap.\<close>

definition validate_proof_hash :: "settle \<Rightarrow> string \<Rightarrow> unit res" where
  "validate_proof_hash s h =
     (let mn = get_or 0 (k_proof_hash_min_len s); mx = get_or 0 (k_proof_hash_max_len s);
          p = get_or '''' (k_proof_hash_prefix s)
      in
      bindE (ensure (mn = 0 \<or> mn \<le> length h) ''proof hash is shorter than the minimum configured length'') (\<lambda>_.
      bindE (ensure (mx = 0 \<or> length h \<le> mx) ''proof hash exceeds the maximum configured length'') (\<lambda>_.
      if p = '''' then Inr ()
      else
      bindE (ensure (length p \<le> length h) ''proof hash does not match the required prefix'') (\<lambda>_.
      bindE (ensure (length p \<le> 256) ''configured proof hash prefix is too long'') (\<lambda>_.
      bindE (ensure (length h \<le> 256) ''proof hash exceeds the internal prefix-check length limit'') (\<lambda>_.
      ensure (take (length p) h = p) ''proof hash does not match the required prefix''))))))"

definition proof_type_ok :: "settle \<Rightarrow> sid \<Rightarrow> nat \<Rightarrow> sym \<Rightarrow> unit res" where
  "proof_type_ok s i j ty =
     ensure (case k_proof_whitelist s (i, j) of None \<Rightarrow> True | Some xs \<Rightarrow> xs = [] \<or> ty \<in> set xs)
       ''proof type not in whitelist''"

definition requires_dual_attestation :: "settle \<Rightarrow> sid \<Rightarrow> bool" where
  "requires_dual_attestation s i = get_or False (k_require_dual_attestation s i)"

definition designated_proof_submitter :: "settle \<Rightarrow> shipment \<Rightarrow> sid \<Rightarrow> nat \<Rightarrow> addr res" where
  "designated_proof_submitter s sh i j =
     (let xs = get_or [] (k_proof_submitters s i)
      in if xs = [] then Inr (effective_milestone_supplier s sh i j)
         else expect (vec_get xs j) ''invalid milestone index'')"

definition get_proof_submitter :: "settle \<Rightarrow> sid \<Rightarrow> nat \<Rightarrow> addr res" where
  "get_proof_submitter s i j =
     bindE (get_shipment_internal s i) (\<lambda>sh.
     bindE (ensure (j < length (sh_milestones sh)) ''invalid milestone index'') (\<lambda>_.
     designated_proof_submitter s sh i j))"

definition assert_proof_submitter :: "settle \<Rightarrow> shipment \<Rightarrow> sid \<Rightarrow> nat \<Rightarrow> addr \<Rightarrow> unit res" where
  "assert_proof_submitter s sh i j caller =
     bindE (designated_proof_submitter s sh i j) (\<lambda>designated.
     ensure (caller = designated
             \<or> get_or [] (k_proof_submitters s i) = [] \<and> caller = sh_logistics sh) ''unauthorized'')"

definition require_proof_submitter_auth ::
  "settle_env \<Rightarrow> settle \<Rightarrow> shipment \<Rightarrow> sid \<Rightarrow> nat \<Rightarrow> addr \<Rightarrow> unit res" where
  "require_proof_submitter_auth e s sh i j caller =
     bindE (require_auth e caller) (\<lambda>_. assert_proof_submitter s sh i j caller)"

text \<open>In sequential mode the milestone before must be settled.\<close>

definition in_order :: "shipment \<Rightarrow> nat \<Rightarrow> unit res" where
  "in_order sh j =
     (if sh_milestone_mode sh = Sequential \<and> 0 < j
      then bindE (vec_get_unwrap (sh_milestones sh) (j - 1)) (\<lambda>prev.
           ensure (done_status (ms_status prev)) ''MilestoneOutOfOrder'')
      else Inr ())"

section \<open>Submission\<close>

definition proven_milestone :: "settle_env \<Rightarrow> string \<Rightarrow> milestone \<Rightarrow> milestone" where
  "proven_milestone e h m =
     m\<lparr>ms_proof_hash := h, ms_status := ProofSubmitted, ms_proof_submitted_ledger := Some (sequence e)\<rparr>"

definition emit_milestone_proof_submitted :: "sid \<Rightarrow> nat \<Rightarrow> string \<Rightarrow> addr \<Rightarrow> settle \<Rightarrow> settle" where
  "emit_milestone_proof_submitted i j h supplier =
     emit [VStr ''chainsettle'', VStr ''proof_submitted''] [VStr i, VNat j, VStr h, VAddr supplier]"

definition store_pending_proof ::
  "settle_env \<Rightarrow> addr \<Rightarrow> sid \<Rightarrow> nat \<Rightarrow> string \<Rightarrow> sym \<Rightarrow> shipment \<Rightarrow> settle \<Rightarrow> settle res" where
  "store_pending_proof e caller i j h ty sh s =
     bindE (ensure (caller = sh_supplier sh \<or> caller = sh_logistics sh)
              ''dual attestation requires supplier or logistics'') (\<lambda>_.
     Inr (emit [VStr ''dual_proof_pending'', VStr i] [VNat j, VStr h, VStr ty, VAddr caller]
       (s\<lparr>k_pending_dual_proof := (k_pending_dual_proof s)((i, j) \<mapsto>
            \<lparr>pd_first_attester = caller, pd_proof_hash = h, pd_proof_type = ty\<rparr>),
          k_shipment := (k_shipment s)(i \<mapsto> append_audit_entry e caller ''dual_proof_pending'' ''submit_proof'' sh)\<rparr>)))"

text \<open>The writes of an accepted proof that a submission and an attestation share.\<close>

definition record_proof :: "settle_env \<Rightarrow> sid \<Rightarrow> nat \<Rightarrow> sym \<Rightarrow> addr \<Rightarrow> settle \<Rightarrow> settle res" where
  "record_proof e i j ty submitter s =
     bindE (ck_u32 (get_or 0 (k_evidence_count s (i, j)) + 1)) (\<lambda>n.
     Inr (s\<lparr>k_proof_submitted_at := (k_proof_submitted_at s)((i, j) \<mapsto> sequence e),
            k_evidence_count := (k_evidence_count s)((i, j) \<mapsto> n),
            k_submitted_proof_type := (k_submitted_proof_type s)((i, j) \<mapsto> ty),
            k_proof_submitter := (k_proof_submitter s)((i, j) \<mapsto> submitter)\<rparr>))"

definition accept_proof ::
  "settle_env \<Rightarrow> addr \<Rightarrow> sid \<Rightarrow> nat \<Rightarrow> string \<Rightarrow> sym \<Rightarrow> shipment \<Rightarrow> milestone \<Rightarrow> settle \<Rightarrow> settle res" where
  "accept_proof e caller i j h ty sh m s =
     (let sh1 = append_audit_entry e caller ''proof_submitted'' ''submit_proof''
                  (set_milestone j (proven_milestone e h m) sh)
      in
      bindE (record_proof e i j ty caller (s\<lparr>k_shipment := (k_shipment s)(i \<mapsto> sh1)\<rparr>)) (\<lambda>s1.
      Inr (emit_milestone_proof_submitted i j h (sh_supplier sh)
             (emit [VStr (if ms_proof_hash m = '''' then ''proof_submitted'' else ''proof_resubmitted''), VStr i]
                [VNat j, VStr h, VStr ty, VAddr caller, VNat (sequence e)] s1))))"

definition submit_proof_internal ::
  "settle_env \<Rightarrow> addr \<Rightarrow> sid \<Rightarrow> nat \<Rightarrow> string \<Rightarrow> sym \<Rightarrow> bool \<Rightarrow> settle \<Rightarrow> settle res" where
  "submit_proof_internal e caller i j h ty check_auth s =
     bindE (assert_not_paused s) (\<lambda>_.
     bindE (get_shipment_internal s i) (\<lambda>sh.
     bindE (assert_active sh) (\<lambda>_.
     bindE (assert_shipment_not_paused s i) (\<lambda>_.
     bindE (expect (vec_get (sh_milestones sh) j) ''invalid milestone index'') (\<lambda>m.
     bindE (ensure (ms_status m = Pending) ''milestone is not in pending status'') (\<lambda>_.
     bindE (if check_auth then require_proof_submitter_auth e s sh i j caller
            else assert_proof_submitter s sh i j caller) (\<lambda>_.
     bindE (validate_proof_hash s h) (\<lambda>_.
     bindE (proof_type_ok s i j ty) (\<lambda>_.
     bindE (in_order sh j) (\<lambda>_.
     bindE (ensure (get_or 0 (k_evidence_count s (i, j)) < get_or 5 (k_max_evidence s))
              ''evidence submission limit reached'') (\<lambda>_.
     if requires_dual_attestation s i then store_pending_proof e caller i j h ty sh s
     else accept_proof e caller i j h ty sh m s)))))))))))"

definition submit_proof :: "settle_env \<Rightarrow> addr \<Rightarrow> sid \<Rightarrow> nat \<Rightarrow> string \<Rightarrow> sym \<Rightarrow> settle \<Rightarrow> settle res" where
  "submit_proof e caller i j h ty s = submit_proof_internal e caller i j h ty True s"

definition batch_submit_proofs ::
  "settle_env \<Rightarrow> addr \<Rightarrow> sid \<Rightarrow> (nat \<times> string \<times> sym) list \<Rightarrow> settle \<Rightarrow> settle res" where
  "batch_submit_proofs e caller i entries s =
     bindE (assert_not_paused s) (\<lambda>_.
     bindE (require_auth e caller) (\<lambda>_.
     bindE (ensure (entries \<noteq> []) ''batch is empty'') (\<lambda>_.
     bindE (ensure (length entries \<le> MAX_BATCH_PROOF_SUBMISSIONS) ''batch too large'') (\<lambda>_.
     bindE (ensure (distinct (map fst entries)) ''duplicate milestone index in batch'') (\<lambda>_.
     bindE (foldE (\<lambda>(j, h, ty). submit_proof_internal e caller i j h ty False) entries s) (\<lambda>s1.
     bindE (get_shipment_internal s1 i) (\<lambda>sh.
     Inr (emit [VStr ''batch_proofs_submitted'', VStr i] [VList (map (VNat \<circ> fst) entries), VAddr caller]
       (s1\<lparr>k_shipment := (k_shipment s1)(i \<mapsto>
          append_audit_entry e caller ''batch_proofs_submitted'' ''batch_submit_proofs'' sh)\<rparr>)))))))))"

definition correct_proof :: "settle_env \<Rightarrow> addr \<Rightarrow> sid \<Rightarrow> nat \<Rightarrow> string \<Rightarrow> sym \<Rightarrow> settle \<Rightarrow> settle res" where
  "correct_proof e caller i j h ty s =
     bindE (assert_not_paused s) (\<lambda>_.
     bindE (get_shipment_internal s i) (\<lambda>sh.
     bindE (assert_active sh) (\<lambda>_.
     bindE (expect (vec_get (sh_milestones sh) j) ''invalid milestone index'') (\<lambda>m.
     bindE (ensure (ms_status m = ProofSubmitted) ''milestone is not in proof submitted status'') (\<lambda>_.
     bindE (require_proof_submitter_auth e s sh i j caller) (\<lambda>_.
     bindE (ensure (k_proof_submitter s (i, j) = Some caller) ''unauthorized'') (\<lambda>_.
     bindE (validate_proof_hash s h) (\<lambda>_.
     bindE (proof_type_ok s i j ty) (\<lambda>_.
     let sh1 = append_audit_entry e caller ''proof_corrected'' ''correct_proof''
                 (set_milestone j (m\<lparr>ms_proof_hash := h\<rparr>) sh)
     in Inr (emit [VStr ''proof_corrected'', VStr i] [VNat j, VStr h]
          (s\<lparr>k_shipment := (k_shipment s)(i \<mapsto> sh1),
             k_submitted_proof_type := (k_submitted_proof_type s)((i, j) \<mapsto> ty)\<rparr>)))))))))))"

section \<open>Attestation and inspection\<close>

definition attest_proof :: "settle_env \<Rightarrow> addr \<Rightarrow> sid \<Rightarrow> nat \<Rightarrow> string \<Rightarrow> settle \<Rightarrow> settle res" where
  "attest_proof e caller i j h s =
     bindE (assert_not_paused s) (\<lambda>_.
     bindE (require_auth e caller) (\<lambda>_.
     bindE (get_shipment_internal s i) (\<lambda>sh.
     bindE (assert_active sh) (\<lambda>_.
     bindE (assert_shipment_not_paused s i) (\<lambda>_.
     bindE (ensure (j < length (sh_milestones sh)) ''invalid milestone index'') (\<lambda>_.
     bindE (ensure (requires_dual_attestation s i) ''dual attestation not required for this shipment'') (\<lambda>_.
     bindE (ensure (caller = sh_supplier sh \<or> caller = sh_logistics sh) ''unauthorized'') (\<lambda>_.
     bindE (expect (k_pending_dual_proof s (i, j)) ''no pending dual proof'') (\<lambda>p.
     bindE (ensure (caller \<noteq> pd_first_attester p) ''caller already attested'') (\<lambda>_.
     bindE (ensure (h = pd_proof_hash p) ''proof hash mismatch'') (\<lambda>_.
     bindE (vec_get_unwrap (sh_milestones sh) j) (\<lambda>m.
     bindE (ensure (ms_status m = Pending) ''milestone is not in pending status'') (\<lambda>_.
     let sh1 = append_audit_entry e caller ''proof_attested'' ''attest_proof''
                 (set_milestone j (proven_milestone e h m) sh)
     in
     bindE (record_proof e i j (pd_proof_type p) (pd_first_attester p)
              (s\<lparr>k_pending_dual_proof := (k_pending_dual_proof s)((i, j) := None),
                 k_shipment := (k_shipment s)(i \<mapsto> sh1)\<rparr>)) (\<lambda>s1.
     Inr (emit_milestone_proof_submitted i j h (sh_supplier sh)
            (emit [VStr ''proof_submitted'', VStr i]
               [VNat j, VStr h, VStr (pd_proof_type p), VAddr (pd_first_attester p), VNat (sequence e)]
               (emit [VStr ''proof_attested'', VStr i] [VNat j, VStr h, VAddr caller, VNat (sequence e)] s1)))))))))))))))))"

text \<open>A hash is an opaque number; the all-zero hash is 0.\<close>

definition inspector_sign_off :: "settle_env \<Rightarrow> addr \<Rightarrow> sid \<Rightarrow> nat \<Rightarrow> hash \<Rightarrow> settle \<Rightarrow> settle res" where
  "inspector_sign_off e inspector i j report s =
     bindE (assert_not_paused s) (\<lambda>_.
     bindE (require_auth e inspector) (\<lambda>_.
     bindE (get_shipment_internal s i) (\<lambda>sh.
     bindE (assert_active sh) (\<lambda>_.
     bindE (ensure (j < length (sh_milestones sh)) ''invalid milestone index'') (\<lambda>_.
     bindE (expect (k_shipment_inspector s i) ''no inspector configured for shipment'') (\<lambda>named.
     bindE (ensure (inspector = named) ''unauthorized'') (\<lambda>_.
     bindE (ensure (j \<in> set (get_or [] (k_inspected_milestones s i))) ''milestone does not require inspection'') (\<lambda>_.
     bindE (ensure (report \<noteq> 0) ''report_hash must be non-zero'') (\<lambda>_.
     Inr (emit [VStr ''inspector_signed_off'', VStr i] [VNat j, VNat report, VAddr inspector]
       (s\<lparr>k_inspection_report := (k_inspection_report s)((i, j) \<mapsto>
            \<lparr>ir_inspector = inspector, ir_report_hash = report, ir_signed_ledger = sequence e\<rparr>),
          k_shipment := (k_shipment s)(i \<mapsto>
            append_audit_entry e inspector ''inspector_signed_off'' ''inspector_sign_off'' sh)\<rparr>)))))))))))"

definition get_inspection :: "settle \<Rightarrow> sid \<Rightarrow> nat \<Rightarrow> inspection_record option" where
  "get_inspection s i j = k_inspection_report s (i, j)"

section \<open>Reports of a breached condition\<close>

text \<open>
  The dispute that the reports open. Unlike \<open>raise_open\<close> it clears no earlier ruling, sets no mark of a
  dispute, assigns no arbiter from the pool and escalates to no panel.
\<close>

definition open_condition_breach_dispute ::
  "settle_env \<Rightarrow> shipment \<Rightarrow> sid \<Rightarrow> nat \<Rightarrow> settle \<Rightarrow> settle res" where
  "open_condition_breach_dispute e sh i j s =
     bindE (vec_get_unwrap (sh_milestones sh) j) (\<lambda>m.
     if ms_status m = Disputed then Inr s
     else
     bindE (ensure (ms_status m = Pending \<or> ms_status m = ProofSubmitted \<or> ms_status m = ConfirmedHeld)
              ''milestone cannot be disputed in current status'') (\<lambda>_.
     bindE (ensure (sh_open_dispute_count sh < get_or 1 (k_max_concurrent_disputes s)) ''DisputeAlreadyOpen'') (\<lambda>_.
     bindE (vec_get_unwrap (sh_buyers sh) 0) (\<lambda>buyer.
     bindE (ck_u32 (sh_open_dispute_count sh + 1)) (\<lambda>n.
     let sh1 = append_audit_entry e buyer ''dispute_raised'' ''report_condition_breach''
                 (set_milestone j (disputed_milestone e m) (sh\<lparr>sh_open_dispute_count := n\<rparr>))
     in
     bindE (file_dispute e i j buyer True sh1
              (s\<lparr>k_dispute_opened_at := (k_dispute_opened_at s)((i, j) \<mapsto> timestamp e)\<rparr>)) (\<lambda>s1.
     Inr (emit_dispute_opened i j buyer (emit [VStr ''dispute_raised'', VStr i] [VNat j] s1))))))))"

definition report_condition_breach ::
  "settle_env \<Rightarrow> addr \<Rightarrow> sid \<Rightarrow> nat \<Rightarrow> hash \<Rightarrow> settle \<Rightarrow> settle res" where
  "report_condition_breach e oracle i j dh s =
     bindE (assert_not_paused s) (\<lambda>_.
     bindE (require_auth e oracle) (\<lambda>_.
     bindE (get_shipment_internal s i) (\<lambda>sh.
     bindE (assert_active sh) (\<lambda>_.
     bindE (assert_shipment_not_paused s i) (\<lambda>_.
     bindE (ensure (j < length (sh_milestones sh)) ''invalid milestone index'') (\<lambda>_.
     bindE (expect (k_shipment_oracle_purpose s i) ''no oracle group assigned to this shipment'') (\<lambda>purpose.
     bindE (expect (k_oracle_group s purpose) ''oracle group not registered'') (\<lambda>(oracles, threshold).
     bindE (ensure (oracle \<in> set oracles) ''caller is not a member of the assigned oracle group'') (\<lambda>_.
     bindE (ensure (dh \<noteq> 0) ''data_hash must be non-zero'') (\<lambda>_.
     let reports = get_or [] (k_breach_reports s (i, j))
     in if oracle \<in> fst ` set reports then Inr s
        else
        let reports1 = reports @ [(oracle, dh)];
            sh1 = append_audit_entry e oracle ''condition_breach_reported'' ''report_condition_breach'' sh;
            s1 = emit [VStr ''condition_breach_reported'', VStr i]
                   [VNat j, VNat dh, VAddr oracle, VNat (length reports1)]
                   (s\<lparr>k_breach_reports := (k_breach_reports s)((i, j) \<mapsto> reports1),
                      k_shipment := (k_shipment s)(i \<mapsto> sh1)\<rparr>)
        in if threshold \<le> length reports1 then open_condition_breach_dispute e sh1 i j s1 else Inr s1))))))))))"

lemmas settleproof_eval [eval_defs] =
  validate_proof_hash_def proof_type_ok_def requires_dual_attestation_def designated_proof_submitter_def
  assert_proof_submitter_def require_proof_submitter_auth_def in_order_def proven_milestone_def
  emit_milestone_proof_submitted_def store_pending_proof_def record_proof_def accept_proof_def
  submit_proof_internal_def open_condition_breach_dispute_def

end
