(* ===== verification/SettleBooks.thy ===== *)
theory SettleBooks
  imports SettleOutcomes SettleSelection SettleProof
begin

text \<open>
  The calls of a dispute as a labelled transition relation, the abstract machine of milestone statuses
  they implement, and the invariant between the counter of open disputes, the statuses of the
  milestones and the record of resolutions; the arbiter pool over time.
\<close>

text \<open>What a call does in a dispute, and the calls.\<close>

datatype dispute_kind = Raise | Breach | Rule | Withdraw | Finalize | Appeal

inductive dispute_call :: "dispute_kind \<Rightarrow> sid \<Rightarrow> nat \<Rightarrow> settle \<Rightarrow> settle \<Rightarrow> bool" where
  call_raise: "raise_dispute e b i j s = Inr t \<Longrightarrow> dispute_call Raise i j s t"
| call_partial: "raise_partial_dispute e b i j pct s = Inr t \<Longrightarrow> dispute_call Raise i j s t"
| call_breach: "report_condition_breach e a i j dh s = Inr t \<Longrightarrow> dispute_call Breach i j s t"
| call_withdraw: "withdraw_dispute e b i j s = Inr t \<Longrightarrow> dispute_call Withdraw i j s t"
| call_rule: "resolve_dispute e a i j approve reason s = Inr t \<Longrightarrow> dispute_call Rule i j s t"
| call_split: "resolve_dispute_split e a i j bps s = Inr t \<Longrightarrow> dispute_call Rule i j s t"
| call_timeout: "resolve_dispute_timeout e i j s = Inr t \<Longrightarrow> dispute_call Rule i j s t"
| call_vote: "cast_dispute_vote e a i j approve s = Inr t \<Longrightarrow> dispute_call Rule i j s t"
| call_mediate: "accept_mediation e c i j s = Inr t \<Longrightarrow> dispute_call Rule i j s t"
| call_finalize: "finalize_dispute_resolution e i j s = Inr t \<Longrightarrow> dispute_call Finalize i j s t"
| call_appeal: "appeal_dispute e c i j s = Inr t \<Longrightarrow> dispute_call Appeal i j s t"

text \<open>
  The steps: one call, or a batch of rulings. \<open>over\<close> tells whether the oracles may report a breach of a
  milestone with a ruling on record.
\<close>

inductive dispute_step :: "bool \<Rightarrow> settle \<Rightarrow> settle \<Rightarrow> bool" for over where
  step_call: "dispute_call k i j s t \<Longrightarrow> over \<or> k \<noteq> Breach \<or> k_dispute_resolved_at s (i, j) = None \<Longrightarrow> dispute_step over s t"
| step_batch: "batch_resolve_disputes e a rs s = Inr t \<Longrightarrow> dispute_step over s t"

text \<open>A batch of rulings is a sequence of them.\<close>

definition ruling :: "settle \<Rightarrow> settle \<Rightarrow> bool" where
  "ruling s t \<longleftrightarrow> (\<exists>i j. dispute_call Rule i j s t)"

lemma fold_rulings:
  "foldE (\<lambda>(i, j, approve, reason). resolve_dispute e a i j approve reason) rs s = Inr t \<Longrightarrow> ruling\<^sup>*\<^sup>* s t"
proof (induction rs arbitrary: s)
  case (Cons r rs)
  obtain i j approve reason where r: "r = (i, j, approve, reason)" by (cases r)
  then obtain u where u: "resolve_dispute e a i j approve reason s = Inr u"
    "foldE (\<lambda>(i, j, approve, reason). resolve_dispute e a i j approve reason) rs u = Inr t"
    using Cons.prems by (auto simp: bindE_Inr)
  have "ruling s u" using call_rule [OF u(1)] by (auto simp: ruling_def)
  then show ?case using Cons.IH [OF u(2)] by (rule converse_rtranclp_into_rtranclp)
qed simp

lemma batch_rulings: "batch_resolve_disputes e a rs s = Inr t \<Longrightarrow> ruling\<^sup>*\<^sup>* s t"
  by (auto simp: batch_resolve_disputes_def bindE_Inr intro: fold_rulings)

section \<open>What every call does\<close>

text \<open>The abstract machine: the moves of the status of one milestone under each kind of call.\<close>

inductive status_edge :: "dispute_kind \<Rightarrow> milestone_status \<Rightarrow> milestone_status \<Rightarrow> bool" where
  edge_raise: "a \<in> {ProofSubmitted, ConfirmedHeld} \<Longrightarrow> status_edge Raise a Disputed"
| edge_breach: "a \<in> {Pending, ProofSubmitted, ConfirmedHeld} \<Longrightarrow> status_edge Breach a Disputed"
| edge_rule: "b \<in> {Resolved, Pending, ResolvedPendingFinality} \<Longrightarrow> status_edge Rule Disputed b"
| edge_withdraw: "status_edge Withdraw Disputed ProofSubmitted"
| edge_finalize: "status_edge Finalize ResolvedPendingFinality Resolved"
| edge_appeal: "status_edge Appeal a Disputed"

inductive_simps status_edge_simps: "status_edge k a b"

text \<open>
  A call of kind \<open>k\<close> on milestone \<open>j\<close> of an active shipment \<open>i\<close> changes only that shipment; it leaves the
  milestones alone, or moves \<open>j\<close> along an edge. The counter follows the move, except that an appeal
  counts even a milestone that is disputed already.
\<close>

definition forgets :: "dispute_kind \<Rightarrow> sid \<Rightarrow> nat \<Rightarrow> settle \<Rightarrow> settle \<Rightarrow> bool" where
  "forgets k i j s t \<longleftrightarrow>
     (\<forall>x. x \<noteq> (i, j) \<longrightarrow> k_dispute_resolved_at t x = k_dispute_resolved_at s x \<or> k_dispute_resolved_at t x = None) \<and>
     (k = Raise \<or> k = Appeal \<longrightarrow> k_dispute_resolved_at t (i, j) = None) \<and>
     (k = Appeal \<longrightarrow> k_dispute_resolved_at s (i, j) \<noteq> None) \<and>
     (k = Breach \<longrightarrow> k_dispute_resolved_at t = k_dispute_resolved_at s)"

definition struck :: "dispute_kind \<Rightarrow> sid \<Rightarrow> nat \<Rightarrow> settle \<Rightarrow> settle \<Rightarrow> bool" where
  "struck k i j s t \<longleftrightarrow> (\<exists>sh sh'. k_shipment s i = Some sh \<and> sh_status sh = Active \<and> k_shipment t = (k_shipment s)(i \<mapsto> sh') \<and>
     (sh_milestones sh' = sh_milestones sh \<and> sh_open_dispute_count sh' = sh_open_dispute_count sh \<and>
        k_dispute_resolved_at t = k_dispute_resolved_at s \<or>
      j < length (sh_milestones sh) \<and> forgets k i j s t \<and>
      (\<exists>m'. sh_milestones sh' = (sh_milestones sh)[j := m'] \<and> status_edge k (ms_status (sh_milestones sh ! j)) (ms_status m') \<and>
         sh_open_dispute_count sh' = sh_open_dispute_count sh + (if ms_status m' = Disputed then 1 else 0)
           - (if ms_status (sh_milestones sh ! j) = Disputed \<and> k \<noteq> Appeal then 1 else 0))))"

lemma struckI:
  assumes "k_shipment s i = Some sh" "sh_status sh = Active" "j < length (sh_milestones sh)" "forgets k i j s t"
    "k_shipment t = (k_shipment s)(i \<mapsto> sh')" "sh_milestones sh' = (sh_milestones sh)[j := m']"
    "status_edge k (ms_status (sh_milestones sh ! j)) (ms_status m')"
    "sh_open_dispute_count sh' = sh_open_dispute_count sh + (if ms_status m' = Disputed then 1 else 0)
       - (if ms_status (sh_milestones sh ! j) = Disputed \<and> k \<noteq> Appeal then 1 else 0)"
  shows "struck k i j s t"
  unfolding struck_def by (rule exI [of _ sh], rule exI [of _ sh']) (use assms in blast)

lemma struck_moved:
  assumes "k_shipment s i = Some sh" "sh_status sh = Active" "j < length (sh_milestones sh)" "moved i j sh m' s t"
    "status_edge k (ms_status (sh_milestones sh ! j)) (ms_status m')" "k \<noteq> Breach" "k \<noteq> Appeal"
  shows "struck k i j s t"
proof -
  obtain sh' where "k_shipment t = (k_shipment s)(i \<mapsto> sh')" "sh_milestones sh' = (sh_milestones sh)[j := m']"
      "sh_open_dispute_count sh' = sh_open_dispute_count sh + (if ms_status m' = Disputed then 1 else 0)
          - (if ms_status (sh_milestones sh ! j) = Disputed then 1 else 0)"
    and f: "\<forall>x. x \<noteq> (i, j) \<longrightarrow> k_dispute_resolved_at t x = k_dispute_resolved_at s x \<or> k_dispute_resolved_at t x = None"
      "ms_status m' = Disputed \<longrightarrow> k_dispute_resolved_at t (i, j) = None"
    using assms(4) unfolding moved_def by blast
  moreover have "forgets k i j s t" using f assms(5-7) by (auto simp: forgets_def status_edge_simps)
  ultimately show ?thesis using assms(5,7) by (intro struckI [OF assms(1-3)]) simp_all
qed

lemma struck_ruled:
  assumes "k_shipment s i = Some sh" "sh_status sh = Active" "j < length (sh_milestones sh)"
    "ms_status (sh_milestones sh ! j) = Disputed" "ruled i j sh m' n s t"
    "ms_status m' \<in> {ResolvedPendingFinality, Resolved, Pending}"
  shows "struck Rule i j s t"
  by (rule struck_moved [OF assms(1-3) moved_ruled [OF assms(5,4)]]) (use assms(4,6) edge_rule in auto)

lemma struck_idle:
  assumes "k_shipment s i = Some sh" "sh_status sh = Active" "k_shipment t = (k_shipment s)(i \<mapsto> sh')"
    "sh_milestones sh' = sh_milestones sh" "sh_open_dispute_count sh' = sh_open_dispute_count sh"
    "k_dispute_resolved_at t = k_dispute_resolved_at s"
  shows "struck k i j s t"
  using assms by (auto simp: struck_def)

lemma struck_same:
  assumes "k_shipment s i = Some sh" "sh_status sh = Active" "k_shipment t = k_shipment s"
    "k_dispute_resolved_at t = k_dispute_resolved_at s"
  shows "struck k i j s t"
  by (rule struck_idle [OF assms(1,2), of _ sh]) (use assms in auto)

text \<open>The report of a breach: repeated, short of the threshold, or opening the dispute.\<close>

lemma open_breach_Inr:
  assumes "open_condition_breach_dispute e sh i j s = Inr t" "ms_status (sh_milestones sh ! j) \<noteq> Disputed"
  obtains sh' where "ms_status (sh_milestones sh ! j) \<in> {Pending, ProofSubmitted, ConfirmedHeld}"
    "j < length (sh_milestones sh)" "k_shipment t = (k_shipment s)(i \<mapsto> sh')"
    "sh_milestones sh' = (sh_milestones sh)[j := disputed_milestone e (sh_milestones sh ! j)]"
    "sh_open_dispute_count sh' = sh_open_dispute_count sh + 1" "k_dispute_resolved_at t = k_dispute_resolved_at s"
proof -
  let ?sh1 = "\<lambda>b. append_audit_entry e b ''dispute_raised'' ''report_condition_breach''
      (set_milestone j (disputed_milestone e (sh_milestones sh ! j)) (sh\<lparr>sh_open_dispute_count := sh_open_dispute_count sh + 1\<rparr>))"
  obtain b u where c: "j < length (sh_milestones sh)" "ms_status (sh_milestones sh ! j) \<in> {Pending, ProofSubmitted, ConfirmedHeld}"
    "file_dispute e i j b True (?sh1 b) (s\<lparr>k_dispute_opened_at := (k_dispute_opened_at s)((i, j) \<mapsto> timestamp e)\<rparr>) = Inr u"
    and t: "t = emit_dispute_opened i j b (emit [VStr ''dispute_raised'', VStr i] [VNat j] u)"
    using assms by (auto simp: open_condition_breach_dispute_def bindE_Inr vec_get_unwrap_Inr ensure_Inr ck_u32_Inr Let_def)
  show thesis
    by (rule that [OF c(2,1), of "?sh1 b"])
       (use file_dispute_Inr(1,2) [OF c(3)] in
         \<open>simp_all add: t emit_dispute_opened_def append_audit_entry_def set_milestone_def\<close>)
qed

lemma struck_breach:
  assumes "report_condition_breach e a i j dh s = Inr t"
  shows "struck Breach i j s t"
proof -
  define reports where "reports = get_or [] (k_breach_reports s (i, j)) @ [(a, dh)]"
  let ?log = "\<lambda>sh. append_audit_entry e a ''condition_breach_reported'' ''report_condition_breach'' sh"
  let ?s1 = "\<lambda>sh. emit [VStr ''condition_breach_reported'', VStr i] [VNat j, VNat dh, VAddr a, VNat (length reports)]
     (s\<lparr>k_breach_reports := (k_breach_reports s)((i, j) \<mapsto> reports), k_shipment := (k_shipment s)(i \<mapsto> ?log sh)\<rparr>)"
  obtain sh where sh: "k_shipment s i = Some sh" "sh_status sh = Active" "j < length (sh_milestones sh)"
    and t: "t = s \<or> t = ?s1 sh \<or> open_condition_breach_dispute e (?log sh) i j (?s1 sh) = Inr t"
    using assms unfolding reports_def
    by (auto simp: report_condition_breach_def bindE_Inr get_shipment_Inr assert_active_Inr ensure_Inr Let_def split: if_splits)
  have log: "sh_milestones (?log sh) = sh_milestones sh" "sh_open_dispute_count (?log sh) = sh_open_dispute_count sh"
    by (simp_all add: append_audit_entry_def)
  have "open_condition_breach_dispute e (?log sh) i j (?s1 sh) = Inr (?s1 sh)" if "ms_status (sh_milestones sh ! j) = Disputed"
    using that sh(3) log(1) by (simp add: open_condition_breach_dispute_def vec_get_unwrap_def vec_get_def unwrap_def)
  with t consider "t = s" | "t = ?s1 sh"
    | "open_condition_breach_dispute e (?log sh) i j (?s1 sh) = Inr t" "ms_status (sh_milestones sh ! j) \<noteq> Disputed"
    by (cases "ms_status (sh_milestones sh ! j) = Disputed") fastforce+
  then show ?thesis
  proof cases
    case 1
    then show ?thesis using struck_same [OF sh(1,2)] by simp
  next
    case 2
    show ?thesis by (rule struck_idle [OF sh(1,2), of _ "?log sh"]) (simp_all add: 2 log)
  next
    case 3
    from 3(1) obtain sh' where o: "ms_status (sh_milestones sh ! j) \<in> {Pending, ProofSubmitted, ConfirmedHeld}"
      "k_shipment t = (k_shipment s)(i \<mapsto> sh')"
      "sh_milestones sh' = (sh_milestones sh)[j := disputed_milestone e (sh_milestones sh ! j)]"
      "sh_open_dispute_count sh' = sh_open_dispute_count sh + 1" "k_dispute_resolved_at t = k_dispute_resolved_at s"
      by (rule open_breach_Inr) (use 3(2) log in simp_all)
    have "status_edge Breach (ms_status (sh_milestones sh ! j)) (ms_status (disputed_milestone e (sh_milestones sh ! j)))"
      using o(1) by (auto simp: disputed_milestone_def intro: edge_breach)
    moreover have f: "forgets Breach i j s t" using o(5) by (simp add: forgets_def)
    ultimately show ?thesis using o(4) 3(2) by (intro struckI [OF sh f o(2,3)]) (simp_all add: disputed_milestone_def)
  qed
qed

lemma struck_timeout:
  assumes "resolve_dispute_timeout e i j s = Inr t"
  shows "struck Rule i j s t"
  using assms
proof (cases rule: moved_timeout)
  case (1 sh backup)
  show ?thesis by (rule struck_idle [OF 1(1,2,4)]) (use 1 in \<open>simp_all add: append_audit_entry_def\<close>)
next
  case (2 sh opened)
  show ?thesis by (rule struck_moved [OF 2(1-3,9)]) (use 2(4) edge_rule in simp_all)
qed

lemma struck_mediation:
  assumes "accept_mediation e c i j s = Inr t"
  shows "struck Rule i j s t"
  using assms
proof (cases rule: moved_mediation)
  case (1 sh)
  then show ?thesis by (intro struck_same)
next
  case (2 sh p)
  show ?thesis by (rule struck_moved [OF 2(1-3,9)]) (use 2(4) edge_rule in simp_all)
qed

lemma struck_vote:
  assumes "cast_dispute_vote e a i j approve s = Inr t"
  shows "struck Rule i j s t"
  using assms
proof (rule cast_vote_cases)
  fix sh panel
  let ?n = "length panel div 2 + 1"
  assume a: "k_shipment s i = Some sh" "sh_status sh = Active" "j < length (sh_milestones sh)"
    "ms_status (sh_milestones sh ! j) = Disputed"
    and v: "voted i j sh (get_or [] (k_dispute_votes s (i, j)) @ [\<lparr>dv_arbiter = a, dv_approve = approve\<rparr>]) ?n s t"
  show ?thesis
  proof (cases "k_shipment t = k_shipment s \<and> k_dispute_resolved_at t = k_dispute_resolved_at s")
    case True
    then show ?thesis using struck_same [OF a(1,2)] by simp
  next
    case False
    then obtain p q r where r: "ruled i j sh ((sh_milestones sh ! j)\<lparr>ms_status := fst (panel_verdict p q r)\<rparr>)
        (snd (panel_verdict p q r)) s t"
      using v by (auto simp: voted_def simp del: not_None_eq split: if_splits)
    show ?thesis by (rule struck_ruled [OF a r]) (simp add: panel_verdict_def)
  qed
qed

lemma struck_appeal:
  assumes "appeal_dispute e c i j s = Inr t"
  shows "struck Appeal i j s t"
  using assms
proof (rule appeal_cases)
  fix sh sh' :: shipment and new at
  let ?m = "disputed_milestone e (sh_milestones sh ! j)"
  assume a: "k_shipment s i = Some sh" "sh_status sh = Active" "j < length (sh_milestones sh)" "k_dispute_resolved_at s (i, j) = Some at"
    and t: "k_shipment t = (k_shipment s)(i \<mapsto> sh')" "sh_milestones sh' = (sh_milestones sh)[j := ?m]"
      "sh_open_dispute_count sh' = sh_open_dispute_count sh + 1"
      "k_dispute_resolved_at t = (k_dispute_resolved_at s)((i, j) := None)"
  have f: "forgets Appeal i j s t" using a(4) t(4) by (simp add: forgets_def)
  show ?thesis by (rule struckI [OF a(1-3) f t(1,2)]) (use t(3) in \<open>simp_all add: disputed_milestone_def edge_appeal\<close>)
qed

lemma call_struck:
  assumes "dispute_call k i j s t"
  shows "struck k i j s t"
  using assms
proof cases
  case (call_raise e b)
  from call_raise(2) show ?thesis
  proof (rule raise_dispute_cases)
    fix sh assume a: "k_shipment s i = Some sh" "sh_status sh = Active" "j < length (sh_milestones sh)"
      "ms_status (sh_milestones sh ! j) = ProofSubmitted \<or> ms_status (sh_milestones sh ! j) = ConfirmedHeld" "raised e i j sh 0 s t"
    have "moved i j sh (disputed_milestone e (sh_milestones sh ! j)) s t" by (rule moved_raised [OF a(5)]) (use a(4) in auto)
    then show ?thesis unfolding call_raise(1) using a(4)
      by (intro struck_moved [OF a(1-3)]) (auto simp: disputed_milestone_def intro: edge_raise)
  qed
next
  case (call_partial e b pct)
  from call_partial(2) show ?thesis
  proof (rule raise_partial_cases)
    fix sh full n assume a: "k_shipment s i = Some sh" "sh_status sh = Active" "j < length (sh_milestones sh)"
      "ms_status (sh_milestones sh ! j) = ProofSubmitted \<or> ms_status (sh_milestones sh ! j) = ConfirmedHeld" "raised e i j sh (max n 0) s t"
    have "moved i j sh (disputed_milestone e (sh_milestones sh ! j)) s t" by (rule moved_raised [OF a(5)]) (use a(4) in auto)
    then show ?thesis unfolding call_partial(1) using a(4)
      by (intro struck_moved [OF a(1-3)]) (auto simp: disputed_milestone_def intro: edge_raise)
  qed
next
  case (call_withdraw e b)
  from call_withdraw(2) show ?thesis unfolding call_withdraw(1)
    by (rule moved_withdraw) (rule struck_moved, assumption+, simp_all add: edge_withdraw)
next
  case (call_rule e a approve reason)
  from call_rule(2) show ?thesis unfolding call_rule(1)
    by (rule resolve_dispute_cases) (rule struck_ruled, assumption+, rule verdict_status)
next
  case (call_split e a bps)
  from call_split(2) show ?thesis unfolding call_split(1)
    by (rule resolve_split_cases) (rule struck_ruled, assumption+, simp add: split_verdict_def)
next
  case (call_finalize e)
  from call_finalize(2) show ?thesis
  proof (rule finalize_cases)
    fix sh :: shipment and payment
    assume a: "k_shipment s i = Some sh" "sh_status sh = Active" "j < length (sh_milestones sh)"
      "ms_status (sh_milestones sh ! j) = ResolvedPendingFinality" and f: "finalized i j sh payment s t"
    let ?m = "(sh_milestones sh ! j)\<lparr>ms_status := Resolved, ms_release_after_ledger := 0\<rparr>"
    have "moved i j sh ?m s t" using f a(4) unfolding finalized_def moved_def by fastforce
    from struck_moved [OF a(1-3) this, of Finalize] show ?thesis unfolding call_finalize(1) using a(4) by (simp add: edge_finalize)
  qed
qed (simp_all add: struck_breach struck_timeout struck_vote struck_mediation struck_appeal)

section \<open>The invariant\<close>

text \<open>
  The counter is never below the number of disputed milestones. Unless the oracles overrule a ruling,
  it is that number, and no disputed milestone has a ruling on record.
\<close>

definition open_disputes :: "shipment \<Rightarrow> nat" where
  "open_disputes sh = length (filter (\<lambda>m. ms_status m = Disputed) (sh_milestones sh))"

definition dispute_books :: "bool \<Rightarrow> settle \<Rightarrow> bool" where
  "dispute_books over s \<longleftrightarrow> (\<forall>i sh. k_shipment s i = Some sh \<longrightarrow> open_disputes sh \<le> sh_open_dispute_count sh \<and>
     (over \<or> sh_open_dispute_count sh = open_disputes sh \<and>
       (\<forall>j < length (sh_milestones sh). ms_status (sh_milestones sh ! j) = Disputed \<longrightarrow>
          k_dispute_resolved_at s (i, j) = None)))"

lemma dispute_booksD:
  assumes "dispute_books over s" "k_shipment s i = Some sh"
  shows "open_disputes sh \<le> sh_open_dispute_count sh" "\<not> over \<Longrightarrow> sh_open_dispute_count sh = open_disputes sh"
    "\<not> over \<Longrightarrow> j < length (sh_milestones sh) \<Longrightarrow> ms_status (sh_milestones sh ! j) = Disputed \<Longrightarrow>
       k_dispute_resolved_at s (i, j) = None"
  using assms by (auto simp: dispute_books_def)

lemma filter_update:
  assumes "j < length xs"
  shows "length (filter P (xs[j := y])) + (if P (xs ! j) then 1 else 0) = length (filter P xs) + (if P y then 1 else 0)"
proof -
  have "length (filter P xs) = length (filter P (take j xs)) + (if P (xs ! j) then 1 else 0) + length (filter P (drop (Suc j) xs))"
    by (subst id_take_nth_drop [OF assms]) simp
  then show ?thesis using assms by (simp add: upd_conv_take_nth_drop)
qed

lemma struck_books:
  assumes "dispute_books over s" "struck k i j s t" "over \<or> k \<noteq> Breach \<or> k_dispute_resolved_at s (i, j) = None"
  shows "dispute_books over t"
proof -
  obtain sh sh' where sh: "k_shipment s i = Some sh" and t: "k_shipment t = (k_shipment s)(i \<mapsto> sh')"
    and c: "sh_milestones sh' = sh_milestones sh \<and> sh_open_dispute_count sh' = sh_open_dispute_count sh \<and>
        k_dispute_resolved_at t = k_dispute_resolved_at s \<or>
      j < length (sh_milestones sh) \<and> forgets k i j s t \<and>
      (\<exists>m'. sh_milestones sh' = (sh_milestones sh)[j := m'] \<and> status_edge k (ms_status (sh_milestones sh ! j)) (ms_status m') \<and>
         sh_open_dispute_count sh' = sh_open_dispute_count sh + (if ms_status m' = Disputed then 1 else 0)
           - (if ms_status (sh_milestones sh ! j) = Disputed \<and> k \<noteq> Appeal then 1 else 0))"
    using assms(2) unfolding struck_def by blast
  note books = dispute_booksD [OF assms(1)]
  from c show ?thesis
  proof (elim disjE conjE exE)
    assume "sh_milestones sh' = sh_milestones sh" "sh_open_dispute_count sh' = sh_open_dispute_count sh"
      "k_dispute_resolved_at t = k_dispute_resolved_at s"
    then show ?thesis using books [OF sh] books t by (auto simp: dispute_books_def open_disputes_def)
  next
    fix m'
    assume m: "j < length (sh_milestones sh)" "forgets k i j s t" "sh_milestones sh' = (sh_milestones sh)[j := m']"
      "status_edge k (ms_status (sh_milestones sh ! j)) (ms_status m')"
      and n: "sh_open_dispute_count sh' = sh_open_dispute_count sh + (if ms_status m' = Disputed then 1 else 0)
           - (if ms_status (sh_milestones sh ! j) = Disputed \<and> k \<noteq> Appeal then 1 else 0)"
    have f: "open_disputes sh' + (if ms_status (sh_milestones sh ! j) = Disputed then 1 else 0) =
        open_disputes sh + (if ms_status m' = Disputed then 1 else 0)"
      using filter_update [OF m(1), of "\<lambda>m. ms_status m = Disputed" m'] by (simp add: open_disputes_def m(3))
    have r: "k_dispute_resolved_at t x = k_dispute_resolved_at s x \<or> k_dispute_resolved_at t x = None" if "x \<noteq> (i, j)" for x
      using m(2) [unfolded forgets_def, THEN conjunct1, rule_format, OF that] .
    have keep: "\<not> over \<Longrightarrow> k_dispute_resolved_at s (k', l) = None \<Longrightarrow> (k', l) \<noteq> (i, j) \<Longrightarrow> k_dispute_resolved_at t (k', l) = None"
      for k' l using r [of "(k', l)"] by auto
    have ap: "\<not> over \<Longrightarrow> k = Appeal \<Longrightarrow> ms_status (sh_milestones sh ! j) \<noteq> Disputed"
      using m(2) books(3) [OF sh _ m(1)] by (auto simp: forgets_def)
    have own: "\<not> over \<Longrightarrow> ms_status m' = Disputed \<Longrightarrow> k_dispute_resolved_at t (i, j) = None"
      using m(2,4) assms(3) by (auto simp: forgets_def status_edge_simps)
    have le: "open_disputes sh' \<le> sh_open_dispute_count sh'"
      using f n books(1) [OF sh]
      by (cases "ms_status (sh_milestones sh ! j) = Disputed"; cases "ms_status m' = Disputed"; cases "k = Appeal") simp_all
    have eq: "\<not> over \<Longrightarrow> sh_open_dispute_count sh' = open_disputes sh'"
      using f n books(2) [OF sh] ap
      by (cases "ms_status (sh_milestones sh ! j) = Disputed"; cases "ms_status m' = Disputed"; cases "k = Appeal") simp_all
    have at: "k_dispute_resolved_at t (i, l) = None"
      if "\<not> over" "l < length (sh_milestones sh')" "ms_status (sh_milestones sh' ! l) = Disputed" for l
    proof (cases "l = j")
      case True
      then show ?thesis using own that m(1,3) by simp
    next
      case False
      then have "k_dispute_resolved_at s (i, l) = None" using books(3) [OF sh, of l] that m(3) by simp
      then show ?thesis using keep that(1) False by simp
    qed
    have el: "k_dispute_resolved_at t (k', l) = None" if "\<not> over" "k_shipment s k' = Some u" "k' \<noteq> i"
      "l < length (sh_milestones u)" "ms_status (sh_milestones u ! l) = Disputed" for k' u l
      using that keep [OF _ books(3) [OF that(2,1,4,5)]] by simp
    show ?thesis
      unfolding dispute_books_def
    proof (intro allI impI)
      fix k' u assume u: "k_shipment t k' = Some u"
      show "open_disputes u \<le> sh_open_dispute_count u \<and> (over \<or> sh_open_dispute_count u = open_disputes u \<and>
         (\<forall>j<length (sh_milestones u). ms_status (sh_milestones u ! j) = Disputed \<longrightarrow> k_dispute_resolved_at t (k', j) = None))"
      proof (cases "k' = i")
        case True
        then have "u = sh'" using u t by simp
        then show ?thesis using True by (cases over) (simp_all add: le eq at)
      next
        case False
        then have v: "k_shipment s k' = Some u" using u t by simp
        show ?thesis using books(1,2) [OF v] el [OF _ v False] by (cases over) simp_all
      qed
    qed
  qed
qed

lemma step_books:
  assumes "dispute_books over s" "dispute_step over s t"
  shows "dispute_books over t"
  using assms(2)
proof cases
  case (step_call k i j)
  then show ?thesis using struck_books [OF assms(1) call_struck] by blast
next
  case (step_batch e a rs)
  from batch_rulings [OF step_batch] show ?thesis
  proof (induction rule: rtranclp_induct)
    case (step u v)
    then show ?case using struck_books [OF _ call_struck] by (auto simp: ruling_def)
  qed (rule assms(1))
qed

definition no_disputes :: "settle \<Rightarrow> bool" where
  "no_disputes s \<longleftrightarrow> (\<forall>i sh. k_shipment s i = Some sh \<longrightarrow> sh_open_dispute_count sh = 0 \<and>
     (\<forall>m \<in> set (sh_milestones sh). ms_status m \<noteq> Disputed))"

interpretation court: invariant_system no_disputes "dispute_step over" "dispute_books over" for over
proof
  show "dispute_books over s" if "no_disputes s" for s
    using that by (auto simp: no_disputes_def dispute_books_def open_disputes_def filter_empty_conv)
qed (rule step_books)

section \<open>The arbiter pool over time\<close>

text \<open>
  The administrator's changes of the pool, the slashing of an arbiter whose ruling an appeal overturned,
  and the two uses of the round-robin position: a first dispute and a recusal.
\<close>

inductive pool_step :: "settle \<Rightarrow> settle \<Rightarrow> bool" where
  pool_add: "add_arbiter_to_pool e adm a s = Inr t \<Longrightarrow> pool_step s t"
| pool_batch: "batch_add_arbiters_to_pool e adm as s = Inr t \<Longrightarrow> pool_step s t"
| pool_remove: "remove_arbiter_from_pool e adm a s = Inr t \<Longrightarrow> pool_step s t"
| pool_reinstate: "reinstate_arbiter e adm a s = Inr t \<Longrightarrow> pool_step s t"
| pool_overturn: "apply_appeal_overturn e sh i j approve s = Inr t \<Longrightarrow> pool_step s t"
| pool_assign: "assign_pool_arbiter i sh s = Inr (t, sh') \<Longrightarrow> pool_step s t"
| pool_recuse: "recuse_arbiter e a i s = Inr t \<Longrightarrow> pool_step s t"

lemma pool_ok_cong:
  "k_arbiters_pool t = k_arbiters_pool s \<Longrightarrow> k_arb_pool_idx t = k_arb_pool_idx s \<Longrightarrow>
   k_arbiter_slashed t = k_arbiter_slashed s \<Longrightarrow> pool_ok t = pool_ok s"
  by (simp add: pool_defs)

lemma stake_pool:
  assumes "maybe_slash_arbiter_stake e a w tok u = Inr t"
  shows "k_arbiters_pool t = k_arbiters_pool u \<and> k_arb_pool_idx t = k_arb_pool_idx u \<and>
    k_arbiter_slashed t = k_arbiter_slashed u"
  using assms
proof (cases rule: slash_stake_cases)
  case 2
  then show ?thesis by (auto simp: token_pay_Inr)
qed simp

lemma pool_ok_updates:
  "pool_ok (s\<lparr>k_dispute_appeal_original := x\<rparr>) = pool_ok s" "pool_ok (s\<lparr>k_arbiter_stats := y\<rparr>) = pool_ok s"
  by (simp_all add: pool_defs)

lemma pool_ok_overturn:
  assumes "pool_ok s" "apply_appeal_overturn e sh i j approve s = Inr t"
  shows "pool_ok t"
  using assms(2)
proof (cases rule: overturn_cases)
  case (3 a n w c)
  let ?v = "overturn_counted a i j n s"
  have "pool_ok ?v" using assms(1) by (simp add: overturn_counted_def Let_def pool_ok_updates)
  then have "pool_ok (if c then slash_arbiter a n ?v else ?v)" using pool_ok_slash by simp
  then show ?thesis using stake_pool [OF 3] pool_ok_cong by blast
qed (use assms(1) in \<open>simp_all add: pool_ok_updates\<close>)

text \<open>The position after an assignment or a recusal is reduced modulo the length of the pool.\<close>

lemma pool_books [simp]:
  "k_arbiters_pool (reindex_arbiter i a b s) = k_arbiters_pool s" "k_arb_pool_idx (reindex_arbiter i a b s) = k_arb_pool_idx s"
  "k_arbiter_slashed (reindex_arbiter i a b s) = k_arbiter_slashed s"
  "k_arbiters_pool (record_supplier_arbiters a as s) = k_arbiters_pool s"
  "k_arb_pool_idx (record_supplier_arbiters a as s) = k_arb_pool_idx s"
  "k_arbiter_slashed (record_supplier_arbiters a as s) = k_arbiter_slashed s"
  by (simp_all add: reindex_arbiter_def add_to_party_index_def remove_from_party_index_def record_supplier_arbiters_def Let_def)

lemma pool_ok_move:
  assumes "pool_ok s" "k_arbiters_pool t = k_arbiters_pool s" "k_arbiter_slashed t = k_arbiter_slashed s"
    "k_arb_pool_idx t = Some n" "n < length (get_arbiter_pool s)"
  shows "pool_ok t"
  using assms by (simp add: pool_defs)

lemma pool_ok_assign:
  assumes "pool_ok s" "assign_pool_arbiter i sh s = Inr (t, sh')"
  shows "pool_ok t"
proof (cases "get_or False (k_use_pool_arb s i)")
  case True
  then obtain k where "k_arbiters_pool t = k_arbiters_pool s" "k_arbiter_slashed t = k_arbiter_slashed s"
    "k_arb_pool_idx t = Some ((k + 1) mod length (get_arbiter_pool s))" "get_arbiter_pool s \<noteq> []"
    using assms(2) by (auto simp: assign_pool_arbiter_def Let_def bindE_Inr split: if_splits)
  note c = this
  have "(k + 1) mod length (get_arbiter_pool s) < length (get_arbiter_pool s)" using c(4) by (intro mod_less_divisor) simp
  with c(1-3) show ?thesis by (rule pool_ok_move [OF assms(1)])
qed (use assms in \<open>simp add: assign_pool_arbiter_def\<close>)

lemma next_arbiter_bound:
  "next_arbiter pool a n k = Inr (Some (b, k')) \<Longrightarrow> k' < length pool \<and> b \<in> set pool \<and> b \<noteq> a"
  by (induction n arbitrary: k)
     (auto simp: bindE_Inr Let_def vec_get_unwrap_Inr split: if_splits intro!: mod_less_divisor)

lemma pool_ok_recuse:
  assumes "pool_ok s" "recuse_arbiter e a i s = Inr t"
  shows "pool_ok t"
proof -
  obtain b k where n: "next_arbiter (get_arbiter_pool s) a (length (get_arbiter_pool s)) (get_or 0 (k_arb_pool_idx s)) = Inr (Some (b, k))"
    and c: "k_arbiters_pool t = k_arbiters_pool s" "k_arbiter_slashed t = k_arbiter_slashed s" "k_arb_pool_idx t = Some k"
    using assms(2) by (auto simp: recuse_arbiter_def Let_def bindE_Inr expect_Inr split: if_splits)
  show ?thesis by (rule pool_ok_move [OF assms(1) c]) (use next_arbiter_bound [OF n] in blast)
qed

definition no_arbiters :: "settle \<Rightarrow> bool" where
  "no_arbiters s \<longleftrightarrow> get_arbiter_pool s = [] \<and> get_or 0 (k_arb_pool_idx s) = 0"

interpretation bench: invariant_system no_arbiters pool_step pool_ok
proof
  show "pool_ok s" if "no_arbiters s" for s
    using that by (simp add: no_arbiters_def pool_ok_def)
  show "pool_ok t" if "pool_ok s" "pool_step s t" for s t
    using that(2)
  proof cases
    case (pool_add e adm a)
    then show ?thesis using pool_ok_add [OF that(1)] by blast
  next
    case (pool_batch e adm as)
    then show ?thesis using pool_ok_batch [OF that(1)] by blast
  next
    case (pool_remove e adm a)
    then show ?thesis using pool_ok_remove [OF that(1)] by blast
  next
    case (pool_reinstate e adm a)
    then show ?thesis using pool_ok_reinstate [OF that(1)] by blast
  next
    case (pool_overturn e sh i j approve)
    then show ?thesis using pool_ok_overturn [OF that(1)] by blast
  next
    case (pool_assign i sh sh')
    then show ?thesis using pool_ok_assign [OF that(1)] by blast
  next
    case (pool_recuse e a i)
    then show ?thesis using pool_ok_recuse [OF that(1)] by blast
  qed
qed

end
