(* ===== verification/SettleShares.thy ===== *)
theory SettleShares
  imports SettleOutcomes
begin

text \<open>
  The money of a ruling: what a percentage split and the fee of a panel hand out, to the last unit.
\<close>

section \<open>Arithmetic of the shares\<close>

text \<open>
  Rates are in basis points. A share \<open>b\<close> of an amount covers its part of the arbiter's fee (rate
  \<open>a\<close>) and the platform fee (rate \<open>f\<close>) in spite of the rounding, and so does the rest.
\<close>

lemma shares_fit:
  fixes c a b f :: int
  assumes "0 \<le> c" "0 \<le> a" "0 \<le> b" "b \<le> 10000" "0 \<le> f" "a + f \<le> 10000"
  shows "c * a div 10000 * b div 10000 + c * b div 10000 * f div 10000 \<le> c * b div 10000"
    and "c * a div 10000 - c * a div 10000 * b div 10000 \<le> c - c * b div 10000"
proof -
  define fee where "fee = c * a div 10000"
  define share where "share = c * b div 10000"
  define part where "part = fee * b div 10000"
  define pf where "pf = share * f div 10000"
  have fee: "fee * 10000 \<le> c * a" by (simp add: fee_def)
  have share: "share * 10000 \<le> c * b" "c * b < share * 10000 + 10000"
    unfolding share_def by presburger+
  have part: "part * 10000 \<le> fee * b" "fee * b < part * 10000 + 10000"
    unfolding part_def by presburger+
  have pf: "pf * 10000 \<le> share * f" by (simp add: pf_def)
  have sh0: "0 \<le> share" using assms by (simp add: share_def pos_imp_zdiv_nonneg_iff)
  have "part * 100000000 \<le> fee * 10000 * b" using part(1) by (simp add: algebra_simps)
  also have "\<dots> \<le> c * a * b" using fee assms(3) by (rule mult_right_mono)
  also have "\<dots> = a * (c * b)" by simp
  also have "\<dots> \<le> a * (share * 10000 + 9999)" using share(2) assms(2) by (intro mult_left_mono) simp_all
  finally have 1: "part * 100000000 \<le> a * share * 10000 + 9999 * a" by (simp add: algebra_simps)
  have "pf * 10000 \<le> share * (10000 - a)"
    using pf mult_left_mono [of f "10000 - a" share] assms(6) sh0 by linarith
  then have 2: "pf * 100000000 \<le> share * 100000000 - a * share * 10000" by (simp add: algebra_simps)
  have "(part + pf) * 100000000 \<le> share * 100000000 + 9999 * a" using 1 2 by (simp add: algebra_simps)
  moreover have "9999 * a < 100000000" using assms by simp
  ultimately show "c * a div 10000 * b div 10000 + c * b div 10000 * f div 10000 \<le> c * b div 10000"
    unfolding fee_def [symmetric] share_def [symmetric] part_def [symmetric] pf_def [symmetric] by simp
  have "fee * 10000 \<le> c * 10000" using fee mult_left_mono [of a 10000 c] assms by linarith
  then have "(c - fee) * b \<le> (c - fee) * 10000" using assms(4) by (intro mult_left_mono) simp_all
  moreover have "(share - part) * 10000 < (c - fee) * b + 10000"
    using share(1) part(2) by (simp add: algebra_simps)
  ultimately have "(share - part) * 10000 < (c - fee) * 10000 + 10000" by linarith
  then show "c * a div 10000 - c * a div 10000 * b div 10000 \<le> c - c * b div 10000"
    unfolding fee_def [symmetric] share_def [symmetric] part_def [symmetric] by simp
qed

lemma share_bounds:
  assumes "0 \<le> (x::int)" "n \<le> 10000"
  shows "0 \<le> x * int n div 10000" "x * int n div 10000 \<le> x"
proof -
  have "x * int n \<le> x * 10000" using assms by (intro mult_left_mono) simp_all
  then show "x * int n div 10000 \<le> x" by linarith
  show "0 \<le> x * int n div 10000" using assms by (simp add: pos_imp_zdiv_nonneg_iff)
qed

section \<open>The platform fee\<close>

text \<open>The rate of the platform fee, and the case of at most one recipient.\<close>

definition single_recipient :: "settle \<Rightarrow> bool" where
  "single_recipient s \<longleftrightarrow> (case k_fee_recipients s of None \<Rightarrow> True | Some rs \<Rightarrow> length rs = 1)"

definition fee_rate :: "settle_env \<Rightarrow> settle \<Rightarrow> nat" where
  "fee_rate e s = (if fee_holiday_active e s then 0 else get_or 0 (map_option fc_fee_bps (k_fee_config s)))"

definition same_fees :: "settle \<Rightarrow> settle \<Rightarrow> bool" where
  "same_fees s t \<longleftrightarrow> k_fee_recipients t = k_fee_recipients s \<and> k_fee_config t = k_fee_config s \<and>
     k_fee_holiday t = k_fee_holiday s"

lemma same_fees_rate: "same_fees s t \<Longrightarrow> fee_rate e t = fee_rate e s \<and> single_recipient t = single_recipient s"
  by (simp add: same_fees_def fee_rate_def single_recipient_def fee_holiday_active_def)

lemma fees_pay: "token_pay e tok a b n s = Inr t \<Longrightarrow> same_fees s t"
  by (auto simp: token_pay_Inr same_fees_def)

lemma fees_pay_when: "whenE c (token_pay e tok a b n) s = Inr t \<Longrightarrow> same_fees s t"
  using fees_pay by (auto simp: whenE_Inr same_fees_def split: if_splits)

lemma fees_breaker: "check_circuit_breaker now p s = Inr t \<Longrightarrow> same_fees s t"
  by (auto simp: check_circuit_breaker_def Let_def bindE_Inr same_fees_def split: if_splits)

lemma fees_outflow: "check_address_outflow a now p s = Inr t \<Longrightarrow> same_fees s t"
  by (auto simp: check_address_outflow_def Let_def bindE_Inr same_fees_def split: if_splits)

lemma deduct_fee_exact:
  assumes "deduct_fee e gross tok s = Inr (t, net, fee)" "0 \<le> gross"
  shows "fee = gross * int (fee_rate e s) div 10000" "net = gross - fee"
proof -
  show "net = gross - fee" using deduct_cases [OF assms(1)] by simp
  have nn: "0 \<le> gross * int x div 10000" for x using assms(2) by (simp add: pos_imp_zdiv_nonneg_iff)
  show "fee = gross * int (fee_rate e s) div 10000"
  proof (cases "fee_holiday_active e s \<or> k_fee_config s = None")
    case True
    then show ?thesis using assms(1) by (auto simp: deduct_fee_def fee_rate_def)
  next
    case False
    then obtain c where c: "k_fee_config s = Some c" by auto
    have "fee = gross * int (fc_fee_bps c) div 10000 \<or> fee = 0 \<and> \<not> 0 < gross * int (fc_fee_bps c) div 10000"
      using assms False c by (auto simp: deduct_fee_def bindE_Inr mul_div_Inr tdiv_nonneg split: if_splits)
    then show ?thesis using nn [of "fc_fee_bps c"] False c by (auto simp: fee_rate_def)
  qed
qed

lemma deduct_fee_money:
  assumes "deduct_fee e gross tok s = Inr (t, net, fee)" "single_recipient s"
  shows "placed e tok i x s t = fee" "paying s t"
proof -
  have "placed e tok i x s t = fee \<and> paying s t"
    using conjunct1 [OF deduct_cases [OF assms(1)]]
  proof (elim disjE conjE exE)
    fix treasury assume d: "distribute_fee e tok treasury fee s = Inr t"
    obtain a u where u: "token_pay e tok (this e) a fee s = Inr u" "track_treasury_revenue tok fee u = Inr t"
      using d assms(2) by (auto simp: distribute_fee_def single_recipient_def bindE_Inr split: option.splits)
    note q = quiet_track_revenue [OF u(2)]
    show ?thesis
      using placed_pay [OF u(1)] placed_quiet [OF q] paying_pay [OF u(1)] quiet_paying [OF q]
        placed_trans [of e tok i x s t u] paying_trans by auto
  qed simp
  then show "placed e tok i x s t = fee" "paying s t" by simp_all
qed

section \<open>A percentage split\<close>

text \<open>What the payout of the supplier's share places: the platform fee and the net payment.\<close>

lemma payout_all:
  assumes "pay_milestone_to_payees e i j net a tok s = Inr t" "0 \<le> net"
    "percents (get_or [] (k_milestone_payees s (i, j))) \<le> 100" "holdback_ok s i"
  shows "placed e tok i (get_or a (k_milestone_supplier s (i, j))) s t = net" "free_escrow i tok t = free_escrow i tok s"
proof -
  have "placed e tok i (get_or a (k_milestone_supplier s (i, j))) s t = net \<and> free_escrow i tok t = free_escrow i tok s"
  proof (cases "0 < net")
    case True
    then show ?thesis using placed_payout [OF assms(1) True assms(3,4)] payout_escrow [OF assms(1)] by simp
  next
    case False
    then have "t = s" using assms(1) by (simp add: pay_milestone_to_payees_def)
    then show ?thesis using False assms(2) by simp
  qed
  then show "placed e tok i (get_or a (k_milestone_supplier s (i, j))) s t = net"
    "free_escrow i tok t = free_escrow i tok s" by simp_all
qed

text \<open>The payout terms the value theorems need: percentages of at most 100, one fee recipient.\<close>

definition payout_terms :: "settle \<Rightarrow> sid \<Rightarrow> nat \<Rightarrow> bool" where
  "payout_terms s i j \<longleftrightarrow> single_recipient s \<and> holdback_ok s i \<and>
     percents (get_or [] (k_milestone_payees s (i, j))) \<le> 100"

lemma payout_terms_keep: "same_fees s t \<Longrightarrow> same_terms s t \<Longrightarrow> payout_terms t i j = payout_terms s i j"
  by (simp add: payout_terms_def same_fees_rate same_termsD holdback_ok_def)

lemma split_supplier_money:
  assumes "pay_split_supplier e i j share part sh s = Inr (t, net, fee)" "payout_terms s i j"
    and "0 \<le> share" "0 \<le> part" "part + share * int (fee_rate e s) div 10000 \<le> share"
  shows "placed e (sh_token sh) i (get_or (sh_supplier sh) (k_milestone_supplier s (i, j))) s t = share - part"
    "free_escrow i (sh_token sh) t = free_escrow i (sh_token sh) s"
proof -
  let ?x = "get_or (sh_supplier sh) (k_milestone_supplier s (i, j))" and ?tok = "sh_token sh"
  have "placed e ?tok i ?x s t = share - part \<and> free_escrow i ?tok t = free_escrow i ?tok s"
  proof (cases "share \<le> 0")
    case True
    then show ?thesis using assms by (simp add: pay_split_supplier_def)
  next
    case False
    then obtain s1 s2 s3 s4 net0 where
      c: "check_circuit_breaker (sequence e) share s = Inr s1"
        "check_address_outflow (sh_supplier sh) (sequence e) share s1 = Inr s2"
        "deduct_fee e share ?tok s2 = Inr (s3, net0, fee)" "track_shipment_fees_paid i fee s3 = Inr s4"
        "pay_milestone_to_payees e i j (max (net0 - part) 0) (sh_supplier sh) ?tok s4 = Inr t"
      using assms(1) by (auto simp: pay_split_supplier_def Let_def bindE_Inr ck_i128_Inr split: prod.splits)
    note q = quiet_trans [OF quiet_breaker [OF c(1)] quiet_outflow [OF c(2)]] quiet_track_fees [OF c(4)]
    have fs: "same_fees s s2" using fees_breaker [OF c(1)] fees_outflow [OF c(2)] by (simp add: same_fees_def)
    have pt: "payout_terms s2 i j"
      using payout_terms_keep [OF fs, of i j] q(1) assms(2) by (simp add: quiet_def)
    note d = deduct_fee_exact [OF c(3) assms(3)] and m = deduct_fee_money [OF c(3)]
    have sr: "single_recipient s2" using pt by (simp add: payout_terms_def)
    note m = m [OF sr]
    have "fee = share * int (fee_rate e s) div 10000" using d(1) same_fees_rate [OF fs] by simp
    then have net: "net0 - part = share - fee - part" "0 \<le> net0 - part" using d(2) assms(5) by simp_all
    have terms: "same_terms s s4"
      using q m(2) by (auto simp: quiet_def paying_def same_terms_def)
    have p4: "percents (get_or [] (k_milestone_payees s4 (i, j))) \<le> 100" "holdback_ok s4 i"
      using assms(2) terms by (simp_all add: payout_terms_def same_termsD holdback_ok_def)
    have "placed e ?tok i (get_or (sh_supplier sh) (k_milestone_supplier s4 (i, j))) s4 t = max (net0 - part) 0"
      "free_escrow i ?tok t = free_escrow i ?tok s4"
      using payout_all [OF c(5) _ p4] by simp_all
    then have pay: "placed e ?tok i ?x s4 t = net0 - part" "free_escrow i ?tok t = free_escrow i ?tok s4"
      using terms net(2) by (simp_all add: same_termsD)
    have e: "free_escrow i ?tok s4 = free_escrow i ?tok s"
      using paying_escrow [OF quiet_paying [OF q(1)]] paying_escrow [OF m(2)] paying_escrow [OF quiet_paying [OF q(2)]]
      by simp
    show ?thesis
      using placed_trans [of e ?tok i ?x s t s2] placed_trans [of e ?tok i ?x s2 t s3] placed_trans [of e ?tok i ?x s3 t s4]
        placed_quiet [OF q(1)] m(1) placed_quiet [OF q(2)] pay e net(1) by simp
  qed
  then show "placed e ?tok i ?x s t = share - part" "free_escrow i ?tok t = free_escrow i ?tok s" by simp_all
qed

lemma placed_bond: "pay_bond e sh b n s = Inr t \<Longrightarrow> 0 \<le> n \<Longrightarrow> placed e (sh_token sh) i x s t = n"
  by (auto simp: pay_bond_def intro: placed_pay_when)

lemma paying_bond: "pay_bond e sh b n s = Inr t \<Longrightarrow> paying s t"
  by (auto simp: pay_bond_def intro: paying_pay_when)

lemma split_payout_money:
  assumes "settle_split_payout e i j bps contested sh s = Inr (t, sh')" "payout_terms s i j"
    and "0 \<le> contested" "bps \<le> 10000"
    and rates: "applicable_arbiter_fee_bps s contested (sh_arbiter_fee_bps sh) + fee_rate e s \<le> 10000"
  shows "placed e (sh_token sh) i (get_or (sh_supplier sh) (k_milestone_supplier s (i, j))) s t =
      contested + max (sh_dispute_bond_amount sh) 0"
    "free_escrow i (sh_token sh) t = free_escrow i (sh_token sh) s"
proof -
  let ?x = "get_or (sh_supplier sh) (k_milestone_supplier s (i, j))" and ?tok = "sh_token sh"
  let ?bond = "max (sh_dispute_bond_amount sh) 0"
  define a where "a = applicable_arbiter_fee_bps s contested (sh_arbiter_fee_bps sh)"
  define share where "share = contested * int bps div 10000"
  define fee where "fee = contested * int a div 10000"
  define part where "part = fee * int bps div 10000"
  define bb where "bb = ?bond * int (10000 - bps) div 10000"
  have nn: "0 \<le> share" "0 \<le> fee" using assms(3) by (simp_all add: share_def fee_def pos_imp_zdiv_nonneg_iff)
  then have nn': "0 \<le> part" by (simp add: part_def pos_imp_zdiv_nonneg_iff)
  have bond: "0 \<le> bb" "bb \<le> ?bond"
    unfolding bb_def using share_bounds [of ?bond "10000 - bps"] by auto
  obtain share' fee' part' bb' s1 p s2 net pf s3 s4 s5 where
    m: "mul_div contested bps 10000 = Inr share'"
      "mul_div contested (applicable_arbiter_fee_bps s contested (sh_arbiter_fee_bps sh)) 10000 = Inr fee'"
      "mul_div fee' bps 10000 = Inr part'" "mul_div ?bond (10000 - bps) 10000 = Inr bb'"
    and c': "pay_arbiter e sh fee' s = Inr (s1, fee')" "pay_split_supplier e i j share' part' sh s1 = Inr (s2, net, pf)"
      "whenE (0 < max (contested - share' - (fee' - part')) 0)
         (token_pay e ?tok (this e) p (max (contested - share' - (fee' - part')) 0)) s2 = Inr s3"
      "pay_bond e sh p bb' s3 = Inr s4" "pay_bond e sh (sh_supplier sh) (?bond - bb') s4 = Inr s5" "quiet s5 t"
    using assms(1)
    by (auto simp: settle_split_payout_def arbiter_fee_on_def Let_def bindE_Inr ck_i128_Inr pay_arbiter_def
        split: prod.splits dest!: quiet_counters)
  have eqs: "share' = share" "fee' = fee" "bb' = bb"
    using m(1,2,4) assms(3) by (simp_all add: mul_div_Inr tdiv_nonneg share_def fee_def a_def bb_def)
  have part': "part' = part" using m(3) nn(2) by (simp add: mul_div_Inr tdiv_nonneg part_def eqs)
  note c = c' [unfolded eqs part']
  have pay1: "placed e ?tok i ?x s s1 = fee" "paying s s1" "same_fees s s1"
    using c(1) placed_pay_when paying_pay_when fees_pay_when nn(2) by (auto simp: pay_arbiter_def bindE_Inr)
  have pt: "payout_terms s1 i j"
    using payout_terms_keep [OF pay1(3)] pay1(2) assms(2) by (simp add: paying_def)
  have fit: "part + share * int (fee_rate e s1) div 10000 \<le> share" "fee - part \<le> contested - share"
    using shares_fit [of contested "int a" "int bps" "int (fee_rate e s)"] assms(3,4) rates same_fees_rate [OF pay1(3)]
    by (simp_all add: part_def fee_def share_def a_def)
  note m = split_supplier_money [OF c(2) pt nn(1) nn' fit(1)]
  have x: "get_or (sh_supplier sh) (k_milestone_supplier s1 (i, j)) = ?x"
    using pay1(2) by (simp add: paying_def same_terms_def)
  note q = placed_pay_when [OF c(3), of i ?x] paying_pay_when [OF c(3)] placed_bond [OF c(4) bond(1), of i ?x]
    paying_bond [OF c(4)] placed_bond [OF c(5), of i ?x] paying_bond [OF c(5)]
  note tr = placed_trans [of e ?tok i ?x s t s1] placed_trans [of e ?tok i ?x s1 t s2] placed_trans [of e ?tok i ?x s2 t s3]
    placed_trans [of e ?tok i ?x s3 t s4] placed_trans [of e ?tok i ?x s4 t s5]
  show "placed e ?tok i ?x s t = contested + ?bond"
    using tr pay1(1) m(1) x q placed_quiet [OF c(6)] fit(2) bond(2) by simp
  show "free_escrow i ?tok t = free_escrow i ?tok s"
    using paying_escrow [OF pay1(2)] m(2) paying_escrow [OF q(2)] paying_escrow [OF q(4)] paying_escrow [OF q(6)]
      paying_escrow [OF quiet_paying [OF c(6)]] by simp
qed

section \<open>The fee of a panel\<close>

text \<open>What the voter at position \<open>k\<close> of \<open>n\<close> gets: equal shares, the last one the rest.\<close>

definition panel_share :: "int \<Rightarrow> nat \<Rightarrow> nat \<Rightarrow> int" where
  "panel_share whole n k = (if k = n - 1 then whole - int k * (whole div int n) else whole div int n)"

lemma panel_share_nonneg:
  assumes "0 \<le> whole" "k < n"
  shows "0 \<le> panel_share whole n k"
proof -
  have "int k * (whole div int n) \<le> int n * (whole div int n)"
    using assms by (intro mult_right_mono) (simp_all add: pos_imp_zdiv_nonneg_iff)
  also have "\<dots> = whole - whole mod int n" by (simp add: minus_mod_eq_mult_div)
  also have "\<dots> \<le> whole" using assms by simp
  finally have "int k * (whole div int n) \<le> whole" .
  moreover have "0 \<le> whole div int n" using assms by (simp add: pos_imp_zdiv_nonneg_iff)
  ultimately show ?thesis unfolding panel_share_def by (metis diff_ge_0_iff_ge)
qed

lemma panel_loop_transfers:
  assumes "panel_fee_loop e tok whole (whole div int n) n k vs (int k * (whole div int n)) s = Inr (t, d)"
    and "n = k + length vs" and "0 \<le> whole"
  shows "calls t = calls s @ filter (\<lambda>x. 0 < xamount x) (map (\<lambda>(k, v).
      \<lparr>xtoken = tok, xfrom = this e, xto = v, xamount = panel_share whole n k\<rparr>) (zip [k..<n] vs))"
    and "vs \<noteq> [] \<Longrightarrow> d = whole"
proof -
  have "calls t = calls s @ filter (\<lambda>x. 0 < xamount x) (map (\<lambda>(k, v).
      \<lparr>xtoken = tok, xfrom = this e, xto = v, xamount = panel_share whole n k\<rparr>) (zip [k..<n] vs)) \<and> (vs \<noteq> [] \<longrightarrow> d = whole)"
    using assms
  proof (induction vs arbitrary: k s)
    case (Cons v vs)
    let ?a = "panel_share whole n k"
    have "k < n" using Cons.prems(2) by simp
    then have k: "k < n" "[k..<n] = k # [Suc k..<n]" by (simp_all add: upt_conv_Cons)
    have nn: "0 \<le> ?a" using panel_share_nonneg [OF Cons.prems(3) k(1)] .
    have a: "(if k = n - 1 then ck_i128 (whole - int k * (whole div int n)) else Inr (whole div int n)) = Inr ?a"
      using Cons.prems(1) by (auto simp: panel_share_def bindE_Inr ck_i128_Inr split: if_splits)
    note call = Cons.prems(1) [unfolded panel_fee_loop.simps a bindE_simps]
    have last_done: "d = whole" if "vs = []" "panel_fee_loop e tok whole (whole div int n) n (k + 1) vs (int k * (whole div int n) + ?a) u = Inr (t, d)" for u
      using that Cons.prems(2) by (simp add: panel_share_def)
    show ?case
    proof (cases "0 < ?a")
      case True
      then obtain u where u: "token_pay e tok (this e) v ?a s = Inr u"
        "panel_fee_loop e tok whole (whole div int n) n (k + 1) vs (int k * (whole div int n) + ?a) u = Inr (t, d)"
        using call by (auto simp: bindE_Inr ck_i128_Inr)
      have cu: "calls u = calls s @ [\<lparr>xtoken = tok, xfrom = this e, xto = v, xamount = ?a\<rparr>]"
        using u(1) by (auto simp: token_pay_Inr)
      show ?thesis
      proof (cases "vs = []")
        case True
        then show ?thesis using last_done [OF True u(2)] u(2) cu k \<open>0 < ?a\<close> by simp
      next
        case False
        then have "?a = whole div int n" using Cons.prems(2) by (cases vs) (simp_all add: panel_share_def)
        then have "int k * (whole div int n) + ?a = int (k + 1) * (whole div int n)" by (simp add: algebra_simps)
        with Cons.IH [of "k + 1" u] u(2) Cons.prems(2,3) cu k \<open>0 < ?a\<close> False show ?thesis by simp
      qed
    next
      case False
      then have z: "?a = 0" using nn by simp
      have r: "panel_fee_loop e tok whole (whole div int n) n (k + 1) vs (int k * (whole div int n)) s = Inr (t, d)"
        using call False by simp
      show ?thesis
      proof (cases "vs = []")
        case True
        then show ?thesis using last_done [OF True, of s] r z k by simp
      next
        case rest: False
        then have "whole div int n = 0" using z Cons.prems(2) by (cases vs) (simp_all add: panel_share_def)
        with Cons.IH [of "k + 1" s] r Cons.prems(2,3) z k rest show ?thesis by simp
      qed
    qed
  qed simp
  then show "calls t = calls s @ filter (\<lambda>x. 0 < xamount x) (map (\<lambda>(k, v).
      \<lparr>xtoken = tok, xfrom = this e, xto = v, xamount = panel_share whole n k\<rparr>) (zip [k..<n] vs))"
    "vs \<noteq> [] \<Longrightarrow> d = whole" by simp_all
qed

lemma panel_fee_transfers:
  assumes "distribute_panel_fee e tok i j votes whole s = Inr (t, d)" "0 < whole" "votes \<noteq> []"
  shows "d = whole" "calls t = calls s @ filter (\<lambda>x. 0 < xamount x) (map (\<lambda>(k, v).
      \<lparr>xtoken = tok, xfrom = this e, xto = dv_arbiter v, xamount = panel_share whole (length votes) k\<rparr>)
      (zip [0..<length votes] votes))"
proof -
  let ?n = "length votes"
  obtain u where u: "panel_fee_loop e tok whole (whole div int ?n) ?n 0 (map dv_arbiter votes) 0 s = Inr (u, d)"
    "calls t = calls u"
    using assms by (auto simp: distribute_panel_fee_def Let_def bindE_Inr tdiv_nonneg)
  have u': "panel_fee_loop e tok whole (whole div int ?n) ?n 0 (map dv_arbiter votes) (int 0 * (whole div int ?n)) s = Inr (u, d)"
    using u(1) by simp
  note r = panel_loop_transfers [OF u']
  show "d = whole" using r(2) assms(2,3) by simp
  have "calls u = calls s @ filter (\<lambda>x. 0 < xamount x) (map (\<lambda>(k, v).
      \<lparr>xtoken = tok, xfrom = this e, xto = v, xamount = panel_share whole ?n k\<rparr>) (zip [0..<?n] (map dv_arbiter votes)))"
    using r(1) assms(2) by simp
  also have "map (\<lambda>(k, v). \<lparr>xtoken = tok, xfrom = this e, xto = v, xamount = panel_share whole ?n k\<rparr>)
      (zip [0..<?n] (map dv_arbiter votes)) = map (\<lambda>(k, v). \<lparr>xtoken = tok, xfrom = this e, xto = dv_arbiter v,
      xamount = panel_share whole ?n k\<rparr>) (zip [0..<?n] votes)"
    by (simp only: zip_map2 map_map comp_def split_def fst_conv snd_conv)
  finally show "calls t = calls s @ filter (\<lambda>x. 0 < xamount x) (map (\<lambda>(k, v).
      \<lparr>xtoken = tok, xfrom = this e, xto = dv_arbiter v, xamount = panel_share whole (length votes) k\<rparr>)
      (zip [0..<length votes] votes))" using u(2) by simp
qed

end
