(* ===== verification/DisputeSample.thy ===== *)
theory DisputeSample
  imports SettleBooks SettleShares SettleSelection SettleSample
begin

text \<open>
  Concrete states with a dispute, for the closed instances of the properties: the shipment of
  \<open>SettleSample\<close> with its first milestone disputed and a bond of 50 taken.
\<close>

definition deal_court :: shipment where
  "deal_court = (shipment0 ''S'' [(milestone0 60 Disputed)\<lparr>ms_dispute_opened_ledger := Some 12\<rparr>,
     milestone0 40 Pending] Active)\<lparr>sh_open_dispute_count := 1, sh_dispute_bond_amount := 50,
       sh_arbiter_fee_bps := 200, sh_dispute_timeout_seconds := 5\<rparr>"

definition court0 :: settle where
  "court0 = state0\<lparr>k_shipment := [''S'' \<mapsto> deal_court], k_dispute_opened_at := [(''S'', 0) \<mapsto> 12],
     k_active_disputes := Some [\<lparr>de_shipment_id = ''S'', de_milestone_index = 0\<rparr>]\<rparr>"

lemmas court_defs = court0_def deal_court_def state0_def shipment0_def milestone0_def

lemma addr0_distinct [simp]:
  "other0 \<noteq> arbiter0" "arbiter0 \<noteq> other0" "supplier0 \<noteq> buyer0" "buyer0 \<noteq> supplier0" "treasury0 \<noteq> other0"
  "other0 \<noteq> treasury0" "arbiter0 \<noteq> treasury0" "treasury0 \<noteq> arbiter0" "arbiter0 \<noteq> buyer0" "other0 \<noteq> buyer0"
  "arbiter0 \<noteq> supplier0" "other0 \<noteq> supplier0" "treasury0 \<noteq> buyer0" "treasury0 \<noteq> supplier0"
  by (simp_all add: addr0_defs)

lemmas court_eval = confirm_eval confirm_eval2 eval_defs rule_dispute_def award_supplier_def award_buyer_def pay_arbiter_def
  arbiter_fee_on_def applicable_arbiter_fee_bps_def loser_pays_cover_def pay_bond_def book_ruling_def
  close_ruling_def count_ruling_def settle_appeal_fee_def apply_appeal_overturn_def ruling_complete_def
  mark_resolved_def ruled_shipment_def drop_contested_def drop_dispute_def contested_payment_def
  require_arbiter_auth_def assert_not_panel_escalated_def is_dispute_panel_escalated_def emit_dispute_resolved_def
  append_dispute_history_def append_dispute_history_for_def update_buyer_reliability_on_dispute_def deduct_fee_def
  distribute_fee_def decrease_total_escrowed_def get_arbiter_stats_def arbiter_stats_zero_def

lemma reputation_stats [simp]: "k_contract_stats (increment_reputation_internal e a x y z s) = k_contract_stats s"
  by (simp add: increment_reputation_internal_def Let_def set_reputation_internal_def check_auto_blacklist_internal_def
      evaluate_supplier_tier_change_def)

lemmas raise_eval = dispute_authority_def dispute_cooldown_ok_def dispute_window_ok_def assert_dispute_filing_window_ok_def
  open_dispute_cap_ok_def disputable_def assign_pool_arbiter_def reopen_marks_def move_grade_to_dispute_def
  disputed_milestone_def maybe_escalate_to_panel_def file_dispute_def emit_dispute_opened_def
  mark_shipment_had_dispute_def record_dispute_raiser_def assert_buyer_dispute_cap_ok_def

lemma rule_court0: "\<exists>t. resolve_dispute (env_at 20) arbiter0 ''S'' 0 True None court0 = Inr t"
  by (simp add: court_defs resolve_dispute_def court_eval cong: eval_cong option.case_cong)

lemma raise_state0: "\<exists>t. raise_dispute (env_at 20) buyer0 ''S'' 0 state0 = Inr t"
  by (simp add: state0_def deal0_def shipment0_def milestone0_def raise_dispute_def raise_open_def court_eval raise_eval
      cong: eval_cong option.case_cong)

text \<open>The same dispute before a panel of three, one of whom has voted for the supplier.\<close>

definition court_panel :: settle where
  "court_panel = court0\<lparr>k_arbiter_panel := [''S'' \<mapsto> [arbiter0, other0, treasury0]],
     k_dispute_votes := [(''S'', 0) \<mapsto> [\<lparr>dv_arbiter = arbiter0, dv_approve = True\<rparr>]]\<rparr>"

lemma vote_court: "\<exists>t. cast_dispute_vote (env_at 20) other0 ''S'' 0 True court_panel = Inr t"
  by (simp add: court_panel_def court_defs cast_dispute_vote_def votes_for_def resolve_dispute_panel_internal_def
      rule_panel_def distribute_panel_fee_def court_eval cong: eval_cong option.case_cong)

text \<open>A split, a timeout, and a ruling that is appealed and ruled once more.\<close>

lemma split_court0: "\<exists>x. settle_split_payout (env_at 20) ''S'' 0 5000 600 deal_court court0 = Inr x"
  by (simp add: court_defs settle_split_payout_def pay_split_supplier_def court_eval cong: eval_cong option.case_cong)

lemma timeout_court0: "\<exists>t. resolve_dispute_timeout (env_at 20) ''S'' 0 court0 = Inr t"
  by (simp add: court_defs resolve_dispute_timeout_def timeout_resolve_def timeout_pay_def court_eval
      cong: eval_cong option.case_cong)

definition court_appeal :: settle where
  "court_appeal = court0\<lparr>k_appeal_window_ledgers := Some 100, k_arbiters_pool := Some [other0]\<rparr>"

lemma appeal_court: "\<exists>t u v. resolve_dispute (env_at 20) arbiter0 ''S'' 0 True None court_appeal = Inr t \<and>
    appeal_dispute (env_at 21) buyer0 ''S'' 0 t = Inr u \<and> resolve_dispute (env_at 22) other0 ''S'' 0 True None u = Inr v \<and>
    map_option sh_released_amount (k_shipment v ''S'') = Some 1200 \<and>
    k_dispute_contested_percent u (''S'', 0) = None \<and> get_or 0 (k_finality_delay_ledgers u) = 0"
  by (simp add: court_appeal_def court_defs resolve_dispute_def appeal_dispute_def appeal_reopen_def court_eval
      select_pool_arbiters_def assert_buyer_or_supplier_def get_arbiter_pool_def disputed_milestone_def
      record_supplier_arbiters_def reindex_arbiter_def add_to_party_index_def remove_from_party_index_def
      get_appeal_fee_def is_arbiter_available_def vec_get_def get_arbiter_history_size_def cong: eval_cong option.case_cong)

lemma court_facts:
  "k_shipment court0 ''S'' = Some deal_court" "k_shipment court_panel ''S'' = Some deal_court"
  "sh_total_amount deal_court = 1000" "sh_token deal_court = token0" "sh_dispute_bond_amount deal_court = 50"
  "payout_terms court0 ''S'' 0" "applicable_arbiter_fee_bps court0 600 (sh_arbiter_fee_bps deal_court) = 200"
  "fee_rate e court0 = 100" "no_disputes state0" "get_dispute_votes court_panel ''S'' 0 = [\<lparr>dv_arbiter = arbiter0, dv_approve = True\<rparr>]"
  "get_arbiter_panel court_panel ''S'' = [arbiter0, other0, treasury0]" "k_backup_arbiter court0 ''S'' = None"
  "sh_default_resolution deal_court = ResolveBuyer" "get_or 0 (k_finality_delay_ledgers court_appeal) = 0"
  "k_dispute_contested_percent court_appeal (''S'', 0) = None"
  by (simp_all add: court_panel_def court_appeal_def court_defs court_eval payout_terms_def single_recipient_def fee_rate_def holdback_ok_def
      no_disputes_def deal0_def get_dispute_votes_def get_arbiter_panel_def cong: eval_cong option.case_cong)

text \<open>A panel of which two members disagree, and the draw of a panel from a fresh pool.\<close>

definition court_tie :: settle where
  "court_tie = court_panel\<lparr>k_dispute_votes := [(''S'', 0) \<mapsto>
     [\<lparr>dv_arbiter = arbiter0, dv_approve = True\<rparr>, \<lparr>dv_arbiter = treasury0, dv_approve = False\<rparr>]]\<rparr>"

lemma vote_tie: "\<exists>t. cast_dispute_vote (env_at 20) other0 ''S'' 0 False court_tie = Inr t"
  by (simp add: court_tie_def court_panel_def court_defs cast_dispute_vote_def votes_for_def
      resolve_dispute_panel_internal_def rule_panel_def distribute_panel_fee_def court_eval cong: eval_cong option.case_cong)

lemma tie_facts:
  "get_dispute_votes court_tie ''S'' 0 =
     [\<lparr>dv_arbiter = arbiter0, dv_approve = True\<rparr>, \<lparr>dv_arbiter = treasury0, dv_approve = False\<rparr>]"
  "get_arbiter_panel court_tie ''S'' = [arbiter0, other0, treasury0]"
  by (simp_all add: court_tie_def court_panel_def get_dispute_votes_def get_arbiter_panel_def)

definition bench0 :: settle where
  "bench0 = court0\<lparr>k_admin := Some treasury0\<rparr>"

lemma draw_bench: "\<exists>t u. batch_add_arbiters_to_pool (env_at 20) treasury0 [arbiter0, other0, treasury0] bench0 = Inr t \<and>
    assign_dispute_panel (env_at 20) treasury0 ''S'' 0 3 t = Inr (u, [arbiter0, other0, treasury0])"
  by (simp add: bench0_def court_defs batch_add_arbiters_to_pool_def assign_dispute_panel_def draw_panel_from_pool_def
      as_admin_def as_role_def assert_role_def settle_assert_admin_def check_has_role_def is_blacklisted_def append_admin_action_def get_arbiter_pool_def
      is_arbiter_slashed_def select_pool_arbiters_def
      is_arbiter_available_def get_arbiter_history_size_def record_supplier_arbiters_def court_eval
      cong: eval_cong option.case_cong)

lemma bench0_empty: "no_arbiters bench0"
  by (simp add: no_arbiters_def bench0_def court_defs get_arbiter_pool_def)

end
