(* ===== verification/SettleAdmit.thy ===== *)
theory SettleAdmit
  imports SettleGuards
begin

text \<open>
  The rules a new shipment has to satisfy (\<^verbatim>\<open>lib.rs\<close>): token lists, supplier and buyer lists,
  value bounds, milestone count, exposure and escrow caps, the supplier's terms and the saved
  milestone templates. Every list, bound and cap is set here and read by \<^verbatim>\<open>create_shipment\<close>.
\<close>

section \<open>Lists of addresses\<close>

text \<open>An empty list lets everybody pass.\<close>

definition listed :: "'a \<Rightarrow> 'a list \<Rightarrow> bool" where
  "listed a xs \<longleftrightarrow> xs = [] \<or> a \<in> set xs"

lemma listed_filter: "listed a (filter P xs) \<Longrightarrow> filter P xs \<noteq> [] \<Longrightarrow> a \<in> set xs \<and> P a"
  by (auto simp: listed_def)

text \<open>The administrator of the token list is the stored one; no caller is named.\<close>

definition stored_admin :: "settle_env \<Rightarrow> settle \<Rightarrow> unit res" where
  "stored_admin e s = bindE (expect (k_admin s) ''unauthorized'') (require_auth e)"

definition add_allowed_token :: "settle_env \<Rightarrow> addr \<Rightarrow> settle \<Rightarrow> settle res" where
  "add_allowed_token e tok s =
     bindE (stored_admin e s) (\<lambda>_.
     let allowed = get_or [] (k_allowed_tokens s); max_allowed = get_or 0 (k_max_allowed_tokens s)
     in if 0 < max_allowed \<and> max_allowed \<le> length allowed then Inl (Panic ''MaxAllowedTokensReached'')
        else
        bindE (append_admin_action e ''add_allowed_token'' ''allowed_token_added'' s) (\<lambda>s1.
        Inr (emit [VStr ''allowed_token_added''] [VAddr tok] (s1\<lparr>k_allowed_tokens := Some (allowed @ [tok])\<rparr>))))"

definition remove_allowed_token :: "settle_env \<Rightarrow> addr \<Rightarrow> settle \<Rightarrow> settle res" where
  "remove_allowed_token e tok s =
     bindE (stored_admin e s) (\<lambda>_.
     bindE (append_admin_action e ''remove_allowed_token'' ''allowed_token_removed'' s) (\<lambda>s1.
     Inr (emit [VStr ''allowed_token_removed''] [VAddr tok]
       (s1\<lparr>k_allowed_tokens := Some (filter (\<lambda>t. t \<noteq> tok) (get_or [] (k_allowed_tokens s1)))\<rparr>))))"

definition get_allowed_tokens :: "settle \<Rightarrow> addr list" where
  "get_allowed_tokens s = get_or [] (k_allowed_tokens s)"

definition set_max_allowed_tokens :: "settle_env \<Rightarrow> addr \<Rightarrow> nat \<Rightarrow> settle \<Rightarrow> settle res" where
  "set_max_allowed_tokens e adm n s =
     bindE (as_role e adm ComplianceOfficer s) (\<lambda>_.
     Inr (emit [VStr ''max_allowed_tokens_set''] [VNat n] (s\<lparr>k_max_allowed_tokens := Some n\<rparr>)))"

definition get_max_allowed_tokens :: "settle \<Rightarrow> nat" where
  "get_max_allowed_tokens s = get_or 0 (k_max_allowed_tokens s)"

definition set_buyer_allowed_tokens ::
  "settle_env \<Rightarrow> addr \<Rightarrow> addr \<Rightarrow> addr list \<Rightarrow> settle \<Rightarrow> settle res" where
  "set_buyer_allowed_tokens e adm b toks s =
     bindE (as_role e adm ComplianceOfficer s) (\<lambda>_.
     bindE (ensure (\<forall>t \<in> set toks. listed t (get_or [] (k_allowed_tokens s)))
              ''token is not in the approved whitelist'') (\<lambda>_.
     Inr (emit [VStr ''buyer_allowed_tokens_set'', VAddr b] [VList (map VAddr toks)]
            (s\<lparr>k_buyer_allowed_tokens := (k_buyer_allowed_tokens s)(b \<mapsto> toks)\<rparr>))))"

definition get_buyer_allowed_tokens :: "settle \<Rightarrow> addr \<Rightarrow> addr list" where
  "get_buyer_allowed_tokens s b = get_or [] (k_buyer_allowed_tokens s b)"

definition add_to_whitelist :: "settle_env \<Rightarrow> addr \<Rightarrow> addr \<Rightarrow> settle \<Rightarrow> settle res" where
  "add_to_whitelist e adm a s =
     bindE (as_role e adm ComplianceOfficer s) (\<lambda>_.
     let xs = get_or [] (k_supplier_whitelist s)
     in if a \<in> set xs then Inr s
        else Inr (emit [VStr ''supplier_whitelisted''] [VAddr a] (s\<lparr>k_supplier_whitelist := Some (xs @ [a])\<rparr>)))"

definition remove_from_whitelist :: "settle_env \<Rightarrow> addr \<Rightarrow> addr \<Rightarrow> settle \<Rightarrow> settle res" where
  "remove_from_whitelist e adm a s =
     bindE (as_role e adm ComplianceOfficer s) (\<lambda>_.
     Inr (emit [VStr ''supplier_unwhitelisted''] [VAddr a]
       (s\<lparr>k_supplier_whitelist := Some (filter (\<lambda>x. x \<noteq> a) (get_or [] (k_supplier_whitelist s)))\<rparr>)))"

definition is_whitelisted :: "settle \<Rightarrow> addr \<Rightarrow> bool" where
  "is_whitelisted s a = listed a (get_or [] (k_supplier_whitelist s))"

definition add_approved_buyer :: "settle_env \<Rightarrow> addr \<Rightarrow> addr \<Rightarrow> settle \<Rightarrow> settle res" where
  "add_approved_buyer e supplier b s =
     bindE (require_auth e supplier) (\<lambda>_.
     let xs = get_or [] (k_approved_buyers s supplier)
     in if b \<in> set xs then Inr s
        else Inr (emit [VStr ''approved_buyer_added'', VAddr supplier] [VAddr b]
               (s\<lparr>k_approved_buyers := (k_approved_buyers s)(supplier \<mapsto> xs @ [b])\<rparr>)))"

definition remove_approved_buyer :: "settle_env \<Rightarrow> addr \<Rightarrow> addr \<Rightarrow> settle \<Rightarrow> settle res" where
  "remove_approved_buyer e supplier b s =
     bindE (require_auth e supplier) (\<lambda>_.
     Inr (emit [VStr ''approved_buyer_removed'', VAddr supplier] [VAddr b]
       (s\<lparr>k_approved_buyers := (k_approved_buyers s)
            (supplier \<mapsto> filter (\<lambda>x. x \<noteq> b) (get_or [] (k_approved_buyers s supplier)))\<rparr>)))"

definition get_approved_buyers :: "settle \<Rightarrow> addr \<Rightarrow> addr list" where
  "get_approved_buyers s supplier = get_or [] (k_approved_buyers s supplier)"

definition set_require_mutual_preapproval :: "settle_env \<Rightarrow> addr \<Rightarrow> bool \<Rightarrow> settle \<Rightarrow> settle res" where
  "set_require_mutual_preapproval e adm enabled s =
     bindE (as_role e adm ComplianceOfficer s) (\<lambda>_.
     bindE (append_admin_action e ''set_require_mutual_preapproval'' ''mutual_preapproval_updated''
              (s\<lparr>k_require_mutual_preapproval := Some enabled\<rparr>)) (\<lambda>s1.
     Inr (emit [VStr ''mutual_preapproval_updated''] [VAddr adm, VBool enabled, VNat (sequence e)] s1)))"

definition get_require_mutual_preapproval :: "settle \<Rightarrow> bool" where
  "get_require_mutual_preapproval s = get_or False (k_require_mutual_preapproval s)"

section \<open>Bounds and caps\<close>

definition set_max_milestone_count :: "settle_env \<Rightarrow> addr \<Rightarrow> nat \<Rightarrow> settle \<Rightarrow> settle res" where
  "set_max_milestone_count e adm n s =
     bindE (as_admin e adm s) (\<lambda>_.
     if n = 0 then Inl (Panic ''InvalidMilestoneCount'')
     else Inr (emit [VStr ''max_milestone_count_set''] [VNat n] (s\<lparr>k_max_milestone_count := Some n\<rparr>)))"

definition get_max_milestone_count :: "settle \<Rightarrow> nat" where
  "get_max_milestone_count s = get_or DEFAULT_MAX_MILESTONE_COUNT (k_max_milestone_count s)"

definition set_token_min_shipment_value :: "settle_env \<Rightarrow> addr \<Rightarrow> addr \<Rightarrow> int \<Rightarrow> settle \<Rightarrow> settle res" where
  "set_token_min_shipment_value e adm tok n s =
     bindE (as_admin e adm s) (\<lambda>_.
     if n < 0 then Inl (Panic ''InvalidAmount'')
     else Inr (emit [VStr ''token_min_shipment_value_set'', VAddr tok] [VInt n]
            (s\<lparr>k_token_min_value := (k_token_min_value s)(tok \<mapsto> n)\<rparr>)))"

definition clear_token_min_shipment_value :: "settle_env \<Rightarrow> addr \<Rightarrow> addr \<Rightarrow> settle \<Rightarrow> settle res" where
  "clear_token_min_shipment_value e adm tok =
     admin_set e adm ''token_min_shipment_value_cleared'' [VAddr tok]
       (\<lambda>s. s\<lparr>k_token_min_value := (k_token_min_value s)(tok := None)\<rparr>)"

definition set_token_max_shipment_value :: "settle_env \<Rightarrow> addr \<Rightarrow> addr \<Rightarrow> int \<Rightarrow> settle \<Rightarrow> settle res" where
  "set_token_max_shipment_value e adm tok n s =
     bindE (as_admin e adm s) (\<lambda>_.
     if n < 0 then Inl (Panic ''InvalidAmount'')
     else Inr (emit [VStr ''token_max_shipment_value_set'', VAddr tok] [VInt n]
            (s\<lparr>k_token_max_value := (k_token_max_value s)(tok \<mapsto> n)\<rparr>)))"

definition clear_token_max_shipment_value :: "settle_env \<Rightarrow> addr \<Rightarrow> addr \<Rightarrow> settle \<Rightarrow> settle res" where
  "clear_token_max_shipment_value e adm tok =
     admin_set e adm ''token_max_shipment_value_cleared'' [VAddr tok]
       (\<lambda>s. s\<lparr>k_token_max_value := (k_token_max_value s)(tok := None)\<rparr>)"

definition set_supplier_exposure_cap :: "settle_env \<Rightarrow> addr \<Rightarrow> int \<Rightarrow> settle \<Rightarrow> settle res" where
  "set_supplier_exposure_cap e adm cap s =
     bindE (as_admin e adm s) (\<lambda>_.
     if cap < 0 then Inl (Panic ''cap must be non-negative'')
     else
     bindE (append_admin_action e ''set_supplier_exposure_cap'' ''supplier_exposure_cap_set''
              (s\<lparr>k_supplier_exposure_cap := Some cap\<rparr>)) (\<lambda>s1.
     Inr (emit [VStr ''supplier_exposure_cap_set''] [VInt cap] s1)))"

definition get_supplier_exposure_cap :: "settle \<Rightarrow> int" where
  "get_supplier_exposure_cap s = get_or 0 (k_supplier_exposure_cap s)"

definition get_supplier_exposure :: "settle \<Rightarrow> addr \<Rightarrow> int res" where
  "get_supplier_exposure s a = compute_supplier_exposure s a"

definition set_tvl_cap :: "settle_env \<Rightarrow> addr \<Rightarrow> addr \<Rightarrow> int \<Rightarrow> settle \<Rightarrow> settle res" where
  "set_tvl_cap e adm tok cap s =
     bindE (as_admin e adm s) (\<lambda>_.
     if cap < 0 then Inl (Panic ''cap cannot be negative'')
     else Inr (emit [VStr ''tvl_cap_set'', VAddr tok] [VInt cap]
            (s\<lparr>k_tvl_cap := (k_tvl_cap s)(tok := (if cap = 0 then None else Some cap))\<rparr>)))"

definition get_tvl_cap :: "settle \<Rightarrow> addr \<Rightarrow> int" where
  "get_tvl_cap s tok = get_or 0 (k_tvl_cap s tok)"

text \<open>The read is from the instance storage, which no code writes under this key.\<close>

definition get_tvl :: "settle \<Rightarrow> addr \<Rightarrow> int" where
  "get_tvl s tok = get_or 0 (k_instance_escrowed s tok)"

definition tvl_ok :: "addr \<Rightarrow> int \<Rightarrow> settle \<Rightarrow> unit res" where
  "tvl_ok tok n s =
     (if get_tvl_cap s tok \<le> 0 then Inr ()
      else bindE (ck_i128 (get_tvl s tok + n)) (\<lambda>x. ensure (x \<le> get_tvl_cap s tok) ''tvl cap exceeded''))"

definition exposure_ok :: "addr \<Rightarrow> int \<Rightarrow> settle \<Rightarrow> unit res" where
  "exposure_ok supplier n s =
     (let cap = get_or 0 (k_supplier_exposure_cap s)
      in if cap \<le> 0 then Inr ()
         else
         bindE (compute_supplier_exposure s supplier) (\<lambda>exposure.
         bindE (ck_i128 (exposure + n)) (\<lambda>x. ensure (x \<le> cap) ''SupplierExposureCapExceeded'')))"

section \<open>The supplier's terms\<close>

definition set_supplier_terms_profile ::
  "settle_env \<Rightarrow> addr \<Rightarrow> supplier_terms_profile \<Rightarrow> settle \<Rightarrow> settle res" where
  "set_supplier_terms_profile e supplier p s =
     bindE (require_auth e supplier) (\<lambda>_.
     bindE (assert_not_paused s) (\<lambda>_.
     if 10000 < stp_arbiter_fee_bps p then Inl (Panic ''arbiter fee exceeds 100%'')
     else if 10000 < stp_logistics_fee_bps p then Inl (Panic ''logistics fee exceeds 100%'')
     else if 10000 < stp_collateral_bps p then Inl (Panic ''collateral exceeds 100%'')
     else Inr (emit [VStr ''terms_profile_set'', VAddr supplier] [VBool (stp_enforce_terms p)]
            (s\<lparr>k_supplier_terms_profile :=
                 (k_supplier_terms_profile s)(supplier \<mapsto> p\<lparr>stp_updated_at_ledger := sequence e\<rparr>)\<rparr>))))"

definition get_supplier_terms_profile :: "settle \<Rightarrow> addr \<Rightarrow> supplier_terms_profile option" where
  "get_supplier_terms_profile s a = k_supplier_terms_profile s a"

section \<open>Milestone templates\<close>

text \<open>The percentages of a list of milestones: each at least the minimum, the sum checked.\<close>

fun checked_percents :: "nat \<Rightarrow> nat \<Rightarrow> milestone list \<Rightarrow> nat res" where
  "checked_percents min_pct acc [] = Inr acc"
| "checked_percents min_pct acc (m # ms) =
     (if ms_payment_percent m < min_pct then Inl (Panic ''InvalidPercentages'')
      else bindE (ck_u32 (acc + ms_payment_percent m)) (\<lambda>a. checked_percents min_pct a ms))"

definition percents_ok :: "milestone list \<Rightarrow> settle \<Rightarrow> unit res" where
  "percents_ok ms s =
     bindE (checked_percents (get_or 5 (k_min_milestone_percent s)) 0 ms) (\<lambda>total.
     ensure (total = 100) ''milestone percentages must sum to 100'')"

definition milestone_count_ok :: "'a list \<Rightarrow> settle \<Rightarrow> unit res" where
  "milestone_count_ok ms s =
     ensure (length ms \<le> get_or DEFAULT_MAX_MILESTONE_COUNT (k_max_milestone_count s)) ''TooManyMilestones''"

text \<open>Caller-supplied run-time state of a milestone is cleared.\<close>

definition clean_milestone :: "milestone \<Rightarrow> milestone" where
  "clean_milestone m = m\<lparr>ms_status := Pending, ms_proof_hash := '''', ms_release_after_ledger := 0,
     ms_proof_submitted_ledger := None, ms_dispute_opened_ledger := None\<rparr>"

definition save_milestone_template ::
  "settle_env \<Rightarrow> addr \<Rightarrow> string \<Rightarrow> milestone list \<Rightarrow> settle \<Rightarrow> settle res" where
  "save_milestone_template e creator name ms s =
     bindE (require_auth e creator) (\<lambda>_.
     bindE (assert_not_paused s) (\<lambda>_.
     bindE (ensure (ms \<noteq> []) ''EmptyMilestoneTemplate'') (\<lambda>_.
     bindE (milestone_count_ok ms s) (\<lambda>_.
     bindE (percents_ok ms s) (\<lambda>_.
     let is_new = (k_milestone_template s (creator, name) = None);
         s1 = s\<lparr>k_milestone_template := (k_milestone_template s)((creator, name) \<mapsto> map clean_milestone ms)\<rparr>;
         s2 = (if is_new
               then s1\<lparr>k_milestone_template_names := (k_milestone_template_names s1)
                      (creator \<mapsto> get_or [] (k_milestone_template_names s1 creator) @ [name])\<rparr>
               else s1)
     in Inr (emit [VStr ''milestone_template_saved'', VAddr creator] [VStr name] s2))))))"

definition list_milestone_templates :: "settle \<Rightarrow> addr \<Rightarrow> string list" where
  "list_milestone_templates s creator = get_or [] (k_milestone_template_names s creator)"

definition get_milestone_template :: "settle \<Rightarrow> addr \<Rightarrow> string \<Rightarrow> milestone list res" where
  "get_milestone_template s creator name = expect (k_milestone_template s (creator, name)) ''TemplateNotFound''"

section \<open>Lemmas\<close>

lemma checked_percents_Inr:
  "checked_percents p acc ms = Inr t \<Longrightarrow>
     (\<forall>m \<in> set ms. p \<le> ms_payment_percent m) \<and> t = acc + (\<Sum>m\<leftarrow>ms. ms_payment_percent m)"
proof (induction ms arbitrary: acc)
  case (Cons m ms)
  have rest: "checked_percents p (acc + ms_payment_percent m) ms = Inr t" and m: "p \<le> ms_payment_percent m"
    using Cons.prems by (auto simp: res_simps split: if_splits)
  show ?case using Cons.IH [OF rest] m by simp
qed simp

lemma percents_ok_Inr:
  assumes "percents_ok ms s = Inr u"
  shows "(\<Sum>m\<leftarrow>ms. ms_payment_percent m) = 100"
    and "m \<in> set ms \<Longrightarrow> get_or 5 (k_min_milestone_percent s) \<le> ms_payment_percent m"
  using assms by (auto simp: percents_ok_def res_simps dest!: checked_percents_Inr)

lemma clean_milestone_simps [simp]:
  "ms_status (clean_milestone m) = Pending"
  "ms_payment_percent (clean_milestone m) = ms_payment_percent m"
  "ms_deadline_ledger (clean_milestone m) = ms_deadline_ledger m"
  "clean_milestone (clean_milestone m) = clean_milestone m"
  by (simp_all add: clean_milestone_def)

text \<open>Saved templates pass the checks of a creation under the same settings.\<close>

lemma checked_percents_clean [simp]: "checked_percents p acc (map clean_milestone ms) = checked_percents p acc ms"
  by (induction ms arbitrary: acc) simp_all

lemma percents_ok_clean [simp]: "percents_ok (map clean_milestone ms) s = percents_ok ms s"
  by (simp add: percents_ok_def)

lemma tvl_ok_Inr [res_simps]:
  "tvl_ok tok n s = Inr u \<longleftrightarrow>
     get_tvl_cap s tok \<le> 0 \<or> in_i128 (get_tvl s tok + n) \<and> get_tvl s tok + n \<le> get_tvl_cap s tok"
  by (auto simp: tvl_ok_def res_simps)

lemma exposure_ok_Inr:
  assumes "exposure_ok a n s = Inr u"
  shows "get_supplier_exposure_cap s \<le> 0 \<or>
         (\<exists>x. compute_supplier_exposure s a = Inr x \<and> x + n \<le> get_supplier_exposure_cap s)"
  using assms by (auto simp: exposure_ok_def get_supplier_exposure_cap_def Let_def res_simps split: if_splits)

lemmas settleadmit_eval [eval_defs] =
  listed_def stored_admin_def get_tvl_cap_def get_tvl_def tvl_ok_def exposure_ok_def percents_ok_def
  milestone_count_ok_def clean_milestone_def

end
