(* ===== verification/SettleCreate.thy ===== *)
theory SettleCreate
  imports SettleAdmit SettleLimits SettleVault
begin

text \<open>
  Creation of a shipment (\<^verbatim>\<open>create_shipment\<close>, \<^verbatim>\<open>lib.rs\<close> lines 7543 to 8494), split along the
  blocks of its body: guards, validation, funding, collateral, the stored shipment, its options,
  its indexes. Then the four wrappers (generated id, template, allowance, standing order) and the
  later top-ups. The options that no code reads after creation
  (\<^verbatim>\<open>require_encrypted_evidence\<close>) are fields of the record only.
\<close>

section \<open>Guards\<close>

text \<open>The bond of one dispute: the flat amount plus a share of the value.\<close>

definition creation_bond :: "int \<Rightarrow> shipment_options \<Rightarrow> settle \<Rightarrow> int res" where
  "creation_bond amount opt s =
     bindE (ensure (op_dispute_bond_bps opt = 0
                    \<or> op_dispute_bond_bps opt \<le> get_or DEFAULT_MAX_DISPUTE_BOND_BPS (k_max_dispute_bond_bps s))
              ''dispute_bond_bps exceeds maximum allowed'') (\<lambda>_.
     bindE (mul_div amount (op_dispute_bond_bps opt) 10000) (\<lambda>scaled.
     ck_i128 (op_dispute_bond_amount opt + scaled)))"

definition sign_all :: "settle_env \<Rightarrow> addr list \<Rightarrow> unit res" where
  "sign_all e xs = foldE (\<lambda>b _. require_auth e b) xs ()"

text \<open>
  All buyers sign, unless a wrapper left the mark that it has checked the authority itself. The
  mark is removed at once.
\<close>

definition creation_auth ::
  "settle_env \<Rightarrow> addr list \<Rightarrow> addr \<Rightarrow> int \<Rightarrow> shipment_options \<Rightarrow> settle \<Rightarrow> settle res" where
  "creation_auth e buyers supplier amount opt s =
     bindE (ensure (op_buyer_cancel_fee_bps opt \<le> MAX_FEE_BPS)
              ''buyer_cancel_fee_bps cannot exceed 1000 (10%)'') (\<lambda>_.
     bindE (ensure (buyers \<noteq> []) ''at least one buyer is required'') (\<lambda>_.
     bindE (if get_or False (k_skip_buyer_auth s) then Inr (s\<lparr>k_skip_buyer_auth := None\<rparr>)
            else bindE (sign_all e buyers) (\<lambda>_. Inr s)) (\<lambda>s1.
     bindE (if 0 < op_supplier_collateral opt then require_auth e supplier else Inr ()) (\<lambda>_.
     bindE (ensure (MIN_SHIPMENT_AMOUNT \<le> amount) ''amount must be greater than zero'') (\<lambda>_.
     Inr s1)))))"

fun tier_name :: "supplier_tier \<Rightarrow> string" where
  "tier_name Bronze = ''Bronze''"
| "tier_name Silver = ''Silver''"
| "tier_name Gold = ''Gold''"

fun tier_cap :: "supplier_tier_config \<Rightarrow> supplier_tier \<Rightarrow> int" where
  "tier_cap cfg Bronze = tc_bronze_max_value cfg"
| "tier_cap cfg Silver = tc_silver_max_value cfg"
| "tier_cap cfg Gold = tc_gold_max_value cfg"

definition tier_value_ok :: "addr \<Rightarrow> int \<Rightarrow> settle \<Rightarrow> unit res" where
  "tier_value_ok supplier amount s =
     (case k_supplier_tier_config s of
        None \<Rightarrow> Inr ()
      | Some cfg \<Rightarrow>
          let tier = get_supplier_tier_internal s supplier; cap = tier_cap cfg tier
          in ensure (cap \<le> 0 \<or> amount \<le> cap)
               (''SupplierTierMaxValueExceeded: '' @ tier_name tier @ '' cap='' @ decimal (nat cap)))"

text \<open>Value bounds (a bound of the token replaces the global one), count, token list, escrow cap.\<close>

definition creation_values_ok ::
  "addr \<Rightarrow> addr \<Rightarrow> int \<Rightarrow> milestone list \<Rightarrow> settle \<Rightarrow> unit res" where
  "creation_values_ok supplier tok amount ms s =
     (let mx = get_or (get_or 0 (k_max_shipment_value s)) (k_token_max_value s tok);
          mn = get_or (get_or 0 (k_min_shipment_value s)) (k_token_min_value s tok)
      in
      bindE (ensure (mx \<le> 0 \<or> amount \<le> mx) ''total amount exceeds maximum shipment value'') (\<lambda>_.
      bindE (tier_value_ok supplier amount s) (\<lambda>_.
      bindE (ensure (mn \<le> 0 \<or> mn \<le> amount) ''MinShipmentValueNotMet'') (\<lambda>_.
      bindE (milestone_count_ok ms s) (\<lambda>_.
      bindE (ensure (listed tok (get_or [] (k_allowed_tokens s)))
               ''token is not in the approved whitelist'') (\<lambda>_.
      tvl_ok tok amount s))))))"

definition creation_parties_ok ::
  "addr list \<Rightarrow> addr \<Rightarrow> addr \<Rightarrow> addr \<Rightarrow> addr \<Rightarrow> int \<Rightarrow> shipment_options \<Rightarrow> settle \<Rightarrow> unit res" where
  "creation_parties_ok buyers supplier logistics arbiter tok amount opt s =
     bindE (ensure (\<forall>b \<in> set buyers. listed tok (get_or [] (k_buyer_allowed_tokens s b)))
              ''token is not allowed for this buyer'') (\<lambda>_.
     bindE (ensure (\<forall>a \<in> set (buyers @ [supplier, logistics, arbiter]). \<not> is_blacklisted s a)
              ''unauthorized'') (\<lambda>_.
     bindE (ensure (op_arbiter_panel opt = [] \<or> 3 \<le> length (op_arbiter_panel opt))
              ''arbiter panel must have at least 3 members'') (\<lambda>_.
     bindE (ensure (\<forall>a \<in> set (op_arbiter_panel opt). \<not> is_blacklisted s a) ''unauthorized'') (\<lambda>_.
     bindE (exposure_ok supplier amount s) (\<lambda>_.
     bindE (ensure (listed supplier (get_or [] (k_supplier_whitelist s))) ''unauthorized'') (\<lambda>_.
     ensure (\<not> get_or False (k_require_mutual_preapproval s)
             \<or> (\<forall>b \<in> set buyers. b \<in> set (get_or [] (k_approved_buyers s supplier))))
       ''BuyerNotPreapproved''))))))"

text \<open>
  The terms after the supplier's profile: holdback, dispute cooldown, late penalty, automatic
  confirmation, arbiter and logistics fee, collateral, mode. Only the collateral can trap.
\<close>

type_synonym terms = "nat \<times> nat \<times> nat \<times> nat \<times> nat \<times> nat \<times> int \<times> milestone_mode"

definition final_terms :: "addr \<Rightarrow> int \<Rightarrow> shipment_options \<Rightarrow> settle \<Rightarrow> terms res" where
  "final_terms supplier amount opt s =
     (case k_supplier_terms_profile s supplier of
        None \<Rightarrow> Inr (op_holdback_ledgers opt, op_dispute_cooldown_ledgers opt,
            op_late_penalty_bps_per_ledger opt, op_auto_confirm_ledgers opt, op_arbiter_fee_bps opt,
            op_logistics_fee_bps opt, op_supplier_collateral opt, op_milestone_mode opt)
      | Some p \<Rightarrow>
          if stp_enforce_terms p
          then bindE (mul_div amount (stp_collateral_bps p) 10000) (\<lambda>col.
            Inr (stp_holdback_ledgers p, stp_dispute_cooldown p, stp_late_penalty_bps p,
              stp_auto_confirm_ledgers p, stp_arbiter_fee_bps p, stp_logistics_fee_bps p, col,
              stp_milestone_mode p))
          else bindE (if 0 < op_supplier_collateral opt then Inr (op_supplier_collateral opt)
                      else mul_div amount (stp_collateral_bps p) 10000) (\<lambda>col.
            Inr (if 0 < op_holdback_ledgers opt then op_holdback_ledgers opt else stp_holdback_ledgers p,
              if 0 < op_dispute_cooldown_ledgers opt then op_dispute_cooldown_ledgers opt
              else stp_dispute_cooldown p,
              if 0 < op_late_penalty_bps_per_ledger opt then op_late_penalty_bps_per_ledger opt
              else stp_late_penalty_bps p,
              if 0 < op_auto_confirm_ledgers opt then op_auto_confirm_ledgers opt
              else stp_auto_confirm_ledgers p,
              op_arbiter_fee_bps opt, op_logistics_fee_bps opt, col, op_milestone_mode opt)))"

section \<open>Validation of the options\<close>

fun sum_bps :: "nat \<Rightarrow> nat list \<Rightarrow> nat res" where
  "sum_bps acc [] = Inr acc"
| "sum_bps acc (n # ns) = bindE (ck_u32 (acc + n)) (\<lambda>a. sum_bps a ns)"

definition splits_ok :: "nat list \<Rightarrow> milestone list \<Rightarrow> settle \<Rightarrow> unit res" where
  "splits_ok splits ms s =
     (if splits = [] then percents_ok ms s
      else
      bindE (ensure (length splits = length ms) ''InvalidSplitConfiguration'') (\<lambda>_.
      bindE (sum_bps 0 splits) (\<lambda>amount. ensure (amount = 10000) ''InvalidSplitConfiguration'')))"

fun grades_ok :: "nat \<Rightarrow> nat list \<Rightarrow> unit res" where
  "grades_ok previous [] = Inr ()"
| "grades_ok previous (g # gs) =
     (if previous < g then Inl (Panic ''quality grades must be non-increasing'') else grades_ok g gs)"

definition validate_settlement_options :: "shipment_options \<Rightarrow> nat \<Rightarrow> unit res" where
  "validate_settlement_options opt n =
     bindE (if op_quality_grades opt = [] then Inr ()
            else
            bindE (ensure (length (op_quality_grades opt) \<le> MAX_QUALITY_GRADES) ''too many quality grades'') (\<lambda>_.
            bindE (ensure (hd (op_quality_grades opt) = 10000) ''grade 0 must be 10000 bps'') (\<lambda>_.
            grades_ok 10000 (op_quality_grades opt)))) (\<lambda>_.
     bindE (ensure (op_milestone_quantities opt = [] \<or> length (op_milestone_quantities opt) = n)
              ''milestone quantity count must match milestone count'') (\<lambda>_.
     bindE (ensure (op_retainage_bps opt \<le> MAX_RETAINAGE_BPS) ''retainage_bps exceeds maximum'') (\<lambda>_.
     bindE (ensure (op_warranty_bps opt \<le> MAX_WARRANTY_BPS) ''warranty_bps exceeds maximum'') (\<lambda>_.
     ensure ((0 < op_warranty_bps opt) = (0 < op_warranty_ledgers opt))
       ''warranty_bps and warranty_ledgers must both be set''))))"

definition validate_trade_proof_options :: "shipment_options \<Rightarrow> nat \<Rightarrow> unit res" where
  "validate_trade_proof_options opt n =
     bindE (ensure (op_inspector opt \<noteq> None \<or> op_inspected_milestones opt = [])
              ''inspected_milestones requires an inspector'') (\<lambda>_.
     bindE (ensure (\<forall>i \<in> set (op_inspected_milestones opt). i < n)
              ''inspected milestone index out of range'') (\<lambda>_.
     ensure (op_proof_submitters opt = [] \<or> length (op_proof_submitters opt) = n)
       ''proof_submitters length must match milestone count''))"

section \<open>Money\<close>

definition bond_total :: "int \<Rightarrow> nat \<Rightarrow> int res" where
  "bond_total bond n = (if 0 < bond then ck_i128 (bond * int n) else Inr 0)"

text \<open>
  The funds come from an allowance, from the vault, or in up to three transfers from the first
  buyer. The allowance a wrapper noted is consumed in any case.
\<close>

definition fund_shipment ::
  "settle_env \<Rightarrow> sid \<Rightarrow> addr \<Rightarrow> addr \<Rightarrow> int \<Rightarrow> int \<Rightarrow> shipment_options \<Rightarrow> nat \<Rightarrow> settle \<Rightarrow> settle res" where
  "fund_shipment e i primary tok amount bond opt n s =
     (let bonus = op_early_bonus_pool opt
      in
      bindE (bond_total bond n) (\<lambda>bonds.
      bindE (ck_i128 (amount + bonds)) (\<lambda>x.
      bindE (ck_i128 (x + (if 0 < bonus then bonus else 0))) (\<lambda>funding.
      case k_pending_allowance s of
        Some (spender, src) \<Rightarrow> token_pay e tok src (this e) funding (s\<lparr>k_pending_allowance := None\<rparr>)
      | None \<Rightarrow>
          if op_fund_from_vault opt
          then bindE (debit_vault primary tok funding s) (\<lambda>s1.
               Inr (s1\<lparr>k_fund_from_vault := (k_fund_from_vault s1)(i \<mapsto> True)\<rparr>))
          else bindE (token_pay e tok primary (this e) amount s) (\<lambda>s1.
               bindE (whenE (0 < bonds) (token_pay e tok primary (this e) bonds) s1) (\<lambda>s2.
               whenE (0 < bonus) (token_pay e tok primary (this e) bonus) s2))))))"

definition lock_collateral ::
  "settle_env \<Rightarrow> sid \<Rightarrow> addr \<Rightarrow> addr \<Rightarrow> int \<Rightarrow> settle \<Rightarrow> settle res" where
  "lock_collateral e i supplier tok col s =
     (if col \<le> 0 then Inr s
      else
      let col_tok = get_or tok (k_collateral_token s i)
      in
      bindE (apply_tier_collateral_discount supplier col s) (\<lambda>(s1, eff).
      bindE (whenE (0 < eff) (token_pay e col_tok supplier (this e) eff) s1) (\<lambda>s2.
      Inr (s2\<lparr>k_supplier_collateral := (k_supplier_collateral s2)(i \<mapsto> eff)\<rparr>))))"

section \<open>The stored shipment\<close>

definition new_shipment ::
  "settle_env \<Rightarrow> sid \<Rightarrow> addr list \<Rightarrow> addr \<Rightarrow> addr \<Rightarrow> addr \<Rightarrow> addr \<Rightarrow> int \<Rightarrow> milestone list
     \<Rightarrow> shipment_options \<Rightarrow> int \<Rightarrow> shipment" where
  "new_shipment e i buyers supplier logistics arbiter tok amount ms opt bond =
     \<lparr>sh_id = i, sh_audit_log = [], sh_buyers = buyers, sh_supplier = supplier,
      sh_logistics = logistics, sh_arbiter = arbiter, sh_token = tok, sh_total_amount = amount,
      sh_released_amount = 0, sh_total_advanced_amount = 0,
      sh_milestones = map clean_milestone ms, sh_status = Active,
      sh_milestone_mode = op_milestone_mode opt, sh_created_at = sequence e,
      sh_holdback_ledgers = op_holdback_ledgers opt,
      sh_dispute_cooldown_ledgers = op_dispute_cooldown_ledgers opt,
      sh_last_dispute_resolved_ledger = None,
      sh_late_penalty_bps_per_ledger = op_late_penalty_bps_per_ledger opt,
      sh_auto_confirm_ledgers = op_auto_confirm_ledgers opt, sh_open_dispute_count = 0,
      sh_dispute_bond_amount = bond, sh_dispute_bond_bps = op_dispute_bond_bps opt,
      sh_arbiter_fee_bps = op_arbiter_fee_bps opt, sh_logistics_fee_bps = op_logistics_fee_bps opt,
      sh_expires_at_ledger = op_expires_at_ledger opt, sh_metadata_hash = op_metadata_hash opt,
      sh_referrer = op_referrer opt, sh_buyer_cancel_fee_bps = op_buyer_cancel_fee_bps opt,
      sh_early_bonus_pool = op_early_bonus_pool opt,
      sh_early_bonus_remaining = op_early_bonus_pool opt,
      sh_review_window_ledgers = op_review_window_ledgers opt,
      sh_dispute_timeout_seconds = op_dispute_timeout_seconds opt,
      sh_default_resolution = op_default_resolution opt, sh_last_confirmed_milestone_index = None,
      sh_cancellation_reason = [], sh_grace_period_ledgers = op_grace_period_ledgers opt,
      sh_supplier_payout_address = None\<rparr>"

text \<open>Shipment, pool mark, cancellation policy, splits.\<close>

definition store_shipment ::
  "settle_env \<Rightarrow> sid \<Rightarrow> shipment \<Rightarrow> shipment_options \<Rightarrow> settle \<Rightarrow> settle" where
  "store_shipment e i sh opt s =
     (let s1 = s\<lparr>k_shipment := (k_shipment s)(i \<mapsto> sh)\<rparr>;
          s2 = (if sh_arbiter sh = this e then s1\<lparr>k_use_pool_arb := (k_use_pool_arb s1)(i \<mapsto> True)\<rparr> else s1);
          s3 = s2\<lparr>k_cancel_policy := (k_cancel_policy s2)
                 (i \<mapsto> \<lparr>cp_response_deadline = op_response_deadline opt, cp_penalty_bps = op_penalty_bps opt\<rparr>)\<rparr>
      in if op_milestone_splits opt = [] then s3
         else s3\<lparr>k_milestone_splits := (k_milestone_splits s3)(i \<mapsto> op_milestone_splits opt)\<rparr>)"

text \<open>An entry is written only when its option is set.\<close>

definition put_if :: "bool \<Rightarrow> 'k \<Rightarrow> 'v \<Rightarrow> ('k \<Rightarrow> 'v option) \<Rightarrow> 'k \<Rightarrow> 'v option" where
  "put_if c k v f = (if c then f(k \<mapsto> v) else f)"

definition put_opt :: "'k \<Rightarrow> 'v option \<Rightarrow> ('k \<Rightarrow> 'v option) \<Rightarrow> 'k \<Rightarrow> 'v option" where
  "put_opt k x f = (case x of None \<Rightarrow> f | Some v \<Rightarrow> f(k \<mapsto> v))"

definition store_settlement_options :: "sid \<Rightarrow> shipment_options \<Rightarrow> settle \<Rightarrow> settle" where
  "store_settlement_options i opt s =
     s\<lparr>k_quality_grades := put_if (op_quality_grades opt \<noteq> []) i (op_quality_grades opt) (k_quality_grades s),
       k_milestone_quantities :=
         put_if (op_milestone_quantities opt \<noteq> []) i (op_milestone_quantities opt) (k_milestone_quantities s),
       k_retainage_bps := put_if (0 < op_retainage_bps opt) i (op_retainage_bps opt) (k_retainage_bps s),
       k_warranty_config :=
         put_if (0 < op_warranty_bps opt) i (op_warranty_bps opt, op_warranty_ledgers opt) (k_warranty_config s)\<rparr>"

definition store_trade_proof_options :: "sid \<Rightarrow> shipment_options \<Rightarrow> settle \<Rightarrow> settle" where
  "store_trade_proof_options i opt s =
     s\<lparr>k_shipment_inspector := put_opt i (op_inspector opt) (k_shipment_inspector s),
       k_inspected_milestones :=
         put_if (op_inspector opt \<noteq> None \<and> op_inspected_milestones opt \<noteq> []) i (op_inspected_milestones opt)
           (k_inspected_milestones s),
       k_proof_submitters := put_if (op_proof_submitters opt \<noteq> []) i (op_proof_submitters opt) (k_proof_submitters s),
       k_require_dual_attestation :=
         put_if (op_require_dual_attestation opt) i True (k_require_dual_attestation s)\<rparr>"

text \<open>The suppliers of the single milestones, with their index.\<close>

fun store_milestone_suppliers :: "sid \<Rightarrow> nat \<Rightarrow> addr list \<Rightarrow> settle \<Rightarrow> settle" where
  "store_milestone_suppliers i j [] s = s"
| "store_milestone_suppliers i j (a # as) s =
     (let s1 = s\<lparr>k_milestone_supplier := (k_milestone_supplier s)((i, j) \<mapsto> a)\<rparr>;
          xs = get_or [] (k_supplier_shipments s1 a);
          s2 = (if i \<in> set xs then s1
                else s1\<lparr>k_supplier_shipments := (k_supplier_shipments s1)(a \<mapsto> xs @ [i])\<rparr>)
      in store_milestone_suppliers i (j + 1) as s2)"

definition store_consortium :: "sid \<Rightarrow> addr list \<Rightarrow> nat \<Rightarrow> settle \<Rightarrow> settle res" where
  "store_consortium i suppliers n s =
     (if suppliers = [] then Inr s
      else if length suppliers \<noteq> n then Inl (Panic ''milestone_suppliers length must match milestone count'')
      else let s1 = store_milestone_suppliers i 0 suppliers s
        in Inr (s1\<lparr>k_is_consortium := (k_is_consortium s1)(i \<mapsto> True)\<rparr>))"

definition store_refund_recipient :: "sid \<Rightarrow> addr option \<Rightarrow> settle \<Rightarrow> settle res" where
  "store_refund_recipient i r s =
     (case r of
        None \<Rightarrow> Inr s
      | Some a \<Rightarrow>
          if is_blacklisted s a then Inl (Panic ''refund_recipient is blacklisted'')
          else Inr (s\<lparr>k_refund_recipient := (k_refund_recipient s)(i \<mapsto> a)\<rparr>))"

definition store_schedule_options :: "sid \<Rightarrow> shipment_options \<Rightarrow> settle \<Rightarrow> settle" where
  "store_schedule_options i opt s =
     s\<lparr>k_timestamp_deadlines := put_if (op_deadlines opt \<noteq> []) i (op_deadlines opt) (k_timestamp_deadlines s),
       k_backup_arbiter := put_opt i (op_backup_arbiter opt) (k_backup_arbiter s),
       k_shipment_confirmation_cooldown :=
         put_opt i (op_confirmation_cooldown_ledgers opt) (k_shipment_confirmation_cooldown s),
       k_arbiter_panel := put_if (op_arbiter_panel opt \<noteq> []) i (op_arbiter_panel opt) (k_arbiter_panel s)\<rparr>"

text \<open>The fee tier is resolved now and kept; the jurisdiction is recorded and indexed.\<close>

definition store_fee_tier :: "sid \<Rightarrow> addr \<Rightarrow> settle \<Rightarrow> settle" where
  "store_fee_tier i primary s =
     s\<lparr>k_shipment_fee_bps := (k_shipment_fee_bps s)(i \<mapsto> resolve_fee_bps_for s primary)\<rparr>"

definition store_jurisdiction :: "sid \<Rightarrow> sym option \<Rightarrow> settle \<Rightarrow> settle" where
  "store_jurisdiction i j s =
     (case j of
        None \<Rightarrow> s
      | Some tag \<Rightarrow> s\<lparr>k_shipment_jurisdiction := (k_shipment_jurisdiction s)(i \<mapsto> tag),
          k_jurisdiction_shipments := (k_jurisdiction_shipments s)
            (tag \<mapsto> get_or [] (k_jurisdiction_shipments s tag) @ [i])\<rparr>)"

section \<open>Indexes and counters\<close>

fun index_buyers :: "sid \<Rightarrow> addr list \<Rightarrow> settle \<Rightarrow> settle" where
  "index_buyers i [] s = s"
| "index_buyers i (b # bs) s =
     index_buyers i bs (s\<lparr>k_buyer_shipments := (k_buyer_shipments s)
       (b \<mapsto> get_or [] (k_buyer_shipments s b) @ [i])\<rparr>)"

definition index_shipment :: "sid \<Rightarrow> shipment \<Rightarrow> settle \<Rightarrow> settle" where
  "index_shipment i sh s =
     (let a = sh_supplier sh;
          s1 = s\<lparr>k_supplier_shipments := (k_supplier_shipments s)
                 (a \<mapsto> get_or [] (k_supplier_shipments s a) @ [i])\<rparr>;
          s2 = index_buyers i (sh_buyers sh) s1;
          s3 = add_to_party_index (LogisticsShipments (sh_logistics sh)) i
                 (add_to_party_index (ArbiterShipments (sh_arbiter sh)) i s2);
          s4 = s3\<lparr>k_all_shipments := Some (get_or [] (k_all_shipments s3) @ [i])\<rparr>
      in add_to_status_index Active i s4)"

definition count_creation :: "addr \<Rightarrow> int \<Rightarrow> contract_stats \<Rightarrow> settle \<Rightarrow> settle res" where
  "count_creation tok amount stats s =
     bindE (increase_total_escrowed tok amount s) (\<lambda>s1.
     bindE (ck_u64 (cs_total_shipments stats + 1)) (\<lambda>n.
     bindE (ck_i128 (cs_total_volume stats + amount)) (\<lambda>v.
     Inr (s1\<lparr>k_contract_stats := Some (stats\<lparr>cs_total_shipments := n, cs_total_volume := v\<rparr>)\<rparr>))))"

definition emit_shipment_created :: "settle_env \<Rightarrow> sid \<Rightarrow> addr \<Rightarrow> shipment \<Rightarrow> settle \<Rightarrow> settle" where
  "emit_shipment_created e i primary sh s =
     emit [VStr ''chainsettle'', VStr ''shipment_created'']
       [VStr i, VAddr primary, VAddr (sh_supplier sh), VAddr (sh_arbiter sh), VAddr (sh_token sh),
        VInt (sh_total_amount sh)]
       (emit [VStr ''shipment_created'', VStr i]
          [VAddr primary, VAddr (sh_supplier sh), VAddr (sh_logistics sh), VAddr (sh_arbiter sh),
           VAddr (sh_token sh), VInt (sh_total_amount sh), VNat (sequence e),
           VOpt VNat (sh_metadata_hash sh)] s)"

section \<open>The whole call\<close>

definition creation_checks ::
  "settle_env \<Rightarrow> sid \<Rightarrow> addr list \<Rightarrow> addr \<Rightarrow> addr \<Rightarrow> addr \<Rightarrow> addr \<Rightarrow> int \<Rightarrow> milestone list
     \<Rightarrow> shipment_options \<Rightarrow> settle \<Rightarrow> unit res" where
  "creation_checks e i buyers supplier logistics arbiter tok amount ms opt s =
     bindE (creation_values_ok supplier tok amount ms s) (\<lambda>_.
     bindE (creation_parties_ok buyers supplier logistics arbiter tok amount opt s) (\<lambda>_.
     bindE (final_terms supplier amount opt s) (\<lambda>_.
     bindE (splits_ok (op_milestone_splits opt) ms s) (\<lambda>_.
     bindE (validate_settlement_options opt (length ms)) (\<lambda>_.
     bindE (validate_trade_proof_options opt (length ms)) (\<lambda>_.
     bindE (ensure (op_deadlines opt = [] \<or> length (op_deadlines opt) = length ms)
              ''deadline count must match milestone count'') (\<lambda>_.
     ensure (k_shipment s i = None) ''shipment already exists'')))))))"

definition store_creation ::
  "settle_env \<Rightarrow> sid \<Rightarrow> addr \<Rightarrow> shipment \<Rightarrow> shipment_options \<Rightarrow> settle \<Rightarrow> settle res" where
  "store_creation e i primary sh opt s =
     (let s1 = store_trade_proof_options i opt (store_settlement_options i opt (store_shipment e i sh opt s))
      in
      bindE (store_consortium i (op_milestone_suppliers opt) (length (sh_milestones sh)) s1) (\<lambda>s2.
      bindE (store_refund_recipient i (op_refund_recipient opt) s2) (\<lambda>s3.
      Inr (index_shipment i sh (store_jurisdiction i (op_jurisdiction opt)
             (store_fee_tier i primary (store_schedule_options i opt s3)))))))"

definition create_shipment ::
  "settle_env \<Rightarrow> sid \<Rightarrow> addr list \<Rightarrow> addr \<Rightarrow> addr \<Rightarrow> addr \<Rightarrow> addr \<Rightarrow> int \<Rightarrow> milestone list
     \<Rightarrow> shipment_options \<Rightarrow> settle \<Rightarrow> (settle \<times> sid) res" where
  "create_shipment e i buyers supplier logistics arbiter tok amount ms opt s =
     bindE (assert_operation_not_paused s ''create'') (\<lambda>_.
     bindE (creation_bond amount opt s) (\<lambda>bond.
     bindE (creation_auth e buyers supplier amount opt s) (\<lambda>s1.
     bindE (creation_checks e i buyers supplier logistics arbiter tok amount ms opt s1) (\<lambda>_.
     bindE (vec_get_unwrap buyers 0) (\<lambda>primary.
     bindE (check_and_record_buyer_spending primary (sequence e) amount s1) (\<lambda>s2.
     bindE (check_and_record_shipment_creation supplier (sequence e) s2) (\<lambda>s3.
     bindE (fund_shipment e i primary tok amount bond opt (length ms) s3) (\<lambda>s4.
     bindE (lock_collateral e i supplier tok (op_supplier_collateral opt) s4) (\<lambda>s5.
     let sh = append_audit_entry e primary ''shipment_created'' ''create_shipment''
                (new_shipment e i buyers supplier logistics arbiter tok amount ms opt bond)
     in
     bindE (store_creation e i primary sh opt s5) (\<lambda>s6.
     bindE (count_creation tok amount (get_or contract_stats_zero (k_contract_stats s1)) s6) (\<lambda>s7.
     Inr (emit_shipment_created e i primary sh s7, i))))))))))))"

section \<open>Wrappers\<close>

definition create_shipment_auto_id ::
  "settle_env \<Rightarrow> addr list \<Rightarrow> addr \<Rightarrow> addr \<Rightarrow> addr \<Rightarrow> addr \<Rightarrow> int \<Rightarrow> milestone list
     \<Rightarrow> shipment_options \<Rightarrow> settle \<Rightarrow> (settle \<times> sid) res" where
  "create_shipment_auto_id e buyers supplier logistics arbiter tok amount ms opt s =
     bindE (ck_u64 (get_or 0 (k_auto_id_counter s) + 1)) (\<lambda>n.
     bindE (format_auto_id n) (\<lambda>i.
     create_shipment e i buyers supplier logistics arbiter tok amount ms opt
       (s\<lparr>k_auto_id_counter := Some n\<rparr>)))"

definition create_shipment_from_template ::
  "settle_env \<Rightarrow> sid \<Rightarrow> addr list \<Rightarrow> addr \<Rightarrow> addr \<Rightarrow> addr \<Rightarrow> addr \<Rightarrow> int \<Rightarrow> string
     \<Rightarrow> shipment_options \<Rightarrow> settle \<Rightarrow> (settle \<times> sid) res" where
  "create_shipment_from_template e i buyers supplier logistics arbiter tok amount name opt s =
     bindE (ensure (buyers \<noteq> []) ''at least one buyer is required'') (\<lambda>_.
     bindE (vec_get_unwrap buyers 0) (\<lambda>creator.
     bindE (expect (k_milestone_template s (creator, name)) ''TemplateNotFound'') (\<lambda>ms.
     create_shipment e i buyers supplier logistics arbiter tok amount ms opt s)))"

text \<open>
  The spender signs for the allowance that a buyer gave it; the transfer from the buyer's account
  is the token's to accept or refuse.
\<close>

definition create_shipment_with_allowance ::
  "settle_env \<Rightarrow> allowance_params \<Rightarrow> settle \<Rightarrow> (settle \<times> sid) res" where
  "create_shipment_with_allowance e p s =
     bindE (assert_operation_not_paused s ''create'') (\<lambda>_.
     bindE (require_auth e (al_spender p)) (\<lambda>_.
     bindE (ensure (al_buyers p \<noteq> []) ''at least one buyer is required'') (\<lambda>_.
     bindE (ensure (al_from p \<in> set (al_buyers p)) ''from must be one of the buyers'') (\<lambda>_.
     bindE (ensure (\<not> op_fund_from_vault (al_options p))
              ''fund_from_vault cannot be combined with allowance funding'') (\<lambda>_.
     bindE (ensure (MIN_SHIPMENT_AMOUNT \<le> al_total_amount p) ''amount must be greater than zero'') (\<lambda>_.
     create_shipment e (al_shipment_id p) (al_buyers p) (al_supplier p) (al_logistics p) (al_arbiter p)
       (al_token p) (al_total_amount p) (al_milestones p) (al_options p)
       (s\<lparr>k_pending_allowance := Some (al_spender p, al_from p), k_skip_buyer_auth := Some True\<rparr>)))))))"

definition empty_shipment_options :: shipment_options where
  "empty_shipment_options =
     \<lparr>op_response_deadline = 0, op_penalty_bps = 0, op_milestone_mode = Parallel, op_holdback_ledgers = 0,
      op_dispute_cooldown_ledgers = 0, op_late_penalty_bps_per_ledger = 0, op_auto_confirm_ledgers = 0,
      op_dispute_bond_amount = 0, op_dispute_bond_bps = 0, op_arbiter_fee_bps = 0,
      op_logistics_fee_bps = 0, op_supplier_collateral = 0, op_expires_at_ledger = None,
      op_metadata_hash = None, op_referrer = None, op_buyer_cancel_fee_bps = 0, op_early_bonus_pool = 0,
      op_review_window_ledgers = None, op_milestone_splits = [], op_deadlines = [],
      op_dispute_timeout_seconds = 0, op_default_resolution = ResolveBuyer, op_backup_arbiter = None,
      op_confirmation_cooldown_ledgers = None, op_arbiter_panel = [], op_jurisdiction = None,
      op_grace_period_ledgers = 0, op_quality_grades = [], op_milestone_quantities = [],
      op_retainage_bps = 0, op_warranty_bps = 0, op_warranty_ledgers = 0, op_inspector = None,
      op_inspected_milestones = [], op_proof_submitters = [], op_require_dual_attestation = False,
      op_fund_from_vault = False, op_milestone_suppliers = [], op_refund_recipient = None,
      op_require_encrypted_evidence = False\<rparr>"

definition execute_standing_order :: "settle_env \<Rightarrow> nat \<Rightarrow> settle \<Rightarrow> (settle \<times> sid) res" where
  "execute_standing_order e oid s =
     bindE (assert_not_paused s) (\<lambda>_.
     bindE (expect (k_standing_order s oid) ''standing order not found'') (\<lambda>ord.
     bindE (ensure (\<not> so_cancelled ord) ''standing order cancelled'') (\<lambda>_.
     bindE (ensure (so_occurrences ord < so_max_occurrences ord) ''standing order exhausted'') (\<lambda>_.
     bindE (ensure (so_next_ledger ord \<le> sequence e) ''standing order not due'') (\<lambda>_.
     bindE (standing_shipment_id (so_order_id ord) (so_occurrences ord)) (\<lambda>i.
     bindE (create_shipment e i [so_buyer ord] (so_supplier ord) (so_logistics ord) (so_arbiter ord)
              (so_token ord) (so_amount ord) (so_milestones ord)
              (empty_shipment_options\<lparr>op_fund_from_vault := True\<rparr>)
              (s\<lparr>k_skip_buyer_auth := Some True\<rparr>)) (\<lambda>(s1, created).
     bindE (ck_u32 (so_occurrences ord + 1)) (\<lambda>n.
     let ord1 = ord\<lparr>so_occurrences := n, so_next_ledger := sat_add_u32 (sequence e) (so_interval_ledgers ord)\<rparr>
     in Inr (emit [VStr ''standing_order_executed'', VNat oid]
               [VStr created, VNat n, VNat (so_next_ledger ord1)]
               (s1\<lparr>k_standing_order := (k_standing_order s1)(oid \<mapsto> ord1)\<rparr>), created)))))))))"

section \<open>Top-ups and settings of a shipment\<close>

definition assert_escrow_increase_within_caps :: "shipment \<Rightarrow> int \<Rightarrow> settle \<Rightarrow> unit res" where
  "assert_escrow_increase_within_caps sh n s =
     bindE (exposure_ok (sh_supplier sh) n s) (\<lambda>_. tvl_ok (sh_token sh) n s)"

definition top_up_escrow :: "settle_env \<Rightarrow> addr \<Rightarrow> sid \<Rightarrow> int \<Rightarrow> settle \<Rightarrow> settle res" where
  "top_up_escrow e buyer i n s =
     bindE (assert_not_paused s) (\<lambda>_.
     bindE (ensure (0 < n) ''additional_amount must be greater than zero'') (\<lambda>_.
     bindE (get_shipment_internal s i) (\<lambda>sh.
     bindE (ensure (sh_status sh = Active) ''top-up disallowed: shipment is not active'') (\<lambda>_.
     bindE (require_buyer_auth e sh buyer) (\<lambda>_.
     bindE (assert_escrow_increase_within_caps sh n s) (\<lambda>_.
     bindE (check_and_record_buyer_spending buyer (sequence e) n s) (\<lambda>s1.
     bindE (token_pay e (sh_token sh) buyer (this e) n s1) (\<lambda>s2.
     bindE (ck_i128 (sh_total_amount sh + n)) (\<lambda>amount.
     bindE (increase_total_escrowed (sh_token sh) n s2) (\<lambda>s3.
     Inr (emit [VStr ''escrow_topped_up'', VStr i] [VInt n, VInt amount]
            (s3\<lparr>k_shipment := (k_shipment s3)(i \<mapsto> sh\<lparr>sh_total_amount := amount\<rparr>)\<rparr>))))))))))))"

definition top_up_collateral :: "settle_env \<Rightarrow> addr \<Rightarrow> sid \<Rightarrow> int \<Rightarrow> settle \<Rightarrow> settle res" where
  "top_up_collateral e supplier i n s =
     bindE (assert_not_paused s) (\<lambda>_.
     bindE (require_auth e supplier) (\<lambda>_.
     bindE (ensure (0 < n) ''amount must be greater than zero'') (\<lambda>_.
     bindE (get_shipment_internal s i) (\<lambda>sh.
     bindE (ensure (sh_supplier sh = supplier) ''unauthorized: only the supplier can top up collateral'') (\<lambda>_.
     bindE (ensure (sh_status sh = Active) ''top-up only allowed on active shipments'') (\<lambda>_.
     bindE (token_pay e (sh_token sh) supplier (this e) n s) (\<lambda>s1.
     bindE (ck_i128 (get_or 0 (k_supplier_collateral s1 i) + n)) (\<lambda>bal.
     Inr (emit [VStr ''collateral_topped_up'', VStr i] [VAddr supplier, VInt n, VInt bal]
            (s1\<lparr>k_supplier_collateral := (k_supplier_collateral s1)(i \<mapsto> bal)\<rparr>))))))))))"

definition get_locked_collateral :: "settle \<Rightarrow> sid \<Rightarrow> int" where
  "get_locked_collateral s i = get_or 0 (k_supplier_collateral s i)"

definition set_collateral_token :: "settle_env \<Rightarrow> addr \<Rightarrow> sid \<Rightarrow> addr \<Rightarrow> settle \<Rightarrow> settle res" where
  "set_collateral_token e caller i tok s =
     bindE (require_auth e caller) (\<lambda>_.
     bindE (get_shipment_internal s i) (\<lambda>sh.
     bindE (assert_is_buyer sh caller) (\<lambda>_.
     Inr (emit [VStr ''collateral_token_set'', VStr i] [VAddr tok]
            (s\<lparr>k_collateral_token := (k_collateral_token s)(i \<mapsto> tok)\<rparr>)))))"

definition get_collateral_token :: "settle \<Rightarrow> sid \<Rightarrow> addr res" where
  "get_collateral_token s i =
     (case k_collateral_token s i of
        Some tok \<Rightarrow> Inr tok
      | None \<Rightarrow> bindE (get_shipment_internal s i) (\<lambda>sh. Inr (sh_token sh)))"

definition is_consortium_shipment :: "settle \<Rightarrow> sid \<Rightarrow> bool" where
  "is_consortium_shipment s i = get_or False (k_is_consortium s i)"

definition get_incremental_collateral :: "settle \<Rightarrow> sid \<Rightarrow> bool" where
  "get_incremental_collateral s i = get_or False (k_incremental_collateral s i)"

definition set_incremental_collateral :: "settle_env \<Rightarrow> addr \<Rightarrow> sid \<Rightarrow> bool \<Rightarrow> settle \<Rightarrow> settle res" where
  "set_incremental_collateral e buyer i enabled s =
     bindE (assert_not_paused s) (\<lambda>_.
     bindE (get_shipment_internal s i) (\<lambda>sh.
     bindE (ensure (sh_status sh = Active) ''shipment is not active'') (\<lambda>_.
     bindE (require_buyer_auth e sh buyer) (\<lambda>_.
     bindE (ensure (sh_released_amount sh = 0
                    \<and> (\<forall>m \<in> set (sh_milestones sh). ms_status m = Pending \<or> ms_status m = ProofSubmitted))
              ''collateral mode can only change before any payout'') (\<lambda>_.
     bindE (if enabled
            then let locked = get_or 0 (k_supplier_collateral s i)
                 in if locked \<le> 0 then Inl (Panic ''shipment has no supplier collateral'')
                    else Inr (s\<lparr>k_incremental_collateral := (k_incremental_collateral s)(i \<mapsto> True),
                                k_incremental_collateral_base := (k_incremental_collateral_base s)(i \<mapsto> locked)\<rparr>)
            else Inr (s\<lparr>k_incremental_collateral := (k_incremental_collateral s)(i := None),
                        k_incremental_collateral_base := (k_incremental_collateral_base s)(i := None)\<rparr>)) (\<lambda>s1.
     Inr (emit [VStr ''incremental_collateral_set'', VStr i] [VAddr buyer, VBool enabled]
            (s1\<lparr>k_shipment := (k_shipment s1)(i \<mapsto>
               append_audit_entry e buyer ''incremental_collateral''
                 (if enabled then ''enabled'' else ''disabled'') sh)\<rparr>))))))))"

lemmas settlecreate_eval [eval_defs] =
  creation_bond_def sign_all_def creation_auth_def tier_value_ok_def creation_values_ok_def
  creation_parties_ok_def final_terms_def splits_ok_def validate_settlement_options_def
  validate_trade_proof_options_def bond_total_def fund_shipment_def lock_collateral_def
  new_shipment_def store_shipment_def put_if_def put_opt_def store_settlement_options_def
  store_trade_proof_options_def store_consortium_def store_refund_recipient_def
  store_schedule_options_def store_fee_tier_def store_jurisdiction_def index_shipment_def
  count_creation_def emit_shipment_created_def creation_checks_def store_creation_def
  empty_shipment_options_def

end
