(* ===== verification/SettleBirth.thy ===== *)
theory SettleBirth
  imports SettleCreate SettleDesk
begin

text \<open>
  What a creation does: which fields the guards and the funding leave alone, the backing the funds
  add, and the stored shipment.
\<close>

section \<open>Before the shipment is stored\<close>

text \<open>Nothing of what a creation later writes, and no vault, has changed.\<close>

definition unborn :: "settle \<Rightarrow> settle \<Rightarrow> bool" where
  "unborn s t \<longleftrightarrow> k_shipment t = k_shipment s \<and> k_dispute_resolved_at t = k_dispute_resolved_at s \<and>
     k_total_escrowed t = k_total_escrowed s \<and> k_partial_qty_released t = k_partial_qty_released s \<and>
     k_pending_allowance t = k_pending_allowance s \<and> k_collateral_token t = k_collateral_token s \<and>
     k_supplier_tier_config t = k_supplier_tier_config s"

lemma unborn_refl [simp]: "unborn s s"
  by (simp add: unborn_def)

lemma unborn_trans: "unborn s t \<Longrightarrow> unborn t u \<Longrightarrow> unborn s u"
  by (simp add: unborn_def)

text \<open>The tokens a contract holds beyond what its vaults owe.\<close>

definition backing :: "addr \<Rightarrow> addr \<Rightarrow> settle \<Rightarrow> int" where
  "backing tok self s = net_flow tok self (calls s) - vault_total s tok"

lemma backing_cong: "calls t = calls s \<Longrightarrow> k_total_vaulted t = k_total_vaulted s \<Longrightarrow> backing tok self t = backing tok self s"
  by (simp add: backing_def vault_total_def)

lemma backing_emit [simp]: "backing tok self (emit a b s) = backing tok self s"
  by (rule backing_cong) simp_all

lemma backing_pay:
  assumes "token_pay e tok a (this e) n s = Inr t" "a \<noteq> this e"
  shows "backing k (this e) t = backing k (this e) s + (if k = tok then n else 0)"
  using assms by (auto simp: token_pay_Inr backing_def flow1_def vault_total_def)

lemma backing_pay_when:
  assumes "whenE c (token_pay e tok a (this e) n) s = Inr t" "a \<noteq> this e"
  shows "backing k (this e) t = backing k (this e) s + (if k = tok \<and> c then n else 0)"
  using assms backing_pay [OF _ assms(2)] by (auto simp: whenE_Inr split: if_splits)

lemma auth_frame:
  assumes "creation_auth e buyers supplier amount opt s = Inr t"
  shows "unborn s t" "calls t = calls s" "k_vault_balance t = k_vault_balance s" "k_total_vaulted t = k_total_vaulted s"
    "buyers \<noteq> []" "MIN_SHIPMENT_AMOUNT \<le> amount" "k_contract_stats t = k_contract_stats s"
    "k_supplier_shipments t = k_supplier_shipments s" "k_instance_escrowed t = k_instance_escrowed s"
    "k_tvl_cap t = k_tvl_cap s"
  using assms by (auto simp: creation_auth_def unborn_def bindE_Inr ensure_Inr split: if_splits)

lemma auth_signed:
  assumes "creation_auth e buyers supplier amount opt s = Inr t"
  shows "get_or False (k_skip_buyer_auth s) \<or> set buyers \<subseteq> set (signers e)"
    and "0 < op_supplier_collateral opt \<Longrightarrow> supplier \<in> set (signers e)"
    and "k_skip_buyer_auth t = None \<or> set buyers \<subseteq> set (signers e)"
proof -
  have sign: "set xs \<subseteq> set (signers e)" if "sign_all e xs = Inr u" for xs u
    using that by (induction xs arbitrary: u) (auto simp: sign_all_def bindE_Inr require_auth_Inr)
  show "get_or False (k_skip_buyer_auth s) \<or> set buyers \<subseteq> set (signers e)"
    "0 < op_supplier_collateral opt \<Longrightarrow> supplier \<in> set (signers e)"
    "k_skip_buyer_auth t = None \<or> set buyers \<subseteq> set (signers e)"
    using assms sign by (auto simp: creation_auth_def bindE_Inr ensure_Inr require_auth_Inr split: if_splits)
qed

lemma spending_frame:
  assumes "check_and_record_buyer_spending b n a s = Inr t"
  shows "unborn s t" "calls t = calls s" "k_vault_balance t = k_vault_balance s" "k_total_vaulted t = k_total_vaulted s"
  using assms by (auto simp: check_and_record_buyer_spending_def Let_def unborn_def bindE_Inr ck_i128_Inr
      split: option.splits if_splits prod.splits)

lemma creation_count_frame:
  assumes "check_and_record_shipment_creation a n s = Inr t"
  shows "unborn s t" "calls t = calls s" "k_vault_balance t = k_vault_balance s" "k_total_vaulted t = k_total_vaulted s"
  using assms by (auto simp: check_and_record_shipment_creation_def Let_def unborn_def bindE_Inr ck_u32_Inr
      split: option.splits if_splits prod.splits)

definition funding :: "int \<Rightarrow> int \<Rightarrow> nat \<Rightarrow> int \<Rightarrow> int" where
  "funding amount bond n bonus = amount + (if 0 < bond then bond * int n else 0) + max bonus 0"

lemma fund_cases:
  assumes "fund_shipment e i p tok amount bond opt n s = Inr t"
  obtains (allowance) sp src where "k_pending_allowance s = Some (sp, src)"
      "token_pay e tok src (this e) (funding amount bond n (op_early_bonus_pool opt)) (s\<lparr>k_pending_allowance := None\<rparr>) = Inr t"
  | (vault) s1 where "k_pending_allowance s = None"
      "debit_vault p tok (funding amount bond n (op_early_bonus_pool opt)) s = Inr s1"
      "t = s1\<lparr>k_fund_from_vault := (k_fund_from_vault s1)(i \<mapsto> True)\<rparr>"
  | (direct) s1 s2 where "k_pending_allowance s = None"
      "token_pay e tok p (this e) amount s = Inr s1"
      "whenE (0 < bond \<and> 0 < bond * int n) (token_pay e tok p (this e) (bond * int n)) s1 = Inr s2"
      "whenE (0 < op_early_bonus_pool opt) (token_pay e tok p (this e) (op_early_bonus_pool opt)) s2 = Inr t"
proof -
  let ?bonus = "op_early_bonus_pool opt"
  let ?bonds = "if 0 < bond then bond * int n else 0"
  let ?f = "funding amount bond n ?bonus"
  obtain y x z where b: "bond_total bond n = Inr y" "ck_i128 (amount + y) = Inr x"
    "ck_i128 (x + (if 0 < ?bonus then ?bonus else 0)) = Inr z"
    using assms by (auto simp: fund_shipment_def Let_def bindE_Inr)
  have y: "y = ?bonds" using b(1) by (cases "0 < bond") (simp_all add: bond_total_def ck_i128_Inr)
  have z: "z = ?f" using b(2,3) by (simp add: ck_i128_Inr y funding_def max_def)
  have body: "(case k_pending_allowance s of
        Some (spender, src) \<Rightarrow> token_pay e tok src (this e) z (s\<lparr>k_pending_allowance := None\<rparr>)
      | None \<Rightarrow>
          if op_fund_from_vault opt
          then bindE (debit_vault p tok z s) (\<lambda>s1.
               Inr (s1\<lparr>k_fund_from_vault := (k_fund_from_vault s1)(i \<mapsto> True)\<rparr>))
          else bindE (token_pay e tok p (this e) amount s) (\<lambda>s1.
               bindE (whenE (0 < y) (token_pay e tok p (this e) y) s1) (\<lambda>s2.
               whenE (0 < ?bonus) (token_pay e tok p (this e) ?bonus) s2))) = Inr t"
    using assms by (simp only: fund_shipment_def Let_def b bindE_simps)
  show ?thesis
  proof (cases "k_pending_allowance s")
    case (Some a)
    then show ?thesis using body allowance z by (cases a) simp
  next
    case None
    show ?thesis
    proof (cases "op_fund_from_vault opt")
      case True
      then show ?thesis using body None vault z by (auto simp: bindE_Inr)
    next
      case False
      have w: "whenE (0 < y) (token_pay e tok p (this e) y) u
          = whenE (0 < bond \<and> 0 < bond * int n) (token_pay e tok p (this e) (bond * int n)) u" for u
        by (cases "0 < bond") (simp_all add: y)
      show ?thesis using body None False direct by (auto simp: bindE_Inr w)
    qed
  qed
qed

lemma fund_frame:
  assumes "fund_shipment e i p tok amount bond opt n s = Inr t"
  shows "k_shipment t = k_shipment s" "k_dispute_resolved_at t = k_dispute_resolved_at s"
    "k_total_escrowed t = k_total_escrowed s" "k_collateral_token t = k_collateral_token s"
    "k_partial_qty_released t = k_partial_qty_released s"
  using assms
  by (cases rule: fund_cases [OF assms];
      auto simp: bindE_Inr token_pay_Inr whenE_Inr debit_vault_def vault_sub_def ck_i128_Inr split: if_splits)+

text \<open>In every mode the funds add exactly the funding to the backing of the token.\<close>

lemma fund_backing:
  assumes "fund_shipment e i p tok amount bond opt n s = Inr t" "vault_inv bs s" "p \<in> set bs" "p \<noteq> this e"
    "\<And>sp src. k_pending_allowance s = Some (sp, src) \<Longrightarrow> src \<noteq> this e"
    "0 < amount"
  shows "backing k (this e) t = backing k (this e) s + (if k = tok then funding amount bond n (op_early_bonus_pool opt) else 0)"
  using assms(1)
proof (cases rule: fund_cases)
  case (allowance sp src)
  have "backing k (this e) (s\<lparr>k_pending_allowance := None\<rparr>) = backing k (this e) s" by (rule backing_cong) simp_all
  then show ?thesis using backing_pay [OF allowance(2) assms(5) [OF allowance(1)], of k] by simp
next
  case (vault s1)
  let ?f = "funding amount bond n (op_early_bonus_pool opt)"
  have "0 < ?f" using assms(6) by (auto simp: funding_def max_def mult_nonneg_nonneg add_pos_nonneg)
  then have sub: "vault_sub p tok ?f s = Inr s1" using vault(2) by (simp add: debit_vault_def split: if_splits)
  have mv: "vault_moved p tok (- ?f) s s1" by (rule vault_sub_moved(1) [OF sub assms(2,3)])
  have c: "calls s1 = calls s" by (rule vault_sub_calls [OF sub])
  have "vault_total t = vault_total s1" by (simp add: vault(3) vault_total_def fun_eq_iff)
  then show ?thesis using mv c vault(3) by (simp add: backing_def vault_moved_def)
next
  case (direct s1 s2)
  show ?thesis
    using backing_pay [OF direct(2) assms(4), of k] backing_pay_when [OF direct(3) assms(4), of k]
      backing_pay_when [OF direct(4) assms(4), of k]
    by (auto simp: funding_def max_def mult_less_0_iff zero_less_mult_iff)
qed

text \<open>The tier discount of the collateral writes at most the supplier's tier and its history.\<close>

lemma discount_frame:
  assumes "apply_tier_collateral_discount a col s = Inr (s1, eff)"
  shows "k_shipment s1 = k_shipment s" "k_dispute_resolved_at s1 = k_dispute_resolved_at s"
    "k_total_escrowed s1 = k_total_escrowed s" "k_partial_qty_released s1 = k_partial_qty_released s"
    "k_pending_allowance s1 = k_pending_allowance s" "k_total_vaulted s1 = k_total_vaulted s" "calls s1 = calls s"
    "k_vault_balance s1 = k_vault_balance s" "k_collateral_token s1 = k_collateral_token s"
  using assms
  by (auto simp: apply_tier_collateral_discount_def evaluate_supplier_tier_change_def Let_def bindE_Inr
      mul_div_Inr emit_def split: option.splits if_splits prod.splits)

text \<open>The collateral the supplier locks, in the token chosen for it.\<close>

lemma lock_cases:
  assumes "lock_collateral e i a tok col s = Inr t"
  obtains (none) "col \<le> 0" "t = s"
  | (locked) s1 eff s2 where "0 < col" "apply_tier_collateral_discount a col s = Inr (s1, eff)"
      "whenE (0 < eff) (token_pay e (get_or tok (k_collateral_token s i)) a (this e) eff) s1 = Inr s2"
      "t = s2\<lparr>k_supplier_collateral := (k_supplier_collateral s2)(i \<mapsto> eff)\<rparr>"
  using assms by (cases "col \<le> 0") (auto simp: lock_collateral_def Let_def bindE_Inr)

lemma pay_when_frame:
  assumes "whenE c (token_pay e tok a b n) s = Inr t"
  shows "k_shipment t = k_shipment s" "k_dispute_resolved_at t = k_dispute_resolved_at s"
    "k_total_escrowed t = k_total_escrowed s" "k_partial_qty_released t = k_partial_qty_released s"
    "k_pending_allowance t = k_pending_allowance s" "k_total_vaulted t = k_total_vaulted s"
    "k_vault_balance t = k_vault_balance s" "k_collateral_token t = k_collateral_token s"
  using assms by (cases c; auto simp: whenE_Inr token_pay_Inr)+

lemma collateral_frame:
  assumes "lock_collateral e i a tok col s = Inr t"
  shows "k_shipment t = k_shipment s" "k_dispute_resolved_at t = k_dispute_resolved_at s"
    "k_total_escrowed t = k_total_escrowed s" "k_partial_qty_released t = k_partial_qty_released s"
    "k_pending_allowance t = k_pending_allowance s" "k_total_vaulted t = k_total_vaulted s"
    "k_vault_balance t = k_vault_balance s" "k_collateral_token t = k_collateral_token s"
  using assms by (cases rule: lock_cases [OF assms]; simp add: pay_when_frame discount_frame)+

lemma collateral_backing:
  assumes "lock_collateral e i a tok col s = Inr t" "a \<noteq> this e"
  obtains (none) "col \<le> 0" "t = s"
  | (locked) eff where "0 < col" "k_supplier_collateral t i = Some eff"
      "backing k (this e) t = backing k (this e) s + (if k = get_or tok (k_collateral_token s i) then max eff 0 else 0)"
  using assms(1)
proof (cases rule: lock_cases)
  case none
  then show ?thesis using that(1) by simp
next
  case (locked s1 eff s2)
  have "backing k (this e) t = backing k (this e) s2" by (rule backing_cong) (simp_all add: locked(4))
  moreover have "backing k (this e) s1 = backing k (this e) s"
    by (rule backing_cong) (rule discount_frame [OF locked(2)])+
  ultimately show ?thesis
    using that(2) [of eff] locked(1,4) backing_pay_when [OF locked(3) assms(2), of k] by (auto simp: max_def)
qed

section \<open>Storing\<close>

text \<open>The options, indexes and marks written beside the shipment leave these keys alone.\<close>

definition beside :: "settle \<Rightarrow> settle \<Rightarrow> bool" where
  "beside s t \<longleftrightarrow> k_shipment t = k_shipment s \<and> k_dispute_resolved_at t = k_dispute_resolved_at s \<and>
     k_total_escrowed t = k_total_escrowed s \<and> k_total_vaulted t = k_total_vaulted s \<and> calls t = calls s \<and>
     k_supplier_collateral t = k_supplier_collateral s \<and> k_contract_stats t = k_contract_stats s \<and>
     k_milestone_splits t = k_milestone_splits s"

lemma beside_refl [simp]: "beside s s"
  by (simp add: beside_def)

lemma beside_trans: "beside s t \<Longrightarrow> beside t u \<Longrightarrow> beside s u"
  by (simp add: beside_def)

lemma beside_settlement: "beside s (store_settlement_options i opt s)"
  by (simp add: store_settlement_options_def beside_def)

lemma beside_proof_options: "beside s (store_trade_proof_options i opt s)"
  by (simp add: store_trade_proof_options_def beside_def)

lemma beside_schedule: "beside s (store_schedule_options i opt s)"
  by (simp add: store_schedule_options_def beside_def)

lemma beside_tier: "beside s (store_fee_tier i p s)"
  by (simp add: store_fee_tier_def beside_def)

lemma beside_jurisdiction: "beside s (store_jurisdiction i j s)"
  by (cases j) (simp_all add: store_jurisdiction_def beside_def)

lemma beside_recipient: "store_refund_recipient i r s = Inr t \<Longrightarrow> beside s t"
  by (auto simp: store_refund_recipient_def beside_def split: option.splits if_splits)

lemma beside_suppliers: "beside s (store_milestone_suppliers i j as s)"
proof (induction i j as s rule: store_milestone_suppliers.induct)
  case (2 i j a as s)
  then show ?case by (auto simp: Let_def beside_def)
qed simp

lemma beside_consortium: "store_consortium i as n s = Inr t \<Longrightarrow> beside s t"
  using beside_suppliers [of s i 0 as] by (auto simp: store_consortium_def Let_def beside_def split: if_splits)

lemma beside_buyers: "beside s (index_buyers i bs s)"
proof (induction i bs s rule: index_buyers.induct)
  case (2 i b bs s)
  then show ?case by (simp add: beside_def)
qed simp

lemma beside_party: "beside s (add_to_party_index k i s)"
  by (simp add: add_to_party_index_def Let_def beside_def)

lemma beside_index: "beside s (index_shipment i sh s)"
  using beside_buyers [of _ i "sh_buyers sh"] beside_party
  by (simp add: index_shipment_def Let_def add_to_status_index_def beside_def)

lemma store_frame:
  assumes "store_creation e i p sh opt s = Inr t"
  shows "k_shipment t = (k_shipment s)(i \<mapsto> sh)" "k_dispute_resolved_at t = k_dispute_resolved_at s"
    "k_total_escrowed t = k_total_escrowed s" "k_total_vaulted t = k_total_vaulted s" "calls t = calls s"
    "k_supplier_collateral t = k_supplier_collateral s" "k_contract_stats t = k_contract_stats s"
    "op_milestone_splits opt \<noteq> [] \<Longrightarrow> k_milestone_splits t i = Some (op_milestone_splits opt)"
proof -
  let ?s1 = "store_shipment e i sh opt s"
  let ?s2 = "store_trade_proof_options i opt (store_settlement_options i opt ?s1)"
  obtain s3 s4 where c: "store_consortium i (op_milestone_suppliers opt) (length (sh_milestones sh)) ?s2 = Inr s3"
    "store_refund_recipient i (op_refund_recipient opt) s3 = Inr s4"
    and t: "t = index_shipment i sh (store_jurisdiction i (op_jurisdiction opt)
             (store_fee_tier i p (store_schedule_options i opt s4)))"
    using assms by (auto simp: store_creation_def Let_def bindE_Inr)
  have "beside ?s1 t"
    unfolding t using beside_trans [OF beside_settlement beside_proof_options] beside_consortium [OF c(1)]
      beside_recipient [OF c(2)] beside_schedule beside_tier beside_jurisdiction beside_index
    by (meson beside_trans)
  then show "k_shipment t = (k_shipment s)(i \<mapsto> sh)" "k_dispute_resolved_at t = k_dispute_resolved_at s"
    "k_total_escrowed t = k_total_escrowed s" "k_total_vaulted t = k_total_vaulted s" "calls t = calls s"
    "k_supplier_collateral t = k_supplier_collateral s" "k_contract_stats t = k_contract_stats s"
    "op_milestone_splits opt \<noteq> [] \<Longrightarrow> k_milestone_splits t i = Some (op_milestone_splits opt)"
    by (simp_all add: beside_def store_shipment_def Let_def)
qed

section \<open>The whole call\<close>

lemma create_Inr:
  assumes "create_shipment e i buyers supplier logistics arbiter tok amount ms opt s = Inr (t, i')"
  obtains bond s1 p s2 s3 s4 s5 s6 s7 where "creation_bond amount opt s = Inr bond"
    "creation_auth e buyers supplier amount opt s = Inr s1"
    "creation_checks e i buyers supplier logistics arbiter tok amount ms opt s1 = Inr ()"
    "p = hd buyers" "buyers \<noteq> []"
    "check_and_record_buyer_spending p (sequence e) amount s1 = Inr s2"
    "check_and_record_shipment_creation supplier (sequence e) s2 = Inr s3"
    "fund_shipment e i p tok amount bond opt (length ms) s3 = Inr s4"
    "lock_collateral e i supplier tok (op_supplier_collateral opt) s4 = Inr s5"
    "store_creation e i p (append_audit_entry e p ''shipment_created'' ''create_shipment''
       (new_shipment e i buyers supplier logistics arbiter tok amount ms opt bond)) opt s5 = Inr s6"
    "count_creation tok amount (get_or contract_stats_zero (k_contract_stats s1)) s6 = Inr s7"
    "t = emit_shipment_created e i p (append_audit_entry e p ''shipment_created'' ''create_shipment''
       (new_shipment e i buyers supplier logistics arbiter tok amount ms opt bond)) s7" "i' = i"
    "assert_operation_not_paused s ''create'' = Inr ()"
proof -
  have ne: "buyers \<noteq> []"
    using assms by (auto simp: create_shipment_def bindE_Inr dest: auth_frame(5))
  then have p: "vec_get_unwrap buyers 0 = Inr (hd buyers)"
    by (cases buyers) (simp_all add: vec_get_unwrap_def vec_get_def unwrap_def)
  have "i' = i" using assms by (auto simp: create_shipment_def bindE_Inr Let_def)
  show thesis
    using assms ne unfolding \<open>i' = i\<close> create_shipment_def bindE_Inr Let_def p by clarsimp (rule that, (assumption | rule refl | rule \<open>i' = i\<close>)+)
qed

lemma auth_state:
  assumes "creation_auth e buyers supplier amount opt s = Inr s1"
  obtains x where "s1 = s\<lparr>k_skip_buyer_auth := x\<rparr>"
proof -
  have "s1 = s \<or> s1 = s\<lparr>k_skip_buyer_auth := None\<rparr>"
    using assms by (auto simp: creation_auth_def bindE_Inr split: if_splits)
  moreover have "s = s\<lparr>k_skip_buyer_auth := k_skip_buyer_auth s\<rparr>" by simp
  ultimately show thesis using that by metis
qed

lemma count_creation_Inr:
  assumes "count_creation tok amount stats s = Inr t"
  shows "k_shipment t = k_shipment s" "k_dispute_resolved_at t = k_dispute_resolved_at s"
    "k_total_escrowed t = (k_total_escrowed s)(tok \<mapsto> get_or 0 (k_total_escrowed s tok) + amount)"
    "calls t = calls s" "k_total_vaulted t = k_total_vaulted s" "k_supplier_collateral t = k_supplier_collateral s"
    "k_milestone_splits t = k_milestone_splits s"
    "k_contract_stats t = Some (stats\<lparr>cs_total_shipments := cs_total_shipments stats + 1,
       cs_total_volume := cs_total_volume stats + amount\<rparr>)"
  using assms by (auto simp: count_creation_def increase_total_escrowed_def bindE_Inr ck_i128_Inr ck_u64_Inr)

lemma emit_created [simp]:
  "k_shipment (emit_shipment_created e i p sh s) = k_shipment s"
  "k_dispute_resolved_at (emit_shipment_created e i p sh s) = k_dispute_resolved_at s"
  "k_total_escrowed (emit_shipment_created e i p sh s) = k_total_escrowed s"
  "calls (emit_shipment_created e i p sh s) = calls s"
  "k_total_vaulted (emit_shipment_created e i p sh s) = k_total_vaulted s"
  "k_supplier_collateral (emit_shipment_created e i p sh s) = k_supplier_collateral s"
  "k_milestone_splits (emit_shipment_created e i p sh s) = k_milestone_splits s"
  "k_contract_stats (emit_shipment_created e i p sh s) = k_contract_stats s"
  by (simp_all add: emit_shipment_created_def emit_def)

text \<open>The stored shipment, the escrow counter and the record of resolutions after the call.\<close>

lemma created:
  assumes "create_shipment e i buyers supplier logistics arbiter tok amount ms opt s = Inr (t, i')"
  obtains bond where "creation_bond amount opt s = Inr bond" "i' = i"
    "k_shipment t = (k_shipment s)(i \<mapsto> append_audit_entry e (hd buyers) ''shipment_created'' ''create_shipment''
       (new_shipment e i buyers supplier logistics arbiter tok amount ms opt bond))"
    "k_dispute_resolved_at t = k_dispute_resolved_at s"
    "k_total_escrowed t = (k_total_escrowed s)(tok \<mapsto> get_or 0 (k_total_escrowed s tok) + amount)"
    "op_milestone_splits opt \<noteq> [] \<Longrightarrow> k_milestone_splits t i = Some (op_milestone_splits opt)"
    "k_contract_stats t = (let stats = get_or contract_stats_zero (k_contract_stats s) in
       Some (stats\<lparr>cs_total_shipments := cs_total_shipments stats + 1, cs_total_volume := cs_total_volume stats + amount\<rparr>))"
  using assms
proof (rule create_Inr)
  fix bond s1 p s2 s3 s4 s5 s6 s7
  assume c: "creation_bond amount opt s = Inr bond" "creation_auth e buyers supplier amount opt s = Inr s1"
    "p = hd buyers" "check_and_record_buyer_spending p (sequence e) amount s1 = Inr s2"
    "check_and_record_shipment_creation supplier (sequence e) s2 = Inr s3"
    "fund_shipment e i p tok amount bond opt (length ms) s3 = Inr s4"
    "lock_collateral e i supplier tok (op_supplier_collateral opt) s4 = Inr s5"
    "store_creation e i p (append_audit_entry e p ''shipment_created'' ''create_shipment''
       (new_shipment e i buyers supplier logistics arbiter tok amount ms opt bond)) opt s5 = Inr s6"
    "count_creation tok amount (get_or contract_stats_zero (k_contract_stats s1)) s6 = Inr s7"
    "t = emit_shipment_created e i p (append_audit_entry e p ''shipment_created'' ''create_shipment''
       (new_shipment e i buyers supplier logistics arbiter tok amount ms opt bond)) s7" "i' = i"
  note frames = auth_frame [OF c(2)] spending_frame [OF c(4)] creation_count_frame [OF c(5)] fund_frame [OF c(6)]
    collateral_frame [OF c(7)] store_frame [OF c(8)] count_creation_Inr [OF c(9)]
  show thesis by (rule that [OF c(1) c(11)]) (use frames c(3,10) in \<open>simp_all add: unborn_def Let_def\<close>)
qed

lemma sum_bps_Inr: "sum_bps acc ns = Inr a \<Longrightarrow> a = acc + sum_list ns"
  by (induction ns arbitrary: acc) (fastforce simp: bindE_Inr ck_u32_Inr)+

lemma checked_percents_sum:
  "checked_percents mn acc ms = Inr a \<Longrightarrow>
     a = acc + sum_list (map ms_payment_percent ms) \<and> (\<forall>m \<in> set ms. mn \<le> ms_payment_percent m)"
  by (induction ms arbitrary: acc) (fastforce simp: bindE_Inr ck_u32_Inr split: if_splits)+

lemma splits_ok_Inr:
  assumes "splits_ok splits ms s = Inr ()"
  shows "splits = [] \<Longrightarrow> sum_list (map ms_payment_percent ms) = 100"
    "splits = [] \<Longrightarrow> m \<in> set ms \<Longrightarrow> get_or 5 (k_min_milestone_percent s) \<le> ms_payment_percent m"
    "splits \<noteq> [] \<Longrightarrow> length splits = length ms \<and> sum_list splits = 10000"
  using assms by (auto simp: splits_ok_def percents_ok_def bindE_Inr ensure_Inr dest: sum_bps_Inr checked_percents_sum)

lemma exposure_cong:
  "compute_supplier_exposure (s\<lparr>k_skip_buyer_auth := x\<rparr>) a = compute_supplier_exposure s a"
proof -
  have "compute_exposure_loop (s\<lparr>k_skip_buyer_auth := x\<rparr>) = compute_exposure_loop s"
    by (simp add: compute_exposure_loop_def fun_eq_iff)
  then show ?thesis by (simp add: compute_supplier_exposure_def)
qed

text \<open>What the checks of a creation that returns have established, in terms of the storage before it.\<close>

lemma creation_checked:
  assumes "create_shipment e i buyers supplier logistics arbiter tok amount ms opt s = Inr (t, i')"
  shows "k_shipment s i = None" "buyers \<noteq> []" "MIN_SHIPMENT_AMOUNT \<le> amount"
    "listed tok (get_or [] (k_allowed_tokens s))" "splits_ok (op_milestone_splits opt) ms s = Inr ()"
    "length ms \<le> get_or DEFAULT_MAX_MILESTONE_COUNT (k_max_milestone_count s)"
    "\<forall>a \<in> set (buyers @ [supplier, logistics, arbiter]). \<not> is_blacklisted s a"
    "get_or False (k_skip_buyer_auth s) \<or> set buyers \<subseteq> set (signers e)"
    "0 < op_supplier_collateral opt \<Longrightarrow> supplier \<in> set (signers e)"
    "exposure_ok supplier amount s = Inr ()" "tvl_ok tok amount s = Inr ()"
proof -
  obtain s1 where a: "creation_auth e buyers supplier amount opt s = Inr s1"
    and c: "creation_checks e i buyers supplier logistics arbiter tok amount ms opt s1 = Inr ()"
    using assms by (rule create_Inr)
  obtain x where s1: "s1 = s\<lparr>k_skip_buyer_auth := x\<rparr>" by (rule auth_state [OF a])
  have same: "splits_ok sp ms s1 = splits_ok sp ms s" "is_blacklisted s1 b = is_blacklisted s b"
    "exposure_ok supplier amount s1 = exposure_ok supplier amount s" "tvl_ok tok amount s1 = tvl_ok tok amount s" for sp b
    by (simp_all add: s1 splits_ok_def percents_ok_def is_blacklisted_def exposure_ok_def tvl_ok_def get_tvl_def get_tvl_cap_def Let_def exposure_cong cong: if_cong)
  show "k_shipment s i = None" "listed tok (get_or [] (k_allowed_tokens s))"
    "splits_ok (op_milestone_splits opt) ms s = Inr ()"
    "length ms \<le> get_or DEFAULT_MAX_MILESTONE_COUNT (k_max_milestone_count s)"
    "\<forall>a \<in> set (buyers @ [supplier, logistics, arbiter]). \<not> is_blacklisted s a"
    "exposure_ok supplier amount s = Inr ()" "tvl_ok tok amount s = Inr ()"
    using c by (simp_all add: creation_checks_def creation_values_ok_def creation_parties_ok_def milestone_count_ok_def
        Let_def bindE_Inr ensure_Inr same) (simp_all add: s1)
  show "buyers \<noteq> []" "MIN_SHIPMENT_AMOUNT \<le> amount" using auth_frame [OF a] by simp_all
  show "get_or False (k_skip_buyer_auth s) \<or> set buyers \<subseteq> set (signers e)"
    "0 < op_supplier_collateral opt \<Longrightarrow> supplier \<in> set (signers e)" using auth_signed [OF a] by simp_all
qed

text \<open>The tokens it brought in.\<close>

lemma creation_backing:
  assumes "create_shipment e i buyers supplier logistics arbiter tok amount ms opt s = Inr (t, i')"
    "vault_inv bs s" "hd buyers \<in> set bs" "hd buyers \<noteq> this e" "supplier \<noteq> this e"
    "\<And>sp src. k_pending_allowance s = Some (sp, src) \<Longrightarrow> src \<noteq> this e"
  obtains bond eff where "creation_bond amount opt s = Inr bond"
    "backing k (this e) t = backing k (this e) s
       + (if k = tok then funding amount bond (length ms) (op_early_bonus_pool opt) else 0)
       + (if k = get_or tok (k_collateral_token s i) then eff else 0)"
    "if 0 < op_supplier_collateral opt then \<exists>c. k_supplier_collateral t i = Some c \<and> eff = max c 0 else eff = 0"
  using assms(1)
proof (rule create_Inr)
  fix bond s1 p s2 s3 s4 s5 s6 s7
  assume c: "creation_bond amount opt s = Inr bond" "creation_auth e buyers supplier amount opt s = Inr s1"
    "p = hd buyers" "check_and_record_buyer_spending p (sequence e) amount s1 = Inr s2"
    "check_and_record_shipment_creation supplier (sequence e) s2 = Inr s3"
    "fund_shipment e i p tok amount bond opt (length ms) s3 = Inr s4"
    "lock_collateral e i supplier tok (op_supplier_collateral opt) s4 = Inr s5"
    "store_creation e i p (append_audit_entry e p ''shipment_created'' ''create_shipment''
       (new_shipment e i buyers supplier logistics arbiter tok amount ms opt bond)) opt s5 = Inr s6"
    "count_creation tok amount (get_or contract_stats_zero (k_contract_stats s1)) s6 = Inr s7"
    "t = emit_shipment_created e i p (append_audit_entry e p ''shipment_created'' ''create_shipment''
       (new_shipment e i buyers supplier logistics arbiter tok amount ms opt bond)) s7"
  note f = auth_frame [OF c(2)] spending_frame [OF c(4)] creation_count_frame [OF c(5)]
  have u: "unborn s s3" using f by (blast intro: unborn_trans)
  have v: "k_vault_balance s3 = k_vault_balance s" "k_total_vaulted s3 = k_total_vaulted s" "calls s3 = calls s"
    using f by simp_all
  have inv: "vault_inv bs s3" using assms(2) v by (simp add: vault_inv_def vault_bal_def vault_total_def)
  have "0 < amount" using f(6) by (simp add: MIN_SHIPMENT_AMOUNT_def)
  moreover have "k_pending_allowance s3 = k_pending_allowance s" using u by (simp add: unborn_def)
  ultimately have fb: "backing k (this e) s4 = backing k (this e) s
      + (if k = tok then funding amount bond (length ms) (op_early_bonus_pool opt) else 0)"
    using fund_backing [OF c(6) inv, of k] assms(3-6) c(3) backing_cong [OF v(3,2)] by auto
  have ct: "k_collateral_token s4 = k_collateral_token s" using fund_frame(4) [OF c(6)] u by (simp add: unborn_def)
  have e: "backing k (this e) t = backing k (this e) s5" "k_supplier_collateral t = k_supplier_collateral s5"
    using store_frame [OF c(8)] count_creation_Inr [OF c(9)] c(10) by (simp_all add: backing_def vault_total_def)
  show thesis
    using c(7) assms(5)
  proof (cases rule: collateral_backing [where k = k])
    case none
    then show thesis using that [OF c(1), of 0] fb e by simp
  next
    case (locked eff)
    then show thesis using that [OF c(1), of "max eff 0"] fb e ct by simp
  qed
qed

end
