(* ===== verification/SettleAdvance.thy ===== *)
theory SettleAdvance
  imports SettleConfirm
begin

text \<open>
  Advances on a milestone's payment, warranty claims after completion, the forfeiture of collateral
  for a missed deadline, and the recipient of refunds (\<^verbatim>\<open>lib.rs\<close>, lines 9318 to 9478, 22643 to
  22835, 4572 to 4725 and 4349 to 4402).
\<close>

section \<open>Advances\<close>

definition request_advance :: "settle_env \<Rightarrow> addr \<Rightarrow> sid \<Rightarrow> nat \<Rightarrow> nat \<Rightarrow> settle \<Rightarrow> settle res" where
  "request_advance e caller i j pct s =
     bindE (assert_operation_not_paused s ''advance'') (\<lambda>_.
     bindE (get_shipment_internal s i) (\<lambda>sh.
     bindE (assert_active sh) (\<lambda>_.
     bindE (require_supplier_auth e sh caller) (\<lambda>_.
     bindE (expect (vec_get (sh_milestones sh) j) ''invalid milestone index'') (\<lambda>m.
     bindE (ensure (ms_status m = Pending) ''milestone is not in pending status'') (\<lambda>_.
     bindE (ensure (pct \<le> get_or 30 (k_max_advance_percent s)) ''AdvanceExceedsMax'') (\<lambda>_.
     bindE (ensure (case k_advance_request s (i, j) of None \<Rightarrow> True | Some r \<Rightarrow> \<not> ar_approved r)
              ''AdvanceAlreadyApproved'') (\<lambda>_.
     Inr (emit [VStr ''advance_requested'', VStr i] [VNat j, VNat pct, VAddr caller]
       (s\<lparr>k_advance_request := (k_advance_request s)((i, j) \<mapsto>
            \<lparr>ar_requested_percent = pct, ar_approved = False, ar_amount_advanced = 0\<rparr>)\<rparr>))))))))))"

text \<open>To the financier if the receivable was sold, to the supplier's batch, or to the supplier.\<close>

definition pay_advance :: "settle_env \<Rightarrow> sid \<Rightarrow> shipment \<Rightarrow> int \<Rightarrow> settle \<Rightarrow> settle res" where
  "pay_advance e i sh n s =
     (case payout_assignee s i of
        Some financier \<Rightarrow> token_pay e (sh_token sh) (this e) financier n s
      | None \<Rightarrow>
          if get_or Immediate (k_payout_mode s (sh_supplier sh)) = Batched
          then bindE (ck_i128 (get_or 0 (k_pending_payout s (sh_supplier sh)) + n)) (\<lambda>x.
               Inr (s\<lparr>k_pending_payout := (k_pending_payout s)(sh_supplier sh \<mapsto> x)\<rparr>))
          else token_pay e (sh_token sh) (this e) (sh_supplier sh) n s)"

text \<open>The status of the milestone is not looked at.\<close>

definition approve_advance :: "settle_env \<Rightarrow> addr \<Rightarrow> sid \<Rightarrow> nat \<Rightarrow> settle \<Rightarrow> settle res" where
  "approve_advance e buyer i j s =
     bindE (assert_operation_not_paused s ''advance'') (\<lambda>_.
     bindE (get_shipment_internal s i) (\<lambda>sh.
     bindE (assert_active sh) (\<lambda>_.
     bindE (require_buyer_auth e sh buyer) (\<lambda>_.
     bindE (ensure (j < length (sh_milestones sh)) ''invalid milestone index'') (\<lambda>_.
     bindE (expect (k_advance_request s (i, j)) ''AdvanceNotRequested'') (\<lambda>req.
     bindE (ensure (\<not> ar_approved req) ''AdvanceAlreadyApproved'') (\<lambda>_.
     bindE (milestone_gross_payment s sh j) (\<lambda>gross.
     bindE (mul_div gross (ar_requested_percent req) 100) (\<lambda>n.
     bindE (check_circuit_breaker (sequence e) n s) (\<lambda>s1.
     bindE (check_address_outflow (sh_supplier sh) (sequence e) n s1) (\<lambda>s2.
     bindE (pay_advance e i sh n
              (s2\<lparr>k_advance_request := (k_advance_request s2)((i, j) \<mapsto>
                    req\<lparr>ar_approved := True, ar_amount_advanced := n\<rparr>)\<rparr>)) (\<lambda>s3.
     bindE (ck_i128 (sh_total_advanced_amount sh + n)) (\<lambda>adv.
     bindE (decrease_total_escrowed (sh_token sh) n
              (s3\<lparr>k_shipment := (k_shipment s3)(i \<mapsto> sh\<lparr>sh_total_advanced_amount := adv\<rparr>)\<rparr>)) (\<lambda>s4.
     Inr (emit [VStr ''advance_approved'', VStr i] [VNat j, VInt n, VAddr (sh_supplier sh)] s4)))))))))))))))"

section \<open>Warranty claims\<close>

definition warranty_balance :: "settle \<Rightarrow> sid \<Rightarrow> int" where
  "warranty_balance s i = get_or 0 (k_warranty_balance s i)"

definition get_warranty_end_ledger :: "settle \<Rightarrow> sid \<Rightarrow> nat" where
  "get_warranty_end_ledger s i = get_or 0 (k_warranty_ends_at s i)"

definition get_warranty_claim :: "settle \<Rightarrow> sid \<Rightarrow> warranty_claim option" where
  "get_warranty_claim s i = k_warranty_claim s i"

definition get_retainage_balance :: "settle \<Rightarrow> sid \<Rightarrow> int" where
  "get_retainage_balance s i = get_or 0 (k_retainage_balance s i)"

definition file_warranty_claim :: "settle_env \<Rightarrow> addr \<Rightarrow> sid \<Rightarrow> hash \<Rightarrow> settle \<Rightarrow> settle res" where
  "file_warranty_claim e buyer i evidence s =
     bindE (assert_not_paused s) (\<lambda>_.
     bindE (get_shipment_internal s i) (\<lambda>sh.
     bindE (require_buyer_auth e sh buyer) (\<lambda>_.
     bindE (ensure (sh_status sh = Completed) ''warranty claims require a completed shipment'') (\<lambda>_.
     bindE (ensure (evidence \<noteq> 0) ''invalid evidence hash'') (\<lambda>_.
     bindE (ensure (0 < warranty_balance s i) ''no warranty holdback'') (\<lambda>_.
     bindE (expect (k_warranty_ends_at s i) ''no warranty holdback'') (\<lambda>ends_at.
     bindE (ensure (sequence e < ends_at) ''warranty period has ended'') (\<lambda>_.
     bindE (ensure (k_warranty_claim s i = None) ''warranty claim already open'') (\<lambda>_.
     Inr (emit [VStr ''warranty_claim_filed'', VStr i] [VAddr buyer, VAddr (sh_arbiter sh), VNat evidence]
       (s\<lparr>k_warranty_claim := (k_warranty_claim s)(i \<mapsto>
            \<lparr>wc_buyer = buyer, wc_evidence_hash = evidence, wc_filed_ledger = sequence e\<rparr>),
          k_shipment := (k_shipment s)(i \<mapsto>
            append_audit_entry e buyer ''warranty_claim_filed'' ''file_warranty_claim'' sh)\<rparr>)))))))))))"

definition resolve_warranty_claim :: "settle_env \<Rightarrow> addr \<Rightarrow> sid \<Rightarrow> bool \<Rightarrow> settle \<Rightarrow> settle res" where
  "resolve_warranty_claim e arbiter i refund_buyer s =
     bindE (assert_not_paused s) (\<lambda>_.
     bindE (get_shipment_internal s i) (\<lambda>sh.
     bindE (require_arbiter_auth e sh arbiter) (\<lambda>_.
     bindE (expect (k_warranty_claim s i) ''no open warranty claim'') (\<lambda>claim.
     let s1 = s\<lparr>k_warranty_claim := (k_warranty_claim s)(i := None)\<rparr>;
         refunded = (if refund_buyer then warranty_balance s1 i else 0)
     in
     bindE (whenE (0 < refunded) (\<lambda>s.
              bindE (token_pay e (sh_token sh) (this e) (wc_buyer claim) refunded s) (\<lambda>s2.
              decrease_total_escrowed (sh_token sh) refunded
                (s2\<lparr>k_warranty_balance := (k_warranty_balance s2)(i := None)\<rparr>))) s1) (\<lambda>s3.
     Inr (emit [VStr ''warranty_claim_resolved'', VStr i] [VAddr arbiter, VBool refund_buyer, VInt refunded]
       (s3\<lparr>k_shipment := (k_shipment s3)(i \<mapsto>
          append_audit_entry e arbiter ''warranty_claim_resolved''
            (if refund_buyer then ''buyer'' else ''supplier'') sh)\<rparr>)))))))"

definition release_warranty :: "settle_env \<Rightarrow> sid \<Rightarrow> settle \<Rightarrow> settle res" where
  "release_warranty e i s =
     bindE (assert_not_paused s) (\<lambda>_.
     bindE (get_shipment_internal s i) (\<lambda>sh.
     bindE (ensure (sh_status sh = Completed) ''shipment is not completed'') (\<lambda>_.
     let amount = warranty_balance s i
     in
     bindE (ensure (0 < amount) ''no warranty holdback'') (\<lambda>_.
     bindE (expect (k_warranty_ends_at s i) ''no warranty holdback'') (\<lambda>ends_at.
     bindE (ensure (ends_at \<le> sequence e) ''warranty period not yet ended'') (\<lambda>_.
     bindE (ensure (k_warranty_claim s i = None) ''warranty claim pending'') (\<lambda>_.
     bindE (token_pay e (sh_token sh) (this e) (sh_supplier sh) amount s) (\<lambda>s1.
     bindE (decrease_total_escrowed (sh_token sh) amount
              (s1\<lparr>k_warranty_balance := (k_warranty_balance s1)(i := None)\<rparr>)) (\<lambda>s2.
     Inr (emit [VStr ''warranty_released'', VStr i] [VAddr (sh_supplier sh), VInt amount]
       (s2\<lparr>k_shipment := (k_shipment s2)(i \<mapsto>
          append_audit_entry e (this e) ''warranty_released'' ''release_warranty'' sh)\<rparr>)))))))))))"

section \<open>Collateral forfeited for a missed deadline\<close>

definition get_collateral_slash_bps :: "settle \<Rightarrow> sid \<Rightarrow> nat" where
  "get_collateral_slash_bps s i = get_or 0 (k_collateral_slash_bps s i)"

definition set_collateral_slash_bps :: "settle_env \<Rightarrow> addr \<Rightarrow> sid \<Rightarrow> nat \<Rightarrow> settle \<Rightarrow> settle res" where
  "set_collateral_slash_bps e buyer i bps s =
     bindE (require_auth e buyer) (\<lambda>_.
     bindE (get_shipment_internal s i) (\<lambda>sh.
     bindE (assert_is_buyer sh buyer) (\<lambda>_.
     if 10000 < bps then Inl (Panic ''bps cannot exceed 10000'')
     else Inr (s\<lparr>k_collateral_slash_bps := (k_collateral_slash_bps s)(i \<mapsto> bps)\<rparr>))))"

definition is_collateral_slashed :: "settle \<Rightarrow> sid \<Rightarrow> nat \<Rightarrow> bool" where
  "is_collateral_slashed s i j = get_or False (k_collateral_slashed s (i, j))"

definition slash_collateral_for_miss ::
  "settle_env \<Rightarrow> addr \<Rightarrow> sid \<Rightarrow> nat \<Rightarrow> settle \<Rightarrow> (settle \<times> int) res" where
  "slash_collateral_for_miss e caller i j s =
     bindE (assert_not_paused s) (\<lambda>_.
     bindE (require_auth e caller) (\<lambda>_.
     bindE (get_shipment_internal s i) (\<lambda>sh.
     bindE (assert_active sh) (\<lambda>_.
     bindE (assert_shipment_not_paused s i) (\<lambda>_.
     bindE (expect (vec_get (sh_milestones sh) j) ''invalid milestone index'') (\<lambda>m.
     let bps = get_collateral_slash_bps s i in
     bindE (ensure (bps \<noteq> 0) ''collateral slashing is not enabled'') (\<lambda>_.
     bindE (ensure (ms_status m = Pending) ''milestone is not pending'') (\<lambda>_.
     let deadline = get_or (ms_deadline_ledger m) (k_milestone_deadline s (i, j)) in
     bindE (ensure (deadline \<noteq> 0) ''milestone has no deadline'') (\<lambda>_.
     bindE (ensure (deadline < sequence e) ''milestone deadline has not passed'') (\<lambda>_.
     bindE (ensure (k_collateral_slashed s (i, j) = None) ''milestone already slashed'') (\<lambda>_.
     let remaining = get_or 0 (k_supplier_collateral s i) in
     bindE (ensure (0 < remaining) ''no supplier collateral remaining'') (\<lambda>_.
     bindE (mul_div remaining bps 10000) (\<lambda>raw.
     let slash = min raw remaining in
     bindE (ensure (0 < slash) ''slash amount rounds to zero'') (\<lambda>_.
     bindE (refund_to_buyer e i sh slash s) (\<lambda>s1.
     bindE (ck_i128 (remaining - slash)) (\<lambda>left.
     bindE (vec_get_unwrap (sh_buyers sh) 0) (\<lambda>primary.
     let sh1 = append_audit_entry e caller ''collateral_slashed'' ''slash_collateral'' sh
     in Inr (emit [VStr ''collateral_slashed'', VStr i]
               [VNat j, VInt slash, VInt left, VAddr primary, VAddr caller]
               (s1\<lparr>k_supplier_collateral := (k_supplier_collateral s1)(i \<mapsto> left),
                   k_collateral_slashed := (k_collateral_slashed s1)((i, j) \<mapsto> True),
                   k_shipment := (k_shipment s1)(i \<mapsto> sh1)\<rparr>), slash))))))))))))))))))"

section \<open>Refund recipient\<close>

definition set_refund_recipient :: "settle_env \<Rightarrow> addr \<Rightarrow> sid \<Rightarrow> addr option \<Rightarrow> settle \<Rightarrow> settle res" where
  "set_refund_recipient e buyer i recipient s =
     bindE (assert_not_paused s) (\<lambda>_.
     bindE (require_auth e buyer) (\<lambda>_.
     bindE (get_shipment_internal s i) (\<lambda>sh.
     bindE (assert_is_buyer sh buyer) (\<lambda>_.
     bindE (assert_active sh) (\<lambda>_.
     bindE (ensure (case recipient of None \<Rightarrow> True | Some a \<Rightarrow> \<not> is_blacklisted s a)
              ''recipient is blacklisted'') (\<lambda>_.
     Inr (emit [VStr ''refund_recipient_set'', VStr i] [VAddr buyer, VOpt VAddr recipient]
            (s\<lparr>k_refund_recipient := (k_refund_recipient s)(i := recipient)\<rparr>))))))))"

definition get_refund_recipient :: "settle \<Rightarrow> sid \<Rightarrow> addr option" where
  "get_refund_recipient s i = k_refund_recipient s i"

section \<open>Lemmas\<close>

text \<open>A slash never takes more than is locked, and a milestone is slashed at most once.\<close>

lemma slash_bounded:
  assumes "slash_collateral_for_miss e c i j s = Inr (t, n)"
  shows "0 < n" "n \<le> get_or 0 (k_supplier_collateral s i)" "is_collateral_slashed t i j"
    "k_supplier_collateral t i = Some (get_or 0 (k_supplier_collateral s i) - n)"
  using assms by (auto simp: slash_collateral_for_miss_def Let_def res_simps is_collateral_slashed_def expect_Inr emit_def)

lemma slashed_once: "k_collateral_slashed s (i, j) \<noteq> None \<Longrightarrow> slash_collateral_for_miss e c i j s \<noteq> Inr t"
  by (auto simp: slash_collateral_for_miss_def Let_def res_simps)

lemmas settleadvance_eval [eval_defs] = pay_advance_def warranty_balance_def get_collateral_slash_bps_def

end
