(* ===== verification/SettleBulk.thy ===== *)
theory SettleBulk
  imports SettleConfirm
begin

text \<open>
  The other ways a milestone is paid (\<^verbatim>\<open>lib.rs\<close>): several confirmations in one call (lines 11316
  to 11502), the automatic confirmation anybody may claim (14303 to 14547), the graded confirmation
  (22296 to 22403) and the confirmation of delivered quantities (22433 to 22607); also the list of
  confirmation webhooks, whose calls cannot change the contract's state.
\<close>

section \<open>Webhooks\<close>

definition add_confirmation_webhook :: "settle_env \<Rightarrow> addr \<Rightarrow> addr \<Rightarrow> settle \<Rightarrow> settle res" where
  "add_confirmation_webhook e adm a s =
     bindE (as_admin e adm s) (\<lambda>_.
     let hooks = get_or [] (k_confirmation_webhooks s)
     in if a \<in> set hooks then Inr s
        else
        bindE (append_admin_action e ''add_webhook'' ''webhook_added''
                 (s\<lparr>k_confirmation_webhooks := Some (hooks @ [a])\<rparr>)) (\<lambda>s1.
        Inr (emit [VStr ''webhook_added''] [VAddr adm, VAddr a, VNat (sequence e)] s1)))"

definition remove_confirmation_webhook :: "settle_env \<Rightarrow> addr \<Rightarrow> addr \<Rightarrow> settle \<Rightarrow> settle res" where
  "remove_confirmation_webhook e adm a s =
     bindE (as_admin e adm s) (\<lambda>_.
     bindE (append_admin_action e ''remove_webhook'' ''webhook_removed''
              (s\<lparr>k_confirmation_webhooks :=
                   Some (filter (\<lambda>x. x \<noteq> a) (get_or [] (k_confirmation_webhooks s)))\<rparr>)) (\<lambda>s1.
     Inr (emit [VStr ''webhook_removed''] [VAddr adm, VAddr a, VNat (sequence e)] s1)))"

definition get_confirmation_webhooks :: "settle \<Rightarrow> addr list" where
  "get_confirmation_webhooks s = get_or [] (k_confirmation_webhooks s)"

section \<open>Several confirmations in one call\<close>

text \<open>All indices are checked against the stored shipment before any of them is paid.\<close>

definition batch_index_ok :: "settle_env \<Rightarrow> settle \<Rightarrow> sid \<Rightarrow> shipment \<Rightarrow> nat \<Rightarrow> unit res" where
  "batch_index_ok e s i sh j =
     bindE (expect (vec_get (sh_milestones sh) j) ''invalid milestone index'') (\<lambda>m.
     bindE (ensure (ms_status m = ProofSubmitted) ''milestone proof not yet submitted'') (\<lambda>_.
     let cooldown = get_confirmation_cooldown_internal s i
     in if 0 < cooldown \<and> \<not> is_fast_track_eligible_internal s (sh_supplier sh)
        then bindE (ck_u32 (get_or 0 (ms_proof_submitted_ledger m) + cooldown)) (\<lambda>t.
             ensure (t \<le> sequence e) ''confirmation cooldown not elapsed'')
        else Inr ()))"

definition batch_pay ::
  "settle_env \<Rightarrow> sid \<Rightarrow> nat \<Rightarrow> shipment \<Rightarrow> int \<Rightarrow> int \<Rightarrow> int \<Rightarrow> settle \<Rightarrow> settle res" where
  "batch_pay e i j sh payment net advance s =
     bindE (ck_i128 (net - advance)) (\<lambda>actual0.
     bindE (pay_referral e sh actual0 s) (\<lambda>(s1, actual).
     bindE (whenE (0 < actual) (pay_milestone_to_payees e i j actual (sh_supplier sh) (sh_token sh)) s1) (\<lambda>s2.
     bindE (vec_get_unwrap (sh_buyers sh) 0) (\<lambda>primary.
     record_release_counters (sh_supplier sh) primary (sh_token sh) payment actual s2))))"

definition batch_confirm_one ::
  "settle_env \<Rightarrow> sid \<Rightarrow> nat \<Rightarrow> settle \<times> shipment \<Rightarrow> (settle \<times> shipment) res" where
  "batch_confirm_one e i j = (\<lambda>(s, sh).
     bindE (vec_get_unwrap (sh_milestones sh) j) (\<lambda>m.
     let m1 = m\<lparr>ms_status := Confirmed\<rparr>;
         sh1 = (set_milestone j m1 sh)\<lparr>sh_last_confirmed_milestone_index := Some j\<rparr>
     in
     bindE (release_milestone_collateral_share e sh1 i j (record_milestone_timeliness (sh_supplier sh) m1 s)) (\<lambda>s1.
     bindE (milestone_gross_payment s1 sh1 j) (\<lambda>payment.
     bindE (consume_advance_for_milestone sh1 i j s1) (\<lambda>(s2, sh2, advance).
     bindE (deduct_fee e payment (sh_token sh2) s2) (\<lambda>(s3, net, fee).
     bindE (track_shipment_fees_paid i fee s3) (\<lambda>s4.
     bindE (check_circuit_breaker (sequence e) payment s4) (\<lambda>s5.
     bindE (check_address_outflow (sh_supplier sh2) (sequence e) payment s5) (\<lambda>s6.
     bindE (ck_i128 (sh_released_amount sh2 + payment)) (\<lambda>released.
     let sh3 = sh2\<lparr>sh_released_amount := released\<rparr>
     in
     bindE (batch_pay e i j sh3 payment net advance s6) (\<lambda>s7.
     bindE (ck_i128 (payment - advance)) (\<lambda>net_outflow.
     bindE (decrease_total_escrowed (sh_token sh3) net_outflow s7) (\<lambda>s8.
     bindE (ck_i128 (sh_total_amount sh3 - released)) (\<lambda>remaining.
     Inr (emit [VStr ''chainsettle'', VStr ''milestone_confirmed''] [VStr i, VNat j, VInt payment]
            (emit [VStr ''milestone_confirmed'', VStr i]
               [VNat j, VInt payment, VInt fee, VAddr (sh_supplier sh3), VNat (sequence e),
                VInt released, VInt remaining] s8), sh3)))))))))))))))"

definition batch_complete :: "settle_env \<Rightarrow> sid \<Rightarrow> shipment \<Rightarrow> settle \<Rightarrow> (settle \<times> shipment) res" where
  "batch_complete e i sh s =
     (if \<not> all_milestones_done sh then Inr (s, sh)
      else
      let sh1 = sh\<lparr>sh_status := Completed\<rparr>
      in bindE (book_completion e i sh1 (get_or contract_stats_zero (k_contract_stats s)) s) (\<lambda>s1.
         settle_on_completion e i sh1 s1))"

definition batch_confirm_milestones :: "settle_env \<Rightarrow> addr \<Rightarrow> sid \<Rightarrow> nat list \<Rightarrow> settle \<Rightarrow> settle res" where
  "batch_confirm_milestones e buyer i js s =
     bindE (assert_not_paused s) (\<lambda>_.
     bindE (require_auth e buyer) (\<lambda>_.
     if js = [] then Inr s
     else
     bindE (get_shipment_internal s i) (\<lambda>sh.
     bindE (assert_active sh) (\<lambda>_.
     bindE (assert_is_buyer sh buyer) (\<lambda>_.
     bindE (assert_shipment_not_paused s i) (\<lambda>_.
     bindE (foldE (\<lambda>j _. batch_index_ok e s i sh j) js ()) (\<lambda>_.
     bindE (foldE (batch_confirm_one e i) js (s, sh)) (\<lambda>(s1, sh1).
     bindE (batch_complete e i sh1 s1) (\<lambda>(s2, sh2).
     Inr (s2\<lparr>k_shipment := (k_shipment s2)(i \<mapsto> sh2)\<rparr>))))))))))"

section \<open>Automatic confirmation\<close>

definition auto_window_over :: "settle_env \<Rightarrow> settle \<Rightarrow> shipment \<Rightarrow> milestone \<Rightarrow> unit res" where
  "auto_window_over e s sh m =
     (case ms_proof_submitted_ledger m of
        None \<Rightarrow> Inl (Panic ''proof_submitted_ledger not set'')
      | Some p \<Rightarrow> bindE (ck_u32 (p + get_effective_auto_confirm_window s sh)) (\<lambda>t.
          ensure (t \<le> sequence e) ''auto-confirmation window has not expired''))"

definition auto_pay ::
  "settle_env \<Rightarrow> sid \<Rightarrow> nat \<Rightarrow> shipment \<Rightarrow> nat \<Rightarrow> int \<Rightarrow> int \<Rightarrow> int \<Rightarrow> int \<Rightarrow> settle \<Rightarrow> (settle \<times> shipment) res" where
  "auto_pay e i j sh deadline payment net advance penalty s =
     bindE (ck_i128 (net - advance)) (\<lambda>actual0.
     bindE (pay_logistics e sh payment actual0 s) (\<lambda>(s1, actual1).
     bindE (pay_early_bonus e sh deadline s1) (\<lambda>(s2, sh1, _).
     bindE (pay_referral e sh1 actual1 s2) (\<lambda>(s3, actual).
     bindE (whenE (0 < actual) (pay_milestone_to_payees e i j actual (sh_supplier sh1) (sh_token sh1)) s3) (\<lambda>s4.
     bindE (vec_get_unwrap (sh_buyers sh1) 0) (\<lambda>primary.
     bindE (record_release_counters (sh_supplier sh1) primary (sh_token sh1) payment actual s4) (\<lambda>s5.
     bindE (whenE (0 < penalty) (token_pay e (sh_token sh1) (this e) primary penalty) s5) (\<lambda>s6.
     Inr (s6, sh1)))))))))"

text \<open>Unlike the other completions this one leaves the reputation of the supplier alone.\<close>

definition auto_complete :: "settle_env \<Rightarrow> sid \<Rightarrow> shipment \<Rightarrow> settle \<Rightarrow> (settle \<times> shipment) res" where
  "auto_complete e i sh s =
     (if \<not> all_milestones_done sh then Inr (s, sh)
      else
      bindE (return_early_bonus e sh s) (\<lambda>(s1, sh1).
      let sh2 = sh1\<lparr>sh_status := Completed\<rparr>; stats = get_or contract_stats_zero (k_contract_stats s1)
      in bindE (ck_u64 (cs_completed_shipments stats + 1)) (\<lambda>n.
         settle_on_completion e i sh2 (move_shipment_status_index Active Completed i
           (s1\<lparr>k_contract_stats := Some (stats\<lparr>cs_completed_shipments := n\<rparr>)\<rparr>)))))"

definition claim_auto_confirmation :: "settle_env \<Rightarrow> sid \<Rightarrow> nat \<Rightarrow> settle \<Rightarrow> settle res" where
  "claim_auto_confirmation e i j s =
     bindE (assert_operation_not_paused s ''claim'') (\<lambda>_.
     bindE (get_shipment_internal s i) (\<lambda>sh.
     bindE (assert_active sh) (\<lambda>_.
     bindE (expect (vec_get (sh_milestones sh) j) ''invalid milestone index'') (\<lambda>m.
     bindE (ensure (get_effective_auto_confirm_window s sh \<noteq> 0)
              ''auto-confirmation not enabled for this shipment'') (\<lambda>_.
     bindE (ensure (ms_status m = ProofSubmitted) ''milestone is not in ProofSubmitted status'') (\<lambda>_.
     bindE (auto_window_over e s sh m) (\<lambda>_.
     bindE (milestone_gross_payment s sh j) (\<lambda>gross.
     bindE (consume_advance_for_milestone sh i j s) (\<lambda>(s1, sh1, advance).
     bindE (late_penalty sh1 m gross) (\<lambda>penalty.
     bindE (ck_i128 (gross - penalty)) (\<lambda>payment.
     bindE (deduct_fee e payment (sh_token sh1) s1) (\<lambda>(s2, net, fee).
     bindE (check_circuit_breaker (sequence e) payment s2) (\<lambda>s3.
     bindE (check_address_outflow (sh_supplier sh1) (sequence e) payment s3) (\<lambda>s4.
     let m1 = m\<lparr>ms_status := Confirmed\<rparr>;
         sh2 = (append_audit_entry e (this e) ''auto_confirmed'' ''claim_auto_confirmation'' sh1)
                 \<lparr>sh_last_confirmed_milestone_index := Some j\<rparr>
     in
     bindE (release_milestone_collateral_share e sh2 i j (record_milestone_timeliness (sh_supplier sh1) m1 s4)) (\<lambda>s5.
     bindE (ck_i128 (sh_released_amount sh2 + payment)) (\<lambda>released.
     let sh3 = (set_milestone j (m1\<lparr>ms_proof_submitted_ledger := None\<rparr>) sh2)\<lparr>sh_released_amount := released\<rparr>
     in
     bindE (auto_pay e i j sh3 (ms_deadline_ledger m) payment net advance penalty s5) (\<lambda>(s6, sh4).
     bindE (auto_complete e i sh4 s6) (\<lambda>(s7, sh5).
     bindE (ck_i128 (payment - advance)) (\<lambda>net_outflow.
     bindE (close_release i sh5 net_outflow s7) (\<lambda>s8.
     Inr (emit [VStr ''chainsettle'', VStr ''milestone_confirmed''] [VStr i, VNat j, VInt payment]
            (emit [VStr ''auto_confirmation_claimed'', VStr i]
               [VNat j, VInt payment, VInt fee, VInt penalty] s8))))))))))))))))))))))"

section \<open>Graded confirmation\<close>

definition get_quality_grades :: "settle \<Rightarrow> sid \<Rightarrow> nat list" where
  "get_quality_grades s i = get_or [] (k_quality_grades s i)"

definition get_milestone_grade :: "settle \<Rightarrow> sid \<Rightarrow> nat \<Rightarrow> nat option" where
  "get_milestone_grade s i j = k_milestone_grade s (i, j)"

definition grade_review_window :: "settle \<Rightarrow> shipment \<Rightarrow> nat" where
  "grade_review_window s sh =
     (let w = max (sh_holdback_ledgers sh) (get_effective_auto_confirm_window s sh)
      in if w = 0 then DEFAULT_GRADE_REVIEW_WINDOW_LEDGERS else w)"

definition record_milestone_grade ::
  "settle_env \<Rightarrow> sid \<Rightarrow> nat \<Rightarrow> addr \<Rightarrow> nat \<Rightarrow> nat \<Rightarrow> int \<Rightarrow> int \<Rightarrow> nat \<Rightarrow> shipment \<Rightarrow> settle \<Rightarrow> settle" where
  "record_milestone_grade e i j buyer grade bps payout refund rel sh s =
     emit [VStr ''milestone_graded'', VStr i] [VNat j, VNat grade, VNat bps, VInt payout, VInt refund, VNat rel]
       (s\<lparr>k_milestone_grade := (k_milestone_grade s)((i, j) \<mapsto> grade),
          k_shipment := (k_shipment s)(i \<mapsto>
            append_audit_entry e buyer ''milestone_graded'' ''confirm_milestone_graded'' sh)\<rparr>)"

definition grade_low ::
  "settle_env \<Rightarrow> addr \<Rightarrow> sid \<Rightarrow> nat \<Rightarrow> nat \<Rightarrow> nat \<Rightarrow> int \<Rightarrow> shipment \<Rightarrow> settle \<Rightarrow> settle res" where
  "grade_low e buyer i j grade bps gross sh s =
     bindE (require_auth e buyer) (\<lambda>_.
     bindE (vec_get_unwrap (sh_milestones sh) j) (\<lambda>m.
     bindE (ensure (ms_status m = ProofSubmitted) ''milestone proof not yet submitted'') (\<lambda>_.
     bindE (assert_manual_confirmation_allowed e s sh i j m) (\<lambda>_.
     bindE (ensure (\<not> joint_confirmation_required s sh)
              ''graded confirmation unavailable for joint-confirmation shipments'') (\<lambda>_.
     bindE (assert_no_approved_advance s i j) (\<lambda>_.
     bindE (mul_div gross bps 10000) (\<lambda>payout.
     bindE (ck_i128 (gross - payout)) (\<lambda>refund.
     bindE (ck_u32 (sequence e + grade_review_window s sh)) (\<lambda>rel.
     let m1 = m\<lparr>ms_status := ConfirmedHeld, ms_release_after_ledger := rel\<rparr>;
         sh1 = set_milestone j m1 sh;
         s1 = record_milestone_timeliness (sh_supplier sh1) m1 s
     in Inr (record_milestone_grade e i j buyer grade bps payout refund rel sh1
               (s1\<lparr>k_pending_grade := (k_pending_grade s1)((i, j) \<mapsto> (grade, bps))\<rparr>)))))))))))"

definition confirm_milestone_graded :: "settle_env \<Rightarrow> addr \<Rightarrow> sid \<Rightarrow> nat \<Rightarrow> nat \<Rightarrow> settle \<Rightarrow> settle res" where
  "confirm_milestone_graded e buyer i j grade s =
     bindE (assert_operation_not_paused s ''confirm'') (\<lambda>_.
     bindE (get_shipment_internal s i) (\<lambda>sh.
     bindE (assert_active sh) (\<lambda>_.
     bindE (assert_shipment_not_on_hold s i) (\<lambda>_.
     bindE (ensure (is_buyer sh buyer) ''unauthorized'') (\<lambda>_.
     bindE (ensure (j < length (sh_milestones sh)) ''invalid milestone index'') (\<lambda>_.
     let grades = get_or [] (k_quality_grades s i)
     in
     bindE (ensure (grades \<noteq> []) ''quality grades not configured'') (\<lambda>_.
     bindE (expect (vec_get grades grade) ''invalid grade index'') (\<lambda>bps.
     bindE (milestone_gross_payment s sh j) (\<lambda>gross.
     if bps = 10000
     then bindE (confirm_milestone e buyer i j s) (\<lambda>s1.
          bindE (get_shipment_internal s1 i) (\<lambda>sh1.
          Inr (record_milestone_grade e i j buyer grade bps gross 0 0 sh1 s1)))
     else grade_low e buyer i j grade bps gross sh s)))))))))"

section \<open>Delivered quantities\<close>

definition expected_quantity :: "settle \<Rightarrow> sid \<Rightarrow> nat \<Rightarrow> nat" where
  "expected_quantity s i j =
     get_or 0 (case k_milestone_quantities s i of None \<Rightarrow> None | Some q \<Rightarrow> vec_get q j)"

definition get_delivered_quantity :: "settle \<Rightarrow> sid \<Rightarrow> nat \<Rightarrow> nat \<times> nat" where
  "get_delivered_quantity s i j = (get_or 0 (k_delivered_quantity s (i, j)), expected_quantity s i j)"

definition emit_partial_quantity_confirmed ::
  "sid \<Rightarrow> nat \<Rightarrow> nat \<times> nat \<times> nat \<Rightarrow> int \<Rightarrow> int \<Rightarrow> settle \<Rightarrow> settle" where
  "emit_partial_quantity_confirmed i j = (\<lambda>(delivered, cumulative, expected) released fee.
     emit [VStr ''partial_quantity_confirmed'', VStr i]
       [VNat j, VNat delivered, VNat cumulative, VNat expected, VInt released, VInt fee])"

text \<open>The payment of one delivery: fee, limiters, logistics, payees.\<close>

definition pay_delivery ::
  "settle_env \<Rightarrow> sid \<Rightarrow> nat \<Rightarrow> int \<Rightarrow> shipment \<Rightarrow> settle \<Rightarrow> (settle \<times> shipment \<times> int) res" where
  "pay_delivery e i j release sh s =
     (if release \<le> 0 then Inr (s, sh, 0)
      else
      bindE (vec_get_unwrap (sh_buyers sh) 0) (\<lambda>primary.
      bindE (deduct_fee_for_shipment_at_completion e release (sh_token sh) i primary False s) (\<lambda>(s1, net, fee, _).
      bindE (check_circuit_breaker (sequence e) release s1) (\<lambda>s2.
      bindE (check_address_outflow (sh_supplier sh) (sequence e) release s2) (\<lambda>s3.
      bindE (pay_logistics e sh release net s3) (\<lambda>(s4, actual).
      bindE (ck_i128 (sh_released_amount sh + release)) (\<lambda>released.
      bindE (decrease_total_escrowed (sh_token sh) release s4) (\<lambda>s5.
      bindE (pay_milestone_to_payees e i j actual (sh_supplier sh) (sh_token sh) s5) (\<lambda>s6.
      Inr (s6, sh\<lparr>sh_released_amount := released\<rparr>, fee))))))))))"

definition partial_audit :: "settle_env \<Rightarrow> addr \<Rightarrow> sid \<Rightarrow> shipment \<Rightarrow> settle \<Rightarrow> settle" where
  "partial_audit e buyer i sh s =
     s\<lparr>k_shipment := (k_shipment s)(i \<mapsto>
        append_audit_entry e buyer ''partial_qty_confirmed'' ''confirm_partial_quantity'' sh)\<rparr>"

text \<open>The last units release the rest through the ordinary confirmation, the others their share.\<close>

definition partial_pay ::
  "settle_env \<Rightarrow> addr \<Rightarrow> sid \<Rightarrow> nat \<Rightarrow> nat \<Rightarrow> nat \<Rightarrow> nat \<Rightarrow> shipment \<Rightarrow> settle \<Rightarrow> settle res" where
  "partial_pay e buyer i j qty cumulative expected sh s =
     bindE (milestone_full_gross_payment s sh j) (\<lambda>full.
     let before = get_or 0 (k_partial_qty_released s (i, j));
         s1 = s\<lparr>k_delivered_quantity := (k_delivered_quantity s)((i, j) \<mapsto> cumulative)\<rparr>
     in
     if cumulative = expected
     then bindE (ck_i128 (full - before)) (\<lambda>release.
          bindE (confirm_milestone e buyer i j s1) (\<lambda>s2.
          bindE (get_shipment_internal s2 i) (\<lambda>sh1.
          Inr (emit_partial_quantity_confirmed i j (qty, cumulative, expected) release 0
                 (partial_audit e buyer i sh1 s2)))))
     else
     bindE (require_auth e buyer) (\<lambda>_.
     bindE (mul_div full cumulative (int expected)) (\<lambda>target.
     bindE (ck_i128 (target - before)) (\<lambda>release.
     bindE (pay_delivery e i j release sh
              (s1\<lparr>k_partial_qty_released := (k_partial_qty_released s1)((i, j) \<mapsto> target)\<rparr>)) (\<lambda>(s2, sh1, fee).
     Inr (emit_partial_quantity_confirmed i j (qty, cumulative, expected) release fee
            (partial_audit e buyer i sh1 s2)))))))"

definition confirm_partial_quantity :: "settle_env \<Rightarrow> addr \<Rightarrow> sid \<Rightarrow> nat \<Rightarrow> nat \<Rightarrow> settle \<Rightarrow> settle res" where
  "confirm_partial_quantity e buyer i j qty s =
     bindE (assert_not_paused s) (\<lambda>_.
     bindE (ensure (qty \<noteq> 0) ''delivered quantity must be positive'') (\<lambda>_.
     bindE (get_shipment_internal s i) (\<lambda>sh.
     bindE (assert_active sh) (\<lambda>_.
     bindE (assert_shipment_not_on_hold s i) (\<lambda>_.
     bindE (ensure (is_buyer sh buyer) ''unauthorized'') (\<lambda>_.
     bindE (expect (vec_get (sh_milestones sh) j) ''invalid milestone index'') (\<lambda>m.
     let expected = expected_quantity s i j
     in
     bindE (ensure (expected \<noteq> 0) ''milestone is not quantity-based'') (\<lambda>_.
     bindE (ensure (ms_status m = ProofSubmitted) ''milestone proof not yet submitted'') (\<lambda>_.
     bindE (ensure (sh_holdback_ledgers sh = 0) ''quantity confirmation unavailable with holdback'') (\<lambda>_.
     bindE (ensure (\<not> joint_confirmation_required s sh)
              ''quantity confirmation unavailable for joint-confirmation shipments'') (\<lambda>_.
     bindE (assert_no_approved_advance s i j) (\<lambda>_.
     bindE (assert_manual_confirmation_allowed e s sh i j m) (\<lambda>_.
     let previous = get_or 0 (k_delivered_quantity s (i, j))
     in
     bindE (ck_sub expected previous) (\<lambda>left.
     bindE (ensure (qty \<le> left) ''delivered quantity exceeds remaining quantity'') (\<lambda>_.
     bindE (ck_u32 (previous + qty)) (\<lambda>cumulative.
     partial_pay e buyer i j qty cumulative expected sh s))))))))))))))))"

lemmas settlebulk_eval [eval_defs] =
  batch_index_ok_def batch_pay_def batch_confirm_one_def batch_complete_def auto_window_over_def auto_pay_def
  auto_complete_def grade_review_window_def record_milestone_grade_def grade_low_def expected_quantity_def
  emit_partial_quantity_confirmed_def pay_delivery_def partial_audit_def partial_pay_def

end
