(* ===== verification/SettleRecover.thy ===== *)
theory SettleRecover
  imports SettleCancel
begin

text \<open>
  The ways out of a shipment that nobody completes (\<^verbatim>\<open>lib.rs\<close>): the refund after a missed
  deadline (lines 16046 to 16157) and its sweep to the treasury (16167 to 16374), the cancellation
  for a blacklisted supplier (4410 to 4502), the administrator's recovery (14608 to 14684 and 17820
  to 17961); and the parameter changes behind the time lock (17088 to 17190).
\<close>

section \<open>Deadline refunds\<close>

text \<open>What a claim, its announcement and its sweep all require of the milestone.\<close>

definition deadline_missed :: "settle_env \<Rightarrow> settle \<Rightarrow> sid \<Rightarrow> shipment \<Rightarrow> nat \<Rightarrow> unit res" where
  "deadline_missed e s i sh j =
     bindE (ensure (j < length (sh_milestones sh)) ''invalid milestone index'') (\<lambda>_.
     bindE (expect (vec_get (get_or [] (k_timestamp_deadlines s i)) j)
              ''no timestamp deadline set for this milestone'') (\<lambda>deadline.
     bindE (ensure (deadline \<noteq> 0) ''no timestamp deadline set for this milestone'') (\<lambda>_.
     bindE (ensure (deadline < timestamp e) ''DeadlineNotReached'') (\<lambda>_.
     bindE (vec_get_unwrap (sh_milestones sh) j) (\<lambda>m.
     ensure (\<not> done_status (ms_status m)) ''milestone already confirmed or resolved'')))))"

text \<open>The refund and the collateral, both to the given account.\<close>

definition pay_expired ::
  "settle_env \<Rightarrow> sid \<Rightarrow> shipment \<Rightarrow> addr \<Rightarrow> int \<Rightarrow> settle \<Rightarrow> settle res" where
  "pay_expired e i sh dst refund s =
     bindE (whenE (0 < refund) (token_pay e (sh_token sh) (this e) dst refund) s) (\<lambda>s1.
     let collateral = get_or 0 (k_supplier_collateral s1 i)
     in whenE (0 < collateral) (token_pay e (sh_token sh) (this e) dst collateral) s1)"

definition expire_shipment ::
  "settle_env \<Rightarrow> sid \<Rightarrow> addr \<Rightarrow> addr \<Rightarrow> int \<Rightarrow> shipment \<Rightarrow> settle \<Rightarrow> (settle \<times> shipment) res" where
  "expire_shipment e i caller dst refund sh s =
     bindE (pay_expired e i sh dst refund s) (\<lambda>s1.
     bindE (decrease_total_escrowed (sh_token sh) refund s1) (\<lambda>s2.
     bindE (refund_holdbacks_on_cancel e i caller sh (move_shipment_status_index Active Expired i s2)) (\<lambda>(s3, sh1).
     let sh2 = sh1\<lparr>sh_status := Expired, sh_cancellation_reason := [DeadlineRefund]\<rparr>
     in Inr (increment_reputation_internal e (sh_supplier sh2) 0 0 1 s3, sh2))))"

definition claim_deadline_refund :: "settle_env \<Rightarrow> addr \<Rightarrow> sid \<Rightarrow> nat \<Rightarrow> settle \<Rightarrow> settle res" where
  "claim_deadline_refund e buyer i j s =
     bindE (assert_operation_not_paused s ''claim'') (\<lambda>_.
     bindE (get_shipment_internal s i) (\<lambda>sh.
     bindE (assert_active sh) (\<lambda>_.
     bindE (require_buyer_auth e sh buyer) (\<lambda>_.
     bindE (deadline_missed e s i sh j) (\<lambda>_.
     bindE (unreleased_of sh) (\<lambda>refund.
     bindE (vec_get_unwrap (sh_buyers sh) 0) (\<lambda>primary.
     bindE (expire_shipment e i buyer primary refund sh s) (\<lambda>(s1, sh1).
     Inr (emit_shipment_cancelled i refund DeadlineRefund
            (emit [VStr ''milestone_expired'', VStr i] [VNat j, VInt refund, VAddr primary]
               (s1\<lparr>k_shipment := (k_shipment s1)(i \<mapsto> sh1)\<rparr>)))))))))))"

definition set_refund_sweep_window :: "settle_env \<Rightarrow> addr \<Rightarrow> nat \<Rightarrow> settle \<Rightarrow> settle res" where
  "set_refund_sweep_window e adm n =
     admin_set e adm ''refund_sweep_window_set'' [VNat n] (\<lambda>s. s\<lparr>k_refund_sweep_window := Some n\<rparr>)"

definition get_refund_sweep_window :: "settle \<Rightarrow> nat" where
  "get_refund_sweep_window s = get_or 0 (k_refund_sweep_window s)"

definition mark_refund_claimable :: "settle_env \<Rightarrow> sid \<Rightarrow> nat \<Rightarrow> settle \<Rightarrow> settle res" where
  "mark_refund_claimable e i j s =
     bindE (assert_not_paused s) (\<lambda>_.
     bindE (get_shipment_internal s i) (\<lambda>sh.
     bindE (assert_active sh) (\<lambda>_.
     bindE (deadline_missed e s i sh j) (\<lambda>_.
     if k_refund_claimable_at s (i, j) \<noteq> None then Inr s
     else Inr (s\<lparr>k_refund_claimable_at := (k_refund_claimable_at s)((i, j) \<mapsto> sequence e)\<rparr>)))))"

definition sweep_unclaimed_refund :: "settle_env \<Rightarrow> addr \<Rightarrow> sid \<Rightarrow> nat \<Rightarrow> settle \<Rightarrow> settle res" where
  "sweep_unclaimed_refund e adm i j s =
     bindE (assert_not_paused s) (\<lambda>_.
     bindE (as_admin e adm s) (\<lambda>_.
     let window = get_or 0 (k_refund_sweep_window s)
     in
     bindE (ensure (window \<noteq> 0) ''unclaimed refund sweeping is not enabled'') (\<lambda>_.
     bindE (expect (k_fee_config s) ''no treasury configured (call set_fee_config first)'') (\<lambda>cfg.
     bindE (get_shipment_internal s i) (\<lambda>sh.
     bindE (assert_active sh) (\<lambda>_.
     bindE (deadline_missed e s i sh j) (\<lambda>_.
     bindE (expect (k_refund_claimable_at s (i, j)) ''call mark_refund_claimable first'') (\<lambda>since.
     bindE (ck_u32 (since + window)) (\<lambda>t.
     bindE (ensure (t \<le> sequence e) ''sweep window has not elapsed'') (\<lambda>_.
     bindE (unreleased_of sh) (\<lambda>refund.
     bindE (expire_shipment e i adm (fc_treasury cfg) refund sh s) (\<lambda>(s1, sh1).
     bindE (append_admin_action e ''sweep_unclaimed_refund'' ''unclaimed_refund_swept''
              (s1\<lparr>k_refund_claimable_at := (k_refund_claimable_at s1)((i, j) := None),
                  k_shipment := (k_shipment s1)(i \<mapsto> sh1)\<rparr>)) (\<lambda>s2.
     Inr (emit_shipment_cancelled i refund DeadlineRefund
            (emit [VStr ''unclaimed_refund_swept'', VStr i]
               [VNat j, VInt refund, VAddr (fc_treasury cfg)] s2)))))))))))))))"

section \<open>A blacklisted supplier\<close>

definition cancel_for_blacklisted_supplier :: "settle_env \<Rightarrow> addr \<Rightarrow> sid \<Rightarrow> settle \<Rightarrow> settle res" where
  "cancel_for_blacklisted_supplier e buyer i s =
     bindE (assert_not_paused s) (\<lambda>_.
     bindE (require_auth e buyer) (\<lambda>_.
     bindE (get_shipment_internal s i) (\<lambda>sh.
     bindE (assert_active sh) (\<lambda>_.
     bindE (assert_is_buyer sh buyer) (\<lambda>_.
     bindE (assert_shipment_not_on_hold s i) (\<lambda>_.
     bindE (ensure (is_blacklisted s (sh_supplier sh)) ''supplier is not blacklisted'') (\<lambda>_.
     bindE (unreleased_of sh) (\<lambda>unreleased.
     bindE (cancel_pay e i sh 0 unreleased s) (\<lambda>s1.
     bindE (refund_holdbacks_on_cancel e i buyer sh s1) (\<lambda>(s2, sh1).
     let sh2 = append_audit_entry e buyer ''shipment_cancelled'' ''cancel_blacklisted''
                 (sh1\<lparr>sh_status := Cancelled, sh_cancellation_reason := [BlacklistedSupplier]\<rparr>);
         s3 = (move_shipment_status_index Active Cancelled i s2)
     in
     bindE (decrease_total_escrowed (sh_token sh2) unreleased
              (s3\<lparr>k_shipment := (k_shipment s3)(i \<mapsto> sh2)\<rparr>)) (\<lambda>s4.
     Inr (emit_shipment_cancelled i unreleased BlacklistedSupplier
            (emit [VStr ''shipment_cancelled'', VStr i]
               [VInt unreleased, VInt 0, VAddr buyer, VNat (sequence e)] s4)))))))))))))"

section \<open>Recovery by the administrator\<close>

definition recovery_due :: "settle_env \<Rightarrow> shipment \<Rightarrow> unit res" where
  "recovery_due e sh =
     bindE (ck_u32 (sh_created_at sh + RECOVERY_THRESHOLD_LEDGERS)) (\<lambda>t.
     ensure (t < sequence e) ''recovery threshold not reached'')"

definition do_emergency_recover :: "settle_env \<Rightarrow> addr \<Rightarrow> sid \<Rightarrow> settle \<Rightarrow> settle res" where
  "do_emergency_recover e adm i s =
     bindE (get_shipment_internal s i) (\<lambda>sh.
     bindE (assert_active sh) (\<lambda>_.
     bindE (recovery_due e sh) (\<lambda>_.
     bindE (unreleased_of sh) (\<lambda>amount.
     bindE (whenE (0 < amount) (token_pay e (sh_token sh) (this e) adm amount) s) (\<lambda>s1.
     bindE (refund_holdbacks_on_cancel e i adm sh (move_shipment_status_index Active Cancelled i s1)) (\<lambda>(s2, sh1).
     let sh2 = append_audit_entry e adm ''shipment_cancelled'' ''cancel_shipment''
                 (sh1\<lparr>sh_status := Cancelled, sh_cancellation_reason := [AdminEmergencyRecovery]\<rparr>)
     in
     bindE (decrease_total_escrowed (sh_token sh2) amount
              (s2\<lparr>k_shipment := (k_shipment s2)(i \<mapsto> sh2)\<rparr>)) (\<lambda>s3.
     Inr (emit_shipment_cancelled i amount AdminEmergencyRecovery
            (emit [VStr ''emergency_recovery'', VStr i] [VInt amount, VAddr adm] s3)))))))))"

definition emergency_recover :: "settle_env \<Rightarrow> addr \<Rightarrow> sid \<Rightarrow> settle \<Rightarrow> settle res" where
  "emergency_recover e adm i s =
     bindE (assert_not_paused s) (\<lambda>_.
     bindE (as_admin e adm s) (\<lambda>_. do_emergency_recover e adm i s))"

definition set_recovery_delay :: "settle_env \<Rightarrow> addr \<Rightarrow> nat \<Rightarrow> settle \<Rightarrow> settle res" where
  "set_recovery_delay e adm n s =
     bindE (as_admin e adm s) (\<lambda>_.
     bindE (append_admin_action e ''set_recovery_delay'' ''recovery_delay_updated''
              (s\<lparr>k_recovery_delay := Some n\<rparr>)) (\<lambda>s1.
     Inr (emit [VStr ''recovery_delay_updated''] [VAddr adm, VNat n, VNat (sequence e)] s1)))"

definition propose_emergency_recover :: "settle_env \<Rightarrow> addr \<Rightarrow> sid \<Rightarrow> settle \<Rightarrow> settle res" where
  "propose_emergency_recover e adm i s =
     bindE (assert_not_paused s) (\<lambda>_.
     bindE (as_admin e adm s) (\<lambda>_.
     bindE (get_shipment_internal s i) (\<lambda>sh.
     bindE (assert_active sh) (\<lambda>_.
     bindE (recovery_due e sh) (\<lambda>_.
     bindE (append_admin_action e ''propose_recovery'' ''recovery_proposed'' s) (\<lambda>s1.
     let delay = get_or 0 (k_recovery_delay s)
     in if delay = 0 then do_emergency_recover e adm i s1
        else
        bindE (ck_u32 (sequence e + delay)) (\<lambda>t.
        Inr (emit [VStr ''recovery_proposed'', VStr i] [VAddr adm, VNat t, VNat (sequence e)]
          (s1\<lparr>k_pending_recovery := (k_pending_recovery s1)(i \<mapsto>
               \<lparr>rc_effective_ledger = t, rc_proposed_by = adm\<rparr>)\<rparr>)))))))))"

definition execute_emergency_recover :: "settle_env \<Rightarrow> addr \<Rightarrow> sid \<Rightarrow> settle \<Rightarrow> settle res" where
  "execute_emergency_recover e adm i s =
     bindE (assert_not_paused s) (\<lambda>_.
     bindE (as_admin e adm s) (\<lambda>_.
     bindE (expect (k_pending_recovery s i) ''no pending recovery proposal for this shipment'') (\<lambda>p.
     bindE (ensure (rc_effective_ledger p \<le> sequence e) ''recovery delay has not elapsed'') (\<lambda>_.
     bindE (append_admin_action e ''execute_recovery'' ''recovery_executed''
              (s\<lparr>k_pending_recovery := (k_pending_recovery s)(i := None)\<rparr>)) (\<lambda>s1.
     do_emergency_recover e adm i s1)))))"

definition cancel_emergency_recover :: "settle_env \<Rightarrow> addr \<Rightarrow> sid \<Rightarrow> settle \<Rightarrow> settle res" where
  "cancel_emergency_recover e adm i s =
     bindE (assert_not_paused s) (\<lambda>_.
     bindE (as_admin e adm s) (\<lambda>_.
     bindE (ensure (k_pending_recovery s i \<noteq> None) ''no pending recovery proposal to cancel'') (\<lambda>_.
     bindE (append_admin_action e ''cancel_recovery'' ''recovery_cancelled''
              (s\<lparr>k_pending_recovery := (k_pending_recovery s)(i := None)\<rparr>)) (\<lambda>s1.
     Inr (emit [VStr ''recovery_cancelled'', VStr i] [VAddr adm, VNat (sequence e)] s1)))))"

definition get_pending_recovery :: "settle \<Rightarrow> sid \<Rightarrow> recovery_proposal option" where
  "get_pending_recovery s i = k_pending_recovery s i"

section \<open>Parameter changes behind the time lock\<close>

definition set_timelock_duration :: "settle_env \<Rightarrow> addr \<Rightarrow> nat \<Rightarrow> settle \<Rightarrow> settle res" where
  "set_timelock_duration e adm n =
     admin_set e adm ''timelock_duration_set'' [VNat n] (\<lambda>s. s\<lparr>k_timelock_duration := Some n\<rparr>)"

definition propose_param_change :: "settle_env \<Rightarrow> addr \<Rightarrow> sym \<Rightarrow> int \<Rightarrow> settle \<Rightarrow> settle res" where
  "propose_param_change e adm param v s =
     bindE (as_admin e adm s) (\<lambda>_.
     bindE (ck_u32 (sequence e + get_or 0 (k_timelock_duration s))) (\<lambda>t.
     bindE (append_admin_action e ''propose_param_change'' param
              (s\<lparr>k_pending_param_change := (k_pending_param_change s)(param \<mapsto> (v, t))\<rparr>)) (\<lambda>s1.
     Inr (emit [VStr ''param_change_proposed'', VStr param] [VInt v, VNat t] s1))))"

text \<open>The cast of the new fee to \<^verbatim>\<open>u32\<close> truncates.\<close>

definition apply_param :: "sym \<Rightarrow> int \<Rightarrow> settle \<Rightarrow> settle res" where
  "apply_param param v s =
     (if param = ''fee_config''
      then Inr (s\<lparr>k_fee_config := map_option (\<lambda>cfg. cfg\<lparr>fc_fee_bps := as_u32 v\<rparr>) (k_fee_config s)\<rparr>)
      else if param = ''max_shipment_value'' then Inr (s\<lparr>k_max_shipment_value := Some v\<rparr>)
      else if param = ''circuit_breaker_limit'' then Inr (s\<lparr>k_cb_limit := Some v\<rparr>)
      else Inl (Panic ''unsupported param''))"

definition execute_param_change :: "settle_env \<Rightarrow> addr \<Rightarrow> sym \<Rightarrow> settle \<Rightarrow> settle res" where
  "execute_param_change e adm param s =
     bindE (as_admin e adm s) (\<lambda>_.
     bindE (expect (k_pending_param_change s param) ''NoPendingParamChange'') (\<lambda>(v, t).
     bindE (ensure (t \<le> sequence e) ''TimelockNotExpired'') (\<lambda>_.
     bindE (apply_param param v
              (s\<lparr>k_pending_param_change := (k_pending_param_change s)(param := None)\<rparr>)) (\<lambda>s1.
     bindE (append_admin_action e ''execute_param_change'' param s1) (\<lambda>s2.
     Inr (emit [VStr ''param_change_executed'', VStr param] [VInt v] s2))))))"

definition cancel_param_change :: "settle_env \<Rightarrow> addr \<Rightarrow> sym \<Rightarrow> settle \<Rightarrow> settle res" where
  "cancel_param_change e adm param s =
     bindE (as_admin e adm s) (\<lambda>_.
     bindE (ensure (k_pending_param_change s param \<noteq> None) ''NoPendingParamChange'') (\<lambda>_.
     bindE (append_admin_action e ''cancel_param_change'' param
              (s\<lparr>k_pending_param_change := (k_pending_param_change s)(param := None)\<rparr>)) (\<lambda>s1.
     Inr (emit [VStr ''param_change_cancelled''] [VStr param] s1))))"

lemmas settlerecover_eval [eval_defs] =
  deadline_missed_def pay_expired_def expire_shipment_def recovery_due_def do_emergency_recover_def apply_param_def

end
