(* ===== verification/SettleLife.thy ===== *)
theory SettleLife
  imports SettleBooks SettleBirth SettleProof SettleAdvance SettleBulk SettleRecover
begin

text \<open>
  The whole life of a shipment as a step relation: creation, proofs, every way to confirm, advances,
  disputes, cancellation, refunds and recovery. \<open>calm\<close> says what every call outside the dispute desk
  does to the books of the disputes; with the steps of \<open>SettleBooks\<close> this gives the invariant from the
  empty storage on.
\<close>

section \<open>Helpers of a confirmation\<close>

lemma aside_collateral [asides]: "release_milestone_collateral_share e sh i j s = Inr t \<Longrightarrow> aside s t"
  by (auto simp: release_milestone_collateral_share_def aside_solve split: if_splits)

lemma aside_logistics [asides]: "pay_logistics e sh p a s = Inr (t, r) \<Longrightarrow> aside s t"
  by (auto simp: pay_logistics_def aside_solve split: if_splits)

lemma aside_referral [asides]: "pay_referral e sh a s = Inr (t, r) \<Longrightarrow> aside s t"
  by (auto simp: pay_referral_def aside_solve split: if_splits option.splits)

lemma aside_early_bonus [asides]: "pay_early_bonus e sh d s = Inr (t, sh', b) \<Longrightarrow> aside s t"
  by (auto simp: pay_early_bonus_def aside_solve split: if_splits)

lemma aside_return_bonus [asides]: "return_early_bonus e sh s = Inr (t, sh') \<Longrightarrow> aside s t"
  by (auto simp: return_early_bonus_def aside_solve split: if_splits)

lemma aside_timeliness [asides]: "aside s (record_milestone_timeliness a m s)"
  by (auto simp: record_milestone_timeliness_def Let_def aside_def split: option.splits)

lemma aside_confirm_reliability [asides]: "aside s (update_buyer_reliability_on_confirmation e b n s)"
  by (simp add: update_buyer_reliability_on_confirmation_def Let_def aside_def)

lemma aside_payout_when [asides]: "whenE c (pay_milestone_to_payees e i j n a tok) s = Inr t \<Longrightarrow> aside s t"
  using aside_payout by (auto simp: whenE_Inr split: if_splits)

lemma aside_deduct_completion [asides]:
  assumes "deduct_fee_for_shipment_at_completion e gross tok i b fin s = Inr (t, net, fee, bps)"
  shows "aside s t"
proof -
  consider "t = s" | treasury u v where "token_pay e tok (this e) treasury fee s = Inr u"
      "track_treasury_revenue tok fee u = Inr v" "track_shipment_fees_paid i fee v = Inr t"
    using assms
    by (auto simp: deduct_fee_for_shipment_at_completion_def bindE_Inr ck_i128_Inr Let_def split: if_splits option.splits)
  then show ?thesis by cases (simp, blast intro: aside_trans aside_pay aside_revenue aside_fees_paid)
qed

lemma aside_confirm_deduct: "confirm_deduct e i j sh p s = Inr (t, sh', adv, net, fee, bps) \<Longrightarrow> aside s t"
  by (auto simp: confirm_deduct_def bindE_Inr split: prod.splits
      intro: aside_trans aside_advance aside_deduct_completion aside_breaker aside_outflow)
     (meson aside_trans aside_advance aside_deduct_completion aside_breaker aside_outflow)+

lemma aside_confirm_book:
  assumes "confirm_book e b cb i j sh m p s = Inr (t, sh')"
  shows "aside s t"
proof -
  let ?m = "m\<lparr>ms_status := Confirmed\<rparr>"
  let ?s1 = "if cb \<and> 0 < get_or 0 (ms_proof_submitted_ledger m)
     then update_buyer_reliability_on_confirmation e b (get_or 0 (ms_proof_submitted_ledger m)) s else s"
  obtain a sh2 s3 x where c: "release_milestone_collateral_share e sh2 i j (record_milestone_timeliness a ?m ?s1) = Inr s3"
    and t: "t = s3\<lparr>k_lifetime_volume := x\<rparr>"
    using assms by (auto simp: confirm_book_def Let_def bindE_Inr)
  have "aside s ?s1" using aside_confirm_reliability [of s] by simp
  moreover have "aside s3 t" by (simp add: t aside_def)
  ultimately show ?thesis using aside_collateral [OF c] aside_timeliness [of ?s1 a ?m] aside_trans by blast
qed

lemma aside_confirm_pay:
  assumes "confirm_pay e i j sh dl p net adv pen s = Inr (t, sh')"
  shows "aside s t"
proof -
  obtain s1 a1 s2 a s3 bonus s4 s5 primary where
    c: "pay_logistics e sh p (net - adv) s = Inr (s1, a1)"
       "pay_referral e sh a1 s1 = Inr (s2, a)" "pay_early_bonus e sh dl s2 = Inr (s3, sh', bonus)"
       "whenE (0 < a) (pay_milestone_to_payees e i j a (sh_supplier sh') (sh_token sh')) s3 = Inr s4"
       "record_release_counters (sh_supplier sh') primary (sh_token sh') p a s4 = Inr s5"
       "whenE (0 < pen) (token_pay e (sh_token sh') (this e) primary pen) s5 = Inr t"
    using assms by (auto simp: confirm_pay_def bindE_Inr ck_i128_Inr split: prod.splits)
  show ?thesis
    using aside_logistics [OF c(1)] aside_referral [OF c(2)] aside_early_bonus [OF c(3)] aside_payout_when [OF c(4)]
      aside_counters [OF c(5)] aside_pay_when [OF c(6)] by (simp add: aside_def)
qed

lemma aside_confirm_complete:
  assumes "confirm_complete e b i sh stats s = Inr (t, sh')"
  shows "aside s t"
proof (cases "all_milestones_done sh")
  case True
  let ?sh1 = "append_audit_entry e b ''shipment_completed'' ''confirm_milestone'' (sh\<lparr>sh_status := Completed\<rparr>)"
  obtain s1 sh2 s2 n s3 s4 where c: "return_early_bonus e ?sh1 s = Inr (s1, sh2)"
    "book_completion e i sh2 stats s1 = Inr s2"
    "whenE (0 < n) (token_pay e (sh_token sh2) (this e) (sh_supplier sh2) n) s2 = Inr s3"
    "aside s3 s4" "settle_on_completion e i sh2 s4 = Inr (t, sh')"
    using assms True
    by (auto simp: confirm_complete_def Let_def bindE_Inr split: if_splits) (metis aside_refl aside_emit)+
  show ?thesis
    using aside_return_bonus [OF c(1)] aside_book [OF c(2)] aside_pay_when [OF c(3)] c(4) aside_completion [OF c(5)]
    by (simp add: aside_def)
qed (use assms in \<open>simp add: confirm_complete_def\<close>)

lemma close_release_resolved: "close_release i sh n s = Inr t \<Longrightarrow> k_dispute_resolved_at t = k_dispute_resolved_at s"
  by (auto simp: close_release_def bindE_Inr)

lemma confirm_now_resolved:
  assumes "confirm_now e b cb i j sh m stats p pen s = Inr t"
  shows "k_dispute_resolved_at t = k_dispute_resolved_at s"
proof -
  obtain s1 sh1 adv net fee bps s2 sh2 s3 sh3 s4 sh4 s5 n where
    c: "confirm_deduct e i j sh p s = Inr (s1, sh1, adv, net, fee, bps)"
       "confirm_book e b cb i j sh1 m p s1 = Inr (s2, sh2)"
       "confirm_pay e i j sh2 (ms_deadline_ledger m) p net adv pen s2 = Inr (s3, sh3)"
       "confirm_complete e b i sh3 stats s3 = Inr (s4, sh4)" "close_release i sh4 n s4 = Inr s5"
    and t: "k_dispute_resolved_at t = k_dispute_resolved_at s5"
    using assms by (auto simp: confirm_now_def bindE_Inr split: prod.splits)
  show ?thesis
    using t close_release_resolved [OF c(5)] asideD(2) [OF aside_confirm_deduct [OF c(1)]]
      asideD(2) [OF aside_confirm_book [OF c(2)]] asideD(2) [OF aside_confirm_pay [OF c(3)]]
      asideD(2) [OF aside_confirm_complete [OF c(4)]] by simp
qed

lemma confirm_held_resolved:
  assumes "confirm_held e b i j sh m pen s = Inr t"
  shows "k_dispute_resolved_at t = k_dispute_resolved_at s"
proof -
  obtain a m1 sh1 d s2 sh2 bonus where "pay_early_bonus e sh1 d (record_milestone_timeliness a m1 s) = Inr (s2, sh2, bonus)"
    and t: "k_dispute_resolved_at t = k_dispute_resolved_at s2"
    using assms by (auto simp: confirm_held_def Let_def bindE_Inr split: prod.splits)
  then show ?thesis using asideD(2) [OF aside_early_bonus] asideD(2) [OF aside_timeliness] by metis
qed

lemma confirm_settle_resolved:
  assumes "confirm_settle e b cb i j sh m stats s = Inr t"
  shows "k_dispute_resolved_at t = k_dispute_resolved_at s"
proof -
  obtain p pen where "(if 0 < sh_holdback_ledgers sh then confirm_held e b i j sh m pen s
      else confirm_now e b cb i j sh m stats p pen s) = Inr t"
    using assms by (auto simp: confirm_settle_def bindE_Inr simp del: split_paired_Ex)
  then show ?thesis using confirm_held_resolved confirm_now_resolved by (metis (no_types))
qed

lemma confirm_resolved:
  assumes "confirm_milestone e b i j s = Inr t"
  shows "k_dispute_resolved_at t = k_dispute_resolved_at s"
proof -
  obtain sh cb acts co s1 go where g: "k_shipment s i = Some sh" "confirm_caller e s i sh b = Inr (cb, acts, co)"
    and s1: "(if joint_confirmation_required s sh then record_joint_confirmation i j b acts co s else (s, True)) = (s1, go)"
    and go: "(if \<not> go then Inr s1 else bindE (confirmation_timing e s1 i sh (sh_milestones sh ! j)) (\<lambda>_.
         confirm_settle e b cb i j sh (sh_milestones sh ! j) (get_or contract_stats_zero (k_contract_stats s)) s1)) = Inr t"
    using assms by (auto simp: confirm_milestone_def Let_def bindE_Inr get_shipment_Inr split: if_splits prod.splits)
  have t: "t = s1 \<or> confirm_settle e b cb i j sh (sh_milestones sh ! j)
      (get_or contract_stats_zero (k_contract_stats s)) s1 = Inr t"
    using go by (auto simp: bindE_Inr split: if_splits)
  have "k_dispute_resolved_at s1 = k_dispute_resolved_at s"
    using s1 by (auto simp: record_joint_confirmation_def Let_def split: if_splits)
  moreover have "k_dispute_resolved_at t = k_dispute_resolved_at s1"
    using t confirm_settle_resolved by metis
  ultimately show ?thesis by simp
qed

section \<open>Calm calls\<close>

text \<open>
  How a stored shipment may change outside the dispute desk: a paid milestone stays paid, a shipment that
  is not active any more keeps its status, the statuses and shares of its milestones and its amounts. Only
  calls marked \<open>proving\<close> put a milestone into the submitted status.
\<close>

definition stages :: "shipment \<Rightarrow> (milestone_status \<times> nat) list" where
  "stages sh = map (\<lambda>m. (ms_status m, ms_payment_percent m)) (sh_milestones sh)"

definition evolves :: "bool \<Rightarrow> shipment \<Rightarrow> shipment \<Rightarrow> bool" where
  "evolves proving a b \<longleftrightarrow> length (sh_milestones b) = length (sh_milestones a) \<and>
     (\<forall>j < length (sh_milestones a). done_status (ms_status (sh_milestones a ! j)) \<longrightarrow>
        ms_status (sh_milestones b ! j) = ms_status (sh_milestones a ! j)) \<and>
     (proving \<or> (\<forall>j < length (sh_milestones a). ms_status (sh_milestones b ! j) = ProofSubmitted \<longrightarrow>
        ms_status (sh_milestones a ! j) = ProofSubmitted)) \<and>
     (sh_status a \<noteq> Active \<longrightarrow> sh_status b = sh_status a \<and> stages b = stages a \<and>
        sh_released_amount b = sh_released_amount a \<and> sh_total_advanced_amount b = sh_total_advanced_amount a)"

lemma evolves_refl [simp]: "evolves p a a"
  by (simp add: evolves_def)

lemma evolvesD:
  assumes "evolves p a b"
  shows "length (sh_milestones b) = length (sh_milestones a)"
    "j < length (sh_milestones a) \<Longrightarrow> done_status (ms_status (sh_milestones a ! j)) \<Longrightarrow>
       ms_status (sh_milestones b ! j) = ms_status (sh_milestones a ! j)"
    "\<not> p \<Longrightarrow> j < length (sh_milestones a) \<Longrightarrow> ms_status (sh_milestones b ! j) = ProofSubmitted \<Longrightarrow>
       ms_status (sh_milestones a ! j) = ProofSubmitted"
    "sh_status a \<noteq> Active \<Longrightarrow> sh_status b = sh_status a"
    "sh_status a \<noteq> Active \<Longrightarrow> stages b = stages a"
    "sh_status a \<noteq> Active \<Longrightarrow> sh_released_amount b = sh_released_amount a"
    "sh_status a \<noteq> Active \<Longrightarrow> sh_total_advanced_amount b = sh_total_advanced_amount a"
  using assms unfolding evolves_def by simp_all

lemma evolves_trans:
  assumes "evolves p a b" "evolves p b c"
  shows "evolves p a c"
proof -
  note b = evolvesD [OF assms(1)] and c = evolvesD [OF assms(2)]
  show ?thesis
    unfolding evolves_def
  proof (intro conjI)
    show "\<forall>j < length (sh_milestones a). done_status (ms_status (sh_milestones a ! j)) \<longrightarrow>
        ms_status (sh_milestones c ! j) = ms_status (sh_milestones a ! j)"
      using b(1,2) c(2) by simp
    show "p \<or> (\<forall>j < length (sh_milestones a). ms_status (sh_milestones c ! j) = ProofSubmitted \<longrightarrow>
        ms_status (sh_milestones a ! j) = ProofSubmitted)"
      using b(1,3) c(3) by (cases p) simp_all
  qed (use b c in simp_all)
qed

lemma evolves_mono: "evolves False a b \<Longrightarrow> evolves p a b"
  unfolding evolves_def by blast

lemma evolves_audit [simp]: "evolves p a (append_audit_entry e x y z a)"
  by (simp add: evolves_def append_audit_entry_def stages_def)

lemma stagesD:
  assumes "stages b = stages a"
  shows "length (sh_milestones b) = length (sh_milestones a)"
    "j < length (sh_milestones a) \<Longrightarrow> ms_status (sh_milestones b ! j) = ms_status (sh_milestones a ! j)"
proof -
  show n: "length (sh_milestones b) = length (sh_milestones a)" using assms by (metis stages_def length_map)
  show "ms_status (sh_milestones b ! j) = ms_status (sh_milestones a ! j)" if "j < length (sh_milestones a)"
  proof -
    have "stages b ! j = stages a ! j" using assms by simp
    then show ?thesis using that n by (simp add: stages_def)
  qed
qed

lemma evolves_stages:
  assumes "stages b = stages a" "sh_status b = sh_status a" "sh_released_amount b = sh_released_amount a"
    "sh_total_advanced_amount b = sh_total_advanced_amount a"
  shows "evolves p a b"
  using stagesD [OF assms(1)] assms by (simp add: evolves_def)

lemma evolves_same: "sh_status a = Active \<Longrightarrow> sh_milestones b = sh_milestones a \<Longrightarrow> evolves p a b"
  by (simp add: evolves_def)

lemma evolves_move:
  assumes "sh_status a = Active" "sh_milestones b = (sh_milestones a)[j := m]"
    "j < length (sh_milestones a) \<Longrightarrow> \<not> done_status (ms_status (sh_milestones a ! j)) \<or>
       ms_status m = ms_status (sh_milestones a ! j)"
    "p \<or> ms_status m \<noteq> ProofSubmitted \<or> ms_status m = ms_status (sh_milestones a ! j)"
  shows "evolves p a b"
proof -
  have "ms_status (sh_milestones b ! k) = (if k = j then ms_status m else ms_status (sh_milestones a ! k))"
    if "k < length (sh_milestones a)" for k using assms(2) that by simp
  then show ?thesis using assms by (auto simp: evolves_def)
qed

text \<open>
  A calm call resolves nothing, and leaves for every shipment which milestones are disputed and the
  counter, or creates a shipment without disputes.
\<close>

definition quarrels :: "shipment \<Rightarrow> bool list" where
  "quarrels sh = map (\<lambda>m. ms_status m = Disputed) (sh_milestones sh)"

definition grows :: "bool \<Rightarrow> settle \<Rightarrow> settle \<Rightarrow> bool" where
  "grows p s t \<longleftrightarrow> (\<forall>k v. k_shipment s k = Some v \<longrightarrow> (\<exists>u. k_shipment t k = Some u \<and> evolves p v u))"

lemma growsD: "grows p s t \<Longrightarrow> k_shipment s k = Some v \<Longrightarrow> \<exists>u. k_shipment t k = Some u \<and> evolves p v u"
  by (simp add: grows_def)

lemma grows_same: "k_shipment t = k_shipment s \<Longrightarrow> grows p s t"
  by (simp add: grows_def)

lemma grows_trans: "grows p s t \<Longrightarrow> grows p t u \<Longrightarrow> grows p s u"
  unfolding grows_def using evolves_trans by meson

lemma grows_mono: "grows False s t \<Longrightarrow> grows p s t"
  unfolding grows_def using evolves_mono by meson

lemma grows_update:
  "k_shipment s i = Some sh \<Longrightarrow> k_shipment t = (k_shipment s)(i \<mapsto> sh') \<Longrightarrow> evolves p sh sh' \<Longrightarrow> grows p s t"
  by (simp add: grows_def)

lemma grows_new: "k_shipment s i = None \<Longrightarrow> k_shipment t = (k_shipment s)(i \<mapsto> sh') \<Longrightarrow> grows p s t"
  by (auto simp: grows_def)

definition calm :: "bool \<Rightarrow> settle \<Rightarrow> settle \<Rightarrow> bool" where
  "calm p s t \<longleftrightarrow>
     (\<forall>x. k_dispute_resolved_at t x = k_dispute_resolved_at s x \<or> k_dispute_resolved_at t x = None) \<and>
     (\<forall>k u. k_shipment t k = Some u \<longrightarrow>
        (\<exists>v. k_shipment s k = Some v \<and> sh_open_dispute_count u = sh_open_dispute_count v \<and> quarrels u = quarrels v) \<or>
        sh_open_dispute_count u = 0 \<and> True \<notin> set (quarrels u)) \<and>
     grows p s t"

lemma calm_refl [simp]: "calm p s s"
  by (simp add: calm_def grows_same)

lemma calm_mono: "calm False s t \<Longrightarrow> calm p s t"
  by (simp add: calm_def grows_mono)

lemma calm_grows: "calm p s t \<Longrightarrow> grows p s t"
  by (simp add: calm_def)

lemma calm_trans:
  assumes "calm p s t" "calm p t u"
  shows "calm p s u"
  unfolding calm_def
proof (intro conjI allI impI)
  fix x
  show "k_dispute_resolved_at u x = k_dispute_resolved_at s x \<or> k_dispute_resolved_at u x = None"
    using assms by (metis calm_def)
next
  fix k w assume w: "k_shipment u k = Some w"
  show "(\<exists>v. k_shipment s k = Some v \<and> sh_open_dispute_count w = sh_open_dispute_count v \<and> quarrels w = quarrels v) \<or>
      sh_open_dispute_count w = 0 \<and> True \<notin> set (quarrels w)"
    using assms w unfolding calm_def by (metis (no_types))
next
  show "grows p s u" using assms [THEN calm_grows] by (rule grows_trans)
qed

lemma calm_fold:
  assumes "\<And>x u v. f x u = Inr v \<Longrightarrow> calm p u v" "foldE f xs s = Inr t"
  shows "calm p s t"
  using assms(2)
proof (induction xs arbitrary: s)
  case (Cons x xs)
  then show ?case using assms(1) calm_trans by (auto simp: bindE_Inr) blast
qed simp

lemma calm_same: "k_shipment t = k_shipment s \<Longrightarrow> k_dispute_resolved_at t = k_dispute_resolved_at s \<Longrightarrow> calm p s t"
  by (simp add: calm_def grows_same)

lemma calm_update:
  assumes "k_shipment s i = Some sh" "k_shipment t = (k_shipment s)(i \<mapsto> sh')"
    "sh_open_dispute_count sh' = sh_open_dispute_count sh" "quarrels sh' = quarrels sh"
    "\<And>x. k_dispute_resolved_at t x = k_dispute_resolved_at s x \<or> k_dispute_resolved_at t x = None" "evolves p sh sh'"
  shows "calm p s t"
  using assms grows_update [OF assms(1,2,6)] by (auto simp: calm_def)

lemma quarrels_same: "sh_milestones a = sh_milestones b \<Longrightarrow> quarrels a = quarrels b"
  by (simp add: quarrels_def)

lemma quarrels_update:
  assumes "sh_milestones sh' = (sh_milestones sh)[j := m]" "ms_status m \<noteq> Disputed"
    "j < length (sh_milestones sh) \<Longrightarrow> ms_status (sh_milestones sh ! j) \<noteq> Disputed"
  shows "quarrels sh' = quarrels sh"
proof -
  have "quarrels sh' = (quarrels sh)[j := False]" using assms(1,2) by (simp add: quarrels_def map_update)
  moreover have "(quarrels sh)[j := False] = quarrels sh"
    using assms(3) by (cases "j < length (sh_milestones sh)") (simp_all add: quarrels_def list_update_same_conv list_update_beyond)
  ultimately show ?thesis by simp
qed

lemma quarrels_audit [simp]: "quarrels (append_audit_entry e a x y sh) = quarrels sh"
  "sh_open_dispute_count (append_audit_entry e a x y sh) = sh_open_dispute_count sh"
  by (simp_all add: quarrels_def append_audit_entry_def)

lemma open_disputes_quarrels: "open_disputes sh = length (filter id (quarrels sh))"
  by (simp add: open_disputes_def quarrels_def filter_map comp_def)

lemma calm_books:
  assumes "dispute_books over s" "calm p s t"
  shows "dispute_books over t"
  unfolding dispute_books_def
proof (intro allI impI)
  fix k u assume u: "k_shipment t k = Some u"
  have r: "k_dispute_resolved_at s x = None \<Longrightarrow> k_dispute_resolved_at t x = None" for x
    using assms(2) [unfolded calm_def, THEN conjunct1, rule_format, of x] by auto
  have n: "ms_status (sh_milestones u ! j) = Disputed \<longleftrightarrow> quarrels u ! j" if "j < length (sh_milestones u)" for j
    using that by (simp add: quarrels_def)
  consider v where "k_shipment s k = Some v" "sh_open_dispute_count u = sh_open_dispute_count v" "quarrels u = quarrels v"
    | "sh_open_dispute_count u = 0" "True \<notin> set (quarrels u)"
    using assms(2) [unfolded calm_def, THEN conjunct2, THEN conjunct1, rule_format, OF u] by metis
  then show "open_disputes u \<le> sh_open_dispute_count u \<and> (over \<or> sh_open_dispute_count u = open_disputes u \<and>
      (\<forall>j<length (sh_milestones u). ms_status (sh_milestones u ! j) = Disputed \<longrightarrow> k_dispute_resolved_at t (k, j) = None))"
  proof cases
    case (1 v)
    note b = dispute_booksD [OF assms(1) 1(1)]
    have len: "length (sh_milestones v) = length (sh_milestones u)" using arg_cong [OF 1(3), of length] by (simp add: quarrels_def)
    have "k_dispute_resolved_at t (k, j) = None"
      if "\<not> over" "j < length (sh_milestones u)" "ms_status (sh_milestones u ! j) = Disputed" for j
    proof -
      have "quarrels v ! j" using n [OF that(2)] that(3) 1(3) by simp
      then have "ms_status (sh_milestones v ! j) = Disputed" using that(2) len by (simp add: quarrels_def)
      then show ?thesis using b(3) [OF that(1)] that(2) len r by simp
    qed
    then show ?thesis using b(1,2) 1(2,3) by (cases over) (simp_all add: open_disputes_quarrels)
  next
    case 2
    have "filter id (quarrels u) = []" using 2(2) by (auto simp: filter_empty_conv)
    moreover have "ms_status (sh_milestones u ! j) \<noteq> Disputed" if "j < length (sh_milestones u)" for j
      using 2(2) n [OF that] that nth_mem [of j "quarrels u"] by (auto simp: quarrels_def)
    ultimately show ?thesis using 2(1) by (simp add: open_disputes_quarrels)
  qed
qed

section \<open>Creation and proofs\<close>

lemma calm_create:
  assumes "create_shipment e i buyers supplier logistics arbiter tok amount ms opt s = Inr (t, i')"
  shows "calm p s t"
proof -
  have new: "k_shipment s i = None" using creation_checked [OF assms] by simp
  obtain bond where c: "k_shipment t = (k_shipment s)(i \<mapsto> append_audit_entry e (hd buyers) ''shipment_created'' ''create_shipment''
       (new_shipment e i buyers supplier logistics arbiter tok amount ms opt bond))"
    "k_dispute_resolved_at t = k_dispute_resolved_at s"
    using assms by (rule created)
  have "sh_open_dispute_count (new_shipment e i buyers supplier logistics arbiter tok amount ms opt bond) = 0"
    "True \<notin> set (quarrels (new_shipment e i buyers supplier logistics arbiter tok amount ms opt bond))"
    by (auto simp: new_shipment_def quarrels_def clean_milestone_def)
  then show ?thesis using c grows_new [OF new c(1), of p] by (auto simp: calm_def)
qed

lemma calm_same_left: "k_shipment u = k_shipment s \<Longrightarrow> k_dispute_resolved_at u = k_dispute_resolved_at s \<Longrightarrow> calm p u t \<Longrightarrow> calm p s t"
  by (rule calm_trans [OF calm_same])

lemma calm_prepared [simp]:
  "calm p (s\<lparr>k_auto_id_counter := x\<rparr>) t = calm p s t"
  "calm p (s\<lparr>k_pending_allowance := y, k_skip_buyer_auth := z\<rparr>) t = calm p s t"
  by (simp_all add: calm_def grows_def)

lemma calm_wrappers:
  "create_shipment_auto_id e bs a l r tok n ms opt s = Inr (t, i') \<Longrightarrow> calm q s t"
  "create_shipment_from_template e i bs a l r tok n name opt s = Inr (t, i') \<Longrightarrow> calm q s t"
  "create_shipment_with_allowance e p s = Inr (t, i') \<Longrightarrow> calm q s t"
  by (auto simp: create_shipment_auto_id_def create_shipment_from_template_def create_shipment_with_allowance_def
      bindE_Inr dest!: calm_create)

lemma calm_standing:
  assumes "execute_standing_order e oid s = Inr (t, i')"
  shows "calm p s t"
proof -
  obtain i b a l r tok n ms opt s1 where
    c: "create_shipment e i b a l r tok n ms opt (s\<lparr>k_skip_buyer_auth := Some True\<rparr>) = Inr (s1, i')"
    and t: "k_shipment t = k_shipment s1" "k_dispute_resolved_at t = k_dispute_resolved_at s1"
    using assms by (auto simp: execute_standing_order_def bindE_Inr Let_def)
  show ?thesis by (rule calm_trans [OF calm_same_left [OF _ _ calm_create [OF c]] calm_same [OF t]]) simp_all
qed

lemma record_proof_Inr:
  assumes "record_proof e i j ty a s = Inr t"
  shows "k_shipment t = k_shipment s" "k_dispute_resolved_at t = k_dispute_resolved_at s"
  using assms by (auto simp: record_proof_def bindE_Inr)

lemma emit_proof_submitted [simp]:
  "k_shipment (emit_milestone_proof_submitted i j h a s) = k_shipment s"
  "k_dispute_resolved_at (emit_milestone_proof_submitted i j h a s) = k_dispute_resolved_at s"
  by (simp_all add: emit_milestone_proof_submitted_def emit_def)

text \<open>A proof that is not waiting for a second attestation turns the milestone from pending to submitted.\<close>

lemma submit_internal_Inr:
  assumes "submit_proof_internal e a i j h ty check s = Inr t"
  obtains sh sh' where "k_shipment s i = Some sh" "sh_status sh = Active" "j < length (sh_milestones sh)"
    "ms_status (sh_milestones sh ! j) = Pending" "k_shipment t = (k_shipment s)(i \<mapsto> sh')"
    "k_dispute_resolved_at t = k_dispute_resolved_at s" "sh_open_dispute_count sh' = sh_open_dispute_count sh"
    "sh_status sh' = Active" "sh_released_amount sh' = sh_released_amount sh"
    "assert_proof_submitter s sh i j a = Inr ()" "check \<Longrightarrow> a \<in> set (signers e)"
    "if requires_dual_attestation s i
     then sh_milestones sh' = sh_milestones sh \<and> a \<in> {sh_supplier sh, sh_logistics sh} \<and>
       k_pending_dual_proof t = (k_pending_dual_proof s)((i, j) \<mapsto> \<lparr>pd_first_attester = a, pd_proof_hash = h, pd_proof_type = ty\<rparr>)
     else sh_milestones sh' = (sh_milestones sh)[j := proven_milestone e h (sh_milestones sh ! j)] \<and>
       k_pending_dual_proof t = k_pending_dual_proof s"
proof -
  obtain sh where g: "k_shipment s i = Some sh" "sh_status sh = Active" "j < length (sh_milestones sh)"
    "ms_status (sh_milestones sh ! j) = Pending" "assert_proof_submitter s sh i j a = Inr ()" "check \<Longrightarrow> a \<in> set (signers e)"
    and t: "(if requires_dual_attestation s i then store_pending_proof e a i j h ty sh s
      else accept_proof e a i j h ty sh (sh_milestones sh ! j) s) = Inr t"
    using assms
    by (auto simp: submit_proof_internal_def require_proof_submitter_auth_def require_auth_Inr bindE_Inr ensure_Inr
        res_simps vec_get_def split: if_splits option.splits)
  show thesis
  proof (cases "requires_dual_attestation s i")
    case True
    then have "store_pending_proof e a i j h ty sh s = Inr t" using t by simp
    then show thesis
      by (intro that [OF g(1-4), where sh' = "append_audit_entry e a ''dual_proof_pending'' ''submit_proof'' sh"])
         (use g True in \<open>auto simp: store_pending_proof_def bindE_Inr ensure_Inr append_audit_entry_def emit_def\<close>)
  next
    case False
    let ?sh = "append_audit_entry e a ''proof_submitted'' ''submit_proof''
                  (set_milestone j (proven_milestone e h (sh_milestones sh ! j)) sh)"
    obtain u x y where u: "record_proof e i j ty a (s\<lparr>k_shipment := (k_shipment s)(i \<mapsto> ?sh)\<rparr>) = Inr u"
      and tu: "t = emit_milestone_proof_submitted i j h (sh_supplier sh) (emit x y u)"
      using t False by (auto simp: accept_proof_def Let_def bindE_Inr)
    have p: "k_pending_dual_proof t = k_pending_dual_proof s"
      using u tu by (auto simp: record_proof_def bindE_Inr emit_milestone_proof_submitted_def emit_def)
    show thesis
      by (rule that [OF g(1-4), where sh' = ?sh])
         (use g False p record_proof_Inr [OF u] tu in \<open>simp_all add: append_audit_entry_def set_milestone_def\<close>)
  qed
qed

lemma calm_submit_internal: "submit_proof_internal e a i j h ty check s = Inr t \<Longrightarrow> calm True s t"
  by (erule submit_internal_Inr, rule calm_update, assumption, assumption)
     (auto split: if_splits intro: quarrels_same quarrels_update evolves_same evolves_move
        simp: proven_milestone_def done_status_def)

lemma calm_submit: "submit_proof e a i j h ty s = Inr t \<Longrightarrow> calm True s t"
  unfolding submit_proof_def by (rule calm_submit_internal)

lemma calm_audit:
  "k_shipment u i = Some sh \<Longrightarrow> k_shipment t = (k_shipment u)(i \<mapsto> append_audit_entry e a x y sh) \<Longrightarrow>
   k_dispute_resolved_at t = k_dispute_resolved_at u \<Longrightarrow> calm p u t"
  by (rule calm_update, assumption, assumption) simp_all

lemma calm_batch_submit:
  assumes "batch_submit_proofs e a i entries s = Inr t"
  shows "calm True s t"
proof -
  obtain s1 sh where f: "foldE (\<lambda>(j, h, ty). submit_proof_internal e a i j h ty False) entries s = Inr s1"
    and c: "k_shipment s1 i = Some sh" "k_shipment t = (k_shipment s1)(i \<mapsto>
      append_audit_entry e a ''batch_proofs_submitted'' ''batch_submit_proofs'' sh)"
      "k_dispute_resolved_at t = k_dispute_resolved_at s1"
    using assms by (auto simp: batch_submit_proofs_def bindE_Inr res_simps)
  have "calm True s s1" by (rule calm_fold [OF _ f]) (auto intro: calm_submit_internal)
  then show ?thesis by (rule calm_trans) (rule calm_audit [OF c])
qed

lemma calm_correct: "correct_proof e a i j h ty s = Inr t \<Longrightarrow> calm p s t"
  by (auto simp: correct_proof_def bindE_Inr res_simps ensure_Inr vec_get_def set_milestone_def append_audit_entry_def
      Let_def split: option.splits if_splits intro!: calm_update quarrels_update evolves_move)

lemma calm_attest:
  assumes "attest_proof e a i j h s = Inr t"
  shows "calm True s t"
proof -
  obtain sh m u c x y x' y' z v and p :: pending_dual_proof where act: "assert_active sh = Inr v" and
      g: "k_shipment s i = Some sh" "vec_get_unwrap (sh_milestones sh) j = Inr m"
      "ensure (ms_status m = Pending) ''milestone is not in pending status'' = Inr z"
    and u: "record_proof e i j (pd_proof_type p) (pd_first_attester p)
        (s\<lparr>k_pending_dual_proof := (k_pending_dual_proof s)((i, j) := None),
           k_shipment := (k_shipment s)(i \<mapsto> append_audit_entry e a ''proof_attested'' ''attest_proof''
             (set_milestone j (proven_milestone e h m) sh))\<rparr>) = Inr u"
    and tu: "emit_milestone_proof_submitted i j h c (emit x y (emit x' y' u)) = t"
    using assms unfolding attest_proof_def bindE_Inr get_shipment_Inr Let_def sum.inject by blast
  have t: "k_shipment t = k_shipment u" "k_dispute_resolved_at t = k_dispute_resolved_at u" using tu by auto
  have m: "j < length (sh_milestones sh)" "m = sh_milestones sh ! j" "ms_status m = Pending"
    using g(2,3) by (auto simp: vec_get_unwrap_Inr ensure_Inr)
  have kt: "k_shipment t = (k_shipment s)(i \<mapsto> append_audit_entry e a ''proof_attested'' ''attest_proof''
             (set_milestone j (proven_milestone e h m) sh))"
    using t record_proof_Inr [OF u] by simp
  show ?thesis
    by (rule calm_update [OF g(1) kt])
       (use t record_proof_Inr [OF u] m act in
         \<open>auto simp: set_milestone_def proven_milestone_def append_audit_entry_def done_status_def assert_active_Inr
            intro: quarrels_update evolves_move\<close>)
qed

lemma calm_inspector: "inspector_sign_off e a i j r s = Inr t \<Longrightarrow> calm p s t"
  by (auto simp: inspector_sign_off_def bindE_Inr res_simps intro!: calm_update)

end
