(* ===== verification/SettlePaths.thy ===== *)
theory SettlePaths
  imports SettleLife
begin

text \<open>
  What the further ways to confirm do: several milestones in one call, automatically, by grade, by
  delivered quantity. For each: the shipment it stores, the amounts it records, and that it is calm.
\<close>

section \<open>The value of a milestone\<close>

text \<open>It depends on the shares, the total and what deliveries have released, not on any status.\<close>

definition same_value :: "shipment \<Rightarrow> shipment \<Rightarrow> bool" where
  "same_value a b \<longleftrightarrow> sh_id b = sh_id a \<and> sh_total_amount b = sh_total_amount a \<and>
     map ms_payment_percent (sh_milestones b) = map ms_payment_percent (sh_milestones a)"

lemma same_value_refl [simp]: "same_value a a"
  by (simp add: same_value_def)

lemma same_value_trans: "same_value a b \<Longrightarrow> same_value b c \<Longrightarrow> same_value a c"
  by (simp add: same_value_def)

lemma percent_unwrap:
  assumes "map ms_payment_percent ms = map ms_payment_percent ms'"
  shows "bindE (vec_get_unwrap ms j) (\<lambda>m. f (ms_payment_percent m)) =
         bindE (vec_get_unwrap ms' j) (\<lambda>m. f (ms_payment_percent m))"
proof -
  have "length ms = length ms'" using arg_cong [OF assms, of length] by simp
  moreover have "ms_payment_percent (ms ! j) = ms_payment_percent (ms' ! j)" if "j < length ms"
    using assms that calculation by (metis nth_map)
  ultimately show ?thesis by (simp add: vec_get_unwrap_def vec_get_def unwrap_def)
qed

lemma gross_same:
  assumes "same_value a b" "k_milestone_splits t = k_milestone_splits s" "k_partial_qty_released t = k_partial_qty_released s"
  shows "milestone_gross_payment t b j = milestone_gross_payment s a j"
    "milestone_full_gross_payment t b j = milestone_full_gross_payment s a j"
proof -
  have "milestone_full_gross_payment t b j = milestone_full_gross_payment s a j"
    using assms percent_unwrap [of "sh_milestones b" "sh_milestones a" j "\<lambda>p. mul_div (sh_total_amount a) p 100"]
    by (simp add: milestone_full_gross_payment_def same_value_def cong: option.case_cong if_cong)
  then show "milestone_gross_payment t b j = milestone_gross_payment s a j"
    "milestone_full_gross_payment t b j = milestone_full_gross_payment s a j"
    using assms by (simp_all add: milestone_gross_payment_def same_value_def)
qed

section \<open>Several confirmations in one call\<close>

lemma aside_batch_pay:
  assumes "batch_pay e i j sh p net adv s = Inr t"
  shows "aside s t"
proof -
  obtain s1 a s2 primary where
    c: "pay_referral e sh (net - adv) s = Inr (s1, a)"
       "whenE (0 < a) (pay_milestone_to_payees e i j a (sh_supplier sh) (sh_token sh)) s1 = Inr s2"
       "record_release_counters (sh_supplier sh) primary (sh_token sh) p a s2 = Inr t"
    using assms by (auto simp: batch_pay_def bindE_Inr ck_i128_Inr split: prod.splits)
  show ?thesis
    using aside_referral [OF c(1)] aside_payout_when [OF c(2)] aside_counters [OF c(3)] by (simp add: aside_def)
qed

text \<open>One confirmation of a batch, on the state and the shipment in memory.\<close>

lemma batch_one_Inr:
  assumes "batch_confirm_one e i j (s, sh) = Inr (t, sh')"
  obtains gross where "milestone_gross_payment s sh j = Inr gross" "aside s t" "j < length (sh_milestones sh)"
    "sh_milestones sh' = (sh_milestones sh)[j := (sh_milestones sh ! j)\<lparr>ms_status := Confirmed\<rparr>]"
    "sh_released_amount sh' = sh_released_amount sh + gross" "sh_open_dispute_count sh' = sh_open_dispute_count sh"
    "sh_status sh' = sh_status sh" "same_value sh sh'"
proof -
  obtain m where m: "vec_get_unwrap (sh_milestones sh) j = Inr m"
    using assms by (auto simp: batch_confirm_one_def bindE_Inr)
  let ?m1 = "m\<lparr>ms_status := Confirmed\<rparr>"
  let ?sh1 = "(set_milestone j ?m1 sh)\<lparr>sh_last_confirmed_milestone_index := Some j\<rparr>"
  let ?s0 = "record_milestone_timeliness (sh_supplier sh) ?m1 s"
  have call: "batch_confirm_one e i j (s, sh) = bindE (release_milestone_collateral_share e ?sh1 i j ?s0) (\<lambda>s1.
     bindE (milestone_gross_payment s1 ?sh1 j) (\<lambda>payment.
     bindE (consume_advance_for_milestone ?sh1 i j s1) (\<lambda>(s2, sh2, advance).
     bindE (deduct_fee e payment (sh_token sh2) s2) (\<lambda>(s3, net, fee).
     bindE (track_shipment_fees_paid i fee s3) (\<lambda>s4.
     bindE (check_circuit_breaker (sequence e) payment s4) (\<lambda>s5.
     bindE (check_address_outflow (sh_supplier sh2) (sequence e) payment s5) (\<lambda>s6.
     bindE (ck_i128 (sh_released_amount sh2 + payment)) (\<lambda>released.
     let sh3 = sh2\<lparr>sh_released_amount := released\<rparr>
     in
     bindE (batch_pay e i j sh3 payment net advance s6) (\<lambda>s7.
     bindE (ck_i128 (payment - advance)) (\<lambda>net_outflow.
     bindE (decrease_total_escrowed (sh_token sh3) net_outflow s7) (\<lambda>s8.
     bindE (ck_i128 (sh_total_amount sh3 - released)) (\<lambda>remaining.
     Inr (emit [VStr ''chainsettle'', VStr ''milestone_confirmed''] [VStr i, VNat j, VInt payment]
            (emit [VStr ''milestone_confirmed'', VStr i]
               [VNat j, VInt payment, VInt fee, VAddr (sh_supplier sh3), VNat (sequence e),
                VInt released, VInt remaining] s8), sh3)))))))))))))"
    by (simp add: batch_confirm_one_def m Let_def)
  obtain s1 gross s2 sh2 adv s3 net fee s4 s5 s6 s7 s8 n x y x' y' where
    c: "release_milestone_collateral_share e ?sh1 i j ?s0 = Inr s1" "milestone_gross_payment s1 ?sh1 j = Inr gross"
       "consume_advance_for_milestone ?sh1 i j s1 = Inr (s2, sh2, adv)"
       "deduct_fee e gross (sh_token sh2) s2 = Inr (s3, net, fee)" "track_shipment_fees_paid i fee s3 = Inr s4"
       "check_circuit_breaker (sequence e) gross s4 = Inr s5"
       "check_address_outflow (sh_supplier sh2) (sequence e) gross s5 = Inr s6"
       "batch_pay e i j (sh2\<lparr>sh_released_amount := sh_released_amount sh2 + gross\<rparr>) gross net adv s6 = Inr s7"
       "decrease_total_escrowed (sh_token sh2) n s7 = Inr s8"
    and t: "t = emit x y (emit x' y' s8)" and sh': "sh' = sh2\<lparr>sh_released_amount := sh_released_amount sh2 + gross\<rparr>"
    using assms [unfolded call] by (auto simp: bindE_Inr ck_i128_Inr Let_def split: prod.splits)
  have mm: "j < length (sh_milestones sh)" "m = sh_milestones sh ! j" using m by (auto simp: vec_get_unwrap_Inr)
  have percents: "map ms_payment_percent ((sh_milestones sh)[j := ?m1]) = map ms_payment_percent (sh_milestones sh)"
    using mm by (simp add: map_update list_update_same_conv)
  have sv: "same_value sh ?sh1" using percents by (simp add: same_value_def set_milestone_def)
  have a1: "aside s s1" using aside_trans [OF aside_timeliness aside_collateral [OF c(1)]] by blast
  have g: "milestone_gross_payment s sh j = Inr gross" using gross_same(1) [OF sv asideD(8,9) [OF a1]] c(2) by simp
  have as: "aside s t"
    using a1 aside_advance [OF c(3)] aside_deduct [OF c(4)] aside_fees_paid [OF c(5)] aside_breaker [OF c(6)]
      aside_outflow [OF c(7)] aside_batch_pay [OF c(8)] aside_decrease [OF c(9)] t by (simp add: aside_def)
  have d: "same_deal ?sh1 sh2" by (rule deal_advance(1) [OF c(3)])
  show thesis
    by (rule that [OF g as mm(1)])
       (use same_dealD [OF d] sh' mm sv in \<open>simp_all add: set_milestone_def same_value_def\<close>)
qed

definition grosses :: "settle \<Rightarrow> shipment \<Rightarrow> nat list \<Rightarrow> int list \<Rightarrow> bool" where
  "grosses s sh js gs \<longleftrightarrow> list_all2 (\<lambda>j g. milestone_gross_payment s sh j = Inr g) js gs"

lemma confirmed_list:
  "fold (\<lambda>j ms. ms[j := (ms ! j)\<lparr>ms_status := Confirmed\<rparr>]) js ms =
     map (\<lambda>k. if k \<in> set js then (ms ! k)\<lparr>ms_status := Confirmed\<rparr> else ms ! k) [0..<length ms]"
proof (induction js arbitrary: ms)
  case Nil
  show ?case by (simp add: map_nth)
next
  case (Cons j js)
  show ?case
    unfolding fold_simps Cons.IH
    by (cases "j < length ms") (auto intro!: nth_equalityI simp: nth_list_update list_update_beyond)
qed

text \<open>The whole batch: the value of every index of the list is added, once for each time it is named.\<close>

lemma batch_fold_Inr:
  assumes "foldE (batch_confirm_one e i) js (s, sh) = Inr (t, sh')"
  obtains gs where "grosses s sh js gs" "aside s t" "sh_released_amount sh' = sh_released_amount sh + sum_list gs"
    "sh_milestones sh' = fold (\<lambda>j ms. ms[j := (ms ! j)\<lparr>ms_status := Confirmed\<rparr>]) js (sh_milestones sh)"
    "sh_open_dispute_count sh' = sh_open_dispute_count sh" "sh_status sh' = sh_status sh" "same_value sh sh'"
    "\<forall>j \<in> set js. j < length (sh_milestones sh)"
  using assms
proof (induction js arbitrary: s sh thesis)
  case Nil
  then show ?case by (simp add: grosses_def)
next
  case (Cons j js)
  obtain u shu where one: "batch_confirm_one e i j (s, sh) = Inr (u, shu)"
    and rest: "foldE (batch_confirm_one e i) js (u, shu) = Inr (t, sh')"
    using Cons.prems(2) by (auto simp: bindE_Inr)
  obtain g where o: "milestone_gross_payment s sh j = Inr g" "aside s u" "j < length (sh_milestones sh)"
    "sh_milestones shu = (sh_milestones sh)[j := (sh_milestones sh ! j)\<lparr>ms_status := Confirmed\<rparr>]"
    "sh_released_amount shu = sh_released_amount sh + g" "sh_open_dispute_count shu = sh_open_dispute_count sh"
    "sh_status shu = sh_status sh" "same_value sh shu" by (rule batch_one_Inr [OF one])
  obtain gs where r: "grosses u shu js gs" "aside u t" "sh_released_amount sh' = sh_released_amount shu + sum_list gs"
    "sh_milestones sh' = fold (\<lambda>j ms. ms[j := (ms ! j)\<lparr>ms_status := Confirmed\<rparr>]) js (sh_milestones shu)"
    "sh_open_dispute_count sh' = sh_open_dispute_count shu" "sh_status sh' = sh_status shu" "same_value shu sh'"
    "\<forall>j \<in> set js. j < length (sh_milestones shu)"
    by (rule Cons.IH [OF _ rest])
  have "grosses s sh (j # js) (g # gs)"
    using r(1) o(1) gross_same(1) [OF o(8) asideD(8,9) [OF o(2)]] by (simp add: grosses_def)
  then show ?case
    by (rule Cons.prems(1))
       (use o r aside_trans [OF o(2) r(2)] same_value_trans [OF o(8) r(7)] in simp_all)
qed

text \<open>The completion shared by the paths: booked, settled, status changed exactly when all are done.\<close>

definition finished :: "shipment \<Rightarrow> shipment \<Rightarrow> bool" where
  "finished sh sh' \<longleftrightarrow> sh_milestones sh' = sh_milestones sh \<and> sh_released_amount sh' = sh_released_amount sh \<and>
     sh_open_dispute_count sh' = sh_open_dispute_count sh \<and>
     sh_status sh' = (if all_milestones_done sh then Completed else sh_status sh)"

lemma finished_deal:
  "same_deal (if all_milestones_done sh then sh\<lparr>sh_status := Completed\<rparr> else sh) sh' \<Longrightarrow> finished sh sh'"
  by (auto simp: finished_def same_deal_def)

lemma batch_complete_Inr:
  assumes "batch_complete e i sh s = Inr (t, sh')"
  shows "aside s t \<and> finished sh sh'"
proof (cases "all_milestones_done sh")
  case True
  then obtain s1 where c: "book_completion e i (sh\<lparr>sh_status := Completed\<rparr>)
      (get_or contract_stats_zero (k_contract_stats s)) s = Inr s1"
    "settle_on_completion e i (sh\<lparr>sh_status := Completed\<rparr>) s1 = Inr (t, sh')"
    using assms by (auto simp: batch_complete_def Let_def bindE_Inr)
  show ?thesis
    using aside_trans [OF aside_book [OF c(1)] aside_completion [OF c(2)]] deal_completion(1) [OF c(2)] True
    by (simp add: finished_deal)
qed (use assms in \<open>simp add: batch_complete_def finished_def\<close>)

lemma auto_complete_Inr:
  assumes "auto_complete e i sh s = Inr (t, sh')"
  shows "aside s t \<and> finished sh sh'"
proof (cases "all_milestones_done sh")
  case True
  then obtain s1 sh1 x where c: "return_early_bonus e sh s = Inr (s1, sh1)"
    "settle_on_completion e i (sh1\<lparr>sh_status := Completed\<rparr>)
       (move_shipment_status_index Active Completed i (s1\<lparr>k_contract_stats := x\<rparr>)) = Inr (t, sh')"
    using assms by (auto simp: auto_complete_def Let_def bindE_Inr)
  have "aside s1 (move_shipment_status_index Active Completed i (s1\<lparr>k_contract_stats := x\<rparr>))"
    by (rule aside_trans [OF _ aside_status_index]) (simp add: aside_def)
  moreover have "same_deal (sh\<lparr>sh_status := Completed\<rparr>) (sh1\<lparr>sh_status := Completed\<rparr>)"
    using deal_return_bonus(1) [OF c(1)] by (simp add: same_deal_def)
  ultimately show ?thesis
    using aside_return_bonus [OF c(1)] aside_completion [OF c(2)] same_deal_trans deal_completion(1) [OF c(2)] True
    by (auto intro: aside_trans finished_deal)
qed (use assms in \<open>simp add: auto_complete_def finished_def\<close>)

lemma check_fold:
  assumes "foldE (\<lambda>j _. f j) js () = Inr u" "j \<in> set js"
  shows "f j = Inr ()"
  using assms by (induction js) (auto simp: bindE_Inr)

lemma batch_confirm_Inr:
  assumes "batch_confirm_milestones e b i js s = Inr t" "js \<noteq> []"
  obtains sh gs sh' where "k_shipment s i = Some sh" "sh_status sh = Active" "b \<in> set (signers e)" "is_buyer sh b"
    "\<forall>j \<in> set js. j < length (sh_milestones sh) \<and> ms_status (sh_milestones sh ! j) = ProofSubmitted"
    "grosses s sh js gs" "k_shipment t = (k_shipment s)(i \<mapsto> sh')"
    "sh_released_amount sh' = sh_released_amount sh + sum_list gs"
    "sh_milestones sh' = fold (\<lambda>j ms. ms[j := (ms ! j)\<lparr>ms_status := Confirmed\<rparr>]) js (sh_milestones sh)"
    "sh_status sh' = (if all_milestones_done sh' then Completed else Active)"
    "sh_open_dispute_count sh' = sh_open_dispute_count sh" "k_dispute_resolved_at t = k_dispute_resolved_at s"
proof -
  obtain sh s1 sh1 s2 sh2 where g: "k_shipment s i = Some sh" "sh_status sh = Active" "b \<in> set (signers e)" "is_buyer sh b"
    and ok: "foldE (\<lambda>j _. batch_index_ok e s i sh j) js () = Inr ()"
    and f: "foldE (batch_confirm_one e i) js (s, sh) = Inr (s1, sh1)"
    and c: "batch_complete e i sh1 s1 = Inr (s2, sh2)" and t: "t = s2\<lparr>k_shipment := (k_shipment s2)(i \<mapsto> sh2)\<rparr>"
    using assms by (auto simp: batch_confirm_milestones_def bindE_Inr get_shipment_Inr assert_active_Inr
        assert_is_buyer_def require_auth_Inr ensure_Inr split: if_splits prod.splits)
  have pr: "\<forall>j \<in> set js. j < length (sh_milestones sh) \<and> ms_status (sh_milestones sh ! j) = ProofSubmitted"
    using check_fold [OF ok]
    by (fastforce simp: batch_index_ok_def bindE_Inr res_simps ensure_Inr vec_get_def split: if_splits option.splits)
  obtain gs where r: "grosses s sh js gs" "aside s s1" "sh_released_amount sh1 = sh_released_amount sh + sum_list gs"
    "sh_milestones sh1 = fold (\<lambda>j ms. ms[j := (ms ! j)\<lparr>ms_status := Confirmed\<rparr>]) js (sh_milestones sh)"
    "sh_open_dispute_count sh1 = sh_open_dispute_count sh" "sh_status sh1 = sh_status sh"
    by (rule batch_fold_Inr [OF f])
  have d: "aside s1 s2" "finished sh1 sh2" using batch_complete_Inr [OF c] by simp_all
  have a: "aside s s2" by (rule aside_trans [OF r(2) d(1)])
  show thesis
    by (rule that [OF g pr r(1), where sh' = sh2])
       (use t asideD [OF a] d(2) r g all_done_cong [of sh2 sh1] in \<open>simp_all add: finished_def\<close>)
qed

section \<open>Automatic confirmation\<close>

lemma aside_auto_pay:
  assumes "auto_pay e i j sh dl p net adv pen s = Inr (t, sh')"
  shows "aside s t \<and> same_deal sh sh'"
proof -
  obtain s1 a1 s2 bonus s3 a s4 s5 primary where
    c: "pay_logistics e sh p (net - adv) s = Inr (s1, a1)" "pay_early_bonus e sh dl s1 = Inr (s2, sh', bonus)"
       "pay_referral e sh' a1 s2 = Inr (s3, a)"
       "whenE (0 < a) (pay_milestone_to_payees e i j a (sh_supplier sh') (sh_token sh')) s3 = Inr s4"
       "record_release_counters (sh_supplier sh') primary (sh_token sh') p a s4 = Inr s5"
       "whenE (0 < pen) (token_pay e (sh_token sh') (this e) primary pen) s5 = Inr t"
    using assms by (auto simp: auto_pay_def bindE_Inr ck_i128_Inr split: prod.splits)
  show ?thesis
    using aside_logistics [OF c(1)] aside_early_bonus [OF c(2)] aside_referral [OF c(3)] aside_payout_when [OF c(4)]
      aside_counters [OF c(5)] aside_pay_when [OF c(6)] deal_early_bonus [OF c(2)] by (simp add: aside_def)
qed

lemma auto_confirm_Inr:
  assumes "claim_auto_confirmation e i j s = Inr t"
  obtains sh gross pen sh' p where "k_shipment s i = Some sh" "sh_status sh = Active" "j < length (sh_milestones sh)"
    "ms_status (sh_milestones sh ! j) = ProofSubmitted" "get_effective_auto_confirm_window s sh \<noteq> 0"
    "ms_proof_submitted_ledger (sh_milestones sh ! j) = Some p"
    "p + get_effective_auto_confirm_window s sh \<le> sequence e"
    "milestone_gross_payment s sh j = Inr gross" "late_penalty sh (sh_milestones sh ! j) gross = Inr pen"
    "k_shipment t = (k_shipment s)(i \<mapsto> sh')"
    "sh_milestones sh' = (sh_milestones sh)[j :=
       (sh_milestones sh ! j)\<lparr>ms_status := Confirmed, ms_proof_submitted_ledger := None\<rparr>]"
    "sh_released_amount sh' = sh_released_amount sh + (gross - pen)"
    "sh_status sh' = (if all_milestones_done sh' then Completed else Active)"
    "sh_open_dispute_count sh' = sh_open_dispute_count sh" "k_dispute_resolved_at t = k_dispute_resolved_at s"
proof -
  obtain sh where g: "k_shipment s i = Some sh" "sh_status sh = Active" "j < length (sh_milestones sh)"
    "ms_status (sh_milestones sh ! j) = ProofSubmitted" "get_effective_auto_confirm_window s sh \<noteq> 0"
    "auto_window_over e s sh (sh_milestones sh ! j) = Inr ()"
    using assms by (auto simp: claim_auto_confirmation_def bindE_Inr get_shipment_Inr assert_active_Inr ensure_Inr
        res_simps vec_get_def split: if_splits option.splits)
  let ?m = "sh_milestones sh ! j"
  let ?m1 = "?m\<lparr>ms_status := Confirmed\<rparr>"
  obtain gross s1 sh1 adv pen s2 net fee s3 s4 where
    c: "milestone_gross_payment s sh j = Inr gross" "consume_advance_for_milestone sh i j s = Inr (s1, sh1, adv)"
       "late_penalty sh1 ?m gross = Inr pen" "deduct_fee e (gross - pen) (sh_token sh1) s1 = Inr (s2, net, fee)"
       "check_circuit_breaker (sequence e) (gross - pen) s2 = Inr s3"
       "check_address_outflow (sh_supplier sh1) (sequence e) (gross - pen) s3 = Inr s4"
    and rest: "(let sh2 = (append_audit_entry e (this e) ''auto_confirmed'' ''claim_auto_confirmation'' sh1)
                 \<lparr>sh_last_confirmed_milestone_index := Some j\<rparr>
     in
     bindE (release_milestone_collateral_share e sh2 i j (record_milestone_timeliness (sh_supplier sh1) ?m1 s4)) (\<lambda>s5.
     bindE (ck_i128 (sh_released_amount sh2 + (gross - pen))) (\<lambda>released.
     let sh3 = (set_milestone j (?m1\<lparr>ms_proof_submitted_ledger := None\<rparr>) sh2)\<lparr>sh_released_amount := released\<rparr>
     in
     bindE (auto_pay e i j sh3 (ms_deadline_ledger ?m) (gross - pen) net adv pen s5) (\<lambda>(s6, sh4).
     bindE (auto_complete e i sh4 s6) (\<lambda>(s7, sh5).
     bindE (ck_i128 ((gross - pen) - adv)) (\<lambda>net_outflow.
     bindE (close_release i sh5 net_outflow s7) (\<lambda>s8.
     Inr (emit [VStr ''chainsettle'', VStr ''milestone_confirmed''] [VStr i, VNat j, VInt (gross - pen)]
            (emit [VStr ''auto_confirmation_claimed'', VStr i]
               [VNat j, VInt (gross - pen), VInt fee, VInt pen] s8))))))))) = Inr t"
    using assms g by (auto simp: claim_auto_confirmation_def bindE_Inr get_shipment_Inr ck_i128_Inr res_simps vec_get_def
        Let_def split: prod.splits)
  let ?sh2 = "(append_audit_entry e (this e) ''auto_confirmed'' ''claim_auto_confirmation'' sh1)
                 \<lparr>sh_last_confirmed_milestone_index := Some j\<rparr>"
  let ?sh3 = "(set_milestone j (?m1\<lparr>ms_proof_submitted_ledger := None\<rparr>) ?sh2)
     \<lparr>sh_released_amount := sh_released_amount ?sh2 + (gross - pen)\<rparr>"
  obtain s5 s6 sh4 s7 sh5 n s8 x y x' y' where
    d: "release_milestone_collateral_share e ?sh2 i j (record_milestone_timeliness (sh_supplier sh1) ?m1 s4) = Inr s5"
       "auto_pay e i j ?sh3 (ms_deadline_ledger ?m) (gross - pen) net adv pen s5 = Inr (s6, sh4)"
       "auto_complete e i sh4 s6 = Inr (s7, sh5)" "close_release i sh5 n s7 = Inr s8"
    and t: "t = emit x y (emit x' y' s8)"
    using rest by (auto simp: Let_def bindE_Inr ck_i128_Inr split: prod.splits)
  have p: "aside s5 s6" "same_deal ?sh3 sh4" using aside_auto_pay [OF d(2)] by simp_all
  have f: "aside s6 s7" "finished sh4 sh5" using auto_complete_Inr [OF d(3)] by simp_all
  have a: "aside s s7"
    using aside_advance [OF c(2)] aside_deduct [OF c(4)] aside_breaker [OF c(5)] aside_outflow [OF c(6)]
      aside_trans [OF aside_timeliness aside_collateral [OF d(1)]] p(1) f(1) by (blast intro: aside_trans)
  have sd: "same_deal sh sh1" by (rule deal_advance(1) [OF c(2)])
  have pen: "late_penalty sh ?m gross = Inr pen"
    using c(3) standing_advance [OF c(2)] c(2)
    by (auto simp: late_penalty_def consume_advance_for_milestone_def bindE_Inr split: if_splits option.splits)
  obtain q where q: "ms_proof_submitted_ledger ?m = Some q" "q + get_effective_auto_confirm_window s sh \<le> sequence e"
    using g(6) by (auto simp: auto_window_over_def bindE_Inr ck_u32_Inr ensure_Inr split: option.splits)
  show thesis
    by (rule that [OF g(1-5) q c(1) pen, where sh' = sh5])
       (use t conjunct1 [OF close_release_Inr [OF d(4)]] close_release_resolved [OF d(4)] asideD [OF a] same_dealD [OF p(2)]
          same_dealD [OF sd] f(2) g all_done_cong [of sh5 sh4] in
         \<open>simp_all add: finished_def set_milestone_def append_audit_entry_def\<close>)
qed

end
