(* ===== verification/SettleDeliver.thy ===== *)
theory SettleDeliver
  imports SettlePaths
begin

text \<open>
  Confirmation by grade and by delivered quantity, and the sum over a sequence of deliveries: what
  they release is the floored share of what has arrived.
\<close>

section \<open>The calls are calm\<close>

lemma calm_confirm:
  assumes "confirm_milestone e b i j s = Inr t"
  shows "calm pr s t"
proof (rule confirm_milestone_cases [OF assms])
  fix sh stats cb s1
  assume a: "k_shipment s i = Some sh" "j < length (sh_milestones sh)"
    "ms_status (sh_milestones sh ! j) = ProofSubmitted" "k_shipment s1 = k_shipment s" and act: "sh_status sh = Active"
    and t: "t = s1 \<and> joint_confirmation_required s sh \<or>
      confirm_settle e b cb i j sh (sh_milestones sh ! j) stats s1 = Inr t"
  note r = confirm_resolved [OF assms]
  from t show ?thesis
  proof
    assume "confirm_settle e b cb i j sh (sh_milestones sh ! j) stats s1 = Inr t"
    then obtain p sh' where k: "k_shipment t = (k_shipment s)(i \<mapsto> sh')"
      "if 0 < sh_holdback_ledgers sh then held e sh j sh' else settled sh j p sh'"
      using confirm_settle_cases a(4) by metis
    obtain m where m: "sh_milestones sh' = (sh_milestones sh)[j := m]" "ms_status m \<noteq> Disputed"
      "sh_open_dispute_count sh' = sh_open_dispute_count sh"
      using k(2) by (auto simp: held_def settled_def split: if_splits)
    have "evolves pr sh sh'" by (rule evolves_move [OF act m(1)]) (use a(3) in \<open>simp_all add: done_status_def\<close>)
    then show ?thesis
      using calm_update [OF a(1) k(1)] quarrels_update [of sh' sh j m] m a(3) r by simp
  qed (use a r in \<open>simp add: calm_same\<close>)
qed

lemma aside_held_deduct:
  assumes "held_deduct e i j sh p s = Inr (t, sh', adv, net, fee)"
  shows "aside s t"
proof -
  obtain s1 s2 s3 where c: "consume_advance_for_milestone sh i j s = Inr (s1, sh', adv)"
    "deduct_fee e p (sh_token sh') s1 = Inr (s2, net, fee)" "check_circuit_breaker (sequence e) p s2 = Inr s3"
    "check_address_outflow (sh_supplier sh') (sequence e) p s3 = Inr t"
    using assms by (auto simp: held_deduct_def bindE_Inr split: prod.splits)
  show ?thesis using aside_advance [OF c(1)] aside_deduct [OF c(2)] aside_breaker [OF c(3)] aside_outflow [OF c(4)]
    by (simp add: aside_def)
qed

lemma aside_held_pay:
  assumes "held_pay e i j sh p net adv s = Inr t"
  shows "aside s t"
proof -
  obtain a0 a1 s1 a s2 s3 primary where c: "pay_logistics e sh p a0 s = Inr (s1, a1)" "pay_referral e sh a1 s1 = Inr (s2, a)"
    "whenE (0 < a) (pay_milestone_to_payees e i j a (sh_supplier sh) (sh_token sh)) s2 = Inr s3"
    "record_release_counters (sh_supplier sh) primary (sh_token sh) p a s3 = Inr t"
    using assms by (auto simp: held_pay_def bindE_Inr split: prod.splits)
  show ?thesis using aside_logistics [OF c(1)] aside_referral [OF c(2)] aside_payout_when [OF c(3)] aside_counters [OF c(4)]
    by (simp add: aside_def)
qed

lemma aside_settle_grade:
  assumes "settle_grade e i j sh g p r s = Inr (t, sh')"
  shows "aside s t"
proof (cases g)
  case (Some x)
  then obtain tok dst c s1 where "whenE c (token_pay e tok (this e) dst r) (s\<lparr>k_pending_grade := (k_pending_grade s)((i, j) := None)\<rparr>) = Inr s1"
    and "aside s1 t"
    using assms by (cases x) (auto simp: settle_grade_def bindE_Inr intro: aside_emit)
  then show ?thesis using aside_pay_when by (fastforce simp: aside_def)
qed (use assms in \<open>simp add: settle_grade_def\<close>)

lemma aside_held_complete:
  assumes "held_complete e i sh s = Inr (t, sh')"
  shows "aside s t"
proof (cases "all_milestones_done sh")
  case True
  then obtain s1 sh1 st s2 where c: "return_early_bonus e sh s = Inr (s1, sh1)"
    "book_completion e i (sh1\<lparr>sh_status := Completed\<rparr>) st s1 = Inr s2"
    "settle_on_completion e i (sh1\<lparr>sh_status := Completed\<rparr>) s2 = Inr (t, sh')"
    using assms by (auto simp: held_complete_def bindE_Inr Let_def split: prod.splits)
  show ?thesis using aside_return_bonus [OF c(1)] aside_book [OF c(2)] aside_completion [OF c(3)] by (simp add: aside_def)
qed (use assms in \<open>simp add: held_complete_def\<close>)

lemma release_held_resolved:
  assumes "release_held_payment e i j s = Inr t"
  shows "k_dispute_resolved_at t = k_dispute_resolved_at s"
proof -
  obtain sh p s1 sh1 adv net fee sh2 s2 s3 g p' r s4 sh3 s5 sh4 n s6 where
    d: "held_deduct e i j sh p s = Inr (s1, sh1, adv, net, fee)" "release_milestone_collateral_share e sh2 i j s1 = Inr s2"
       "held_pay e i j sh2 p net adv s2 = Inr s3" "settle_grade e i j sh2 g p r s3 = Inr (s4, sh3)"
       "held_complete e i sh3 s4 = Inr (s5, sh4)" "close_release i sh4 n s5 = Inr s6"
    and t: "k_dispute_resolved_at t = k_dispute_resolved_at s6"
    using assms
    by (auto simp: release_held_payment_def Let_def bindE_Inr split: if_splits prod.splits)
  show ?thesis
    using t close_release_resolved [OF d(6)] asideD(2) [OF aside_held_deduct [OF d(1)]] asideD(2) [OF aside_collateral [OF d(2)]]
      asideD(2) [OF aside_held_pay [OF d(3)]] asideD(2) [OF aside_settle_grade [OF d(4)]]
      asideD(2) [OF aside_held_complete [OF d(5)]] by simp
qed

lemma calm_release_held:
  assumes "release_held_payment e i j s = Inr t"
  shows "calm pr s t"
proof (rule release_held_settled [OF assms])
  fix sh m gross sh'
  assume act: "sh_status sh = Active" and c: "k_shipment s i = Some sh" "m = sh_milestones sh ! j" "ms_status m = ConfirmedHeld"
    "k_shipment t = (k_shipment s)(i \<mapsto> sh')"
    "sh_milestones sh' = (sh_milestones sh)[j := m\<lparr>ms_status := Confirmed, ms_release_after_ledger := 0\<rparr>]"
    "sh_open_dispute_count sh' = sh_open_dispute_count sh"
  have r: "k_dispute_resolved_at t = k_dispute_resolved_at s"
    by (rule release_held_resolved [OF assms])
  have "evolves pr sh sh'" by (rule evolves_move [OF act c(5)]) (use c(2,3) in \<open>simp_all add: done_status_def\<close>)
  then show ?thesis
    using calm_update [OF c(1,4)] quarrels_update [OF c(5)] c(2,3,6) r by simp
qed

lemma calm_batch_confirm:
  assumes "batch_confirm_milestones e b i js s = Inr t"
  shows "calm pr s t"
proof (cases "js = []")
  case True
  then show ?thesis using assms by (auto simp: batch_confirm_milestones_def bindE_Inr)
next
  case False
  show ?thesis
  proof (rule batch_confirm_Inr [OF assms False])
    fix sh gs sh'
    assume act: "sh_status sh = Active" and c: "k_shipment s i = Some sh" "k_shipment t = (k_shipment s)(i \<mapsto> sh')"
      "\<forall>j \<in> set js. j < length (sh_milestones sh) \<and> ms_status (sh_milestones sh ! j) = ProofSubmitted"
      "sh_milestones sh' = fold (\<lambda>j ms. ms[j := (ms ! j)\<lparr>ms_status := Confirmed\<rparr>]) js (sh_milestones sh)"
      "sh_open_dispute_count sh' = sh_open_dispute_count sh" "k_dispute_resolved_at t = k_dispute_resolved_at s"
    have "quarrels sh' = quarrels sh"
      using c(3) by (auto simp: quarrels_def c(4) confirmed_list intro!: nth_equalityI split: if_splits)
    moreover have "evolves pr sh sh'" using c(3) act by (auto simp: evolves_def c(4) confirmed_list done_status_def)
    ultimately show ?thesis using calm_update [OF c(1,2)] c(5,6) by simp
  qed
qed

lemma calm_auto_confirm:
  assumes "claim_auto_confirmation e i j s = Inr t"
  shows "calm pr s t"
proof (rule auto_confirm_Inr [OF assms])
  fix sh gross pen sh' p
  assume act: "sh_status sh = Active" and c: "k_shipment s i = Some sh" "ms_status (sh_milestones sh ! j) = ProofSubmitted"
    "k_shipment t = (k_shipment s)(i \<mapsto> sh')"
    "sh_milestones sh' = (sh_milestones sh)[j :=
       (sh_milestones sh ! j)\<lparr>ms_status := Confirmed, ms_proof_submitted_ledger := None\<rparr>]"
    "sh_open_dispute_count sh' = sh_open_dispute_count sh" "k_dispute_resolved_at t = k_dispute_resolved_at s"
  have "evolves pr sh sh'" by (rule evolves_move [OF act c(4)]) (use c(2) in \<open>simp_all add: done_status_def\<close>)
  then show ?thesis using calm_update [OF c(1,3)] quarrels_update [OF c(4)] c(2,5,6) by simp
qed

section \<open>Grades\<close>

text \<open>
  A grade of full value confirms; a lower one holds the milestone for the review window with the grade
  on record, and moves no money.
\<close>

lemma record_grade_Inr:
  "k_shipment (record_milestone_grade e i j b g bps p r rel sh s) = (k_shipment s)(i \<mapsto>
     append_audit_entry e b ''milestone_graded'' ''confirm_milestone_graded'' sh)"
  "k_dispute_resolved_at (record_milestone_grade e i j b g bps p r rel sh s) = k_dispute_resolved_at s"
  "calls (record_milestone_grade e i j b g bps p r rel sh s) = calls s"
  "k_pending_grade (record_milestone_grade e i j b g bps p r rel sh s) = k_pending_grade s"
  by (simp_all add: record_milestone_grade_def emit_def)

lemma grade_low_Inr:
  assumes "grade_low e b i j g bps gross sh s = Inr t"
  obtains rel where "rel = sequence e + grade_review_window s sh" "j < length (sh_milestones sh)"
    "ms_status (sh_milestones sh ! j) = ProofSubmitted" "b \<in> set (signers e)" "\<not> joint_confirmation_required s sh"
    "k_shipment t = (k_shipment s)(i \<mapsto> append_audit_entry e b ''milestone_graded'' ''confirm_milestone_graded''
       (set_milestone j ((sh_milestones sh ! j)\<lparr>ms_status := ConfirmedHeld, ms_release_after_ledger := rel\<rparr>) sh))"
    "k_pending_grade t = (k_pending_grade s)((i, j) \<mapsto> (g, bps))"
    "k_dispute_resolved_at t = k_dispute_resolved_at s" "calls t = calls s"
proof -
  let ?m = "(sh_milestones sh ! j)\<lparr>ms_status := ConfirmedHeld, ms_release_after_ledger := sequence e + grade_review_window s sh\<rparr>"
  have q: "k_pending_grade (record_milestone_timeliness a m s) = k_pending_grade s" for a m
    by (auto simp: record_milestone_timeliness_def Let_def emit_def split: option.splits)
  show thesis
    by (rule that [OF refl])
       (use assms q quietD(1,2) [OF quiet_timeliness [of s "sh_supplier sh" ?m]]
          asideD(2) [OF aside_timeliness [of s "sh_supplier sh" ?m]] in
        \<open>auto simp: grade_low_def bindE_Inr require_auth_Inr ensure_Inr res_simps ck_u32_Inr Let_def record_grade_Inr
           set_milestone_def\<close>)
qed

lemma calm_graded:
  assumes "confirm_milestone_graded e b i j g s = Inr t"
  shows "calm pr s t"
proof -
  obtain sh bps gross where sh: "k_shipment s i = Some sh" and act: "sh_status sh = Active"
    and c: "(if bps = 10000
     then bindE (confirm_milestone e b i j s) (\<lambda>s1.
          bindE (get_shipment_internal s1 i) (\<lambda>sh1.
          Inr (record_milestone_grade e i j b g bps gross 0 0 sh1 s1)))
     else grade_low e b i j g bps gross sh s) = Inr t"
    using assms
    by (auto simp: confirm_milestone_graded_def bindE_Inr get_shipment_Inr assert_active_Inr Let_def simp del: if_split)
  show ?thesis
  proof (cases "bps = 10000")
    case True
    then obtain s1 sh1 where d: "confirm_milestone e b i j s = Inr s1" "k_shipment s1 i = Some sh1"
      "t = record_milestone_grade e i j b g bps gross 0 0 sh1 s1"
      using c by (auto simp: bindE_Inr get_shipment_Inr)
    show ?thesis
      by (rule calm_trans [OF calm_confirm [OF d(1)]], rule calm_audit [OF d(2)]) (simp_all add: d(3) record_grade_Inr)
  next
    case False
    then have "grade_low e b i j g bps gross sh s = Inr t" using c by simp
    then obtain rel where r: "ms_status (sh_milestones sh ! j) = ProofSubmitted"
      "k_shipment t = (k_shipment s)(i \<mapsto> append_audit_entry e b ''milestone_graded'' ''confirm_milestone_graded''
       (set_milestone j ((sh_milestones sh ! j)\<lparr>ms_status := ConfirmedHeld, ms_release_after_ledger := rel\<rparr>) sh))"
      "k_dispute_resolved_at t = k_dispute_resolved_at s"
      by (rule grade_low_Inr)
    show ?thesis
      by (rule calm_update [OF sh r(2)])
         (use r act in \<open>auto simp: set_milestone_def append_audit_entry_def done_status_def intro: quarrels_update evolves_move\<close>)
  qed
qed

section \<open>Deliveries\<close>

lemma pay_delivery_Inr:
  assumes "pay_delivery e i j release sh s = Inr (t, sh', fee)"
  shows "aside s t" "sh' = sh\<lparr>sh_released_amount := sh_released_amount sh + max release 0\<rparr>"
proof -
  have "aside s t \<and> sh' = sh\<lparr>sh_released_amount := sh_released_amount sh + max release 0\<rparr>"
  proof (cases "release \<le> 0")
    case True
    then show ?thesis using assms by (simp add: pay_delivery_def)
  next
    case False
    obtain p s1 net bps s2 s3 s4 a s5 where
      c: "deduct_fee_for_shipment_at_completion e release (sh_token sh) i p False s = Inr (s1, net, fee, bps)"
         "check_circuit_breaker (sequence e) release s1 = Inr s2"
         "check_address_outflow (sh_supplier sh) (sequence e) release s2 = Inr s3"
         "pay_logistics e sh release net s3 = Inr (s4, a)" "decrease_total_escrowed (sh_token sh) release s4 = Inr s5"
         "pay_milestone_to_payees e i j a (sh_supplier sh) (sh_token sh) s5 = Inr t"
      and sh': "sh' = sh\<lparr>sh_released_amount := sh_released_amount sh + release\<rparr>"
      using assms False by (auto simp: pay_delivery_def bindE_Inr ck_i128_Inr split: prod.splits)
    show ?thesis
      using aside_deduct_completion [OF c(1)] aside_breaker [OF c(2)] aside_outflow [OF c(3)] aside_logistics [OF c(4)]
        aside_decrease [OF c(5)] aside_payout [OF c(6)] sh' False by (simp add: aside_def)
  qed
  then show "aside s t" "sh' = sh\<lparr>sh_released_amount := sh_released_amount sh + max release 0\<rparr>" by simp_all
qed

text \<open>A delivery that is not the last.\<close>

lemma delivery_Inr:
  assumes "confirm_partial_quantity e b i j q s = Inr t"
    "get_or 0 (k_delivered_quantity s (i, j)) + q \<noteq> expected_quantity s i j"
  obtains sh full target sh' where "k_shipment s i = Some sh" "sh_status sh = Active" "b \<in> set (signers e)" "is_buyer sh b"
    "j < length (sh_milestones sh)" "ms_status (sh_milestones sh ! j) = ProofSubmitted"
    "get_or 0 (k_delivered_quantity s (i, j)) + q < expected_quantity s i j" "0 < q"
    "milestone_full_gross_payment s sh j = Inr full"
    "mul_div full (get_or 0 (k_delivered_quantity s (i, j)) + q) (int (expected_quantity s i j)) = Inr target"
    "k_delivered_quantity t = (k_delivered_quantity s)((i, j) \<mapsto> get_or 0 (k_delivered_quantity s (i, j)) + q)"
    "k_partial_qty_released t = (k_partial_qty_released s)((i, j) \<mapsto> target)"
    "k_shipment t = (k_shipment s)(i \<mapsto> sh')" "sh_milestones sh' = sh_milestones sh" "same_value sh sh'"
    "sh_released_amount sh' = sh_released_amount sh + max (target - get_or 0 (k_partial_qty_released s (i, j))) 0"
    "sh_status sh' = Active" "sh_open_dispute_count sh' = sh_open_dispute_count sh"
    "k_dispute_resolved_at t = k_dispute_resolved_at s" "k_milestone_quantities t = k_milestone_quantities s"
    "k_milestone_splits t = k_milestone_splits s"
proof -
  let ?d = "get_or 0 (k_delivered_quantity s (i, j))" and ?x = "expected_quantity s i j"
  obtain sh where g: "k_shipment s i = Some sh" "sh_status sh = Active" "is_buyer sh b" "j < length (sh_milestones sh)"
    "ms_status (sh_milestones sh ! j) = ProofSubmitted" "q \<noteq> 0" "q \<le> ?x - ?d" "?d \<le> ?x"
    and p: "partial_pay e b i j q (?d + q) ?x sh s = Inr t"
    using assms(1)
    by (auto simp: confirm_partial_quantity_def bindE_Inr get_shipment_Inr assert_active_Inr ensure_Inr res_simps
        vec_get_def ck_u32_Inr ck_sub_def Let_def split: option.splits if_splits)
  let ?s1 = "s\<lparr>k_delivered_quantity := (k_delivered_quantity s)((i, j) \<mapsto> ?d + q)\<rparr>"
  obtain full target s2 sh1 fee x y where f: "milestone_full_gross_payment s sh j = Inr full"
    and tg: "mul_div full (?d + q) (int ?x) = Inr target" and b: "b \<in> set (signers e)"
    and pd: "pay_delivery e i j (target - get_or 0 (k_partial_qty_released s (i, j))) sh
        (?s1\<lparr>k_partial_qty_released := (k_partial_qty_released ?s1)((i, j) \<mapsto> target)\<rparr>) = Inr (s2, sh1, fee)"
    and t: "t = emit x y (partial_audit e b i sh1 s2)"
    using p assms(2) by (auto simp: partial_pay_def bindE_Inr Let_def ck_i128_Inr require_auth_Inr
        emit_partial_quantity_confirmed_def split: prod.splits if_splits)
  note pay = pay_delivery_Inr [OF pd]
  show thesis
    by (rule that [OF g(1,2) b g(3-5) _ _ f tg, where sh' = "append_audit_entry e b ''partial_qty_confirmed''
          ''confirm_partial_quantity'' sh1"])
       (use g asideD [OF pay(1)] pay(2) t assms(2) in
         \<open>auto simp: partial_audit_def append_audit_entry_def same_value_def emit_def\<close>)
qed

lemma calm_delivery:
  assumes "confirm_partial_quantity e b i j q s = Inr t"
  shows "calm pr s t"
proof (cases "get_or 0 (k_delivered_quantity s (i, j)) + q = expected_quantity s i j")
  case True
  let ?x = "expected_quantity s i j"
  obtain sh0 where "partial_pay e b i j q ?x ?x sh0 s = Inr t"
    using assms True by (auto simp: confirm_partial_quantity_def bindE_Inr Let_def ck_u32_Inr)
  then obtain s1 s2 sh1 n where c: "confirm_milestone e b i j s1 = Inr s2" "k_shipment s2 i = Some sh1"
    and s1: "k_shipment s1 = k_shipment s" "k_dispute_resolved_at s1 = k_dispute_resolved_at s"
    and t: "t = emit_partial_quantity_confirmed i j (q, ?x, ?x) n 0 (partial_audit e b i sh1 s2)"
    by (auto simp: partial_pay_def bindE_Inr Let_def get_shipment_Inr)
  have d: "k_shipment t = (k_shipment s2)(i \<mapsto> append_audit_entry e b ''partial_qty_confirmed'' ''confirm_partial_quantity'' sh1)"
    "k_dispute_resolved_at t = k_dispute_resolved_at s2"
    by (simp_all add: t emit_partial_quantity_confirmed_def partial_audit_def)
  show ?thesis
    by (rule calm_trans [OF calm_same_left [OF s1 calm_confirm [OF c(1)]] calm_audit [OF c(2) d]])
next
  case False
  show ?thesis
  proof (rule delivery_Inr [OF assms False])
    fix sh sh'
    assume "sh_status sh = Active" "k_shipment s i = Some sh" "k_shipment t = (k_shipment s)(i \<mapsto> sh')" "sh_milestones sh' = sh_milestones sh"
      "sh_open_dispute_count sh' = sh_open_dispute_count sh" "k_dispute_resolved_at t = k_dispute_resolved_at s"
    then show ?thesis using calm_update [of s i sh t sh'] quarrels_same [of sh' sh] evolves_same [of sh sh'] by simp
  qed
qed

end
