(* ===== verification/SettleJourney.thy ===== *)
theory SettleJourney
  imports SettleDeliver
begin

text \<open>
  The closing calls (cancellation, deadline refunds, recovery), advances, warranty claims, slashing and
  the other calls that write a stored shipment are calm too; the whole life of the contract as a step relation, and the invariant of the dispute
  books from the empty storage on.
\<close>

section \<open>Closing calls\<close>

lemma aside_vault_add: "vault_add a tok n s = Inr t \<Longrightarrow> aside s t"
  by (auto simp: vault_add_def aside_solve)

lemma aside_refund_token [asides]: "refund_token_to_buyer e i sh tok n s = Inr t \<Longrightarrow> aside s t"
  using aside_pay by (auto simp: refund_token_to_buyer_def credit_vault_def bindE_Inr Let_def dest: aside_vault_add split: if_splits)

lemma aside_refund [asides]: "refund_to_buyer e i sh n s = Inr t \<Longrightarrow> aside s t"
  by (auto simp: refund_to_buyer_def intro: asides)

lemma aside_cancel_pay [asides]:
  assumes "cancel_pay e i sh fee refund s = Inr t"
  shows "aside s t"
proof -
  obtain s1 s2 n where c: "whenE (0 < fee) (token_pay e (sh_token sh) (this e) (sh_supplier sh) fee) s = Inr s1"
    "whenE (0 < refund) (refund_to_buyer e i sh refund) s1 = Inr s2" "whenE (0 < n) (refund_to_buyer e i sh n) s2 = Inr t"
    using assms by (auto simp: cancel_pay_def Let_def bindE_Inr)
  have w: "whenE b (refund_to_buyer e i sh k) u = Inr v \<Longrightarrow> aside u v" for b k u v
    using aside_refund by (auto simp: whenE_Inr split: if_splits)
  show ?thesis using aside_pay_when [OF c(1)] w [OF c(2)] w [OF c(3)] by (simp add: aside_def)
qed

text \<open>The holdbacks go back with a line in the audit trail, nothing else of the shipment changes.\<close>

lemma holdbacks_aside:
  assumes "refund_holdbacks_on_cancel e i a sh s = Inr (t, sh')"
  shows "aside s t" "quarrels sh' = quarrels sh" "sh_open_dispute_count sh' = sh_open_dispute_count sh"
    "sh_milestones sh' = sh_milestones sh" "sh_released_amount sh' = sh_released_amount sh"
    "sh_total_amount sh' = sh_total_amount sh" "sh_token sh' = sh_token sh" "sh_supplier sh' = sh_supplier sh"
proof -
  obtain tok dst n s1 where c: "t = s \<and> sh' = sh \<or>
      token_pay e tok (this e) dst n s = Inr s1 \<and>
      (\<exists>s2. decrease_total_escrowed tok n (s1\<lparr>k_retainage_balance := (k_retainage_balance s1)(i := None),
                      k_warranty_balance := (k_warranty_balance s1)(i := None)\<rparr>) = Inr s2 \<and> aside s2 t) \<and>
      sh' = append_audit_entry e a ''holdback_refunded'' ''shipment_cancelled'' sh"
    using assms
    by (auto simp: refund_holdbacks_on_cancel_def Let_def bindE_Inr split: if_splits) (blast intro: aside_emit [THEN iffD2] aside_refl)
  show "aside s t" using c
  proof
    assume d: "token_pay e tok (this e) dst n s = Inr s1 \<and>
      (\<exists>s2. decrease_total_escrowed tok n (s1\<lparr>k_retainage_balance := (k_retainage_balance s1)(i := None),
                      k_warranty_balance := (k_warranty_balance s1)(i := None)\<rparr>) = Inr s2 \<and> aside s2 t) \<and>
      sh' = append_audit_entry e a ''holdback_refunded'' ''shipment_cancelled'' sh"
    then obtain s2 where "decrease_total_escrowed tok n (s1\<lparr>k_retainage_balance := (k_retainage_balance s1)(i := None),
                      k_warranty_balance := (k_warranty_balance s1)(i := None)\<rparr>) = Inr s2" "aside s2 t" by blast
    then show ?thesis using d aside_pay [of e tok "this e" dst n s s1] aside_decrease by (fastforce simp: aside_def)
  qed simp
  show "quarrels sh' = quarrels sh" "sh_open_dispute_count sh' = sh_open_dispute_count sh"
    "sh_milestones sh' = sh_milestones sh" "sh_released_amount sh' = sh_released_amount sh"
    "sh_total_amount sh' = sh_total_amount sh" "sh_token sh' = sh_token sh" "sh_supplier sh' = sh_supplier sh"
    using c by (auto simp: quarrels_def append_audit_entry_def)
qed

lemma release_doc_resolved [simp]:
  "k_dispute_resolved_at (release_shipment_doc_hashes i n s) = k_dispute_resolved_at s"
  by (induction n) (auto simp: release_shipment_doc_hashes_def free_hash_def split: option.splits)

lemma prune_resolved:
  "k_dispute_resolved_at (prune_shipment_auxiliary_keys i n s) x = k_dispute_resolved_at s x \<or>
   k_dispute_resolved_at (prune_shipment_auxiliary_keys i n s) x = None"
  by (cases x) (simp add: prune_shipment_auxiliary_keys_def drop_rows_def)

lemma close_cancelled_resolved: "close_cancelled i sh n s = Inr t \<Longrightarrow> k_dispute_resolved_at t = k_dispute_resolved_at s"
  by (auto simp: close_cancelled_def bindE_Inr)

lemma quarrels_closed [simp]:
  "quarrels (sh\<lparr>sh_status := st, sh_cancellation_reason := rs\<rparr>) = quarrels sh"
  "quarrels (sh\<lparr>sh_status := st\<rparr>) = quarrels sh"
  by (simp_all add: quarrels_def)

lemma aside_closing: "aside s (move_shipment_status_index x y i (increment_reputation_internal e a p q r s))"
  by (rule aside_trans [OF aside_reputation aside_status_index])

lemma calm_cancel_internal:
  assumes "cancel_shipment_internal e b i reason s = Inr t"
  shows "calm pr s t"
proof -
  obtain sh fee r s1 s2 sh1 s4 sh2 n m where act: "sh_status sh = Active" and c: "k_shipment s i = Some sh" "cancel_pay e i sh fee r s = Inr s1"
    "refund_holdbacks_on_cancel e i b sh s1 = Inr (s2, sh1)"
    "close_cancelled i sh2 n (move_shipment_status_index Active Cancelled i (increment_reputation_internal e (sh_supplier sh1) 0 0 1 s2)) = Inr s4"
    and sh2: "sh2 = append_audit_entry e b ''shipment_cancelled'' ''cancel_shipment''
                 (sh1\<lparr>sh_status := Cancelled, sh_cancellation_reason := [BuyerCancelled]\<rparr>)"
    and t: "k_shipment t = k_shipment s4" "k_dispute_resolved_at t = k_dispute_resolved_at (prune_shipment_auxiliary_keys i m s4)"
    using assms
    by (auto simp: cancel_shipment_internal_def bindE_Inr get_shipment_Inr assert_active_Inr Let_def emit_shipment_cancelled_def
        append_audit_entry_def prune_frame split: if_splits prod.splits option.splits)
  note h = holdbacks_aside [OF c(3)]
  have k: "k_shipment t = (k_shipment s)(i \<mapsto> sh2)"
    using t close_cancelled_Inr [OF c(4)] asideD(1) [OF aside_closing] asideD(1) [OF h(1)] asideD(1) [OF aside_cancel_pay [OF c(2)]]
    by simp
  have r: "k_dispute_resolved_at s4 = k_dispute_resolved_at s"
    using close_cancelled_resolved [OF c(4)] asideD(2) [OF aside_closing] asideD(2) [OF h(1)] asideD(2) [OF aside_cancel_pay [OF c(2)]]
    by simp
  have "evolves pr sh sh2" using act h(4) by (intro evolves_same) (simp_all add: sh2 append_audit_entry_def)
  then show ?thesis
    by (intro calm_update [OF c(1) k]) (use h(2,3) prune_resolved [of i m s4] in \<open>simp_all add: sh2 t r\<close>)
qed

lemma calm_cancel: "cancel_shipment e b i s = Inr t \<Longrightarrow> calm pr s t"
  by (auto simp: cancel_shipment_def bindE_Inr intro: calm_cancel_internal)

lemma calm_batch_cancel: "batch_cancel_shipments e b is r s = Inr t \<Longrightarrow> calm pr s t"
  by (auto simp: batch_cancel_shipments_def bindE_Inr intro: calm_fold [OF calm_cancel_internal] split: if_splits)

lemma record_cancellation_resolved:
  "check_and_record_supplier_cancellation a now s = Inr t \<Longrightarrow> k_dispute_resolved_at t = k_dispute_resolved_at s"
  by (auto simp: check_and_record_supplier_cancellation_def bindE_Inr Let_def split: if_splits option.splits prod.splits)

lemma aside_supplier_cancel_pay:
  assumes "supplier_cancel_pay e sh penalty refund s = Inr t"
  shows "aside s t"
proof -
  obtain s1 where c: "whenE (0 < penalty) (token_pay e (sh_token sh) (this e) (sh_supplier sh) penalty) s = Inr s1"
    "whenE (0 < refund) (token_pay e (sh_token sh) (this e) (sh_buyers sh ! 0) refund) s1 = Inr t"
    using assms by (cases "0 < refund") (auto simp: supplier_cancel_pay_def bindE_Inr vec_get_unwrap_Inr)
  show ?thesis using aside_pay_when [OF c(1)] aside_pay_when [OF c(2)] aside_trans by blast
qed

lemma audit_supplier [simp]: "sh_supplier (append_audit_entry e a x y sh) = sh_supplier sh"
  by (simp add: append_audit_entry_def)

lemma supplier_cancel_parts:
  assumes "supplier_cancel e a i s = Inr t"
  obtains sh s1 n penalty s2 s3 sh1 s5 where
    "k_shipment s i = Some sh" "sh_status sh = Active" "a = sh_supplier sh" "a \<in> set (signers e)"
    "unreleased_of sh = Inr n" "mul_div n (cp_penalty_bps (get_or \<lparr>cp_response_deadline = 0, cp_penalty_bps = 0\<rparr> (k_cancel_policy s1 i))) 10000 = Inr penalty"
    "check_and_record_supplier_cancellation a (sequence e) s = Inr s1"
    "supplier_cancel_pay e sh penalty (n - penalty) s1 = Inr s2" "refund_holdbacks_on_cancel e i a sh s2 = Inr (s3, sh1)"
    "close_cancelled i (append_audit_entry e a ''shipment_cancelled'' ''supplier_cancel''
                 (sh1\<lparr>sh_status := Cancelled, sh_cancellation_reason := [SupplierCancelled]\<rparr>)) n
              (move_shipment_status_index Active Cancelled i (increment_reputation_internal e (sh_supplier sh1) 0 0 1 s3)) = Inr s5"
    "k_dispute_resolved_at t = k_dispute_resolved_at s5"
proof -
  show thesis
    using assms
    by (clarsimp simp: supplier_cancel_def bindE_Inr get_shipment_Inr assert_active_Inr require_auth_Inr
        ck_i128_Inr Let_def emit_shipment_cancelled_def release_doc_frame split: if_splits prod.splits)
      (rule that, (assumption | rule refl | simp)+)
qed

lemma calm_supplier_cancel:
  assumes "supplier_cancel e a i s = Inr t"
  shows "calm pr s t"
proof (rule supplier_cancel_cases [OF assms])
  fix sh sh'
  assume act: "sh_status sh = Active" and k: "k_shipment s i = Some sh" "k_shipment t = (k_shipment s)(i \<mapsto> sh')"
    "sh_milestones sh' = sh_milestones sh" "sh_open_dispute_count sh' = sh_open_dispute_count sh"
  have "k_dispute_resolved_at t = k_dispute_resolved_at s"
  proof (rule supplier_cancel_parts [OF assms])
    fix sh0 :: shipment and s1 n penalty s2 s3 sh1 s5
    assume c: "check_and_record_supplier_cancellation a (sequence e) s = Inr s1"
       "supplier_cancel_pay e sh0 penalty (n - penalty) s1 = Inr s2" "refund_holdbacks_on_cancel e i a sh0 s2 = Inr (s3, sh1)"
       "close_cancelled i (append_audit_entry e a ''shipment_cancelled'' ''supplier_cancel''
                 (sh1\<lparr>sh_status := Cancelled, sh_cancellation_reason := [SupplierCancelled]\<rparr>)) n
              (move_shipment_status_index Active Cancelled i (increment_reputation_internal e (sh_supplier sh1) 0 0 1 s3)) = Inr s5"
      and t: "k_dispute_resolved_at t = k_dispute_resolved_at s5"
    show ?thesis
      using t asideD(2) [OF aside_supplier_cancel_pay [OF c(2)]] close_cancelled_resolved [OF c(4)] asideD(2) [OF aside_closing] asideD(2) [OF holdbacks_aside(1) [OF c(3)]]
        record_cancellation_resolved [OF c(1)] by simp
  qed
  then show ?thesis using calm_update [OF k(1,2,4) quarrels_same [OF k(3)] _ evolves_same [OF act k(3)]] by simp
qed

section \<open>Deadline refunds and recovery\<close>

lemma aside_pay_expired:
  assumes "pay_expired e i sh dst refund s = Inr t"
  shows "aside s t"
proof -
  obtain s1 n where c: "whenE (0 < refund) (token_pay e (sh_token sh) (this e) dst refund) s = Inr s1"
    "whenE (0 < n) (token_pay e (sh_token sh) (this e) dst n) s1 = Inr t"
    using assms by (auto simp: pay_expired_def Let_def bindE_Inr)
  show ?thesis using aside_pay_when [OF c(1)] aside_pay_when [OF c(2)] aside_trans by blast
qed

lemma expire_aside:
  assumes "expire_shipment e i caller dst refund sh s = Inr (t, sh')"
  shows "aside s t" "quarrels sh' = quarrels sh" "sh_open_dispute_count sh' = sh_open_dispute_count sh"
    "sh_milestones sh' = sh_milestones sh" "sh_status sh' = Expired" "sh_cancellation_reason sh' = [DeadlineRefund]"
    "sh_released_amount sh' = sh_released_amount sh"
proof -
  obtain s1 s2 s3 sh1 where c: "pay_expired e i sh dst refund s = Inr s1" "decrease_total_escrowed (sh_token sh) refund s1 = Inr s2"
    "refund_holdbacks_on_cancel e i caller sh (move_shipment_status_index Active Expired i s2) = Inr (s3, sh1)"
    and sh': "sh' = sh1\<lparr>sh_status := Expired, sh_cancellation_reason := [DeadlineRefund]\<rparr>"
    and t: "t = increment_reputation_internal e (sh_supplier sh') 0 0 1 s3"
    using assms by (auto simp: expire_shipment_def bindE_Inr Let_def split: prod.splits)
  note h = holdbacks_aside [OF c(3)]
  show "aside s t"
    using aside_pay_expired [OF c(1)] aside_decrease [OF c(2)] aside_status_index [of s2 Active Expired i] h(1)
      aside_reputation [of s3 e "sh_supplier sh'" 0 0 1] by (simp add: aside_def t)
  show "quarrels sh' = quarrels sh" "sh_open_dispute_count sh' = sh_open_dispute_count sh"
    "sh_milestones sh' = sh_milestones sh" "sh_status sh' = Expired" "sh_cancellation_reason sh' = [DeadlineRefund]"
    "sh_released_amount sh' = sh_released_amount sh"
    using h by (simp_all add: sh')
qed

lemma deadline_refund_Inr:
  assumes "claim_deadline_refund e b i j s = Inr t"
  obtains sh n s1 sh' where "k_shipment s i = Some sh" "sh_status sh = Active" "is_buyer sh b" "b \<in> set (signers e)"
    "deadline_missed e s i sh j = Inr ()" "unreleased_of sh = Inr n" "sh_buyers sh \<noteq> []"
    "expire_shipment e i b (sh_buyers sh ! 0) n sh s = Inr (s1, sh')"
    "k_shipment t = (k_shipment s)(i \<mapsto> sh')" "k_dispute_resolved_at t = k_dispute_resolved_at s" "calls t = calls s1"
proof -
  obtain sh n s1 sh' where g: "k_shipment s i = Some sh" "sh_status sh = Active" "is_buyer sh b" "b \<in> set (signers e)"
    "deadline_missed e s i sh j = Inr ()" "unreleased_of sh = Inr n" "sh_buyers sh \<noteq> []"
    and x: "expire_shipment e i b (sh_buyers sh ! 0) n sh s = Inr (s1, sh')"
    and t: "k_shipment t = (k_shipment s1)(i \<mapsto> sh')" "k_dispute_resolved_at t = k_dispute_resolved_at s1" "calls t = calls s1"
    using assms
    by (auto simp: claim_deadline_refund_def bindE_Inr get_shipment_Inr assert_active_Inr require_buyer_auth_def
        assert_is_buyer_def require_auth_Inr ensure_Inr vec_get_unwrap_Inr emit_shipment_cancelled_def split: prod.splits if_splits)
  show thesis
    by (rule that [OF g x]) (use t asideD(1,2) [OF expire_aside(1) [OF x]] in simp_all)
qed

lemma calm_deadline_refund:
  assumes "claim_deadline_refund e b i j s = Inr t"
  shows "calm pr s t"
proof (rule deadline_refund_Inr [OF assms])
  fix sh n s1 sh'
  assume act: "sh_status sh = Active" and c: "k_shipment s i = Some sh"
    "expire_shipment e i b (sh_buyers sh ! 0) n sh s = Inr (s1, sh')"
    "k_shipment t = (k_shipment s)(i \<mapsto> sh')" "k_dispute_resolved_at t = k_dispute_resolved_at s"
  show ?thesis using calm_update [OF c(1,3) expire_aside(3,2) [OF c(2)] _ evolves_same [OF act expire_aside(4) [OF c(2)]]] c(4) by simp
qed

lemma admin_log_frame:
  assumes "append_admin_action e x y s = Inr t"
  shows "k_shipment t = k_shipment s" "k_dispute_resolved_at t = k_dispute_resolved_at s" "calls t = calls s"
  using assms by (auto simp: append_admin_action_def bindE_Inr Let_def split: if_splits)

lemma calm_sweep:
  assumes "sweep_unclaimed_refund e adm i j s = Inr t"
  shows "calm pr s t"
proof -
  obtain sh dst n s1 sh' s2 where act: "sh_status sh = Active" and g: "k_shipment s i = Some sh" "expire_shipment e i adm dst n sh s = Inr (s1, sh')"
    "append_admin_action e ''sweep_unclaimed_refund'' ''unclaimed_refund_swept''
              (s1\<lparr>k_refund_claimable_at := (k_refund_claimable_at s1)((i, j) := None),
                  k_shipment := (k_shipment s1)(i \<mapsto> sh')\<rparr>) = Inr s2"
    and t: "k_shipment t = k_shipment s2" "k_dispute_resolved_at t = k_dispute_resolved_at s2"
    using assms
    by (auto simp: sweep_unclaimed_refund_def bindE_Inr get_shipment_Inr assert_active_Inr Let_def emit_shipment_cancelled_def split: prod.splits)
  have k: "k_shipment t = (k_shipment s)(i \<mapsto> sh')" "k_dispute_resolved_at t = k_dispute_resolved_at s"
    using t admin_log_frame [OF g(3)] asideD(1,2) [OF expire_aside(1) [OF g(2)]] by simp_all
  show ?thesis
    using calm_update [OF g(1) k(1) expire_aside(3,2) [OF g(2)] _ evolves_same [OF act expire_aside(4) [OF g(2)]]] k(2) by simp
qed

text \<open>The administrator's recovery: the account of the administrator, after the threshold.\<close>

lemma emergency_Inr:
  assumes "do_emergency_recover e adm i s = Inr t"
  obtains sh n s1 s2 sh1 where "k_shipment s i = Some sh" "sh_status sh = Active"
    "sh_created_at sh + RECOVERY_THRESHOLD_LEDGERS < sequence e" "unreleased_of sh = Inr n"
    "whenE (0 < n) (token_pay e (sh_token sh) (this e) adm n) s = Inr s1"
    "refund_holdbacks_on_cancel e i adm sh (move_shipment_status_index Active Cancelled i s1) = Inr (s2, sh1)"
    "k_shipment t = (k_shipment s)(i \<mapsto> append_audit_entry e adm ''shipment_cancelled'' ''cancel_shipment''
                 (sh1\<lparr>sh_status := Cancelled, sh_cancellation_reason := [AdminEmergencyRecovery]\<rparr>))"
    "k_dispute_resolved_at t = k_dispute_resolved_at s" "calls t = calls s2"
proof -
  obtain sh n s1 s2 sh1 s3 where g: "k_shipment s i = Some sh" "sh_status sh = Active"
    "sh_created_at sh + RECOVERY_THRESHOLD_LEDGERS < sequence e" "unreleased_of sh = Inr n"
    and c: "whenE (0 < n) (token_pay e (sh_token sh) (this e) adm n) s = Inr s1"
    "refund_holdbacks_on_cancel e i adm sh (move_shipment_status_index Active Cancelled i s1) = Inr (s2, sh1)"
    "decrease_total_escrowed (sh_token (append_audit_entry e adm ''shipment_cancelled'' ''cancel_shipment''
                 (sh1\<lparr>sh_status := Cancelled, sh_cancellation_reason := [AdminEmergencyRecovery]\<rparr>))) n
       (s2\<lparr>k_shipment := (k_shipment s2)(i \<mapsto> append_audit_entry e adm ''shipment_cancelled'' ''cancel_shipment''
                 (sh1\<lparr>sh_status := Cancelled, sh_cancellation_reason := [AdminEmergencyRecovery]\<rparr>))\<rparr>) = Inr s3"
    and t: "k_shipment t = k_shipment s3" "k_dispute_resolved_at t = k_dispute_resolved_at s3" "calls t = calls s3"
    using assms
    by (auto simp: do_emergency_recover_def bindE_Inr get_shipment_Inr assert_active_Inr recovery_due_def ck_u32_Inr
        ensure_Inr Let_def emit_shipment_cancelled_def split: prod.splits if_splits)
  have d: "calls s3 = calls s2" using c(3) by (auto simp: decrease_total_escrowed_def bindE_Inr)
  show thesis
    by (rule that [OF g c(1,2)])
       (use t d asideD(1,2) [OF aside_decrease [OF c(3)]] asideD(1,2) [OF holdbacks_aside(1) [OF c(2)]]
          asideD(1,2) [OF aside_status_index] asideD(1,2) [OF aside_pay_when [OF c(1)]] in simp_all)
qed

lemma calm_emergency:
  assumes "do_emergency_recover e adm i s = Inr t"
  shows "calm pr s t"
proof (rule emergency_Inr [OF assms])
  fix sh n s1 s2 sh1
  assume act: "sh_status sh = Active" and c: "k_shipment s i = Some sh"
    "refund_holdbacks_on_cancel e i adm sh (move_shipment_status_index Active Cancelled i s1) = Inr (s2, sh1)"
    "k_shipment t = (k_shipment s)(i \<mapsto> append_audit_entry e adm ''shipment_cancelled'' ''cancel_shipment''
                 (sh1\<lparr>sh_status := Cancelled, sh_cancellation_reason := [AdminEmergencyRecovery]\<rparr>))"
    "k_dispute_resolved_at t = k_dispute_resolved_at s"
  show ?thesis
    by (rule calm_update [OF c(1,3)])
       (use holdbacks_aside(2,3,4) [OF c(2)] c(4) act in \<open>simp_all add: evolves_same append_audit_entry_def quarrels_def\<close>)
qed

lemma calm_recoveries:
  "emergency_recover e adm i s = Inr t \<Longrightarrow> calm pr s t"
  "propose_emergency_recover e adm i s = Inr t \<Longrightarrow> calm pr s t"
  "execute_emergency_recover e adm i s = Inr t \<Longrightarrow> calm pr s t"
proof -
  show "emergency_recover e adm i s = Inr t \<Longrightarrow> calm pr s t"
    by (auto simp: emergency_recover_def bindE_Inr intro: calm_emergency)
  have log: "append_admin_action e x y u = Inr v \<Longrightarrow> k_shipment u = k_shipment s \<Longrightarrow>
      k_dispute_resolved_at u = k_dispute_resolved_at s \<Longrightarrow> calm pr s v" for x y u v
    using admin_log_frame calm_same by simp
  assume "propose_emergency_recover e adm i s = Inr t"
  then obtain s1 where l: "append_admin_action e ''propose_recovery'' ''recovery_proposed'' s = Inr s1"
    and "do_emergency_recover e adm i s1 = Inr t \<or> k_shipment t = k_shipment s1 \<and> k_dispute_resolved_at t = k_dispute_resolved_at s1"
    by (auto simp: propose_emergency_recover_def bindE_Inr Let_def split: if_splits)
  then show "calm pr s t"
    using calm_trans [OF log [OF l]] calm_emergency calm_same by blast
next
  have log: "append_admin_action e x y u = Inr v \<Longrightarrow> k_shipment u = k_shipment s \<Longrightarrow>
      k_dispute_resolved_at u = k_dispute_resolved_at s \<Longrightarrow> calm pr s v" for x y u v
    using admin_log_frame calm_same by simp
  assume "execute_emergency_recover e adm i s = Inr t"
  then obtain s1 where "append_admin_action e ''execute_recovery'' ''recovery_executed''
      (s\<lparr>k_pending_recovery := (k_pending_recovery s)(i := None)\<rparr>) = Inr s1" "do_emergency_recover e adm i s1 = Inr t"
    by (auto simp: execute_emergency_recover_def bindE_Inr)
  then show "calm pr s t" using calm_trans [OF log] calm_emergency by fastforce
qed

lemma calm_blacklisted:
  assumes "cancel_for_blacklisted_supplier e b i s = Inr t"
  shows "calm pr s t"
proof -
  obtain sh n s1 s2 sh1 sh2 s4 where act: "sh_status sh = Active" and c: "k_shipment s i = Some sh" "cancel_pay e i sh 0 n s = Inr s1"
    "refund_holdbacks_on_cancel e i b sh s1 = Inr (s2, sh1)"
    "decrease_total_escrowed (sh_token sh2) n ((move_shipment_status_index Active Cancelled i s2)
       \<lparr>k_shipment := (k_shipment (move_shipment_status_index Active Cancelled i s2))(i \<mapsto> sh2)\<rparr>) = Inr s4"
    and sh2: "sh2 = append_audit_entry e b ''shipment_cancelled'' ''cancel_blacklisted''
                 (sh1\<lparr>sh_status := Cancelled, sh_cancellation_reason := [BlacklistedSupplier]\<rparr>)"
    and t: "k_shipment t = k_shipment s4" "k_dispute_resolved_at t = k_dispute_resolved_at s4"
    using assms
    by (auto simp: cancel_for_blacklisted_supplier_def bindE_Inr get_shipment_Inr assert_active_Inr Let_def emit_shipment_cancelled_def
        split: prod.splits)
  have k: "k_shipment t = (k_shipment s)(i \<mapsto> sh2)" "k_dispute_resolved_at t = k_dispute_resolved_at s"
    using t asideD(1,2) [OF aside_decrease [OF c(4)]] asideD(1,2) [OF holdbacks_aside(1) [OF c(3)]]
      asideD(1,2) [OF aside_status_index] asideD(1,2) [OF aside_cancel_pay [OF c(2)]] by simp_all
  have "evolves pr sh sh2" using act holdbacks_aside(4) [OF c(3)] by (intro evolves_same) (simp_all add: sh2 append_audit_entry_def)
  then show ?thesis by (intro calm_update [OF c(1) k(1)]) (use holdbacks_aside(2,3) [OF c(3)] k(2) sh2 in simp_all)
qed

section \<open>Advances, warranty claims and slashing\<close>

lemma calm_request: "request_advance e a i j pct s = Inr t \<Longrightarrow> calm pr s t"
  by (auto simp: request_advance_def bindE_Inr intro: calm_same)

lemma aside_pay_advance:
  assumes "pay_advance e i sh n s = Inr t"
  shows "aside s t"
proof -
  consider tok a where "token_pay e tok (this e) a n s = Inr t" | x where "t = s\<lparr>k_pending_payout := x\<rparr>"
    using assms by (auto simp: pay_advance_def bindE_Inr split: option.splits if_splits)
  then show ?thesis by cases (erule aside_pay, simp add: aside_def)
qed

text \<open>An approved advance is paid at once and booked on the shipment and the request.\<close>

lemma approve_Inr:
  assumes "approve_advance e b i j s = Inr t"
  obtains sh req gross n where "k_shipment s i = Some sh" "sh_status sh = Active" "is_buyer sh b" "b \<in> set (signers e)"
    "j < length (sh_milestones sh)" "k_advance_request s (i, j) = Some req" "\<not> ar_approved req"
    "milestone_gross_payment s sh j = Inr gross" "mul_div gross (ar_requested_percent req) 100 = Inr n"
    "k_shipment t = (k_shipment s)(i \<mapsto> sh\<lparr>sh_total_advanced_amount := sh_total_advanced_amount sh + n\<rparr>)"
    "k_dispute_resolved_at t = k_dispute_resolved_at s"
proof -
  obtain sh req gross n s1 s2 s3 s4 where g: "k_shipment s i = Some sh" "sh_status sh = Active" "is_buyer sh b" "b \<in> set (signers e)"
    "j < length (sh_milestones sh)" "k_advance_request s (i, j) = Some req" "\<not> ar_approved req"
    "milestone_gross_payment s sh j = Inr gross" "mul_div gross (ar_requested_percent req) 100 = Inr n"
    and c: "check_circuit_breaker (sequence e) n s = Inr s1" "check_address_outflow (sh_supplier sh) (sequence e) n s1 = Inr s2"
     "pay_advance e i sh n (s2\<lparr>k_advance_request := (k_advance_request s2)((i, j) \<mapsto>
                    req\<lparr>ar_approved := True, ar_amount_advanced := n\<rparr>)\<rparr>) = Inr s3"
     "decrease_total_escrowed (sh_token sh) n
        (s3\<lparr>k_shipment := (k_shipment s3)(i \<mapsto> sh\<lparr>sh_total_advanced_amount := sh_total_advanced_amount sh + n\<rparr>)\<rparr>) = Inr s4"
    and t: "k_shipment t = k_shipment s4" "k_dispute_resolved_at t = k_dispute_resolved_at s4"
    using assms
    by (auto simp: approve_advance_def bindE_Inr get_shipment_Inr assert_active_Inr require_buyer_auth_def
        assert_is_buyer_def require_auth_Inr ensure_Inr expect_Inr ck_i128_Inr split: if_splits)
  show thesis
    by (rule that [OF g])
       (use t asideD(1,2) [OF aside_decrease [OF c(4)]] asideD(1,2) [OF aside_pay_advance [OF c(3)]]
          asideD(1,2) [OF aside_outflow [OF c(2)]] asideD(1,2) [OF aside_breaker [OF c(1)]] in simp_all)
qed

lemma quarrels_advanced [simp]: "quarrels (sh\<lparr>sh_total_advanced_amount := n\<rparr>) = quarrels sh"
  by (simp add: quarrels_def)

lemma calm_approve: "approve_advance e b i j s = Inr t \<Longrightarrow> calm pr s t"
  by (erule approve_Inr) (rule calm_update, assumption, assumption, simp_all add: evolves_same)

lemma calm_warranty:
  "file_warranty_claim e b i h s = Inr t \<Longrightarrow> calm pr s t"
  "resolve_warranty_claim e a i refund s = Inr t \<Longrightarrow> calm pr s t"
  "release_warranty e i s = Inr t \<Longrightarrow> calm pr s t"
proof -
  show "file_warranty_claim e b i h s = Inr t \<Longrightarrow> calm pr s t"
    by (auto simp: file_warranty_claim_def bindE_Inr get_shipment_Inr intro: calm_audit)
next
  assume "resolve_warranty_claim e a i refund s = Inr t"
  moreover have "k_shipment v = k_shipment u \<and> k_dispute_resolved_at v = k_dispute_resolved_at u"
    if "whenE c (\<lambda>s. bindE (token_pay e tok (this e) dst n s) (\<lambda>s2. decrease_total_escrowed tok n
           (s2\<lparr>k_warranty_balance := (k_warranty_balance s2)(i := None)\<rparr>))) u = Inr v" for c tok dst n u v
    using that by (cases c) (auto simp: whenE_Inr bindE_Inr token_pay_Inr decrease_total_escrowed_def)
  ultimately obtain sh x where "k_shipment s i = Some sh" "k_dispute_resolved_at t = k_dispute_resolved_at s"
    "k_shipment t = (k_shipment s)(i \<mapsto> append_audit_entry e a ''warranty_claim_resolved'' x sh)"
    by (fastforce simp: resolve_warranty_claim_def bindE_Inr get_shipment_Inr Let_def simp del: if_split)
  then show "calm pr s t" using calm_audit by blast
next
  assume "release_warranty e i s = Inr t"
  then obtain sh n s1 s2 where sh: "k_shipment s i = Some sh" and c: "token_pay e (sh_token sh) (this e) (sh_supplier sh) n s = Inr s1"
    "decrease_total_escrowed (sh_token sh) n (s1\<lparr>k_warranty_balance := (k_warranty_balance s1)(i := None)\<rparr>) = Inr s2"
    and t: "k_shipment t = (k_shipment s2)(i \<mapsto> append_audit_entry e (this e) ''warranty_released'' ''release_warranty'' sh)"
      "k_dispute_resolved_at t = k_dispute_resolved_at s2"
    by (auto simp: release_warranty_def bindE_Inr get_shipment_Inr Let_def)
  show "calm pr s t"
    using calm_audit [OF sh] t asideD(1,2) [OF aside_decrease [OF c(2)]] asideD(1,2) [OF aside_pay [OF c(1)]] by simp
qed

lemma calm_slash:
  assumes "slash_collateral_for_miss e a i j s = Inr (t, n)"
  shows "calm pr s t"
proof -
  obtain sh s1 where sh: "k_shipment s i = Some sh" and c: "refund_to_buyer e i sh n s = Inr s1"
    and t: "k_shipment t = (k_shipment s1)(i \<mapsto> append_audit_entry e a ''collateral_slashed'' ''slash_collateral'' sh)"
      "k_dispute_resolved_at t = k_dispute_resolved_at s1"
    using assms by (auto simp: slash_collateral_for_miss_def bindE_Inr get_shipment_Inr Let_def)
  show ?thesis using calm_audit [OF sh] t asideD(1,2) [OF aside_refund [OF c]] by simp
qed

section \<open>Other calls on a stored shipment\<close>

text \<open>A change of arbiter, a top-up, a log entry, the end of a pause: no status of a milestone moves.\<close>

lemma calm_stages:
  assumes "k_shipment s i = Some sh" "k_shipment t = (k_shipment s)(i \<mapsto> sh')" "stages sh' = stages sh"
    "sh_open_dispute_count sh' = sh_open_dispute_count sh" "k_dispute_resolved_at t = k_dispute_resolved_at s"
    "evolves pr sh sh'"
  shows "calm pr s t"
proof -
  have "quarrels x = map (\<lambda>p. fst p = Disputed) (stages x)" for x by (simp add: quarrels_def stages_def)
  then have "quarrels sh' = quarrels sh" using assms(3) by simp
  then show ?thesis by (intro calm_update [OF assms(1,2,4)]) (use assms(5,6) in simp_all)
qed

lemma reindex_frame [simp]:
  "k_shipment (reindex_arbiter i a b s) = k_shipment s"
  "k_dispute_resolved_at (reindex_arbiter i a b s) = k_dispute_resolved_at s"
  by (simp_all add: reindex_arbiter_def add_to_party_index_def remove_from_party_index_def Let_def)

lemma calm_arbiter:
  assumes "k_shipment s i = Some sh" "k_shipment t = (k_shipment s)(i \<mapsto> sh')" "k_dispute_resolved_at t = k_dispute_resolved_at s"
    "sh' = sh\<lparr>sh_arbiter := b\<rparr> \<or> sh' = append_audit_entry e a x y (sh\<lparr>sh_arbiter := b\<rparr>)"
  shows "calm pr s t"
proof (rule calm_stages [OF assms(1,2) _ _ assms(3)])
  show st: "stages sh' = stages sh" "sh_open_dispute_count sh' = sh_open_dispute_count sh"
    using assms(4) by (auto simp: stages_def append_audit_entry_def)
  show "evolves pr sh sh'" by (rule evolves_stages [OF st(1)]) (use assms(4) in \<open>auto simp: append_audit_entry_def\<close>)
qed

lemma calm_recuse: "recuse_arbiter e a i s = Inr t \<Longrightarrow> calm pr s t"
  by (auto simp: recuse_arbiter_def bindE_Inr get_shipment_Inr expect_Inr Let_def split: if_splits
      intro: calm_arbiter [OF _ _ _ disjI1 [OF refl]])

lemma calm_rotation: "propose_arbiter_rotation e a i b s = Inr t \<Longrightarrow> calm pr s t"
  by (auto simp: propose_arbiter_rotation_def bindE_Inr get_shipment_Inr Let_def split: if_splits
      intro: calm_same calm_arbiter [OF _ _ _ disjI2 [OF refl]])

lemma calm_backup: "activate_backup_arbiter e i j s = Inr t \<Longrightarrow> calm pr s t"
  by (auto simp: activate_backup_arbiter_def bindE_Inr get_shipment_Inr Let_def split: if_splits
      intro: calm_arbiter [OF _ _ _ disjI1 [OF refl]])

lemma rating_frame:
  assumes "record_rating a n s = Inr t"
  shows "k_shipment t = k_shipment s" "k_dispute_resolved_at t = k_dispute_resolved_at s"
  using assms by (cases "get_or (0, 0) (k_rating_agg s a)"; simp add: record_rating_def Let_def split: if_splits; force)+

lemma calm_rate:
  assumes "rate_counterparty e a i n c s = Inr t"
  shows "calm pr s t"
proof -
  obtain sh b u where sh: "k_shipment s i = Some sh"
    and r: "record_rating b n (s\<lparr>k_shipment_rated := (k_shipment_rated s)((i, a) \<mapsto> True)\<rparr>) = Inr u"
    and t: "t = emit [VStr ''counterparty_rated'', VStr i] [VAddr a, VAddr b, VNat n, VOpt VNat c]
      (u\<lparr>k_shipment := (k_shipment u)(i \<mapsto> append_audit_entry e a ''counterparty_rated'' ''rate_counterparty'' sh)\<rparr>)"
    using assms by (auto simp: rate_counterparty_def bindE_Inr get_shipment_Inr Let_def split: if_split_asm)
  show ?thesis by (rule calm_audit [OF sh]) (simp_all add: t rating_frame [OF r])
qed

lemma calm_incremental: "set_incremental_collateral e b i on s = Inr t \<Longrightarrow> calm pr s t"
  by (auto simp: set_incremental_collateral_def bindE_Inr get_shipment_Inr Let_def intro: calm_audit split: if_splits)

lemma calm_attach:
  "attach_invoice_hash e a i j h s = Inr t \<Longrightarrow> calm pr s t"
  "attach_bol_hash e a i j h s = Inr t \<Longrightarrow> calm pr s t"
  by (auto simp: attach_invoice_hash_def attach_bol_hash_def attach_checks_def register_doc_hash_def bindE_Inr
      get_shipment_Inr Let_def intro: calm_audit split: if_splits option.splits)

lemma buyer_spending_frame:
  "check_and_record_buyer_spending b now n s = Inr t \<Longrightarrow>
     k_shipment t = k_shipment s \<and> k_dispute_resolved_at t = k_dispute_resolved_at s"
  by (auto simp: check_and_record_buyer_spending_def bindE_Inr Let_def
      split: if_splits option.splits prod.splits)

lemma calm_top_up:
  assumes "top_up_escrow e b i n s = Inr t"
  shows "calm pr s t"
proof -
  obtain sh m s1 s2 s3 where sh: "k_shipment s i = Some sh" "sh_status sh = Active"
    and c: "check_and_record_buyer_spending b (sequence e) n s = Inr s1" "token_pay e (sh_token sh) b (this e) n s1 = Inr s2"
      "increase_total_escrowed (sh_token sh) n s2 = Inr s3"
    and t: "k_shipment t = (k_shipment s3)(i \<mapsto> sh\<lparr>sh_total_amount := m\<rparr>)" "k_dispute_resolved_at t = k_dispute_resolved_at s3"
    using assms by (auto simp: top_up_escrow_def bindE_Inr get_shipment_Inr ensure_Inr)
  have "k_shipment s3 = k_shipment s" "k_dispute_resolved_at s3 = k_dispute_resolved_at s"
    using c(3) buyer_spending_frame [OF c(1)] asideD(1,2) [OF aside_pay [OF c(2)]]
    by (auto simp: increase_total_escrowed_def bindE_Inr)
  then show ?thesis
    by (intro calm_stages [OF sh(1), of _ "sh\<lparr>sh_total_amount := m\<rparr>"]) (simp_all add: t stages_def evolves_same sh(2))
qed

lemma bump_stages:
  assumes "bump_shipment_deadlines_for_pause d sh s = (t, sh')"
  shows "stages sh' = stages sh" "sh_open_dispute_count sh' = sh_open_dispute_count sh" "sh_status sh' = sh_status sh"
    "sh_released_amount sh' = sh_released_amount sh" "sh_total_advanced_amount sh' = sh_total_advanced_amount sh"
    "k_shipment t = k_shipment s" "k_dispute_resolved_at t = k_dispute_resolved_at s"
  using assms by (auto simp: bump_shipment_deadlines_for_pause_def stages_def bump_milestone_def comp_def split: if_splits)

lemma calm_resume:
  assumes "resume_shipment e a i s = Inr t"
  shows "calm pr s t"
proof -
  obtain sh where sh: "k_shipment s i = Some sh" and
    c: "k_shipment t = k_shipment s \<and> k_dispute_resolved_at t = k_dispute_resolved_at s \<or>
      (\<exists>d s1 sh1. bump_shipment_deadlines_for_pause d sh s = (s1, sh1) \<and>
         k_shipment t = (k_shipment s1)(i \<mapsto> sh1) \<and> k_dispute_resolved_at t = k_dispute_resolved_at s1)"
    using assms
    by (auto simp: resume_shipment_def bindE_Inr get_shipment_Inr Let_def split: if_splits option.splits prod.splits)
      blast+
  from c show ?thesis
  proof (elim disjE exE conjE)
    fix d s1 sh1
    assume b: "bump_shipment_deadlines_for_pause d sh s = (s1, sh1)"
      and t: "k_shipment t = (k_shipment s1)(i \<mapsto> sh1)" "k_dispute_resolved_at t = k_dispute_resolved_at s1"
    note f = bump_stages [OF b]
    show ?thesis by (rule calm_stages [OF sh _ f(1,2) _ evolves_stages [OF f(1,3-5)]]) (use t f(6,7) in simp_all)
  qed (rule calm_same)
qed

section \<open>The whole life\<close>

text \<open>
  Every modelled call that writes a stored shipment, the archive apart. \<open>over\<close> tells whether the oracles may
  report a breach of a milestone with a ruling on record. Not modelled, hence not steps, are the calls that
  merge, split or append milestones or split a shipment.
\<close>

inductive life_step :: "bool \<Rightarrow> settle \<Rightarrow> settle \<Rightarrow> bool" for over where
  life_dispute: "dispute_step over s t \<Longrightarrow> life_step over s t"
| life_create: "create_shipment e i bs a l r tok n ms opt s = Inr (t, i') \<Longrightarrow> life_step over s t"
| life_auto_id: "create_shipment_auto_id e bs a l r tok n ms opt s = Inr (t, i') \<Longrightarrow> life_step over s t"
| life_template: "create_shipment_from_template e i bs a l r tok n name opt s = Inr (t, i') \<Longrightarrow> life_step over s t"
| life_allowance: "create_shipment_with_allowance e p s = Inr (t, i') \<Longrightarrow> life_step over s t"
| life_standing: "execute_standing_order e oid s = Inr (t, i') \<Longrightarrow> life_step over s t"
| life_proof: "submit_proof e a i j h ty s = Inr t \<Longrightarrow> life_step over s t"
| life_proofs: "batch_submit_proofs e a i ps s = Inr t \<Longrightarrow> life_step over s t"
| life_correct: "correct_proof e a i j h ty s = Inr t \<Longrightarrow> life_step over s t"
| life_attest: "attest_proof e a i j h s = Inr t \<Longrightarrow> life_step over s t"
| life_inspect: "inspector_sign_off e a i j rep s = Inr t \<Longrightarrow> life_step over s t"
| life_confirm: "confirm_milestone e b i j s = Inr t \<Longrightarrow> life_step over s t"
| life_release: "release_held_payment e i j s = Inr t \<Longrightarrow> life_step over s t"
| life_batch: "batch_confirm_milestones e b i js s = Inr t \<Longrightarrow> life_step over s t"
| life_window: "claim_auto_confirmation e i j s = Inr t \<Longrightarrow> life_step over s t"
| life_grade: "confirm_milestone_graded e b i j g s = Inr t \<Longrightarrow> life_step over s t"
| life_delivery: "confirm_partial_quantity e b i j q s = Inr t \<Longrightarrow> life_step over s t"
| life_request: "request_advance e a i j pct s = Inr t \<Longrightarrow> life_step over s t"
| life_advance: "approve_advance e b i j s = Inr t \<Longrightarrow> life_step over s t"
| life_slash: "slash_collateral_for_miss e a i j s = Inr (t, n) \<Longrightarrow> life_step over s t"
| life_cancel: "cancel_shipment e b i s = Inr t \<Longrightarrow> life_step over s t"
| life_cancels: "batch_cancel_shipments e b is r s = Inr t \<Longrightarrow> life_step over s t"
| life_supplier_cancel: "supplier_cancel e a i s = Inr t \<Longrightarrow> life_step over s t"
| life_blacklisted: "cancel_for_blacklisted_supplier e b i s = Inr t \<Longrightarrow> life_step over s t"
| life_expire: "claim_deadline_refund e b i j s = Inr t \<Longrightarrow> life_step over s t"
| life_sweep: "sweep_unclaimed_refund e adm i j s = Inr t \<Longrightarrow> life_step over s t"
| life_recover: "emergency_recover e adm i s = Inr t \<Longrightarrow> life_step over s t"
| life_propose: "propose_emergency_recover e adm i s = Inr t \<Longrightarrow> life_step over s t"
| life_execute: "execute_emergency_recover e adm i s = Inr t \<Longrightarrow> life_step over s t"
| life_claim: "file_warranty_claim e b i h s = Inr t \<Longrightarrow> life_step over s t"
| life_settle_claim: "resolve_warranty_claim e a i refund s = Inr t \<Longrightarrow> life_step over s t"
| life_warranty: "release_warranty e i s = Inr t \<Longrightarrow> life_step over s t"
| life_recuse: "recuse_arbiter e a i s = Inr t \<Longrightarrow> life_step over s t"
| life_rotate: "propose_arbiter_rotation e a i b s = Inr t \<Longrightarrow> life_step over s t"
| life_backup: "activate_backup_arbiter e i j s = Inr t \<Longrightarrow> life_step over s t"
| life_rate: "rate_counterparty e a i n c s = Inr t \<Longrightarrow> life_step over s t"
| life_top_up: "top_up_escrow e b i n s = Inr t \<Longrightarrow> life_step over s t"
| life_incremental: "set_incremental_collateral e b i on s = Inr t \<Longrightarrow> life_step over s t"
| life_invoice: "attach_invoice_hash e a i j h s = Inr t \<Longrightarrow> life_step over s t"
| life_bol: "attach_bol_hash e a i j h s = Inr t \<Longrightarrow> life_step over s t"
| life_resume: "resume_shipment e a i s = Inr t \<Longrightarrow> life_step over s t"

text \<open>A step is a dispute step, one of the three calls that enter proofs, or calm and enters none.\<close>

definition proof_call :: "settle \<Rightarrow> settle \<Rightarrow> bool" where
  "proof_call s t \<longleftrightarrow> (\<exists>e a i j h ty. submit_proof e a i j h ty s = Inr t) \<or>
     (\<exists>e a i ps. batch_submit_proofs e a i ps s = Inr t) \<or> (\<exists>e a i j h. attest_proof e a i j h s = Inr t)"

lemma proof_calm: "proof_call s t \<Longrightarrow> calm True s t"
  using calm_submit calm_batch_submit calm_attest by (auto simp: proof_call_def)

lemma life_step_kinds: "life_step over s t \<Longrightarrow> dispute_step over s t \<or> proof_call s t \<or> calm False s t"
  by (erule life_step.cases, unfold proof_call_def)
     (blast intro: calm_create calm_wrappers calm_standing calm_correct
        calm_inspector calm_confirm calm_release_held calm_batch_confirm calm_auto_confirm calm_graded calm_delivery
        calm_request calm_approve calm_slash calm_cancel calm_batch_cancel calm_supplier_cancel calm_blacklisted
        calm_deadline_refund calm_sweep calm_recoveries calm_warranty
        calm_recuse calm_rotation calm_backup calm_rate calm_top_up calm_incremental calm_attach calm_resume)+

lemma life_step_calm: "life_step over s t \<Longrightarrow> dispute_step over s t \<or> calm True s t"
  using life_step_kinds proof_calm calm_mono by blast

text \<open>From a storage without shipments on, the books of the disputes are kept.\<close>

definition no_shipments :: "settle \<Rightarrow> bool" where
  "no_shipments s \<longleftrightarrow> (\<forall>i. k_shipment s i = None)"

interpretation life: invariant_system no_shipments "life_step over" "dispute_books over" for over
proof
  show "dispute_books over s" if "no_shipments s" for s
    using that by (simp add: no_shipments_def dispute_books_def)
  show "dispute_books over t" if "dispute_books over s" "life_step over s t" for s t
    using life_step_calm [OF that(2)] calm_books [OF that(1)] step_books [OF that(1)] by blast
qed

end
