(* ===== verification/SettleRuns.thy ===== *)
theory SettleRuns
  imports SettleJourney
begin

text \<open>
  Runs of the life of the contract: the statuses of all milestones and the moves of the dispute machine on
  them; a milestone that is confirmed or resolved is not paid again before an appeal; a shipment that is
  not active any more stays as it is.
\<close>

section \<open>The machine of milestone statuses\<close>

text \<open>The statuses of all milestones, and the moves of the machine \<open>status_edge\<close> on them.\<close>

definition statuses :: "settle \<Rightarrow> sid \<times> nat \<Rightarrow> milestone_status option" where
  "statuses s x = (case k_shipment s (fst x) of
     Some sh \<Rightarrow> if snd x < length (sh_milestones sh) then Some (ms_status (sh_milestones sh ! snd x)) else None
   | None \<Rightarrow> None)"

definition machine_move :: "dispute_kind \<Rightarrow> sid \<times> nat \<Rightarrow> (sid \<times> nat \<Rightarrow> milestone_status option) \<Rightarrow>
    (sid \<times> nat \<Rightarrow> milestone_status option) \<Rightarrow> bool" where
  "machine_move k x f g \<longleftrightarrow> f = g \<or> (\<exists>a b. f x = Some a \<and> status_edge k a b \<and> g = f(x \<mapsto> b))"

lemma statuses_update:
  assumes "k_shipment s i = Some sh" "k_shipment t = (k_shipment s)(i \<mapsto> sh')"
    "sh_milestones sh' = (sh_milestones sh)[j := m']"
  shows "statuses t = (if j < length (sh_milestones sh) then (statuses s)((i, j) \<mapsto> ms_status m') else statuses s)"
  using assms by (auto simp: statuses_def fun_eq_iff nth_list_update split: option.splits)

lemma statuses_same:
  assumes "k_shipment s i = Some sh" "k_shipment t = (k_shipment s)(i \<mapsto> sh')" "sh_milestones sh' = sh_milestones sh"
  shows "statuses t = statuses s"
  using assms by (auto simp: statuses_def fun_eq_iff split: option.splits)

lemma struck_machine:
  assumes "struck k i j s t"
  shows "machine_move k (i, j) (statuses s) (statuses t)"
    "\<exists>sh. k_shipment s i = Some sh \<and> sh_status sh = Active"
    "k = Appeal \<Longrightarrow> statuses t = statuses s \<or> k_dispute_resolved_at s (i, j) \<noteq> None"
proof -
  obtain sh sh' where c: "k_shipment s i = Some sh" "sh_status sh = Active" "k_shipment t = (k_shipment s)(i \<mapsto> sh')"
    and m: "sh_milestones sh' = sh_milestones sh \<or> j < length (sh_milestones sh) \<and> forgets k i j s t \<and>
      (\<exists>m'. sh_milestones sh' = (sh_milestones sh)[j := m'] \<and> status_edge k (ms_status (sh_milestones sh ! j)) (ms_status m'))"
    using assms unfolding struck_def by blast
  show "\<exists>sh. k_shipment s i = Some sh \<and> sh_status sh = Active" using c by blast
  show "machine_move k (i, j) (statuses s) (statuses t)"
    using m
  proof (elim disjE conjE exE)
    assume "sh_milestones sh' = sh_milestones sh"
    then show ?thesis using statuses_same [OF c(1,3)] by (simp add: machine_move_def)
  next
    fix m'
    assume d: "j < length (sh_milestones sh)" "sh_milestones sh' = (sh_milestones sh)[j := m']"
      "status_edge k (ms_status (sh_milestones sh ! j)) (ms_status m')"
    have "statuses s (i, j) = Some (ms_status (sh_milestones sh ! j))" using c d by (simp add: statuses_def)
    then show ?thesis using statuses_update [OF c(1,3) d(2)] d(1,3) by (auto simp: machine_move_def)
  qed
  show "statuses t = statuses s \<or> k_dispute_resolved_at s (i, j) \<noteq> None" if "k = Appeal"
    using m statuses_same [OF c(1,3)] that by (auto simp: forgets_def simp del: not_None_eq)
qed

lemma rulings_machine:
  "ruling\<^sup>*\<^sup>* s t \<Longrightarrow> (\<lambda>f g. \<exists>x. machine_move Rule x f g)\<^sup>*\<^sup>* (statuses s) (statuses t)"
proof (induction rule: rtranclp_induct)
  case (step t u)
  then obtain i j where "dispute_call Rule i j t u" by (auto simp: ruling_def)
  then have "\<exists>x. machine_move Rule x (statuses t) (statuses u)" using struck_machine(1) [OF call_struck] by blast
  then show ?case by (rule rtranclp.rtrancl_into_rtrancl [OF step.IH])
qed simp

lemma statuses_Some:
  "statuses s (i, j) = Some a \<longleftrightarrow>
     (\<exists>sh. k_shipment s i = Some sh \<and> j < length (sh_milestones sh) \<and> ms_status (sh_milestones sh ! j) = a)"
  by (auto simp: statuses_def split: option.splits)

section \<open>What a step does to a status\<close>

lemma calm_statuses:
  assumes "calm p s t" "statuses s (i, j) = Some a"
  shows "done_status a \<Longrightarrow> statuses t (i, j) = Some a"
    "\<not> p \<Longrightarrow> statuses t (i, j) = Some ProofSubmitted \<Longrightarrow> a = ProofSubmitted"
proof -
  obtain sh where sh: "k_shipment s i = Some sh" "j < length (sh_milestones sh)" "ms_status (sh_milestones sh ! j) = a"
    using assms(2) by (auto simp: statuses_Some)
  obtain u where u: "k_shipment t i = Some u" "evolves p sh u" using growsD [OF calm_grows [OF assms(1)] sh(1)] by blast
  show "done_status a \<Longrightarrow> statuses t (i, j) = Some a"
    using evolvesD(1) [OF u(2)] evolvesD(2) [OF u(2) sh(2)] u(1) sh(2,3) by (simp add: statuses_Some)
  show "\<not> p \<Longrightarrow> statuses t (i, j) = Some ProofSubmitted \<Longrightarrow> a = ProofSubmitted"
    using evolvesD(3) [OF u(2) _ sh(2)] u(1) sh(3) by (auto simp: statuses_Some)
qed

lemma call_statuses:
  assumes "dispute_call k i j s t" "statuses t x \<noteq> statuses s x"
  shows "x = (i, j) \<and> (\<exists>a b. statuses s x = Some a \<and> status_edge k a b \<and> statuses t x = Some b)"
  using struck_machine(1) [OF call_struck [OF assms(1)]] assms(2) by (auto simp: machine_move_def split: if_splits)

lemma done_edge: "status_edge k a b \<Longrightarrow> done_status a \<Longrightarrow> k = Appeal"
  by (auto simp: status_edge_simps done_status_def)

lemma rulings_status:
  assumes "ruling\<^sup>*\<^sup>* s t" "statuses s x = Some a" "a \<noteq> Disputed"
  shows "statuses t x = Some a"
  using assms
proof (induction rule: rtranclp_induct)
  case (step t u)
  then obtain i j where "dispute_call Rule i j t u" by (auto simp: ruling_def)
  from call_statuses [OF this, of x] step.IH step.prems show ?case by (auto simp: status_edge_simps)
qed

lemma rulings_proved:
  assumes "ruling\<^sup>*\<^sup>* s t" "statuses t x = Some ProofSubmitted"
  shows "statuses s x = Some ProofSubmitted"
  using assms
proof (induction rule: converse_rtranclp_induct)
  case (step s u)
  then obtain i j where c: "dispute_call Rule i j s u" by (auto simp: ruling_def)
  have u: "statuses u x = Some ProofSubmitted" using step.IH step.prems by simp
  have "statuses u x = statuses s x"
  proof (rule ccontr)
    assume "statuses u x \<noteq> statuses s x"
    from call_statuses [OF c this] u show False by (auto simp: status_edge_simps)
  qed
  then show ?case using u by simp
qed

text \<open>Only an appeal takes a confirmed or resolved milestone out of its status.\<close>

lemma life_done:
  assumes "life_step over s t" "statuses s (i, j) = Some a" "done_status a" "\<not> dispute_call Appeal i j s t"
  shows "statuses t (i, j) = Some a"
  using life_step_calm [OF assms(1)]
proof
  assume "dispute_step over s t"
  then show ?thesis
  proof cases
    case (step_call k i' j')
    show ?thesis
    proof (rule ccontr)
      assume n: "statuses t (i, j) \<noteq> Some a"
      then have "(i, j) = (i', j')" "\<exists>b. status_edge k a b"
        using call_statuses [OF step_call(1), of "(i, j)"] assms(2) by auto
      then show False using step_call(1) assms(3,4) done_edge by auto
    qed
  next
    case (step_batch e c rs)
    from rulings_status [OF batch_rulings [OF this] assms(2)] assms(3) show ?thesis by (auto simp: done_status_def)
  qed
qed (use calm_statuses(1) assms(2,3) in blast)

section \<open>Calls that pay\<close>

text \<open>
  The calls that settle milestone \<open>j\<close>: the ways to confirm it, the release after a holdback, and the end of
  a dispute about it.
\<close>

inductive settling_call :: "sid \<Rightarrow> nat \<Rightarrow> settle \<Rightarrow> settle \<Rightarrow> bool" where
  settle_confirm: "confirm_milestone e b i j s = Inr t \<Longrightarrow> settling_call i j s t"
| settle_release: "release_held_payment e i j s = Inr t \<Longrightarrow> settling_call i j s t"
| settle_window: "claim_auto_confirmation e i j s = Inr t \<Longrightarrow> settling_call i j s t"
| settle_batch: "batch_confirm_milestones e b i js s = Inr t \<Longrightarrow> j \<in> set js \<Longrightarrow> settling_call i j s t"
| settle_rule: "resolve_dispute e a i j approve reason s = Inr t \<Longrightarrow> settling_call i j s t"
| settle_split: "resolve_dispute_split e a i j bps s = Inr t \<Longrightarrow> settling_call i j s t"
| settle_vote: "cast_dispute_vote e a i j approve s = Inr t \<Longrightarrow> settling_call i j s t"
| settle_final: "finalize_dispute_resolution e i j s = Inr t \<Longrightarrow> settling_call i j s t"

text \<open>Every call that pays on milestone \<open>j\<close>, an approved advance apart.\<close>

inductive paying_call :: "sid \<Rightarrow> nat \<Rightarrow> settle \<Rightarrow> settle \<Rightarrow> bool" where
  pay_settling: "settling_call i j s t \<Longrightarrow> paying_call i j s t"
| pay_grade: "confirm_milestone_graded e b i j g s = Inr t \<Longrightarrow> paying_call i j s t"
| pay_goods: "confirm_partial_quantity e b i j q s = Inr t \<Longrightarrow> paying_call i j s t"
| pay_partial: "raise_partial_dispute e b i j pct s = Inr t \<Longrightarrow> paying_call i j s t"
| pay_timeout: "resolve_dispute_timeout e i j s = Inr t \<Longrightarrow> paying_call i j s t"
| pay_mediated: "accept_mediation e c i j s = Inr t \<Longrightarrow> paying_call i j s t"
| pay_rulings: "batch_resolve_disputes e a rs s = Inr t \<Longrightarrow> (i, j, approve, reason) \<in> set rs \<Longrightarrow> paying_call i j s t"

definition settled_at :: "sid \<Rightarrow> nat \<Rightarrow> settle \<Rightarrow> bool" where
  "settled_at i j s \<longleftrightarrow> statuses s (i, j) = Some Confirmed \<or> statuses s (i, j) = Some Resolved"

lemma settled_at_done: "settled_at i j s \<longleftrightarrow> (\<exists>a. statuses s (i, j) = Some a \<and> done_status a)"
  by (auto simp: settled_at_def done_status_def)

lemma unsettledI:
  assumes "k_shipment s i = Some sh"
    "ms_status (sh_milestones sh ! j) \<in> {Pending, ProofSubmitted, ConfirmedHeld, Disputed, ResolvedPendingFinality}"
  shows "\<not> settled_at i j s"
  using assms by (auto simp: settled_at_def statuses_Some)

lemma settling_open: "settling_call i j s t \<Longrightarrow> \<not> settled_at i j s"
proof (induction rule: settling_call.induct)
  case (settle_batch e b i js s t j)
  then have "js \<noteq> []" by auto
  show ?case
    by (rule batch_confirm_Inr [OF settle_batch(1) \<open>js \<noteq> []\<close>])
       (use settle_batch(2) in \<open>auto simp: settled_at_def statuses_Some\<close>)
qed (erule confirm_milestone_cases release_held_settled auto_confirm_Inr resolve_dispute_cases resolve_split_cases
       cast_vote_cases finalize_cases; auto simp: settled_at_def statuses_Some)+

lemma verdict_pays:
  "snd (verdict e s i j approve n m) \<noteq> 0 \<longrightarrow> ms_status (fst (verdict e s i j approve n m)) = Resolved"
  "snd (split_verdict e park n m) \<noteq> 0 \<longrightarrow> ms_status (fst (split_verdict e park n m)) = Resolved"
  "snd (panel_verdict approve part n) \<noteq> 0 \<longrightarrow> fst (panel_verdict approve part n) = Resolved"
  by (simp_all add: verdict_def split_verdict_def panel_verdict_def Let_def)

lemma settling_done:
  assumes "settling_call i j s t" "k_shipment s i = Some sh" "k_shipment t i = Some sh'"
    "sh_released_amount sh' \<noteq> sh_released_amount sh"
  shows "settled_at i j t"
proof -
  have now: "settled_at i j t" if "j < length (sh_milestones sh)" "sh_milestones sh' = (sh_milestones sh)[j := m]"
    "ms_status m = Confirmed \<or> ms_status m = Resolved" for m
    using that assms(3) by (auto simp: settled_at_def statuses_Some)
  have ruled: "settled_at i j t" if "j < length (sh_milestones sh)" "ruled i j sh m n s t"
    "n \<noteq> 0 \<longrightarrow> ms_status m = Resolved" for m n
    using that assms(3,4) now by (auto simp: ruled_def)
  show ?thesis
    using assms(1)
  proof cases
    case (settle_confirm e b)
    then show ?thesis
      by (rule confirm_milestone_cases; elim disjE)
         (use assms(2-4) in \<open>auto simp: held_def settled_def settled_at_def statuses_Some split: if_splits elim!: confirm_settle_cases\<close>)
  next
    case (settle_release e)
    then show ?thesis by (rule release_held_settled) (use assms(2,3) now in auto)
  next
    case (settle_window e)
    then show ?thesis by (rule auto_confirm_Inr) (use assms(2,3) now in auto)
  next
    case (settle_batch e b js)
    then have "js \<noteq> []" by auto
    show ?thesis
      by (rule batch_confirm_Inr [OF settle_batch(1) \<open>js \<noteq> []\<close>])
         (use settle_batch(2) assms(2,3) in \<open>auto simp: settled_at_def statuses_Some confirmed_list\<close>)
  next
    case (settle_rule e a approve reason)
    then show ?thesis
      by (rule resolve_dispute_cases) (use assms(2) ruled [OF _ _ verdict_pays(1)] in simp)
  next
    case (settle_split e a bps)
    then show ?thesis
      by (rule resolve_split_cases) (use assms(2) ruled [OF _ _ verdict_pays(2)] in simp)
  next
    case (settle_vote e a approve)
    then show ?thesis
      by (rule cast_vote_cases)
         (use assms(2-4) ruled in \<open>auto simp: voted_def panel_verdict_def simp del: not_None_eq split: if_splits\<close>)
  next
    case (settle_final e)
    then show ?thesis by (rule finalize_cases) (use assms(2,3) now in \<open>auto simp: finalized_def\<close>)
  qed
qed

text \<open>No paying call on a settled milestone returns; a batch of rulings stops at it.\<close>

lemma rulings_open:
  assumes "foldE (\<lambda>(i, j, approve, reason). resolve_dispute e a i j approve reason) rs s = Inr t"
    "(i, j, approve, reason) \<in> set rs"
  shows "\<not> settled_at i j s"
  using assms
proof (induction rs arbitrary: s)
  case (Cons r rs)
  obtain i' j' approve' reason' where r: "r = (i', j', approve', reason')" by (cases r)
  then obtain u where u: "resolve_dispute e a i' j' approve' reason' s = Inr u"
    "foldE (\<lambda>(i, j, approve, reason). resolve_dispute e a i j approve reason) rs u = Inr t"
    using Cons.prems(1) by (auto simp: bindE_Inr)
  show ?case
  proof (cases "(i', j') = (i, j)")
    case True
    then show ?thesis using settling_open [OF settle_rule [OF u(1)]] by simp
  next
    case False
    then have "\<not> settled_at i j u" using Cons.IH [OF u(2)] Cons.prems(2) r by auto
    then show ?thesis using call_statuses [OF call_rule [OF u(1)], of "(i, j)"] False by (auto simp: settled_at_def)
  qed
qed simp

lemma partial_open:
  assumes "confirm_partial_quantity e b i j q s = Inr t"
  shows "\<not> settled_at i j s"
  using assms by (auto simp: confirm_partial_quantity_def bindE_Inr get_shipment_Inr ensure_Inr res_simps vec_get_def Let_def
      settled_at_def statuses_Some split: option.splits if_splits)

lemma grade_open:
  assumes "confirm_milestone_graded e b i j g s = Inr t"
  shows "\<not> settled_at i j s"
proof -
  obtain sh bps gross where sh: "k_shipment s i = Some sh"
    and c: "(if bps = 10000
     then bindE (confirm_milestone e b i j s) (\<lambda>s1.
          bindE (get_shipment_internal s1 i) (\<lambda>sh1.
          Inr (record_milestone_grade e i j b g bps gross 0 0 sh1 s1)))
     else grade_low e b i j g bps gross sh s) = Inr t"
    using assms
    by (auto simp: confirm_milestone_graded_def bindE_Inr get_shipment_Inr Let_def simp del: if_split)
  show ?thesis
  proof (cases "bps = 10000")
    case True
    then obtain s1 where "confirm_milestone e b i j s = Inr s1" using c by (auto simp: bindE_Inr)
    then show ?thesis by (rule settling_open [OF settle_confirm])
  next
    case False
    then have "grade_low e b i j g bps gross sh s = Inr t" using c by simp
    then show ?thesis by (rule grade_low_Inr) (use sh in \<open>auto simp: settled_at_def statuses_Some\<close>)
  qed
qed

lemma paying_open: "paying_call i j s t \<Longrightarrow> \<not> settled_at i j s"
proof (induction rule: paying_call.induct)
  case (pay_timeout e i j s t)
  then show ?case
    by (auto simp: resolve_dispute_timeout_def Let_def res_simps settled_at_def statuses_Some)
next
  case (pay_mediated e c i j s t)
  then show ?case
    by (auto simp: accept_mediation_def res_simps settled_at_def statuses_Some)
next
  case (pay_partial e b i j pct s t)
  then show ?case by (rule raise_partial_cases) (auto simp: settled_at_def statuses_Some)
next
  case (pay_rulings e a rs s t i j approve reason)
  then show ?case by (auto simp: batch_resolve_disputes_def bindE_Inr dest: rulings_open)
qed (simp_all add: settling_open partial_open grade_open)

section \<open>Closed shipments\<close>

definition kept :: "shipment \<Rightarrow> shipment \<Rightarrow> bool" where
  "kept a b \<longleftrightarrow> sh_status b = sh_status a \<and> stages b = stages a \<and> sh_released_amount b = sh_released_amount a \<and>
     sh_total_advanced_amount b = sh_total_advanced_amount a"

lemma call_closed:
  assumes "dispute_call k i' j s t" "k_shipment s i = Some sh" "sh_status sh \<noteq> Active"
  shows "k_shipment t i = Some sh"
proof -
  obtain sh1 sh2 where "k_shipment s i' = Some sh1" "sh_status sh1 = Active" "k_shipment t = (k_shipment s)(i' \<mapsto> sh2)"
    using call_struck [OF assms(1)] unfolding struck_def by blast
  then show ?thesis using assms(2,3) by auto
qed

lemma rulings_closed:
  assumes "ruling\<^sup>*\<^sup>* s t" "k_shipment s i = Some sh" "sh_status sh \<noteq> Active"
  shows "k_shipment t i = Some sh"
  using assms by (induction rule: rtranclp_induct) (auto simp: ruling_def intro: call_closed)

lemma life_closed:
  assumes "life_step over s t" "k_shipment s i = Some sh" "sh_status sh \<noteq> Active"
  shows "\<exists>sh'. k_shipment t i = Some sh' \<and> kept sh sh'"
  using life_step_calm [OF assms(1)]
proof
  assume "dispute_step over s t"
  then have "k_shipment t i = Some sh"
  proof cases
    case (step_call k i' j')
    show ?thesis by (rule call_closed [OF step_call(1) assms(2,3)])
  next
    case (step_batch e a rs)
    show ?thesis by (rule rulings_closed [OF batch_rulings [OF step_batch] assms(2,3)])
  qed
  then show ?thesis by (simp add: kept_def)
next
  assume c: "calm True s t"
  obtain u where u: "k_shipment t i = Some u" "evolves True sh u" using growsD [OF calm_grows [OF c] assms(2)] by blast
  have "kept sh u" using evolvesD(4-7) [OF u(2) assms(3)] by (simp add: kept_def)
  then show ?thesis using u(1) by simp
qed

lemma life_closed_run:
  assumes "(life_step over)\<^sup>*\<^sup>* s t" "k_shipment s i = Some sh" "sh_status sh \<noteq> Active"
  shows "\<exists>sh'. k_shipment t i = Some sh' \<and> kept sh sh'"
  using assms(1)
proof (induction rule: rtranclp_induct)
  case (step t u)
  then obtain x where x: "k_shipment t i = Some x" "kept sh x" by blast
  then have "sh_status x \<noteq> Active" using assms(3) by (simp add: kept_def)
  then show ?case using life_closed [OF step(2) x(1)] x(2) by (auto simp: kept_def)
qed (simp add: assms(2) kept_def)

text \<open>The calls that move the escrow, the holdbacks or the collateral of shipment \<open>i\<close> before it is closed.\<close>

inductive escrow_call :: "sid \<Rightarrow> settle \<Rightarrow> settle \<Rightarrow> bool" where
  escrow_settle: "settling_call i j s t \<Longrightarrow> escrow_call i s t"
| escrow_goods: "confirm_partial_quantity e b i j q s = Inr t \<Longrightarrow> escrow_call i s t"
| escrow_dispute: "dispute_call k i j s t \<Longrightarrow> escrow_call i s t"
| escrow_advance: "approve_advance e b i j s = Inr t \<Longrightarrow> escrow_call i s t"
| escrow_top_up: "top_up_escrow e b i n s = Inr t \<Longrightarrow> escrow_call i s t"
| escrow_slash: "slash_collateral_for_miss e a i j s = Inr (t, n) \<Longrightarrow> escrow_call i s t"
| escrow_cancel: "cancel_shipment e b i s = Inr t \<Longrightarrow> escrow_call i s t"
| escrow_supplier: "supplier_cancel e a i s = Inr t \<Longrightarrow> escrow_call i s t"
| escrow_blacklist: "cancel_for_blacklisted_supplier e b i s = Inr t \<Longrightarrow> escrow_call i s t"
| escrow_deadline: "claim_deadline_refund e b i j s = Inr t \<Longrightarrow> escrow_call i s t"
| escrow_sweep: "sweep_unclaimed_refund e adm i j s = Inr t \<Longrightarrow> escrow_call i s t"
| escrow_recover: "emergency_recover e adm i s = Inr t \<Longrightarrow> escrow_call i s t"
| escrow_execute: "execute_emergency_recover e adm i s = Inr t \<Longrightarrow> escrow_call i s t"

lemma settling_active: "settling_call i j s t \<Longrightarrow> \<exists>sh. k_shipment s i = Some sh \<and> sh_status sh = Active"
proof (induction rule: settling_call.induct)
  case (settle_batch e b i js s t j)
  then have "js \<noteq> []" by auto
  show ?case by (rule batch_confirm_Inr [OF settle_batch(1) \<open>js \<noteq> []\<close>]) blast
qed (erule confirm_milestone_cases release_held_settled auto_confirm_Inr resolve_dispute_cases resolve_split_cases
       cast_vote_cases finalize_cases; blast)+

lemma escrow_active: "escrow_call i s t \<Longrightarrow> \<exists>sh. k_shipment s i = Some sh \<and> sh_status sh = Active"
proof (induction rule: escrow_call.induct)
  case (escrow_settle i j s t)
  then show ?case by (rule settling_active)
next
  case (escrow_goods e b i j q s t)
  then show ?case by (auto simp: confirm_partial_quantity_def bindE_Inr get_shipment_Inr assert_active_Inr)
next
  case (escrow_dispute k i j s t)
  then show ?case using struck_machine(2) [OF call_struck] by blast
next
  case (escrow_cancel e b i s t)
  then show ?case by (auto simp: cancel_shipment_def cancel_shipment_internal_def bindE_Inr get_shipment_Inr assert_active_Inr)
next
  case (escrow_execute e adm i s t)
  then obtain u v where "append_admin_action e ''execute_recovery'' ''recovery_executed''
      (s\<lparr>k_pending_recovery := (k_pending_recovery s)(i := None)\<rparr>) = Inr u" "do_emergency_recover e adm i u = Inr v"
    by (auto simp: execute_emergency_recover_def bindE_Inr)
  then show ?case using admin_log_frame(1) by (elim emergency_Inr) fastforce
next
  case (escrow_recover e adm i s t)
  then show ?case by (auto simp: emergency_recover_def bindE_Inr elim: emergency_Inr)
qed (auto simp: approve_advance_def top_up_escrow_def slash_collateral_for_miss_def supplier_cancel_def
      cancel_for_blacklisted_supplier_def claim_deadline_refund_def sweep_unclaimed_refund_def
      bindE_Inr get_shipment_Inr assert_active_Inr ensure_Inr Let_def)

end
