(* ===== verification/DisputeProperties.thy ===== *)
theory DisputeProperties
  imports DisputeSample SettleRuns
begin

text \<open>
  The properties of disputes, rulings, splits, appeals, timeouts and panels, each with a closed
  instance.
\<close>

section \<open>The machine of milestone statuses\<close>

text \<open>C6. The dispute calls implement the machine \<open>status_edge\<close> of milestone statuses, in every state. A call of
  kind \<open>k\<close> on milestone \<open>(i, j)\<close> (raised in full or in part; reported as a breach by the oracles; withdrawn;
  ruled by the arbiter, a split, a timeout, a panel's vote or an accepted mediation; finalised; appealed)
  works on an active shipment and leaves all statuses alone, or moves that one milestone along an edge of its
  kind: a buyer disputes a submitted or held milestone, the oracles also a pending one, a ruling takes a
  disputed one to resolved, pending or waiting for finality, a withdrawal back to submitted, and an appeal,
  which needs a ruling on record, takes any status to disputed. A batch of rulings is a sequence of moves of
  the arbiter's kind.\<close>

theorem dispute_refines_machine:
  assumes "dispute_call k i j s t \<or> k = Rule \<and> batch_resolve_disputes e a rs s = Inr t"
  shows "(\<lambda>f g. \<exists>x. machine_move k x f g)\<^sup>*\<^sup>* (statuses s) (statuses t) \<and>
    (dispute_call k i j s t \<longrightarrow> machine_move k (i, j) (statuses s) (statuses t) \<and>
       (\<exists>sh. k_shipment s i = Some sh \<and> sh_status sh = Active) \<and>
       (k = Appeal \<longrightarrow> statuses t = statuses s \<or> k_dispute_resolved_at s (i, j) \<noteq> None))"
proof -
  have c: "machine_move k (i, j) (statuses s) (statuses t)" "\<exists>sh. k_shipment s i = Some sh \<and> sh_status sh = Active"
    "k = Appeal \<Longrightarrow> statuses t = statuses s \<or> k_dispute_resolved_at s (i, j) \<noteq> None" if "dispute_call k i j s t"
    using struck_machine [OF call_struck [OF that]] by blast+
  have "(\<lambda>f g. \<exists>x. machine_move k x f g)\<^sup>*\<^sup>* (statuses s) (statuses t)"
    using assms
  proof
    assume "dispute_call k i j s t"
    then show ?thesis using c(1) by (intro r_into_rtranclp) blast
  next
    assume "k = Rule \<and> batch_resolve_disputes e a rs s = Inr t"
    then show ?thesis using rulings_machine [OF batch_rulings] by blast
  qed
  with c show ?thesis by blast
qed

theorem dispute_refines_machine_witness:
  "\<exists>t b. raise_dispute (env_at 20) buyer0 ''S'' 0 state0 = Inr t \<and> status_edge Raise ProofSubmitted b \<and>
     statuses state0 (''S'', 0) = Some ProofSubmitted \<and> statuses t = (statuses state0)((''S'', 0) \<mapsto> b)"
proof -
  obtain t where t: "raise_dispute (env_at 20) buyer0 ''S'' 0 state0 = Inr t" using raise_state0 by blast
  have r: "raised (env_at 20) ''S'' 0 deal0 0 state0 t" and s: "statuses state0 (''S'', 0) = Some ProofSubmitted"
    using raise_dispute_cases [OF t] deal0_facts(1)
    by (auto simp: deal0_def shipment0_def milestone0_def state0_def statuses_def)
  then have "statuses t (''S'', 0) \<noteq> statuses state0 (''S'', 0)"
    using deal0_facts(1) by (auto simp: raised_def statuses_def disputed_milestone_def split: if_splits)
  then have "statuses state0 \<noteq> statuses t" by metis
  moreover have "machine_move Raise (''S'', 0) (statuses state0) (statuses t)"
    using dispute_refines_machine [OF disjI1 [OF call_raise [OF t]]] call_raise [OF t] by blast
  ultimately show ?thesis using t s by (auto simp: machine_move_def)
qed

section \<open>Rulings\<close>

text \<open>C11. What a ruling of the arbiter needs and does: signature of the shipment's arbiter, an active
  shipment, a disputed milestone that no panel holds. Then the milestone is resolved (and its contested
  gross value released) when the supplier wins, when a grade was contested or when only a part was; it
  waits for the finality delay when the supplier wins and one is set; otherwise it goes back to pending.
  One open dispute less, the ruling goes on record, and the shipment completes exactly when every
  milestone is done. No other shipment changes.\<close>

theorem ruling_outcome:
  assumes "resolve_dispute e a i j approve reason s = Inr t"
  shows "\<exists>sh full payment. k_shipment s i = Some sh \<and> sh_status sh = Active \<and> a = sh_arbiter sh \<and> a \<in> set (signers e) \<and>
    j < length (sh_milestones sh) \<and> ms_status (sh_milestones sh ! j) = Disputed \<and> \<not> is_dispute_panel_escalated s i j \<and>
    milestone_gross_payment s sh j = Inr full \<and>
    contested_payment full (k_dispute_contested_percent s (i, j)) = Inr payment \<and>
    ruled i j sh (fst (verdict e s i j approve payment (sh_milestones sh ! j)))
      (snd (verdict e s i j approve payment (sh_milestones sh ! j))) s t \<and>
    k_dispute_resolved_at t (i, j) = Some (sequence e)"
  using assms by (rule resolve_dispute_cases) blast

theorem ruling_outcome_witness:
  "\<exists>t sh'. resolve_dispute (env_at 20) arbiter0 ''S'' 0 True None court0 = Inr t \<and> k_shipment t ''S'' = Some sh' \<and>
     sh_released_amount sh' = 600 \<and> sh_open_dispute_count sh' = 0 \<and> sh_status sh' = Active"
proof -
  obtain t where t: "resolve_dispute (env_at 20) arbiter0 ''S'' 0 True None court0 = Inr t" using rule_court0 by blast
  from ruling_outcome [OF t] obtain full payment where
    p: "milestone_gross_payment court0 deal_court 0 = Inr full"
      "contested_payment full (k_dispute_contested_percent court0 (''S'', 0)) = Inr payment"
    and r: "ruled ''S'' 0 deal_court (fst (verdict (env_at 20) court0 ''S'' 0 True payment (sh_milestones deal_court ! 0)))
      (snd (verdict (env_at 20) court0 ''S'' 0 True payment (sh_milestones deal_court ! 0))) court0 t"
    using court_facts(1) by auto
  have pay: "payment = 600" using p by (simp add: court_defs court_eval cong: eval_cong option.case_cong)
  have v: "verdict (env_at 20) court0 ''S'' 0 True 600 m = (m\<lparr>ms_status := Resolved\<rparr>, 600)" for m
    by (simp add: verdict_def court_defs)
  obtain sh' where "k_shipment t ''S'' = Some sh'" "sh_released_amount sh' = 600" "sh_open_dispute_count sh' = 0"
    "sh_milestones sh' = (sh_milestones deal_court)[0 := (sh_milestones deal_court ! 0)\<lparr>ms_status := Resolved\<rparr>]"
    "sh_status sh' = (if all_milestones_done sh' then Completed else Active)"
    using r unfolding pay v by (auto simp: ruled_def deal_court_def shipment0_def)
  moreover from this have "\<not> all_milestones_done sh'"
    by (simp add: all_milestones_done_def done_status_def deal_court_def shipment0_def milestone0_def)
  ultimately show ?thesis using t by auto
qed

text \<open>C35. An appeal reopens a ruling that has paid, and the second ruling pays again. With no finality
  delay and nothing contested in part, a ruling for the supplier, an appeal of it and a second ruling for
  the supplier release the gross value of the milestone twice, beyond the shipment's total if need be:
  the appeal neither looks at the status of the milestone nor takes the first payment back.\<close>

theorem appeal_pays_twice:
  assumes "resolve_dispute e a i j True reason s = Inr t" "appeal_dispute e' c i j t = Inr u"
    "resolve_dispute e2 b i j True reason2 u = Inr v"
    and "k_dispute_contested_percent s (i, j) = None" "k_dispute_contested_percent u (i, j) = None"
    and "get_or 0 (k_finality_delay_ledgers s) = 0" "get_or 0 (k_finality_delay_ledgers u) = 0"
  shows "\<exists>sh sh2 sh' first second. k_shipment s i = Some sh \<and> k_shipment u i = Some sh2 \<and> k_shipment v i = Some sh' \<and>
    milestone_gross_payment s sh j = Inr first \<and> milestone_gross_payment u sh2 j = Inr second \<and>
    sh_released_amount sh' = sh_released_amount sh + first + second"
proof -
  have ruled_now: "\<exists>sh full sh'. k_shipment x i = Some sh \<and> milestone_gross_payment x sh j = Inr full \<and>
      k_shipment y i = Some sh' \<and> sh_released_amount sh' = sh_released_amount sh + full"
    if r: "resolve_dispute ee d i j True rr x = Inr y" and n: "k_dispute_contested_percent x (i, j) = None"
      "get_or 0 (k_finality_delay_ledgers x) = 0" for ee d rr x y
  proof (rule resolve_dispute_cases [OF r])
    fix sh full payment
    assume a: "k_shipment x i = Some sh" "milestone_gross_payment x sh j = Inr full"
      "contested_payment full (k_dispute_contested_percent x (i, j)) = Inr payment"
      "ruled i j sh (fst (verdict ee x i j True payment (sh_milestones sh ! j)))
        (snd (verdict ee x i j True payment (sh_milestones sh ! j))) x y"
    have "payment = full" using a(3) n(1) by (simp add: contested_payment_def)
    then have "snd (verdict ee x i j True payment (sh_milestones sh ! j)) = full" using n(2) by (simp add: verdict_def Let_def)
    then show ?thesis using a(1,2,4) by (auto simp: ruled_def)
  qed
  obtain sh full sh1 where 1: "k_shipment s i = Some sh" "milestone_gross_payment s sh j = Inr full"
    "k_shipment t i = Some sh1" "sh_released_amount sh1 = sh_released_amount sh + full"
    using ruled_now [OF assms(1,4,6)] by blast
  obtain sh2 full2 sh' where 2: "k_shipment u i = Some sh2" "milestone_gross_payment u sh2 j = Inr full2"
    "k_shipment v i = Some sh'" "sh_released_amount sh' = sh_released_amount sh2 + full2"
    using ruled_now [OF assms(3,5,7)] by blast
  have "sh_released_amount sh2 = sh_released_amount sh1"
    using assms(2) by (rule appeal_cases) (use 1(3) 2(1) in auto)
  then show ?thesis using 1 2 by auto
qed

theorem appeal_pays_twice_witness:
  "\<exists>t u v sh'. resolve_dispute (env_at 20) arbiter0 ''S'' 0 True None court_appeal = Inr t \<and>
     appeal_dispute (env_at 21) buyer0 ''S'' 0 t = Inr u \<and> resolve_dispute (env_at 22) other0 ''S'' 0 True None u = Inr v \<and>
     k_shipment v ''S'' = Some sh' \<and> sh_released_amount sh' = 1200 \<and> sh_total_amount deal_court = 1000"
proof -
  obtain t u v where c: "resolve_dispute (env_at 20) arbiter0 ''S'' 0 True None court_appeal = Inr t"
    "appeal_dispute (env_at 21) buyer0 ''S'' 0 t = Inr u" "resolve_dispute (env_at 22) other0 ''S'' 0 True None u = Inr v"
    and r: "map_option sh_released_amount (k_shipment v ''S'') = Some 1200"
      "k_dispute_contested_percent u (''S'', 0) = None" "get_or 0 (k_finality_delay_ledgers u) = 0"
    using appeal_court by blast
  from appeal_pays_twice [OF c court_facts(15) r(2) court_facts(14) r(3)] obtain sh' where "k_shipment v ''S'' = Some sh'"
    by blast
  then show ?thesis using c r(1) court_facts(3) by auto
qed

lemma timeout_spent:
  assumes "timeout_resolve e i j sh m s = Inr t" "sh_default_resolution sh = ResolveBuyer"
    and "m = sh_milestones sh ! j" "j < length (sh_milestones sh)" "ms_status m = Disputed"
    and "milestone_gross_payment s sh j = Inr full"
    and "contested_payment full (k_dispute_contested_percent s (i, j)) = Inr payment"
  shows "spent e (sh_token sh) s t = max payment 0"
proof -
  let ?pct = "k_dispute_contested_percent s (i, j)"
  obtain s1 sh1 s2 s5 s6 sh2 v stats where
    c: "timeout_pay e i payment sh s = Inr (s1, sh1)" "decrease_total_escrowed (sh_token sh1) payment s1 = Inr s2"
      "book_ruling i j sh1 (get_or 0 (ms_dispute_opened_ledger m)) v None
         ((drop_contested i j (?pct \<noteq> None) s2)\<lparr>k_dispute_opened_at :=
            (k_dispute_opened_at (drop_contested i j (?pct \<noteq> None) s2))((i, j) := None)\<rparr>) = Inr s5"
      "ruling_complete e (sh_arbiter sh) ''resolve_dispute_timeout'' stats i
         (append_audit_entry e (sh_arbiter sh) ''dispute_auto_resolved'' ''resolve_dispute_timeout'' sh1) s5 = Inr (s6, sh2)"
    and t: "calls t = calls s6"
    using assms(1,6,7) by (auto simp: timeout_resolve_def Let_def bindE_Inr emit_dispute_resolved_def split: prod.splits)
  obtain p where p: "whenE (0 < payment) (token_pay e (sh_token sh) (this e) p payment) s = Inr s1" "sh1 = sh"
    using c(1) assms(2) by (auto simp: timeout_pay_def bindE_Inr)
  have spent1: "spent e (sh_token sh) s s1 = max payment 0"
    using p(1) spent_pay by (auto simp: whenE_Inr max_def split: if_splits)
  have "calls s2 = calls s1" using c(2) by (auto simp: decrease_total_escrowed_def bindE_Inr)
  moreover have "calls s5 = calls s2"
    using c(3) by (cases v) (auto simp: book_ruling_def bindE_Inr append_dispute_history_def append_dispute_history_for_def
      drop_contested_def)
  moreover have "m \<in> set (sh_milestones sh1)" using p(2) assms(3,4) by simp
  then have "\<not> all_milestones_done (append_audit_entry e (sh_arbiter sh) ''dispute_auto_resolved'' ''resolve_dispute_timeout'' sh1)"
    using assms(5) by (auto simp: all_milestones_done_def done_status_def append_audit_entry_def intro!: bexI [of _ m])
  then have "s6 = s5" using c(4) by (simp add: ruling_complete_def)
  ultimately have "calls t = calls s1" using t by simp
  then show ?thesis using spent1 by (simp add: spent_def)
qed

text \<open>The default outcome after a timeout, when it goes to the buyer, pays the buyer the contested value
  and resolves the milestone, but records nothing as released and leaves the shipment active even when
  the milestone was the last one open: the value paid back still counts as unreleased, which is the
  amount a cancellation returns.\<close>

theorem default_refund_not_recorded:
  assumes "resolve_dispute_timeout e i j s = Inr t" "k_shipment s i = Some sh"
    and "sh_default_resolution sh = ResolveBuyer" "k_backup_arbiter s i = None"
  shows "\<exists>full payment sh'. milestone_gross_payment s sh j = Inr full \<and>
    contested_payment full (k_dispute_contested_percent s (i, j)) = Inr payment \<and>
    spent e (sh_token sh) s t = max payment 0 \<and> k_shipment t = (k_shipment s)(i \<mapsto> sh') \<and>
    sh_milestones sh' = (sh_milestones sh)[j := (sh_milestones sh ! j)\<lparr>ms_status := Resolved\<rparr>] \<and>
    sh_status sh' = Active \<and> sh_released_amount sh' = sh_released_amount sh"
  using assms(1)
proof (cases rule: moved_timeout)
  case (1 sh2 backup)
  then show ?thesis using assms(4) by simp
next
  case (2 sh2 opened)
  then have [simp]: "sh2 = sh" using assms(2) by simp
  obtain full payment sh' where r: "milestone_gross_payment s sh j = Inr full"
    "contested_payment full (k_dispute_contested_percent s (i, j)) = Inr payment"
    "k_shipment t = (k_shipment s)(i \<mapsto> sh')"
    "sh_milestones sh' = (sh_milestones sh)[j := (sh_milestones sh ! j)\<lparr>ms_status := Resolved\<rparr>]"
    "sh_status sh' = sh_status sh" "sh_released_amount sh' = sh_released_amount sh"
    by (rule timeout_resolve_Inr [OF 2(8) [simplified] refl 2(3,4) [simplified]]) (use assms(3) in simp)
  have "spent e (sh_token sh) s t = max payment 0"
    using timeout_spent [OF 2(8) [simplified] assms(3) refl 2(3,4) [simplified] r(1,2)] .
  then show ?thesis using r 2(2) by auto
qed

theorem default_refund_not_recorded_witness:
  "\<exists>t sh'. resolve_dispute_timeout (env_at 20) ''S'' 0 court0 = Inr t \<and> spent (env_at 20) token0 court0 t = 600 \<and>
     k_shipment t ''S'' = Some sh' \<and> sh_released_amount sh' = 0 \<and> sh_status sh' = Active"
proof -
  obtain t where t: "resolve_dispute_timeout (env_at 20) ''S'' 0 court0 = Inr t" using timeout_court0 by blast
  from default_refund_not_recorded [OF t court_facts(1,13,12)] obtain full payment sh' where
    p: "milestone_gross_payment court0 deal_court 0 = Inr full"
      "contested_payment full (k_dispute_contested_percent court0 (''S'', 0)) = Inr payment"
    and r: "spent (env_at 20) (sh_token deal_court) court0 t = max payment 0" "k_shipment t ''S'' = Some sh'"
      "sh_status sh' = Active" "sh_released_amount sh' = sh_released_amount deal_court" by auto
  have "payment = 600" "sh_released_amount deal_court = 0"
    using p by (simp_all add: court_defs court_eval cong: eval_cong option.case_cong)
  then show ?thesis using t r court_facts(4) by auto
qed

section \<open>Panels\<close>

lemma votes_card:
  assumes "distinct (map dv_arbiter votes)"
  shows "card (dv_arbiter ` set (filter (\<lambda>v. dv_approve v = side) votes)) = votes_for side votes"
proof -
  have "distinct (map dv_arbiter (filter (\<lambda>v. dv_approve v = side) votes))"
    using assms by (rule distinct_map_filter)
  then show ?thesis using distinct_card [of "map dv_arbiter (filter (\<lambda>v. dv_approve v = side) votes)"]
    by (simp add: votes_for_def)
qed

lemma votes_total: "votes_for True votes + votes_for False votes = length votes"
  unfolding votes_for_def using sum_length_filter_compl [of dv_approve votes] by simp

text \<open>C13. A vote changes a shipment only when more than half of the panel's size is behind one side: if the votes
  on record are by different voters, then after a vote of a panel member that changed anything there are more
  than half as many different voters as the panel has members who voted for one side (the caller now, the
  others on record), and the dispute was ruled for that side. When the votes on record are all by members of
  the panel of that moment, so are these; the call does not check that, and votes left from an earlier panel
  of the shipment count.\<close>

theorem panel_needs_majority:
  assumes "cast_dispute_vote e a i j approve s = Inr t" "k_shipment t \<noteq> k_shipment s"
    and "distinct (map dv_arbiter (get_dispute_votes s i j))"
  shows "\<exists>side V sh payment. a \<in> set (get_arbiter_panel s i) \<and> length (get_arbiter_panel s i) < 2 * card V \<and>
    (dv_arbiter ` set (get_dispute_votes s i j) \<subseteq> set (get_arbiter_panel s i) \<longrightarrow> V \<subseteq> set (get_arbiter_panel s i)) \<and>
    (\<forall>v\<in>V. v = a \<and> side = approve \<or> \<lparr>dv_arbiter = v, dv_approve = side\<rparr> \<in> set (get_dispute_votes s i j)) \<and>
    k_shipment s i = Some sh \<and> ruled i j sh ((sh_milestones sh ! j)\<lparr>ms_status :=
        fst (panel_verdict side (k_dispute_contested_percent s (i, j) \<noteq> None) payment)\<rparr>)
      (snd (panel_verdict side (k_dispute_contested_percent s (i, j) \<noteq> None) payment)) s t"
  using assms(1)
proof (rule cast_vote_cases)
  fix sh :: shipment and panel :: "addr list"
  define old where "old = get_dispute_votes s i j"
  define votes where "votes = old @ [\<lparr>dv_arbiter = a, dv_approve = approve\<rparr>]"
  define n where "n = length panel div 2 + 1"
  assume c: "k_shipment s i = Some sh" "k_arbiter_panel s i = Some panel" "a \<in> set panel"
    "a \<notin> dv_arbiter ` set (get_or [] (k_dispute_votes s (i, j)))"
    and v: "voted i j sh (get_or [] (k_dispute_votes s (i, j)) @ [\<lparr>dv_arbiter = a, dv_approve = approve\<rparr>])
       (length panel div 2 + 1) s t"
  have p: "get_arbiter_panel s i = panel" using c(2) by (simp add: get_arbiter_panel_def)
  have o: "get_or [] (k_dispute_votes s (i, j)) = old" by (simp add: old_def get_dispute_votes_def)
  have v': "voted i j sh votes n s t" using v by (simp add: o votes_def n_def)
  define side where "side = (n \<le> votes_for True votes)"
  define V where "V = dv_arbiter ` set (filter (\<lambda>v. dv_approve v = side) votes)"
  obtain payment where r: "n \<le> votes_for True votes \<or> n \<le> votes_for False votes"
    "ruled i j sh ((sh_milestones sh ! j)\<lparr>ms_status :=
        fst (panel_verdict side (k_dispute_contested_percent s (i, j) \<noteq> None) payment)\<rparr>)
      (snd (panel_verdict side (k_dispute_contested_percent s (i, j) \<noteq> None) payment)) s t"
    using v' assms(2) unfolding voted_def side_def by (auto simp del: not_None_eq split: if_splits)
  have d: "distinct (map dv_arbiter votes)"
    using assms(3) c(4) by (simp add: votes_def old_def [symmetric] o)
  have "n \<le> votes_for side votes" using r(1) by (cases side) (auto simp: side_def)
  then have "length panel < 2 * card V" using votes_card [OF d, of side] by (simp add: V_def n_def)
  moreover have "dv_arbiter ` set old \<subseteq> set panel \<longrightarrow> V \<subseteq> set panel" using c(3) by (auto simp: V_def votes_def)
  moreover have "\<forall>v\<in>V. v = a \<and> side = approve \<or> \<lparr>dv_arbiter = v, dv_approve = side\<rparr> \<in> set old"
  proof
    fix v assume "v \<in> V"
    then obtain w where w: "w \<in> set votes" "dv_arbiter w = v" "dv_approve w = side" by (auto simp: V_def)
    have "w = \<lparr>dv_arbiter = dv_arbiter w, dv_approve = dv_approve w\<rparr>" by (cases w) simp
    then have "w = \<lparr>dv_arbiter = v, dv_approve = side\<rparr>" using w(2,3) by simp
    then show "v = a \<and> side = approve \<or> \<lparr>dv_arbiter = v, dv_approve = side\<rparr> \<in> set old"
      using w(1) by (auto simp: votes_def)
  qed
  ultimately show ?thesis using c(1,3) r(2) unfolding p old_def by blast
qed

text \<open>C32. A panel of odd size always comes to a decision: when all its other members have voted, each once,
  the vote of the last one resolves the milestone or sends it back to pending.\<close>

theorem odd_panel_decides:
  assumes "cast_dispute_vote e a i j approve s = Inr t"
    and "odd (length (get_arbiter_panel s i))" "distinct (get_arbiter_panel s i)"
    and "distinct (map dv_arbiter (get_dispute_votes s i j))"
    and "set (get_arbiter_panel s i) = insert a (dv_arbiter ` set (get_dispute_votes s i j))"
  shows "statuses t (i, j) \<in> {Some Resolved, Some Pending}"
  using assms(1)
proof (rule cast_vote_cases)
  fix sh :: shipment and panel :: "addr list"
  define votes where "votes = get_dispute_votes s i j @ [\<lparr>dv_arbiter = a, dv_approve = approve\<rparr>]"
  define n where "n = length panel div 2 + 1"
  assume c: "k_shipment s i = Some sh" "j < length (sh_milestones sh)" "k_arbiter_panel s i = Some panel"
    "a \<notin> dv_arbiter ` set (get_or [] (k_dispute_votes s (i, j)))"
    and v: "voted i j sh (get_or [] (k_dispute_votes s (i, j)) @ [\<lparr>dv_arbiter = a, dv_approve = approve\<rparr>])
       (length panel div 2 + 1) s t"
  have p: "get_arbiter_panel s i = panel" using c(3) by (simp add: get_arbiter_panel_def)
  have v': "voted i j sh votes n s t" using v by (simp add: get_dispute_votes_def votes_def n_def)
  have d: "distinct (map dv_arbiter votes)"
    using assms(4) c(4) by (simp add: votes_def get_dispute_votes_def)
  have "set (map dv_arbiter votes) = set panel" using assms(5) p by (auto simp: votes_def)
  then have "length votes = length panel"
    using distinct_card [OF d] distinct_card [OF assms(3) [unfolded p]] by simp
  then have "n \<le> votes_for True votes \<or> n \<le> votes_for False votes"
    using votes_total [of votes] assms(2) unfolding n_def p by presburger
  then obtain payment side where "ruled i j sh ((sh_milestones sh ! j)\<lparr>ms_status :=
        fst (panel_verdict side (k_dispute_contested_percent s (i, j) \<noteq> None) payment)\<rparr>)
      (snd (panel_verdict side (k_dispute_contested_percent s (i, j) \<noteq> None) payment)) s t"
    using v' unfolding voted_def by (auto simp del: not_None_eq)
  then show ?thesis using c(2) by (auto simp: ruled_def statuses_def panel_verdict_def split: if_splits)
qed

theorem panel_needs_majority_witness:
  "\<exists>t V. cast_dispute_vote (env_at 20) other0 ''S'' 0 True court_panel = Inr t \<and> V \<subseteq> {arbiter0, other0, treasury0} \<and>
     3 < 2 * card V \<and> k_shipment t ''S'' \<noteq> Some deal_court"
proof -
  obtain t where t: "cast_dispute_vote (env_at 20) other0 ''S'' 0 True court_panel = Inr t" using vote_court by blast
  have v: "votes_for True [\<lparr>dv_arbiter = arbiter0, dv_approve = True\<rparr>, \<lparr>dv_arbiter = other0, dv_approve = True\<rparr>] = 2"
    by (simp add: votes_for_def)
  have ch: "k_shipment t ''S'' \<noteq> Some deal_court"
    using t
  proof (rule cast_vote_cases)
    fix sh :: shipment and panel :: "addr list"
    assume c: "k_shipment court_panel ''S'' = Some sh" "k_arbiter_panel court_panel ''S'' = Some panel"
      and v': "voted ''S'' 0 sh (get_or [] (k_dispute_votes court_panel (''S'', 0)) @ [\<lparr>dv_arbiter = other0, dv_approve = True\<rparr>])
       (length panel div 2 + 1) court_panel t"
    have "panel = [arbiter0, other0, treasury0]" "sh = deal_court"
      "get_or [] (k_dispute_votes court_panel (''S'', 0)) = [\<lparr>dv_arbiter = arbiter0, dv_approve = True\<rparr>]"
      using c court_facts(2,10,11) by (simp_all add: get_arbiter_panel_def get_dispute_votes_def)
    then show ?thesis
      using v' v by (auto simp: voted_def ruled_def deal_court_def shipment0_def)
  qed
  then have "k_shipment t \<noteq> k_shipment court_panel" using court_facts(2) by auto
  from panel_needs_majority [OF t this] obtain V where "V \<subseteq> {arbiter0, other0, treasury0}" "3 < 2 * card V"
    unfolding court_facts(10,11) by auto
  then show ?thesis using t ch by blast
qed

theorem odd_panel_decides_witness:
  "\<exists>t. cast_dispute_vote (env_at 20) other0 ''S'' 0 False court_tie = Inr t \<and> statuses t (''S'', 0) \<in> {Some Resolved, Some Pending}"
proof -
  obtain t where t: "cast_dispute_vote (env_at 20) other0 ''S'' 0 False court_tie = Inr t" using vote_tie by blast
  from odd_panel_decides [OF t] have "statuses t (''S'', 0) \<in> {Some Resolved, Some Pending}"
    unfolding tie_facts by auto
  then show ?thesis using t by blast
qed

lemma record_arbiters_panel: "k_arbiter_panel (record_supplier_arbiters a as s) = k_arbiter_panel s"
  by (simp add: record_supplier_arbiters_def Let_def)

text \<open>C33. A panel drawn from the pool is as large as asked for, with at least three different members, all
  available, none slashed, none a buyer or the supplier of the shipment. The pool is one that pool operations built from
  an empty one; of the host's shuffle only that it permutes is used.\<close>

theorem panel_is_impartial:
  assumes "reach no_arbiters pool_step s" "assign_dispute_panel e adm i j n s = Inr (t, panel)"
    and "mset (prng_shuffle e (get_arbiter_pool s)) = mset (get_arbiter_pool s)"
  shows "\<exists>sh. k_shipment s i = Some sh \<and> get_arbiter_panel t i = panel \<and> length panel = n \<and> 3 \<le> n \<and> distinct panel \<and>
    (\<forall>a \<in> set panel. a \<in> set (get_arbiter_pool s) \<and> is_arbiter_available s a \<and> \<not> is_arbiter_slashed s a \<and>
       a \<notin> set (sh_buyers sh) \<and> a \<noteq> sh_supplier sh)"
proof -
  have ok: "pool_ok s" by (rule bench.reachable_inv [OF assms(1)])
  then have dist: "distinct (get_arbiter_pool s)" and sl: "\<forall>a \<in> set (get_arbiter_pool s). \<not> is_arbiter_slashed s a"
    by (simp_all add: pool_ok_def)
  obtain sh where sh: "k_shipment s i = Some sh" "3 \<le> n" "n \<le> length (draw_panel_from_pool e s sh n)"
    "panel = draw_panel_from_pool e s sh n" "get_arbiter_panel t i = panel"
    using assms(2) by (auto simp: assign_dispute_panel_def Let_def res_simps not_less get_arbiter_panel_def
      record_arbiters_panel simp del: not_None_eq split: if_splits)
  note d = panel_drawn [OF assms(3) dist, of sh n]
  have "length panel = n" using d(3) sh(3,4) by simp
  moreover have "set panel \<subseteq> eligible s (sh_buyers sh @ [sh_supplier sh])" using d(2) sh(4) by simp
  ultimately show ?thesis using sh d(1) sl by (auto simp: eligible_def)
qed

theorem panel_is_impartial_witness:
  "\<exists>s t. reach no_arbiters pool_step s \<and>
     assign_dispute_panel (env_at 20) treasury0 ''S'' 0 3 s = Inr (t, [arbiter0, other0, treasury0]) \<and>
     get_arbiter_panel t ''S'' = [arbiter0, other0, treasury0]"
proof -
  obtain s t where s: "batch_add_arbiters_to_pool (env_at 20) treasury0 [arbiter0, other0, treasury0] bench0 = Inr s"
    and t: "assign_dispute_panel (env_at 20) treasury0 ''S'' 0 3 s = Inr (t, [arbiter0, other0, treasury0])"
    using draw_bench by blast
  have r: "reach no_arbiters pool_step s"
    using reach_start [of no_arbiters, OF bench0_empty] pool_batch [OF s] by (rule reach_step)
  from panel_is_impartial [OF r t] show ?thesis using r t by auto
qed

text \<open>The fee of a panel is paid out to the last unit: the voters get equal shares in the order of their
  votes, the last one the rest of the division, and nothing else is transferred.\<close>

theorem panel_fee_exact:
  assumes "distribute_panel_fee e tok i j votes whole s = Inr (t, d)" "0 < whole" "votes \<noteq> []"
  shows "d = whole \<and> calls t = calls s @ filter (\<lambda>x. 0 < xamount x) (map (\<lambda>(k, v).
      \<lparr>xtoken = tok, xfrom = this e, xto = dv_arbiter v, xamount = panel_share whole (length votes) k\<rparr>)
      (zip [0..<length votes] votes)) \<and>
    (\<Sum>k<length votes. panel_share whole (length votes) k) = whole"
proof -
  obtain n where n: "length votes = Suc n" using assms(3) by (cases votes) auto
  have "(\<Sum>k<Suc n. panel_share whole (Suc n) k) = (\<Sum>k<n. panel_share whole (Suc n) k) + panel_share whole (Suc n) n"
    by simp
  also have "(\<Sum>k<n. panel_share whole (Suc n) k) = (\<Sum>k<n. whole div int (Suc n))"
    by (rule sum.cong) (simp_all add: panel_share_def)
  finally show ?thesis using panel_fee_transfers [OF assms] n by (simp add: panel_share_def)
qed

theorem panel_fee_exact_witness:
  "\<exists>t. distribute_panel_fee (env_at 20) token0 ''S'' 0 [\<lparr>dv_arbiter = arbiter0, dv_approve = True\<rparr>,
       \<lparr>dv_arbiter = other0, dv_approve = True\<rparr>] 25 court0 = Inr (t, 25) \<and>
     calls t = [\<lparr>xtoken = token0, xfrom = contract0, xto = arbiter0, xamount = 12\<rparr>,
       \<lparr>xtoken = token0, xfrom = contract0, xto = other0, xamount = 13\<rparr>]"
proof -
  let ?votes = "[\<lparr>dv_arbiter = arbiter0, dv_approve = True\<rparr>, \<lparr>dv_arbiter = other0, dv_approve = True\<rparr>]"
  obtain t d where t: "distribute_panel_fee (env_at 20) token0 ''S'' 0 ?votes 25 court0 = Inr (t, d)"
    by (simp add: distribute_panel_fee_def court_eval)
  from panel_fee_exact [OF t] have "d = 25" and c: "calls t = calls court0 @ filter (\<lambda>x. 0 < xamount x) (map (\<lambda>(k, v).
      \<lparr>xtoken = token0, xfrom = this (env_at 20), xto = dv_arbiter v, xamount = panel_share 25 (length ?votes) k\<rparr>)
      (zip [0..<length ?votes] ?votes))" by auto
  moreover have "calls court0 = []" by (simp add: court_defs)
  ultimately show ?thesis using t by (simp add: panel_share_def upt_rec)
qed

text \<open>A ruling by a panel leaves no resolution on record, so nobody can appeal it.\<close>

lemma panel_ruling_not_appealable:
  assumes "cast_dispute_vote e a i j approve s = Inr t" "dispute_books False s"
  shows "appeal_dispute e' c i j t \<noteq> Inr u"
proof
  assume r: "appeal_dispute e' c i j t = Inr u"
  have "k_dispute_resolved_at t (i, j) = None"
    using assms(1)
  proof (rule cast_vote_cases)
    fix sh :: shipment and panel :: "addr list"
    assume "k_shipment s i = Some sh" "j < length (sh_milestones sh)" "ms_status (sh_milestones sh ! j) = Disputed"
      and v: "voted i j sh (get_or [] (k_dispute_votes s (i, j)) @ [\<lparr>dv_arbiter = a, dv_approve = approve\<rparr>])
       (length panel div 2 + 1) s t"
    then have "k_dispute_resolved_at s (i, j) = None" using dispute_booksD(3) [OF assms(2)] by blast
    then show ?thesis using v by (simp add: voted_def split: if_splits)
  qed
  with r show False by (auto elim: appeal_cases)
qed

text \<open>C34. The arbiter pool stays well formed: under additions one by one or in batches, removals,
  reinstatements, the slashing of overturned arbiters, the round-robin assignment of an arbiter to a first
  dispute and recusals it holds no arbiter twice and no slashed one, and the round-robin position, which the
  last two advance, stays within it.\<close>

theorem arbiter_pool_wellformed:
  assumes "reach no_arbiters pool_step s"
  shows "distinct (get_arbiter_pool s) \<and> (\<forall>a \<in> set (get_arbiter_pool s). \<not> is_arbiter_slashed s a) \<and>
    (get_or 0 (k_arb_pool_idx s) = 0 \<or> get_or 0 (k_arb_pool_idx s) < length (get_arbiter_pool s))"
  using bench.reachable_inv [OF assms] by (simp add: pool_ok_def)

theorem arbiter_pool_wellformed_witness:
  "\<exists>s. batch_add_arbiters_to_pool (env_at 20) treasury0 [arbiter0, other0, treasury0] bench0 = Inr s \<and>
     distinct (get_arbiter_pool s)"
proof -
  obtain s where s: "batch_add_arbiters_to_pool (env_at 20) treasury0 [arbiter0, other0, treasury0] bench0 = Inr s"
    using draw_bench by blast
  have "reach no_arbiters pool_step s"
    using reach_start [of no_arbiters, OF bench0_empty] pool_batch [OF s] by (rule reach_step)
  from arbiter_pool_wellformed [OF this] show ?thesis using s by blast
qed

section \<open>Splits\<close>

text \<open>C12. A percentage split hands out exactly the contested amount and the bond: with one fee recipient,
  holdbacks and payee percentages of at most 100 percent, and the rates of arbiter and platform fee
  together at most 100 percent, what leaves the contract (arbiter, platform, buyer, payees, both shares of
  the bond) plus what it sets aside is the contested amount plus the bond, for every percentage and every
  rounding. The escrow counter is not reduced by it.\<close>

theorem split_conserves_value:
  assumes "settle_split_payout e i j bps contested sh s = Inr (t, sh')" "payout_terms s i j"
    and "0 \<le> contested" "bps \<le> 10000"
    and "applicable_arbiter_fee_bps s contested (sh_arbiter_fee_bps sh) + fee_rate e s \<le> 10000"
  shows "placed e (sh_token sh) i (get_or (sh_supplier sh) (k_milestone_supplier s (i, j))) s t =
      contested + max (sh_dispute_bond_amount sh) 0 \<and>
    sh_released_amount sh' = sh_released_amount sh + contested \<and>
    free_escrow i (sh_token sh) t = free_escrow i (sh_token sh) s"
  using split_payout_money [OF assms] split_payout_Inr(2) [OF assms(1)] by simp

theorem split_conserves_value_witness:
  "\<exists>t sh'. settle_split_payout (env_at 20) ''S'' 0 5000 600 deal_court court0 = Inr (t, sh') \<and>
     placed (env_at 20) token0 ''S'' supplier0 court0 t = 650"
proof -
  obtain t sh' where t: "settle_split_payout (env_at 20) ''S'' 0 5000 600 deal_court court0 = Inr (t, sh')"
    using split_court0 by (metis surj_pair)
  have "k_milestone_supplier court0 (''S'', 0) = None" "sh_supplier deal_court = supplier0" by (simp_all add: court_defs)
  with split_conserves_value [OF t court_facts(6)] court_facts(4,5,7,8) t show ?thesis by auto
qed

end
