(* ===== verification/PathSample.thy ===== *)
theory PathSample
  imports SettleJourney DisputeSample
begin

text \<open>
  Concrete calls for the closed instances of the properties of creation, of the further ways to
  confirm and of the closing calls.
\<close>

lemmas path_eval = court_defs deal0_def court_eval raise_eval sum_bps.simps checked_percents.simps eval_defs
  is_blacklisted_def compute_supplier_exposure_def compute_exposure_loop_def check_and_record_buyer_spending_def
  check_and_record_shipment_creation_def increase_total_escrowed_def unreleased_of_def assert_no_approved_advance_def
  assert_manual_confirmation_allowed_def as_admin_def as_role_def assert_role_def settle_assert_admin_def
  check_has_role_def append_admin_action_def refund_holdbacks_on_cancel_def emit_shipment_cancelled_def
  add_to_party_index_def add_to_status_index_def remove_from_status_index_def move_shipment_status_index_def

section \<open>Creation\<close>

definition terms0 :: "milestone list" where
  "terms0 = [milestone0 60 Pending, milestone0 40 Pending]"

definition funded0 :: settle where
  "funded0 = blank\<lparr>calls := [\<lparr>xtoken = token0, xfrom = buyer0, xto = contract0, xamount = 1000000\<rparr>]\<rparr>"

lemma create_steps:
  "creation_bond 1000000 empty_shipment_options blank = Inr 0"
  "creation_auth (env_at 20) [buyer0] supplier0 1000000 empty_shipment_options blank = Inr blank"
  "creation_checks (env_at 20) ''N'' [buyer0] supplier0 other0 arbiter0 token0 1000000 terms0 empty_shipment_options blank = Inr ()"
  "check_and_record_buyer_spending buyer0 20 1000000 blank = Inr blank"
  "check_and_record_shipment_creation supplier0 20 blank = Inr blank"
  "fund_shipment (env_at 20) ''N'' buyer0 token0 1000000 0 empty_shipment_options (length terms0) blank = Inr funded0"
  "lock_collateral (env_at 20) ''N'' supplier0 token0 0 funded0 = Inr funded0"
  by (simp_all add: terms0_def funded0_def path_eval cong: eval_cong option.case_cong)

lemma create_blank:
  "\<exists>t. create_shipment (env_at 20) ''N'' [buyer0] supplier0 other0 arbiter0 token0 1000000 terms0
     empty_shipment_options blank = Inr (t, ''N'')"
proof -
  let ?sh = "append_audit_entry (env_at 20) buyer0 ''shipment_created'' ''create_shipment''
    (new_shipment (env_at 20) ''N'' [buyer0] supplier0 other0 arbiter0 token0 1000000 terms0 empty_shipment_options 0)"
  have "\<exists>s6. store_creation (env_at 20) ''N'' buyer0 ?sh empty_shipment_options funded0 = Inr s6"
    by (simp add: store_creation_def store_consortium_def store_refund_recipient_def Let_def empty_shipment_options_def)
  then obtain s6 where s6: "store_creation (env_at 20) ''N'' buyer0 ?sh empty_shipment_options funded0 = Inr s6" by blast
  have "k_total_escrowed s6 = k_total_escrowed funded0" using store_frame [OF s6] by simp
  then have "\<exists>s7. count_creation token0 1000000 contract_stats_zero s6 = Inr s7"
    by (simp add: funded0_def path_eval cong: eval_cong option.case_cong)
  then obtain s7 where s7: "count_creation token0 1000000 contract_stats_zero s6 = Inr s7" by blast
  have "assert_operation_not_paused blank ''create'' = Inr ()" "vec_get_unwrap [buyer0] 0 = Inr buyer0"
    "op_supplier_collateral empty_shipment_options = 0" "get_or contract_stats_zero (k_contract_stats blank) = contract_stats_zero"
    by (simp_all add: path_eval cong: eval_cong option.case_cong)
  then show ?thesis
    unfolding create_shipment_def Let_def create_steps bindE_simps env_at_simps using create_steps(4-7) s6 s7 by simp
qed

section \<open>Proofs\<close>

definition pair0 :: settle where
  "pair0 = state0\<lparr>k_shipment := [''S'' \<mapsto> shipment0 ''S'' [milestone0 60 Pending, milestone0 40 Pending] Active],
     k_require_dual_attestation := [''S'' \<mapsto> True]\<rparr>"

lemma attest_pair:
  "\<exists>t u. submit_proof (env_at 20) supplier0 ''S'' 0 ''proof'' ''bol'' pair0 = Inr t \<and>
     attest_proof (env_at 21) other0 ''S'' 0 ''proof'' t = Inr u"
  by (simp add: pair0_def submit_proof_def attest_proof_def effective_milestone_supplier_def path_eval
      cong: eval_cong option.case_cong)

lemma pair0_facts: "requires_dual_attestation pair0 ''S''" "supplier0 \<noteq> other0"
  by (simp_all add: pair0_def requires_dual_attestation_def addr0_defs)

section \<open>Confirmations\<close>

text \<open>Both milestones proved; three units of goods for the first; a window of five ledgers.\<close>

definition deal_two :: shipment where
  "deal_two = shipment0 ''S'' [milestone0 60 ProofSubmitted, milestone0 40 ProofSubmitted] Active"

definition two0 :: settle where
  "two0 = state0\<lparr>k_shipment := [''S'' \<mapsto> deal_two]\<rparr>"

lemma batch_two: "\<exists>t. batch_confirm_milestones (env_at 20) buyer0 ''S'' [0, 0] two0 = Inr t"
  by (simp add: two0_def deal_two_def batch_confirm_milestones_def path_eval cong: eval_cong option.case_cong)

lemma two0_facts: "milestone_gross_payment two0 deal_two 0 = Inr 600" "sh_released_amount deal_two = 0"
  "sh_total_amount deal_two = 1000"
  by (simp_all add: two0_def deal_two_def path_eval cong: eval_cong option.case_cong)

definition goods0 :: settle where
  "goods0 = state0\<lparr>k_milestone_quantities := [''S'' \<mapsto> [3, 0]]\<rparr>"

lemma deliver_goods:
  "\<exists>t u. confirm_partial_quantity (env_at 20) buyer0 ''S'' 0 1 goods0 = Inr t \<and>
     confirm_partial_quantity (env_at 21) buyer0 ''S'' 0 1 t = Inr u"
  by (simp add: goods0_def confirm_partial_quantity_def path_eval cong: eval_cong option.case_cong)

lemma goods0_facts: "k_shipment goods0 ''S'' = Some deal0" "milestone_full_gross_payment goods0 deal0 0 = Inr 600"
  "k_delivered_quantity goods0 = (\<lambda>_. None)" "k_partial_qty_released goods0 = (\<lambda>_. None)"
  "expected_quantity goods0 ''S'' 0 = 3" "sh_released_amount deal0 = 0"
  by (simp_all add: goods0_def path_eval cong: eval_cong option.case_cong)

definition window0 :: settle where
  "window0 = state0\<lparr>k_shipment := [''S'' \<mapsto> deal0\<lparr>sh_auto_confirm_ledgers := 5\<rparr>]\<rparr>"

lemma claim_window: "\<exists>t. claim_auto_confirmation (env_at 20) ''S'' 0 window0 = Inr t"
  by (simp add: window0_def claim_auto_confirmation_def path_eval cong: eval_cong option.case_cong)

section \<open>Closing calls\<close>

definition late0 :: settle where
  "late0 = state0\<lparr>k_timestamp_deadlines := [''S'' \<mapsto> [50, 60]]\<rparr>"

lemma expire_late: "\<exists>t. claim_deadline_refund (env_at 20) buyer0 ''S'' 1 late0 = Inr t"
  by (simp add: late0_def claim_deadline_refund_def path_eval cong: eval_cong option.case_cong)

definition stuck0 :: settle where
  "stuck0 = state0\<lparr>k_admin := Some treasury0\<rparr>"

lemma recover_stuck: "\<exists>t. emergency_recover (env_at 20000000) treasury0 ''S'' stuck0 = Inr t"
  by (simp add: stuck0_def emergency_recover_def path_eval cong: eval_cong option.case_cong)

lemma change_fee:
  "\<exists>t u. propose_param_change (env_at 20) treasury0 ''fee_config'' 1000000 stuck0 = Inr t \<and>
     execute_param_change (env_at 20) treasury0 ''fee_config'' t = Inr u"
  by (simp add: stuck0_def propose_param_change_def execute_param_change_def path_eval cong: eval_cong option.case_cong)

lemma stuck0_facts: "k_fee_config stuck0 = Some \<lparr>fc_fee_bps = 100, fc_treasury = treasury0\<rparr>" "MAX_FEE_BPS < 1000000"
  "as_u32 1000000 = 1000000"
  by (simp_all add: stuck0_def path_eval cong: eval_cong option.case_cong)

end
