(* ===== verification/PathProperties.thy ===== *)
theory PathProperties
  imports PathSample
begin

text \<open>
  The properties of creation, of the further ways to confirm and of the closing calls, each with a
  closed instance.
\<close>

section \<open>Creation\<close>

text \<open>C4. What a creation that returns has checked and stored: a new id, the buyers' signatures, no
  blacklisted party, shares that sum to the whole; a clean active shipment under that id and nothing else
  changed among the shipments; its amount on the escrow counter.\<close>

theorem creation_outcome:
  assumes "create_shipment e i buyers supplier logistics arbiter tok amount ms opt s = Inr (t, i')"
  shows "i' = i \<and> k_shipment s i = None \<and> (get_or False (k_skip_buyer_auth s) \<or> set buyers \<subseteq> set (signers e)) \<and>
    (\<forall>a \<in> set (buyers @ [supplier, logistics, arbiter]). \<not> is_blacklisted s a) \<and> MIN_SHIPMENT_AMOUNT \<le> amount \<and>
    (if op_milestone_splits opt = [] then sum_list (map ms_payment_percent ms) = 100
     else length (op_milestone_splits opt) = length ms \<and> sum_list (op_milestone_splits opt) = 10000 \<and>
       k_milestone_splits t i = Some (op_milestone_splits opt)) \<and>
    (\<exists>sh. k_shipment t = (k_shipment s)(i \<mapsto> sh) \<and> sh_buyers sh = buyers \<and> sh_supplier sh = supplier \<and>
       sh_token sh = tok \<and> sh_total_amount sh = amount \<and> sh_released_amount sh = 0 \<and> sh_status sh = Active \<and>
       map ms_payment_percent (sh_milestones sh) = map ms_payment_percent ms \<and>
       (\<forall>m \<in> set (sh_milestones sh). ms_status m = Pending)) \<and>
    k_total_escrowed t = (k_total_escrowed s)(tok \<mapsto> get_or 0 (k_total_escrowed s tok) + amount)"
proof -
  note c = creation_checked [OF assms]
  have sp: "if op_milestone_splits opt = [] then sum_list (map ms_payment_percent ms) = 100
     else length (op_milestone_splits opt) = length ms \<and> sum_list (op_milestone_splits opt) = 10000"
    using splits_ok_Inr(1,3) [OF c(5)] by simp
  obtain bond where n: "i' = i" "k_shipment t = (k_shipment s)(i \<mapsto> append_audit_entry e (hd buyers) ''shipment_created'' ''create_shipment''
       (new_shipment e i buyers supplier logistics arbiter tok amount ms opt bond))"
    "k_total_escrowed t = (k_total_escrowed s)(tok \<mapsto> get_or 0 (k_total_escrowed s tok) + amount)"
    "op_milestone_splits opt \<noteq> [] \<Longrightarrow> k_milestone_splits t i = Some (op_milestone_splits opt)"
    by (rule created [OF assms]) (rule that, simp_all)
  let ?sh = "append_audit_entry e (hd buyers) ''shipment_created'' ''create_shipment''
       (new_shipment e i buyers supplier logistics arbiter tok amount ms opt bond)"
  have "sh_buyers ?sh = buyers" "sh_supplier ?sh = supplier" "sh_token ?sh = tok" "sh_total_amount ?sh = amount"
    "sh_released_amount ?sh = 0" "sh_status ?sh = Active"
    "map ms_payment_percent (sh_milestones ?sh) = map ms_payment_percent ms"
    "\<forall>m \<in> set (sh_milestones ?sh). ms_status m = Pending"
    by (simp_all add: new_shipment_def append_audit_entry_def clean_milestone_def)
  with n(2) have "\<exists>sh. k_shipment t = (k_shipment s)(i \<mapsto> sh) \<and> sh_buyers sh = buyers \<and> sh_supplier sh = supplier \<and>
       sh_token sh = tok \<and> sh_total_amount sh = amount \<and> sh_released_amount sh = 0 \<and> sh_status sh = Active \<and>
       map ms_payment_percent (sh_milestones sh) = map ms_payment_percent ms \<and>
       (\<forall>m \<in> set (sh_milestones sh). ms_status m = Pending)" by blast
  with n(1,3,4) c(1,3,7,8) sp show ?thesis by simp
qed

theorem creation_outcome_witness:
  "\<exists>t sh. create_shipment (env_at 20) ''N'' [buyer0] supplier0 other0 arbiter0 token0 1000000 terms0
     empty_shipment_options blank = Inr (t, ''N'') \<and> k_shipment t ''N'' = Some sh \<and> sh_total_amount sh = 1000000"
proof -
  obtain t where t: "create_shipment (env_at 20) ''N'' [buyer0] supplier0 other0 arbiter0 token0 1000000 terms0
     empty_shipment_options blank = Inr (t, ''N'')" using create_blank by blast
  from creation_outcome [OF t] t show ?thesis by auto
qed

text \<open>C5. A creation brings in exactly what the new shipment owes: with no other change to what backs each
  token, the contract (less what it keeps for vaults) holds the amount, the bond of every milestone and the
  bonus pool more than before in the shipment's token, and in the collateral's token what was locked.\<close>

theorem creation_is_funded:
  assumes "create_shipment e i buyers supplier logistics arbiter tok amount ms opt s = Inr (t, i')"
    "vault_inv bs s" "hd buyers \<in> set bs" "hd buyers \<noteq> this e" "supplier \<noteq> this e"
    "\<And>sp src. k_pending_allowance s = Some (sp, src) \<Longrightarrow> src \<noteq> this e"
  shows "\<exists>bond eff. creation_bond amount opt s = Inr bond \<and>
    backing k (this e) t = backing k (this e) s
       + (if k = tok then funding amount bond (length ms) (op_early_bonus_pool opt) else 0)
       + (if k = get_or tok (k_collateral_token s i) then eff else 0) \<and>
    (if 0 < op_supplier_collateral opt then \<exists>c. k_supplier_collateral t i = Some c \<and> eff = max c 0 else eff = 0)"
  by (rule creation_backing [OF assms]) blast+

theorem creation_is_funded_witness:
  "\<exists>t. create_shipment (env_at 20) ''N'' [buyer0] supplier0 other0 arbiter0 token0 1000000 terms0
     empty_shipment_options blank = Inr (t, ''N'') \<and> backing token0 contract0 t = 1000000"
proof -
  obtain t where t: "create_shipment (env_at 20) ''N'' [buyer0] supplier0 other0 arbiter0 token0 1000000 terms0
     empty_shipment_options blank = Inr (t, ''N'')" using create_blank by blast
  have f: "vault_inv [buyer0] blank" "backing token0 contract0 blank = 0" "buyer0 \<noteq> contract0" "supplier0 \<noteq> contract0"
    by (simp_all add: vault_inv_def backing_def vault_total_def vault_bal_def net_flow_def addr0_defs)
  from creation_is_funded [OF t f(1), of token0] f create_steps(1) t show ?thesis
    by (auto simp: funding_def empty_shipment_options_def)
qed

section \<open>Confirmations\<close>

text \<open>C9. A batch confirmation that returns was signed by a buyer; every index in it names a milestone with a
  submitted proof, all of them are confirmed, and the value of an index is released once for each time it
  occurs in the list: naming a milestone twice releases it twice.\<close>

theorem batch_releases_each_occurrence:
  assumes "batch_confirm_milestones e b i js s = Inr t" "js \<noteq> []"
  shows "\<exists>sh sh' gs. k_shipment s i = Some sh \<and> sh_status sh = Active \<and> b \<in> set (signers e) \<and> is_buyer sh b \<and>
    (\<forall>j \<in> set js. j < length (sh_milestones sh) \<and> ms_status (sh_milestones sh ! j) = ProofSubmitted) \<and>
    list_all2 (\<lambda>j g. milestone_gross_payment s sh j = Inr g) js gs \<and> k_shipment t = (k_shipment s)(i \<mapsto> sh') \<and>
    sh_released_amount sh' = sh_released_amount sh + sum_list gs \<and>
    sh_milestones sh' = map (\<lambda>k. if k \<in> set js then (sh_milestones sh ! k)\<lparr>ms_status := Confirmed\<rparr> else sh_milestones sh ! k)
       [0..<length (sh_milestones sh)] \<and>
    sh_status sh' = (if all_milestones_done sh' then Completed else Active)"
  by (rule batch_confirm_Inr [OF assms]) (unfold confirmed_list grosses_def, blast)

theorem batch_releases_each_occurrence_witness:
  "\<exists>t sh'. batch_confirm_milestones (env_at 20) buyer0 ''S'' [0, 0] two0 = Inr t \<and> k_shipment t ''S'' = Some sh' \<and>
     sh_released_amount sh' = 1200 \<and> sh_total_amount deal_two = 1000"
proof -
  obtain t where t: "batch_confirm_milestones (env_at 20) buyer0 ''S'' [0, 0] two0 = Inr t" using batch_two by blast
  from batch_releases_each_occurrence [OF t] obtain sh sh' gs where c: "k_shipment two0 ''S'' = Some sh"
    "list_all2 (\<lambda>j g. milestone_gross_payment two0 sh j = Inr g) [0, 0] gs" "k_shipment t = (k_shipment two0)(''S'' \<mapsto> sh')"
    "sh_released_amount sh' = sh_released_amount sh + sum_list gs" by auto
  have "sh = deal_two" using c(1) by (simp add: two0_def)
  then show ?thesis using t c(2-4) two0_facts by (auto simp: list_all2_Cons1)
qed

lemma full_same:
  assumes "same_value a b" "k_milestone_splits t = k_milestone_splits s"
  shows "milestone_full_gross_payment t b j = milestone_full_gross_payment s a j"
  using gross_same(2) [of a b "t\<lparr>k_partial_qty_released := k_partial_qty_released s\<rparr>" s j] assms
  by (simp add: milestone_full_gross_payment_def)

text \<open>One delivery after \<open>d\<close> units, for which the floored share has been released.\<close>

lemma delivery_step:
  assumes "confirm_partial_quantity e b i j q s = Inr t" "k_shipment s i = Some sh"
    "milestone_full_gross_payment s sh j = Inr full" "0 \<le> full" "get_or 0 (k_delivered_quantity s (i, j)) = d"
    "get_or 0 (k_partial_qty_released s (i, j)) = full * int d div int (expected_quantity s i j)"
    "d + q < expected_quantity s i j"
  obtains sh' where "k_shipment t i = Some sh'" "milestone_full_gross_payment t sh' j = Inr full"
    "get_or 0 (k_delivered_quantity t (i, j)) = d + q" "expected_quantity t i j = expected_quantity s i j"
    "get_or 0 (k_partial_qty_released t (i, j)) = full * int (d + q) div int (expected_quantity s i j)"
    "sh_released_amount sh' = sh_released_amount sh + (full * int (d + q) div int (expected_quantity s i j)
       - full * int d div int (expected_quantity s i j))" "sh_milestones sh' = sh_milestones sh"
proof -
  let ?x = "int (expected_quantity s i j)"
  have x: "0 < ?x" using assms(7) by simp
  have ne: "get_or 0 (k_delivered_quantity s (i, j)) + q \<noteq> expected_quantity s i j" using assms(5,7) by simp
  show thesis
  proof (rule delivery_Inr [OF assms(1) ne])
    fix sh0 f target sh'
    assume c: "k_shipment s i = Some sh0" "milestone_full_gross_payment s sh0 j = Inr f"
      "mul_div f (get_or 0 (k_delivered_quantity s (i, j)) + q) ?x = Inr target"
      "k_delivered_quantity t = (k_delivered_quantity s)((i, j) \<mapsto> get_or 0 (k_delivered_quantity s (i, j)) + q)"
      "k_partial_qty_released t = (k_partial_qty_released s)((i, j) \<mapsto> target)"
      "k_shipment t = (k_shipment s)(i \<mapsto> sh')" "sh_milestones sh' = sh_milestones sh0" "same_value sh0 sh'"
      "sh_released_amount sh' = sh_released_amount sh0 + max (target - get_or 0 (k_partial_qty_released s (i, j))) 0"
      "k_milestone_quantities t = k_milestone_quantities s" "k_milestone_splits t = k_milestone_splits s"
    have e: "sh0 = sh" "f = full" using c(1,2) assms(2,3) by simp_all
    have tg: "target = full * int (d + q) div ?x"
      using c(3) assms(4,5) x by (simp add: mul_div_Inr tdiv_nonneg e)
    have "full * int d div ?x \<le> full * int (d + q) div ?x"
      using assms(4) x by (intro zdiv_mono1 mult_left_mono) simp_all
    then show thesis
      by (intro that [of sh']) (use c e tg assms full_same [OF c(8,11), of j] in \<open>simp_all add: expected_quantity_def\<close>)
  qed
qed

lemma deliveries:
  assumes "foldE (\<lambda>(e, q). confirm_partial_quantity e b i j q) ds s = Inr t" "k_shipment s i = Some sh"
    "milestone_full_gross_payment s sh j = Inr full" "0 \<le> full" "get_or 0 (k_delivered_quantity s (i, j)) = d"
    "get_or 0 (k_partial_qty_released s (i, j)) = full * int d div int (expected_quantity s i j)"
    "d + sum_list (map snd ds) < expected_quantity s i j"
  shows "\<exists>sh'. k_shipment t i = Some sh' \<and> sh_milestones sh' = sh_milestones sh \<and>
    sh_released_amount sh' = sh_released_amount sh + (full * int (d + sum_list (map snd ds)) div int (expected_quantity s i j)
       - full * int d div int (expected_quantity s i j))"
  using assms
proof (induction ds arbitrary: s sh d)
  case (Cons x ds)
  obtain e q where x: "x = (e, q)" by (cases x)
  obtain u where u: "confirm_partial_quantity e b i j q s = Inr u"
    "foldE (\<lambda>(e, q). confirm_partial_quantity e b i j q) ds u = Inr t"
    using Cons.prems(1) by (auto simp: x bindE_Inr)
  have "d + q < expected_quantity s i j" using Cons.prems(7) by (simp add: x)
  then obtain sh1 where c: "k_shipment u i = Some sh1" "milestone_full_gross_payment u sh1 j = Inr full"
    "get_or 0 (k_delivered_quantity u (i, j)) = d + q" "expected_quantity u i j = expected_quantity s i j"
    "get_or 0 (k_partial_qty_released u (i, j)) = full * int (d + q) div int (expected_quantity s i j)"
    "sh_released_amount sh1 = sh_released_amount sh + (full * int (d + q) div int (expected_quantity s i j)
       - full * int d div int (expected_quantity s i j))" "sh_milestones sh1 = sh_milestones sh"
    by (rule delivery_step [OF u(1) Cons.prems(2-6)])
  from Cons.IH [OF u(2) c(1,2) Cons.prems(4) c(3)] show ?case
    using c Cons.prems(7) by (auto simp: x add.assoc)
qed auto

text \<open>C10. Deliveries short of the expected quantity release the floored proportional share of the whole: however
  a quantity is split into deliveries, what they have released of the milestone together is
  \<open>full * delivered div expected\<close>, and no milestone changes.\<close>

theorem deliveries_pro_rata:
  assumes "foldE (\<lambda>(e, q). confirm_partial_quantity e b i j q) ds s = Inr t" "k_shipment s i = Some sh"
    "milestone_full_gross_payment s sh j = Inr full" "0 \<le> full"
    "k_delivered_quantity s (i, j) = None" "k_partial_qty_released s (i, j) = None"
    "sum_list (map snd ds) < expected_quantity s i j"
  shows "\<exists>sh'. k_shipment t i = Some sh' \<and> sh_milestones sh' = sh_milestones sh \<and>
    sh_released_amount sh' = sh_released_amount sh + full * int (sum_list (map snd ds)) div int (expected_quantity s i j)"
  using deliveries [OF assms(1-4), of 0] assms(5-7) by simp

theorem deliveries_pro_rata_witness:
  "\<exists>t sh'. foldE (\<lambda>(e, q). confirm_partial_quantity e buyer0 ''S'' 0 q) [(env_at 20, 1), (env_at 21, 1)] goods0 = Inr t \<and>
     k_shipment t ''S'' = Some sh' \<and> sh_released_amount sh' = 1000 * 60 div 100 * 2 div 3"
proof -
  obtain t where t: "foldE (\<lambda>(e, q). confirm_partial_quantity e buyer0 ''S'' 0 q) [(env_at 20, 1), (env_at 21, 1)] goods0 = Inr t"
    using deliver_goods by auto
  from deliveries_pro_rata [OF t, of deal0 600] goods0_facts t show ?thesis by auto
qed

text \<open>C37. A claimed confirmation needs a submitted proof whose window has passed, and nobody's signature; it
  confirms exactly that milestone and releases its value less the late penalty.\<close>

theorem window_confirmation_outcome:
  assumes "claim_auto_confirmation e i j s = Inr t"
  shows "\<exists>sh gross pen p sh'. k_shipment s i = Some sh \<and> sh_status sh = Active \<and> j < length (sh_milestones sh) \<and>
    ms_status (sh_milestones sh ! j) = ProofSubmitted \<and> 0 < get_effective_auto_confirm_window s sh \<and>
    ms_proof_submitted_ledger (sh_milestones sh ! j) = Some p \<and>
    p + get_effective_auto_confirm_window s sh \<le> sequence e \<and>
    milestone_gross_payment s sh j = Inr gross \<and> late_penalty sh (sh_milestones sh ! j) gross = Inr pen \<and>
    k_shipment t = (k_shipment s)(i \<mapsto> sh') \<and>
    sh_milestones sh' = (sh_milestones sh)[j :=
       (sh_milestones sh ! j)\<lparr>ms_status := Confirmed, ms_proof_submitted_ledger := None\<rparr>] \<and>
    sh_released_amount sh' = sh_released_amount sh + (gross - pen) \<and>
    sh_status sh' = (if all_milestones_done sh' then Completed else Active)"
  by (rule auto_confirm_Inr [OF assms]) blast

theorem window_confirmation_outcome_witness:
  "\<exists>t sh'. claim_auto_confirmation (env_at 20) ''S'' 0 window0 = Inr t \<and> k_shipment t ''S'' = Some sh' \<and>
     ms_status (sh_milestones sh' ! 0) = Confirmed"
proof -
  obtain t where t: "claim_auto_confirmation (env_at 20) ''S'' 0 window0 = Inr t" using claim_window by blast
  from window_confirmation_outcome [OF t] t show ?thesis by auto
qed

section \<open>Closing calls\<close>

lemma holdbacks_spent:
  assumes "refund_holdbacks_on_cancel e i c sh s = Inr (t, sh')"
  shows "spent e (sh_token sh) s t = max (get_or 0 (k_retainage_balance s i) + get_or 0 (k_warranty_balance s i)) 0"
  using holdbacks_returned(1,5) [OF assms] by (simp add: returned_def vault_bal_def)

lemma spent_pay_when:
  "whenE (0 < n) (token_pay e tok (this e) dst n) s = Inr t \<Longrightarrow> spent e tok s t = max n 0"
  using spent_pay by (auto simp: whenE_Inr split: if_splits)

lemma decrease_quiet:
  assumes "decrease_total_escrowed tok n s = Inr t"
  shows "calls t = calls s" "k_retainage_balance t = k_retainage_balance s" "k_warranty_balance t = k_warranty_balance s"
  using assms by (auto simp: decrease_total_escrowed_def bindE_Inr)

lemma expire_spent:
  assumes "expire_shipment e i caller dst n sh s = Inr (t, sh')"
  shows "spent e (sh_token sh) s t = max n 0 + max (get_or 0 (k_supplier_collateral s i)) 0
    + max (get_or 0 (k_retainage_balance s i) + get_or 0 (k_warranty_balance s i)) 0"
proof -
  let ?tok = "sh_token sh"
  obtain s1 s2 s3 sh1 where c: "pay_expired e i sh dst n s = Inr s1" "decrease_total_escrowed ?tok n s1 = Inr s2"
    "refund_holdbacks_on_cancel e i caller sh (move_shipment_status_index Active Expired i s2) = Inr (s3, sh1)"
    and t: "t = increment_reputation_internal e (sh_supplier sh') 0 0 1 s3"
    using assms by (auto simp: expire_shipment_def bindE_Inr Let_def split: prod.splits)
  obtain u where p: "whenE (0 < n) (token_pay e ?tok (this e) dst n) s = Inr u"
    "whenE (0 < get_or 0 (k_supplier_collateral u i)) (token_pay e ?tok (this e) dst (get_or 0 (k_supplier_collateral u i))) u = Inr s1"
    using c(1) by (auto simp: pay_expired_def Let_def bindE_Inr)
  note r = routedD [OF routed_pay_when [OF p(1)]] routedD [OF routed_pay_when [OF p(2)]]
  have q: "quiet s2 (move_shipment_status_index Active Expired i s2)" by (rule quiet_status_index)
  have "spent e ?tok s s1 = max n 0 + max (get_or 0 (k_supplier_collateral s i)) 0"
    using spent_pay_when [OF p(1)] spent_pay_when [OF p(2)] spent_trans [of e ?tok s s1 u] r by simp
  moreover have "spent e ?tok s1 s3 = max (get_or 0 (k_retainage_balance s i) + get_or 0 (k_warranty_balance s i)) 0"
  proof -
    have "spent e ?tok s1 s3 = spent e ?tok (move_shipment_status_index Active Expired i s2) s3"
      using decrease_quiet(1) [OF c(2)] quietD(2) [OF q] by (simp add: spent_def)
    then show ?thesis using holdbacks_spent [OF c(3)] quietD(4,5) [OF q] decrease_quiet(2,3) [OF c(2)] r by simp
  qed
  moreover have "spent e ?tok s3 t = 0" using quietD(2) [OF quiet_reputation] by (simp add: t spent_def)
  ultimately show ?thesis using spent_trans [of e ?tok s t s1] spent_trans [of e ?tok s1 t s3] by simp
qed

text \<open>C38. A deadline refund was signed by a buyer of the active shipment after the deadline of a milestone that is
  not settled. The shipment expires with its milestones as they were; everything neither released nor
  advanced, the collateral and the holdbacks leave the contract.\<close>

theorem deadline_refund_outcome:
  assumes "claim_deadline_refund e b i j s = Inr t"
  shows "\<exists>sh sh' n. k_shipment s i = Some sh \<and> sh_status sh = Active \<and> is_buyer sh b \<and> b \<in> set (signers e) \<and>
    deadline_missed e s i sh j = Inr () \<and> unreleased_of sh = Inr n \<and>
    k_shipment t = (k_shipment s)(i \<mapsto> sh') \<and> sh_status sh' = Expired \<and> sh_milestones sh' = sh_milestones sh \<and>
    sh_cancellation_reason sh' = [DeadlineRefund] \<and>
    spent e (sh_token sh) s t = max n 0 + max (get_or 0 (k_supplier_collateral s i)) 0
      + max (get_or 0 (k_retainage_balance s i) + get_or 0 (k_warranty_balance s i)) 0"
proof (rule deadline_refund_Inr [OF assms])
  fix sh n s1 sh'
  assume c: "k_shipment s i = Some sh" "sh_status sh = Active" "is_buyer sh b" "b \<in> set (signers e)"
    "deadline_missed e s i sh j = Inr ()" "unreleased_of sh = Inr n"
    "expire_shipment e i b (sh_buyers sh ! 0) n sh s = Inr (s1, sh')"
    "k_shipment t = (k_shipment s)(i \<mapsto> sh')" "calls t = calls s1"
  have "spent e (sh_token sh) s t = spent e (sh_token sh) s s1" using c(9) by (simp add: spent_def)
  then show ?thesis using c expire_aside(4-6) [OF c(7)] expire_spent [OF c(7)] by auto
qed

theorem deadline_refund_outcome_witness:
  "\<exists>t sh'. claim_deadline_refund (env_at 20) buyer0 ''S'' 1 late0 = Inr t \<and> k_shipment t ''S'' = Some sh' \<and>
     sh_status sh' = Expired"
proof -
  obtain t where t: "claim_deadline_refund (env_at 20) buyer0 ''S'' 1 late0 = Inr t" using expire_late by blast
  from deadline_refund_outcome [OF t] t show ?thesis by auto
qed

text \<open>C39. The administrator's recovery was signed by the stored administrator and needs an active shipment older
  than the threshold. It cancels the shipment; everything neither released nor advanced and the holdbacks
  leave the contract, the former to the administrator; the supplier's collateral stays where it is.\<close>

theorem recovery_outcome:
  assumes "emergency_recover e adm i s = Inr t"
  shows "\<exists>sh sh' n. as_admin e adm s = Inr () \<and> k_shipment s i = Some sh \<and> sh_status sh = Active \<and>
    sh_created_at sh + RECOVERY_THRESHOLD_LEDGERS < sequence e \<and> unreleased_of sh = Inr n \<and>
    k_shipment t = (k_shipment s)(i \<mapsto> sh') \<and> sh_status sh' = Cancelled \<and> sh_milestones sh' = sh_milestones sh \<and>
    (0 < n \<longrightarrow> \<lparr>xtoken = sh_token sh, xfrom = this e, xto = adm, xamount = n\<rparr> \<in> set (calls t)) \<and>
    spent e (sh_token sh) s t = max n 0 + max (get_or 0 (k_retainage_balance s i) + get_or 0 (k_warranty_balance s i)) 0"
proof -
  have adm: "as_admin e adm s = Inr ()" and d: "do_emergency_recover e adm i s = Inr t"
    using assms by (auto simp: emergency_recover_def bindE_Inr)
  show ?thesis
  proof (rule emergency_Inr [OF d])
    fix sh :: shipment and n s1 s2 sh1
    let ?v = "move_shipment_status_index Active Cancelled i s1" and ?tok = "sh_token sh"
    assume c: "k_shipment s i = Some sh" "sh_status sh = Active"
      "sh_created_at sh + RECOVERY_THRESHOLD_LEDGERS < sequence e" "unreleased_of sh = Inr n"
      "whenE (0 < n) (token_pay e ?tok (this e) adm n) s = Inr s1" "refund_holdbacks_on_cancel e i adm sh ?v = Inr (s2, sh1)"
      "k_shipment t = (k_shipment s)(i \<mapsto> append_audit_entry e adm ''shipment_cancelled'' ''cancel_shipment''
                 (sh1\<lparr>sh_status := Cancelled, sh_cancellation_reason := [AdminEmergencyRecovery]\<rparr>))"
      "calls t = calls s2"
    have q: "quiet s1 ?v" by (rule quiet_status_index)
    have sp: "spent e ?tok s t = max n 0 + max (get_or 0 (k_retainage_balance s i) + get_or 0 (k_warranty_balance s i)) 0"
      using spent_trans [of e ?tok s t s1] spent_pay_when [OF c(5)] holdbacks_spent [OF c(6)] quietD(2,4,5) [OF q]
        routedD(5,6) [OF routed_pay_when [OF c(5)]] c(8) by (simp add: spent_def)
    have "set (calls ?v) \<subseteq> set (calls s2)"
      using c(6) by (auto simp: refund_holdbacks_on_cancel_def Let_def bindE_Inr token_pay_Inr decrease_total_escrowed_def split: if_splits)
    then have "0 < n \<longrightarrow> \<lparr>xtoken = ?tok, xfrom = this e, xto = adm, xamount = n\<rparr> \<in> set (calls t)"
      using c(5,8) quietD(2) [OF q] by (auto simp: whenE_Inr token_pay_Inr)
    then show ?thesis
      using adm c sp holdbacks_aside(4) [OF c(6)] by (auto simp: append_audit_entry_def)
  qed
qed

theorem recovery_outcome_witness:
  "\<exists>t sh'. emergency_recover (env_at 20000000) treasury0 ''S'' stuck0 = Inr t \<and> k_shipment t ''S'' = Some sh' \<and>
     sh_status sh' = Cancelled"
proof -
  obtain t where t: "emergency_recover (env_at 20000000) treasury0 ''S'' stuck0 = Inr t" using recover_stuck by blast
  from recovery_outcome [OF t] t show ?thesis by auto
qed

section \<open>Time lock\<close>

text \<open>C40. A parameter change is executed by the administrator, not before the delay that was set when it was
  proposed, and once. Exactly one of three parameters takes the proposed number: the platform fee (reduced to
  32 bits, its treasury kept), the largest value of a shipment, the limit of the circuit breaker. No other
  parameter can be executed, and the other two of the three stay as they were.\<close>

theorem timelock_outcome:
  assumes "propose_param_change e a p v s = Inr t" "execute_param_change e' b p t = Inr u"
  shows "as_admin e a s = Inr () \<and> as_admin e' b t = Inr () \<and>
    sequence e + get_or 0 (k_timelock_duration s) \<le> sequence e' \<and> k_pending_param_change u p = None \<and>
    p \<in> {''fee_config'', ''max_shipment_value'', ''circuit_breaker_limit''} \<and>
    k_fee_config u = (if p = ''fee_config'' then map_option (\<lambda>c. c\<lparr>fc_fee_bps := as_u32 v\<rparr>) (k_fee_config s)
                      else k_fee_config s) \<and>
    k_max_shipment_value u = (if p = ''max_shipment_value'' then Some v else k_max_shipment_value s) \<and>
    k_cb_limit u = (if p = ''circuit_breaker_limit'' then Some v else k_cb_limit s)"
  using assms
  by (auto simp: propose_param_change_def execute_param_change_def apply_param_def append_admin_action_def emit_def bindE_Inr
      ck_u32_Inr ensure_Inr expect_Inr split: if_splits)

theorem timelock_outcome_witness:
  "\<exists>t u. propose_param_change (env_at 20) treasury0 ''fee_config'' 1000000 stuck0 = Inr t \<and>
     execute_param_change (env_at 20) treasury0 ''fee_config'' t = Inr u \<and>
     k_fee_config u = Some \<lparr>fc_fee_bps = 1000000, fc_treasury = treasury0\<rparr> \<and> MAX_FEE_BPS < 1000000"
proof -
  obtain t u where t: "propose_param_change (env_at 20) treasury0 ''fee_config'' 1000000 stuck0 = Inr t"
    "execute_param_change (env_at 20) treasury0 ''fee_config'' t = Inr u" using change_fee by blast
  from timelock_outcome [OF t] t stuck0_facts show ?thesis by auto
qed

end
