(* ===== verification/RunProperties.thy ===== *)
theory RunProperties
  imports PathSample SettleRuns
begin

text \<open>
  The properties of whole runs: the books of the disputes, one payment per milestone, closed shipments,
  the emergency brake, and the second attestation of a proof.
\<close>

section \<open>The books of the disputes\<close>

text \<open>C3. From a storage without shipments, after any run of the calls of \<open>life_step\<close> (every modelled call that
  writes a stored shipment, the archive apart; not the calls that merge, split or append milestones or split a
  shipment, which are not modelled), the counter of open disputes of every shipment is at least the number of
  its disputed milestones. It is exactly that number, and no disputed milestone has a ruling on record, when in
  the run the oracles report no breach of a milestone that has a ruling on record; such a report leaves the old
  ruling there, and an appeal of it counts the dispute a second time.\<close>

theorem life_accounts_exact:
  assumes "no_shipments s" "(life_step over)\<^sup>*\<^sup>* s t" "k_shipment t i = Some sh"
  shows "length (filter (\<lambda>m. ms_status m = Disputed) (sh_milestones sh)) \<le> sh_open_dispute_count sh \<and>
    (\<not> over \<longrightarrow> sh_open_dispute_count sh = length (filter (\<lambda>m. ms_status m = Disputed) (sh_milestones sh)) \<and>
      (\<forall>j < length (sh_milestones sh). ms_status (sh_milestones sh ! j) = Disputed \<longrightarrow>
         k_dispute_resolved_at t (i, j) = None))"
  using dispute_booksD [OF life.inv_from [OF assms(2) life.start_inv [OF assms(1)]] assms(3)]
  unfolding open_disputes_def by blast

theorem life_accounts_exact_witness:
  "\<exists>t sh. create_shipment (env_at 20) ''N'' [buyer0] supplier0 other0 arbiter0 token0 1000000 terms0
     empty_shipment_options blank = Inr (t, ''N'') \<and> k_shipment t ''N'' = Some sh \<and>
     sh_open_dispute_count sh = length (filter (\<lambda>m. ms_status m = Disputed) (sh_milestones sh))"
proof -
  obtain t where t: "create_shipment (env_at 20) ''N'' [buyer0] supplier0 other0 arbiter0 token0 1000000 terms0
     empty_shipment_options blank = Inr (t, ''N'')" using create_blank by blast
  have "no_shipments blank" by (simp add: no_shipments_def)
  moreover have "(life_step False)\<^sup>*\<^sup>* blank t" using life_create [OF t] by (rule r_into_rtranclp)
  moreover obtain sh where "k_shipment t ''N'' = Some sh" by (rule created [OF t]) (use that in simp)
  ultimately show ?thesis using life_accounts_exact t by blast
qed

section \<open>One payment per milestone\<close>

text \<open>C8. A settled milestone is not paid again before an appeal. After a call that settled the milestone and
  released money (a confirmation, a release, a claimed confirmation, a batch that names it, a ruling, a split, a
  deciding vote, a finalisation), and any run of calls of \<open>life_step\<close> in which this milestone is not appealed, it
  is confirmed or resolved, and no later call that pays on it returns: none of these, no grade, no delivery, no
  partial dispute, no timeout, no mediation, no batch of rulings that names it. Outside the claim are the
  approval of an advance, which does not look at the status, what the settling call itself pays (a batch that
  names the milestone twice releases it twice), what deliveries and partial disputes paid before, and the calls
  that are no steps (the archive; merging, splitting and appending milestones).\<close>

theorem milestone_paid_once:
  assumes "settling_call i j s t" "k_shipment s i = Some sh" "k_shipment t i = Some sh'"
    and "sh_released_amount sh' \<noteq> sh_released_amount sh"
    and "(\<lambda>u v. life_step True u v \<and> \<not> dispute_call Appeal i j u v)\<^sup>*\<^sup>* t u"
  shows "statuses u (i, j) \<in> {Some Confirmed, Some Resolved} \<and> \<not> paying_call i j u v"
proof -
  have "settled_at i j u"
    using assms(5)
  proof (induction rule: rtranclp_induct)
    case base
    show ?case by (rule settling_done [OF assms(1-4)])
  next
    case (step x y)
    then show ?case using life_done [of True x y i j] by (auto simp: settled_at_done)
  qed
  then show ?thesis using paying_open [of i j u v] by (auto simp: settled_at_def)
qed

theorem milestone_paid_once_witness:
  "\<exists>t. confirm_milestone (env_at 20) buyer0 ''S'' 0 state0 = Inr t \<and> (\<forall>v. \<not> paying_call ''S'' 0 t v)"
proof -
  obtain t where t: "confirm_milestone (env_at 20) buyer0 ''S'' 0 state0 = Inr t" using confirm_deal0 by blast
  from confirmation_released_deal0 [OF t] obtain sh' where sh': "k_shipment t ''S'' = Some sh'"
    "sh_released_amount sh' \<noteq> sh_released_amount deal0" by auto
  from milestone_paid_once [OF settle_confirm [OF t] deal0_facts(1) sh' rtranclp.rtrancl_refl] t show ?thesis by blast
qed

section \<open>Closed shipments\<close>

text \<open>C21. A shipment that is cancelled, expired or completed stays so: over any run of calls of \<open>life_step\<close> it keeps
  its status, the statuses and shares of its milestones, and the amounts released and advanced, and no call
  returns on it that would settle a milestone, dispute, rule, advance, top up, slash, cancel, refund or recover.
  Outside the claim are the archive, which deletes it, the payment of retainage and warranty after completion, and
  the calls that are not modelled (merging, splitting and appending milestones, splitting a shipment).\<close>

theorem cancelled_is_final:
  assumes "k_shipment s i = Some sh" "sh_status sh \<noteq> Active" "(life_step True)\<^sup>*\<^sup>* s t"
  shows "(\<exists>sh'. k_shipment t i = Some sh' \<and> sh_status sh' = sh_status sh \<and>
      map ms_status (sh_milestones sh') = map ms_status (sh_milestones sh) \<and>
      map ms_payment_percent (sh_milestones sh') = map ms_payment_percent (sh_milestones sh) \<and>
      sh_released_amount sh' = sh_released_amount sh \<and> sh_total_advanced_amount sh' = sh_total_advanced_amount sh) \<and>
    \<not> escrow_call i t u"
proof -
  obtain sh' where k: "k_shipment t i = Some sh'" "kept sh sh'" using life_closed_run [OF assms(3,1,2)] by blast
  have "stages sh' = stages sh" using k(2) by (simp add: kept_def)
  then have "map fst (stages sh') = map fst (stages sh)" "map snd (stages sh') = map snd (stages sh)" by simp_all
  then have st: "map ms_status (sh_milestones sh') = map ms_status (sh_milestones sh)"
    "map ms_payment_percent (sh_milestones sh') = map ms_payment_percent (sh_milestones sh)"
    by (simp_all add: stages_def comp_def)
  have "\<not> escrow_call i t u" using escrow_active [of i t u] k assms(2) by (auto simp: kept_def)
  then show ?thesis using k st by (simp add: kept_def)
qed

definition cancelled0 :: settle where
  "cancelled0 = state0\<lparr>k_shipment := [''S'' \<mapsto> deal0\<lparr>sh_status := Cancelled\<rparr>]\<rparr>"

lemma cancelled0: "k_shipment cancelled0 ''S'' = Some (deal0\<lparr>sh_status := Cancelled\<rparr>)"
  by (simp add: cancelled0_def)

theorem cancelled_is_final_witness:
  "(\<exists>sh. k_shipment cancelled0 ''S'' = Some sh \<and> sh_status sh = Cancelled) \<and> (\<forall>u. \<not> escrow_call ''S'' cancelled0 u)"
  using cancelled_is_final [OF cancelled0 _ rtranclp.rtrancl_refl] cancelled0 by auto

section \<open>The emergency brake\<close>

lemma not_paused_counter [simp]: "assert_not_paused (s\<lparr>k_auto_id_counter := n\<rparr>) = assert_not_paused s"
  by (simp add: assert_not_paused_def)

lemma paused_no_call:
  assumes "dispute_call k i j s t" "\<And>u. assert_not_paused s \<noteq> Inr u"
  shows False
  using assms(1)
  by cases (use assms(2) in \<open>simp_all add: raise_dispute_def raise_partial_dispute_def report_condition_breach_def
      withdraw_dispute_def resolve_dispute_def resolve_dispute_split_def resolve_dispute_timeout_def cast_dispute_vote_def
      accept_mediation_def finalize_dispute_resolution_def appeal_dispute_def assert_operation_not_paused_def bindE_Inr\<close>)

lemma paused_no_life:
  assumes "life_step over s t" "\<And>u. assert_not_paused s \<noteq> Inr u"
  shows False
  using assms(1)
proof cases
  case life_dispute
  then show ?thesis
    using paused_no_call [OF _ assms(2)] by cases (use assms(2) in \<open>auto simp: batch_resolve_disputes_def bindE_Inr\<close>)
qed (use assms(2) in \<open>simp_all add: create_shipment_def create_shipment_auto_id_def create_shipment_from_template_def
      create_shipment_with_allowance_def execute_standing_order_def submit_proof_def submit_proof_internal_def
      batch_submit_proofs_def correct_proof_def attest_proof_def inspector_sign_off_def confirm_milestone_def
      release_held_payment_def batch_confirm_milestones_def claim_auto_confirmation_def confirm_milestone_graded_def
      confirm_partial_quantity_def request_advance_def approve_advance_def slash_collateral_for_miss_def
      cancel_shipment_def batch_cancel_shipments_def supplier_cancel_def cancel_for_blacklisted_supplier_def
      claim_deadline_refund_def sweep_unclaimed_refund_def emergency_recover_def propose_emergency_recover_def
      execute_emergency_recover_def file_warranty_claim_def resolve_warranty_claim_def release_warranty_def
      recuse_arbiter_def propose_arbiter_rotation_def activate_backup_arbiter_def rate_counterparty_def top_up_escrow_def
      set_incremental_collateral_def attach_invoice_hash_def attach_bol_hash_def attach_checks_def resume_shipment_def
      assert_operation_not_paused_def bindE_Inr\<close>)

text \<open>C29. While the contract is paused or frozen no call of \<open>life_step\<close> returns: no creation, proof, confirmation,
  release, advance, dispute, ruling, cancellation, refund, recovery, warranty claim, change of arbiter, top-up,
  document or resumption of a shipment. Nor do the deposits and withdrawals of the vaults, the claims of batched
  payouts, the assignment and transfer of receivables, the authorisation of delegates, the request and approval of
  a shipment's pause. Some other calls of the contract do not look at the switch.\<close>

theorem paused_rejects:
  assumes "get_or False (k_paused s) \<or> get_or False (k_emergency_frozen s)"
  shows "\<not> life_step True s t \<and> vault_deposit e a tok n s \<noteq> Inr t \<and> vault_withdraw e a tok n s \<noteq> Inr t \<and>
    claim_payout e a tok s \<noteq> Inr t \<and> assign_payout e a i b s \<noteq> Inr t \<and> transfer_payout_assignment e a i b s \<noteq> Inr t \<and>
    authorize_delegate e a i b n' s \<noteq> Inr t \<and> request_shipment_pause e a i s \<noteq> Inr t \<and>
    approve_shipment_pause e a i s \<noteq> Inr t"
proof -
  have no: "assert_not_paused s \<noteq> Inr u" for u using assms by (auto simp: assert_not_paused_def)
  have "\<not> life_step True s t" using paused_no_life no by blast
  with no show ?thesis
    by (simp add: vault_deposit_def vault_withdraw_def claim_payout_def assign_payout_def transfer_payout_assignment_def
        authorize_delegate_def request_shipment_pause_def approve_shipment_pause_def
        assert_operation_not_paused_def bindE_Inr)
qed

theorem paused_rejects_witness:
  "\<forall>t. \<not> life_step True (state0\<lparr>k_paused := Some True\<rparr>) t"
  using paused_rejects [of "state0\<lparr>k_paused := Some True\<rparr>"] by simp

section \<open>Two attestations\<close>

lemma attest_Inr:
  assumes "attest_proof e b i j h s = Inr t"
  obtains sh sh' and p :: pending_dual_proof where "k_shipment s i = Some sh" "b \<in> set (signers e)" "b \<in> {sh_supplier sh, sh_logistics sh}"
    "k_pending_dual_proof s (i, j) = Some p" "b \<noteq> pd_first_attester p" "h = pd_proof_hash p"
    "k_shipment t = (k_shipment s)(i \<mapsto> sh')"
    "sh_milestones sh' = (sh_milestones sh)[j := proven_milestone e h (sh_milestones sh ! j)]"
proof -
  obtain sh m u c x y x' y' z1 z2 z3 z4 and p :: pending_dual_proof where g: "k_shipment s i = Some sh" "vec_get_unwrap (sh_milestones sh) j = Inr m"
      "require_auth e b = Inr z1" "ensure (b = sh_supplier sh \<or> b = sh_logistics sh) ''unauthorized'' = Inr z2"
      "expect (k_pending_dual_proof s (i, j)) ''no pending dual proof'' = Inr p"
      "ensure (b \<noteq> pd_first_attester p) ''caller already attested'' = Inr z3"
      "ensure (h = pd_proof_hash p) ''proof hash mismatch'' = Inr z4"
    and u: "record_proof e i j (pd_proof_type p) (pd_first_attester p)
        (s\<lparr>k_pending_dual_proof := (k_pending_dual_proof s)((i, j) := None),
           k_shipment := (k_shipment s)(i \<mapsto> append_audit_entry e b ''proof_attested'' ''attest_proof''
             (set_milestone j (proven_milestone e h m) sh))\<rparr>) = Inr u"
    and tu: "emit_milestone_proof_submitted i j h c (emit x y (emit x' y' u)) = t"
    using assms unfolding attest_proof_def bindE_Inr get_shipment_Inr Let_def sum.inject by blast
  have "k_shipment t = (k_shipment s)(i \<mapsto> append_audit_entry e b ''proof_attested'' ''attest_proof''
             (set_milestone j (proven_milestone e h m) sh))"
    using record_proof_Inr [OF u] tu by auto
  then show thesis
    using g that by (simp add: ensure_Inr require_auth_Inr expect_Inr vec_get_unwrap_Inr append_audit_entry_def set_milestone_def)
qed

lemma submit_dual:
  assumes "submit_proof_internal e a i' j' h ty check s = Inr t" "requires_dual_attestation s i"
  shows "statuses t (i, j) = statuses s (i, j) \<and> requires_dual_attestation t i"
proof
  show "statuses t (i, j) = statuses s (i, j)"
  proof (rule submit_internal_Inr [OF assms(1)])
    fix sh sh'
    assume c: "k_shipment s i' = Some sh" "k_shipment t = (k_shipment s)(i' \<mapsto> sh')"
      and m: "if requires_dual_attestation s i'
       then sh_milestones sh' = sh_milestones sh \<and> a \<in> {sh_supplier sh, sh_logistics sh} \<and>
         k_pending_dual_proof t = (k_pending_dual_proof s)((i', j') \<mapsto> \<lparr>pd_first_attester = a, pd_proof_hash = h, pd_proof_type = ty\<rparr>)
       else sh_milestones sh' = (sh_milestones sh)[j' := proven_milestone e h (sh_milestones sh ! j')] \<and>
         k_pending_dual_proof t = k_pending_dual_proof s"
    show ?thesis
    proof (cases "i' = i")
      case True
      then show ?thesis using statuses_same [OF c] m assms(2) by simp
    qed (use c(2) in \<open>simp add: statuses_def\<close>)
  qed
  obtain sh m where "(if requires_dual_attestation s i' then store_pending_proof e a i' j' h ty sh s
      else accept_proof e a i' j' h ty sh m s) = Inr t"
    using assms(1) by (auto simp: submit_proof_internal_def bindE_Inr simp del: if_split)
  then have "k_require_dual_attestation t = k_require_dual_attestation s"
    by (auto simp: store_pending_proof_def accept_proof_def record_proof_def bindE_Inr Let_def
        emit_milestone_proof_submitted_def emit_def split: if_splits)
  then show "requires_dual_attestation t i" using assms(2) by (simp add: requires_dual_attestation_def)
qed

lemma batch_dual:
  assumes "batch_submit_proofs e a i' entries s = Inr t" "requires_dual_attestation s i"
  shows "statuses t (i, j) = statuses s (i, j)"
proof -
  have fold: "statuses u (i, j) = statuses v (i, j)"
    if "foldE (\<lambda>(j, h, ty). submit_proof_internal e a i' j h ty False) es v = Inr u" "requires_dual_attestation v i" for es u v
    using that
  proof (induction es arbitrary: v)
    case (Cons x es)
    obtain k h ty where x: "x = (k, h, ty)" by (cases x)
    then obtain w where w: "submit_proof_internal e a i' k h ty False v = Inr w"
      "foldE (\<lambda>(j, h, ty). submit_proof_internal e a i' j h ty False) es w = Inr u"
      using Cons.prems(1) by (auto simp: bindE_Inr)
    then show ?case using Cons.IH [OF w(2)] submit_dual [OF w(1) Cons.prems(2)] by simp
  qed simp
  obtain s1 sh where f: "foldE (\<lambda>(j, h, ty). submit_proof_internal e a i' j h ty False) entries s = Inr s1"
    and c: "k_shipment s1 i' = Some sh" "k_shipment t = (k_shipment s1)(i' \<mapsto>
      append_audit_entry e a ''batch_proofs_submitted'' ''batch_submit_proofs'' sh)"
    using assms(1) by (auto simp: batch_submit_proofs_def bindE_Inr res_simps)
  have "statuses t = statuses s1" by (rule statuses_same [OF c]) (simp add: append_audit_entry_def)
  then show ?thesis using fold [OF f assms(2)] by simp
qed

lemma proof_dual:
  assumes "proof_call s t" "requires_dual_attestation s i" "statuses t (i, j) \<noteq> statuses s (i, j)"
  shows "\<exists>e b h. attest_proof e b i j h s = Inr t"
  using assms(1) unfolding proof_call_def
proof (elim disjE exE)
  fix e a i' j' h ty assume "submit_proof e a i' j' h ty s = Inr t"
  then show ?thesis using submit_dual [OF _ assms(2)] assms(3) by (auto simp: submit_proof_def)
next
  fix e a i' ps assume "batch_submit_proofs e a i' ps s = Inr t"
  then show ?thesis using batch_dual [OF _ assms(2)] assms(3) by blast
next
  fix e b i' j' h assume r: "attest_proof e b i' j' h s = Inr t"
  have "statuses t x = statuses s x" if "x \<noteq> (i', j')" for x
  proof (rule attest_Inr [OF r])
    fix sh sh' :: shipment
    assume "k_shipment s i' = Some sh" "k_shipment t = (k_shipment s)(i' \<mapsto> sh')"
      "sh_milestones sh' = (sh_milestones sh)[j' := proven_milestone e h (sh_milestones sh ! j')]"
    then show ?thesis using statuses_update that by simp
  qed
  then have "(i', j') = (i, j)" using assms(3) by metis
  then show ?thesis using r by blast
qed

text \<open>C36. Where two attestations are required, no single call proves a milestone that was not: of all calls of
  \<open>life_step\<close>, only the attestation of a pending proof does, signed by the supplier or the logistics party,
  whichever is not the first attester on record, for the recorded hash; or the withdrawal of a dispute, which
  puts a disputed milestone back to submitted whether it had a proof or not (the oracles can dispute a pending
  one). A submission itself changes no status and records its signer, one of the two parties, as first
  attester. What is proved is the status: once submitted, the first attester alone can replace the hash by a
  correction.\<close>

theorem dual_attestation_needs_two:
  assumes "life_step True s t" "requires_dual_attestation s i"
  shows "(\<forall>j a. statuses s (i, j) = Some a \<and> a \<noteq> ProofSubmitted \<and> statuses t (i, j) = Some ProofSubmitted \<longrightarrow>
      a = Disputed \<and> dispute_call Withdraw i j s t \<or>
      (\<exists>e b h sh p. attest_proof e b i j h s = Inr t \<and> k_shipment s i = Some sh \<and> k_pending_dual_proof s (i, j) = Some p \<and>
         b \<in> set (signers e) \<and> b \<in> {sh_supplier sh, sh_logistics sh} \<and> b \<noteq> pd_first_attester p \<and> h = pd_proof_hash p)) \<and>
    (\<forall>e a j h ty. submit_proof e a i j h ty s = Inr t \<longrightarrow> statuses t = statuses s \<and> a \<in> set (signers e) \<and>
      (\<exists>sh. k_shipment s i = Some sh \<and> a \<in> {sh_supplier sh, sh_logistics sh}) \<and>
      k_pending_dual_proof t = (k_pending_dual_proof s)((i, j) \<mapsto> \<lparr>pd_first_attester = a, pd_proof_hash = h, pd_proof_type = ty\<rparr>))"
proof (intro conjI allI impI; (elim conjE)?)
  fix j a
  assume st: "statuses s (i, j) = Some a" "a \<noteq> ProofSubmitted" "statuses t (i, j) = Some ProofSubmitted"
  from life_step_kinds [OF assms(1)]
  show "a = Disputed \<and> dispute_call Withdraw i j s t \<or>
      (\<exists>e b h sh p. attest_proof e b i j h s = Inr t \<and> k_shipment s i = Some sh \<and> k_pending_dual_proof s (i, j) = Some p \<and>
         b \<in> set (signers e) \<and> b \<in> {sh_supplier sh, sh_logistics sh} \<and> b \<noteq> pd_first_attester p \<and> h = pd_proof_hash p)"
  proof (elim disjE)
    assume "dispute_step True s t"
    then show ?thesis
    proof cases
      case (step_call k i' j')
      then have "(i, j) = (i', j')" "status_edge k a ProofSubmitted"
        using call_statuses [OF step_call(1), of "(i, j)"] st by auto
      then show ?thesis using step_call(1) by (auto simp: status_edge_simps)
    next
      case (step_batch e c rs)
      then show ?thesis using rulings_proved [OF batch_rulings st(3)] st(1,2) by simp
    qed
  next
    assume "proof_call s t"
    then obtain e b h where r: "attest_proof e b i j h s = Inr t" using proof_dual [OF _ assms(2)] st by force
    show ?thesis by (rule attest_Inr [OF r]) (use r in blast)
  next
    assume "calm False s t"
    then show ?thesis using calm_statuses(2) [OF _ st(1) _ st(3)] st(2) by blast
  qed
next
  fix e a j h ty assume r: "submit_proof e a i j h ty s = Inr t"
  show "statuses t = statuses s" "a \<in> set (signers e)" "\<exists>sh. k_shipment s i = Some sh \<and> a \<in> {sh_supplier sh, sh_logistics sh}"
    "k_pending_dual_proof t = (k_pending_dual_proof s)((i, j) \<mapsto> \<lparr>pd_first_attester = a, pd_proof_hash = h, pd_proof_type = ty\<rparr>)"
    by (rule submit_internal_Inr [OF r [unfolded submit_proof_def]]; use assms(2) statuses_same in simp)+
qed

theorem dual_attestation_needs_two_witness:
  "\<exists>t u. submit_proof (env_at 20) supplier0 ''S'' 0 ''proof'' ''bol'' pair0 = Inr t \<and>
     statuses t = statuses pair0 \<and> attest_proof (env_at 21) other0 ''S'' 0 ''proof'' t = Inr u \<and> supplier0 \<noteq> other0"
proof -
  obtain t u where t: "submit_proof (env_at 20) supplier0 ''S'' 0 ''proof'' ''bol'' pair0 = Inr t"
    "attest_proof (env_at 21) other0 ''S'' 0 ''proof'' t = Inr u" using attest_pair by blast
  have "statuses t = statuses pair0"
    using dual_attestation_needs_two [OF life_proof [OF t(1)] pair0_facts(1)] t(1) by blast
  then show ?thesis using t pair0_facts(2) by blast
qed

end
