(* ===== verification/Spec2Isabelle.thy ===== *)
theory Spec2Isabelle
  imports LoanProperties SettleProperties ClosingProperties LimitProperties GovernanceProperties LedgerProperties
    DisputeProperties PathProperties RunProperties
begin

text \<open>
  A verification development for the Soroban contracts of the repository: the collateralised lending
  pool \<^verbatim>\<open>contracts/loan_manager\<close> and the milestone escrow
  \<^verbatim>\<open>contracts/chainsetttle\<close>.

  \<^bold>\<open>The machine.\<close> A contract call runs in a host that rolls everything back when it traps. A call is
  a function from the storage to a result: \<open>Inr\<close> of the new storage, or \<open>Inl\<close> of the error of the
  trap (\<^verbatim>\<open>panic!\<close>, \<^verbatim>\<open>panic_with_error!\<close>, a checked operation that left its width, a
  refused \<^verbatim>\<open>require_auth\<close>, a trapped token call). Both crates are compiled with
  \<^verbatim>\<open>overflow-checks = true\<close>: plain arithmetic is checked, saturating operations clip, \<^verbatim>\<open>/\<close> on
  \<^verbatim>\<open>i128\<close> truncates. \<^verbatim>\<open>i128\<close> is \<open>int\<close>, \<^verbatim>\<open>u32\<close> and \<^verbatim>\<open>u64\<close> are \<open>nat\<close>, with
  the bounds in every operation that can leave them. Token contracts, price feeds and oracles are not in
  the repository: they are fields of the environment (\<open>tok_ok\<close> says which transfers the token accepts
  given the earlier ones, \<open>tok_balance\<close> what it reports), and nothing is assumed of them but what a
  theorem names. The accepted transfers are recorded in \<open>calls\<close>, the events in \<open>events\<close>. Storage is a
  record with one field per key; rent and the storage classes are the host's and are not modelled.

  \<^bold>\<open>Prelude\<close> has the result type and its inversion rules (\<open>res_simps\<close>), machine arithmetic, the
  environment, token transfers, sums, and \<open>invariant_system\<close>, the contract that an initial storage and
  calls fulfil towards an invariant.

  \<^bold>\<open>The lending pool.\<close> \<open>LoanStorage\<close> (\<^verbatim>\<open>storage.rs\<close>, \<^verbatim>\<open>constants.rs\<close>): data and typed
  accessors. \<open>LoanOracle\<close> (\<^verbatim>\<open>oracle.rs\<close>): validation, failover from the primary to the secondary
  feed to the time-weighted price, the accumulator. \<open>LoanLiquidation\<close> (\<^verbatim>\<open>liquidation.rs\<close>): health
  factor, bonus, plan, proportional shares. \<open>LoanManager\<close> (\<^verbatim>\<open>lib.rs\<close>): every entry point.
  \<open>LoanPool\<close>, \<open>LoanSafety\<close>, \<open>LoanPricing\<close> and \<open>LoanFairness\<close> hold the lemmas on solvency and
  token flows, on debt and pauses, on prices, and on shared losses; \<open>LoanProperties\<close> the properties.

  \<^bold>\<open>The escrow contract\<close> (\<^verbatim>\<open>lib.rs\<close> of \<^verbatim>\<open>chainsetttle\<close>, and \<^verbatim>\<open>storage.rs\<close> for
  pruning), in the order of the imports:
    \<^item> \<open>SettleTypes\<close>: structs, enums, constants, the storage record (a chain of records, one per key
      enum of the source), host operations;
    \<^item> \<open>SettleAdmin\<close>: initialisation, upgrades, multisig votes, roles with expiry, pause switches,
      emergency freeze, fee waivers;
    \<^item> \<open>SettleConfig\<close>, \<open>SettleSettings\<close>: scalar settings, supplier tiers, governance votes, succession,
      fee tiers, blacklist and appeals, oracle groups, audit views;
    \<^item> \<open>SettleLedger\<close>: escrow totals, reputation, counters, bounded logs, indexes, pages;
    \<^item> \<open>SettleIds\<close>: the generated ids, printed digit by digit into fixed buffers;
    \<^item> \<open>SettleVault\<close>: buyer vaults, refunds, standing orders;
    \<^item> \<open>SettleFees\<close>: the deduction routines, the distribution over recipients, the preview;
    \<^item> \<open>SettleGuards\<close>: parties, holds, gates, consent, timing, joint confirmation, delegates;
    \<^item> \<open>SettlePayout\<close>: outflow limiters, advances consumed, holdbacks, payees, batched payouts, factoring;
    \<^item> \<open>SettleConfirm\<close>: \<^verbatim>\<open>confirm_milestone\<close> and \<^verbatim>\<open>release_held_payment\<close>, split along the blocks
      of their bodies, and the completion of a shipment;
    \<^item> \<open>SettleLimits\<close>: the rolling-window limits of buyers and suppliers;
    \<^item> \<open>SettleDocs\<close>: document hashes and the archive;
    \<^item> \<open>SettleCancel\<close>: cancellation by either party, alone or in a batch, dispute withdrawal, evidence,
      ratings;
    \<^item> \<open>SettleArbiters\<close>: the arbiter pool, the selection with its repetition guard, panels, slashing and
      stakes, recusal, rotation, failover, caps on open disputes;
    \<^item> \<open>SettleDispute\<close>: raising a full or partial dispute and the money of a ruling;
    \<^item> \<open>SettleRulings\<close>: the arbiter's ruling, batches, percentage splits, the finality delay, appeals;
    \<^item> \<open>SettlePanels\<close>: panel votes, timeouts, mediation, the two notifications;
    \<^item> \<open>SettleAdmit\<close>: token lists, supplier whitelist and pre-approval, value bounds, caps, templates;
    \<^item> \<open>SettleCreate\<close>: \<^verbatim>\<open>create_shipment\<close> along the blocks of its body, its wrappers for ids, templates,
      allowances and standing orders, top-ups and collateral settings;
    \<^item> \<open>SettleProof\<close>: proof settings, submission, correction, attestation, inspection, breach reports;
    \<^item> \<open>SettleAdvance\<close>: advances, warranty claims, collateral slashing;
    \<^item> \<open>SettleBulk\<close>: confirmation in batches, by a claimed window, by grade, by delivered quantity;
    \<^item> \<open>SettleRecover\<close>: deadline refunds and their sweep, blacklisted suppliers, the administrator's
      recovery, parameter changes behind the time lock.

  \<^bold>\<open>What the lemma groups show.\<close> \<open>SettleFrames\<close>: what each helper leaves alone. \<open>SettleFlow\<close>: what a
  confirmation and a release do to the stored shipment, on every path. \<open>SettleMoney\<close>: where the money of
  a milestone goes; \<open>placed\<close> measures what left the contract or was set aside. \<open>SettleClosing\<close>: what a
  cancellation returns and that it is final. \<open>SettleSelection\<close>: what the arbiter selection promises.
  \<open>SettleDesk\<close>: what the helpers of a ruling leave alone; \<open>SettleCourt\<close>: that raising, ruling and
  appealing keep the count of open disputes equal to the number of disputed shipments; \<open>SettleVerdicts\<close>:
  the same for panels, timeouts and mediation; \<open>SettleOutcomes\<close>: the cases of a successful ruling, vote,
  split or appeal, what each writes and what it moves; \<open>SettleBooks\<close>: the dispute machine as a step relation,
  its invariant by rule induction and the abstract status graph it refines; \<open>SettleShares\<close>: the money of a
  split and of a panel's fee. \<open>SettleBirth\<close>: what a creation has checked, what it stores and the tokens it
  brings in (\<open>backing\<close> is what the contract received less what it paid and keeps for vaults).
  \<open>SettleLife\<close>, \<open>SettlePaths\<close>, \<open>SettleDeliver\<close>, \<open>SettleJourney\<close>: the cases of the further calls, and that
  each is \<open>calm\<close>, i.e. leaves the books of the disputes alone and lets every shipment only \<open>evolve\<close> (what is paid
  stays paid, what is closed stays as it is, and only the calls that enter proofs submit one); \<open>life_step\<close> is the
  step relation of all modelled calls that write a stored shipment, disputes included. \<open>SettleRuns\<close>: runs of
  it, the calls that pay on a milestone and those that move the escrow. \<open>SettleSample\<close>, \<open>DisputeSample\<close> and \<open>PathSample\<close>: concrete states on which the closed instances
  evaluate. The properties are in \<open>SettleProperties\<close> (confirmation, release, payment),
  \<open>ClosingProperties\<close> (cancellation, documents, vaults), \<open>LimitProperties\<close> (limits, fees, claims),
  \<open>GovernanceProperties\<close> (freeze, pauses of a shipment, takeover), \<open>LedgerProperties\<close> (ids, pages, logs, tiers),
  \<open>DisputeProperties\<close> (disputes, panels, appeals, splits), \<open>PathProperties\<close> (creation, the further
  confirmations, refunds, recovery, the time lock) and \<open>RunProperties\<close> (the books over a whole life, one payment
  per milestone, closed shipments, the pause, two attestations).

  \<^bold>\<open>Interfaces.\<close> \<open>invariant_system\<close> (\<open>Prelude\<close>) is interpreted on the pool's calls, on the vault
  calls, on the freeze votes, on the dispute calls (\<open>court\<close>), on the
  calls of a whole life (\<open>life\<close>) and on the arbiter pool (\<open>bench\<close>). \<open>outflow_limiter\<close> (\<open>SettlePayout\<close>) states what a rolling-window
  limiter promises and that no run of calls exceeds the cap within a window; it is interpreted on the
  circuit breaker, the outflow of an address, buyer spending, shipment creation and supplier
  cancellation.

  \<^bold>\<open>Loops.\<close> No definition has fuel: every loop is structural or has a termination proof, so every call
  of the model has a result. That a call returns rather than traps is stated where it is claimed.

  \<^bold>\<open>Not modelled.\<close> Of the escrow contract: the changes of a running shipment (amendments, deadline and
  expiry extensions, merging, splitting and appending milestones, rebalancing, substitutes, transfer of a
  party, splitting a shipment), metadata, notes and observers, and the listings and plain getters; they are
  independent entry points on the same storage. The keys they own appear in \<open>k_aux\<close> where the pruning
  function removes them. The typed accessors in \<^verbatim>\<open>storage.rs\<close> are unused; \<^verbatim>\<open>custody_log.rs\<close>,
  \<^verbatim>\<open>paged_migration.rs\<close> and \<^verbatim>\<open>supplier_voluntary_refund.rs\<close> are not part of the crate's module
  tree. Theorems about sequences of calls name the calls they range over. \<open>life_step over\<close> leaves out the
  archive, which deletes the stored shipment, and the calls of a running shipment named above; \<open>over\<close> tells whether
  the oracles may report the breach of a milestone that has a ruling on record, which the code allows and which
  lets an appeal of the old ruling count the dispute twice.
\<close>

end
